(* ===== verification/Prelude.thy ===== *)
theory Prelude
  imports Complex_Main "HOL-Library.Word" "HOL-Library.Multiset" "HOL-Library.Char_ord" "HOL-Library.List_Lexorder"
    "HOL-Library.Product_Lexorder" "HOL-Library.Sublist"
begin

text \<open>
  What the Go source takes from the language and from its standard library \<open>strings\<close>,
  \<open>strconv\<close>, \<open>unicode/utf8\<close>, \<open>fmt\<close>, \<open>sort\<close> and \<open>time\<close>, as executable definitions, and the
  generic lemmas on lists that the components share.  A Go string is a list of bytes, which
  is what HOL's \<open>string\<close> is; the order on strings is the byte-wise lexicographic order of
  \<open>List_Lexorder\<close>, which is the order of Go's \<open><\<close>.
\<close>

unbundle bit_operations_syntax

named_theorems enum_simps "evaluation of the string-backed enumerations"
named_theorems guard_simps "the guards of the safety engine"
named_theorems step_simps "the steps of the action engine"

section \<open>Machine integers, instants and floats\<close>

type_synonym int64 = "64 word"
type_synonym uint64 = "64 word"

text \<open>
  An instant is a number of nanoseconds since Go's zero time (1 January of year 1, UTC).
  \<open>IsZero\<close> is then equality with \<open>0\<close>, and \<open>UTC()\<close>, which only changes the location a time
  is displayed in, is the identity on instants.
\<close>

type_synonym time = int
type_synonym duration = int

abbreviation time_zero :: time where "time_zero \<equiv> 0"

definition nanosecond_hour :: duration where
  "nanosecond_hour = 3600000000000"

definition wrap64 :: "int \<Rightarrow> int" where
  "wrap64 i = (i + 2 ^ 63) mod 2 ^ 64 - 2 ^ 63"

text \<open>\<open>Time.Sub\<close> saturates at the ends of the 64-bit duration range.\<close>

definition max_duration :: duration where "max_duration = 2 ^ 63 - 1"
definition min_duration :: duration where "min_duration = - (2 ^ 63)"

definition time_sub :: "time \<Rightarrow> time \<Rightarrow> duration" where
  "time_sub t u = max min_duration (min max_duration (t - u))"

text \<open>\<open>UnixNano\<close> computes in wrapping 64-bit arithmetic from the Unix epoch.\<close>

definition unix_epoch :: time where "unix_epoch = 62135596800000000000"

definition UnixNano :: "time \<Rightarrow> int" where
  "UnixNano t = wrap64 (t - unix_epoch)"

text \<open>A float64 is not-a-number, an infinity, or the exact value it holds.\<close>

datatype go_float = NaN | PosInf | NegInf | Fin rat

fun float_lt :: "go_float \<Rightarrow> go_float \<Rightarrow> bool" where
  "float_lt (Fin a) (Fin b) = (a < b)"
| "float_lt NegInf (Fin _) = True"
| "float_lt NegInf PosInf = True"
| "float_lt (Fin _) PosInf = True"
| "float_lt _ _ = False"

fun float_le :: "go_float \<Rightarrow> go_float \<Rightarrow> bool" where
  "float_le (Fin a) (Fin b) = (a \<le> b)"
| "float_le NegInf NaN = False"
| "float_le NegInf _ = True"
| "float_le NaN PosInf = False"
| "float_le _ PosInf = True"
| "float_le _ _ = False"

lemma float_le_NaN [simp]: "\<not> float_le x NaN" "\<not> float_le NaN x"
  by (cases x; simp)+

lemma float_in_unit_iff:
  "float_le (Fin 0) c \<and> float_le c (Fin 1) \<longleftrightarrow> (\<exists>r. c = Fin r \<and> 0 \<le> r \<and> r \<le> 1)"
  by (cases c) auto

section \<open>Decimal rendering\<close>

definition digit_char :: "nat \<Rightarrow> char" where
  "digit_char d = char_of (48 + d)"

fun show_nat :: "nat \<Rightarrow> string" where
  "show_nat n =
     (if n < 10 then [digit_char n] else show_nat (n div 10) @ [digit_char (n mod 10)])"

declare show_nat.simps [simp del]

definition show_int :: "int \<Rightarrow> string" where
  "show_int i = (if i < 0 then ''-'' @ show_nat (nat (- i)) else show_nat (nat i))"

abbreviation show_u64 :: "uint64 \<Rightarrow> string" where
  "show_u64 w \<equiv> show_nat (unat w)"

abbreviation show_i64 :: "int64 \<Rightarrow> string" where
  "show_i64 w \<equiv> show_int (sint w)"

definition show_bool :: "bool \<Rightarrow> string" where
  "show_bool b = (if b then ''true'' else ''false'')"

lemma of_char_digit: "d < 10 \<Longrightarrow> of_char (digit_char d) = (48 + d :: nat)"
  by (simp add: digit_char_def)

definition read_digits :: "string \<Rightarrow> nat" where
  "read_digits s = foldl (\<lambda>n c. 10 * n + (of_char c - 48)) 0 s"

lemma read_digits_append_one: "read_digits (s @ [c]) = 10 * read_digits s + (of_char c - 48)"
  by (simp add: read_digits_def)

lemma read_show_nat: "read_digits (show_nat n) = n"
proof (induction n rule: show_nat.induct)
  case (1 n)
  show ?case
  proof (cases "n < 10")
    case True
    then show ?thesis
      by (subst show_nat.simps) (simp add: read_digits_def of_char_digit)
  next
    case False
    then show ?thesis
      using "1.IH" by (subst show_nat.simps) (simp add: read_digits_append_one of_char_digit)
  qed
qed

lemma show_nat_inject [simp]: "show_nat m = show_nat n \<longleftrightarrow> m = n"
  by (metis read_show_nat)

lemma show_nat_digits: "c \<in> set (show_nat n) \<Longrightarrow> 48 \<le> (of_char c :: nat) \<and> (of_char c :: nat) < 58"
proof (induction n rule: show_nat.induct)
  case (1 n)
  then show ?case
    by (subst (asm) (2) show_nat.simps) (auto simp: of_char_digit split: if_splits)
qed

section \<open>Byte strings\<close>

definition HasPrefix :: "string \<Rightarrow> string \<Rightarrow> bool" where
  "HasPrefix s p \<longleftrightarrow> take (length p) s = p"

definition HasSuffix :: "string \<Rightarrow> string \<Rightarrow> bool" where
  "HasSuffix s p \<longleftrightarrow> length p \<le> length s \<and> drop (length s - length p) s = p"

definition TrimPrefix :: "string \<Rightarrow> string \<Rightarrow> string" where
  "TrimPrefix s p = (if HasPrefix s p then drop (length p) s else s)"

definition TrimSuffix :: "string \<Rightarrow> string \<Rightarrow> string" where
  "TrimSuffix s p = (if HasSuffix s p then take (length s - length p) s else s)"

definition ContainsAny :: "string \<Rightarrow> string \<Rightarrow> bool" where
  "ContainsAny s cs \<longleftrightarrow> (\<exists>c \<in> set s. c \<in> set cs)"

lemma HasPrefix_iff: "HasPrefix s p \<longleftrightarrow> prefix p s"
  by (metis HasPrefix_def append_eq_conv_conj append_take_drop_id prefix_def)

fun split_on :: "char \<Rightarrow> string \<Rightarrow> string list" where
  "split_on c [] = [[]]"
| "split_on c (x # xs) =
     (if x = c then [] # split_on c xs
      else case split_on c xs of [] \<Rightarrow> [[x]] | w # ws \<Rightarrow> (x # w) # ws)"

fun join :: "string \<Rightarrow> string list \<Rightarrow> string" where
  "join sep [] = []"
| "join sep [w] = w"
| "join sep (w # ws) = w @ sep @ join sep ws"

lemma split_on_ne [simp]: "split_on c s \<noteq> []"
  by (induction s) (auto split: list.splits)

lemma split_on_no_sep: "w \<in> set (split_on c s) \<Longrightarrow> c \<notin> set w"
  by (induction s arbitrary: w) (fastforce split: if_splits list.splits)+

lemma split_on_single: "c \<notin> set s \<Longrightarrow> split_on c s = [s]"
  by (induction s) auto

lemma split_on_append_sep: "c \<notin> set w \<Longrightarrow> split_on c (w @ c # s) = w # split_on c s"
  by (induction w) (auto split: list.splits)

lemma split_on_join:
  "ws \<noteq> [] \<Longrightarrow> \<forall>w \<in> set ws. c \<notin> set w \<Longrightarrow> split_on c (join [c] ws) = ws"
  by (induction "[c]" ws rule: join.induct) (auto simp: split_on_single split_on_append_sep)

lemma join_Cons: "ws \<noteq> [] \<Longrightarrow> join sep (w # ws) = w @ sep @ join sep ws"
  by (cases ws) auto

lemma join_append:
  "vs \<noteq> [] \<Longrightarrow> ws \<noteq> [] \<Longrightarrow> join sep (vs @ ws) = join sep vs @ sep @ join sep ws"
proof (induction vs)
  case (Cons v vs)
  then show ?case by (cases "vs = []") (auto simp: join_Cons)
qed simp

lemma join_split_on: "join [c] (split_on c s) = s"
proof (induction s)
  case Nil
  then show ?case by simp
next
  case (Cons x xs)
  obtain w ws where "split_on c xs = w # ws"
    by (cases "split_on c xs") auto
  with Cons show ?case
    by (cases ws) (auto simp: join_Cons)
qed

section \<open>UTF-8\<close>

abbreviation byte :: "char \<Rightarrow> nat" where "byte c \<equiv> of_char c"

definition rune_error :: nat where "rune_error = 65533"

definition cont :: "nat \<Rightarrow> bool" where
  "cont b \<longleftrightarrow> 128 \<le> b \<and> b \<le> 191"

text \<open>
  \<open>utf8.DecodeRuneInString\<close>: the first rune and its width; an invalid sequence is
  \<open>RuneError\<close> of width one, the empty string \<open>RuneError\<close> of width zero.
\<close>

definition decode_rune :: "string \<Rightarrow> nat \<times> nat" where
  "decode_rune s =
    (if s = [] then (rune_error, 0)
     else let b0 = byte (s ! 0);
              b1 = (if 1 < length s then byte (s ! 1) else 0);
              b2 = (if 2 < length s then byte (s ! 2) else 0);
              b3 = (if 3 < length s then byte (s ! 3) else 0)
      in if b0 < 128 then (b0, 1)
         else if 194 \<le> b0 \<and> b0 \<le> 223 \<and> cont b1 then ((b0 - 192) * 64 + (b1 - 128), 2)
         else if 224 \<le> b0 \<and> b0 \<le> 239 \<and> cont b1 \<and> cont b2
             \<and> (b0 = 224 \<longrightarrow> 160 \<le> b1) \<and> (b0 = 237 \<longrightarrow> b1 \<le> 159)
           then ((b0 - 224) * 4096 + (b1 - 128) * 64 + (b2 - 128), 3)
         else if 240 \<le> b0 \<and> b0 \<le> 244 \<and> cont b1 \<and> cont b2 \<and> cont b3
             \<and> (b0 = 240 \<longrightarrow> 144 \<le> b1) \<and> (b0 = 244 \<longrightarrow> b1 \<le> 143)
           then ((b0 - 240) * 262144 + (b1 - 128) * 4096 + (b2 - 128) * 64 + (b3 - 128), 4)
         else (rune_error, 1))"

lemma decode_rune_width_pos: "s \<noteq> [] \<Longrightarrow> 0 < snd (decode_rune s)"
  by (simp add: decode_rune_def Let_def if_distrib [of snd])

function rune_chunks :: "string \<Rightarrow> (nat \<times> string) list" where
  "rune_chunks s =
     (if s = [] then []
      else (fst (decode_rune s), take (snd (decode_rune s)) s)
           # rune_chunks (drop (snd (decode_rune s)) s))"
  by pat_completeness auto
termination
  by (relation "measure length") (auto simp: decode_rune_width_pos)

declare rune_chunks.simps [simp del]

definition is_space :: "nat \<Rightarrow> bool" where
  "is_space r \<longleftrightarrow> (9 \<le> r \<and> r \<le> 13) \<or> r = 32 \<or> r = 133 \<or> r = 160 \<or> r = 5760
     \<or> (8192 \<le> r \<and> r \<le> 8202) \<or> r = 8232 \<or> r = 8233 \<or> r = 8239 \<or> r = 8287 \<or> r = 12288"

definition TrimSpace :: "string \<Rightarrow> string" where
  "TrimSpace s =
     (let sp = (\<lambda>(r, _). is_space r)
      in concat (map snd (rev (dropWhile sp (rev (dropWhile sp (rune_chunks s)))))))"

definition blank :: "string \<Rightarrow> bool" where
  "blank s \<longleftrightarrow> TrimSpace s = ''''"

lemma not_blank_ascii:
  assumes "byte c < 128" "\<not> is_space (byte c)"
  shows "\<not> blank (c # s)"
proof -
  let ?x = "(byte c, [c])" and ?sp = "\<lambda>(r, _). is_space r"
  have r: "rune_chunks (c # s) = ?x # rune_chunks s"
    using assms(1) by (subst rune_chunks.simps) (simp add: decode_rune_def Let_def)
  have "?x \<in> set (dropWhile ?sp (rev (?x # xs)))" for xs
    using assms(2) by (induction xs rule: rev_induct) (auto simp: dropWhile_append)
  then have m: "?x \<in> set (dropWhile ?sp (rev (dropWhile ?sp (rune_chunks (c # s)))))"
    using assms(2) by (simp add: r)
  have "c \<in> set (TrimSpace (c # s))"
    unfolding TrimSpace_def Let_def set_concat set_map set_rev by (rule UN_I [OF imageI [OF m]]) simp
  then show ?thesis by (auto simp: blank_def)
qed

text \<open>
  \<open>strconv.Quote\<close> as \<open>%q\<close> uses it.  Bytes from 128 on are copied, as \<open>Quote\<close> does for
  valid UTF-8 whose runes are printable.
\<close>

definition hex_digit :: "nat \<Rightarrow> char" where
  "hex_digit d = ''0123456789abcdef'' ! d"

definition quote_char :: "char \<Rightarrow> string" where
  "quote_char c =
     (if c = CHR 0x22 then [CHR 0x5C, CHR 0x22]
      else if c = CHR 0x5C then [CHR 0x5C, CHR 0x5C]
      else if c = CHR 0x07 then [CHR 0x5C, CHR ''a'']
      else if c = CHR 0x08 then [CHR 0x5C, CHR ''b'']
      else if c = CHR 0x0C then [CHR 0x5C, CHR ''f'']
      else if c = CHR 0x0A then [CHR 0x5C, CHR ''n'']
      else if c = CHR 0x0D then [CHR 0x5C, CHR ''r'']
      else if c = CHR 0x09 then [CHR 0x5C, CHR ''t'']
      else if c = CHR 0x0B then [CHR 0x5C, CHR ''v'']
      else if byte c < 32 \<or> byte c = 127
        then [CHR 0x5C, CHR ''x'', hex_digit (byte c div 16), hex_digit (byte c mod 16)]
      else [c])"

definition quote :: "string \<Rightarrow> string" where
  "quote s = [CHR 0x22] @ concat (map quote_char s) @ [CHR 0x22]"

section \<open>Lists\<close>

definition distinct_by :: "('a \<Rightarrow> 'k) \<Rightarrow> 'a list \<Rightarrow> bool" where
  "distinct_by f xs \<longleftrightarrow> distinct (map f xs)"

text \<open>A stable sort on distinct keys does not depend on the order of its input.\<close>

lemma sort_key_perm_eq:
  "mset xs = mset ys \<Longrightarrow> inj_on f (set xs) \<Longrightarrow> sort_key f xs = sort_key f ys"
  by (rule sort_key_inj_key_eq) simp_all

end
