(* ===== verification/GoPath.thy ===== *)
theory GoPath
  imports Prelude
begin

text \<open>
  The part of Go's \<open>path/filepath\<close> (Unix) that the source uses: \<open>IsAbs\<close>, \<open>Clean\<close>, \<open>Dir\<close>,
  \<open>Base\<close>, \<open>Ext\<close>, \<open>Join\<close>, \<open>Rel\<close> and \<open>Match\<close>, with the facts on lexical path cleaning that the
  path predicates of \<open>internal/core/paths.go\<close> rest on: a cleaned absolute path is a slash and
  the join of its segments, none of them empty, \<open>.\<close> or \<open>..\<close>, and cleaning is idempotent.
\<close>

abbreviation slash :: char where "slash \<equiv> CHR ''/''"

section \<open>Lexical cleaning\<close>

definition IsAbs :: "string \<Rightarrow> bool" where
  "IsAbs p \<longleftrightarrow> p \<noteq> [] \<and> hd p = slash"

definition clean_step :: "bool \<Rightarrow> string list \<Rightarrow> string \<Rightarrow> string list" where
  "clean_step rooted st e =
     (if e = '''' \<or> e = ''.'' then st
      else if e = ''..''
        then (case st of
                [] \<Rightarrow> if rooted then [] else [''..'']
              | x # xs \<Rightarrow> if x = ''..'' then ''..'' # st else xs)
      else e # st)"

definition clean_stack :: "bool \<Rightarrow> string list \<Rightarrow> string list" where
  "clean_stack rooted es = rev (foldl (clean_step rooted) [] es)"

definition Clean :: "string \<Rightarrow> string" where
  "Clean p =
     (let body = join ''/'' (clean_stack (IsAbs p) (split_on slash p))
      in if IsAbs p then slash # body else if body = [] then ''.'' else body)"

definition good_seg :: "string \<Rightarrow> bool" where
  "good_seg e \<longleftrightarrow> e \<noteq> '''' \<and> e \<noteq> ''.'' \<and> e \<noteq> ''..'' \<and> slash \<notin> set e"

lemma clean_step_good: "good_seg e \<Longrightarrow> clean_step r st e = e # st"
  by (simp add: clean_step_def good_seg_def)

lemma clean_fold_good:
  "\<forall>e \<in> set es. good_seg e \<Longrightarrow> foldl (clean_step r) st es = rev es @ st"
  by (induction es arbitrary: st) (auto simp: clean_step_good)

lemma clean_step_rooted_inv:
  assumes "\<forall>x \<in> set st. good_seg x" and "slash \<notin> set e"
  shows "\<forall>x \<in> set (clean_step True st e). good_seg x"
proof -
  consider "e = '''' \<or> e = ''.''" | "e = ''..''" | "good_seg e"
    using assms(2) by (auto simp: good_seg_def)
  then show ?thesis
  proof cases
    case 2
    then show ?thesis using assms(1)
      by (cases st) (simp_all add: clean_step_def good_seg_def)
  next
    case 3
    then show ?thesis using assms(1) by (simp only: clean_step_good) simp
  qed (use assms in \<open>simp add: clean_step_def\<close>)
qed

lemma clean_stack_rooted:
  assumes "\<forall>e \<in> set es. slash \<notin> set e"
  shows "\<forall>x \<in> set (clean_stack True es). good_seg x"
proof -
  have "\<forall>x \<in> set (foldl (clean_step True) st es). good_seg x"
    if "\<forall>x \<in> set st. good_seg x" for st
    using assms that
  proof (induction es arbitrary: st)
    case (Cons e es)
    then show ?case
      using clean_step_rooted_inv [of st e] by simp
  qed simp
  from this [of "[]"] show ?thesis by (simp add: clean_stack_def)
qed

text \<open>A relative path cleans to some \<open>..\<close> segments followed by ordinary ones.\<close>

definition rel_stack :: "string list \<Rightarrow> bool" where
  "rel_stack st \<longleftrightarrow> (\<exists>n gs. st = rev gs @ replicate n ''..'' \<and> (\<forall>g \<in> set gs. good_seg g))"

lemma clean_step_rel_inv:
  assumes "rel_stack st" and "slash \<notin> set e"
  shows "rel_stack (clean_step False st e)"
proof -
  obtain n gs where st: "st = rev gs @ replicate n ''..''" and gs: "\<forall>g \<in> set gs. good_seg g"
    using assms(1) by (auto simp: rel_stack_def)
  consider "e = '''' \<or> e = ''.''" | "e = ''..''" | "good_seg e"
    using assms(2) by (auto simp: good_seg_def)
  then show ?thesis
  proof cases
    case 1
    then show ?thesis using assms(1) by (simp add: clean_step_def)
  next
    case 2
    show ?thesis
    proof (cases gs rule: rev_cases)
      case Nil
      have "clean_step False st e = rev [] @ replicate (Suc n) ''..''"
        using 2 Nil st by (cases n) (simp_all add: clean_step_def)
      then show ?thesis unfolding rel_stack_def by (metis empty_iff empty_set)
    next
      case (snoc hs h)
      have "clean_step False st e = rev hs @ replicate n ''..''"
        using 2 snoc st gs by (auto simp: clean_step_def good_seg_def)
      then show ?thesis using gs snoc unfolding rel_stack_def by auto
    qed
  next
    case 3
    have "clean_step False st e = rev (gs @ [e]) @ replicate n ''..''"
      using 3 st by (simp add: clean_step_good)
    then show ?thesis using gs 3 unfolding rel_stack_def by (metis Un_iff set_append set_ConsD empty_iff empty_set)
  qed
qed

lemma clean_stack_rel:
  assumes "\<forall>e \<in> set es. slash \<notin> set e"
  shows "rel_stack (rev (clean_stack False es))"
proof -
  have "rel_stack (foldl (clean_step False) st es)" if "rel_stack st" for st
    using assms that by (induction es arbitrary: st) (auto intro: clean_step_rel_inv)
  moreover have "rel_stack []"
    unfolding rel_stack_def by (rule exI [of _ 0], rule exI [of _ "[]"]) simp
  ultimately show ?thesis by (simp add: clean_stack_def)
qed

lemma foldl_dotdot:
  "foldl (clean_step False) (replicate k ''..'') (replicate n ''..'') = replicate (n + k) ''..''"
proof (induction n arbitrary: k)
  case (Suc n)
  have "clean_step False (replicate k ''..'') ''..'' = replicate (Suc k) ''..''"
    by (cases k) (simp_all add: clean_step_def)
  then have "foldl (clean_step False) (replicate k ''..'') (replicate (Suc n) ''..'')
      = foldl (clean_step False) (replicate (Suc k) ''..'') (replicate n ''..'')"
    by simp
  also have "\<dots> = replicate (n + Suc k) ''..''" by (rule Suc.IH)
  finally show ?case by simp
qed simp

lemma clean_stack_rel_idem:
  assumes "rel_stack (rev es)"
  shows "clean_stack False es = es"
proof -
  obtain n gs where "rev es = rev gs @ replicate n ''..''" and gs: "\<forall>g \<in> set gs. good_seg g"
    using assms by (auto simp: rel_stack_def)
  then have es: "es = replicate n ''..'' @ gs"
    by (metis rev_append rev_replicate rev_rev_ident)
  show ?thesis
    using foldl_dotdot [of 0 n] by (simp add: clean_stack_def es clean_fold_good [OF gs])
qed

lemma clean_stack_good_idem:
  "\<forall>e \<in> set es. good_seg e \<Longrightarrow> clean_stack r es = es"
  by (simp add: clean_stack_def clean_fold_good)

lemma rel_stack_segs: "rel_stack st \<Longrightarrow> e \<in> set st \<Longrightarrow> e = ''..'' \<or> good_seg e"
  by (auto simp: rel_stack_def)

lemma hd_join: "ws \<noteq> [] \<Longrightarrow> hd ws \<noteq> [] \<Longrightarrow> join sep ws \<noteq> [] \<and> hd (join sep ws) = hd (hd ws)"
  by (cases "(sep, ws)" rule: join.cases) auto

lemma split_slash_join:
  "\<forall>w \<in> set ws. good_seg w \<Longrightarrow> split_on slash (slash # join ''/'' ws) = (if ws = [] then ['''',''''] else '''' # ws)"
  by (simp add: split_on_join good_seg_def)

lemma Clean_rooted_form:
  assumes "IsAbs p"
  shows "\<exists>es. (\<forall>e \<in> set es. good_seg e) \<and> Clean p = slash # join ''/'' es"
proof (intro exI conjI)
  show "\<forall>e \<in> set (clean_stack True (split_on slash p)). good_seg e"
    by (rule clean_stack_rooted) (simp add: split_on_no_sep)
  show "Clean p = slash # join ''/'' (clean_stack True (split_on slash p))"
    using assms by (simp add: Clean_def Let_def)
qed

lemma Clean_rooted_fix:
  assumes "\<forall>e \<in> set es. good_seg e"
  shows "Clean (slash # join ''/'' es) = slash # join ''/'' es"
proof -
  have "clean_stack True (split_on slash (slash # join ''/'' es)) = es"
    using split_slash_join [OF assms] clean_stack_good_idem [OF assms, of True]
    by (auto simp: clean_stack_def clean_step_def clean_fold_good [OF assms])
  then show ?thesis by (simp add: Clean_def IsAbs_def)
qed

lemma Clean_rel_fix:
  assumes "rel_stack (rev es)" and "es \<noteq> []"
  shows "Clean (join ''/'' es) = join ''/'' es"
proof -
  have segs: "\<forall>e \<in> set es. slash \<notin> set e \<and> e \<noteq> []"
    using rel_stack_segs [OF assms(1)] by (fastforce simp: good_seg_def)
  have hd: "join ''/'' es \<noteq> [] \<and> hd (join ''/'' es) = hd (hd es)"
    using assms(2) segs by (intro hd_join) auto
  moreover have "hd (hd es) \<noteq> slash"
    using assms(2) segs by (metis hd_in_set)
  ultimately have "\<not> IsAbs (join ''/'' es)" by (simp add: IsAbs_def)
  moreover have "split_on slash (join ''/'' es) = es"
    using segs assms(2) by (intro split_on_join) auto
  ultimately show ?thesis
    using hd by (simp add: Clean_def clean_stack_rel_idem [OF assms(1)])
qed

lemma Clean_idem [simp]: "Clean (Clean p) = Clean p"
proof (cases "IsAbs p")
  case True
  then show ?thesis using Clean_rooted_form [OF True] Clean_rooted_fix by metis
next
  case False
  let ?es = "clean_stack False (split_on slash p)"
  have rel: "rel_stack (rev ?es)"
    by (rule clean_stack_rel) (simp add: split_on_no_sep)
  show ?thesis
  proof (cases "?es = []")
    case True
    then have "Clean p = ''.''" using False by (simp add: Clean_def)
    then show ?thesis by (simp add: Clean_def IsAbs_def clean_stack_def clean_step_def)
  next
    case ne: False
    have "hd ?es \<noteq> []"
      using ne rel_stack_segs [OF rel, of "hd ?es"] by (auto simp: good_seg_def)
    then have "Clean p = join ''/'' ?es"
      using False ne hd_join [of ?es "''/''"] by (simp add: Clean_def)
    then show ?thesis using Clean_rel_fix [OF rel ne] by simp
  qed
qed

section \<open>Parts of a path\<close>

definition Dir :: "string \<Rightarrow> string" where
  "Dir p = Clean (rev (dropWhile (\<lambda>c. c \<noteq> slash) (rev p)))"

definition Base :: "string \<Rightarrow> string" where
  "Base p =
     (if p = [] then ''.''
      else let q = rev (dropWhile (\<lambda>c. c = slash) (rev p));
               b = rev (takeWhile (\<lambda>c. c \<noteq> slash) (rev q))
           in if b = [] then ''/'' else b)"

definition Ext :: "string \<Rightarrow> string" where
  "Ext p =
     (let seg = takeWhile (\<lambda>c. c \<noteq> slash) (rev p)
      in if CHR ''.'' \<in> set seg then rev (takeWhile (\<lambda>c. c \<noteq> CHR ''.'') seg @ ''.'') else [])"

definition Join :: "string list \<Rightarrow> string" where
  "Join es = (case dropWhile (\<lambda>e. e = []) es of [] \<Rightarrow> [] | fs \<Rightarrow> Clean (join ''/'' fs))"

definition rel_parts :: "string \<Rightarrow> string list" where
  "rel_parts p = (if p = [] then [] else if p = ''/'' then [''''] else split_on slash p)"

fun strip_common :: "string list \<Rightarrow> string list \<Rightarrow> string list \<times> string list" where
  "strip_common (b # bs) (t # ts) = (if b = t then strip_common bs ts else (b # bs, t # ts))"
| "strip_common bs ts = (bs, ts)"

text \<open>\<open>None\<close> is the error "can't make target relative to base".\<close>

definition Rel :: "string \<Rightarrow> string \<Rightarrow> string option" where
  "Rel basepath targpath =
     (let base0 = Clean basepath; targ = Clean targpath
      in if targ = base0 then Some ''.''
         else let base = (if base0 = ''.'' then [] else base0)
              in if IsAbs base \<noteq> IsAbs targ then None
                 else case strip_common (rel_parts base) (rel_parts targ) of (bs, ts) \<Rightarrow>
                   if bs \<noteq> [] \<and> ts \<noteq> [] \<and> hd bs = ''..'' then None
                   else Some (join ''/'' (replicate (length bs) ''..'' @ ts)))"

section \<open>Glob matching\<close>

text \<open>\<open>None\<close> is \<open>ErrBadPattern\<close> throughout.\<close>

fun scan_body :: "bool \<Rightarrow> string \<Rightarrow> string \<times> string" where
  "scan_body inr [] = ([], [])"
| "scan_body inr (c # cs) =
     (if c = CHR 0x5C
      then (case cs of
              [] \<Rightarrow> ([c], [])
            | d # ds \<Rightarrow> (case scan_body inr ds of (a, b) \<Rightarrow> (c # d # a, b)))
      else if c = CHR ''*'' \<and> \<not> inr then ([], c # cs)
      else case scan_body (if c = CHR ''['' then True else if c = CHR '']'' then False else inr) cs of
        (a, b) \<Rightarrow> (c # a, b))"

definition scan_chunk :: "string \<Rightarrow> bool \<times> string \<times> string" where
  "scan_chunk p =
     (let q = dropWhile (\<lambda>c. c = CHR ''*'') p in (p \<noteq> [] \<and> hd p = CHR ''*'', scan_body False q))"

lemma scan_body_escape:
  "scan_body inr (CHR 0x5C # d # ds) = (CHR 0x5C # d # fst (scan_body inr ds), snd (scan_body inr ds))"
  by (simp add: case_prod_beta)

lemma scan_body_other:
  "c \<noteq> CHR 0x5C \<Longrightarrow> c \<noteq> CHR ''*'' \<or> inr \<Longrightarrow>
     scan_body inr (c # cs) =
       (let r = scan_body (if c = CHR ''['' then True else if c = CHR '']'' then False else inr) cs
        in (c # fst r, snd r))"
  by (simp add: case_prod_beta Let_def)

lemma scan_body_length: "length (snd (scan_body inr p)) \<le> length p"
proof (induction p arbitrary: inr rule: length_induct)
  case (1 p)
  show ?case
  proof (cases p)
    case (Cons c cs)
    consider "c = CHR 0x5C" | "c \<noteq> CHR 0x5C" "c = CHR ''*'' \<and> \<not> inr"
      | "c \<noteq> CHR 0x5C" "c \<noteq> CHR ''*'' \<or> inr" by blast
    then show ?thesis
    proof cases
      case a: 1
      show ?thesis
      proof (cases cs)
        case Nil
        then show ?thesis using Cons a by simp
      next
        case c2: (Cons d ds)
        have "length (snd (scan_body inr ds)) \<le> length ds"
          using 1 Cons c2 by auto
        then show ?thesis unfolding Cons a c2 scan_body_escape by simp
      qed
    next
      case 2
      then show ?thesis unfolding Cons by simp
    next
      case 3
      have le: "length (snd (scan_body r cs)) \<le> length cs" for r
        using 1 Cons by auto
      show ?thesis unfolding Cons scan_body_other [OF 3] Let_def snd_conv
        by (simp only: list.size add_Suc_right add_0_right) (rule le_SucI [OF le])
    qed
  qed simp
qed

lemma scan_body_progress:
  assumes "p \<noteq> []" and "hd p \<noteq> CHR ''*''"
  shows "length (snd (scan_body inr p)) < length p"
proof (cases p)
  case (Cons c cs)
  show ?thesis
  proof (cases "c = CHR 0x5C")
    case a: True
    show ?thesis
    proof (cases cs)
      case Nil
      then show ?thesis using Cons a by simp
    next
      case c2: (Cons d ds)
      then show ?thesis unfolding Cons a c2 scan_body_escape
        using scan_body_length [of inr ds] by simp
    qed
  next
    case b: False
    have ne: "c \<noteq> CHR ''*'' \<or> inr" using assms Cons by simp
    show ?thesis unfolding Cons scan_body_other [OF b ne] Let_def snd_conv
      by (simp only: list.size add_Suc_right less_Suc_eq_le add_0_right) (rule scan_body_length)
  qed
qed (use assms in simp)

lemma scan_chunk_length:
  assumes "p \<noteq> []"
  shows "length (snd (snd (scan_chunk p))) < length p"
proof (cases "hd p = CHR ''*''")
  case True
  then obtain q where "p = CHR ''*'' # q" using assms by (cases p) auto
  then show ?thesis
    using scan_body_length [of False "dropWhile (\<lambda>c. c = CHR ''*'') q"]
      length_dropWhile_le [of "\<lambda>c. c = CHR ''*''" q]
    by (simp add: scan_chunk_def Let_def)
next
  case False
  then have "dropWhile (\<lambda>c. c = CHR ''*'') p = p" using assms by (cases p) auto
  then show ?thesis using scan_body_progress assms False by (simp add: scan_chunk_def)
qed

definition get_esc :: "string \<Rightarrow> (nat \<times> string) option" where
  "get_esc chunk =
     (if chunk = [] \<or> hd chunk = CHR ''-'' \<or> hd chunk = CHR '']'' then None
      else let c1 = (if hd chunk = CHR 0x5C then tl chunk else chunk)
           in if c1 = [] then None
              else let rw = decode_rune c1; rest = drop (snd rw) c1
                   in if (fst rw = rune_error \<and> snd rw = 1) \<or> rest = [] then None
                      else Some (fst rw, rest))"

lemma get_esc_length: "get_esc c = Some (r, d) \<Longrightarrow> length d < length c \<and> d \<noteq> []"
  using decode_rune_width_pos
  by (fastforce simp: get_esc_def Let_def split: if_splits)

function class_loop :: "nat \<Rightarrow> bool \<Rightarrow> bool \<Rightarrow> string \<Rightarrow> (bool \<times> string) option" where
  "class_loop r started matched chunk =
     (if chunk \<noteq> [] \<and> hd chunk = CHR '']'' \<and> started then Some (matched, tl chunk)
      else case get_esc chunk of
        None \<Rightarrow> None
      | Some (lo, c1) \<Rightarrow>
          (if hd c1 = CHR ''-''
           then (case get_esc (tl c1) of
                   None \<Rightarrow> None
                 | Some (hi, c2) \<Rightarrow> class_loop r True (matched \<or> (lo \<le> r \<and> r \<le> hi)) c2)
           else class_loop r True (matched \<or> lo = r) c1))"
  by pat_completeness auto
termination
proof (relation "measure (\<lambda>(r, s, m, c). length c)", goal_cases)
  case (2 r s m c lo_c1 lo c1 hi_c2 hi c2)
  then have "length c1 < length c" "c1 \<noteq> []" "length c2 < length (tl c1)"
    using get_esc_length [of c lo c1] get_esc_length [of "tl c1" hi c2] by auto
  then show ?case by simp
next
  case (3 r s m c lo_c1 lo c1)
  then show ?case using get_esc_length [of c lo c1] by simp
qed simp

declare class_loop.simps [simp del]

lemma class_loop_length: "class_loop r s m c = Some (b, d) \<Longrightarrow> length d < length c"
proof (induction r s m c rule: class_loop.induct)
  case (1 r s m c)
  show ?case
  proof (cases "c \<noteq> [] \<and> hd c = CHR '']'' \<and> s")
    case True
    then show ?thesis using "1.prems" by (subst (asm) class_loop.simps) (cases c, auto)
  next
    case False
    then obtain lo c1 where esc: "get_esc c = Some (lo, c1)"
      using "1.prems" by (subst (asm) class_loop.simps) (auto split: option.splits)
    show ?thesis
    proof (cases "hd c1 = CHR ''-''")
      case True
      then obtain hi c2 where "get_esc (tl c1) = Some (hi, c2)"
        using "1.prems" False esc by (subst (asm) class_loop.simps) (auto split: option.splits)
      then have "length d < length c2"
        using "1.IH"(1) [OF False esc] True esc "1.prems" False
        by (subst (asm) (2) class_loop.simps) (auto split: if_splits)
      then show ?thesis
        using get_esc_length [OF esc] get_esc_length [OF \<open>get_esc (tl c1) = Some (hi, c2)\<close>]
        by (simp add: less_diff_conv)
    next
      case ne: False
      then have "length d < length c1"
        using "1.IH"(2) [OF False esc] esc "1.prems" False
        by (subst (asm) (2) class_loop.simps) (auto split: if_splits)
      then show ?thesis using get_esc_length [OF esc] by simp
    qed
  qed
qed

text \<open>
  \<open>matchChunk\<close>: the first argument is its local \<open>failed\<close>; the result is \<open>None\<close> for a bad
  pattern, \<open>Some None\<close> for no match and \<open>Some (Some rest)\<close> for a match.
\<close>

function match_chunk :: "bool \<Rightarrow> string \<Rightarrow> string \<Rightarrow> string option option" where
  "match_chunk failed chunk s =
     (if chunk = [] then Some (if failed then None else Some s)
      else let failed = (failed \<or> s = []); c = hd chunk; rest = tl chunk
      in if c = CHR ''['' then
           (let rw = (if failed then (0, 0) else decode_rune s);
                negated = (rest \<noteq> [] \<and> hd rest = CHR ''^'');
                body = (if negated then tl rest else rest)
            in case class_loop (fst rw) False False body of
                 None \<Rightarrow> None
               | Some (m, chunk') \<Rightarrow>
                   match_chunk (failed \<or> m = negated) chunk' (drop (snd rw) s))
         else if c = CHR ''?'' then
           (if failed then match_chunk True rest s
            else match_chunk (hd s = slash) rest (drop (snd (decode_rune s)) s))
         else if c = CHR 0x5C then
           (if rest = [] then None
            else if failed then match_chunk True (tl rest) s
            else match_chunk (hd rest \<noteq> hd s) (tl rest) (tl s))
         else if failed then match_chunk True rest s
         else match_chunk (c \<noteq> hd s) rest (tl s))"
  by pat_completeness auto
termination
  by (relation "measure (\<lambda>(f, c, s). length c)")
    (auto dest!: class_loop_length simp: less_Suc_eq_le neq_Nil_conv split: if_splits)

declare match_chunk.simps [simp del]

fun star_try :: "string \<Rightarrow> bool \<Rightarrow> string \<Rightarrow> string option option" where
  "star_try chunk final [] = Some None"
| "star_try chunk final (c # cs) =
     (if c = slash then Some None
      else case match_chunk False chunk cs of
        None \<Rightarrow> None
      | Some None \<Rightarrow> star_try chunk final cs
      | Some (Some t) \<Rightarrow> if final \<and> t \<noteq> [] then star_try chunk final cs else Some (Some t))"

function rest_valid :: "string \<Rightarrow> bool" where
  "rest_valid p =
     (if p = [] then True
      else match_chunk False (fst (snd (scan_chunk p))) [] \<noteq> None
           \<and> rest_valid (snd (snd (scan_chunk p))))"
  by pat_completeness auto
termination
  by (relation "measure length") (auto simp: scan_chunk_length)

declare rest_valid.simps [simp del]

function Match :: "string \<Rightarrow> string \<Rightarrow> bool option" where
  "Match pattern name =
     (if pattern = [] then Some (name = [])
      else let star = fst (scan_chunk pattern);
               chunk = fst (snd (scan_chunk pattern));
               rest = snd (snd (scan_chunk pattern))
      in if star \<and> chunk = [] then Some (slash \<notin> set name)
         else case match_chunk False chunk name of
           None \<Rightarrow> None
         | Some m \<Rightarrow>
             (case (case m of Some t \<Rightarrow> if t = [] \<or> rest \<noteq> [] then Some t else None | None \<Rightarrow> None) of
                Some t \<Rightarrow> Match rest t
              | None \<Rightarrow>
                  (case (if star then star_try chunk (rest = []) name else Some None) of
                     None \<Rightarrow> None
                   | Some (Some t) \<Rightarrow> Match rest t
                   | Some None \<Rightarrow> if rest_valid rest then Some False else None)))"
  by pat_completeness auto
termination
  by (relation "measure (\<lambda>(p, n). length p)") (auto simp: scan_chunk_length)

declare Match.simps [simp del]

end
