(* ===== verification/CoreContract.thy ===== *)
theory CoreContract
  imports GoPath
begin

text \<open>
  The foundations of \<open>internal/core\<close>: the string-backed enumerations of \<open>contract.go\<close>, the
  field-level validation errors of \<open>errors.go\<close>, the path predicates of \<open>paths.go\<close> and the
  retention windows of \<open>retention.go\<close>.

  A Go enumeration is a \<open>string\<close> type with named constants, so a value may hold any string.  It
  becomes a datatype with one constructor per constant and one, \<open>\<dots>Other\<close>, for every other
  string; \<open>\<dots>_str\<close> is the conversion to \<open>string\<close> and \<open>enum_of\<close> the conversion \<open>T(s)\<close>.
\<close>

section \<open>Enumerations\<close>

definition ContractVersion :: int where "ContractVersion = 1"

definition validEnum :: "'e \<Rightarrow> 'e list \<Rightarrow> bool" where
  "validEnum v allowed \<longleftrightarrow> (\<exists>candidate \<in> set allowed. v = candidate)"

definition enum_of :: "('e \<Rightarrow> string) \<Rightarrow> 'e list \<Rightarrow> (string \<Rightarrow> 'e) \<Rightarrow> string \<Rightarrow> 'e" where
  "enum_of str allowed other s =
     (case find (\<lambda>e. str e = s) allowed of Some e \<Rightarrow> e | None \<Rightarrow> other s)"

datatype unknown_value_error = UnknownValueError (uve_Kind: string) (uve_Value: string)
  (uve_Allowed: "string list")

definition stringsOf :: "('e \<Rightarrow> string) \<Rightarrow> 'e list \<Rightarrow> string list" where
  "stringsOf str values = map str values"

definition parseEnum ::
    "('e \<Rightarrow> string) \<Rightarrow> (string \<Rightarrow> 'e) \<Rightarrow> string \<Rightarrow> 'e list \<Rightarrow> string \<Rightarrow> unknown_value_error + 'e" where
  "parseEnum str conv s allowed name =
     (let v = conv s
      in if validEnum v allowed then Inr v
         else Inl (UnknownValueError name s (stringsOf str allowed)))"

definition unknown_value_message :: "unknown_value_error \<Rightarrow> string" where
  "unknown_value_message e =
     ''unknown '' @ uve_Kind e @ '' '' @ quote (uve_Value e) @ '' (allowed: ''
       @ join '', '' (uve_Allowed e) @ '')''"

text \<open>
  What an enumeration must satisfy for parsing to be exact: the constants render to different
  strings, and the catch-all renders to the string it holds and is none of the constants.
\<close>

locale string_enum =
  fixes str :: "'e \<Rightarrow> string"
    and allowed :: "'e list"
    and other :: "string \<Rightarrow> 'e"
  assumes distinct_str: "distinct (map str allowed)"
    and str_other: "str (other s) = s"
    and other_not_allowed: "other s \<notin> set allowed"
begin

lemma find_str: "e \<in> set allowed \<Longrightarrow> find (\<lambda>x. str x = str e) allowed = Some e"
  using distinct_str by (induction allowed) auto

lemma of_str: "e \<in> set allowed \<Longrightarrow> enum_of str allowed other (str e) = e"
  by (simp add: enum_of_def find_str)

lemma str_of: "str (enum_of str allowed other s) = s"
  by (auto simp: enum_of_def str_other find_Some_iff split: option.splits)

lemma valid_of_iff:
  "validEnum (enum_of str allowed other s) allowed \<longleftrightarrow> s \<in> str ` set allowed"
proof
  assume "validEnum (enum_of str allowed other s) allowed"
  then have "enum_of str allowed other s \<in> set allowed" by (simp add: validEnum_def)
  then show "s \<in> str ` set allowed" by (metis image_eqI str_of)
next
  assume "s \<in> str ` set allowed"
  then show "validEnum (enum_of str allowed other s) allowed"
    using of_str by (auto simp: validEnum_def)
qed

lemma parse_str:
  "e \<in> set allowed \<Longrightarrow> parseEnum str (enum_of str allowed other) (str e) allowed n = Inr e"
  by (simp add: parseEnum_def of_str validEnum_def)

lemma parse_InrD:
  "parseEnum str (enum_of str allowed other) s allowed n = Inr e \<Longrightarrow> e \<in> set allowed \<and> str e = s"
  by (auto simp: parseEnum_def validEnum_def Let_def str_of split: if_splits)

lemma parse_Inl_iff:
  "(\<exists>x. parseEnum str (enum_of str allowed other) s allowed n = Inl x) \<longleftrightarrow> s \<notin> str ` set allowed"
  by (simp add: parseEnum_def Let_def valid_of_iff)

lemma parse_exact:
  "parseEnum str (enum_of str allowed other) s allowed n =
     (if s \<in> str ` set allowed then Inr (enum_of str allowed other s)
      else Inl (UnknownValueError n s (map str allowed)))"
  by (simp add: parseEnum_def Let_def valid_of_iff stringsOf_def)

end

section \<open>Field errors\<close>

text \<open>
  A failure keeps its format string and its arguments; \<open>err_message\<close> is what \<open>fmt.Sprintf\<close>
  makes of them.  The shortest decimal form of a float is the parameter \<open>ff\<close>.
\<close>

datatype goval = GStr string | GInt int | GFlt go_float | GErrs "field_error list"
  and field_error = FieldError (fe_Field: string) (fe_Format: string) (fe_Args: "goval list")

type_synonym field_errors = "field_error list"

definition err_if :: "bool \<Rightarrow> string \<Rightarrow> string \<Rightarrow> goval list \<Rightarrow> field_errors" where
  "err_if c field format args = (if c then [FieldError field format args] else [])"

fun sprintf :: "string \<Rightarrow> (char \<Rightarrow> string) list \<Rightarrow> string" where
  "sprintf (c # v # cs) (a # as) =
     (if c = CHR ''%'' then a v @ sprintf cs as else c # sprintf (v # cs) (a # as))"
| "sprintf s as = s"

definition join_messages :: "(string \<times> string) list \<Rightarrow> string" where
  "join_messages fms = join ''; '' (map (\<lambda>(f, m). f @ '': '' @ m) (sort_key id fms))"

fun val_str :: "(go_float \<Rightarrow> string) \<Rightarrow> goval \<Rightarrow> char \<Rightarrow> string"
  and err_message :: "(go_float \<Rightarrow> string) \<Rightarrow> field_error \<Rightarrow> string" where
  "val_str ff (GStr s) v = (if v = CHR ''q'' then quote s else s)"
| "val_str ff (GInt i) v = show_int i"
| "val_str ff (GFlt x) v = ff x"
| "val_str ff (GErrs es) v = join_messages (map (\<lambda>e. (fe_Field e, err_message ff e)) es)"
| "err_message ff (FieldError f fmt args) = sprintf fmt (map (val_str ff) args)"

definition Sorted :: "(go_float \<Rightarrow> string) \<Rightarrow> field_errors \<Rightarrow> field_errors" where
  "Sorted ff es = sort_key (\<lambda>e. (fe_Field e, err_message ff e)) es"

definition Error :: "(go_float \<Rightarrow> string) \<Rightarrow> field_errors \<Rightarrow> string" where
  "Error ff es =
     join ''; '' (map (\<lambda>e. fe_Field e @ '': '' @ err_message ff e) (Sorted ff es))"

definition ErrorOrNil :: "field_errors \<Rightarrow> field_errors option" where
  "ErrorOrNil es = (if es = [] then None else Some es)"

lemma err_if_Nil [simp]: "err_if c f m a = [] \<longleftrightarrow> \<not> c"
  by (simp add: err_if_def)

lemma ErrorOrNil_None [simp]: "ErrorOrNil es = None \<longleftrightarrow> es = []"
  by (simp add: ErrorOrNil_def)

lemma map_sort_key: "map f (sort_key f xs) = sort (map f xs)"
proof -
  have "map f (insort_key f x ys) = insort (f x) (map f ys)" for x ys
    by (induction ys) auto
  then show ?thesis by (induction xs) simp_all
qed

lemma Error_sorted_keys:
  "Error ff es =
     join ''; '' (map (\<lambda>(f, m). f @ '': '' @ m) (sort (map (\<lambda>e. (fe_Field e, err_message ff e)) es)))"
proof -
  have "map (\<lambda>e. fe_Field e @ '': '' @ err_message ff e) (Sorted ff es)
      = map (\<lambda>(f, m). f @ '': '' @ m) (map (\<lambda>e. (fe_Field e, err_message ff e)) (Sorted ff es))"
    by simp
  then show ?thesis by (simp only: Error_def Sorted_def map_sort_key)
qed

text \<open>The text an operator sees does not depend on the order the checks ran in.\<close>

lemma Error_order_independent:
  assumes "mset es = mset es'"
  shows "Error ff es = Error ff es'"
proof -
  have "sort (map (\<lambda>e. (fe_Field e, err_message ff e)) es)
      = sort (map (\<lambda>e. (fe_Field e, err_message ff e)) es')"
    using assms by (intro sort_key_perm_eq) auto
  then show ?thesis by (simp only: Error_sorted_keys)
qed

section \<open>Paths\<close>

definition isAbsClean :: "string \<Rightarrow> bool" where
  "isAbsClean p \<longleftrightarrow> (if p = '''' \<or> \<not> IsAbs p then False else Clean p = p)"

definition IsCanonicalPath :: "string \<Rightarrow> bool" where
  "IsCanonicalPath p = isAbsClean p"

definition PathWithin :: "string \<Rightarrow> string \<Rightarrow> bool" where
  "PathWithin path target =
     (if path = '''' \<or> target = '''' then False
      else let path = Clean path; target = Clean target
           in if path = target then True
              else if target = ''/'' then IsAbs path
              else HasPrefix path (target @ ''/''))"

definition PathsOverlap :: "string \<Rightarrow> string \<Rightarrow> bool" where
  "PathsOverlap a b \<longleftrightarrow> PathWithin a b \<or> PathWithin b a"

text \<open>
  \<open>strings.ToLower\<close> as far as it can produce ASCII letters: the upper-case ASCII letters, and
  the two non-ASCII letters whose lower case is ASCII, U+0130 and U+212A.
\<close>

fun to_lower_ascii :: "string \<Rightarrow> string" where
  "to_lower_ascii [] = []"
| "to_lower_ascii (a # cs) =
     (case cs of
        b # ds \<Rightarrow>
          if byte a = 196 \<and> byte b = 176 then CHR ''i'' # to_lower_ascii ds
          else (case ds of
             c # es \<Rightarrow>
               if byte a = 226 \<and> byte b = 132 \<and> byte c = 170 then CHR ''k'' # to_lower_ascii es
               else (if 65 \<le> byte a \<and> byte a \<le> 90 then char_of (byte a + 32) else a) # to_lower_ascii cs
           | [] \<Rightarrow> (if 65 \<le> byte a \<and> byte a \<le> 90 then char_of (byte a + 32) else a) # to_lower_ascii cs)
      | [] \<Rightarrow> [if 65 \<le> byte a \<and> byte a \<le> 90 then char_of (byte a + 32) else a])"

definition IsDatabasePath :: "string \<Rightarrow> bool" where
  "IsDatabasePath path \<longleftrightarrow>
     to_lower_ascii (Ext path) \<in> set [''.db'', ''.db3'', ''.sqlite'', ''.sqlite3'', ''.mdb'', ''.ldb'']"

subsection \<open>Containment is the prefix order on segments\<close>

definition segs :: "string \<Rightarrow> string list" where
  "segs p = clean_stack True (split_on slash p)"

lemma segs_good: "e \<in> set (segs p) \<Longrightarrow> good_seg e"
  using clean_stack_rooted [of "split_on slash p"] by (auto simp: segs_def split_on_no_sep)

lemma Clean_segs: "IsAbs p \<Longrightarrow> Clean p = slash # join ''/'' (segs p)"
  by (simp add: Clean_def segs_def Let_def)

lemma IsAbs_Clean: "IsAbs p \<Longrightarrow> IsAbs (Clean p)"
  by (simp add: Clean_segs) (simp add: IsAbs_def)

lemma canonical_IsAbs: "isAbsClean p \<Longrightarrow> IsAbs p"
  by (simp add: isAbsClean_def split: if_splits)

lemma canonical_Clean: "isAbsClean p \<Longrightarrow> Clean p = p"
  by (simp add: isAbsClean_def split: if_splits)

lemma canonical_ne: "isAbsClean p \<Longrightarrow> p \<noteq> []"
  by (auto simp: isAbsClean_def)

lemma canonical_segs: "isAbsClean p \<Longrightarrow> p = slash # join ''/'' (segs p)"
  using Clean_segs canonical_Clean canonical_IsAbs by metis

lemma join_slash_inject:
  assumes "\<forall>e \<in> set es. good_seg e" and "\<forall>e \<in> set fs. good_seg e"
    and "join ''/'' es = join ''/'' fs"
  shows "es = fs"
proof -
  have *: "join ''/'' gs = [] \<longleftrightarrow> gs = []" if "\<forall>e \<in> set gs. good_seg e" for gs
    using that hd_join [of gs "''/''"] by (cases gs) (auto simp: good_seg_def)
  show ?thesis
  proof (cases "es = []")
    case True
    then show ?thesis using assms * by (metis join.simps(1))
  next
    case False
    then have "fs \<noteq> []" using assms * by (metis join.simps(1))
    with False assms show ?thesis by (metis good_seg_def split_on_join)
  qed
qed

lemma segs_inject: "isAbsClean p \<Longrightarrow> isAbsClean q \<Longrightarrow> segs p = segs q \<Longrightarrow> p = q"
  by (metis canonical_segs)

lemma segs_Clean:
  assumes "IsAbs p"
  shows "segs (Clean p) = segs p"
proof (rule join_slash_inject)
  have "slash # join ''/'' (segs (Clean p)) = Clean (Clean p)"
    by (rule Clean_segs [OF IsAbs_Clean [OF assms], symmetric])
  also have "\<dots> = slash # join ''/'' (segs p)"
    unfolding Clean_idem by (rule Clean_segs [OF assms])
  finally have "slash # join ''/'' (segs (Clean p)) = slash # join ''/'' (segs p)" .
  then show "join ''/'' (segs (Clean p)) = join ''/'' (segs p)" by simp
qed (simp_all add: segs_good)

lemma join_prefix_iff:
  assumes "\<forall>e \<in> set es. good_seg e" and "\<forall>e \<in> set fs. good_seg e" and "es \<noteq> []"
  shows "prefix (join ''/'' es @ ''/'') (join ''/'' fs) \<longleftrightarrow> strict_prefix es fs"
proof
  assume "prefix (join ''/'' es @ ''/'') (join ''/'' fs)"
  then obtain r where r: "join ''/'' fs = join ''/'' es @ slash # r" by (auto simp: prefix_def)
  have "fs \<noteq> []" using r by (cases fs) auto
  then have "fs = split_on slash (join ''/'' fs)"
    using assms(2) by (subst split_on_join) (auto simp: good_seg_def)
  also have "\<dots> = es @ split_on slash r"
    unfolding r using assms(1,3)
  proof (induction es)
    case (Cons e es)
    show ?case
    proof (cases "es = []")
      case True
      then show ?thesis using Cons.prems by (simp add: split_on_append_sep good_seg_def)
    next
      case False
      then have "join ''/'' (e # es) @ slash # r = e @ slash # (join ''/'' es @ slash # r)"
        by (simp add: join_Cons)
      then show ?thesis using Cons False by (simp add: split_on_append_sep good_seg_def)
    qed
  qed simp
  finally show "strict_prefix es fs" by (metis prefix_order.less_le prefixI append_self_conv split_on_ne)
next
  assume "strict_prefix es fs"
  then obtain gs where "fs = es @ gs" "gs \<noteq> []" by (auto elim: strict_prefixE')
  then show "prefix (join ''/'' es @ ''/'') (join ''/'' fs)"
    using assms(3) by (simp add: join_append)
qed

lemma PathWithin_abs:
  assumes "IsAbs p" and "IsAbs t"
  shows "PathWithin p t \<longleftrightarrow> prefix (segs t) (segs p)"
proof -
  have ne: "p \<noteq> []" "t \<noteq> []" using assms by (auto simp: IsAbs_def)
  note cl = Clean_segs [OF assms(1)] Clean_segs [OF assms(2)]
  have good: "\<forall>e \<in> set (segs x). good_seg e" for x by (simp add: segs_good)
  show ?thesis
  proof (cases "segs t = []")
    case True
    have "IsAbs (slash # join ''/'' (segs p))" by (simp add: IsAbs_def)
    then show ?thesis using True ne by (simp add: PathWithin_def cl)
  next
    case False
    have "hd (segs t) \<noteq> []"
      using False good [of t] hd_in_set by (metis good_seg_def)
    then have "join ''/'' (segs t) \<noteq> []"
      using False hd_join by blast
    moreover have "Clean p = Clean t \<longleftrightarrow> segs p = segs t"
      unfolding cl list.inject using join_slash_inject [OF good good, of p t] by auto
    moreover have "HasPrefix (Clean p) (Clean t @ ''/'') \<longleftrightarrow> strict_prefix (segs t) (segs p)"
      unfolding cl HasPrefix_iff using join_prefix_iff [OF good good False] by simp
    moreover have "Clean t \<noteq> ''/''" using calculation(1) by (simp add: cl)
    ultimately show ?thesis
      using ne by (auto simp: PathWithin_def Let_def prefix_order.le_less)
  qed
qed

lemma PathWithin_canonical:
  "isAbsClean p \<Longrightarrow> isAbsClean t \<Longrightarrow> PathWithin p t \<longleftrightarrow> prefix (segs t) (segs p)"
  by (simp add: PathWithin_abs canonical_IsAbs)

lemma PathWithin_refl: "p \<noteq> '''' \<Longrightarrow> PathWithin p p"
  by (simp add: PathWithin_def)

lemma PathsOverlap_sym: "PathsOverlap a b = PathsOverlap b a"
  by (auto simp: PathsOverlap_def)

section \<open>Retention\<close>

datatype retention =
    RetentionNone | Retention3Days | Retention7Days | Retention30Days | Retention90Days
  | RetentionPermanent | RetentionOther string

fun retention_str :: "retention \<Rightarrow> string" where
  "retention_str RetentionNone = ''none''"
| "retention_str Retention3Days = ''3d''"
| "retention_str Retention7Days = ''7d''"
| "retention_str Retention30Days = ''30d''"
| "retention_str Retention90Days = ''90d''"
| "retention_str RetentionPermanent = ''permanent''"
| "retention_str (RetentionOther s) = s"

abbreviation RetentionUnset :: retention where "RetentionUnset \<equiv> RetentionOther ''''"

definition retentions :: "retention list" where
  "retentions =
     [RetentionNone, Retention3Days, Retention7Days, Retention30Days, Retention90Days, RetentionPermanent]"

definition retention_Valid :: "retention \<Rightarrow> bool" where
  "retention_Valid r = validEnum r retentions"

definition retention_of :: "string \<Rightarrow> retention" where
  "retention_of = enum_of retention_str retentions RetentionOther"

definition ParseRetention :: "string \<Rightarrow> unknown_value_error + retention" where
  "ParseRetention s = parseEnum retention_str retention_of s retentions ''retention''"

interpretation retention_enum: string_enum retention_str retentions RetentionOther
  by unfold_locales (auto simp: retentions_def)

fun Window :: "retention \<Rightarrow> duration option" where
  "Window RetentionNone = Some 0"
| "Window Retention3Days = Some (3 * 24 * nanosecond_hour)"
| "Window Retention7Days = Some (7 * 24 * nanosecond_hour)"
| "Window Retention30Days = Some (30 * 24 * nanosecond_hour)"
| "Window Retention90Days = Some (90 * 24 * nanosecond_hour)"
| "Window _ = None"

definition ExpiresAt :: "retention \<Rightarrow> time \<Rightarrow> time option" where
  "ExpiresAt r from = (case Window r of None \<Rightarrow> None | Some w \<Rightarrow> Some (from + w))"

definition Expired :: "retention \<Rightarrow> time \<Rightarrow> time \<Rightarrow> bool" where
  "Expired r from now =
     (case ExpiresAt r from of None \<Rightarrow> False | Some expiry \<Rightarrow> \<not> now < expiry)"

lemma Window_nonneg: "Window r = Some w \<Longrightarrow> 0 \<le> w"
  by (cases r) (auto simp: nanosecond_hour_def)

lemma Expired_iff: "Expired r from now \<longleftrightarrow> (\<exists>w. Window r = Some w \<and> from + w \<le> now)"
  by (auto simp: Expired_def ExpiresAt_def split: option.splits)

lemma Expired_mono: "Expired r from now \<Longrightarrow> from' \<le> from \<Longrightarrow> now \<le> now' \<Longrightarrow> Expired r from' now'"
  by (auto simp: Expired_iff)

section \<open>Properties\<close>

text \<open>\<open>PathWithin\<close>, a comparison of cleaned strings, decides exactly whether the segments of the
  target are a prefix of the segments of the path, for all absolute paths whether cleaned or not: no
  sibling whose name merely extends the target's is taken to be inside it.\<close>

theorem PathWithin_is_segment_prefix:
  assumes "IsAbs p" and "IsAbs t"
  shows "PathWithin p t \<longleftrightarrow> prefix (segs t) (segs p)"
  by (rule PathWithin_abs [OF assms])

theorem PathWithin_is_segment_prefix_witness:
  "PathWithin ''/w/a/../b/c'' ''/w/b/'' \<and> \<not> PathWithin ''/w/bc'' ''/w/b''"
proof -
  have a: "IsAbs ''/w/a/../b/c''" "IsAbs ''/w/b/''" "IsAbs ''/w/bc''" "IsAbs ''/w/b''"
    by (simp_all add: IsAbs_def HasPrefix_def)
  note w = PathWithin_is_segment_prefix [OF a(1,2)] PathWithin_is_segment_prefix [OF a(3,4)]
  show ?thesis unfolding w by code_simp
qed

text \<open>The text of an accumulated validation error depends only on which checks failed, not on the
  order they ran in.\<close>

theorem Error_text_order_free:
  assumes "mset es = mset es'"
  shows "Error ff es = Error ff es'"
  by (rule Error_order_independent [OF assms])

theorem Error_text_order_free_witness:
  "Error (\<lambda>_. '''') [FieldError ''path'' ''must be set'' [], FieldError ''id'' ''got %q'' [GStr ''x'']]
   = Error (\<lambda>_. '''') [FieldError ''id'' ''got %q'' [GStr ''x''], FieldError ''path'' ''must be set'' []]"
  by (rule Error_text_order_free) simp

text \<open>A retention window is over exactly when the period it names has fully elapsed since it
  began; a permanent or unknown retention never is, and once over it stays over.\<close>

theorem Expired_exactly:
  "(Expired r from now \<longleftrightarrow> (\<exists>w. Window r = Some w \<and> from + w \<le> now))
   \<and> (Window r = None \<longleftrightarrow> r = RetentionPermanent \<or> \<not> retention_Valid r)
   \<and> (Expired r from now \<longrightarrow> (\<forall>later \<ge> now. Expired r from later))"
  using Expired_iff [of r] Expired_mono [of r "from" now "from"]
  by (cases r) (auto simp: retention_Valid_def validEnum_def retentions_def)

theorem Expired_exactly_witness:
  "Expired Retention3Days 1000 (1000 + 72 * nanosecond_hour)
   \<and> \<not> Expired Retention3Days 1000 (999 + 72 * nanosecond_hour)
   \<and> Expired Retention3Days 1000 (2000 + 72 * nanosecond_hour)"
  using Expired_exactly [of Retention3Days 1000 "1000 + 72 * nanosecond_hour"]
    Expired_exactly [of Retention3Days 1000 "999 + 72 * nanosecond_hour"]
  by simp

end
