(* ===== verification/CoreEntry.thy ===== *)
theory CoreEntry
  imports CoreContract
begin

text \<open>
  \<open>internal/core/entry.go\<close>: a discovered path and everything known about it, its evidence and
  its protections, with the validation of each record; \<open>Recommendation\<close> of
  \<open>internal/core/plan.go\<close>, which an entry may carry; and the two archive bindings.
  A nil pointer is \<open>None\<close>; nil and empty slices are both the empty list.
\<close>

section \<open>Enumerations\<close>

datatype entry_kind =
    EntryKindDirectory | EntryKindFile | EntryKindSymlink | EntryKindSpecial
  | EntryKindUnknown | EntryKindOther string

fun entryKind_str :: "entry_kind \<Rightarrow> string" where
  "entryKind_str EntryKindDirectory = ''directory''"
| "entryKind_str EntryKindFile = ''file''"
| "entryKind_str EntryKindSymlink = ''symlink''"
| "entryKind_str EntryKindSpecial = ''special''"
| "entryKind_str EntryKindUnknown = ''unknown''"
| "entryKind_str (EntryKindOther s) = s"

definition entryKinds :: "entry_kind list" where
  "entryKinds =
     [EntryKindDirectory, EntryKindFile, EntryKindSymlink, EntryKindSpecial,
      EntryKindUnknown]"

definition entryKind_Valid :: "entry_kind \<Rightarrow> bool" where
  "entryKind_Valid v = validEnum v entryKinds"

definition entryKind_of :: "string \<Rightarrow> entry_kind" where
  "entryKind_of = enum_of entryKind_str entryKinds EntryKindOther"

interpretation entryKind_enum: string_enum entryKind_str entryKinds EntryKindOther
  by unfold_locales (auto simp: entryKinds_def)

datatype artifact_class =
    ClassPrimaryProject | ClassTaskWorktree | ClassGeneratedArtifact | ClassCache
  | ClassBackup | ClassOperationalTool | ClassEvidence | ClassUnknown | ClassOther string

fun artifactClass_str :: "artifact_class \<Rightarrow> string" where
  "artifactClass_str ClassPrimaryProject = ''primary_project''"
| "artifactClass_str ClassTaskWorktree = ''task_worktree''"
| "artifactClass_str ClassGeneratedArtifact = ''generated_artifact''"
| "artifactClass_str ClassCache = ''cache''"
| "artifactClass_str ClassBackup = ''backup''"
| "artifactClass_str ClassOperationalTool = ''operational_tool''"
| "artifactClass_str ClassEvidence = ''durable_evidence''"
| "artifactClass_str ClassUnknown = ''unknown''"
| "artifactClass_str (ClassOther s) = s"

definition artifactClasses :: "artifact_class list" where
  "artifactClasses =
     [ClassPrimaryProject, ClassTaskWorktree, ClassGeneratedArtifact, ClassCache,
      ClassBackup, ClassOperationalTool, ClassEvidence, ClassUnknown]"

definition artifactClass_Valid :: "artifact_class \<Rightarrow> bool" where
  "artifactClass_Valid v = validEnum v artifactClasses"

definition artifactClass_of :: "string \<Rightarrow> artifact_class" where
  "artifactClass_of = enum_of artifactClass_str artifactClasses ClassOther"

definition ParseArtifactClass :: "string \<Rightarrow> unknown_value_error + artifact_class" where
  "ParseArtifactClass s = parseEnum artifactClass_str artifactClass_of s artifactClasses ''artifact class''"

interpretation artifactClass_enum: string_enum artifactClass_str artifactClasses ClassOther
  by unfold_locales (auto simp: artifactClasses_def)

datatype evidence_source =
    SourceFilesystem | SourceGit | SourceProcess | SourceService | SourceScheduler
  | SourceJob | SourceCacheTool | SourcePolicy | SourceModel | SourceOperator
  | SourceOther string

fun evidenceSource_str :: "evidence_source \<Rightarrow> string" where
  "evidenceSource_str SourceFilesystem = ''filesystem''"
| "evidenceSource_str SourceGit = ''git''"
| "evidenceSource_str SourceProcess = ''process''"
| "evidenceSource_str SourceService = ''service''"
| "evidenceSource_str SourceScheduler = ''scheduler''"
| "evidenceSource_str SourceJob = ''job''"
| "evidenceSource_str SourceCacheTool = ''cache_tool''"
| "evidenceSource_str SourcePolicy = ''policy''"
| "evidenceSource_str SourceModel = ''model''"
| "evidenceSource_str SourceOperator = ''operator''"
| "evidenceSource_str (SourceOther s) = s"

definition evidenceSources :: "evidence_source list" where
  "evidenceSources =
     [SourceFilesystem, SourceGit, SourceProcess, SourceService, SourceScheduler, SourceJob,
      SourceCacheTool, SourcePolicy, SourceModel, SourceOperator]"

definition evidenceSource_Valid :: "evidence_source \<Rightarrow> bool" where
  "evidenceSource_Valid v = validEnum v evidenceSources"

definition evidenceSource_of :: "string \<Rightarrow> evidence_source" where
  "evidenceSource_of = enum_of evidenceSource_str evidenceSources SourceOther"

interpretation evidenceSource_enum: string_enum evidenceSource_str evidenceSources SourceOther
  by unfold_locales (auto simp: evidenceSources_def)

datatype protection_kind =
    ProtectActiveProcess | ProtectRegisteredAgent | ProtectOwningJob
  | ProtectDirtyRepository | ProtectStashedWork | ProtectUnpublishedCommits
  | ProtectBrokenGitMetadata | ProtectLockHeld | ProtectServiceReference
  | ProtectSensitiveContent | ProtectLiveDatabase | ProtectDurableEvidence
  | ProtectSymlinkEscape | ProtectIdentityChanged | ProtectInsufficientSpace
  | ProtectCrossFilesystem | ProtectCollectorFailure | ProtectPolicyProtected
  | ProtectArchiveOnlyRoot | ProtectOther string

fun protectionKind_str :: "protection_kind \<Rightarrow> string" where
  "protectionKind_str ProtectActiveProcess = ''active_process''"
| "protectionKind_str ProtectRegisteredAgent = ''registered_agent''"
| "protectionKind_str ProtectOwningJob = ''owning_job''"
| "protectionKind_str ProtectDirtyRepository = ''dirty_repository''"
| "protectionKind_str ProtectStashedWork = ''stashed_work''"
| "protectionKind_str ProtectUnpublishedCommits = ''unpublished_commits''"
| "protectionKind_str ProtectBrokenGitMetadata = ''broken_git_metadata''"
| "protectionKind_str ProtectLockHeld = ''lock_held''"
| "protectionKind_str ProtectServiceReference = ''service_reference''"
| "protectionKind_str ProtectSensitiveContent = ''sensitive_content''"
| "protectionKind_str ProtectLiveDatabase = ''live_database''"
| "protectionKind_str ProtectDurableEvidence = ''durable_evidence''"
| "protectionKind_str ProtectSymlinkEscape = ''symlink_escape''"
| "protectionKind_str ProtectIdentityChanged = ''identity_changed''"
| "protectionKind_str ProtectInsufficientSpace = ''insufficient_space''"
| "protectionKind_str ProtectCrossFilesystem = ''cross_filesystem''"
| "protectionKind_str ProtectCollectorFailure = ''collector_failure''"
| "protectionKind_str ProtectPolicyProtected = ''policy_protected''"
| "protectionKind_str ProtectArchiveOnlyRoot = ''archive_only_root''"
| "protectionKind_str (ProtectOther s) = s"

definition protectionKinds :: "protection_kind list" where
  "protectionKinds =
     [ProtectActiveProcess, ProtectRegisteredAgent, ProtectOwningJob, ProtectDirtyRepository,
      ProtectStashedWork, ProtectUnpublishedCommits, ProtectBrokenGitMetadata,
      ProtectLockHeld, ProtectServiceReference, ProtectSensitiveContent, ProtectLiveDatabase,
      ProtectDurableEvidence, ProtectSymlinkEscape, ProtectIdentityChanged,
      ProtectInsufficientSpace, ProtectCrossFilesystem, ProtectCollectorFailure,
      ProtectPolicyProtected, ProtectArchiveOnlyRoot]"

definition protectionKind_Valid :: "protection_kind \<Rightarrow> bool" where
  "protectionKind_Valid v = validEnum v protectionKinds"

definition protectionKind_of :: "string \<Rightarrow> protection_kind" where
  "protectionKind_of = enum_of protectionKind_str protectionKinds ProtectOther"

interpretation protectionKind_enum: string_enum protectionKind_str protectionKinds ProtectOther
  by unfold_locales (auto simp: protectionKinds_def)

datatype action_kind =
    ActionKeep | ActionRelocate | ActionQuarantine | ActionDeleteCandidate
  | ActionInvestigate | ActionOther string

fun actionKind_str :: "action_kind \<Rightarrow> string" where
  "actionKind_str ActionKeep = ''keep''"
| "actionKind_str ActionRelocate = ''relocate''"
| "actionKind_str ActionQuarantine = ''quarantine''"
| "actionKind_str ActionDeleteCandidate = ''delete_candidate''"
| "actionKind_str ActionInvestigate = ''investigate''"
| "actionKind_str (ActionOther s) = s"

definition actionKinds :: "action_kind list" where
  "actionKinds =
     [ActionKeep, ActionRelocate, ActionQuarantine, ActionDeleteCandidate, ActionInvestigate]"

definition actionKind_Valid :: "action_kind \<Rightarrow> bool" where
  "actionKind_Valid v = validEnum v actionKinds"

definition actionKind_of :: "string \<Rightarrow> action_kind" where
  "actionKind_of = enum_of actionKind_str actionKinds ActionOther"

definition ParseActionKind :: "string \<Rightarrow> unknown_value_error + action_kind" where
  "ParseActionKind s = parseEnum actionKind_str actionKind_of s actionKinds ''action kind''"

interpretation actionKind_enum: string_enum actionKind_str actionKinds ActionOther
  by unfold_locales (auto simp: actionKinds_def)

datatype recommendation_origin =
    OriginRules | OriginPolicy | OriginModel | OriginFallback | OriginOperator
  | OriginOther string

fun origin_str :: "recommendation_origin \<Rightarrow> string" where
  "origin_str OriginRules = ''rules''"
| "origin_str OriginPolicy = ''policy''"
| "origin_str OriginModel = ''model''"
| "origin_str OriginFallback = ''fallback''"
| "origin_str OriginOperator = ''operator''"
| "origin_str (OriginOther s) = s"

definition recommendationOrigins :: "recommendation_origin list" where
  "recommendationOrigins =
     [OriginRules, OriginPolicy, OriginModel, OriginFallback, OriginOperator]"

definition origin_Valid :: "recommendation_origin \<Rightarrow> bool" where
  "origin_Valid v = validEnum v recommendationOrigins"

definition origin_of :: "string \<Rightarrow> recommendation_origin" where
  "origin_of = enum_of origin_str recommendationOrigins OriginOther"

definition ParseRecommendationOrigin :: "string \<Rightarrow> unknown_value_error + recommendation_origin" where
  "ParseRecommendationOrigin s = parseEnum origin_str origin_of s recommendationOrigins ''recommendation origin''"

interpretation origin_enum: string_enum origin_str recommendationOrigins OriginOther
  by unfold_locales (auto simp: recommendationOrigins_def)

section \<open>Action kinds: mutation and risk\<close>

fun Mutating :: "action_kind \<Rightarrow> bool" where
  "Mutating ActionRelocate = True"
| "Mutating ActionQuarantine = True"
| "Mutating ActionDeleteCandidate = True"
| "Mutating _ = False"

definition riskRank :: "(action_kind \<times> nat) list" where
  "riskRank =
     [(ActionKeep, 0), (ActionInvestigate, 1), (ActionRelocate, 2), (ActionQuarantine, 3),
      (ActionDeleteCandidate, 4)]"

definition RiskRank :: "action_kind \<Rightarrow> nat" where
  "RiskRank k = (case map_of riskRank k of Some rank \<Rightarrow> rank | None \<Rightarrow> length riskRank)"

definition Safer :: "action_kind \<Rightarrow> action_kind \<Rightarrow> action_kind" where
  "Safer k other = (if RiskRank other < RiskRank k then other else k)"

lemma RiskRank_simps [simp]:
  "RiskRank ActionKeep = 0" "RiskRank ActionInvestigate = 1" "RiskRank ActionRelocate = 2"
  "RiskRank ActionQuarantine = 3" "RiskRank ActionDeleteCandidate = 4"
  "RiskRank (ActionOther s) = 5"
  by (simp_all add: RiskRank_def riskRank_def)

lemma Mutating_risk: "Mutating k \<Longrightarrow> 2 \<le> RiskRank k"
  by (cases k) auto

lemma low_risk_not_mutating: "RiskRank k < 2 \<Longrightarrow> \<not> Mutating k"
  by (cases k) auto

lemma RiskRank_inject:
  "RiskRank k = RiskRank l \<longleftrightarrow> k = l \<or> (\<exists>s t. k = ActionOther s \<and> l = ActionOther t)"
  by (cases k; cases l) auto

lemma Safer_rank: "RiskRank (Safer k l) = min (RiskRank k) (RiskRank l)"
  by (simp add: Safer_def)

lemma Safer_assoc: "Safer (Safer a b) c = Safer a (Safer b c)"
  by (auto simp: Safer_def)

lemma Safer_idem: "Safer a a = a"
  by (simp add: Safer_def)

lemma Safer_cases: "Safer a b = a \<or> Safer a b = b"
  by (simp add: Safer_def)

section \<open>Records\<close>

record filesystem_id =
  fs_Device :: uint64
  fs_Inode :: uint64

definition fsid_String :: "filesystem_id \<Rightarrow> string" where
  "fsid_String f = show_u64 (fs_Device f) @ '':'' @ show_u64 (fs_Inode f)"

definition fsid_Zero :: "filesystem_id \<Rightarrow> bool" where
  "fsid_Zero f \<longleftrightarrow> fs_Device f = 0 \<and> fs_Inode f = 0"

record ownership =
  own_UID :: "32 word"
  own_GID :: "32 word"
  own_Mode :: string

record git_state =
  git_RepoRoot :: string
  git_WorktreeOf :: string
  git_Bare :: bool
  git_Remote :: string
  git_Branch :: string
  git_Head :: string
  git_UpstreamKnown :: bool
  git_LastActivity :: time
  git_PublicationKnown :: bool
  git_ContentsKnown :: bool
  git_ContentsProtection :: string
  git_SourceApprovalFingerprint :: string
  git_DirtyFiles :: int
  git_Stashes :: int
  git_UnpublishedCommits :: int
  git_Locked :: bool
  git_Degraded :: bool
  git_DegradedReason :: string

text \<open>\<open>Clean\<close> of a possibly nil \<open>*GitState\<close>.\<close>

definition git_Clean :: "git_state option \<Rightarrow> bool" where
  "git_Clean g = (case g of
     None \<Rightarrow> False
   | Some g \<Rightarrow> \<not> git_Degraded g \<and> git_DirtyFiles g = 0 \<and> git_Stashes g = 0
       \<and> git_UnpublishedCommits g = 0 \<and> \<not> git_Locked g \<and> (git_Bare g \<or> git_PublicationKnown g))"

record evidence =
  ev_Source :: evidence_source
  ev_Signal :: string
  ev_Detail :: string
  ev_ObservedAt :: time

definition Evidence_Validate :: "evidence \<Rightarrow> string \<Rightarrow> field_errors" where
  "Evidence_Validate e field =
     err_if (\<not> evidenceSource_Valid (ev_Source e)) (field @ ''.source'')
       ''unknown evidence source %q'' [GStr (evidenceSource_str (ev_Source e))]
   @ err_if (blank (ev_Signal e)) (field @ ''.signal'') ''must not be empty'' []
   @ err_if (ev_ObservedAt e = time_zero) (field @ ''.observed_at'') ''must be set'' []"

record protection =
  prot_Kind :: protection_kind
  prot_Reason :: string
  prot_Source :: evidence_source
  prot_Remediation :: string
  prot_Blocking :: bool

definition Protection_Validate :: "protection \<Rightarrow> string \<Rightarrow> field_errors" where
  "Protection_Validate p field =
     err_if (\<not> protectionKind_Valid (prot_Kind p)) (field @ ''.kind'')
       ''unknown protection kind %q'' [GStr (protectionKind_str (prot_Kind p))]
   @ err_if (\<not> evidenceSource_Valid (prot_Source p)) (field @ ''.source'')
       ''unknown evidence source %q'' [GStr (evidenceSource_str (prot_Source p))]
   @ err_if (blank (prot_Reason p)) (field @ ''.reason'') ''must not be empty'' []"

record recommendation =
  rec_Action :: action_kind
  rec_Class :: artifact_class
  rec_Retention :: retention
  rec_Confidence :: go_float
  rec_Origin :: recommendation_origin
  rec_Reasons :: "string list"
  rec_DecidedAt :: time

definition Recommendation_Validate :: "recommendation \<Rightarrow> string \<Rightarrow> field_errors" where
  "Recommendation_Validate r field =
     err_if (\<not> actionKind_Valid (rec_Action r)) (field @ ''.action'')
       ''unknown action kind %q'' [GStr (actionKind_str (rec_Action r))]
   @ err_if (\<not> artifactClass_Valid (rec_Class r)) (field @ ''.class'')
       ''unknown artifact class %q'' [GStr (artifactClass_str (rec_Class r))]
   @ err_if (\<not> retention_Valid (rec_Retention r)) (field @ ''.retention'')
       ''unknown retention %q'' [GStr (retention_str (rec_Retention r))]
   @ err_if (\<not> origin_Valid (rec_Origin r)) (field @ ''.origin'')
       ''unknown recommendation origin %q'' [GStr (origin_str (rec_Origin r))]
   @ err_if (float_lt (rec_Confidence r) (Fin 0) \<or> float_lt (Fin 1) (rec_Confidence r))
       (field @ ''.confidence'') ''must be within [0,1], got %v'' [GFlt (rec_Confidence r)]"

record export_archive_binding =
  xab_Manifest :: string
  xab_ManifestSHA256 :: string

record workspace_archive_binding =
  wab_Manifest :: string
  wab_ManifestSHA256 :: string
  wab_MemberCount :: int
  wab_TreeDigest :: string
  wab_CreatedAt :: time

record entry =
  ent_ContractVersion :: int
  ent_Path :: string
  ent_Root :: string
  ent_Kind :: entry_kind
  ent_FilesystemID :: filesystem_id
  ent_Ownership :: ownership
  ent_SizeBytes :: int64
  ent_SizeIsLowerBound :: bool
  ent_SizeIsDeep :: bool
  ent_ModifiedAt :: time
  ent_LatestModifiedAt :: time
  ent_AccessedAt :: time
  ent_SymlinkTarget :: string
  ent_CanonicalPath :: string
  ent_Destination :: string
  ent_Fingerprint :: string
  ent_Class :: artifact_class
  ent_Git :: "git_state option"
  ent_ExportArchive :: "export_archive_binding option"
  ent_WorkspaceArchive :: "workspace_archive_binding option"
  ent_Evidence :: "evidence list"
  ent_Protections :: "protection list"
  ent_Recommendation :: "recommendation option"
  ent_ObservedAt :: time

definition Entry_Protected :: "entry \<Rightarrow> bool" where
  "Entry_Protected e \<longleftrightarrow> (\<exists>p \<in> set (ent_Protections e). prot_Blocking p)"

definition Entry_Normalize :: "entry \<Rightarrow> entry" where
  "Entry_Normalize e =
     e\<lparr>ent_ContractVersion :=
         (if ent_ContractVersion e = 0 then ContractVersion else ent_ContractVersion e),
       ent_Class := (if ent_Class e = ClassOther '''' then ClassUnknown else ent_Class e),
       ent_Kind := (if ent_Kind e = EntryKindOther '''' then EntryKindUnknown else ent_Kind e)\<rparr>"

definition indexed :: "string \<Rightarrow> nat \<Rightarrow> string" where
  "indexed name i = name @ ''['' @ show_nat i @ '']''"

definition validate_all :: "('a \<Rightarrow> string \<Rightarrow> field_errors) \<Rightarrow> string \<Rightarrow> 'a list \<Rightarrow> field_errors" where
  "validate_all validate name xs =
     concat (map (\<lambda>(i, x). validate x (indexed name i)) (enumerate 0 xs))"

lemma validate_all_Nil:
  "validate_all v n xs = [] \<longleftrightarrow> (\<forall>i < length xs. v (xs ! i) (indexed n i) = [])"
proof -
  have "set (enumerate 0 xs) = (\<lambda>i. (i, xs ! i)) ` {..<length xs}"
    by (auto simp: in_set_enumerate_eq image_iff)
  then show ?thesis by (auto simp: validate_all_def)
qed

definition Entry_Validate :: "entry \<Rightarrow> field_errors option" where
  "Entry_Validate e = ErrorOrNil (
     err_if (ent_ContractVersion e \<noteq> ContractVersion) ''contract_version'' ''must be %d, got %d''
       [GInt ContractVersion, GInt (ent_ContractVersion e)]
   @ err_if (\<not> isAbsClean (ent_Path e)) ''path''
       ''must be an absolute, cleaned path, got %q'' [GStr (ent_Path e)]
   @ err_if (\<not> isAbsClean (ent_Root e)) ''root''
       ''must be an absolute, cleaned path, got %q'' [GStr (ent_Root e)]
   @ err_if (\<not> entryKind_Valid (ent_Kind e)) ''kind''
       ''unknown entry kind %q'' [GStr (entryKind_str (ent_Kind e))]
   @ err_if (\<not> artifactClass_Valid (ent_Class e)) ''class''
       ''unknown artifact class %q'' [GStr (artifactClass_str (ent_Class e))]
   @ err_if (sint (ent_SizeBytes e) < 0) ''size_bytes''
       ''must not be negative, got %d'' [GInt (sint (ent_SizeBytes e))]
   @ err_if (ent_ObservedAt e = time_zero) ''observed_at'' ''must be set'' []
   @ validate_all Evidence_Validate ''evidence'' (ent_Evidence e)
   @ validate_all Protection_Validate ''protections'' (ent_Protections e)
   @ (case ent_Recommendation e of
        None \<Rightarrow> []
      | Some r \<Rightarrow> Recommendation_Validate r ''recommendation''))"

lemma Entry_Validate_NoneD:
  assumes "Entry_Validate e = None"
  shows "isAbsClean (ent_Path e)" "isAbsClean (ent_Root e)" "0 \<le> sint (ent_SizeBytes e)"
    "ent_ObservedAt e \<noteq> time_zero" "ent_ContractVersion e = ContractVersion"
  using assms by (auto simp: Entry_Validate_def)

lemma Entry_Normalize_idem: "Entry_Normalize (Entry_Normalize e) = Entry_Normalize e"
  by (simp add: Entry_Normalize_def ContractVersion_def)

end
