(* ===== verification/CorePlan.thy ===== *)
theory CorePlan
  imports CoreEntry
begin

text \<open>
  \<open>internal/core/plan.go\<close>: scans and collector reports, planned actions, plans, their summary,
  model usage and approvals, each with its normalization and its validation.
\<close>

section \<open>Enumerations\<close>

datatype scan_status =
    ScanRunning | ScanCompleted | ScanFailed | ScanOther string

fun scanStatus_str :: "scan_status \<Rightarrow> string" where
  "scanStatus_str ScanRunning = ''running''"
| "scanStatus_str ScanCompleted = ''completed''"
| "scanStatus_str ScanFailed = ''failed''"
| "scanStatus_str (ScanOther s) = s"

definition scanStatuses :: "scan_status list" where
  "scanStatuses =
     [ScanRunning, ScanCompleted, ScanFailed]"

definition scanStatus_Valid :: "scan_status \<Rightarrow> bool" where
  "scanStatus_Valid v = validEnum v scanStatuses"

definition scanStatus_of :: "string \<Rightarrow> scan_status" where
  "scanStatus_of = enum_of scanStatus_str scanStatuses ScanOther"

definition ParseScanStatus :: "string \<Rightarrow> unknown_value_error + scan_status" where
  "ParseScanStatus s = parseEnum scanStatus_str scanStatus_of s scanStatuses ''scan status''"

interpretation scanStatus_enum: string_enum scanStatus_str scanStatuses ScanOther
  by unfold_locales (auto simp: scanStatuses_def)

datatype collector_status =
    CollectorRan | CollectorPartial | CollectorFailed | CollectorSkipped
  | CollectorOther string

fun collectorStatus_str :: "collector_status \<Rightarrow> string" where
  "collectorStatus_str CollectorRan = ''ran''"
| "collectorStatus_str CollectorPartial = ''partial''"
| "collectorStatus_str CollectorFailed = ''failed''"
| "collectorStatus_str CollectorSkipped = ''skipped''"
| "collectorStatus_str (CollectorOther s) = s"

definition collectorStatuses :: "collector_status list" where
  "collectorStatuses =
     [CollectorRan, CollectorPartial, CollectorFailed, CollectorSkipped]"

definition collectorStatus_Valid :: "collector_status \<Rightarrow> bool" where
  "collectorStatus_Valid v = validEnum v collectorStatuses"

definition collectorStatus_of :: "string \<Rightarrow> collector_status" where
  "collectorStatus_of = enum_of collectorStatus_str collectorStatuses CollectorOther"

definition ParseCollectorStatus :: "string \<Rightarrow> unknown_value_error + collector_status" where
  "ParseCollectorStatus s = parseEnum collectorStatus_str collectorStatus_of s collectorStatuses ''collector status''"

interpretation collectorStatus_enum: string_enum collectorStatus_str collectorStatuses CollectorOther
  by unfold_locales (auto simp: collectorStatuses_def)

datatype action_status =
    ActionPending | ActionApplied | ActionSkipped | ActionFailed | ActionReverted
  | ActionStatusOther string

fun actionStatus_str :: "action_status \<Rightarrow> string" where
  "actionStatus_str ActionPending = ''pending''"
| "actionStatus_str ActionApplied = ''applied''"
| "actionStatus_str ActionSkipped = ''skipped''"
| "actionStatus_str ActionFailed = ''failed''"
| "actionStatus_str ActionReverted = ''reverted''"
| "actionStatus_str (ActionStatusOther s) = s"

definition actionStatuses :: "action_status list" where
  "actionStatuses =
     [ActionPending, ActionApplied, ActionSkipped, ActionFailed, ActionReverted]"

definition actionStatus_Valid :: "action_status \<Rightarrow> bool" where
  "actionStatus_Valid v = validEnum v actionStatuses"

definition actionStatus_of :: "string \<Rightarrow> action_status" where
  "actionStatus_of = enum_of actionStatus_str actionStatuses ActionStatusOther"

definition ParseActionStatus :: "string \<Rightarrow> unknown_value_error + action_status" where
  "ParseActionStatus s = parseEnum actionStatus_str actionStatus_of s actionStatuses ''action status''"

interpretation actionStatus_enum: string_enum actionStatus_str actionStatuses ActionStatusOther
  by unfold_locales (auto simp: actionStatuses_def)

datatype plan_status =
    PlanDraft | PlanReady | PlanApplied | PlanPartial | PlanSuperseded | PlanOther string

fun planStatus_str :: "plan_status \<Rightarrow> string" where
  "planStatus_str PlanDraft = ''draft''"
| "planStatus_str PlanReady = ''ready''"
| "planStatus_str PlanApplied = ''applied''"
| "planStatus_str PlanPartial = ''partially_applied''"
| "planStatus_str PlanSuperseded = ''superseded''"
| "planStatus_str (PlanOther s) = s"

definition planStatuses :: "plan_status list" where
  "planStatuses =
     [PlanDraft, PlanReady, PlanApplied, PlanPartial, PlanSuperseded]"

definition planStatus_Valid :: "plan_status \<Rightarrow> bool" where
  "planStatus_Valid v = validEnum v planStatuses"

definition planStatus_of :: "string \<Rightarrow> plan_status" where
  "planStatus_of = enum_of planStatus_str planStatuses PlanOther"

definition ParsePlanStatus :: "string \<Rightarrow> unknown_value_error + plan_status" where
  "ParsePlanStatus s = parseEnum planStatus_str planStatus_of s planStatuses ''plan status''"

interpretation planStatus_enum: string_enum planStatus_str planStatuses PlanOther
  by unfold_locales (auto simp: planStatuses_def)

section \<open>Scans\<close>

record collector_report =
  rep_Name :: string
  rep_Status :: collector_status
  rep_Detail :: string
  rep_Visited :: int
  rep_Recorded :: int
  rep_Unknowns :: int

definition CollectorReport_Validate :: "collector_report \<Rightarrow> string \<Rightarrow> field_errors" where
  "CollectorReport_Validate r field =
     err_if (blank (rep_Name r)) (field @ ''.name'') ''must not be empty'' []
   @ err_if (\<not> collectorStatus_Valid (rep_Status r)) (field @ ''.status'')
       ''unknown collector status %q'' [GStr (collectorStatus_str (rep_Status r))]
   @ concat (map (\<lambda>(name, value).
       err_if (value < 0) (field @ ''.'' @ name) ''must not be negative, got %d'' [GInt value])
       [(''visited'', rep_Visited r), (''recorded'', rep_Recorded r), (''unknowns'', rep_Unknowns r)])"

record scan =
  scan_ContractVersion :: int
  scan_ID :: string
  scan_Roots :: "string list"
  scan_Status :: scan_status
  scan_StartedAt :: time
  scan_FinishedAt :: "time option"
  scan_EntryCount :: int
  scan_Collectors :: "collector_report list"
  scan_Error :: string

definition Scan_Normalize :: "scan \<Rightarrow> scan" where
  "Scan_Normalize s =
     s\<lparr>scan_ContractVersion :=
         (if scan_ContractVersion s = 0 then ContractVersion else scan_ContractVersion s),
       scan_Status := (if scan_Status s = ScanOther '''' then ScanRunning else scan_Status s),
       scan_Collectors := sort_key rep_Name (scan_Collectors s)\<rparr>"

definition Scan_Validate :: "scan \<Rightarrow> field_errors option" where
  "Scan_Validate s = ErrorOrNil (
     err_if (scan_ContractVersion s \<noteq> ContractVersion) ''contract_version'' ''must be %d, got %d''
       [GInt ContractVersion, GInt (scan_ContractVersion s)]
   @ err_if (blank (scan_ID s)) ''id'' ''must not be empty'' []
   @ err_if (scan_Roots s = []) ''roots'' ''must contain at least one root'' []
   @ validate_all (\<lambda>root field. err_if (\<not> isAbsClean root) field
       ''must be an absolute, cleaned path, got %q'' [GStr root]) ''roots'' (scan_Roots s)
   @ err_if (\<not> scanStatus_Valid (scan_Status s)) ''status''
       ''unknown scan status %q'' [GStr (scanStatus_str (scan_Status s))]
   @ err_if (scan_StartedAt s = time_zero) ''started_at'' ''must be set'' []
   @ err_if (scan_EntryCount s < 0) ''entry_count''
       ''must not be negative, got %d'' [GInt (scan_EntryCount s)]
   @ concat (map (\<lambda>(i, r).
         CollectorReport_Validate r (indexed ''collectors'' i)
       @ err_if (rep_Name r \<in> set (map rep_Name (take i (scan_Collectors s))))
           (indexed ''collectors'' i @ ''.name'') ''duplicate collector report %q'' [GStr (rep_Name r)])
       (enumerate 0 (scan_Collectors s))))"

section \<open>Actions and plans\<close>

record rejected_action =
  rej_Kind :: action_kind
  rej_Rule :: string
  rej_Reason :: string
  rej_Conflict :: bool

record action =
  act_ID :: string
  act_PlanID :: string
  act_Path :: string
  act_Kind :: action_kind
  act_Class :: artifact_class
  act_Retention :: retention
  act_Confidence :: go_float
  act_Status :: action_status
  act_Destination :: string
  act_FilesystemID :: filesystem_id
  act_Fingerprint :: string
  act_Reasons :: "string list"
  act_Rules :: "string list"
  act_Rejected :: "rejected_action list"
  act_Guards :: "string list"
  act_CreatedAt :: time
  act_AppliedAt :: "time option"

definition Action_Normalize :: "action \<Rightarrow> action" where
  "Action_Normalize a =
     a\<lparr>act_Status := (if act_Status a = ActionStatusOther '''' then ActionPending else act_Status a),
       act_Retention := (if act_Retention a = RetentionUnset then RetentionNone else act_Retention a),
       act_Class := (if act_Class a = ClassOther '''' then ClassUnknown else act_Class a)\<rparr>"

definition Action_Validate :: "action \<Rightarrow> string \<Rightarrow> field_errors" where
  "Action_Validate a field =
     err_if (blank (act_ID a)) (field @ ''.id'') ''must not be empty'' []
   @ err_if (\<not> isAbsClean (act_Path a)) (field @ ''.path'')
       ''must be an absolute, cleaned path, got %q'' [GStr (act_Path a)]
   @ err_if (\<not> actionKind_Valid (act_Kind a)) (field @ ''.kind'')
       ''unknown action kind %q'' [GStr (actionKind_str (act_Kind a))]
   @ err_if (\<not> retention_Valid (act_Retention a)) (field @ ''.retention'')
       ''unknown retention %q'' [GStr (retention_str (act_Retention a))]
   @ err_if (\<not> actionStatus_Valid (act_Status a)) (field @ ''.status'')
       ''unknown action status %q'' [GStr (actionStatus_str (act_Status a))]
   @ err_if (float_lt (act_Confidence a) (Fin 0) \<or> float_lt (Fin 1) (act_Confidence a))
       (field @ ''.confidence'') ''must be within [0,1], got %v'' [GFlt (act_Confidence a)]
   @ err_if (act_Kind a = ActionRelocate \<and> \<not> isAbsClean (act_Destination a)) (field @ ''.destination'')
       ''relocate requires an absolute destination, got %q'' [GStr (act_Destination a)]
   @ err_if (act_CreatedAt a = time_zero) (field @ ''.created_at'') ''must be set'' []"

record plan =
  plan_ContractVersion :: int
  plan_ID :: string
  plan_ScanID :: string
  plan_Status :: plan_status
  plan_CreatedAt :: time
  plan_EvidenceDigest :: string
  plan_PolicyDigest :: string
  plan_Advisor :: string
  plan_Actions :: "action list"

definition Plan_Normalize :: "plan \<Rightarrow> plan" where
  "Plan_Normalize p =
     p\<lparr>plan_ContractVersion :=
         (if plan_ContractVersion p = 0 then ContractVersion else plan_ContractVersion p),
       plan_Status := (if plan_Status p = PlanOther '''' then PlanDraft else plan_Status p),
       plan_Advisor := (if plan_Advisor p = '''' then ''rules-only'' else plan_Advisor p),
       plan_Actions :=
         sort_key (\<lambda>a. (act_Path a, act_ID a))
           (map (\<lambda>a. Action_Normalize (a\<lparr>act_PlanID := plan_ID p\<rparr>)) (plan_Actions p))\<rparr>"

definition Plan_Validate :: "plan \<Rightarrow> field_errors option" where
  "Plan_Validate p = ErrorOrNil (
     err_if (plan_ContractVersion p \<noteq> ContractVersion) ''contract_version'' ''must be %d, got %d''
       [GInt ContractVersion, GInt (plan_ContractVersion p)]
   @ err_if (blank (plan_ID p)) ''id'' ''must not be empty'' []
   @ err_if (blank (plan_ScanID p)) ''scan_id'' ''must not be empty'' []
   @ err_if (\<not> planStatus_Valid (plan_Status p)) ''status''
       ''unknown plan status %q'' [GStr (planStatus_str (plan_Status p))]
   @ err_if (plan_CreatedAt p = time_zero) ''created_at'' ''must be set'' []
   @ concat (map (\<lambda>(i, a).
         Action_Validate a (indexed ''actions'' i)
       @ err_if (act_ID a \<in> set (map act_ID (take i (plan_Actions p))))
           (indexed ''actions'' i @ ''.id'') ''duplicate action id %q'' [GStr (act_ID a)]
       @ err_if (act_PlanID a \<noteq> plan_ID p) (indexed ''actions'' i @ ''.plan_id'')
           ''must be %q, got %q'' [GStr (plan_ID p), GStr (act_PlanID a)])
       (enumerate 0 (plan_Actions p))))"

record plan_summary =
  sum_PlanID :: string
  sum_Total :: int
  sum_ByKind :: "(action_kind \<times> int) list"
  sum_Mutates :: int

definition Plan_Summary :: "plan \<Rightarrow> plan_summary" where
  "Plan_Summary p =
     \<lparr>sum_PlanID = plan_ID p,
      sum_Total = int (length (plan_Actions p)),
      sum_ByKind =
        map (\<lambda>kind. (kind, int (length (filter (\<lambda>a. act_Kind a = kind) (plan_Actions p))))) actionKinds,
      sum_Mutates = int (length (filter (\<lambda>a. Mutating (act_Kind a)) (plan_Actions p)))\<rparr>"

section \<open>Model usage and approvals\<close>

record model_usage =
  use_ID :: string
  use_ScanID :: string
  use_Provider :: string
  use_Model :: string
  use_RequestKind :: string
  use_PromptTokens :: int64
  use_CompletionTokens :: int64
  use_EstimatedCostUSD :: go_float
  use_CreatedAt :: time

definition ModelUsage_Validate :: "model_usage \<Rightarrow> field_errors option" where
  "ModelUsage_Validate u = ErrorOrNil (
     err_if (blank (use_ID u)) ''id'' ''must not be empty'' []
   @ err_if (blank (use_Provider u)) ''provider'' ''must not be empty'' []
   @ err_if (blank (use_Model u)) ''model'' ''must not be empty'' []
   @ err_if (sint (use_PromptTokens u) < 0) ''prompt_tokens'' ''must not be negative, got %d''
       [GInt (sint (use_PromptTokens u))]
   @ err_if (sint (use_CompletionTokens u) < 0) ''completion_tokens'' ''must not be negative, got %d''
       [GInt (sint (use_CompletionTokens u))]
   @ err_if (float_lt (use_EstimatedCostUSD u) (Fin 0)) ''estimated_cost_usd''
       ''must not be negative, got %v'' [GFlt (use_EstimatedCostUSD u)]
   @ err_if (use_CreatedAt u = time_zero) ''created_at'' ''must be set'' [])"

record approval =
  app_PlanID :: string
  app_ActionID :: string
  app_Approver :: string
  app_ApprovedAt :: time
  app_Note :: string

definition Approval_Normalize :: "approval \<Rightarrow> approval" where
  "Approval_Normalize a =
     a\<lparr>app_Approver := (if app_Approver a = '''' then ''operator'' else app_Approver a)\<rparr>"

definition Approval_Validate :: "approval \<Rightarrow> field_errors option" where
  "Approval_Validate a = ErrorOrNil (
     err_if (blank (app_PlanID a)) ''plan_id'' ''must not be empty'' []
   @ err_if (blank (app_ActionID a)) ''action_id'' ''must not be empty'' []
   @ err_if (blank (app_Approver a)) ''approver'' ''must not be empty'' []
   @ err_if (app_ApprovedAt a = time_zero) ''approved_at'' ''must be set'' [])"

section \<open>Facts\<close>

lemma enumerate_concat_Nil:
  "concat (map f (enumerate 0 xs)) = [] \<longleftrightarrow> (\<forall>i < length xs. f (i, xs ! i) = [])"
proof -
  have "set (enumerate 0 xs) = (\<lambda>i. (i, xs ! i)) ` {..<length xs}"
    by (auto simp: in_set_enumerate_eq image_iff)
  then show ?thesis by auto
qed

lemma distinct_iff_take:
  "distinct xs \<longleftrightarrow> (\<forall>i < length xs. xs ! i \<notin> set (take i xs))"
proof (induction xs rule: rev_induct)
  case (snoc x xs)
  have "(\<forall>i < Suc (length xs). (xs @ [x]) ! i \<notin> set (take i (xs @ [x])))
      \<longleftrightarrow> (\<forall>i < length xs. xs ! i \<notin> set (take i xs)) \<and> x \<notin> set xs"
    by (auto simp: less_Suc_eq nth_append)
  then show ?case using snoc by auto
qed simp

lemma Action_Validate_Nil:
  "Action_Validate a field = [] \<longleftrightarrow>
     \<not> blank (act_ID a) \<and> isAbsClean (act_Path a) \<and> actionKind_Valid (act_Kind a)
   \<and> retention_Valid (act_Retention a) \<and> actionStatus_Valid (act_Status a)
   \<and> \<not> float_lt (act_Confidence a) (Fin 0) \<and> \<not> float_lt (Fin 1) (act_Confidence a)
   \<and> (act_Kind a = ActionRelocate \<longrightarrow> isAbsClean (act_Destination a))
   \<and> act_CreatedAt a \<noteq> time_zero"
  by (auto simp: Action_Validate_def)

text \<open>What a plan that passes \<open>Validate\<close> guarantees.\<close>

lemma Plan_Validate_None:
  "Plan_Validate p = None \<longleftrightarrow>
     plan_ContractVersion p = ContractVersion \<and> \<not> blank (plan_ID p) \<and> \<not> blank (plan_ScanID p)
   \<and> planStatus_Valid (plan_Status p) \<and> plan_CreatedAt p \<noteq> time_zero
   \<and> (\<forall>a \<in> set (plan_Actions p). Action_Validate a [] = [] \<and> act_PlanID a = plan_ID p)
   \<and> distinct (map act_ID (plan_Actions p))"
proof -
  have av: "Action_Validate a f = [] \<longleftrightarrow> Action_Validate a [] = []" for a f
    by (simp add: Action_Validate_Nil)
  have d: "distinct (map act_ID (plan_Actions p)) \<longleftrightarrow>
      (\<forall>i < length (plan_Actions p).
         act_ID (plan_Actions p ! i) \<notin> set (map act_ID (take i (plan_Actions p))))"
    by (simp add: distinct_iff_take take_map del: distinct_map set_map cong: imp_cong)
  have v: "(\<forall>i < length (plan_Actions p). Action_Validate (plan_Actions p ! i) (g i) = []
        \<and> act_ID (plan_Actions p ! i) \<notin> set (map act_ID (take i (plan_Actions p)))
        \<and> act_PlanID (plan_Actions p ! i) = plan_ID p)
      \<longleftrightarrow> (\<forall>a \<in> set (plan_Actions p). Action_Validate a [] = [] \<and> act_PlanID a = plan_ID p)
        \<and> distinct (map act_ID (plan_Actions p))" for g
    unfolding d all_set_conv_all_nth av [of _ "g _"] by blast
  show ?thesis
    unfolding Plan_Validate_def ErrorOrNil_None append_is_Nil_conv err_if_Nil enumerate_concat_Nil
      prod.case not_not v by blast
qed

lemma Plan_Normalize_actions:
  "mset (plan_Actions (Plan_Normalize p)) =
     image_mset (\<lambda>a. Action_Normalize (a\<lparr>act_PlanID := plan_ID p\<rparr>)) (mset (plan_Actions p))"
  by (simp add: Plan_Normalize_def)

lemma Plan_Normalize_sorted:
  "sorted (map (\<lambda>a. (act_Path a, act_ID a)) (plan_Actions (Plan_Normalize p)))"
  by (simp add: Plan_Normalize_def)

lemma Action_Normalize_idem: "Action_Normalize (Action_Normalize a) = Action_Normalize a"
  by (simp add: Action_Normalize_def)

lemma Plan_Summary_total:
  assumes "\<forall>a \<in> set (plan_Actions p). actionKind_Valid (act_Kind a)"
  shows "sum_list (map snd (sum_ByKind (Plan_Summary p))) = sum_Total (Plan_Summary p)"
proof -
  have "int (length (filter (\<lambda>a. act_Kind a = ActionKeep) as))
      + int (length (filter (\<lambda>a. act_Kind a = ActionRelocate) as))
      + int (length (filter (\<lambda>a. act_Kind a = ActionQuarantine) as))
      + int (length (filter (\<lambda>a. act_Kind a = ActionDeleteCandidate) as))
      + int (length (filter (\<lambda>a. act_Kind a = ActionInvestigate) as)) = int (length as)"
    if "\<forall>a \<in> set as. actionKind_Valid (act_Kind a)" for as
    using that by (induction as) (auto simp: actionKind_Valid_def validEnum_def actionKinds_def)
  from this [OF assms] show ?thesis
    by (simp add: Plan_Summary_def actionKinds_def)
qed

section \<open>A concrete entry\<close>

text \<open>An unprotected, fully observed directory: the input of the witnesses of later theories.\<close>

definition sample_entry :: entry where
  "sample_entry =
     \<lparr>ent_ContractVersion = 1, ent_Path = ''/w/a'', ent_Root = ''/w'', ent_Kind = EntryKindDirectory,
      ent_FilesystemID = \<lparr>fs_Device = 8, fs_Inode = 42\<rparr>,
      ent_Ownership = \<lparr>own_UID = 1000, own_GID = 1000, own_Mode = ''drwxr-xr-x''\<rparr>,
      ent_SizeBytes = 4096, ent_SizeIsLowerBound = False, ent_SizeIsDeep = True,
      ent_ModifiedAt = 5, ent_LatestModifiedAt = 5, ent_AccessedAt = 5, ent_SymlinkTarget = '''',
      ent_CanonicalPath = '''', ent_Destination = '''', ent_Fingerprint = '''', ent_Class = ClassCache,
      ent_Git = None, ent_ExportArchive = None, ent_WorkspaceArchive = None, ent_Evidence = [],
      ent_Protections = [], ent_Recommendation = None, ent_ObservedAt = 7\<rparr>"

end
