(* ===== verification/CoreVerdict.thy ===== *)
theory CoreVerdict
  imports CoreEntry
begin

text \<open>
  \<open>internal/core/verdict.go\<close>: the safety decision, the verdict on one path, its normal form (which
  computes the decision from the protections), the single gate \<open>Allows\<close> and its validation.
\<close>

section \<open>Decisions and verdicts\<close>

datatype safety_decision = DecisionAllow | DecisionRefuse | DecisionOther string

fun safetyDecision_str :: "safety_decision \<Rightarrow> string" where
  "safetyDecision_str DecisionAllow = ''allow''"
| "safetyDecision_str DecisionRefuse = ''refuse''"
| "safetyDecision_str (DecisionOther s) = s"

definition safetyDecisions :: "safety_decision list" where
  "safetyDecisions = [DecisionAllow, DecisionRefuse]"

definition safetyDecision_Valid :: "safety_decision \<Rightarrow> bool" where
  "safetyDecision_Valid d = validEnum d safetyDecisions"

definition safetyDecision_of :: "string \<Rightarrow> safety_decision" where
  "safetyDecision_of = enum_of safetyDecision_str safetyDecisions DecisionOther"

definition ParseSafetyDecision :: "string \<Rightarrow> unknown_value_error + safety_decision" where
  "ParseSafetyDecision s =
     parseEnum safetyDecision_str safetyDecision_of s safetyDecisions ''safety decision''"

interpretation safetyDecision_enum: string_enum safetyDecision_str safetyDecisions DecisionOther
  by unfold_locales (auto simp: safetyDecisions_def)

record verdict =
  ver_ContractVersion :: int
  ver_Path :: string
  ver_Decision :: safety_decision
  ver_Protections :: "protection list"
  ver_Guards :: "string list"
  ver_EvaluatedAt :: time

section \<open>Operations\<close>

text \<open>The key \<open>sort.SliceStable\<close> compares protections by.\<close>

definition prot_key :: "protection \<Rightarrow> string \<times> string" where
  "prot_key p = (protectionKind_str (prot_Kind p), prot_Reason p)"

definition decide :: "protection list \<Rightarrow> safety_decision" where
  "decide ps = (if \<exists>p \<in> set ps. prot_Blocking p then DecisionRefuse else DecisionAllow)"

definition Verdict_Normalize :: "verdict \<Rightarrow> verdict" where
  "Verdict_Normalize v =
     (let ps = sort_key prot_key (ver_Protections v)
      in v\<lparr>ver_ContractVersion :=
             (if ver_ContractVersion v = 0 then ContractVersion else ver_ContractVersion v),
           ver_Protections := ps,
           ver_Guards := sort (ver_Guards v),
           ver_Decision := decide ps\<rparr>)"

definition Refused :: "verdict \<Rightarrow> bool" where
  "Refused v \<longleftrightarrow> ver_Decision v = DecisionRefuse"

definition Allows :: "verdict \<Rightarrow> action_kind \<Rightarrow> bool" where
  "Allows v kind \<longleftrightarrow> (if \<not> Mutating kind then True else \<not> Refused v)"

text \<open>The loop of \<open>Kinds\<close>: the kinds already seen, and the list built so far.\<close>

fun kinds_loop :: "protection_kind list \<Rightarrow> protection list \<Rightarrow> protection_kind list" where
  "kinds_loop seen [] = []"
| "kinds_loop seen (p # ps) =
     (if prot_Kind p \<in> set seen then kinds_loop seen ps
      else prot_Kind p # kinds_loop (prot_Kind p # seen) ps)"

definition Kinds :: "verdict \<Rightarrow> protection_kind list" where
  "Kinds v = kinds_loop [] (ver_Protections v)"

definition Verdict_Summary :: "verdict \<Rightarrow> string" where
  "Verdict_Summary v =
     (if \<not> Refused v then ''allow''
      else ''refuse: '' @ join '','' (map protectionKind_str (Kinds v)))"

function itoa_digits :: "int \<Rightarrow> string \<Rightarrow> string" where
  "itoa_digits i digits =
     (if 0 < i then itoa_digits (i div 10) (char_of (48 + nat (i mod 10)) # digits) else digits)"
  by pat_completeness auto
termination by (relation "measure (\<lambda>(i, _). nat i)") auto

definition itoa :: "int \<Rightarrow> string" where
  "itoa i = (if i = 0 then ''0'' else itoa_digits i [])"

definition verdict_field :: "nat \<Rightarrow> string" where
  "verdict_field i = ''protections['' @ itoa (int i) @ '']''"

definition Verdict_Validate :: "verdict \<Rightarrow> field_errors option" where
  "Verdict_Validate v =
    (let blocking = (\<exists>p \<in> set (ver_Protections v). prot_Blocking p)
     in ErrorOrNil (
       err_if (ver_ContractVersion v \<noteq> ContractVersion) ''contract_version'' ''must be %d, got %d''
         [GInt ContractVersion, GInt (ver_ContractVersion v)]
     @ err_if (\<not> isAbsClean (ver_Path v)) ''path''
         ''must be an absolute, cleaned path, got %q'' [GStr (ver_Path v)]
     @ err_if (\<not> safetyDecision_Valid (ver_Decision v)) ''decision''
         ''unknown safety decision %q'' [GStr (safetyDecision_str (ver_Decision v))]
     @ err_if (ver_EvaluatedAt v = time_zero) ''evaluated_at'' ''must be set'' []
     @ err_if (ver_Guards v = []) ''guards'' ''must name the checks that ran'' []
     @ concat (map (\<lambda>(i, p).
           Protection_Validate p (verdict_field i)
         @ err_if (prot_Blocking p \<and> blank (prot_Remediation p))
             (verdict_field i @ ''.remediation'')
             ''a refusal must tell the operator how to clear it'' [])
         (enumerate 0 (ver_Protections v)))
     @ err_if (blocking \<and> ver_Decision v \<noteq> DecisionRefuse) ''decision''
         ''must be %q while a blocking protection applies'' [GStr (safetyDecision_str DecisionRefuse)]
     @ err_if (\<not> blocking \<and> ver_Decision v \<noteq> DecisionAllow) ''decision''
         ''must be %q when no blocking protection applies''
         [GStr (safetyDecision_str DecisionAllow)]))"

section \<open>Facts\<close>

declare itoa_digits.simps [simp del]

lemma itoa_digits_show: "0 < n \<Longrightarrow> itoa_digits (int n) ds = show_nat n @ ds"
proof (induction n arbitrary: ds rule: show_nat.induct)
  case (1 n)
  have d: "nat (int n mod 10) = n mod 10" "int n div 10 = int (n div 10)"
    by (simp_all add: nat_mod_distrib zdiv_int)
  show ?case
  proof (cases "n < 10")
    case True
    then show ?thesis
      using 1 by (simp add: itoa_digits.simps [of "int n"] itoa_digits.simps [of 0] digit_char_def d
        show_nat.simps [of n])
  next
    case False
    then show ?thesis
      using 1 by (simp add: itoa_digits.simps [of "int n"] digit_char_def d show_nat.simps [of n])
  qed
qed

lemma itoa_nat: "itoa (int n) = show_nat n"
proof (cases "n = 0")
  case True
  have "char_of (48 :: nat) = CHR ''0''" by code_simp
  with True show ?thesis by (simp add: itoa_def digit_char_def show_nat.simps [of 0])
next
  case False
  then show ?thesis using itoa_digits_show [of n "[]"] by (simp add: itoa_def)
qed

lemma Normalize_simps [simp]:
  "mset (ver_Protections (Verdict_Normalize v)) = mset (ver_Protections v)"
  "set (ver_Protections (Verdict_Normalize v)) = set (ver_Protections v)"
  "mset (ver_Guards (Verdict_Normalize v)) = mset (ver_Guards v)"
  "set (ver_Guards (Verdict_Normalize v)) = set (ver_Guards v)"
  "ver_Path (Verdict_Normalize v) = ver_Path v"
  "ver_EvaluatedAt (Verdict_Normalize v) = ver_EvaluatedAt v"
  "ver_Guards (Verdict_Normalize v) = [] \<longleftrightarrow> ver_Guards v = []"
  by (simp_all add: Verdict_Normalize_def Let_def)
     (metis mset_sort mset_zero_iff)

lemma Normalize_ver_decision:
  "ver_Decision (Verdict_Normalize v) = decide (ver_Protections v)"
  by (simp add: Verdict_Normalize_def decide_def Let_def)

lemma Normalize_refused_iff:
  "Refused (Verdict_Normalize v) \<longleftrightarrow> (\<exists>p \<in> set (ver_Protections v). prot_Blocking p)"
  by (simp add: Refused_def Normalize_ver_decision decide_def)

lemma Allows_Normalize_iff:
  "Allows (Verdict_Normalize v) k \<longleftrightarrow>
     (Mutating k \<longrightarrow> (\<forall>p \<in> set (ver_Protections v). \<not> prot_Blocking p))"
  by (auto simp: Allows_def Normalize_refused_iff)

lemma Normalize_sorted:
  "sorted (map prot_key (ver_Protections (Verdict_Normalize v)))"
  "sorted (ver_Guards (Verdict_Normalize v))"
  by (simp_all add: Verdict_Normalize_def Let_def)

lemma Normalize_idem: "Verdict_Normalize (Verdict_Normalize v) = Verdict_Normalize v"
proof -
  have "sort_key prot_key (sort_key prot_key ps) = sort_key prot_key ps" for ps
    by (rule sort_key_id_if_sorted) simp
  moreover have "sort (sort gs) = sort gs" for gs :: "string list"
    by (rule sort_key_id_if_sorted) simp
  ultimately show ?thesis
    by (simp add: Verdict_Normalize_def Let_def ContractVersion_def decide_def)
qed

lemma kinds_loop_set: "set (kinds_loop seen ps) = prot_Kind ` set ps - set seen"
  by (induction seen ps rule: kinds_loop.induct) auto

lemma kinds_loop_distinct: "distinct (kinds_loop seen ps)"
  by (induction seen ps rule: kinds_loop.induct) (auto simp: kinds_loop_set)

lemma Kinds_set: "set (Kinds v) = prot_Kind ` set (ver_Protections v)"
  by (simp add: Kinds_def kinds_loop_set)

lemma Kinds_distinct: "distinct (Kinds v)"
  by (simp add: Kinds_def kinds_loop_distinct)

text \<open>A normalized verdict lists its kinds in order, so the summary is canonical.\<close>

lemma kinds_loop_sorted:
  "sorted (map prot_key ps) \<Longrightarrow> sorted (map protectionKind_str (kinds_loop seen ps))"
proof (induction seen ps rule: kinds_loop.induct)
  case (2 seen p ps)
  have "protectionKind_str (prot_Kind p) \<le> protectionKind_str (prot_Kind q)" if "q \<in> set ps" for q
    using 2(3) that by (auto simp: prot_key_def less_eq_prod_def)
  then show ?case using 2 by (auto simp: kinds_loop_set)
qed simp

lemma Kinds_Normalize_sorted:
  "sorted (map protectionKind_str (Kinds (Verdict_Normalize v)))"
  unfolding Kinds_def by (rule kinds_loop_sorted [OF Normalize_sorted(1)])

text \<open>
  A normalized verdict on a canonical path, evaluated at a set time with guards that ran, validates
  exactly when its protections do and every blocking one says how to clear it.
\<close>

lemma Protection_Validate_Nil:
  "Protection_Validate p f = [] \<longleftrightarrow>
     protectionKind_Valid (prot_Kind p) \<and> evidenceSource_Valid (prot_Source p) \<and> \<not> blank (prot_Reason p)"
  by (simp add: Protection_Validate_def)

definition prot_ok :: "protection \<Rightarrow> bool" where
  "prot_ok p \<longleftrightarrow> protectionKind_Valid (prot_Kind p) \<and> evidenceSource_Valid (prot_Source p)
     \<and> \<not> blank (prot_Reason p) \<and> (prot_Blocking p \<longrightarrow> \<not> blank (prot_Remediation p))"

lemma verdict_protections_Nil:
  "concat (map (\<lambda>(i, p). Protection_Validate p (verdict_field i)
       @ err_if (prot_Blocking p \<and> blank (prot_Remediation p)) (g i) h [])
     (enumerate n ps)) = [] \<longleftrightarrow> (\<forall>p \<in> set ps. prot_ok p)"
  by (induction ps arbitrary: n) (auto simp: Protection_Validate_Nil prot_ok_def)

lemma Verdict_Validate_None:
  "Verdict_Validate v = None \<longleftrightarrow>
     ver_ContractVersion v = ContractVersion \<and> isAbsClean (ver_Path v)
   \<and> ver_EvaluatedAt v \<noteq> time_zero \<and> ver_Guards v \<noteq> []
   \<and> (\<forall>p \<in> set (ver_Protections v). prot_ok p)
   \<and> ver_Decision v = decide (ver_Protections v)"
proof -
  have dec: "safetyDecision_Valid (decide ps)" for ps
    by (simp add: decide_def safetyDecision_Valid_def validEnum_def safetyDecisions_def)
  have "(safetyDecision_Valid d \<and> \<not> (b \<and> d \<noteq> DecisionRefuse) \<and> \<not> (\<not> b \<and> d \<noteq> DecisionAllow))
      \<longleftrightarrow> d = (if b then DecisionRefuse else DecisionAllow)" for d b
    by (auto simp: safetyDecision_Valid_def validEnum_def safetyDecisions_def)
  from this [of "ver_Decision v" "\<exists>p \<in> set (ver_Protections v). prot_Blocking p"] show ?thesis
    unfolding Verdict_Validate_def Let_def ErrorOrNil_None append_is_Nil_conv err_if_Nil
      verdict_protections_Nil decide_def by blast
qed

lemma Normalize_Validate_None:
  assumes "ver_ContractVersion v \<in> {0, ContractVersion}" "isAbsClean (ver_Path v)"
    "ver_EvaluatedAt v \<noteq> time_zero" "ver_Guards v \<noteq> []" "\<forall>p \<in> set (ver_Protections v). prot_ok p"
  shows "Verdict_Validate (Verdict_Normalize v) = None"
proof -
  have "ver_Decision (Verdict_Normalize v) = decide (ver_Protections (Verdict_Normalize v))"
    by (simp add: Normalize_ver_decision decide_def)
  moreover have "ver_ContractVersion (Verdict_Normalize v) = ContractVersion"
    using assms(1) by (auto simp: Verdict_Normalize_def Let_def)
  ultimately show ?thesis using assms by (simp add: Verdict_Validate_None)
qed

section \<open>Properties\<close>

text \<open>The gate every mutation passes: a normalized verdict allows an action exactly when the action
  mutates nothing or no protection blocks, whatever decision the verdict held before.\<close>

theorem verdict_gate:
  "Allows (Verdict_Normalize v) k \<longleftrightarrow>
     (if Mutating k then list_all (\<lambda>p. \<not> prot_Blocking p) (ver_Protections v) else True)"
  by (simp add: Allows_Normalize_iff list_all_iff)

text \<open>Normalization is canonical: verdicts that differ only in the order of their protections and
  guards and in their stale decision normalize to the same verdict, provided no two protections share
  kind and reason; and normalizing again changes nothing.\<close>

theorem verdict_canonical:
  assumes "mset ps = mset ps'" and "mset gs = mset gs'" and "distinct_by prot_key ps"
  shows "Verdict_Normalize (v\<lparr>ver_Protections := ps, ver_Guards := gs, ver_Decision := d\<rparr>)
       = Verdict_Normalize (v\<lparr>ver_Protections := ps', ver_Guards := gs', ver_Decision := d'\<rparr>)
     \<and> Verdict_Normalize (Verdict_Normalize v) = Verdict_Normalize v"
proof -
  have "sort_key prot_key ps = sort_key prot_key ps'"
    using assms by (intro sort_key_perm_eq) (auto simp: distinct_by_def distinct_map)
  moreover have "sort gs = sort gs'"
    using assms(2) by (metis sorted_list_of_multiset_mset)
  ultimately have "Verdict_Normalize (v\<lparr>ver_Protections := ps, ver_Guards := gs, ver_Decision := d\<rparr>)
       = Verdict_Normalize (v\<lparr>ver_Protections := ps', ver_Guards := gs', ver_Decision := d'\<rparr>)"
    by (simp add: Verdict_Normalize_def Let_def)
  then show ?thesis using Normalize_idem by blast
qed

definition sample_protection :: "protection_kind \<Rightarrow> string \<Rightarrow> bool \<Rightarrow> protection" where
  "sample_protection k r b =
     \<lparr>prot_Kind = k, prot_Reason = r, prot_Source = SourcePolicy, prot_Remediation = ''wait'',
      prot_Blocking = b\<rparr>"

theorem verdict_canonical_witness:
  "\<exists>ps ps'. ps \<noteq> ps' \<and> Verdict_Normalize \<lparr>ver_ContractVersion = 0, ver_Path = ''/w'',
       ver_Decision = DecisionAllow, ver_Protections = ps, ver_Guards = [''g''], ver_EvaluatedAt = 1\<rparr>
   = Verdict_Normalize \<lparr>ver_ContractVersion = 0, ver_Path = ''/w'',
       ver_Decision = DecisionRefuse, ver_Protections = ps', ver_Guards = [''g''], ver_EvaluatedAt = 1\<rparr>"
proof -
  let ?a = "sample_protection ProtectPolicy ''pinned'' True"
  let ?b = "sample_protection ProtectPolicy ''fresh'' False"
  let ?v = "\<lparr>ver_ContractVersion = 0, ver_Path = ''/w'', ver_Decision = DecisionAllow,
    ver_Protections = [], ver_Guards = [], ver_EvaluatedAt = 1\<rparr>"
  have "mset [?a, ?b] = mset [?b, ?a]" "mset [''g''] = mset [''g'']" "distinct_by prot_key [?a, ?b]"
    by (simp_all add: distinct_by_def prot_key_def sample_protection_def)
  from verdict_canonical [OF this, where v = ?v and d = DecisionAllow and d' = DecisionRefuse]
  have "[?a, ?b] \<noteq> [?b, ?a] \<and> Verdict_Normalize
        (?v\<lparr>ver_Protections := [?a, ?b], ver_Guards := [''g''], ver_Decision := DecisionAllow\<rparr>)
      = Verdict_Normalize
        (?v\<lparr>ver_Protections := [?b, ?a], ver_Guards := [''g''], ver_Decision := DecisionRefuse\<rparr>)"
    by (simp add: sample_protection_def)
  then show ?thesis by (intro exI [of _ "[?a, ?b]"] exI [of _ "[?b, ?a]"]) simp
qed

text \<open>The kinds a refusal reports are exactly the kinds of its protections, each once and, after
  normalization, in order; so the summary line is canonical.\<close>

theorem Kinds_exact:
  "set (Kinds v) = prot_Kind ` set (ver_Protections v) \<and> distinct (Kinds v)
   \<and> sorted (map protectionKind_str (Kinds (Verdict_Normalize v)))"
  by (simp add: Kinds_set Kinds_distinct Kinds_Normalize_sorted)

end
