(* ===== verification/CoreCleanup.thy ===== *)
theory CoreCleanup
  imports CorePlan
begin

text \<open>
  \<open>internal/core/cleanup.go\<close>: the phases of one cleanup action, the transitions the journal permits,
  the journal record and its validation.
\<close>

section \<open>States\<close>

datatype cleanup_state =
    CleanupPrepared | CleanupQuarantined | CleanupRestored | CleanupDeleted | CleanupInvestigate
  | CleanupOther string

fun cleanupState_str :: "cleanup_state \<Rightarrow> string" where
  "cleanupState_str CleanupPrepared = ''prepared''"
| "cleanupState_str CleanupQuarantined = ''quarantined''"
| "cleanupState_str CleanupRestored = ''restored''"
| "cleanupState_str CleanupDeleted = ''deleted''"
| "cleanupState_str CleanupInvestigate = ''investigate''"
| "cleanupState_str (CleanupOther s) = s"

fun cleanupState_Valid :: "cleanup_state \<Rightarrow> bool" where
  "cleanupState_Valid (CleanupOther _) = False"
| "cleanupState_Valid _ = True"

definition CanTransitionTo :: "cleanup_state \<Rightarrow> cleanup_state \<Rightarrow> bool" where
  "CanTransitionTo s nxt = (case s of
     CleanupPrepared \<Rightarrow>
       nxt = CleanupQuarantined \<or> nxt = CleanupRestored \<or> nxt = CleanupInvestigate
   | CleanupQuarantined \<Rightarrow>
       nxt = CleanupRestored \<or> nxt = CleanupDeleted \<or> nxt = CleanupInvestigate
   | CleanupInvestigate \<Rightarrow>
       nxt = CleanupPrepared \<or> nxt = CleanupQuarantined \<or> nxt = CleanupRestored
   | _ \<Rightarrow> False)"

text \<open>
  A history is the list of the states an item has been in, the latest first.  It grows by permitted
  transitions and starts in the state \<open>ValidateInitial\<close> requires.
\<close>

inductive history :: "cleanup_state list \<Rightarrow> bool" where
  start: "history [CleanupPrepared]"
| step: "history (s # h) \<Longrightarrow> CanTransitionTo s t \<Longrightarrow> history (t # s # h)"

inductive_cases history_stepE: "history (t # s # h)"

section \<open>Items\<close>

record cleanup_item =
  cln_CleanupID :: string
  cln_PlanID :: string
  cln_ActionID :: string
  cln_Source :: string
  cln_Destination :: string
  cln_State :: cleanup_state
  cln_Entry :: entry
  cln_Action :: action
  cln_Quarantined :: "entry option"
  cln_CreatedAt :: time
  cln_UpdatedAt :: time
  cln_MovedAt :: "time option"
  cln_ExpiresAt :: "time option"
  cln_Reason :: string

definition CleanupItem_Normalize :: "cleanup_item \<Rightarrow> cleanup_item" where
  "CleanupItem_Normalize c =
     c\<lparr>cln_Entry := Entry_Normalize (cln_Entry c),
       cln_Action := Action_Normalize (cln_Action c),
       cln_Quarantined := map_option Entry_Normalize (cln_Quarantined c)\<rparr>"

definition safe_component :: "string \<Rightarrow> bool" where
  "safe_component v \<longleftrightarrow>
     \<not> (v = ''.'' \<or> v = ''..'' \<or> ContainsAny v [CHR ''/'', CHR 0x5C, CHR 0x00])"

definition CleanupItem_Validate :: "cleanup_item \<Rightarrow> field_errors option" where
  "CleanupItem_Validate c = ErrorOrNil (
     concat (map (\<lambda>(field, value).
         err_if (blank value) field ''must not be empty'' []
       @ err_if ((field = ''cleanup_id'' \<or> field = ''action_id'') \<and> \<not> safe_component value) field
           ''must be a single safe path component'' [])
       [(''cleanup_id'', cln_CleanupID c), (''plan_id'', cln_PlanID c), (''action_id'', cln_ActionID c)])
   @ err_if (\<not> isAbsClean (cln_Source c)) ''source''
       ''must be an absolute, cleaned path, got %q'' [GStr (cln_Source c)]
   @ err_if (\<not> isAbsClean (cln_Destination c)) ''destination''
       ''must be an absolute, cleaned path, got %q'' [GStr (cln_Destination c)]
   @ err_if (cln_Source c = cln_Destination c) ''destination'' ''must differ from source'' []
   @ err_if (\<not> cleanupState_Valid (cln_State c)) ''state'' ''unknown cleanup state %q''
       [GStr (cleanupState_str (cln_State c))]
   @ err_if (cln_CreatedAt c = time_zero) ''created_at'' ''must be set'' []
   @ err_if (cln_UpdatedAt c = time_zero \<or> cln_UpdatedAt c < cln_CreatedAt c) ''updated_at''
       ''must be set and not precede created_at'' []
   @ err_if (cln_MovedAt c = Some time_zero) ''moved_at'' ''must be set when present'' []
   @ err_if (cln_ExpiresAt c = Some time_zero) ''expires_at'' ''must be set when present'' []
   @ (case Entry_Validate (cln_Entry c) of
        None \<Rightarrow> [] | Some es \<Rightarrow> [FieldError ''entry'' ''%v'' [GErrs es]])
   @ Action_Validate (cln_Action c) ''action''
   @ err_if (ent_Path (cln_Entry c) \<noteq> cln_Source c \<or> act_Path (cln_Action c) \<noteq> cln_Source c) ''source''
       ''must match entry and action paths'' []
   @ err_if (act_ID (cln_Action c) \<noteq> cln_ActionID c \<or> act_PlanID (cln_Action c) \<noteq> cln_PlanID c)
       ''action'' ''ID and plan ID must match the cleanup item'' []
   @ err_if (ent_FilesystemID (cln_Entry c) \<noteq> act_FilesystemID (cln_Action c)) ''action.filesystem_id''
       ''must match entry filesystem identity'' []
   @ (case cln_Quarantined c of
        None \<Rightarrow> []
      | Some q \<Rightarrow>
          (case Entry_Validate q of
             None \<Rightarrow> [] | Some es \<Rightarrow> [FieldError ''quarantined'' ''%v'' [GErrs es]])
        @ err_if (ent_Path q \<noteq> cln_Destination c) ''quarantined.path'' ''must match destination'' []
        @ err_if (ent_FilesystemID q \<noteq> ent_FilesystemID (cln_Entry c)) ''quarantined.filesystem_id''
            ''must match original filesystem identity'' [])
   @ err_if (cln_State c = CleanupQuarantined \<and> cln_Quarantined c = None) ''quarantined''
       ''required in quarantined state'' [])"

datatype initial_error =
    InvalidItem field_errors | NotPrepared cleanup_state | MovedAtSet | QuarantinedSet

definition ValidateInitial :: "cleanup_item \<Rightarrow> initial_error option" where
  "ValidateInitial c =
     (case CleanupItem_Validate c of
        Some es \<Rightarrow> Some (InvalidItem es)
      | None \<Rightarrow>
          if cln_State c \<noteq> CleanupPrepared then Some (NotPrepared (cln_State c))
          else if cln_MovedAt c \<noteq> None then Some MovedAtSet
          else if cln_Quarantined c \<noteq> None then Some QuarantinedSet
          else None)"

section \<open>Facts\<close>

lemma CanTransitionTo_terminal:
  "\<not> CanTransitionTo CleanupDeleted t" "\<not> CanTransitionTo CleanupRestored t"
  "\<not> CanTransitionTo (CleanupOther x) t"
  by (simp_all add: CanTransitionTo_def)

lemma CanTransitionTo_Deleted: "CanTransitionTo s CleanupDeleted \<longleftrightarrow> s = CleanupQuarantined"
  by (cases s) (simp_all add: CanTransitionTo_def)

lemma CanTransitionTo_Valid: "CanTransitionTo s t \<Longrightarrow> cleanupState_Valid s \<and> cleanupState_Valid t"
  by (cases s; cases t) (simp_all add: CanTransitionTo_def)

lemma CanTransitionTo_irrefl: "\<not> CanTransitionTo s s"
  by (cases s) (simp_all add: CanTransitionTo_def)

lemma history_Valid: "history h \<Longrightarrow> s \<in> set h \<Longrightarrow> cleanupState_Valid s"
  by (induction arbitrary: s rule: history.induct) (auto dest: CanTransitionTo_Valid)

text \<open>A terminal state is the end of a history: nothing follows a deletion or a restore.\<close>

lemma history_terminal_only_head:
  "history h \<Longrightarrow> s \<in> set (tl h) \<Longrightarrow> s \<noteq> CleanupDeleted \<and> s \<noteq> CleanupRestored"
proof (induction arbitrary: s rule: history.induct)
  case (step s' h t)
  then show ?case using CanTransitionTo_terminal by (cases "s = s'") auto
qed simp

lemma history_prepared_before:
  "history h \<Longrightarrow> last h = CleanupPrepared"
  by (induction rule: history.induct) auto

text \<open>A deletion is entered from quarantine, and quarantine only after a journalled preparation.\<close>

lemma history_deleted_shape:
  assumes "history (CleanupDeleted # h)"
  shows "\<exists>h'. h = CleanupQuarantined # h' \<and> history (CleanupQuarantined # h')
    \<and> last h = CleanupPrepared"
  using assms
proof cases
  case (step s h')
  then have s: "s = CleanupQuarantined" by (simp add: CanTransitionTo_Deleted)
  show ?thesis
    using step(2) history_prepared_before [OF step(2)] unfolding step(1) s by blast
qed

text \<open>Every state that is not terminal can still be restored.\<close>

lemma restorable:
  "cleanupState_Valid s \<Longrightarrow> s \<noteq> CleanupDeleted \<Longrightarrow> s \<noteq> CleanupRestored \<Longrightarrow>
     CanTransitionTo s CleanupRestored"
  by (cases s) (simp_all add: CanTransitionTo_def)

lemma CleanupItem_Validate_NoneD:
  assumes "CleanupItem_Validate c = None"
  shows "\<not> blank (cln_CleanupID c)" "\<not> blank (cln_PlanID c)" "\<not> blank (cln_ActionID c)"
    "safe_component (cln_CleanupID c)" "safe_component (cln_ActionID c)"
    "isAbsClean (cln_Source c)" "isAbsClean (cln_Destination c)" "cln_Source c \<noteq> cln_Destination c"
    "cleanupState_Valid (cln_State c)" "cln_CreatedAt c \<noteq> time_zero"
    "cln_UpdatedAt c \<noteq> time_zero" "cln_CreatedAt c \<le> cln_UpdatedAt c"
    "Entry_Validate (cln_Entry c) = None" "Action_Validate (cln_Action c) ''action'' = []"
    "ent_Path (cln_Entry c) = cln_Source c" "act_Path (cln_Action c) = cln_Source c"
    "act_ID (cln_Action c) = cln_ActionID c" "act_PlanID (cln_Action c) = cln_PlanID c"
    "ent_FilesystemID (cln_Entry c) = act_FilesystemID (cln_Action c)"
  using assms by (auto simp: CleanupItem_Validate_def split: option.splits)

lemma CleanupItem_Validate_quarantined:
  assumes "CleanupItem_Validate c = None"
  shows "cln_State c = CleanupQuarantined \<Longrightarrow> cln_Quarantined c \<noteq> None"
    and "cln_Quarantined c = Some q \<Longrightarrow> Entry_Validate q = None \<and> ent_Path q = cln_Destination c
      \<and> ent_FilesystemID q = ent_FilesystemID (cln_Entry c)"
  using assms by (auto simp: CleanupItem_Validate_def split: option.splits)

lemma ValidateInitial_None:
  "ValidateInitial c = None \<longleftrightarrow> CleanupItem_Validate c = None \<and> cln_State c = CleanupPrepared
     \<and> cln_MovedAt c = None \<and> cln_Quarantined c = None"
  by (auto simp: ValidateInitial_def split: option.splits)

text \<open>
  A safe component has no separator, so joining it to a canonical directory stays one level below
  that directory.
\<close>

lemma safe_component_good_seg: "safe_component v \<Longrightarrow> v \<noteq> '''' \<Longrightarrow> good_seg v"
  by (auto simp: safe_component_def good_seg_def ContainsAny_def)

section \<open>Properties\<close>

text \<open>In every history of a cleanup item, deletion and restore end it, each step is between valid
  states, and a deletion comes directly out of quarantine after a prepared record.\<close>

theorem cleanup_histories:
  assumes "history h"
  shows "(\<forall>s \<in> set (tl h). s \<noteq> CleanupDeleted \<and> s \<noteq> CleanupRestored)
    \<and> (\<forall>s \<in> set h. cleanupState_Valid s)
    \<and> last h = CleanupPrepared
    \<and> (hd h = CleanupDeleted \<longrightarrow> (\<exists>h'. tl h = CleanupQuarantined # h'))"
proof -
  have "hd h = CleanupDeleted \<longrightarrow> (\<exists>h'. tl h = CleanupQuarantined # h')"
    using assms by cases (auto simp: CanTransitionTo_Deleted)
  then show ?thesis
    using assms history_terminal_only_head history_Valid history_prepared_before by blast
qed

theorem cleanup_histories_witness:
  "\<exists>h'. tl [CleanupDeleted, CleanupQuarantined, CleanupInvestigate, CleanupPrepared]
     = CleanupQuarantined # h'"
proof -
  have "history [CleanupDeleted, CleanupQuarantined, CleanupInvestigate, CleanupPrepared]"
    by (intro history.intros) (simp_all add: CanTransitionTo_def)
  from cleanup_histories [OF this] show ?thesis by simp
qed

end
