(* ===== verification/CoreCapacity.thy ===== *)
theory CoreCapacity
  imports Prelude
begin

text \<open>
  \<open>internal/core/capacity.go\<close>: the pressure state of one filesystem, its advance on a fresh sample with
  hysteresis between the reserve and the recovery threshold, and the expiry of a stale snapshot.
\<close>

definition MinimumAllocationReserveBytes :: uint64 where
  "MinimumAllocationReserveBytes = 10000000000"

datatype pressure_state =
    PressureRecovered | PressureCleanupNeeded | PressureCritical | PressureUnknown
  | PressureNoSafeReclaim | PressureOther string

fun pressureState_str :: "pressure_state \<Rightarrow> string" where
  "pressureState_str PressureRecovered = ''target_recovered''"
| "pressureState_str PressureCleanupNeeded = ''cleanup_needed''"
| "pressureState_str PressureCritical = ''critical''"
| "pressureState_str PressureUnknown = ''measurement_unknown''"
| "pressureState_str PressureNoSafeReclaim = ''no_safe_reclaim''"
| "pressureState_str (PressureOther s) = s"

text \<open>The zero value of \<open>PressureState\<close>, the state of a filesystem never sampled before.\<close>

abbreviation PressureUnset :: pressure_state where "PressureUnset \<equiv> PressureOther ''''"

record capacity_state =
  cap_Key :: string
  cap_Device :: uint64
  cap_Roots :: "string list"
  cap_State :: pressure_state
  cap_AvailableBytes :: "uint64 option"
  cap_TotalBytes :: "uint64 option"
  cap_TargetBytes :: uint64
  cap_ReserveBytes :: uint64
  cap_RecoveryBytes :: uint64
  cap_AdmissionHold :: bool
  cap_Reason :: string

record capacity_snapshot =
  snp_SampledAt :: time
  snp_ValidUntil :: time
  snp_PolicyHash :: string
  snp_Volumes :: "capacity_state list"

text \<open>The three assignments every branch of \<open>AdvancePressure\<close> makes.\<close>

definition pressed :: "capacity_state \<Rightarrow> pressure_state \<Rightarrow> bool \<Rightarrow> string \<Rightarrow> capacity_state" where
  "pressed c s hold reason = c\<lparr>cap_State := s, cap_AdmissionHold := hold, cap_Reason := reason\<rparr>"

definition advance_plain :: "capacity_state \<Rightarrow> uint64 \<Rightarrow> capacity_state" where
  "advance_plain c available =
     (if available < cap_ReserveBytes c
      then pressed c PressureCritical True ''available space is below the reserve''
      else if available < cap_TargetBytes c
      then pressed c PressureCleanupNeeded False ''available space is below the warning target''
      else pressed c PressureRecovered False ''fresh measurement satisfies the warning target'')"

definition advance_hysteresis :: "capacity_state \<Rightarrow> capacity_state \<Rightarrow> uint64 \<Rightarrow> capacity_state" where
  "advance_hysteresis c previous available =
     (if available < cap_ReserveBytes c
      then pressed c PressureCritical True ''available space is below the reserve''
      else if available < cap_TargetBytes c
           \<or> cap_State previous \<noteq> PressureUnset \<and> cap_State previous \<noteq> PressureRecovered
             \<and> available < cap_RecoveryBytes c
      then pressed c PressureCleanupNeeded
             (cap_AdmissionHold previous \<and> available < cap_RecoveryBytes c)
             ''available space is below the warning target or recovery threshold''
      else pressed c PressureRecovered False ''fresh measurement satisfies the target and hysteresis'')"

definition AdvancePressure :: "capacity_state \<Rightarrow> capacity_state \<Rightarrow> capacity_state" where
  "AdvancePressure current previous =
     (case (cap_AvailableBytes current, cap_TotalBytes current) of
        (Some available, Some _) \<Rightarrow>
          if cap_RecoveryBytes current = cap_ReserveBytes current
          then advance_plain current available
          else
            let c = advance_hysteresis current previous available
            in if cap_State previous = PressureNoSafeReclaim \<and> cap_State c \<noteq> PressureRecovered
                  \<and> available < cap_RecoveryBytes c
               then pressed c (cap_State previous) True (cap_Reason previous)
               else c
      | _ \<Rightarrow> current\<lparr>cap_State := PressureUnknown, cap_AdmissionHold := True\<rparr>)"

definition expire_volume :: "capacity_state \<Rightarrow> capacity_state" where
  "expire_volume v =
     v\<lparr>cap_State := PressureUnknown, cap_AvailableBytes := None, cap_TotalBytes := None,
       cap_AdmissionHold := True,
       cap_Reason := ''capacity sample is stale; run a cycle or start the watcher''\<rparr>"

definition Expire :: "capacity_snapshot \<Rightarrow> time \<Rightarrow> capacity_snapshot" where
  "Expire s now =
     (if now < snp_SampledAt s \<or> \<not> now < snp_ValidUntil s
      then s\<lparr>snp_Volumes := map expire_volume (snp_Volumes s)\<rparr> else s)"

section \<open>Facts\<close>

lemma pressed_simps [simp]:
  "cap_State (pressed c s h r) = s" "cap_AdmissionHold (pressed c s h r) = h"
  "cap_Reason (pressed c s h r) = r" "cap_RecoveryBytes (pressed c s h r) = cap_RecoveryBytes c"
  "cap_AvailableBytes (pressed c s h r) = cap_AvailableBytes c"
  "cap_ReserveBytes (pressed c s h r) = cap_ReserveBytes c"
  "cap_TargetBytes (pressed c s h r) = cap_TargetBytes c"
  by (simp_all add: pressed_def)

lemma advance_unmeasured:
  "cap_AvailableBytes c = None \<or> cap_TotalBytes c = None \<Longrightarrow>
     cap_State (AdvancePressure c p) = PressureUnknown \<and> cap_AdmissionHold (AdvancePressure c p)"
  by (auto simp: AdvancePressure_def split: option.splits)

lemma advance_below_reserve_holds:
  assumes "cap_AvailableBytes c = Some a" "a < cap_ReserveBytes c"
  shows "cap_AdmissionHold (AdvancePressure c p)"
  using assms
  by (cases "cap_TotalBytes c")
     (auto simp: AdvancePressure_def advance_plain_def advance_hysteresis_def Let_def)

text \<open>A hold is released only by space at or above the recovery threshold, once it is in force.\<close>

lemma advance_hold_released:
  assumes "cap_AdmissionHold p" "cap_State p \<notin> {PressureUnset, PressureRecovered}"
    "cap_RecoveryBytes c \<noteq> cap_ReserveBytes c" "\<not> cap_AdmissionHold (AdvancePressure c p)"
  shows "\<exists>a. cap_AvailableBytes c = Some a \<and> cap_RecoveryBytes c \<le> a \<and> cap_ReserveBytes c \<le> a"
  using assms
  by (auto simp: AdvancePressure_def advance_hysteresis_def Let_def not_less
      split: option.splits if_splits)

lemma advance_recovered_iff:
  assumes "cap_AvailableBytes c = Some a" "cap_TotalBytes c = Some t"
    "cap_RecoveryBytes c \<noteq> cap_ReserveBytes c"
  shows "cap_State (AdvancePressure c p) = PressureRecovered \<longleftrightarrow>
    cap_ReserveBytes c \<le> a \<and> cap_TargetBytes c \<le> a
    \<and> (cap_State p \<in> {PressureUnset, PressureRecovered} \<or> cap_RecoveryBytes c \<le> a)"
  using assms by (auto simp: AdvancePressure_def advance_hysteresis_def Let_def not_less)

lemma advance_plain_history_free:
  assumes "cap_RecoveryBytes c = cap_ReserveBytes c"
  shows "AdvancePressure c p = AdvancePressure c q"
  using assms by (simp add: AdvancePressure_def split: option.split)

lemma Expire_idem: "Expire (Expire s now) now = Expire s now"
  by (simp add: Expire_def expire_volume_def o_def)

section \<open>Properties\<close>

text \<open>Admission fails closed: a sample without a measurement, or with less space than the reserve,
  holds admission whatever the previous state was; and a hold in force under hysteresis is released
  only by a measurement at or above both the reserve and the recovery threshold.\<close>

theorem AdvancePressure_fails_closed:
  "(cap_AvailableBytes c = None \<or> cap_TotalBytes c = None \<longrightarrow>
      cap_State (AdvancePressure c p) = PressureUnknown \<and> cap_AdmissionHold (AdvancePressure c p))
   \<and> (\<forall>a. cap_AvailableBytes c = Some a \<and> a < cap_ReserveBytes c \<longrightarrow>
      cap_AdmissionHold (AdvancePressure c p))
   \<and> (cap_AdmissionHold p \<and> cap_State p \<notin> {PressureUnset, PressureRecovered}
       \<and> cap_RecoveryBytes c \<noteq> cap_ReserveBytes c
       \<and> \<not> cap_AdmissionHold (AdvancePressure c p) \<longrightarrow>
      (\<exists>a. cap_AvailableBytes c = Some a \<and> cap_RecoveryBytes c \<le> a \<and> cap_ReserveBytes c \<le> a))"
  using advance_unmeasured advance_below_reserve_holds advance_hold_released by blast

definition sample_volume :: "uint64 \<Rightarrow> capacity_state" where
  "sample_volume a =
     \<lparr>cap_Key = ''dev:1'', cap_Device = 1, cap_Roots = [''/data''], cap_State = PressureUnset,
      cap_AvailableBytes = Some a, cap_TotalBytes = Some 1000, cap_TargetBytes = 100,
      cap_ReserveBytes = 50, cap_RecoveryBytes = 200, cap_AdmissionHold = False, cap_Reason = ''''\<rparr>"

theorem AdvancePressure_fails_closed_witness:
  "cap_AdmissionHold (AdvancePressure (sample_volume 49) (sample_volume 300))
   \<and> cap_AdmissionHold
        (AdvancePressure (sample_volume 150) (AdvancePressure (sample_volume 49) (sample_volume 300)))
   \<and> \<not> cap_AdmissionHold
        (AdvancePressure (sample_volume 200) (AdvancePressure (sample_volume 49) (sample_volume 300)))"
proof -
  note closed = AdvancePressure_fails_closed [of "sample_volume 49" "sample_volume 300"]
  have "cap_AvailableBytes (sample_volume 49) = Some 49 \<and> (49 :: uint64) < cap_ReserveBytes (sample_volume 49)"
    by (simp add: sample_volume_def)
  with closed have "cap_AdmissionHold (AdvancePressure (sample_volume 49) (sample_volume 300))" by blast
  then show ?thesis
    by (simp add: AdvancePressure_def advance_plain_def advance_hysteresis_def Let_def sample_volume_def
        pressed_def)
qed

end
