(* ===== verification/Sha256.thy ===== *)
theory Sha256
  imports Prelude
begin

text \<open>
  Go's \<open>crypto/sha256\<close> and \<open>encoding/hex\<close>: the digests that bind plans, actions and entry
  fingerprints to what they were computed from.  The function is executable; the only facts the
  development uses of it are that it is a function of its input and that a digest has 64
  characters.  Statements about bindings are therefore of the form \<open>equal inputs, or a collision\<close>.
\<close>

type_synonym u32 = "32 word"

definition sha_k :: "u32 list" where
  "sha_k = [
    1116352408, 1899447441, 3049323471, 3921009573, 961987163, 1508970993,
    2453635748, 2870763221, 3624381080, 310598401, 607225278, 1426881987,
    1925078388, 2162078206, 2614888103, 3248222580, 3835390401, 4022224774,
    264347078, 604807628, 770255983, 1249150122, 1555081692, 1996064986,
    2554220882, 2821834349, 2952996808, 3210313671, 3336571891, 3584528711,
    113926993, 338241895, 666307205, 773529912, 1294757372, 1396182291,
    1695183700, 1986661051, 2177026350, 2456956037, 2730485921, 2820302411,
    3259730800, 3345764771, 3516065817, 3600352804, 4094571909, 275423344,
    430227734, 506948616, 659060556, 883997877, 958139571, 1322822218,
    1537002063, 1747873779, 1955562222, 2024104815, 2227730452, 2361852424,
    2428436474, 2756734187, 3204031479, 3329325298]"

definition sha_init :: "u32 list" where
  "sha_init = [
    1779033703, 3144134277, 1013904242, 2773480762, 1359893119, 2600822924,
    528734635, 1541459225]"

definition rotr32 :: "nat \<Rightarrow> u32 \<Rightarrow> u32" where
  "rotr32 n x = drop_bit n x OR push_bit (32 - n) x"

definition sigma_lo0 :: "u32 \<Rightarrow> u32" where
  "sigma_lo0 x = rotr32 7 x XOR rotr32 18 x XOR drop_bit 3 x"

definition sigma_lo1 :: "u32 \<Rightarrow> u32" where
  "sigma_lo1 x = rotr32 17 x XOR rotr32 19 x XOR drop_bit 10 x"

definition sigma_up0 :: "u32 \<Rightarrow> u32" where
  "sigma_up0 x = rotr32 2 x XOR rotr32 13 x XOR rotr32 22 x"

definition sigma_up1 :: "u32 \<Rightarrow> u32" where
  "sigma_up1 x = rotr32 6 x XOR rotr32 11 x XOR rotr32 25 x"

definition sha_schedule :: "u32 list \<Rightarrow> u32 list" where
  "sha_schedule block =
     foldl (\<lambda>w t. w @ [sigma_lo1 (w ! (t - 2)) + w ! (t - 7) + sigma_lo0 (w ! (t - 15)) + w ! (t - 16)])
       block [16..<64]"

fun sha_round :: "u32 list \<Rightarrow> u32 \<times> u32 \<Rightarrow> u32 list" where
  "sha_round [a, b, c, d, e, f, g, h] (k, w) =
     (let t1 = h + sigma_up1 e + ((e AND f) XOR (NOT e AND g)) + k + w;
          t2 = sigma_up0 a + ((a AND b) XOR (a AND c) XOR (b AND c))
      in [t1 + t2, a, b, c, d + t1, e, f, g])"
| "sha_round st _ = st"

definition sha_block :: "u32 list \<Rightarrow> u32 list \<Rightarrow> u32 list" where
  "sha_block st block = map2 (+) st (foldl sha_round st (zip sha_k (sha_schedule block)))"

fun bytes_to_words :: "u32 list \<Rightarrow> u32 list" where
  "bytes_to_words (a # b # c # d # bs) =
     (push_bit 24 a + push_bit 16 b + push_bit 8 c + d) # bytes_to_words bs"
| "bytes_to_words _ = []"

text \<open>The big-endian bytes of a word, and of the 64-bit length that ends the padding.\<close>

definition be_bytes :: "u32 \<Rightarrow> u32 list" where
  "be_bytes w = [drop_bit 24 w, drop_bit 16 w AND 255, drop_bit 8 w AND 255, w AND 255]"

definition sha_pad :: "u32 list \<Rightarrow> u32 list" where
  "sha_pad bs =
     (let bits = (of_nat (length bs) :: 64 word) * 8
      in bs @ [128] @ replicate ((119 - length bs mod 64) mod 64) 0
         @ be_bytes (ucast (drop_bit 32 bits)) @ be_bytes (ucast bits))"

function sha_blocks :: "u32 list \<Rightarrow> u32 list \<Rightarrow> u32 list" where
  "sha_blocks st ws = (if ws = [] then st else sha_blocks (sha_block st (take 16 ws)) (drop 16 ws))"
  by pat_completeness auto
termination
  by (relation "measure (\<lambda>(st, ws). length ws)") auto

declare sha_blocks.simps [simp del]

definition sha256 :: "string \<Rightarrow> u32 list" where
  "sha256 s =
     concat (map be_bytes (sha_blocks sha_init (bytes_to_words (sha_pad (map of_char s)))))"

text \<open>\<open>hex.EncodeToString\<close>.\<close>

definition hex_encode :: "u32 list \<Rightarrow> string" where
  "hex_encode bs =
     concat (map (\<lambda>b. [hex_digit (unat (drop_bit 4 b)), hex_digit (unat (b AND 15))]) bs)"

definition sha256_hex :: "string \<Rightarrow> string" where
  "sha256_hex s = hex_encode (sha256 s)"

text \<open>Two different inputs with one digest.\<close>

definition sha_collision :: "string \<Rightarrow> string \<Rightarrow> bool" where
  "sha_collision s t \<longleftrightarrow> s \<noteq> t \<and> sha256_hex s = sha256_hex t"

lemma sha256_hex_eqD: "sha256_hex s = sha256_hex t \<Longrightarrow> s = t \<or> sha_collision s t"
  by (auto simp: sha_collision_def)

lemma length_sha_round: "length (sha_round st kw) = length st"
  by (cases "(st, kw)" rule: sha_round.cases) (auto simp: Let_def)

lemma length_sha_block: "length (sha_block st b) = length st"
proof -
  have "length (foldl sha_round st xs) = length st" for xs
    by (induction xs arbitrary: st) (auto simp: length_sha_round)
  then show ?thesis by (simp add: sha_block_def)
qed

lemma length_sha_blocks: "length (sha_blocks st ws) = length st"
proof (induction st ws rule: sha_blocks.induct)
  case (1 st ws)
  then show ?case by (subst sha_blocks.simps) (simp add: length_sha_block)
qed

lemma length_concat_const: "\<forall>x \<in> set xs. length (f x) = k \<Longrightarrow> length (concat (map f xs)) = k * length xs"
  by (induction xs) auto

lemma length_sha256_hex: "length (sha256_hex s) = 64"
proof -
  have "length (sha256 s) = 4 * 8"
    unfolding sha256_def
    by (subst length_concat_const [of _ _ 4]) (simp_all add: be_bytes_def length_sha_blocks sha_init_def)
  moreover have "length (hex_encode bs) = 2 * length bs" for bs
    unfolding hex_encode_def by (rule length_concat_const) simp
  ultimately show ?thesis by (simp add: sha256_hex_def)
qed

end
