(* ===== verification/SafetyEngine.thy ===== *)
theory SafetyEngine
  imports CoreVerdict CorePlan
begin

text \<open>
  \<open>internal/safety\<close>: the twelve guards of \<open>guards.go\<close>, the remediation table of \<open>remediation.go\<close>, and the
  engine of \<open>safety.go\<close> that runs the guards, merges their protections into a verdict and clamps
  recommendations to it.  The clock reading used when the input carries no time is a parameter.
\<close>

section \<open>Inputs\<close>

record safety_policy =
  spol_ProtectedPaths :: "string list"
  spol_NamePatterns :: "string list"
  spol_StateDir :: string
  spol_QuarantineDir :: string
  spol_AllowCrossFilesystemCopy :: bool
  spol_MinFreeBytes :: int64

datatype job_state = JobRunning | JobQueued | JobBlocked | JobDone | JobOther string

fun jobState_str :: "job_state \<Rightarrow> string" where
  "jobState_str JobRunning = ''running''"
| "jobState_str JobQueued = ''queued''"
| "jobState_str JobBlocked = ''blocked''"
| "jobState_str JobDone = ''done''"
| "jobState_str (JobOther s) = s"

fun Owning :: "job_state \<Rightarrow> bool" where
  "Owning JobRunning = True"
| "Owning JobQueued = True"
| "Owning JobBlocked = True"
| "Owning _ = False"

record job_ref =
  job_ID :: string
  job_State :: job_state
  job_Path :: string
  job_Owner :: string

record target =
  tgt_Dir :: string
  tgt_Device :: uint64
  tgt_FreeBytes :: int64
  tgt_Known :: bool
  tgt_Detail :: string

record safety_input =
  in_Entry :: entry
  in_Policy :: safety_policy
  in_Jobs :: "job_ref list"
  in_Target :: "target option"
  in_Now :: time

definition safety_now :: "time \<Rightarrow> safety_input \<Rightarrow> time" where
  "safety_now clock inp = (if in_Now inp = time_zero then clock else in_Now inp)"

section \<open>Remediation\<close>

fun remediations :: "protection_kind \<Rightarrow> string option" where
  "remediations ProtectActiveProcess =
     Some ''stop the process using this path, or exclude the path, then scan again''"
| "remediations ProtectRegisteredAgent =
     Some ''release or finish the registered agent holding this directory, then scan again''"
| "remediations ProtectOwningJob =
     Some ''wait for the owning job to finish, or cancel it, then scan again''"
| "remediations ProtectDirtyRepository =
     Some ''commit, stash, or discard the uncommitted changes, then scan again''"
| "remediations ProtectStashedWork = Some ''apply or drop the stash entries, then scan again''"
| "remediations ProtectUnpublishedCommits =
     Some ''push the local commits, or set an upstream so publication can be verified, then scan again''"
| "remediations ProtectBrokenGitMetadata =
     Some ''repair the repository metadata (for example a dangling .git pointer), then scan again''"
| "remediations ProtectLockHeld =
     Some ''let the Git operation finish and remove the stale lock file, then scan again''"
| "remediations ProtectServiceReference =
     Some ''remove the systemd, cron, or PM2 reference to this path, then scan again''"
| "remediations ProtectSensitiveContent =
     Some ''move the credential material elsewhere, or adjust protect.name_patterns if the match is wrong''"
| "remediations ProtectLiveDatabase =
     Some ''stop the database writer and move the file deliberately; the janitor will not move a live database''"
| "remediations ProtectDurableEvidence =
     Some ''copy the evidence to a durable location first; it is never cleaned up in place''"
| "remediations ProtectSymlinkEscape =
     Some ''resolve the symlink, or enable follow_symlinks for a root that fully contains its target''"
| "remediations ProtectIdentityChanged =
     Some ''re-scan and re-plan: the path changed after it was planned, so the plan no longer describes it''"
| "remediations ProtectInsufficientSpace =
     Some ''free space on the destination filesystem, or lower safety.min_free_bytes deliberately''"
| "remediations ProtectCrossFilesystem =
     Some ''point retention.quarantine_dir at the same filesystem, or set safety.allow_cross_filesystem_quarantine''"
| "remediations ProtectCollectorFailure =
     Some ''re-run the scan so the failed collector can observe this path; unknown state is treated as unsafe''"
| "remediations ProtectPolicyProtected =
     Some ''adjust protect.paths if this location should not be protected; core locations stay protected regardless''"
| "remediations ProtectArchiveOnlyRoot =
     Some ''only an owner-approved workspace_archive_categories entry may archive this; it is never cleaned up otherwise''"
| "remediations (ProtectOther _) = None"

definition Remediation :: "protection_kind \<Rightarrow> string" where
  "Remediation kind = (case remediations kind of
     Some text \<Rightarrow> text
   | None \<Rightarrow> ''inspect the reported evidence for this protection and resolve it, then scan again'')"

definition protect :: "protection_kind \<Rightarrow> evidence_source \<Rightarrow> string \<Rightarrow> protection" where
  "protect kind source reason =
     \<lparr>prot_Kind = kind, prot_Reason = reason, prot_Source = source,
      prot_Remediation = Remediation kind, prot_Blocking = True\<rparr>"

text \<open>The default remediation, filled in where a protection has none.\<close>

definition with_remediation :: "protection \<Rightarrow> protection" where
  "with_remediation p =
     (if prot_Remediation p = '''' then p\<lparr>prot_Remediation := Remediation (prot_Kind p)\<rparr> else p)"

section \<open>Guards\<close>

definition guardCollectedProtections :: "safety_input \<Rightarrow> protection list" where
  "guardCollectedProtections inp =
     map with_remediation (filter prot_Blocking (ent_Protections (in_Entry inp)))"

definition guardUnknownEvidence :: "safety_input \<Rightarrow> protection list" where
  "guardUnknownEvidence inp =
     map (\<lambda>e.
       let rest = TrimPrefix (ev_Signal e) ''unknown:'';
           detail = (if ev_Detail e = '''' then rest else ev_Detail e)
       in protect ProtectCollectorFailure (ev_Source e)
            (''unresolved observation '' @ quote rest @ '': '' @ detail))
     (filter (\<lambda>e. HasPrefix (ev_Signal e) ''unknown:'') (ent_Evidence (in_Entry inp)))"

definition guardFilesystemIdentity :: "safety_input \<Rightarrow> protection list" where
  "guardFilesystemIdentity inp =
     (if fsid_Zero (ent_FilesystemID (in_Entry inp))
      then [protect ProtectCollectorFailure SourceFilesystem
        ''filesystem identity is unknown, so the target cannot be revalidated before a mutation'']
      else [])"

definition git_protections :: "git_state \<Rightarrow> protection list" where
  "git_protections g =
     (if git_Degraded g
      then [protect ProtectBrokenGitMetadata SourceGit
        (if git_DegradedReason g = '''' then ''Git state could not be collected''
         else git_DegradedReason g)]
      else [])
   @ (if \<not> git_Bare g \<and> \<not> git_ContentsKnown g
      then (if git_ContentsProtection g \<noteq> ''''
            then [protect ProtectPolicyProtected SourceGit (git_ContentsProtection g)]
            else [protect ProtectCollectorFailure SourceGit
              ''worktree ignored contents have not been proven reconstructible''])
      else [])
   @ (if git_DirtyFiles g > 0
      then [protect ProtectDirtyRepository SourceGit
        (show_int (git_DirtyFiles g) @ '' uncommitted change(s)'')] else [])
   @ (if git_Stashes g > 0
      then [protect ProtectStashedWork SourceGit
        (show_int (git_Stashes g) @ '' stash entr(ies)'')] else [])
   @ (if git_Locked g then [protect ProtectLockHeld SourceGit ''a Git lock file is present''] else [])
   @ (if git_Degraded g then []
      else if \<not> git_PublicationKnown g \<and> \<not> git_Bare g
      then [protect ProtectUnpublishedCommits SourceGit
        ''publication against remote-tracking branches was not measured, so local commits cannot be shown as published'']
      else if git_UnpublishedCommits g > 0
      then [protect ProtectUnpublishedCommits SourceGit
        (show_int (git_UnpublishedCommits g) @ '' commit(s) are not on any remote-tracking branch'')]
      else [])"

definition guardGitState :: "safety_input \<Rightarrow> protection list" where
  "guardGitState inp = (case ent_Git (in_Entry inp) of None \<Rightarrow> [] | Some g \<Rightarrow> git_protections g)"

definition guardSymlinkContainment :: "safety_input \<Rightarrow> protection list" where
  "guardSymlinkContainment inp =
     (let e = in_Entry inp
      in if ent_Kind e \<noteq> EntryKindSymlink then []
         else if ent_CanonicalPath e = ''''
         then [protect ProtectSymlinkEscape SourceFilesystem
           (''symlink '' @ ent_Path e @ '' was not resolved, so its target is unknown'')]
         else if ent_Root e = ''''
         then [protect ProtectSymlinkEscape SourceFilesystem
           (''symlink '' @ ent_Path e @ '' has no recorded discovery root, so containment of ''
             @ ent_CanonicalPath e @ '' cannot be judged'')]
         else if \<not> PathWithin (ent_CanonicalPath e) (ent_Root e)
         then [protect ProtectSymlinkEscape SourceFilesystem
           (''symlink '' @ ent_Path e @ '' resolves to '' @ ent_CanonicalPath e
             @ '', outside root '' @ ent_Root e)]
         else [])"

definition protected_candidates :: "safety_policy \<Rightarrow> string list" where
  "protected_candidates pol =
     spol_ProtectedPaths pol
       @ filter (\<lambda>own. own \<noteq> '''') [spol_StateDir pol, spol_QuarantineDir pol]"

definition guardProtectedPaths :: "safety_input \<Rightarrow> protection list" where
  "guardProtectedPaths inp =
     (let path = ent_Path (in_Entry inp)
      in map (\<lambda>candidate.
           protect ProtectPolicyProtected SourcePolicy
             (if path \<noteq> candidate \<and> PathWithin candidate path
              then path @ '' contains the protected location '' @ candidate
              else candidate @ '' is a protected location''))
         (filter (\<lambda>candidate. candidate \<noteq> '''' \<and> PathsOverlap path candidate)
           (protected_candidates (in_Policy inp))))"

definition name_protection :: "string \<Rightarrow> string \<Rightarrow> protection list" where
  "name_protection name pattern = (case Match pattern name of
     None \<Rightarrow> [protect ProtectCollectorFailure SourcePolicy
       (''protected-name pattern '' @ quote pattern @ '' is invalid: syntax error in pattern'')]
   | Some True \<Rightarrow> [protect ProtectSensitiveContent SourcePolicy
       (name @ '' matches protected name pattern '' @ quote pattern)]
   | Some False \<Rightarrow> [])"

definition guardSensitiveNames :: "safety_input \<Rightarrow> protection list" where
  "guardSensitiveNames inp =
     concat (map (name_protection (Base (ent_Path (in_Entry inp)))) (spol_NamePatterns (in_Policy inp)))"

definition guardLiveDatabases :: "safety_input \<Rightarrow> protection list" where
  "guardLiveDatabases inp =
     (let e = in_Entry inp
      in if ent_Kind e \<noteq> EntryKindFile then []
         else if \<not> IsDatabasePath (ent_Path e) then []
         else [protect ProtectLiveDatabase SourceFilesystem
           (Base (ent_Path e) @ '' looks like a database file and may have an open writer'')])"

definition guardDurableEvidence :: "safety_input \<Rightarrow> protection list" where
  "guardDurableEvidence inp =
     (if ent_Class (in_Entry inp) \<noteq> ClassEvidence then []
      else [protect ProtectDurableEvidence SourceFilesystem
        (ent_Path (in_Entry inp) @ '' is classified as durable evidence'')])"

definition guardJobOwnership :: "safety_input \<Rightarrow> protection list" where
  "guardJobOwnership inp =
     map (\<lambda>job. protect ProtectOwningJob SourceJob
         (''job '' @ job_ID job @ '' ('' @ jobState_str (job_State job) @ '', owned by ''
           @ (if job_Owner job = '''' then ''an external scheduler'' else job_Owner job)
           @ '') claims '' @ job_Path job))
       (filter (\<lambda>job. Owning (job_State job) \<and> job_Path job \<noteq> ''''
           \<and> PathsOverlap (ent_Path (in_Entry inp)) (job_Path job))
         (in_Jobs inp))"

definition guardQuarantineFilesystem :: "safety_input \<Rightarrow> protection list" where
  "guardQuarantineFilesystem inp = (case in_Target inp of
     None \<Rightarrow> []
   | Some t \<Rightarrow>
      let id = ent_FilesystemID (in_Entry inp)
      in if \<not> tgt_Known t
         then [protect ProtectCollectorFailure SourceFilesystem
           (''destination '' @ tgt_Dir t @ '' is unusable: ''
             @ (if tgt_Detail t = '''' then ''the destination could not be inspected'' else tgt_Detail t))]
         else if spol_AllowCrossFilesystemCopy (in_Policy inp) \<or> fsid_Zero id then []
         else if tgt_Device t = fs_Device id then []
         else [protect ProtectCrossFilesystem SourceFilesystem
           (''destination '' @ tgt_Dir t @ '' is on device '' @ show_u64 (tgt_Device t)
             @ '', the item is on device '' @ show_u64 (fs_Device id)
             @ '', and no cross-filesystem copy policy is configured'')])"

text \<open>The sum of size and headroom is a wrapping \<open>int64\<close> addition, as in the code.\<close>

definition guardFreeSpace :: "safety_input \<Rightarrow> protection list" where
  "guardFreeSpace inp = (case in_Target inp of
     None \<Rightarrow> []
   | Some t \<Rightarrow>
      let e = in_Entry inp; id = ent_FilesystemID e; minfree = spol_MinFreeBytes (in_Policy inp);
          required = ent_SizeBytes e + minfree
      in if \<not> tgt_Known t then []
         else if \<not> fsid_Zero id \<and> tgt_Device t = fs_Device id then []
         else if ent_Kind e = EntryKindDirectory \<and> \<not> ent_SizeIsDeep e
         then [protect ProtectInsufficientSpace SourceFilesystem
           (ent_Path e @ '' would be copied to '' @ tgt_Dir t
             @ '' on another filesystem, but its size is unmeasured: the recorded ''
             @ show_i64 (ent_SizeBytes e)
             @ '' byte(s) is directory metadata, not the size of its contents'')]
         else if sint required \<le> sint (tgt_FreeBytes t) then []
         else [protect ProtectInsufficientSpace SourceFilesystem
           (''destination '' @ tgt_Dir t @ '' has '' @ show_i64 (tgt_FreeBytes t) @ '' free byte(s); ''
             @ show_i64 required @ '' are required for '' @ show_i64 (ent_SizeBytes e)
             @ '' byte(s) plus '' @ show_i64 minfree @ '' byte(s) of headroom'')])"

type_synonym guard = "string \<times> (safety_input \<Rightarrow> protection list)"

definition guards :: "guard list" where
  "guards =
     [(''collected_protections'', guardCollectedProtections),
      (''unknown_evidence'', guardUnknownEvidence),
      (''filesystem_identity'', guardFilesystemIdentity),
      (''git_state'', guardGitState),
      (''symlink_containment'', guardSymlinkContainment),
      (''protected_paths'', guardProtectedPaths),
      (''sensitive_names'', guardSensitiveNames),
      (''live_databases'', guardLiveDatabases),
      (''durable_evidence'', guardDurableEvidence),
      (''job_ownership'', guardJobOwnership),
      (''quarantine_filesystem'', guardQuarantineFilesystem),
      (''free_space'', guardFreeSpace)]"

definition GuardNames :: "string list" where
  "GuardNames = map fst guards"

section \<open>The engine\<close>

definition addProtection :: "verdict \<Rightarrow> protection \<Rightarrow> verdict" where
  "addProtection v p =
     (if \<exists>q \<in> set (ver_Protections v). prot_Kind q = prot_Kind p \<and> prot_Reason q = prot_Reason p
      then v else v\<lparr>ver_Protections := ver_Protections v @ [p]\<rparr>)"

definition run_guard :: "safety_input \<Rightarrow> verdict \<Rightarrow> guard \<Rightarrow> verdict" where
  "run_guard inp v g =
     foldl (\<lambda>v p. addProtection v (with_remediation p))
       (v\<lparr>ver_Guards := ver_Guards v @ [fst g]\<rparr>) (snd g inp)"

definition evaluateWith :: "time \<Rightarrow> safety_input \<Rightarrow> guard list \<Rightarrow> verdict" where
  "evaluateWith clock inp active =
     Verdict_Normalize (foldl (run_guard inp)
       \<lparr>ver_ContractVersion = 0, ver_Path = ent_Path (in_Entry inp), ver_Decision = DecisionOther '''',
        ver_Protections = [], ver_Guards = [], ver_EvaluatedAt = safety_now clock inp\<rparr> active)"

definition Evaluate :: "time \<Rightarrow> safety_input \<Rightarrow> verdict" where
  "Evaluate clock inp = evaluateWith clock inp guards"

definition ClampRecommendation :: "verdict \<Rightarrow> recommendation \<Rightarrow> recommendation" where
  "ClampRecommendation v r =
     (if Allows v (rec_Action r) then r
      else r\<lparr>rec_Action := ActionInvestigate, rec_Retention := RetentionNone,
             rec_Reasons := rec_Reasons r
               @ [''safety engine refused '' @ actionKind_str (rec_Action r) @ '': '' @ Verdict_Summary v]\<rparr>)"

end
