(* ===== verification/SafetyFacts.thy ===== *)
theory SafetyFacts
  imports SafetyEngine
begin

text \<open>
  What the safety engine guarantees.  The locale \<open>guard_engine\<close> is the contract between the engine and
  a set of guards: every protection a guard returns blocks.  Its lemmas hold for any such set, as the
  code's own tests run subsets of the guards; it is interpreted on the registered guards.
\<close>

section \<open>Merging protections\<close>

definition pkey :: "protection \<Rightarrow> protection_kind \<times> string" where
  "pkey p = (prot_Kind p, prot_Reason p)"

lemma with_remediation_simps [simp]:
  "prot_Kind (with_remediation p) = prot_Kind p" "prot_Reason (with_remediation p) = prot_Reason p"
  "prot_Source (with_remediation p) = prot_Source p"
  "prot_Blocking (with_remediation p) = prot_Blocking p" "pkey (with_remediation p) = pkey p"
  by (simp_all add: with_remediation_def pkey_def)

lemma addProtection_pkey:
  "addProtection v p =
     (if pkey p \<in> pkey ` set (ver_Protections v) then v
      else v\<lparr>ver_Protections := ver_Protections v @ [p]\<rparr>)"
  by (auto simp: addProtection_def pkey_def image_iff)

lemma addProtection_simps [simp]:
  "ver_Path (addProtection v p) = ver_Path v" "ver_Guards (addProtection v p) = ver_Guards v"
  "ver_EvaluatedAt (addProtection v p) = ver_EvaluatedAt v"
  "ver_ContractVersion (addProtection v p) = ver_ContractVersion v"
  by (simp_all add: addProtection_def)

lemma foldl_addProtection_simps [simp]:
  "ver_Path (foldl addProtection v ps) = ver_Path v"
  "ver_Guards (foldl addProtection v ps) = ver_Guards v"
  "ver_EvaluatedAt (foldl addProtection v ps) = ver_EvaluatedAt v"
  "ver_ContractVersion (foldl addProtection v ps) = ver_ContractVersion v"
  by (induction ps arbitrary: v) simp_all

lemma foldl_addProtection_keys:
  "pkey ` set (ver_Protections (foldl addProtection v ps)) = pkey ` set (ver_Protections v) \<union> pkey ` set ps"
  by (induction ps arbitrary: v) (auto simp: addProtection_pkey)

lemma foldl_addProtection_subset:
  "set (ver_Protections (foldl addProtection v ps)) \<subseteq> set (ver_Protections v) \<union> set ps"
proof (induction ps arbitrary: v)
  case (Cons p ps)
  have "set (ver_Protections (addProtection v p)) \<subseteq> insert p (set (ver_Protections v))"
    by (auto simp: addProtection_pkey)
  then show ?case using Cons [of "addProtection v p"] by auto
qed simp

lemma foldl_addProtection_superset:
  "set (ver_Protections v) \<subseteq> set (ver_Protections (foldl addProtection v ps))"
proof (induction ps arbitrary: v)
  case (Cons p ps)
  have "set (ver_Protections v) \<subseteq> set (ver_Protections (addProtection v p))"
    by (auto simp: addProtection_pkey)
  then show ?case using Cons [of "addProtection v p"] by auto
qed simp

lemma foldl_addProtection_distinct:
  "distinct_by pkey (ver_Protections v) \<Longrightarrow>
     distinct_by pkey (ver_Protections (foldl addProtection v ps))"
proof (induction ps arbitrary: v)
  case (Cons p ps)
  have "distinct_by pkey (ver_Protections (addProtection v p))"
    using Cons.prems by (auto simp: addProtection_pkey distinct_by_def)
  then show ?case using Cons.IH by simp
qed simp

lemma foldl_addProtection_blocking:
  assumes "\<forall>p \<in> set ps. prot_Blocking p" and "\<forall>p \<in> set (ver_Protections v). prot_Blocking p"
  shows "(\<exists>p \<in> set (ver_Protections (foldl addProtection v ps)). prot_Blocking p) \<longleftrightarrow>
    ver_Protections v \<noteq> [] \<or> ps \<noteq> []"
proof -
  let ?r = "set (ver_Protections (foldl addProtection v ps))"
  have "?r \<noteq> {} \<longleftrightarrow> ver_Protections v \<noteq> [] \<or> ps \<noteq> []"
    using foldl_addProtection_keys [of v ps] by (metis Un_empty image_is_empty set_empty)
  moreover have "\<forall>p \<in> ?r. prot_Blocking p"
    using assms foldl_addProtection_subset [of v ps] by auto
  ultimately show ?thesis by (metis (no_types, lifting) all_not_in_conv)
qed

text \<open>Running the guards is one merge of everything they return.\<close>

definition raised :: "guard list \<Rightarrow> safety_input \<Rightarrow> protection list" where
  "raised active inp = concat (map (\<lambda>g. map with_remediation (snd g inp)) active)"

lemma run_guard_eq:
  "run_guard inp v g =
     foldl addProtection (v\<lparr>ver_Guards := ver_Guards v @ [fst g]\<rparr>) (map with_remediation (snd g inp))"
proof -
  have "foldl (\<lambda>v p. addProtection v (with_remediation p)) v ps
      = foldl addProtection v (map with_remediation ps)" for v ps
    by (induction ps arbitrary: v) simp_all
  then show ?thesis by (simp add: run_guard_def)
qed

lemma addProtection_Guards:
  "addProtection (v\<lparr>ver_Guards := gs\<rparr>) p = (addProtection v p)\<lparr>ver_Guards := gs\<rparr>"
  by (simp add: addProtection_def)

lemma foldl_addProtection_Guards:
  "foldl addProtection (v\<lparr>ver_Guards := gs\<rparr>) ps = (foldl addProtection v ps)\<lparr>ver_Guards := gs\<rparr>"
  by (induction ps arbitrary: v) (simp_all add: addProtection_Guards)

lemma foldl_run_guard:
  "foldl (run_guard inp) v active =
     (foldl addProtection v (raised active inp))\<lparr>ver_Guards := ver_Guards v @ map fst active\<rparr>"
proof (induction active arbitrary: v)
  case (Cons g gs)
  have "raised (g # gs) inp = map with_remediation (snd g inp) @ raised gs inp"
    by (simp add: raised_def)
  then show ?case
    using Cons [of "run_guard inp v g"] by (simp add: run_guard_eq foldl_addProtection_Guards)
qed (simp add: raised_def)

definition start_verdict :: "time \<Rightarrow> safety_input \<Rightarrow> verdict" where
  "start_verdict clock inp =
     \<lparr>ver_ContractVersion = 0, ver_Path = ent_Path (in_Entry inp), ver_Decision = DecisionOther '''',
      ver_Protections = [], ver_Guards = [], ver_EvaluatedAt = safety_now clock inp\<rparr>"

lemma evaluateWith_eq:
  "evaluateWith clock inp active =
     Verdict_Normalize
       ((foldl addProtection (start_verdict clock inp) (raised active inp))\<lparr>ver_Guards := map fst active\<rparr>)"
  by (simp add: evaluateWith_def foldl_run_guard start_verdict_def)

lemma evaluateWith_fields:
  "ver_Path (evaluateWith clock inp active) = ent_Path (in_Entry inp)"
  "ver_EvaluatedAt (evaluateWith clock inp active) = safety_now clock inp"
  "set (ver_Guards (evaluateWith clock inp active)) = set (map fst active)"
  by (simp_all add: evaluateWith_eq start_verdict_def)

lemma evaluateWith_keys:
  "pkey ` set (ver_Protections (evaluateWith clock inp active)) =
     (\<Union>g \<in> set active. pkey ` set (snd g inp))"
proof -
  have "pkey ` set (raised active inp) = (\<Union>g \<in> set active. pkey ` set (snd g inp))"
    by (simp add: raised_def image_UN image_image)
  then show ?thesis
    by (simp add: evaluateWith_eq foldl_addProtection_keys start_verdict_def)
qed

lemma evaluateWith_subset:
  "set (ver_Protections (evaluateWith clock inp active)) \<subseteq> set (raised active inp)"
  using foldl_addProtection_subset [of "start_verdict clock inp" "raised active inp"]
  by (simp add: evaluateWith_eq) (simp add: start_verdict_def)

section \<open>The contract of a set of guards\<close>

locale guard_engine =
  fixes active :: "guard list"
  assumes blocks: "\<lbrakk>g \<in> set active; p \<in> set (snd g inp)\<rbrakk> \<Longrightarrow> prot_Blocking p"
begin

lemma raised_blocking: "p \<in> set (raised active inp) \<Longrightarrow> prot_Blocking p"
  using blocks by (auto simp: raised_def)

lemma raised_Nil: "raised active inp = [] \<longleftrightarrow> (\<forall>g \<in> set active. snd g inp = [])"
  by (simp add: raised_def)

lemma refused_iff:
  "Refused (evaluateWith clock inp active) \<longleftrightarrow> (\<exists>g \<in> set active. snd g inp \<noteq> [])"
proof -
  have "(\<exists>p \<in> set (ver_Protections (foldl addProtection (start_verdict clock inp) (raised active inp))).
      prot_Blocking p) \<longleftrightarrow> raised active inp \<noteq> []"
    using foldl_addProtection_blocking [of "raised active inp" "start_verdict clock inp"] raised_blocking
    by (auto simp: start_verdict_def)
  then show ?thesis
    by (simp add: evaluateWith_eq Normalize_refused_iff raised_Nil)
qed

lemma allows_iff:
  "Allows (evaluateWith clock inp active) k \<longleftrightarrow>
     (Mutating k \<longrightarrow> (\<forall>g \<in> set active. snd g inp = []))"
  by (auto simp: Allows_def refused_iff)

lemma more_guards_refuse_more:
  "set gs \<subseteq> set active \<Longrightarrow> Refused (evaluateWith clock inp gs) \<Longrightarrow>
     Refused (evaluateWith clock inp active)"
proof -
  assume gs: "set gs \<subseteq> set active" and r: "Refused (evaluateWith clock inp gs)"
  from r obtain p where "p \<in> set (ver_Protections (evaluateWith clock inp gs))"
    by (auto simp: evaluateWith_eq Normalize_refused_iff)
  then have "p \<in> set (raised gs inp)" using evaluateWith_subset by blast
  then have "\<exists>g \<in> set gs. snd g inp \<noteq> []" by (force simp: raised_def)
  then show "Refused (evaluateWith clock inp active)" using gs refused_iff by blast
qed

end

lemma protect_Blocking [simp]: "prot_Blocking (protect k s r)" "prot_Kind (protect k s r) = k"
  "prot_Reason (protect k s r) = r" "prot_Source (protect k s r) = s"
  "prot_Remediation (protect k s r) = Remediation k"
  by (simp_all add: protect_def)

lemma guard_blocks:
  "p \<in> set (guardCollectedProtections i) \<Longrightarrow> prot_Blocking p"
  "p \<in> set (guardUnknownEvidence i) \<Longrightarrow> prot_Blocking p"
  "p \<in> set (guardFilesystemIdentity i) \<Longrightarrow> prot_Blocking p"
  "p \<in> set (git_protections st) \<Longrightarrow> prot_Blocking p"
  "p \<in> set (guardSymlinkContainment i) \<Longrightarrow> prot_Blocking p"
  "p \<in> set (guardProtectedPaths i) \<Longrightarrow> prot_Blocking p"
  "p \<in> set (name_protection n pat) \<Longrightarrow> prot_Blocking p"
  "p \<in> set (guardLiveDatabases i) \<Longrightarrow> prot_Blocking p"
  "p \<in> set (guardDurableEvidence i) \<Longrightarrow> prot_Blocking p"
  "p \<in> set (guardJobOwnership i) \<Longrightarrow> prot_Blocking p"
  "p \<in> set (guardQuarantineFilesystem i) \<Longrightarrow> prot_Blocking p"
  "p \<in> set (guardFreeSpace i) \<Longrightarrow> prot_Blocking p"
  by (auto simp: guardCollectedProtections_def guardUnknownEvidence_def Let_def guardFilesystemIdentity_def
      git_protections_def guardSymlinkContainment_def guardProtectedPaths_def name_protection_def
      guardLiveDatabases_def guardDurableEvidence_def guardJobOwnership_def guardQuarantineFilesystem_def
      guardFreeSpace_def split: if_splits option.splits bool.splits)

lemma guard_blocks_rest:
  "p \<in> set (guardGitState i) \<Longrightarrow> prot_Blocking p"
  "p \<in> set (guardSensitiveNames i) \<Longrightarrow> prot_Blocking p"
  by (auto simp: guardGitState_def guardSensitiveNames_def guard_blocks split: option.splits)

interpretation core: guard_engine guards
proof unfold_locales
  fix g :: guard and p inp
  assume "g \<in> set guards" "p \<in> set (snd g inp)"
  then show "prot_Blocking p"
    by (auto simp: guards_def intro: guard_blocks guard_blocks_rest)
qed

section \<open>What each guard accepts\<close>

definition git_settled :: "git_state \<Rightarrow> bool" where
  "git_settled g \<longleftrightarrow> \<not> git_Degraded g \<and> \<not> git_Locked g
     \<and> (git_Bare g \<or> git_ContentsKnown g \<and> git_PublicationKnown g)
     \<and> git_DirtyFiles g \<le> 0 \<and> git_Stashes g \<le> 0 \<and> git_UnpublishedCommits g \<le> 0"

definition symlink_contained :: "entry \<Rightarrow> bool" where
  "symlink_contained e \<longleftrightarrow> ent_Kind e = EntryKindSymlink \<longrightarrow>
     ent_CanonicalPath e \<noteq> '''' \<and> ent_Root e \<noteq> '''' \<and> PathWithin (ent_CanonicalPath e) (ent_Root e)"

definition location_free :: "safety_policy \<Rightarrow> string \<Rightarrow> bool" where
  "location_free pol path \<longleftrightarrow>
     (\<forall>c \<in> set (spol_ProtectedPaths pol) \<union> {spol_StateDir pol, spol_QuarantineDir pol}.
        c \<noteq> '''' \<longrightarrow> \<not> PathsOverlap path c)"

definition name_free :: "safety_policy \<Rightarrow> string \<Rightarrow> bool" where
  "name_free pol path \<longleftrightarrow> (\<forall>pat \<in> set (spol_NamePatterns pol). Match pat (Base path) = Some False)"

definition unowned :: "job_ref list \<Rightarrow> string \<Rightarrow> bool" where
  "unowned jobs path \<longleftrightarrow> (\<forall>j \<in> set jobs.
     Owning (job_State j) \<and> job_Path j \<noteq> '''' \<longrightarrow> \<not> PathsOverlap path (job_Path j))"

definition destination_fits :: "safety_policy \<Rightarrow> entry \<Rightarrow> target \<Rightarrow> bool" where
  "destination_fits pol e t \<longleftrightarrow> tgt_Known t
     \<and> (tgt_Device t = fs_Device (ent_FilesystemID e)
        \<or> spol_AllowCrossFilesystemCopy pol
          \<and> \<not> (ent_Kind e = EntryKindDirectory \<and> \<not> ent_SizeIsDeep e)
          \<and> sint (ent_SizeBytes e + spol_MinFreeBytes pol) \<le> sint (tgt_FreeBytes t))"

text \<open>The specification of the engine: everything that must be known and clear before a mutation.\<close>

definition safe_to_mutate :: "safety_input \<Rightarrow> bool" where
  "safe_to_mutate inp \<longleftrightarrow>
    (let e = in_Entry inp; pol = in_Policy inp
     in (\<forall>p \<in> set (ent_Protections e). \<not> prot_Blocking p)
      \<and> (\<forall>x \<in> set (ent_Evidence e). \<not> HasPrefix (ev_Signal x) ''unknown:'')
      \<and> \<not> fsid_Zero (ent_FilesystemID e)
      \<and> pred_option git_settled (ent_Git e)
      \<and> symlink_contained e
      \<and> location_free pol (ent_Path e)
      \<and> name_free pol (ent_Path e)
      \<and> \<not> (ent_Kind e = EntryKindFile \<and> IsDatabasePath (ent_Path e))
      \<and> ent_Class e \<noteq> ClassEvidence
      \<and> unowned (in_Jobs inp) (ent_Path e)
      \<and> pred_option (destination_fits pol e) (in_Target inp))"

lemma collected_Nil:
  "guardCollectedProtections i = [] \<longleftrightarrow> (\<forall>p \<in> set (ent_Protections (in_Entry i)). \<not> prot_Blocking p)"
  by (simp add: guardCollectedProtections_def filter_empty_conv)

lemma unknown_Nil:
  "guardUnknownEvidence i = [] \<longleftrightarrow>
     (\<forall>x \<in> set (ent_Evidence (in_Entry i)). \<not> HasPrefix (ev_Signal x) ''unknown:'')"
  by (simp add: guardUnknownEvidence_def filter_empty_conv)

lemma identity_Nil:
  "guardFilesystemIdentity i = [] \<longleftrightarrow> \<not> fsid_Zero (ent_FilesystemID (in_Entry i))"
  by (simp add: guardFilesystemIdentity_def)

lemma git_Nil: "guardGitState i = [] \<longleftrightarrow> pred_option git_settled (ent_Git (in_Entry i))"
proof -
  have "git_protections g = [] \<longleftrightarrow> git_settled g" for g
    by (auto simp: git_protections_def git_settled_def)
  then show ?thesis by (simp add: guardGitState_def split: option.split)
qed

lemma symlink_Nil: "guardSymlinkContainment i = [] \<longleftrightarrow> symlink_contained (in_Entry i)"
  by (simp add: guardSymlinkContainment_def symlink_contained_def Let_def)

lemma protected_Nil:
  "guardProtectedPaths i = [] \<longleftrightarrow> location_free (in_Policy i) (ent_Path (in_Entry i))"
  by (auto simp: guardProtectedPaths_def location_free_def protected_candidates_def Let_def filter_empty_conv)

lemma names_Nil:
  "guardSensitiveNames i = [] \<longleftrightarrow> name_free (in_Policy i) (ent_Path (in_Entry i))"
proof -
  have "name_protection n pat = [] \<longleftrightarrow> Match pat n = Some False" for n pat
    by (simp add: name_protection_def split: option.split bool.split)
  then show ?thesis by (simp add: guardSensitiveNames_def name_free_def)
qed

lemma database_Nil:
  "guardLiveDatabases i = [] \<longleftrightarrow>
     \<not> (ent_Kind (in_Entry i) = EntryKindFile \<and> IsDatabasePath (ent_Path (in_Entry i)))"
  by (simp add: guardLiveDatabases_def Let_def)

lemma evidence_Nil: "guardDurableEvidence i = [] \<longleftrightarrow> ent_Class (in_Entry i) \<noteq> ClassEvidence"
  by (simp add: guardDurableEvidence_def)

lemma jobs_Nil: "guardJobOwnership i = [] \<longleftrightarrow> unowned (in_Jobs i) (ent_Path (in_Entry i))"
  by (auto simp: guardJobOwnership_def unowned_def filter_empty_conv)

lemma destination_Nil:
  assumes "\<not> fsid_Zero (ent_FilesystemID (in_Entry i))"
  shows "guardQuarantineFilesystem i = [] \<and> guardFreeSpace i = [] \<longleftrightarrow>
    pred_option (destination_fits (in_Policy i) (in_Entry i)) (in_Target i)"
  using assms
  by (cases "in_Target i")
     (auto simp: guardQuarantineFilesystem_def guardFreeSpace_def destination_fits_def Let_def)

lemma guards_clear_iff: "(\<forall>g \<in> set guards. snd g inp = []) \<longleftrightarrow> safe_to_mutate inp"
proof -
  have "(\<forall>g \<in> set guards. snd g inp = []) \<longleftrightarrow>
      guardCollectedProtections inp = [] \<and> guardUnknownEvidence inp = []
      \<and> guardFilesystemIdentity inp = [] \<and> guardGitState inp = []
      \<and> guardSymlinkContainment inp = [] \<and> guardProtectedPaths inp = []
      \<and> guardSensitiveNames inp = [] \<and> guardLiveDatabases inp = []
      \<and> guardDurableEvidence inp = [] \<and> guardJobOwnership inp = []
      \<and> (guardQuarantineFilesystem inp = [] \<and> guardFreeSpace inp = [])"
    by (simp add: guards_def)
  also have "\<dots> \<longleftrightarrow> safe_to_mutate inp"
    unfolding collected_Nil unknown_Nil identity_Nil git_Nil symlink_Nil protected_Nil names_Nil
      database_Nil evidence_Nil jobs_Nil safe_to_mutate_def Let_def
    using destination_Nil [of inp] by blast
  finally show ?thesis .
qed

lemma Evaluate_refused_iff: "Refused (Evaluate clock inp) \<longleftrightarrow> \<not> safe_to_mutate inp"
  unfolding Evaluate_def core.refused_iff guards_clear_iff [symmetric] by blast

section \<open>Free space in unbounded integers\<close>

definition fits_unbounded :: "safety_policy \<Rightarrow> entry \<Rightarrow> target \<Rightarrow> bool" where
  "fits_unbounded pol e t \<longleftrightarrow>
     sint (ent_SizeBytes e) + sint (spol_MinFreeBytes pol) \<le> sint (tgt_FreeBytes t)"

lemma sint_plus_small:
  assumes "0 \<le> sint (a :: int64)" "0 \<le> sint b" "sint a + sint b < 2 ^ 63"
  shows "sint (a + b) = sint a + sint b"
  using assms signed_take_bit_int_eq_self [of 63 "sint a + sint b"]
  by (simp add: sint_word_ariths(1))

lemma space_check_unbounded:
  assumes "0 \<le> sint (ent_SizeBytes e)" "0 \<le> sint (spol_MinFreeBytes pol)"
    "sint (ent_SizeBytes e) + sint (spol_MinFreeBytes pol) < 2 ^ 63"
  shows "sint (ent_SizeBytes e + spol_MinFreeBytes pol) \<le> sint (tgt_FreeBytes t)
    \<longleftrightarrow> fits_unbounded pol e t"
  by (simp add: fits_unbounded_def sint_plus_small [OF assms])

section \<open>More evidence never clears a path\<close>

definition at_least_as_cautious :: "safety_input \<Rightarrow> safety_input \<Rightarrow> bool" where
  "at_least_as_cautious j i \<longleftrightarrow>
     (\<exists>ps es. in_Entry j = (in_Entry i)\<lparr>ent_Protections := ps, ent_Evidence := es\<rparr>
        \<and> set (ent_Protections (in_Entry i)) \<subseteq> set ps \<and> set (ent_Evidence (in_Entry i)) \<subseteq> set es)
   \<and> set (spol_ProtectedPaths (in_Policy i)) \<subseteq> set (spol_ProtectedPaths (in_Policy j))
   \<and> set (spol_NamePatterns (in_Policy i)) \<subseteq> set (spol_NamePatterns (in_Policy j))
   \<and> spol_StateDir (in_Policy j) = spol_StateDir (in_Policy i)
   \<and> spol_QuarantineDir (in_Policy j) = spol_QuarantineDir (in_Policy i)
   \<and> (spol_AllowCrossFilesystemCopy (in_Policy j) \<longrightarrow> spol_AllowCrossFilesystemCopy (in_Policy i))
   \<and> spol_MinFreeBytes (in_Policy j) = spol_MinFreeBytes (in_Policy i)
   \<and> set (in_Jobs i) \<subseteq> set (in_Jobs j)
   \<and> (in_Target j = in_Target i \<or> in_Target i = None)"

lemma safe_antimono:
  assumes "at_least_as_cautious j i" "safe_to_mutate j"
  shows "safe_to_mutate i"
proof -
  from assms(1) obtain ps es where
    e: "in_Entry j = (in_Entry i)\<lparr>ent_Protections := ps, ent_Evidence := es\<rparr>"
    and ps: "set (ent_Protections (in_Entry i)) \<subseteq> set ps"
    and es: "set (ent_Evidence (in_Entry i)) \<subseteq> set es"
    unfolding at_least_as_cautious_def by blast
  note c = assms(1) [unfolded at_least_as_cautious_def]
  note s = assms(2) [unfolded safe_to_mutate_def Let_def e, simplified]
  have "location_free (in_Policy i) (ent_Path (in_Entry i))"
    using s c by (auto simp: location_free_def)
  moreover have "name_free (in_Policy i) (ent_Path (in_Entry i))"
    using s c by (auto simp: name_free_def)
  moreover have "unowned (in_Jobs i) (ent_Path (in_Entry i))"
    using s c by (auto simp: unowned_def)
  moreover have "pred_option (destination_fits (in_Policy i) (in_Entry i)) (in_Target i)"
    using s c by (cases "in_Target i") (auto simp: destination_fits_def)
  ultimately show ?thesis
    using s ps es unfolding safe_to_mutate_def Let_def by (auto simp: symlink_contained_def)
qed

section \<open>Verdicts of the engine\<close>

lemma Remediation_ne: "Remediation k \<noteq> ''''"
  by (cases k) (simp_all add: Remediation_def)

lemma with_remediation_ne: "prot_Remediation (with_remediation p) \<noteq> ''''"
  by (simp add: with_remediation_def Remediation_ne)

lemma evaluateWith_remediated:
  "p \<in> set (ver_Protections (evaluateWith clock inp active)) \<Longrightarrow> prot_Remediation p \<noteq> ''''"
  using evaluateWith_subset [of clock inp active] by (auto simp: raised_def with_remediation_ne)

lemma evaluateWith_distinct:
  "distinct_by pkey (ver_Protections (evaluateWith clock inp active))"
proof -
  have "distinct_by pkey
      (ver_Protections (foldl addProtection (start_verdict clock inp) (raised active inp)))"
    by (rule foldl_addProtection_distinct) (simp add: start_verdict_def distinct_by_def)
  then show ?thesis
    by (simp add: evaluateWith_eq Verdict_Normalize_def Let_def distinct_by_def distinct_map)
qed

section \<open>Clamping\<close>

lemma Clamp_allowed: "Allows v (rec_Action (ClampRecommendation v r))"
  by (simp add: ClampRecommendation_def) (simp add: Allows_def)

lemma Clamp_idem: "ClampRecommendation v (ClampRecommendation v r) = ClampRecommendation v r"
  using Clamp_allowed by (simp add: ClampRecommendation_def)

lemma Clamp_not_riskier: "RiskRank (rec_Action (ClampRecommendation v r)) \<le> RiskRank (rec_Action r)"
proof (cases "Allows v (rec_Action r)")
  case False
  then have "Mutating (rec_Action r)" by (auto simp: Allows_def split: if_splits)
  then show ?thesis using Mutating_risk [of "rec_Action r"] by (simp add: ClampRecommendation_def)
qed (simp add: ClampRecommendation_def)

end
