(* ===== verification/SafetyProps.thy ===== *)
theory SafetyProps
  imports SafetyFacts
begin

text \<open>The properties of the safety engine, with concrete inputs on which they apply.\<close>

definition sample_policy :: safety_policy where
  "sample_policy =
     \<lparr>spol_ProtectedPaths = [''/w/keep''], spol_NamePatterns = [''*.pem''], spol_StateDir = ''/var/j'',
      spol_QuarantineDir = ''/w/.q'', spol_AllowCrossFilesystemCopy = False, spol_MinFreeBytes = 1000\<rparr>"

definition sample_input :: safety_input where
  "sample_input =
     \<lparr>in_Entry = sample_entry, in_Policy = sample_policy, in_Jobs = [], in_Target = None, in_Now = 9\<rparr>"

text \<open>C1: The engine implements its specification: a mutation is allowed exactly when everything that
  must be known is known (filesystem identity, every observation, Git contents and publication, link
  target, destination) and nothing protects the path (collected protections, dirty, stashed, locked or
  unpublished Git work, protected locations in either direction, sensitive names, databases, durable
  evidence, jobs that own it, a destination that is foreign or too small).\<close>

theorem Evaluate_allows_exactly:
  "Allows (Evaluate clock inp) k \<longleftrightarrow> (if Mutating k then safe_to_mutate inp else True)"
  by (simp add: Allows_def Evaluate_refused_iff)

text \<open>The verdict of the engine is complete and canonical: it names every registered guard and the
  entry's path, its protections are sorted, each kind and reason occurs once, all of them block and
  say how they are cleared, and the verdict refuses exactly when it holds a protection.\<close>

theorem Evaluate_verdict_complete:
  "set (ver_Guards (Evaluate clock inp)) = set GuardNames
   \<and> ver_Path (Evaluate clock inp) = ent_Path (in_Entry inp)
   \<and> sorted (map prot_key (ver_Protections (Evaluate clock inp)))
   \<and> distinct_by pkey (ver_Protections (Evaluate clock inp))
   \<and> list_all (\<lambda>p. prot_Blocking p \<and> prot_Remediation p \<noteq> '''') (ver_Protections (Evaluate clock inp))
   \<and> (Refused (Evaluate clock inp) \<longleftrightarrow> ver_Protections (Evaluate clock inp) \<noteq> [])"
proof -
  let ?ps = "ver_Protections (Evaluate clock inp)"
  have b: "prot_Blocking p" if "p \<in> set ?ps" for p
    using that evaluateWith_subset [of clock inp guards] core.raised_blocking
    unfolding Evaluate_def by blast
  have "Refused (Evaluate clock inp) \<longleftrightarrow> (\<exists>p \<in> set ?ps. prot_Blocking p)"
    by (simp add: Evaluate_def evaluateWith_eq Normalize_refused_iff)
  moreover have "sorted (map prot_key ?ps)"
    unfolding Evaluate_def evaluateWith_eq by (rule Normalize_sorted)
  moreover have "?ps \<noteq> [] \<longleftrightarrow> (\<exists>p \<in> set ?ps. prot_Blocking p)"
    using b by (cases ?ps) auto
  moreover have "list_all (\<lambda>p. prot_Blocking p \<and> prot_Remediation p \<noteq> '''') ?ps"
    using b evaluateWith_remediated [of _ clock inp guards] by (auto simp: list_all_iff Evaluate_def)
  moreover have "distinct_by pkey ?ps"
    unfolding Evaluate_def by (rule evaluateWith_distinct)
  moreover have "set (ver_Guards (Evaluate clock inp)) = set GuardNames"
      "ver_Path (Evaluate clock inp) = ent_Path (in_Entry inp)"
    by (simp_all add: Evaluate_def evaluateWith_fields GuardNames_def)
  ultimately show ?thesis by blast
qed

text \<open>Configuration, jobs and evidence only ever add protection: with more protected paths, name
  patterns, jobs, observations or collected protections, without the cross-filesystem permission, or
  with a destination in play, a refused path stays refused.\<close>

theorem Evaluate_refusal_monotone:
  assumes "at_least_as_cautious j i" and "Refused (Evaluate clock i)"
  shows "Refused (Evaluate clock' j)"
  using assms safe_antimono unfolding Evaluate_refused_iff by blast

theorem Evaluate_refusal_monotone_witness:
  "Refused (Evaluate 0 (sample_input\<lparr>in_Entry := sample_entry\<lparr>ent_Class := ClassEvidence\<rparr>,
     in_Jobs := [\<lparr>job_ID = ''7'', job_State = JobDone, job_Path = ''/x'', job_Owner = ''''\<rparr>]\<rparr>))"
proof (rule Evaluate_refusal_monotone)
  let ?i = "sample_input\<lparr>in_Entry := sample_entry\<lparr>ent_Class := ClassEvidence\<rparr>\<rparr>"
  show "at_least_as_cautious (sample_input\<lparr>in_Entry := sample_entry\<lparr>ent_Class := ClassEvidence\<rparr>,
     in_Jobs := [\<lparr>job_ID = ''7'', job_State = JobDone, job_Path = ''/x'', job_Owner = ''''\<rparr>]\<rparr>) ?i"
    unfolding at_least_as_cautious_def
    by (intro conjI exI [of _ "[]"]) (simp_all add: sample_input_def sample_entry_def)
  show "Refused (Evaluate 0 ?i)"
    unfolding Evaluate_refused_iff by (simp add: safe_to_mutate_def Let_def sample_input_def)
qed

text \<open>Clamping makes any recommendation obey the verdict, whatever a model proposed: the result is
  allowed, clamping it again changes nothing, it is never riskier than the proposal, and an allowed
  proposal is returned as it is.\<close>

theorem Clamp_obeys_verdict:
  "Allows v (rec_Action (ClampRecommendation v r))
   \<and> ClampRecommendation v (ClampRecommendation v r) = ClampRecommendation v r
   \<and> RiskRank (rec_Action (ClampRecommendation v r)) \<le> RiskRank (rec_Action r)
   \<and> (if Allows v (rec_Action r) then ClampRecommendation v r = r
      else rec_Action (ClampRecommendation v r) = ActionInvestigate
         \<and> rec_Retention (ClampRecommendation v r) = RetentionNone)"
proof -
  have "if Allows v (rec_Action r) then ClampRecommendation v r = r
      else rec_Action (ClampRecommendation v r) = ActionInvestigate
         \<and> rec_Retention (ClampRecommendation v r) = RetentionNone"
    by (simp add: ClampRecommendation_def)
  then show ?thesis using Clamp_allowed Clamp_idem Clamp_not_riskier by blast
qed

text \<open>While size plus headroom fits an \<open>int64\<close>, the free-space guard is exact: for a measured item
  and a known destination on another filesystem it stays silent exactly when the destination has at
  least the size plus the headroom free.\<close>

theorem guardFreeSpace_exact:
  assumes "in_Target i = Some t" "tgt_Known t" "tgt_Device t \<noteq> fs_Device (ent_FilesystemID (in_Entry i))"
    and "ent_Kind (in_Entry i) \<noteq> EntryKindDirectory \<or> ent_SizeIsDeep (in_Entry i)"
    and "0 \<le> sint (ent_SizeBytes (in_Entry i))" "0 \<le> sint (spol_MinFreeBytes (in_Policy i))"
    and "sint (ent_SizeBytes (in_Entry i)) + sint (spol_MinFreeBytes (in_Policy i)) < 2 ^ 63"
  shows "guardFreeSpace i = [] \<longleftrightarrow> fits_unbounded (in_Policy i) (in_Entry i) t"
  using assms(1-4) space_check_unbounded [OF assms(5-7)]
  by (auto simp: guardFreeSpace_def Let_def)

definition far_target :: "int64 \<Rightarrow> target" where
  "far_target free =
     \<lparr>tgt_Dir = ''/q'', tgt_Device = 9, tgt_FreeBytes = free, tgt_Known = True, tgt_Detail = ''''\<rparr>"

theorem guardFreeSpace_exact_witness:
  "guardFreeSpace (sample_input\<lparr>in_Target := Some (far_target 5096)\<rparr>) = []
   \<and> guardFreeSpace (sample_input\<lparr>in_Target := Some (far_target 5095)\<rparr>) \<noteq> []"
  using guardFreeSpace_exact [of "sample_input\<lparr>in_Target := Some (far_target 5096)\<rparr>" "far_target 5096"]
    guardFreeSpace_exact [of "sample_input\<lparr>in_Target := Some (far_target 5095)\<rparr>" "far_target 5095"]
  by (simp add: sample_input_def sample_entry_def sample_policy_def far_target_def fits_unbounded_def)


section \<open>Every guard is load-bearing\<close>

definition sample_git :: git_state where
  "sample_git =
     \<lparr>git_RepoRoot = ''/w/a'', git_WorktreeOf = '''', git_Bare = False, git_Remote = '''',
      git_Branch = ''main'', git_Head = ''c0ffee'', git_UpstreamKnown = True, git_LastActivity = 3,
      git_PublicationKnown = True, git_ContentsKnown = True, git_ContentsProtection = '''',
      git_SourceApprovalFingerprint = '''', git_DirtyFiles = 0, git_Stashes = 0,
      git_UnpublishedCommits = 0, git_Locked = False, git_Degraded = False, git_DegradedReason = ''''\<rparr>"

text \<open>For each guard, an input that this guard alone refuses.\<close>

definition only_refused_by :: "string \<Rightarrow> safety_input" where
  "only_refused_by name =
    (let e = sample_entry; i = sample_input
     in if name = ''collected_protections''
        then i\<lparr>in_Entry := e\<lparr>ent_Protections := [protect ProtectActiveProcess SourceProcess ''pid 1'']\<rparr>\<rparr>
        else if name = ''unknown_evidence''
        then i\<lparr>in_Entry := e\<lparr>ent_Evidence :=
          [\<lparr>ev_Source = SourceProcess, ev_Signal = ''unknown:fds'', ev_Detail = '''', ev_ObservedAt = 1\<rparr>]\<rparr>\<rparr>
        else if name = ''filesystem_identity''
        then i\<lparr>in_Entry := e\<lparr>ent_FilesystemID := \<lparr>fs_Device = 0, fs_Inode = 0\<rparr>\<rparr>\<rparr>
        else if name = ''git_state''
        then i\<lparr>in_Entry := e\<lparr>ent_Git := Some (sample_git\<lparr>git_DirtyFiles := 1\<rparr>)\<rparr>\<rparr>
        else if name = ''symlink_containment'' then i\<lparr>in_Entry := e\<lparr>ent_Kind := EntryKindSymlink\<rparr>\<rparr>
        else if name = ''protected_paths'' then i\<lparr>in_Entry := e\<lparr>ent_Path := ''/w/keep/x''\<rparr>\<rparr>
        else if name = ''sensitive_names'' then i\<lparr>in_Entry := e\<lparr>ent_Path := ''/w/id.pem''\<rparr>\<rparr>
        else if name = ''live_databases''
        then i\<lparr>in_Entry := e\<lparr>ent_Path := ''/w/x.db'', ent_Kind := EntryKindFile\<rparr>\<rparr>
        else if name = ''durable_evidence'' then i\<lparr>in_Entry := e\<lparr>ent_Class := ClassEvidence\<rparr>\<rparr>
        else if name = ''job_ownership''
        then i\<lparr>in_Jobs := [\<lparr>job_ID = ''7'', job_State = JobQueued, job_Path = ''/w/a/b'', job_Owner = ''''\<rparr>]\<rparr>
        else if name = ''quarantine_filesystem''
        then i\<lparr>in_Target := Some (far_target 100000)\<rparr>
        else i\<lparr>in_Policy := sample_policy\<lparr>spol_AllowCrossFilesystemCopy := True\<rparr>,
               in_Target := Some (far_target 10)\<rparr>)"

definition refusing :: "safety_input \<Rightarrow> string list" where
  "refusing inp = map fst (filter (\<lambda>g. snd g inp \<noteq> []) guards)"

lemma sample_locations:
  "location_free sample_policy ''/w/a''" "location_free sample_policy ''/w/id.pem''"
  "location_free sample_policy ''/w/x.db''" "\<not> location_free sample_policy ''/w/keep/x''"
  by code_simp+

lemma sample_names:
  "name_free sample_policy ''/w/a''" "\<not> name_free sample_policy ''/w/id.pem''"
  "name_free sample_policy ''/w/x.db''" "name_free sample_policy ''/w/keep/x''"
  by code_simp+

lemma sample_paths: "IsDatabasePath ''/w/x.db''" "PathsOverlap ''/w/a'' ''/w/a/b''"
  by code_simp+

lemma sample_cross:
  "location_free (sample_policy\<lparr>spol_AllowCrossFilesystemCopy := b\<rparr>) q = location_free sample_policy q"
  "name_free (sample_policy\<lparr>spol_AllowCrossFilesystemCopy := b\<rparr>) q = name_free sample_policy q"
  by (simp_all add: location_free_def name_free_def)

lemma sample_fields:
  "in_Entry sample_input = sample_entry" "in_Policy sample_input = sample_policy"
  "in_Jobs sample_input = []" "in_Target sample_input = None"
  "ent_Kind sample_entry = EntryKindDirectory" "ent_Path sample_entry = ''/w/a''"
  "ent_Protections sample_entry = []" "ent_Evidence sample_entry = []" "ent_Git sample_entry = None"
  "ent_Class sample_entry = ClassCache" "ent_FilesystemID sample_entry = \<lparr>fs_Device = 8, fs_Inode = 42\<rparr>"
  "ent_SizeBytes sample_entry = 4096" "ent_SizeIsDeep sample_entry" "ent_CanonicalPath sample_entry = ''''"
  "spol_MinFreeBytes sample_policy = 1000" "\<not> spol_AllowCrossFilesystemCopy sample_policy"
  by (simp_all add: sample_input_def sample_entry_def sample_policy_def)

lemmas refusing_simps =
  refusing_def guards_def collected_Nil unknown_Nil identity_Nil git_Nil symlink_Nil protected_Nil
  names_Nil database_Nil evidence_Nil jobs_Nil sample_locations sample_names sample_paths sample_cross
  sample_fields

lemma only_refused_by_refusing: "list_all (\<lambda>n. refusing (only_refused_by n) = [n]) GuardNames"
  unfolding GuardNames_def guards_def
  by (simp add: only_refused_by_def refusing_simps Let_def fsid_Zero_def HasPrefix_def
      symlink_contained_def unowned_def git_settled_def sample_git_def guardQuarantineFilesystem_def
      guardFreeSpace_def far_target_def)

text \<open>No registered guard is redundant: for each of the twelve there is an input the engine refuses
  and would allow if that one guard were removed.\<close>

theorem guards_load_bearing:
  "list_all (\<lambda>name. \<exists>inp. Refused (Evaluate clock inp)
      \<and> \<not> Refused (evaluateWith clock inp (filter (\<lambda>g. fst g \<noteq> name) guards))) GuardNames"
proof -
  have "Refused (Evaluate clock i) \<and> \<not> Refused (evaluateWith clock i (filter (\<lambda>g. fst g \<noteq> n) guards))"
    if r: "refusing i = [n]" for i n
  proof -
    have "n \<in> set (refusing i)" using r by simp
    then have "\<exists>g \<in> set guards. snd g i \<noteq> []" by (auto simp: refusing_def)
    moreover have "snd g i = []" if "g \<in> set guards" "fst g \<noteq> n" for g
    proof (rule ccontr)
      assume "snd g i \<noteq> []"
      with that(1) have "fst g \<in> set (refusing i)" by (auto simp: refusing_def)
      with r that(2) show False by simp
    qed
    then have "raised (filter (\<lambda>g. fst g \<noteq> n) guards) i = []" by (auto simp: raised_def)
    then have "\<not> Refused (evaluateWith clock i (filter (\<lambda>g. fst g \<noteq> n) guards))"
      by (simp add: evaluateWith_eq Normalize_refused_iff start_verdict_def)
    ultimately show ?thesis by (simp add: Evaluate_def core.refused_iff)
  qed
  then show ?thesis using only_refused_by_refusing unfolding list_all_iff by blast
qed

end
