(* ===== verification/Collect.thy ===== *)
theory Collect
  imports Sha256 CorePlan
begin

text \<open>
  \<open>internal/collect\<close>, the parts that decide what an inventory means: fingerprints and snapshots of
  \<open>fingerprint.go\<close>, the completeness check of \<open>evidence.go\<close>, and from \<open>collect.go\<close> the recording of
  evidence, protections, unknowns and references, the merge of entries two roots produced and the
  final assembly of a run.  The collectors that read the file system, Git, processes and services
  produce the entries, references and reports these operations work on.
\<close>

section \<open>Fingerprints\<close>

abbreviation NUL :: char where "NUL \<equiv> CHR 0x00"

definition git_line :: "git_state \<Rightarrow> string" where
  "git_line g =
     ''git='' @ join ''|''
       [git_Head g, git_Branch g, show_int (git_DirtyFiles g), show_int (git_Stashes g),
        show_int (git_UnpublishedCommits g), show_bool (git_Locked g), show_bool (git_Degraded g),
        show_bool (git_UpstreamKnown g), show_bool (git_PublicationKnown g), show_bool (git_Bare g),
        git_WorktreeOf g, git_Remote g]"

definition fingerprint_fields :: "entry \<Rightarrow> bool \<Rightarrow> string list" where
  "fingerprint_fields e gitActivity =
     [''path='' @ ent_Path e,
      ''kind='' @ entryKind_str (ent_Kind e),
      ''device='' @ show_u64 (fs_Device (ent_FilesystemID e)),
      ''inode='' @ show_u64 (fs_Inode (ent_FilesystemID e)),
      ''uid='' @ show_nat (unat (own_UID (ent_Ownership e))),
      ''gid='' @ show_nat (unat (own_GID (ent_Ownership e))),
      ''mode='' @ own_Mode (ent_Ownership e),
      ''size='' @ show_i64 (ent_SizeBytes e),
      ''deep='' @ show_bool (ent_SizeIsDeep e),
      ''modified='' @ show_int (UnixNano (ent_ModifiedAt e))]
   @ (if ent_LatestModifiedAt e \<noteq> time_zero
      then [''latest_modified='' @ show_int (UnixNano (ent_LatestModifiedAt e))] else [])
   @ [''link='' @ ent_SymlinkTarget e]
   @ (case ent_ExportArchive e of
        None \<Rightarrow> []
      | Some x \<Rightarrow> [''export_archive='' @ xab_Manifest x @ ''|'' @ xab_ManifestSHA256 x])
   @ (case ent_WorkspaceArchive e of
        None \<Rightarrow> []
      | Some b \<Rightarrow> [''workspace_archive='' @ join ''|''
          [wab_Manifest b, wab_ManifestSHA256 b, show_int (wab_MemberCount b), wab_TreeDigest b,
           show_int (UnixNano (wab_CreatedAt b))]])
   @ (case ent_Git e of
        None \<Rightarrow> [''git=none'']
      | Some g \<Rightarrow>
          [git_line g]
        @ (if gitActivity then [''git_activity='' @ show_int (UnixNano (git_LastActivity g))] else [])
        @ (if git_SourceApprovalFingerprint g \<noteq> ''''
           then [''source_approvals='' @ git_SourceApprovalFingerprint g] else []))"

definition fingerprint_payload :: "entry \<Rightarrow> bool \<Rightarrow> string" where
  "fingerprint_payload e gitActivity =
     concat (map (\<lambda>line. line @ [NUL]) (fingerprint_fields e gitActivity))"

definition fingerprint :: "entry \<Rightarrow> bool \<Rightarrow> string" where
  "fingerprint e gitActivity = sha256_hex (fingerprint_payload e gitActivity)"

definition Fingerprint :: "entry \<Rightarrow> string" where
  "Fingerprint e = fingerprint e True"

definition SnapshotFingerprint :: "entry \<Rightarrow> string option" where
  "SnapshotFingerprint e =
     (let current = Fingerprint e
      in if ent_Fingerprint e = '''' \<or> ent_Fingerprint e = current then Some current
         else if ent_ContractVersion e \<noteq> ContractVersion then None
         else (case ent_Git e of
            None \<Rightarrow> None
          | Some g \<Rightarrow>
              if git_LastActivity g = time_zero \<or> ent_ExportArchive e \<noteq> None
                 \<or> ent_WorkspaceArchive e \<noteq> None then None
              else if ent_Fingerprint e \<noteq> fingerprint e False then None
              else Some current))"

section \<open>Recording\<close>

definition addEvidence :: "evidence \<Rightarrow> entry \<Rightarrow> entry" where
  "addEvidence ev e =
     (if \<exists>x \<in> set (ent_Evidence e).
           ev_Source x = ev_Source ev \<and> ev_Signal x = ev_Signal ev \<and> ev_Detail x = ev_Detail ev
      then e else e\<lparr>ent_Evidence := ent_Evidence e @ [ev]\<rparr>)"

definition collectProtection :: "protection \<Rightarrow> entry \<Rightarrow> entry" where
  "collectProtection p e =
     (if \<exists>x \<in> set (ent_Protections e). prot_Kind x = prot_Kind p \<and> prot_Reason x = prot_Reason p
      then e else e\<lparr>ent_Protections := ent_Protections e @ [p]\<rparr>)"

definition collected :: "protection_kind \<Rightarrow> evidence_source \<Rightarrow> string \<Rightarrow> protection" where
  "collected kind source reason =
     \<lparr>prot_Kind = kind, prot_Reason = reason, prot_Source = source, prot_Remediation = '''',
      prot_Blocking = True\<rparr>"

definition addUnknown ::
    "evidence_source \<Rightarrow> protection_kind \<Rightarrow> string \<Rightarrow> string \<Rightarrow> time \<Rightarrow> entry \<Rightarrow> entry" where
  "addUnknown source kind signal detail now e =
     collectProtection (collected kind source detail)
       (addEvidence \<lparr>ev_Source = source, ev_Signal = ''unknown:'' @ signal, ev_Detail = detail,
          ev_ObservedAt = now\<rparr> e)"

record reference =
  ref_Path :: string
  ref_Source :: evidence_source
  ref_Protection :: protection_kind
  ref_Signal :: string
  ref_Detail :: string
  ref_Subtree :: bool

definition ref_hits :: "reference \<Rightarrow> entry \<Rightarrow> bool" where
  "ref_hits r e \<longleftrightarrow> PathWithin (ref_Path r) (ent_Path e)
     \<or> ref_Subtree r \<and> PathWithin (ent_Path e) (ref_Path r)"

definition attach_one :: "time \<Rightarrow> reference \<Rightarrow> entry \<Rightarrow> entry" where
  "attach_one now r e =
     (if ref_hits r e
      then collectProtection (collected (ref_Protection r) (ref_Source r) (ref_Detail r))
        (addEvidence \<lparr>ev_Source = ref_Source r, ev_Signal = ref_Signal r, ev_Detail = ref_Detail r,
           ev_ObservedAt = now\<rparr> e)
      else e)"

text \<open>The entries after all references, and how many references matched one.\<close>

fun attachReferences :: "time \<Rightarrow> entry list \<Rightarrow> reference list \<Rightarrow> entry list \<times> int" where
  "attachReferences now entries [] = (entries, 0)"
| "attachReferences now entries (r # refs) =
     (if \<not> IsCanonicalPath (ref_Path r) then attachReferences now entries refs
      else let (entries', n) = attachReferences now (map (attach_one now r) entries) refs
           in (entries', if \<exists>e \<in> set entries. ref_hits r e then n + 1 else n))"

text \<open>The map from paths to observations keeps the last reference of a path.\<close>

definition observation :: "reference list \<Rightarrow> string \<Rightarrow> reference option" where
  "observation refs p = find (\<lambda>r. ref_Path r = p) (rev refs)"

definition gitmoot_one ::
    "reference list \<Rightarrow> collector_report \<Rightarrow> string \<Rightarrow> time \<Rightarrow> entry \<Rightarrow> entry \<times> bool" where
  "gitmoot_one refs report home now e = (case observation refs (ent_Path e) of
     Some r \<Rightarrow>
       (if ref_Signal r = ''unknown:gitmoot''
        then addUnknown SourceJob ProtectOwningJob ''gitmoot'' (ref_Detail r) now e
        else collectProtection
          (collected ProtectOwningJob SourceJob
            ''Gitmoot-managed worktree; use Gitmoot's own lifecycle cleanup'')
          (addEvidence \<lparr>ev_Source = SourceJob, ev_Signal = ref_Signal r, ev_Detail = ref_Detail r,
             ev_ObservedAt = now\<rparr> e), False)
   | None \<Rightarrow>
       if rep_Status report = CollectorPartial \<and> refs = [] \<and> PathWithin (ent_Path e) home
       then (addUnknown SourceJob ProtectOwningJob ''gitmoot'' (rep_Detail report) now e, True)
       else (e, False))"

definition attachGitmootObservations ::
    "entry list \<Rightarrow> reference list \<Rightarrow> collector_report \<Rightarrow> string \<Rightarrow> time \<Rightarrow> entry list \<times> collector_report" where
  "attachGitmootObservations entries refs report home now =
     (let rs = map (gitmoot_one refs report home now) entries;
          n = int (length (filter snd rs))
      in (map fst rs, report\<lparr>rep_Recorded := rep_Recorded report + n,
            rep_Unknowns := rep_Unknowns report + n\<rparr>))"

definition appendDetail :: "string \<Rightarrow> string \<Rightarrow> string" where
  "appendDetail existing addition =
     (if existing = '''' then addition
      else if \<exists>ps ss. existing = ps @ addition @ ss then existing
      else existing @ ''; '' @ addition)"

section \<open>Merging what two roots observed\<close>

definition absorb :: "entry \<Rightarrow> entry \<Rightarrow> entry" where
  "absorb into e =
     fold collectProtection (ent_Protections e) (fold addEvidence (ent_Evidence e) into)"

definition merge_into :: "entry \<Rightarrow> entry \<Rightarrow> entry" where
  "merge_into existing e =
     (if length (ent_Root existing) < length (ent_Root e)
      then absorb (e\<lparr>ent_Evidence := ent_Evidence existing,
             ent_Protections := ent_Protections existing\<rparr>) e
      else let x = absorb existing e
           in if ent_SizeIsDeep e \<and> \<not> ent_SizeIsDeep x
              then x\<lparr>ent_SizeBytes := ent_SizeBytes e, ent_SizeIsDeep := True\<rparr> else x)"

fun merge_entry :: "entry list \<Rightarrow> entry \<Rightarrow> entry list" where
  "merge_entry [] e = [e]"
| "merge_entry (x # xs) e =
     (if ent_Path x = ent_Path e then merge_into x e # xs else x # merge_entry xs e)"

definition mergeDuplicatePaths :: "entry list \<Rightarrow> entry list" where
  "mergeDuplicatePaths entries = foldl merge_entry [] entries"

section \<open>Comparing with the previous scan\<close>

definition prior_entry :: "entry list \<Rightarrow> string \<Rightarrow> entry option" where
  "prior_entry prior p = find (\<lambda>e. ent_Path e = p) (rev prior)"

definition fs_note :: "string \<Rightarrow> string \<Rightarrow> time \<Rightarrow> evidence" where
  "fs_note signal detail now =
     \<lparr>ev_Source = SourceFilesystem, ev_Signal = signal, ev_Detail = detail, ev_ObservedAt = now\<rparr>"

definition apply_fingerprint :: "entry list \<Rightarrow> string \<Rightarrow> time \<Rightarrow> entry \<Rightarrow> entry" where
  "apply_fingerprint prior priorScanID now e0 =
     (let e = e0\<lparr>ent_Fingerprint := Fingerprint e0\<rparr>
      in if priorScanID = '''' then e
         else (case prior_entry prior (ent_Path e) of
            None \<Rightarrow> addEvidence
              (fs_note ''new_since_prior_scan'' (''not present in scan '' @ priorScanID) now) e
          | Some before \<Rightarrow>
             let signal =
                   (if ent_Fingerprint before \<noteq> ''''
                       \<and> SnapshotFingerprint before = Some (ent_Fingerprint e)
                    then ''unchanged_since_prior_scan'' else ''changed_since_prior_scan'');
                 e' = addEvidence (fs_note signal (''compared with scan '' @ priorScanID) now) e
             in if ent_FilesystemID before \<noteq> ent_FilesystemID e' \<and> \<not> fsid_Zero (ent_FilesystemID before)
                then addEvidence (fs_note ''identity_changed_since_prior_scan''
                  (''identity was '' @ fsid_String (ent_FilesystemID before) @ '', now ''
                    @ fsid_String (ent_FilesystemID e')) now) e'
                else e'))"

definition applyFingerprints :: "entry list \<Rightarrow> entry list \<Rightarrow> string \<Rightarrow> time \<Rightarrow> entry list" where
  "applyFingerprints entries prior priorScanID now =
     map (apply_fingerprint prior priorScanID now) entries"

text \<open>The end of \<open>Run\<close>, from the entries every collector has annotated to the inventory.\<close>

definition finish_run :: "entry list \<Rightarrow> entry list \<Rightarrow> string \<Rightarrow> time \<Rightarrow> entry list" where
  "finish_run entries prior priorScanID now =
     map Entry_Normalize
       (sort_key ent_Path (applyFingerprints (mergeDuplicatePaths entries) prior priorScanID now))"

section \<open>Completeness of the evidence\<close>

definition report_gap :: "bool \<Rightarrow> collector_report \<Rightarrow> string option" where
  "report_gap agentSources r =
     (if rep_Name r \<in> {''filesystem'', ''processes'', ''services''} \<and> rep_Status r \<noteq> CollectorRan
      then Some (''evidence incomplete: '' @ rep_Name r @ '': '' @ rep_Detail r)
      else if rep_Name r = ''git'' \<and> rep_Status r \<noteq> CollectorRan \<and> rep_Status r \<noteq> CollectorPartial
      then Some (''Git evidence incomplete: '' @ rep_Detail r)
      else if rep_Name r = ''gitmoot'' \<and> rep_Status r \<noteq> CollectorRan \<and> rep_Status r \<noteq> CollectorSkipped
      then Some (''Gitmoot evidence incomplete: '' @ rep_Detail r)
      else if rep_Name r = ''agents'' \<and> agentSources \<and> rep_Status r \<noteq> CollectorRan
      then Some (''agent evidence incomplete: '' @ rep_Detail r)
      else None)"

fun EvidenceGap :: "collector_report list \<Rightarrow> bool \<Rightarrow> string option" where
  "EvidenceGap [] agentSources = None"
| "EvidenceGap (r # rs) agentSources =
     (case report_gap agentSources r of Some e \<Rightarrow> Some e | None \<Rightarrow> EvidenceGap rs agentSources)"

end
