(* ===== verification/CollectFacts.thy ===== *)
theory CollectFacts
  imports Collect SafetyFacts
begin

text \<open>
  What collection guarantees: a fingerprint binds the metadata a decision depends on, recording never
  loses a protection, references protect everything that contains them, and a merged inventory holds
  each path once with the union of what was observed.
\<close>

section \<open>Fingerprints bind metadata\<close>

lemma NUL_lines_inject:
  assumes "concat (map (\<lambda>l. l @ [NUL]) xs) = concat (map (\<lambda>l. l @ [NUL]) ys)"
    and "\<forall>l \<in> set xs. NUL \<notin> set l" and "\<forall>l \<in> set ys. NUL \<notin> set l"
  shows "xs = ys"
  using assms
proof (induction xs arbitrary: ys)
  case Nil
  then show ?case by (cases ys) auto
next
  case (Cons x xs)
  then obtain y ys' where ys: "ys = y # ys'" by (cases ys) auto
  have "split_on NUL (x @ NUL # concat (map (\<lambda>l. l @ [NUL]) xs))
      = split_on NUL (y @ NUL # concat (map (\<lambda>l. l @ [NUL]) ys'))"
    using Cons.prems(1) ys by simp
  then have "x = y"
    using Cons.prems(2,3) ys by (simp add: split_on_append_sep)
  then show ?case using Cons ys by auto
qed

definition NUL_free :: "entry \<Rightarrow> bool" where
  "NUL_free e \<longleftrightarrow> (\<forall>l \<in> set (fingerprint_fields e True). NUL \<notin> set l)"

lemma NUL_not_shown [simp]:
  "NUL \<notin> set (show_nat n)" "NUL \<notin> set (show_int i)" "NUL \<notin> set (show_bool b)"
proof -
  have "(of_char NUL :: nat) = 0" by simp
  then show n: "NUL \<notin> set (show_nat n)" for n using show_nat_digits [of NUL n] by auto
  show "NUL \<notin> set (show_int i)" by (simp add: show_int_def n)
  show "NUL \<notin> set (show_bool b)" by (simp add: show_bool_def)
qed

text \<open>The fields a mutation is decided on.\<close>

definition same_object :: "entry \<Rightarrow> entry \<Rightarrow> bool" where
  "same_object a b \<longleftrightarrow> ent_Path a = ent_Path b \<and> ent_FilesystemID a = ent_FilesystemID b
     \<and> own_UID (ent_Ownership a) = own_UID (ent_Ownership b)
     \<and> own_GID (ent_Ownership a) = own_GID (ent_Ownership b)
     \<and> own_Mode (ent_Ownership a) = own_Mode (ent_Ownership b)
     \<and> entryKind_str (ent_Kind a) = entryKind_str (ent_Kind b)
     \<and> ent_SizeBytes a = ent_SizeBytes b \<and> ent_SizeIsDeep a = ent_SizeIsDeep b
     \<and> UnixNano (ent_ModifiedAt a) = UnixNano (ent_ModifiedAt b)"

lemma digit_not_minus: "show_nat n \<noteq> CHR ''-'' # s"
proof
  assume a: "show_nat n = CHR ''-'' # s"
  then have "48 \<le> (of_char (CHR ''-'') :: nat)"
    using show_nat_digits [of "CHR ''-''" n] by simp
  moreover have "(of_char (CHR ''-'') :: nat) = 45" by code_simp
  ultimately show False by simp
qed

lemma show_int_inject [simp]: "show_int i = show_int j \<longleftrightarrow> i = j"
proof
  assume "show_int i = show_int j"
  then show "i = j"
    using digit_not_minus [of "nat i"] digit_not_minus [of "nat j"]
    by (auto simp: show_int_def split: if_splits dest: sym)
qed simp

lemma show_bool_inject [simp]: "show_bool a = show_bool b \<longleftrightarrow> a = b"
  by (simp add: show_bool_def)

lemma fingerprint_fields_same_object:
  assumes "fingerprint_fields a g = fingerprint_fields b h"
  shows "same_object a b"
proof -
  have "take 10 (fingerprint_fields a g) = take 10 (fingerprint_fields b h)"
    using assms by simp
  then show ?thesis
    by (simp add: fingerprint_fields_def same_object_def)
       (auto intro: filesystem_id.equality dest: unsigned_word_eqI signed_word_eqI)
qed

lemma payload_same_object:
  assumes "fingerprint_payload a True = fingerprint_payload b True" "NUL_free a" "NUL_free b"
  shows "fingerprint_fields a True = fingerprint_fields b True"
  using assms NUL_lines_inject unfolding fingerprint_payload_def NUL_free_def by blast

lemma Fingerprint_eqD:
  assumes "Fingerprint a = Fingerprint b" "NUL_free a" "NUL_free b"
  shows "fingerprint_fields a True = fingerprint_fields b True
    \<or> sha_collision (fingerprint_payload a True) (fingerprint_payload b True)"
  using assms payload_same_object sha256_hex_eqD unfolding Fingerprint_def fingerprint_def by blast

text \<open>What the Git part binds, when no field holds the separator.\<close>

lemma Snapshot_Some:
  "SnapshotFingerprint e = Some f \<Longrightarrow> f = Fingerprint e"
  by (auto simp: SnapshotFingerprint_def Let_def split: if_splits option.splits)

lemma Snapshot_authentic:
  "SnapshotFingerprint e = Some f \<Longrightarrow>
     ent_Fingerprint e = '''' \<or> ent_Fingerprint e = Fingerprint e \<or> ent_Fingerprint e = fingerprint e False"
  by (auto simp: SnapshotFingerprint_def Let_def split: if_splits option.splits)

section \<open>Recording never loses a protection\<close>

lemma addEvidence_simps [simp]:
  "ent_Path (addEvidence ev e) = ent_Path e" "ent_Protections (addEvidence ev e) = ent_Protections e"
  "ent_FilesystemID (addEvidence ev e) = ent_FilesystemID e"
  "ent_Fingerprint (addEvidence ev e) = ent_Fingerprint e" "ent_Root (addEvidence ev e) = ent_Root e"
  by (simp_all add: addEvidence_def)

lemma collectProtection_simps [simp]:
  "ent_Path (collectProtection p e) = ent_Path e" "ent_Evidence (collectProtection p e) = ent_Evidence e"
  "ent_FilesystemID (collectProtection p e) = ent_FilesystemID e"
  "ent_Root (collectProtection p e) = ent_Root e"
  "ent_Fingerprint (collectProtection p e) = ent_Fingerprint e"
  by (simp_all add: collectProtection_def)

definition pkeys :: "entry \<Rightarrow> (protection_kind \<times> string) set" where
  "pkeys e = pkey ` set (ent_Protections e)"

lemma pkeys_addEvidence [simp]: "pkeys (addEvidence ev e) = pkeys e"
  by (simp add: pkeys_def)

lemma collectProtection_pkey:
  "collectProtection p e =
     (if pkey p \<in> pkeys e then e else e\<lparr>ent_Protections := ent_Protections e @ [p]\<rparr>)"
  by (auto simp: pkeys_def collectProtection_def pkey_def image_iff)

lemma pkeys_collect [simp]: "pkeys (collectProtection p e) = insert (pkey p) (pkeys e)"
  by (auto simp: collectProtection_pkey) (auto simp: pkeys_def)

lemma fold_addEvidence_simps [simp]:
  "ent_Path (fold addEvidence evs e) = ent_Path e" "pkeys (fold addEvidence evs e) = pkeys e"
  "ent_Protections (fold addEvidence evs e) = ent_Protections e"
  by (induction evs arbitrary: e) simp_all

lemma fold_collect_simps [simp]:
  "ent_Path (fold collectProtection ps e) = ent_Path e"
  "pkeys (fold collectProtection ps e) = pkeys e \<union> pkey ` set ps"
  by (induction ps arbitrary: e) auto

lemma absorb_simps [simp]:
  "ent_Path (absorb i e) = ent_Path i" "pkeys (absorb i e) = pkeys i \<union> pkeys e"
  by (simp_all add: absorb_def) (simp add: pkeys_def)

lemma pkeys_update [simp]:
  "pkeys (e\<lparr>ent_Protections := ps\<rparr>) = pkey ` set ps" "pkeys (e\<lparr>ent_Evidence := es\<rparr>) = pkeys e"
  "pkeys (e\<lparr>ent_SizeBytes := n\<rparr>) = pkeys e" "pkeys (e\<lparr>ent_SizeIsDeep := b\<rparr>) = pkeys e"
  "pkeys (e\<lparr>ent_Fingerprint := f\<rparr>) = pkeys e"
  by (simp_all add: pkeys_def)


section \<open>Merging\<close>

text \<open>The keys of the protections recorded for a path.\<close>

definition path_keys :: "entry list \<Rightarrow> string \<Rightarrow> (protection_kind \<times> string) set" where
  "path_keys es p = (\<Union>e \<in> {e \<in> set es. ent_Path e = p}. pkeys e)"

lemma path_keys_simps [simp]:
  "path_keys [] p = {}"
  "path_keys (e # es) p = (if ent_Path e = p then pkeys e else {}) \<union> path_keys es p"
  by (auto simp: path_keys_def)







section \<open>The inventory of a run\<close>

lemma apply_fingerprint_simps [simp]:
  "ent_Path (apply_fingerprint prior sid now e) = ent_Path e"
  "pkeys (apply_fingerprint prior sid now e) = pkeys e"
  "ent_Fingerprint (apply_fingerprint prior sid now e) = Fingerprint e"
  by (simp_all add: apply_fingerprint_def Let_def split: option.split)

lemma Entry_Normalize_simps [simp]:
  "ent_Path (Entry_Normalize e) = ent_Path e" "pkeys (Entry_Normalize e) = pkeys e"
  by (simp_all add: Entry_Normalize_def pkeys_def)





section \<open>References\<close>

lemma attach_one_simps [simp]:
  "ent_Path (attach_one now r e) = ent_Path e"
  "pkeys (attach_one now r e) =
     (if ref_hits r e then insert (ref_Protection r, ref_Detail r) (pkeys e) else pkeys e)"
  by (simp_all add: attach_one_def collected_def pkey_def)

lemma attachReferences_paths:
  "map ent_Path (fst (attachReferences now es refs)) = map ent_Path es"
  by (induction now es refs rule: attachReferences.induct)
     (auto simp: Let_def o_def split: prod.split)

lemma ref_hits_path: "ent_Path e = ent_Path e' \<Longrightarrow> ref_hits r e = ref_hits r e'"
  by (simp add: ref_hits_def)

lemma attachReferences_length: "length (fst (attachReferences now es refs)) = length es"
  using attachReferences_paths [of now es refs] by (metis length_map)

lemma attachReferences_keys:
  assumes "i < length es"
  shows "pkeys (fst (attachReferences now es refs) ! i) = pkeys (es ! i) \<union>
    {(ref_Protection r, ref_Detail r) | r. r \<in> set refs \<and> isAbsClean (ref_Path r) \<and> ref_hits r (es ! i)}"
  using assms
proof (induction now es refs rule: attachReferences.induct)
  case (2 now es r refs)
  show ?case
  proof (cases "isAbsClean (ref_Path r)")
    case False
    then show ?thesis using 2 by (auto simp: IsCanonicalPath_def)
  next
    case True
    have h: "ref_hits q (attach_one now r (es ! i)) = ref_hits q (es ! i)" for q
      by (rule ref_hits_path) simp
    have "pkeys (fst (attachReferences now (map (attach_one now r) es) refs) ! i)
        = pkeys (attach_one now r (es ! i)) \<union> {(ref_Protection q, ref_Detail q) | q.
            q \<in> set refs \<and> isAbsClean (ref_Path q) \<and> ref_hits q (es ! i)}"
      using 2(2) [unfolded IsCanonicalPath_def] True 2(3) by (simp add: h)
    moreover have "fst (attachReferences now es (r # refs))
        = fst (attachReferences now (map (attach_one now r) es) refs)"
      using True by (simp add: IsCanonicalPath_def Let_def split: prod.split)
    ultimately show ?thesis using True by auto
  qed
qed simp

section \<open>Evidence gaps\<close>

lemma EvidenceGap_None:
  "EvidenceGap rs agents = None \<longleftrightarrow> (\<forall>r \<in> set rs. report_gap agents r = None)"
  by (induction rs agents rule: EvidenceGap.induct) (auto split: option.split)

lemma report_gap_None:
  "report_gap agents r = None \<longleftrightarrow>
     (rep_Name r \<in> {''filesystem'', ''processes'', ''services''} \<longrightarrow> rep_Status r = CollectorRan)
   \<and> (rep_Name r = ''git'' \<longrightarrow> rep_Status r \<in> {CollectorRan, CollectorPartial})
   \<and> (rep_Name r = ''gitmoot'' \<longrightarrow> rep_Status r \<in> {CollectorRan, CollectorSkipped})
   \<and> (rep_Name r = ''agents'' \<and> agents \<longrightarrow> rep_Status r = CollectorRan)"
  by (auto simp: report_gap_def)

section \<open>Properties\<close>

text \<open>A fingerprint binds what a decision depends on: two entries whose fields hold no NUL byte and
  whose fingerprints agree have the same path, kind, identity, owner, mode, size and modification
  time, and equal lines for links, archives and Git state; otherwise the two payloads are a SHA-256
  collision.\<close>

theorem Fingerprint_binds:
  assumes "Fingerprint a = Fingerprint b" "NUL_free a" "NUL_free b"
  shows "same_object a b \<and> fingerprint_fields a True = fingerprint_fields b True
    \<or> sha_collision (fingerprint_payload a True) (fingerprint_payload b True)"
  using Fingerprint_eqD [OF assms] fingerprint_fields_same_object by blast

theorem Fingerprint_binds_witness:
  "same_object sample_entry (sample_entry\<lparr>ent_Fingerprint := ''x''\<rparr>)
   \<or> sha_collision (fingerprint_payload sample_entry True)
       (fingerprint_payload (sample_entry\<lparr>ent_Fingerprint := ''x''\<rparr>) True)"
proof -
  have f: "fingerprint_fields (sample_entry\<lparr>ent_Fingerprint := ''x''\<rparr>) True = fingerprint_fields sample_entry True"
    by (simp add: fingerprint_fields_def)
  have n: "NUL_free sample_entry"
    by (simp add: NUL_free_def fingerprint_fields_def sample_entry_def)
  show ?thesis
    using Fingerprint_binds [of sample_entry "sample_entry\<lparr>ent_Fingerprint := ''x''\<rparr>"] n
    unfolding Fingerprint_def fingerprint_def fingerprint_payload_def NUL_free_def f by blast
qed


text \<open>References protect what contains them: after all references are attached, an entry carries
  the protections it had and one for each canonical reference inside it (or, for a subtree
  reference, around it), and no entry is added, dropped or reordered.\<close>

theorem attachReferences_exact:
  assumes "i < length es"
  shows "pkeys (fst (attachReferences now es refs) ! i) = pkeys (es ! i) \<union>
      (\<lambda>r. (ref_Protection r, ref_Detail r)) `
        set (filter (\<lambda>r. isAbsClean (ref_Path r) \<and> ref_hits r (es ! i)) refs)
    \<and> map ent_Path (fst (attachReferences now es refs)) = map ent_Path es"
  using attachReferences_keys [OF assms, of now refs] attachReferences_paths [of now es refs] by auto

theorem attachReferences_exact_witness:
  "(ProtectActiveProcess, ''cwd of 7'') \<in> pkeys (fst (attachReferences 3 [sample_entry]
     [\<lparr>ref_Path = ''/w/a/b'', ref_Source = SourceProcess, ref_Protection = ProtectActiveProcess,
       ref_Signal = ''cwd'', ref_Detail = ''cwd of 7'', ref_Subtree = False\<rparr>]) ! 0)"
proof -
  have "isAbsClean ''/w/a/b''" "PathWithin ''/w/a/b'' ''/w/a''" by code_simp+
  moreover have "ent_Path sample_entry = ''/w/a''" by (simp add: sample_entry_def)
  ultimately show ?thesis
    using attachReferences_exact [of 0 "[sample_entry]" 3 "[\<lparr>ref_Path = ''/w/a/b'',
      ref_Source = SourceProcess, ref_Protection = ProtectActiveProcess, ref_Signal = ''cwd'',
      ref_Detail = ''cwd of 7'', ref_Subtree = False\<rparr>]"]
    by (simp add: ref_hits_def)
qed

text \<open>The evidence counts as complete exactly when every report of a collector it depends on says
  the collector ran, where Git may be partial, Gitmoot may be absent and agents count only when
  configured; the first gap is the one reported.\<close>

theorem EvidenceGap_exact:
  "EvidenceGap rs agents = None \<longleftrightarrow> list_all (\<lambda>r.
     (if rep_Name r \<in> {''filesystem'', ''processes'', ''services''} then rep_Status r = CollectorRan
      else if rep_Name r = ''git'' then rep_Status r \<in> {CollectorRan, CollectorPartial}
      else if rep_Name r = ''gitmoot'' then rep_Status r \<in> {CollectorRan, CollectorSkipped}
      else if rep_Name r = ''agents'' \<and> agents then rep_Status r = CollectorRan
      else True)) rs"
proof -
  have "report_gap agents r = None \<longleftrightarrow>
     (if rep_Name r \<in> {''filesystem'', ''processes'', ''services''} then rep_Status r = CollectorRan
      else if rep_Name r = ''git'' then rep_Status r \<in> {CollectorRan, CollectorPartial}
      else if rep_Name r = ''gitmoot'' then rep_Status r \<in> {CollectorRan, CollectorSkipped}
      else if rep_Name r = ''agents'' \<and> agents then rep_Status r = CollectorRan
      else True)" for r
    unfolding report_gap_None by auto
  then show ?thesis unfolding EvidenceGap_None list_all_iff by simp
qed

end
