(* ===== verification/SafetyRevalidate.thy ===== *)
theory SafetyRevalidate
  imports CollectFacts
begin

text \<open>
  \<open>internal/safety/revalidate.go\<close>, \<open>handle_linux.go\<close> and \<open>target_unix.go\<close>: the check that runs
  immediately before a mutation.  The fresh observation and what \<open>fstat\<close> answers on the open handle
  are inputs; \<open>Inl\<close> holds the text of an error.
\<close>

section \<open>Handles and inputs\<close>

text \<open>An open handle: the path and identity recorded at \<open>Open\<close>, and the answer of \<open>Linked\<close> now.\<close>

record handle =
  hnd_Path :: string
  hnd_ID :: filesystem_id
  hnd_Linked :: "string + bool"

type_synonym recollector = "string \<Rightarrow> string + entry"

record revalidate_input =
  rev_Planned :: entry
  rev_Action :: action
  rev_Policy :: safety_policy
  rev_Jobs :: "job_ref list"
  rev_Target :: "target option"
  rev_Now :: time
  rev_Recollect :: "recollector option"
  rev_Handle :: "handle option"

section \<open>Revalidation\<close>

definition shortFingerprint :: "string \<Rightarrow> string" where
  "shortFingerprint value =
     (if length value > 12 then take 12 value else if value = '''' then ''unknown'' else value)"

abbreviation changed :: "string \<Rightarrow> protection" where
  "changed reason \<equiv> protect ProtectIdentityChanged SourceFilesystem reason"

definition handleProtections :: "revalidate_input \<Rightarrow> handle \<Rightarrow> entry \<Rightarrow> protection list" where
  "handleProtections r h fresh =
     (case hnd_Linked h of
        Inl err \<Rightarrow> [protect ProtectCollectorFailure SourceFilesystem
          (''the planned object could not be re-checked through its handle: '' @ err)]
      | Inr linked \<Rightarrow>
          if linked then [] else [changed (''the object planned at '' @ hnd_Path h
            @ '' was removed after planning; the name now refers to something else'')])
   @ (if \<not> fsid_Zero (hnd_ID h) \<and> hnd_ID h \<noteq> ent_FilesystemID fresh
      then [changed (''the planned object had identity '' @ fsid_String (hnd_ID h) @ '', but ''
        @ ent_Path fresh @ '' is now '' @ fsid_String (ent_FilesystemID fresh))] else [])
   @ (if hnd_Path h \<noteq> '''' \<and> hnd_Path h \<noteq> ent_Path (rev_Planned r)
      then [changed (''the handle refers to '' @ hnd_Path h @ '' but the plan targets ''
        @ ent_Path (rev_Planned r))] else [])"

definition changeProtections :: "revalidate_input \<Rightarrow> entry \<Rightarrow> protection list" where
  "changeProtections r fresh =
    (let planned = rev_Planned r; a = rev_Action r
     in (if ent_Path fresh \<noteq> ent_Path planned
         then [changed (''re-observation returned '' @ ent_Path fresh @ '', not the planned path ''
           @ ent_Path planned)] else [])
      @ (if ent_FilesystemID fresh \<noteq> ent_FilesystemID planned
         then [changed (''filesystem identity changed since planning: was ''
           @ fsid_String (ent_FilesystemID planned) @ '', now ''
           @ fsid_String (ent_FilesystemID fresh))] else [])
      @ (if \<not> fsid_Zero (act_FilesystemID a) \<and> act_FilesystemID a \<noteq> ent_FilesystemID fresh
         then [changed (''action '' @ act_ID a @ '' was planned for identity ''
           @ fsid_String (act_FilesystemID a) @ '', but '' @ ent_Path fresh @ '' is now ''
           @ fsid_String (ent_FilesystemID fresh))] else [])
      @ (if act_Path a \<noteq> '''' \<and> act_Path a \<noteq> ent_Path planned
         then [changed (''action '' @ act_ID a @ '' targets '' @ act_Path a
           @ '' but was revalidated against '' @ ent_Path planned)] else [])
      @ (case rev_Handle r of None \<Rightarrow> [] | Some h \<Rightarrow> handleProtections r h fresh)
      @ (case SnapshotFingerprint planned of
           None \<Rightarrow> [changed ''saved fingerprint has an unknown format or insufficient legacy evidence'']
         | Some f \<Rightarrow>
             if f \<noteq> Fingerprint fresh
             then [changed (''metadata changed since planning: fingerprint was '' @ shortFingerprint f
               @ '', now '' @ shortFingerprint (Fingerprint fresh))] else []))"

definition refusal :: "string \<Rightarrow> time \<Rightarrow> protection \<Rightarrow> verdict" where
  "refusal path now p =
     Verdict_Normalize \<lparr>ver_ContractVersion = 0, ver_Path = path, ver_Decision = DecisionOther '''',
       ver_Protections = [p], ver_Guards = GuardNames, ver_EvaluatedAt = now\<rparr>"

definition Revalidate :: "time \<Rightarrow> revalidate_input \<Rightarrow> verdict" where
  "Revalidate clock r =
    (let now = (if rev_Now r = time_zero then clock else rev_Now r);
         path = ent_Path (rev_Planned r)
     in case rev_Recollect r of
          None \<Rightarrow> refusal path now (protect ProtectCollectorFailure SourceFilesystem
            ''no re-observation was available, so the target could not be revalidated before mutating'')
        | Some recollect \<Rightarrow>
            (case recollect path of
               Inl err \<Rightarrow> refusal path now (protect ProtectCollectorFailure SourceFilesystem
                 (''re-observing '' @ path @ '' failed: '' @ err))
             | Inr fresh \<Rightarrow>
                 Verdict_Normalize (foldl addProtection
                   (Evaluate clock \<lparr>in_Entry = fresh, in_Policy = rev_Policy r, in_Jobs = rev_Jobs r,
                      in_Target = rev_Target r, in_Now = now\<rparr>)
                   (changeProtections r fresh))))"

section \<open>The bounds of a re-observation\<close>

record root_spec =
  rsp_Path :: string
  rsp_MaxDepth :: int
  rsp_FollowSymlinks :: bool
  rsp_CrossFilesystem :: bool

definition parentOf :: "string \<Rightarrow> string" where
  "parentOf path =
     (let parent = (if slash \<in> set path then rev (tl (dropWhile (\<lambda>c. c \<noteq> slash) (rev path))) else path)
      in if parent = '''' then ''/'' else parent)"

text \<open>The loop keeps the first of the longest containing roots.\<close>

definition better_root :: "string \<Rightarrow> root_spec option \<Rightarrow> root_spec \<Rightarrow> root_spec option" where
  "better_root path best rt =
     (if \<not> PathWithin path (rsp_Path rt) then best
      else case best of
        None \<Rightarrow> Some rt
      | Some b \<Rightarrow> if length (rsp_Path b) < length (rsp_Path rt) then Some rt else best)"

definition containingRoot :: "root_spec list \<Rightarrow> string \<Rightarrow> root_spec option" where
  "containingRoot roots path = foldl (better_root path) None roots"

definition followSymlinks :: "root_spec list \<Rightarrow> string \<Rightarrow> bool" where
  "followSymlinks roots path =
     (case containingRoot roots path of Some r \<Rightarrow> rsp_FollowSymlinks r | None \<Rightarrow> False)"

definition crossFilesystem :: "root_spec list \<Rightarrow> string \<Rightarrow> bool" where
  "crossFilesystem roots path =
     (case containingRoot roots path of Some r \<Rightarrow> rsp_CrossFilesystem r | None \<Rightarrow> False)"

text \<open>
  The recollector made of a collection run: \<open>run\<close> observes one root and returns the entries found, or
  the text of an error.
\<close>

definition CollectRecollector :: "(root_spec \<Rightarrow> string + entry list) \<Rightarrow> root_spec list \<Rightarrow> recollector" where
  "CollectRecollector run roots path =
     (case run \<lparr>rsp_Path = parentOf path, rsp_MaxDepth = 1,
                rsp_FollowSymlinks = followSymlinks roots path,
                rsp_CrossFilesystem = crossFilesystem roots path\<rparr> of
        Inl err \<Rightarrow> Inl err
      | Inr es \<Rightarrow>
          (case find (\<lambda>e. ent_Path e = path) es of
             Some e \<Rightarrow> Inr e
           | None \<Rightarrow> Inl (''safety: '' @ path @ '' was not found during re-observation'')))"

section \<open>Destinations\<close>

text \<open>What \<open>stat\<close> and \<open>statfs\<close> answer for a path: these are the kernel's.\<close>

datatype stat_answer = StatDir uint64 | StatNotDir | StatNoEntry | StatFails string

text \<open>
  Walking up to the nearest existing directory.  Each step takes the parent of a cleaned path, so one
  step per character of the path is enough; running out of steps is reported as \<open>None\<close>.
\<close>

fun nearest_loop ::
    "nat \<Rightarrow> (string \<Rightarrow> stat_answer) \<Rightarrow> string \<Rightarrow> string \<Rightarrow> bool \<Rightarrow> (string + string \<times> bool) option" where
  "nearest_loop 0 stat dir probe missing = None"
| "nearest_loop (Suc n) stat dir probe missing =
     (case stat probe of
        StatNoEntry \<Rightarrow>
          if Dir probe = probe then Some (Inl (''no existing parent directory for '' @ dir))
          else nearest_loop n stat dir (Dir probe) True
      | StatFails err \<Rightarrow> Some (Inl err)
      | _ \<Rightarrow> Some (Inr (probe, missing)))"

definition nearestExistingDir :: "(string \<Rightarrow> stat_answer) \<Rightarrow> string \<Rightarrow> (string + string \<times> bool) option" where
  "nearestExistingDir stat dir = nearest_loop (Suc (length (Clean dir))) stat dir (Clean dir) False"

definition unknown_target :: "string \<Rightarrow> string \<Rightarrow> target" where
  "unknown_target dir detail =
     \<lparr>tgt_Dir = dir, tgt_Device = 0, tgt_FreeBytes = 0, tgt_Known = False, tgt_Detail = detail\<rparr>"

text \<open>\<open>statfs\<close> answers the available blocks and the block size.\<close>

definition ResolveTarget ::
    "(string \<Rightarrow> stat_answer) \<Rightarrow> (string \<Rightarrow> string + uint64 \<times> int64) \<Rightarrow> string \<Rightarrow> target option" where
  "ResolveTarget stat statfs dir =
     (if dir = '''' then Some (unknown_target dir ''no destination is configured'')
      else case nearestExistingDir stat dir of
        None \<Rightarrow> None
      | Some (Inl err) \<Rightarrow> Some (unknown_target dir err)
      | Some (Inr (probe, created)) \<Rightarrow> Some (case stat probe of
            StatFails err \<Rightarrow> unknown_target dir err
          | StatNoEntry \<Rightarrow> unknown_target dir (''stat '' @ probe @ '': no such file or directory'')
          | StatNotDir \<Rightarrow> unknown_target dir (probe @ '' is not a directory'')
          | StatDir device \<Rightarrow>
              let detail = (if created then dir
                    @ '' does not exist yet; measured its nearest existing parent '' @ probe else '''')
              in case statfs probe of
                   Inl err \<Rightarrow> unknown_target dir (''statfs '' @ probe @ '': '' @ err)
                 | Inr (bavail, bsize) \<Rightarrow>
                     \<lparr>tgt_Dir = dir, tgt_Device = device, tgt_FreeBytes = bavail * bsize,
                      tgt_Known = True, tgt_Detail = detail\<rparr>))"

end
