(* ===== verification/PathFacts.thy ===== *)
theory PathFacts
  imports CoreContract
begin

text \<open>
  Canonical paths as lists of segments: what \<open>Dir\<close>, \<open>Base\<close>, \<open>Join\<close> and containment do on them.
\<close>

definition abs_path :: "string list \<Rightarrow> string" where
  "abs_path es = slash # join ''/'' es"

definition good_segs :: "string list \<Rightarrow> bool" where
  "good_segs es \<longleftrightarrow> (\<forall>e \<in> set es. good_seg e)"

lemma good_segs_simps [simp]:
  "good_segs []" "good_segs (e # es) \<longleftrightarrow> good_seg e \<and> good_segs es"
  "good_segs (es @ fs) \<longleftrightarrow> good_segs es \<and> good_segs fs"
  by (auto simp: good_segs_def)

lemma good_segs_segs [simp]: "good_segs (segs p)"
  by (simp add: good_segs_def segs_good)

lemma good_segs_butlast: "good_segs es \<Longrightarrow> good_segs (butlast es)"
  by (auto simp: good_segs_def dest: in_set_butlastD)

lemma abs_path_IsAbs [simp]: "IsAbs (abs_path es)"
  by (simp add: abs_path_def IsAbs_def)

lemma segs_abs_path: "good_segs es \<Longrightarrow> segs (abs_path es) = es"
proof -
  assume g: "good_segs es"
  then have "slash # join ''/'' (segs (abs_path es)) = slash # join ''/'' es"
    using Clean_segs [OF abs_path_IsAbs, of es] Clean_rooted_fix [of es]
    by (simp add: abs_path_def good_segs_def)
  then show ?thesis
    using g by (intro join_slash_inject) (auto simp: good_segs_def segs_good)
qed

lemma canonical_abs_path: "good_segs es \<Longrightarrow> isAbsClean (abs_path es)"
  using Clean_rooted_fix [of es] abs_path_IsAbs [of es]
  by (simp add: isAbsClean_def good_segs_def abs_path_def)

lemma canonical_eq: "isAbsClean p \<Longrightarrow> p = abs_path (segs p)"
  unfolding abs_path_def by (rule canonical_segs)

lemma canonicalE:
  assumes "isAbsClean p"
  obtains es where "p = abs_path es" "good_segs es" "segs p = es"
  using canonical_eq [OF assms] good_segs_segs by blast

lemma abs_path_inject: "good_segs es \<Longrightarrow> good_segs fs \<Longrightarrow> abs_path es = abs_path fs \<longleftrightarrow> es = fs"
  using segs_abs_path by metis

lemma abs_path_snoc:
  "abs_path (es @ [e]) = (if es = [] then '''' else abs_path es) @ slash # e"
  by (simp add: abs_path_def join_append)

lemma split_abs_slash:
  assumes "good_segs es"
  shows "split_on slash ((if es = [] then '''' else abs_path es) @ ''/'') = '''' # es @ ['''']"
proof (cases "es = []")
  case False
  have "split_on slash (join ''/'' (es @ [''''])) = es @ ['''']"
    using assms by (intro split_on_join) (auto simp: good_segs_def good_seg_def)
  then show ?thesis
    using False by (simp add: abs_path_def join_append)
qed simp

lemma Clean_abs_slash:
  assumes "good_segs es"
  shows "Clean ((if es = [] then '''' else abs_path es) @ ''/'') = abs_path es"
proof -
  let ?p = "(if es = [] then '''' else abs_path es) @ ''/''"
  have "IsAbs ?p" by (simp add: IsAbs_def abs_path_def)
  moreover have "segs ?p = es"
  proof -
    have "foldl (clean_step True) [] ('''' # es @ ['''']) = rev es"
      using assms by (simp add: clean_fold_good good_segs_def clean_step_def)
    then show ?thesis
      unfolding segs_def clean_stack_def split_abs_slash [OF assms] by simp
  qed
  ultimately show ?thesis
    using Clean_segs [of ?p] by (simp add: abs_path_def)
qed

lemma while_not_slash:
  "slash \<notin> set e \<Longrightarrow> dropWhile (\<lambda>c. c \<noteq> slash) (e @ slash # w) = slash # w"
  "slash \<notin> set e \<Longrightarrow> takeWhile (\<lambda>c. c \<noteq> slash) (e @ slash # w) = e"
  by (induction e) auto

lemma last_slash:
  "slash \<notin> set e \<Longrightarrow> rev (dropWhile (\<lambda>c. c \<noteq> slash) (rev (w @ slash # e))) = w @ [slash]"
  using while_not_slash(1) [of "rev e" "rev w"] by simp

lemma Dir_snoc:
  assumes "good_segs (es @ [e])"
  shows "Dir (abs_path (es @ [e])) = abs_path es"
proof -
  have "slash \<notin> set e" using assms by (simp add: good_seg_def)
  then have "Dir (abs_path (es @ [e])) = Clean ((if es = [] then '''' else abs_path es) @ ''/'')"
    unfolding Dir_def abs_path_snoc by (subst last_slash) simp_all
  then show ?thesis using Clean_abs_slash [of es] assms by simp
qed

lemma Dir_root: "Dir ''/'' = ''/''"
  by code_simp

lemma Dir_canonical:
  assumes "isAbsClean p"
  shows "Dir p = abs_path (butlast (segs p))"
proof -
  obtain es where p: "p = abs_path es" "good_segs es" "segs p = es"
    using assms by (rule canonicalE)
  show ?thesis
  proof (cases es rule: rev_cases)
    case Nil
    then show ?thesis using p Dir_root by (simp add: abs_path_def)
  next
    case (snoc fs e)
    then show ?thesis using p Dir_snoc [of fs e] by simp
  qed
qed

lemma Dir_facts:
  assumes "isAbsClean p"
  shows "isAbsClean (Dir p)" "segs (Dir p) = butlast (segs p)" "PathWithin p (Dir p)"
    "Dir p = p \<longleftrightarrow> p = ''/''"
proof -
  have g: "good_segs (butlast (segs p))" by (simp add: good_segs_butlast)
  show c: "isAbsClean (Dir p)" using canonical_abs_path [OF g] by (simp add: Dir_canonical [OF assms])
  show s: "segs (Dir p) = butlast (segs p)"
    using segs_abs_path [OF g] by (simp add: Dir_canonical [OF assms])
  have "prefix (butlast (segs p)) (segs p)"
    by (metis append_butlast_last_id butlast.simps(1) prefix_def append_Nil2)
  then show "PathWithin p (Dir p)"
    using PathWithin_abs [OF canonical_IsAbs [OF assms] canonical_IsAbs [OF c]] s by simp
  have "Dir p = p \<longleftrightarrow> butlast (segs p) = segs p"
    using segs_inject [OF c assms] s by metis
  also have "\<dots> \<longleftrightarrow> segs p = []"
    by (metis butlast.simps(1) length_butlast length_0_conv diff_is_0_eq diff_less_Suc less_not_refl
        One_nat_def Suc_pred length_greater_0_conv lessI)
  also have "\<dots> \<longleftrightarrow> p = ''/''"
    using canonical_eq [OF assms] segs_abs_path [of "[]"] by (auto simp: abs_path_def)
  finally show "Dir p = p \<longleftrightarrow> p = ''/''" .
qed

lemma Base_snoc:
  assumes "good_segs (es @ [e])"
  shows "Base (abs_path (es @ [e])) = e"
proof -
  have e: "slash \<notin> set e" "e \<noteq> []" using assms by (simp_all add: good_seg_def)
  let ?w = "if es = [] then '''' else abs_path es"
  have "hd (rev e) \<noteq> slash" using e by (metis hd_in_set set_rev rev_is_Nil_conv)
  then have d: "dropWhile (\<lambda>c. c = slash) (rev (?w @ slash # e)) = rev (?w @ slash # e)"
    using e(2) by (cases "rev e") auto
  have t: "takeWhile (\<lambda>c. c \<noteq> slash) (rev (?w @ slash # e)) = rev e"
    using e(1) while_not_slash(2) [of "rev e" "rev ?w"] by simp
  show ?thesis
    unfolding Base_def abs_path_snoc Let_def d rev_rev_ident t using e(2) by simp
qed

lemma Join_child:
  assumes "good_segs es" "good_seg e"
  shows "Join [abs_path es, e] = abs_path (es @ [e])"
proof -
  have "Join [abs_path es, e] = Clean (abs_path es @ slash # e)"
    by (simp add: Join_def abs_path_def)
  moreover have "Clean (abs_path es @ slash # e) = abs_path (es @ [e])"
  proof (cases "es = []")
    case True
    have "split_on slash (''/'' @ slash # e) = ['''', '''', e]"
      using assms(2) by (simp add: split_on_single good_seg_def)
    then have "segs (''/'' @ slash # e) = [e]"
      using assms(2) by (simp add: segs_def clean_stack_def clean_step_good) (simp add: clean_step_def)
    then show ?thesis
      using True Clean_segs [of "''/'' @ slash # e"] by (simp add: abs_path_def IsAbs_def)
  next
    case False
    then have "abs_path es @ slash # e = abs_path (es @ [e])" by (simp add: abs_path_snoc)
    then show ?thesis
      using canonical_Clean [OF canonical_abs_path, of "es @ [e]"] assms by simp
  qed
  ultimately show ?thesis by simp
qed

lemma PathWithin_paths:
  "good_segs es \<Longrightarrow> good_segs fs \<Longrightarrow> PathWithin (abs_path es) (abs_path fs) \<longleftrightarrow> prefix fs es"
  using PathWithin_abs [OF abs_path_IsAbs abs_path_IsAbs, of es fs] by (simp add: segs_abs_path)

lemma PathWithin_trans:
  "isAbsClean p \<Longrightarrow> isAbsClean q \<Longrightarrow> isAbsClean r \<Longrightarrow> PathWithin p q \<Longrightarrow> PathWithin q r \<Longrightarrow> PathWithin p r"
  using PathWithin_canonical prefix_order.trans by metis

lemma PathWithin_antisym:
  "isAbsClean p \<Longrightarrow> isAbsClean q \<Longrightarrow> PathWithin p q \<Longrightarrow> PathWithin q p \<Longrightarrow> p = q"
  using PathWithin_canonical prefix_order.antisym segs_inject by metis

lemma abs_path_length_snoc: "good_segs (es @ [e]) \<Longrightarrow> length (abs_path es) \<le> length (abs_path (es @ [e]))"
  by (auto simp: abs_path_snoc) (simp add: abs_path_def)

lemma Clean_canonical: "IsAbs p \<Longrightarrow> isAbsClean (Clean p)"
  using canonical_abs_path [of "segs p"] Clean_segs [of p] by (simp add: abs_path_def)

lemma length_segs: "isAbsClean p \<Longrightarrow> length (segs p) \<le> length p"
proof -
  have "length es \<le> length (abs_path es)" if "good_segs es" for es
    using that
  proof (induction es rule: rev_induct)
    case (snoc e es)
    have "length (abs_path (es @ [e])) = length (if es = [] then '''' else abs_path es) + 1 + length e"
      by (simp add: abs_path_snoc)
    moreover have "0 < length e" using snoc.prems by (auto simp: good_seg_def)
    ultimately show ?case using snoc by (auto split: if_splits)
  qed simp
  then show "isAbsClean p \<Longrightarrow> length (segs p) \<le> length p"
    using canonicalE by metis
qed

end
