(* ===== verification/RevalidateFacts.thy ===== *)
theory RevalidateFacts
  imports SafetyRevalidate SafetyProps PathFacts
begin

text \<open>What a revalidation that allows a mutation has established, and the bounds of a re-observation.\<close>

section \<open>Revalidation\<close>

text \<open>The object found now is the one the plan, the action and the open handle refer to.\<close>

definition handle_agrees :: "revalidate_input \<Rightarrow> entry \<Rightarrow> handle \<Rightarrow> bool" where
  "handle_agrees r fresh h \<longleftrightarrow> hnd_Linked h = Inr True
     \<and> (fsid_Zero (hnd_ID h) \<or> hnd_ID h = ent_FilesystemID fresh)
     \<and> (hnd_Path h = '''' \<or> hnd_Path h = ent_Path (rev_Planned r))"

definition unchanged_since_plan :: "revalidate_input \<Rightarrow> entry \<Rightarrow> bool" where
  "unchanged_since_plan r fresh \<longleftrightarrow>
     ent_Path fresh = ent_Path (rev_Planned r)
   \<and> ent_FilesystemID fresh = ent_FilesystemID (rev_Planned r)
   \<and> (fsid_Zero (act_FilesystemID (rev_Action r)) \<or> act_FilesystemID (rev_Action r) = ent_FilesystemID fresh)
   \<and> (act_Path (rev_Action r) = '''' \<or> act_Path (rev_Action r) = ent_Path (rev_Planned r))
   \<and> pred_option (handle_agrees r fresh) (rev_Handle r)
   \<and> SnapshotFingerprint (rev_Planned r) = Some (Fingerprint fresh)"

definition fresh_input :: "time \<Rightarrow> revalidate_input \<Rightarrow> entry \<Rightarrow> safety_input" where
  "fresh_input clock r fresh =
     \<lparr>in_Entry = fresh, in_Policy = rev_Policy r, in_Jobs = rev_Jobs r, in_Target = rev_Target r,
      in_Now = (if rev_Now r = time_zero then clock else rev_Now r)\<rparr>"

lemma handle_Nil: "handleProtections r h fresh = [] \<longleftrightarrow> handle_agrees r fresh h"
  by (auto simp: handleProtections_def handle_agrees_def split: sum.split)

lemma change_Nil: "changeProtections r fresh = [] \<longleftrightarrow> unchanged_since_plan r fresh"
  by (auto simp: changeProtections_def unchanged_since_plan_def Let_def handle_Nil split: option.split)

lemma handle_blocking: "p \<in> set (handleProtections r h fresh) \<Longrightarrow> prot_Blocking p"
  by (cases "hnd_Linked h") (auto simp: handleProtections_def split: if_split_asm)

lemma change_blocking: "p \<in> set (changeProtections r fresh) \<Longrightarrow> prot_Blocking p"
  by (cases "rev_Handle r"; cases "SnapshotFingerprint (rev_Planned r)")
     (auto simp: changeProtections_def Let_def handle_blocking split: if_split_asm)

lemma refusal_refused: "prot_Blocking p \<Longrightarrow> Refused (refusal path now p)"
  by (simp add: refusal_def Normalize_refused_iff)

lemma Evaluate_blocking: "p \<in> set (ver_Protections (Evaluate clock inp)) \<Longrightarrow> prot_Blocking p"
  using evaluateWith_subset [of clock inp guards] core.raised_blocking unfolding Evaluate_def by blast

lemma Evaluate_refused_protections:
  "ver_Protections (Evaluate clock inp) = [] \<longleftrightarrow> safe_to_mutate inp"
proof -
  have "Refused (Evaluate clock inp) \<longleftrightarrow> (\<exists>p \<in> set (ver_Protections (Evaluate clock inp)). prot_Blocking p)"
    by (simp add: Evaluate_def evaluateWith_eq Normalize_refused_iff)
  also have "\<dots> \<longleftrightarrow> ver_Protections (Evaluate clock inp) \<noteq> []"
    using Evaluate_blocking by (metis all_not_in_conv set_empty)
  finally show ?thesis by (simp add: Evaluate_refused_iff)
qed

lemma Revalidate_refused_iff:
  "Refused (Revalidate clock r) \<longleftrightarrow>
     \<not> (\<exists>recollect fresh. rev_Recollect r = Some recollect
          \<and> recollect (ent_Path (rev_Planned r)) = Inr fresh
          \<and> safe_to_mutate (fresh_input clock r fresh) \<and> unchanged_since_plan r fresh)"
proof (cases "rev_Recollect r")
  case None
  then show ?thesis by (simp add: Revalidate_def Let_def refusal_refused)
next
  case (Some recollect)
  show ?thesis
  proof (cases "recollect (ent_Path (rev_Planned r))")
    case (Inl err)
    then show ?thesis using Some by (simp add: Revalidate_def Let_def refusal_refused)
  next
    case (Inr fresh)
    have "Revalidate clock r = Verdict_Normalize (foldl addProtection
        (Evaluate clock (fresh_input clock r fresh)) (changeProtections r fresh))"
      using Some Inr by (simp add: Revalidate_def fresh_input_def Let_def)
    moreover have "(\<exists>p \<in> set (ver_Protections (foldl addProtection
          (Evaluate clock (fresh_input clock r fresh)) (changeProtections r fresh))). prot_Blocking p)
        \<longleftrightarrow> \<not> (safe_to_mutate (fresh_input clock r fresh) \<and> unchanged_since_plan r fresh)"
      using foldl_addProtection_blocking [of "changeProtections r fresh"
          "Evaluate clock (fresh_input clock r fresh)"] change_blocking Evaluate_blocking
      by (auto simp: Evaluate_refused_protections change_Nil)
    ultimately show ?thesis
      using Some Inr by (simp add: Normalize_refused_iff)
  qed
qed

section \<open>The root that bounds a re-observation\<close>

definition root_best :: "string \<Rightarrow> root_spec set \<Rightarrow> root_spec option \<Rightarrow> bool" where
  "root_best p rs best \<longleftrightarrow> (case best of
     None \<Rightarrow> (\<forall>x \<in> rs. \<not> PathWithin p (rsp_Path x))
   | Some b \<Rightarrow> b \<in> rs \<and> PathWithin p (rsp_Path b)
       \<and> (\<forall>x \<in> rs. PathWithin p (rsp_Path x) \<longrightarrow> length (rsp_Path x) \<le> length (rsp_Path b)))"

lemma better_root_best:
  "root_best p rs best \<Longrightarrow> root_best p (insert r rs) (better_root p best r)"
  by (cases best) (auto simp: root_best_def better_root_def)

lemma containingRoot_gen:
  "root_best p rs best \<Longrightarrow> root_best p (rs \<union> set xs) (foldl (better_root p) best xs)"
proof (induction xs arbitrary: rs best)
  case (Cons x xs)
  from Cons.IH [OF better_root_best [OF Cons.prems]] show ?case by simp
qed simp

lemma containingRoot_best: "root_best p (set rs) (containingRoot rs p)"
  using containingRoot_gen [of p "{}" None rs] by (simp add: containingRoot_def root_best_def)

lemma containingRoot_longest:
  "containingRoot rs p = Some b \<Longrightarrow> b \<in> set rs \<and> PathWithin p (rsp_Path b)
    \<and> (\<forall>x \<in> set rs. PathWithin p (rsp_Path x) \<longrightarrow> length (rsp_Path x) \<le> length (rsp_Path b))"
  using containingRoot_best [of p rs] by (simp add: root_best_def)

lemma containingRoot_None:
  "containingRoot rs p = None \<longleftrightarrow> (\<forall>x \<in> set rs. \<not> PathWithin p (rsp_Path x))"
  using containingRoot_best [of p rs] by (auto simp: root_best_def split: option.splits)

lemma parentOf_canonical:
  assumes "isAbsClean p" "p \<noteq> ''/''"
  shows "parentOf p = Dir p"
proof -
  obtain es where p: "p = abs_path es" "good_segs es" "segs p = es"
    using assms(1) by (rule canonicalE)
  then obtain fs e where es: "es = fs @ [e]"
    using assms(2) by (cases es rule: rev_cases) (auto simp: abs_path_def)
  let ?w = "if fs = [] then '''' else abs_path fs"
  have e: "slash \<notin> set e" using p(2) es by (simp add: good_seg_def)
  have p': "p = ?w @ slash # e" using p es abs_path_snoc by simp
  have "dropWhile (\<lambda>c. c \<noteq> slash) (rev p) = slash # rev ?w"
    unfolding p' using while_not_slash(1) [of "rev e" "rev ?w"] e by simp
  then have "parentOf p = (if ?w = '''' then ''/'' else ?w)"
    unfolding parentOf_def Let_def using p' by simp
  also have "\<dots> = abs_path fs" by (simp add: abs_path_def)
  finally show ?thesis using Dir_canonical [OF assms(1)] p es by simp
qed

section \<open>The walk to an existing directory ends\<close>

lemma nearest_loop_enough:
  assumes "isAbsClean p" "length (segs p) < n"
  shows "nearest_loop n stat dir p b \<noteq> None"
  using assms
proof (induction n stat dir p b rule: nearest_loop.induct)
  case (2 n stat dir probe missing)
  show ?case
  proof (cases "stat probe = StatNoEntry \<and> Dir probe \<noteq> probe")
    case True
    have "segs probe \<noteq> []"
      using True Dir_facts(4) [OF 2(2)] canonical_eq [OF 2(2)] by (auto simp: abs_path_def)
    then have "length (segs (Dir probe)) < n"
      using 2(3) Dir_facts(2) [OF 2(2)] by (cases "segs probe") auto
    then show ?thesis using 2(1) [OF _ _ Dir_facts(1) [OF 2(2)]] True by simp
  qed (auto split: stat_answer.split)
qed simp

lemma nearestExistingDir_total:
  assumes "IsAbs dir"
  shows "nearestExistingDir stat dir \<noteq> None"
  unfolding nearestExistingDir_def
  using Clean_canonical [OF assms] length_segs [OF Clean_canonical [OF assms]]
  by (intro nearest_loop_enough) auto

lemma ResolveTarget_total: "IsAbs dir \<Longrightarrow> ResolveTarget stat statfs dir \<noteq> None"
  using nearestExistingDir_total [of dir stat]
  by (auto simp: ResolveTarget_def split: option.split sum.split prod.split)

lemma nearest_loop_result:
  "nearest_loop n stat dir p b = Some (Inr (q, m)) \<Longrightarrow> stat q = StatNotDir \<or> (\<exists>d. stat q = StatDir d)"
  by (induction n stat dir p b rule: nearest_loop.induct) (auto split: stat_answer.splits if_splits)

lemma nearest_loop_within:
  assumes "nearest_loop n stat dir p b = Some (Inr (q, m))" "isAbsClean p"
  shows "isAbsClean q \<and> PathWithin p q"
  using assms
proof (induction n stat dir p b rule: nearest_loop.induct)
  case (2 n stat dir probe missing)
  show ?case
  proof (cases "stat probe = StatNoEntry")
    case True
    then have ne: "Dir probe \<noteq> probe" using 2(2) by auto
    have "nearest_loop n stat dir (Dir probe) True = Some (Inr (q, m))"
      using 2(2) True ne by simp
    then have "isAbsClean q \<and> PathWithin (Dir probe) q"
      using 2(1) [OF True ne] Dir_facts(1) [OF 2(3)] by simp
    then show ?thesis
      using PathWithin_trans [OF 2(3) Dir_facts(1) [OF 2(3)]] Dir_facts(3) [OF 2(3)] by blast
  next
    case False
    then have "q = probe" using 2(2) by (auto split: stat_answer.splits)
    then show ?thesis using 2(3) PathWithin_refl [OF canonical_ne] by auto
  qed
qed simp

section \<open>Properties\<close>

text \<open>C2: A mutation passes revalidation exactly when the path could be observed again, the fresh entry
  meets every condition of the safety engine, and nothing changed since planning: same path and
  identity as planned and as the action records, an authentic saved fingerprint equal to the fresh
  one, and an open handle, if there is one, whose object is still linked and is the same.\<close>

theorem Revalidate_allows_exactly:
  "Allows (Revalidate clock r) k \<longleftrightarrow> (if Mutating k then
     (\<exists>recollect fresh. rev_Recollect r = Some recollect
        \<and> recollect (ent_Path (rev_Planned r)) = Inr fresh
        \<and> safe_to_mutate (fresh_input clock r fresh) \<and> unchanged_since_plan r fresh) else True)"
  by (cases "Mutating k") (simp_all only: Allows_def Revalidate_refused_iff not_not not_True_eq_False not_False_eq_True if_True if_False)

definition sample_action :: action where
  "sample_action =
     \<lparr>act_ID = ''a1'', act_PlanID = ''p1'', act_Path = ''/w/a'', act_Kind = ActionQuarantine,
      act_Class = ClassCache, act_Retention = Retention7Days, act_Confidence = Fin 1,
      act_Status = ActionPending, act_Destination = '''',
      act_FilesystemID = \<lparr>fs_Device = 8, fs_Inode = 42\<rparr>, act_Fingerprint = '''', act_Reasons = [],
      act_Rules = [], act_Rejected = [], act_Guards = [], act_CreatedAt = 8, act_AppliedAt = None\<rparr>"

definition sample_revalidation :: revalidate_input where
  "sample_revalidation =
     \<lparr>rev_Planned = sample_entry, rev_Action = sample_action, rev_Policy = sample_policy, rev_Jobs = [],
      rev_Target = None, rev_Now = 9, rev_Recollect = Some (\<lambda>p. Inr sample_entry),
      rev_Handle = Some \<lparr>hnd_Path = ''/w/a'', hnd_ID = \<lparr>fs_Device = 8, fs_Inode = 42\<rparr>,
        hnd_Linked = Inr True\<rparr>\<rparr>"

lemma sample_safe: "safe_to_mutate (fresh_input 0 sample_revalidation sample_entry)"
proof -
  have "location_free sample_policy ''/w/a''" "name_free sample_policy ''/w/a''" by code_simp+
  moreover have "ent_Path sample_entry = ''/w/a''" by (simp add: sample_entry_def)
  ultimately show ?thesis
    by (simp add: safe_to_mutate_def Let_def fresh_input_def sample_revalidation_def symlink_contained_def
        unowned_def fsid_Zero_def) (simp add: sample_entry_def)
qed

lemma sample_unchanged: "unchanged_since_plan sample_revalidation sample_entry"
  by (simp add: unchanged_since_plan_def sample_revalidation_def handle_agrees_def
      SnapshotFingerprint_def Let_def sample_action_def) (simp add: sample_entry_def)

text \<open>C7: What revalidation lets through is the planned object: when the observed entry passes, its
  path, kind, identity, owner, mode, size and modification time are the planned ones, or two
  different metadata records collide under SHA-256.\<close>

theorem Revalidate_binds_object:
  assumes "Allows (Revalidate clock r) k" "Mutating k"
    and "rev_Recollect r = Some recollect" "recollect (ent_Path (rev_Planned r)) = Inr fresh"
    and "NUL_free (rev_Planned r)" "NUL_free fresh"
  shows "same_object (rev_Planned r) fresh
    \<or> sha_collision (fingerprint_payload (rev_Planned r) True) (fingerprint_payload fresh True)"
proof -
  have "unchanged_since_plan r fresh"
    using assms(1-4) Revalidate_refused_iff [of clock r] by (auto simp: Allows_def)
  then have "Fingerprint (rev_Planned r) = Fingerprint fresh"
    using Snapshot_Some by (auto simp: unchanged_since_plan_def)
  from Fingerprint_eqD [OF this assms(5,6)] show ?thesis
    using fingerprint_fields_same_object by blast
qed

theorem Revalidate_binds_object_witness:
  "same_object (rev_Planned sample_revalidation) sample_entry
   \<or> sha_collision (fingerprint_payload (rev_Planned sample_revalidation) True)
       (fingerprint_payload sample_entry True)"
proof (rule Revalidate_binds_object)
  show "Allows (Revalidate 0 sample_revalidation) ActionQuarantine"
    using Revalidate_refused_iff [of 0 sample_revalidation] sample_safe sample_unchanged
    by (auto simp: Allows_def sample_revalidation_def)
  show "NUL_free sample_entry" "NUL_free (rev_Planned sample_revalidation)"
    by (simp_all add: NUL_free_def fingerprint_fields_def sample_entry_def sample_revalidation_def)
qed (simp_all add: sample_revalidation_def)

text \<open>A re-observation is no more permissive than the scan: the root whose bounds it inherits is the
  longest configured root that contains the path, and a path no root contains is observed without
  following links or crossing file systems.\<close>

theorem reobservation_bounds:
  "(case containingRoot rs p of
      Some b \<Rightarrow> b \<in> set rs \<and> PathWithin p (rsp_Path b)
        \<and> list_all (\<lambda>x. if PathWithin p (rsp_Path x) then length (rsp_Path x) \<le> length (rsp_Path b)
            else True) rs
        \<and> followSymlinks rs p = rsp_FollowSymlinks b \<and> crossFilesystem rs p = rsp_CrossFilesystem b
    | None \<Rightarrow> \<not> list_ex (\<lambda>x. PathWithin p (rsp_Path x)) rs
        \<and> \<not> followSymlinks rs p \<and> \<not> crossFilesystem rs p)"
  using containingRoot_best [of p rs]
  by (auto simp: root_best_def followSymlinks_def crossFilesystem_def list_all_iff list_ex_iff
      split: option.split)

text \<open>Inspecting an absolute destination always ends, and a destination reported as known has the
  device of an existing directory that contains it.\<close>

theorem ResolveTarget_known:
  assumes "IsAbs dir"
  shows "\<exists>t. ResolveTarget stat statfs dir = Some t
    \<and> (if tgt_Known t then (\<exists>probe. stat probe = StatDir (tgt_Device t) \<and> isAbsClean probe
          \<and> PathWithin (Clean dir) probe) else True)"
proof -
  obtain t where t: "ResolveTarget stat statfs dir = Some t" using ResolveTarget_total [OF assms] by blast
  have "\<exists>probe. stat probe = StatDir (tgt_Device t) \<and> isAbsClean probe \<and> PathWithin (Clean dir) probe"
    if k: "tgt_Known t"
  proof -
    obtain probe m where p: "nearestExistingDir stat dir = Some (Inr (probe, m))"
      and d: "stat probe = StatDir (tgt_Device t)"
      using t k by (auto simp: ResolveTarget_def unknown_target_def Let_def
          split: if_splits option.splits sum.splits stat_answer.splits prod.splits)
    have "isAbsClean probe \<and> PathWithin (Clean dir) probe"
      using nearest_loop_within [OF p [unfolded nearestExistingDir_def] Clean_canonical [OF assms]] .
    with d show ?thesis by blast
  qed
  with t show ?thesis by auto
qed

theorem ResolveTarget_known_witness:
  "\<exists>t. ResolveTarget (\<lambda>p. if p = ''/'' then StatDir 8 else StatNoEntry) (\<lambda>_. Inr (10, 512)) ''/q/new'' = Some t"
  using ResolveTarget_known [of "''/q/new''" "\<lambda>p. if p = ''/'' then StatDir 8 else StatNoEntry"
      "\<lambda>_. Inr (10, 512)"]
  by (auto simp: IsAbs_def)

end
