(* ===== verification/Config.thy ===== *)
theory Config
  imports CorePlan
begin

text \<open>
  \<open>internal/config\<close>: the sections of the policy document the planner and the safety engine read, and
  \<open>InArchiveOnlyRoot\<close>.  The record is extensible: a theorem about a policy holds whatever the other
  sections (collectors, limits, model, report, prevention and the rest) hold.  Those sections are in
  \<open>ConfigDoc\<close>; validating, defaulting and loading the document are in \<open>ConfigValidate\<close>, \<open>ConfigPolicy\<close> and
  \<open>ConfigLoad\<close>.
\<close>

record root_policy =
  rt_Path :: string
  rt_MaxDepth :: int
  rt_FollowSymlinks :: bool
  rt_CrossFilesystem :: bool
  rt_ReportOnly :: bool
  rt_ArchiveOnly :: bool

record protect_policy =
  pro_Paths :: "string list"
  pro_NamePatterns :: "string list"

record retention_policy =
  rpol_Default :: retention
  rpol_QuarantineDir :: string
  rpol_DeleteEnabled :: bool

record cache_recovery =
  crec_Owner :: string
  crec_Approval :: string
  crec_RebuildCost :: string
  crec_MaxPruneBytes :: int64
  crec_MinIdle :: duration

record cache_rule =
  cr_Name :: string
  cr_Path :: string
  cr_Action :: action_kind
  cr_Retention :: retention
  cr_MaxBytes :: int64
  cr_TTL :: duration
  cr_Dedicated :: bool
  cr_OfficialBinary :: string
  cr_Recovery :: cache_recovery

record export_archive_destination =
  xad_Directory :: string
  xad_Owner :: string
  xad_Approval :: string
  xad_Lifetime :: string
  xad_Retention :: retention
  xad_DeleteEnabled :: bool
  xad_Manifest :: string
  xad_ManifestSHA256 :: string

record evidence_export_rule =
  xr_Name :: string
  xr_Class :: string
  xr_Path :: string
  xr_Owner :: string
  xr_Approval :: string
  xr_CompletedAt :: time
  xr_CredentialFree :: bool
  xr_SourceContainer :: string
  xr_SourceLifetime :: string
  xr_LocalRetention :: retention
  xr_LocalExpiryEnabled :: bool
  xr_MaxBytes :: int64
  xr_Archive :: export_archive_destination

record workspace_archive_destination =
  wad_Directory :: string
  wad_ExpectMountSource :: string
  wad_ExpectFSType :: string
  wad_Manifest :: string
  wad_ManifestSHA256 :: string

record workspace_archive_rule =
  wr_Name :: string
  wr_Path :: string
  wr_Owner :: string
  wr_Release :: string
  wr_DependentRoots :: "string list"
  wr_LocalRetention :: retention
  wr_LocalExpiryEnabled :: bool
  wr_Archive :: workspace_archive_destination

record gitmoot_policy =
  gm_Home :: string
  gm_Database :: string

record canonical_root =
  crt_Class :: artifact_class
  crt_Path :: string

record classification_policy =
  cls_ProjectMarkers :: "string list"
  cls_WorktreeMarkers :: "string list"
  cls_GeneratedNames :: "string list"
  cls_CacheNames :: "string list"
  cls_BackupNames :: "string list"
  cls_OperationalNames :: "string list"
  cls_EvidenceNames :: "string list"

record ownership_policy =
  opol_InvestigateForeignOwner :: bool
  opol_ExpectedUID :: "32 word"

record safety_section =
  sfs_MinFreeBytes :: int64
  sfs_AllowCrossFilesystemQuarantine :: bool

record policy =
  pol_Version :: int
  pol_Roots :: "root_policy list"
  pol_Protect :: protect_policy
  pol_Retention :: retention_policy
  pol_Caches :: "cache_rule list"
  pol_EvidenceExports :: "evidence_export_rule list"
  pol_WorkspaceArchives :: "workspace_archive_rule list"
  pol_Gitmoot :: gitmoot_policy
  pol_Safety :: safety_section
  pol_CanonicalRoots :: "canonical_root list"
  pol_Classification :: classification_policy
  pol_Ownership :: ownership_policy

text \<open>The argument is a possibly nil \<open>*Policy\<close>.\<close>

definition InArchiveOnlyRoot :: "'z policy_scheme option \<Rightarrow> string \<Rightarrow> bool" where
  "InArchiveOnlyRoot pol path = (case pol of
     None \<Rightarrow> False
   | Some p \<Rightarrow> \<exists>r \<in> set (pol_Roots p). rt_ArchiveOnly r \<and> PathWithin path (rt_Path r))"

text \<open>Protection follows containment: what is inside a protected path is protected.\<close>

lemma InArchiveOnlyRoot_inherited:
  assumes "InArchiveOnlyRoot pol p" "isAbsClean p" "isAbsClean q" "PathWithin q p"
    and "\<forall>x \<in> set (case pol of None \<Rightarrow> [] | Some x \<Rightarrow> pol_Roots x). isAbsClean (rt_Path x)"
  shows "InArchiveOnlyRoot pol q"
proof -
  obtain x r where pol: "pol = Some x" and r: "r \<in> set (pol_Roots x)" "rt_ArchiveOnly r"
    "PathWithin p (rt_Path r)"
    using assms(1) by (auto simp: InArchiveOnlyRoot_def split: option.splits)
  have c: "isAbsClean (rt_Path r)" using assms(5) pol r(1) by auto
  have "PathWithin q (rt_Path r)"
    using assms(4) r(3)
    unfolding PathWithin_canonical [OF assms(3,2)] PathWithin_canonical [OF assms(2) c]
      PathWithin_canonical [OF assms(3) c] by (rule prefix_order.trans [rotated])
  then show ?thesis using pol r by (auto simp: InArchiveOnlyRoot_def)
qed

end
