(* ===== verification/PlanClassify.thy ===== *)
theory PlanClassify
  imports Config
begin

text \<open>
  \<open>internal/plan/classify.go\<close> and \<open>adapters.go\<close>: the built-in class of an entry by name, recorded
  evidence and Git state, in a fixed precedence, and the recognition of provider stores by the
  complete layout of their root.
\<close>

section \<open>Names and signals\<close>

definition name_matches :: "string \<Rightarrow> string \<Rightarrow> bool" where
  "name_matches name pattern \<longleftrightarrow>
     pattern \<noteq> ''''
   \<and> (Match pattern name = Some True \<or> \<not> ContainsAny pattern ''*?['' \<and> pattern = name)"

definition matchAny :: "string \<Rightarrow> string list \<Rightarrow> bool" where
  "matchAny name patterns = list_ex (name_matches name) patterns"

definition gitmootSignal :: "entry \<Rightarrow> string" where
  "gitmootSignal e =
     (case find (\<lambda>x. ev_Signal x \<in> {''gitmoot:final_reclaimable'', ''gitmoot:pinned'', ''unknown:gitmoot''})
        (ent_Evidence e) of
        Some x \<Rightarrow> ev_Signal x
      | None \<Rightarrow> '''')"

definition hasProjectMarker :: "entry \<Rightarrow> string list \<Rightarrow> bool" where
  "hasProjectMarker e markers =
     list_ex (\<lambda>x. ev_Signal x = ''project_marker'' \<and> matchAny (ev_Detail x) markers) (ent_Evidence e)"

definition selectedGenericRoot :: "entry \<Rightarrow> bool" where
  "selectedGenericRoot e \<longleftrightarrow>
     ent_Kind e = EntryKindDirectory \<and> IsCanonicalPath (ent_Path e) \<and> IsCanonicalPath (ent_Root e)
   \<and> (ent_Path e = ent_Root e \<or> Dir (ent_Path e) = ent_Root e)"

section \<open>Adapters\<close>

record adapter =
  adp_Provider :: string
  adp_Class :: artifact_class
  adp_Rebuild :: string
  adp_OfficialCommand :: "string list"

definition cache_adapter :: "string \<Rightarrow> string \<Rightarrow> string list \<Rightarrow> adapter option" where
  "cache_adapter provider rebuild command =
     Some \<lparr>adp_Provider = provider, adp_Class = ClassCache, adp_Rebuild = rebuild,
       adp_OfficialCommand = command\<rparr>"

definition store_layouts :: "string list" where
  "store_layouts =
     [''.cache/uv'', ''.uv-cache'', ''.npm'', ''.local/share/pnpm/store'', ''.pnpm-store'',
      ''.bun/install/cache'', ''.cache/bun'', ''.gradle/caches'', ''.cache/go-build'', ''go/pkg/mod'',
      ''pkg/mod'', ''.cache/ms-playwright'', ''.cache/puppeteer'']"

definition selectedStoreLayout :: "string \<Rightarrow> string" where
  "selectedStoreLayout path =
     (case find (\<lambda>layout. HasSuffix path (''/'' @ layout)) store_layouts of
        Some layout \<Rightarrow> layout
      | None \<Rightarrow>
          if Base path \<in> {''node_modules'', ''.venv'', ''venv'', ''dist'', ''build'', ''coverage''}
          then Base path else ''.'')"

definition uv_adapter :: "string \<Rightarrow> adapter option" where
  "uv_adapter path =
     cache_adapter ''uv'' ''cached distributions may need to be downloaded or rebuilt''
       [''uv'', ''cache'', ''prune'', ''--cache-dir'', path, ''--offline'']"

definition pnpm_adapter :: "string \<Rightarrow> adapter option" where
  "pnpm_adapter path =
     cache_adapter ''pnpm'' ''unreferenced packages may need to be fetched again''
       [''pnpm'', ''--store-dir'', path, ''store'', ''prune'']"

definition gradle_adapter :: "adapter option" where
  "gradle_adapter =
     cache_adapter ''gradle'' ''dependencies and build artifacts may need to be fetched or rebuilt'' []"

text \<open>The complete store roots.\<close>

definition store_adapter :: "string \<Rightarrow> string \<Rightarrow> adapter option" where
  "store_adapter path rel =
     (if rel \<in> {''.cache/uv'', ''.uv-cache''} then uv_adapter path
      else if rel = ''.npm''
      then cache_adapter ''npm'' ''packages may need to be fetched again''
        [''npm'', ''cache'', ''verify'', ''--cache'', path]
      else if rel \<in> {''.local/share/pnpm/store'', ''.pnpm-store''} then pnpm_adapter path
      else if rel \<in> {''.bun/install/cache'', ''.cache/bun''}
      then cache_adapter ''bun'' ''cached packages may need to be fetched again'' []
      else if rel = ''.gradle/caches'' then gradle_adapter
      else if rel = ''.cache/go-build''
      then cache_adapter ''go-build''
        ''Go build outputs will be rebuilt; only a dedicated retired build cache is eligible''
        [''go'', ''-C'', path, ''clean'', ''-cache'']
      else if rel \<in> {''go/pkg/mod'', ''pkg/mod''}
      then cache_adapter ''go-module'' ''Go modules may need to be fetched again'' []
      else if rel = ''.cache/ms-playwright''
      then cache_adapter ''playwright'' ''browser binaries may need to be installed again'' []
      else if rel = ''.cache/puppeteer''
      then cache_adapter ''puppeteer'' ''browser binaries may need to be installed again'' []
      else None)"

fun projectPrefix :: "string list \<Rightarrow> bool" where
  "projectPrefix [a] \<longleftrightarrow> a \<noteq> '''' \<and> \<not> HasPrefix a ''.'' \<and> a \<noteq> ''node_modules''"
| "projectPrefix [a, b] \<longleftrightarrow>
     a \<in> {''repos'', ''projects'', ''workspaces''} \<and> b \<noteq> '''' \<and> \<not> HasPrefix b ''.''"
| "projectPrefix _ \<longleftrightarrow> False"

text \<open>A store below a project directory.\<close>

definition project_store_adapter :: "string \<Rightarrow> string list \<Rightarrow> adapter option" where
  "project_store_adapter path parts =
     (let n = length parts
      in if 2 \<le> n \<and> projectPrefix (take (n - 1) parts) \<and> last parts = ''.uv-cache'' then uv_adapter path
         else if 2 \<le> n \<and> projectPrefix (take (n - 1) parts) \<and> last parts = ''.pnpm-store''
         then pnpm_adapter path
         else if 3 \<le> n \<and> parts ! (n - 2) = ''.gradle'' \<and> last parts = ''caches''
              \<and> projectPrefix (take (n - 2) parts)
         then gradle_adapter
         else None)"

definition generated_parts_ok :: "string list \<Rightarrow> bool" where
  "generated_parts_ok parts \<longleftrightarrow>
     length parts \<le> 3
   \<and> (\<forall>p \<in> set (butlast parts). p \<notin> {''node_modules'', ''dist'', ''build'', ''coverage'', ''.venv'',
        ''venv'', ''.cache'', ''.gradle'', ''.npm'', ''.bun'', ''.gitmoot''})
   \<and> (length parts = 3 \<longrightarrow> hd parts \<in> {''repos'', ''projects'', ''workspaces'', ''src'', ''code''})"

text \<open>An output root of a selected project.\<close>

definition generated_adapter :: "string \<Rightarrow> string list \<Rightarrow> adapter option" where
  "generated_adapter rel parts =
     (let base = Base rel;
          a = (\<lambda>provider rebuild. \<lparr>adp_Provider = provider, adp_Class = ClassGeneratedArtifact,
                adp_Rebuild = rebuild, adp_OfficialCommand = []\<rparr>);
          found = (if base = ''node_modules''
                then Some (a ''node-modules'' ''project dependencies must be installed again'')
              else if base \<in> {''.venv'', ''venv''}
                then Some (a ''python-venv'' ''the Python environment and its dependencies must be recreated'')
              else if base \<in> {''dist'', ''build'', ''coverage''}
                then Some (a base ''generated output must be rebuilt or tests rerun'')
              else None)
      in if generated_parts_ok parts then found else None)"

definition adapter_for :: "string \<Rightarrow> string \<Rightarrow> adapter option" where
  "adapter_for path rel =
     (let parts = split_on slash rel
      in case store_adapter path rel of
           Some a \<Rightarrow> Some a
         | None \<Rightarrow> (case project_store_adapter path parts of
               Some a \<Rightarrow> Some a
             | None \<Rightarrow> generated_adapter rel parts))"

definition DescribeAdapter :: "entry \<Rightarrow> adapter option" where
  "DescribeAdapter e =
     (if ent_Kind e \<noteq> EntryKindDirectory \<or> \<not> IsCanonicalPath (ent_Path e)
         \<or> \<not> IsCanonicalPath (ent_Root e) \<or> \<not> PathWithin (ent_Path e) (ent_Root e)
      then None
      else case Rel (ent_Root e) (ent_Path e) of
        None \<Rightarrow> None
      | Some rel \<Rightarrow>
          adapter_for (ent_Path e) (if rel = ''.'' then selectedStoreLayout (ent_Path e) else rel))"

section \<open>Classification\<close>

record classification =
  cn_Class :: artifact_class
  cn_Rule :: string
  cn_Reason :: string

abbreviation classified :: "artifact_class \<Rightarrow> string \<Rightarrow> string \<Rightarrow> classification" where
  "classified c rule reason \<equiv> \<lparr>cn_Class = c, cn_Rule = rule, cn_Reason = reason\<rparr>"

text \<open>\<open>%q\<close> of a slice of strings.\<close>

definition quote_list :: "string list \<Rightarrow> string" where
  "quote_list ws = ''['' @ join '' '' (map quote ws) @ '']''"

definition git_class :: "git_state \<Rightarrow> classification" where
  "git_class g =
     (if git_WorktreeOf g \<noteq> ''''
      then classified ClassTaskWorktree ''classify.git_worktree'' (''linked Git worktree of '' @ git_WorktreeOf g)
      else classified ClassPrimaryProject ''classify.git_repository'' ''contains a Git repository'')"

definition adapter_class :: "entry \<Rightarrow> adapter \<Rightarrow> classification" where
  "adapter_class e a =
     classified (adp_Class a) (''classify.adapter:'' @ adp_Provider a)
       (ent_Path e @ '' is the selected '' @ adp_Provider a @ '' root; '' @ adp_Rebuild a
         @ (if adp_OfficialCommand a \<noteq> []
            then ''; official argv (display only, not executed): '' @ quote_list (adp_OfficialCommand a)
            else ''''))"

text \<open>The part of the precedence after the Git state, when there is none.\<close>

definition classify_plain :: "entry \<Rightarrow> classification_policy \<Rightarrow> classification" where
  "classify_plain e rules =
     (let name = Base (ent_Path e)
      in if matchAny name (cls_WorktreeMarkers rules)
         then classified ClassTaskWorktree ''classify.worktree_name'' (name @ '' matches a task worktree name'')
         else case DescribeAdapter e of
           Some a \<Rightarrow> adapter_class e a
         | None \<Rightarrow>
             if selectedGenericRoot e \<and> matchAny name (cls_GeneratedNames rules)
             then classified ClassGeneratedArtifact ''classify.generated''
               (name @ '' matches a generated artifact name'')
             else if selectedGenericRoot e \<and> matchAny name (cls_CacheNames rules)
             then classified ClassCache ''classify.cache_name'' (name @ '' matches a cache name'')
             else if ent_Kind e = EntryKindDirectory \<and> hasProjectMarker e (cls_ProjectMarkers rules)
             then classified ClassPrimaryProject ''classify.project_marker'' ''contains a project marker''
             else classified ClassUnknown ''classify.unknown'' ''no built-in classification matched'')"

definition Classify :: "entry \<Rightarrow> 'z policy_scheme \<Rightarrow> classification" where
  "Classify e pol =
     (let name = Base (ent_Path e); rules = pol_Classification pol
      in if matchAny name (cls_EvidenceNames rules)
         then classified ClassEvidence ''classify.evidence'' (name @ '' matches a durable evidence name'')
         else if matchAny name (cls_OperationalNames rules)
         then classified ClassOperationalTool ''classify.operational''
           (name @ '' matches an operational tooling name'')
         else if matchAny name (cls_BackupNames rules)
         then classified ClassBackup ''classify.backup'' (name @ '' matches a backup or archive name'')
         else if gitmootSignal e \<noteq> ''''
         then classified ClassOperationalTool ''classify.gitmoot_managed''
           (''Gitmoot lifecycle evidence '' @ gitmootSignal e
             @ '' marks this as managed, not generic cleanup'')
         else case ent_Git e of
           Some g \<Rightarrow> git_class g
         | None \<Rightarrow> classify_plain e rules)"

section \<open>Facts\<close>

text \<open>Reordering or repeating the patterns of a policy changes no classification.\<close>

lemma matchAny_set: "set ps = set qs \<Longrightarrow> matchAny name ps = matchAny name qs"
  by (auto simp: matchAny_def list_ex_iff)

lemma matchAny_bad_pattern:
  assumes "Match pat name = None" "ContainsAny pat ''*?[''"
  shows "matchAny name (ps @ pat # qs) = matchAny name (ps @ qs)"
  using assms by (simp add: matchAny_def name_matches_def)

lemma if_SomeE: "(if b then x else y) = Some v \<Longrightarrow> (x = Some v \<Longrightarrow> P) \<Longrightarrow> (y = Some v \<Longrightarrow> P) \<Longrightarrow> P"
  by (cases b) simp_all

lemma cache_adapter_class: "cache_adapter p r c = Some a \<Longrightarrow> adp_Class a = ClassCache"
  by (auto simp: cache_adapter_def)

lemma named_adapter_class:
  "uv_adapter path = Some a \<Longrightarrow> adp_Class a = ClassCache"
  "pnpm_adapter path = Some a \<Longrightarrow> adp_Class a = ClassCache"
  "gradle_adapter = Some a \<Longrightarrow> adp_Class a = ClassCache"
  unfolding uv_adapter_def pnpm_adapter_def gradle_adapter_def by (rule cache_adapter_class, assumption)+

lemma store_adapter_class:
  assumes "store_adapter path rel = Some a"
  shows "adp_Class a = ClassCache"
  using assms unfolding store_adapter_def
  by (elim if_SomeE named_adapter_class cache_adapter_class) (rule option.distinct(1) [THEN notE], assumption)

lemma project_store_adapter_class:
  assumes "project_store_adapter path parts = Some a"
  shows "adp_Class a = ClassCache"
  using assms unfolding project_store_adapter_def Let_def
  by (elim if_SomeE named_adapter_class) (rule option.distinct(1) [THEN notE], assumption)

lemma generated_adapter_class:
  assumes "generated_adapter rel parts = Some a"
  shows "adp_Class a = ClassGeneratedArtifact"
  using assms unfolding generated_adapter_def Let_def
  by (elim if_SomeE) (simp_all only: option.inject option.distinct, auto)

lemma adapter_provider_class:
  assumes "DescribeAdapter e = Some a"
  shows "adp_Class a = ClassCache \<or> adp_Class a = ClassGeneratedArtifact"
proof -
  have *: "adp_Class a = ClassCache \<or> adp_Class a = ClassGeneratedArtifact"
    if "adapter_for p r = Some a" for p r
    using that store_adapter_class project_store_adapter_class generated_adapter_class
    unfolding adapter_for_def Let_def by (auto split: option.split_asm)
  show ?thesis
    using assms * unfolding DescribeAdapter_def by (auto split: if_split_asm option.split_asm)
qed

lemma git_class_Class: "cn_Class (git_class g) \<in> {ClassTaskWorktree, ClassPrimaryProject}"
  by (simp add: git_class_def)

text \<open>A Git repository is never classified as something regenerable.\<close>

lemma Classify_git_not_regenerable:
  "ent_Git e \<noteq> None \<Longrightarrow> cn_Class (Classify e pol) \<notin> {ClassCache, ClassGeneratedArtifact, ClassUnknown}"
  by (auto simp: Classify_def Let_def git_class_def split: if_split_asm)

lemma Classify_unknown_rule:
  "cn_Class (Classify e pol) = ClassUnknown \<Longrightarrow> cn_Rule (Classify e pol) = ''classify.unknown''"
proof -
  assume u: "cn_Class (Classify e pol) = ClassUnknown"
  have a: "cn_Class (adapter_class e a) \<noteq> ClassUnknown" if "DescribeAdapter e = Some a" for a
    using adapter_provider_class [OF that] by (auto simp: adapter_class_def)
  show ?thesis
    using u a git_class_Class
    by (auto simp: Classify_def classify_plain_def Let_def git_class_def
        split: if_split_asm option.split_asm)
qed

lemma Classify_unknown_no_git:
  "cn_Class (Classify e pol) = ClassUnknown \<Longrightarrow> ent_Git e = None \<and> gitmootSignal e = ''''"
  by (auto simp: Classify_def Let_def git_class_def split: if_split_asm option.split_asm)

end
