(* ===== verification/GoDuration.thy ===== *)
theory GoDuration
  imports Prelude
begin

text \<open>
  \<open>time.Duration.String\<close>: the text of a duration as the program prints it, for example \<open>1h0m30.5s\<close>.
\<close>

text \<open>\<open>n\<close> in decimal with leading zeros to the given width, without the trailing zeros.\<close>

fun pad_nat :: "nat \<Rightarrow> nat \<Rightarrow> string" where
  "pad_nat 0 n = ''''"
| "pad_nat (Suc w) n = pad_nat w (n div 10) @ [digit_char (n mod 10)]"

definition frac_digits :: "nat \<Rightarrow> nat \<Rightarrow> string" where
  "frac_digits prec n =
     (let ds = rev (dropWhile (\<lambda>c. c = CHR ''0'') (rev (pad_nat prec n)))
      in if ds = '''' then '''' else ''.'' @ ds)"

text \<open>A number of units with a fraction of \<open>prec\<close> digits.\<close>

definition with_frac :: "nat \<Rightarrow> nat \<Rightarrow> string" where
  "with_frac prec n = show_nat (n div 10 ^ prec) @ frac_digits prec (n mod 10 ^ prec)"

definition micro_sign :: string where
  "micro_sign = [char_of (194 :: nat), char_of (181 :: nat)]"

definition show_duration_nat :: "nat \<Rightarrow> string" where
  "show_duration_nat u =
     (if u = 0 then ''0s''
      else if u < 1000 then show_nat u @ ''ns''
      else if u < 1000000 then with_frac 3 u @ micro_sign @ ''s''
      else if u < 1000000000 then with_frac 6 u @ ''ms''
      else
        let secs = u div 1000000000; s = with_frac 9 (u mod 60000000000) @ ''s''; mins = secs div 60
        in if mins = 0 then s
           else if mins div 60 = 0 then show_nat mins @ ''m'' @ s
           else show_nat (mins div 60) @ ''h'' @ show_nat (mins mod 60) @ ''m'' @ s)"

definition show_duration :: "duration \<Rightarrow> string" where
  "show_duration d = (if d < 0 then ''-'' @ show_duration_nat (nat (- d)) else show_duration_nat (nat d))"

end
