(* ===== verification/PlanRules.thy ===== *)
theory PlanRules
  imports PlanClassify GoDuration CoreVerdict
begin

text \<open>
  \<open>internal/plan/rules.go\<close>: the proposals every rule makes for an entry, their precedence tiers, and the
  evaluation that lets the lowest tier decide and, within it, the safest action win.
\<close>

section \<open>Tiers and proposals\<close>

definition WorktreeIdle :: duration where
  "WorktreeIdle = 7 * 24 * nanosecond_hour"

datatype tier = TierSafety | TierProtected | TierExplicit | TierBuiltin | TierFallback

fun tier_rank :: "tier \<Rightarrow> nat" where
  "tier_rank TierSafety = 0"
| "tier_rank TierProtected = 1"
| "tier_rank TierExplicit = 2"
| "tier_rank TierBuiltin = 3"
| "tier_rank TierFallback = 4"

fun tier_str :: "tier \<Rightarrow> string" where
  "tier_str TierSafety = ''safety''"
| "tier_str TierProtected = ''protected''"
| "tier_str TierExplicit = ''explicit''"
| "tier_str TierBuiltin = ''builtin''"
| "tier_str TierFallback = ''fallback''"

record proposal =
  prp_Rule :: string
  prp_Tier :: tier
  prp_Kind :: action_kind
  prp_Retention :: retention
  prp_Destination :: string
  prp_Reason :: string
  prp_Specificity :: nat

record decision =
  dec_Class :: artifact_class
  dec_Kind :: action_kind
  dec_Retention :: retention
  dec_Destination :: string
  dec_Rules :: "string list"
  dec_Reasons :: "string list"
  dec_Rejected :: "rejected_action list"
  dec_Ambiguous :: bool
  dec_Conflicts :: "rejected_action list"

text \<open>A proposal that sets no retention and no destination holds their zero values.\<close>

definition proposes ::
    "string \<Rightarrow> tier \<Rightarrow> action_kind \<Rightarrow> retention \<Rightarrow> nat \<Rightarrow> string \<Rightarrow> proposal" where
  "proposes rule t kind ret spec reason =
     \<lparr>prp_Rule = rule, prp_Tier = t, prp_Kind = kind, prp_Retention = ret, prp_Destination = '''',
      prp_Reason = reason, prp_Specificity = spec\<rparr>"

definition canonicalRootFor :: "'z policy_scheme \<Rightarrow> artifact_class \<Rightarrow> string option" where
  "canonicalRootFor pol class =
     map_option crt_Path (find (\<lambda>r. crt_Class r = class) (pol_CanonicalRoots pol))"

definition foreignOwner :: "entry \<Rightarrow> 'z policy_scheme \<Rightarrow> bool" where
  "foreignOwner e pol =
     (let expected = opol_ExpectedUID (pol_Ownership pol)
      in if expected = 0 then False else own_UID (ent_Ownership e) \<noteq> expected)"

section \<open>Bounded caches\<close>

definition boundedCacheAction :: "entry \<Rightarrow> cache_rule \<Rightarrow> action_kind \<times> string" where
  "boundedCacheAction e rule =
    (let maxb = sint (cr_MaxBytes rule); ttl = cr_TTL rule; size = sint (ent_SizeBytes e);
         dir = (ent_Kind e = EntryKindDirectory);
         modified = (if dir then ent_LatestModifiedAt e else ent_ModifiedAt e);
         age = time_sub (ent_ObservedAt e) modified
     in if maxb = 0 \<and> ttl = 0 then (cr_Action rule, ''no size or age bound is configured'')
        else if \<not> dir \<and> ent_Kind e \<noteq> EntryKindFile
        then (ActionInvestigate, ''bounded cache cleanup requires a regular file or a completely sized directory'')
        else if dir \<and> \<not> ent_SizeIsDeep e
        then (ActionInvestigate, ''complete deep-size evidence is required for bounded directory cleanup'')
        else if ttl > 0 \<and> (modified = time_zero \<or> ent_ObservedAt e = time_zero \<or> modified > ent_ObservedAt e)
        then (ActionInvestigate,
          ''complete latest modification time and observation time are required for ttl'')
        else if maxb > 0 \<and> ent_SizeIsLowerBound e \<and> size \<le> maxb
        then (ActionInvestigate, ''size is at least '' @ show_int size
          @ '' bytes, which cannot show whether max_bytes '' @ show_int maxb @ '' is exceeded'')
        else if maxb > 0 \<and> size \<le> maxb
        then (ActionKeep, ''size '' @ show_int size @ '' bytes is at or below max_bytes '' @ show_int maxb)
        else if ttl > 0 \<and> age < ttl
        then (ActionKeep, ''newest content age '' @ show_duration age @ '' is below ttl '' @ show_duration ttl)
        else (cr_Action rule, ''complete evidence meets max_bytes '' @ show_int maxb @ '' and ttl ''
          @ show_duration ttl @ '' at observation time''))"

section \<open>Built-in defaults\<close>

definition worktreeProposal :: "entry \<Rightarrow> string \<Rightarrow> retention \<Rightarrow> action_kind \<times> retention \<times> string" where
  "worktreeProposal e reason dflt =
     (if \<not> git_Clean (ent_Git e) then (ActionInvestigate, RetentionUnset, reason)
      else case ent_Git e of
        None \<Rightarrow> (ActionInvestigate, RetentionUnset, reason)
      | Some g \<Rightarrow>
          if git_LastActivity g = time_zero \<or> ent_ObservedAt e = time_zero
          then (ActionInvestigate, RetentionUnset, reason @ ''; clean, but when it was last used is unknown'')
          else if time_sub (ent_ObservedAt e) (git_LastActivity g) < WorktreeIdle
          then (ActionInvestigate, RetentionUnset,
            reason @ ''; clean, but used within '' @ show_duration WorktreeIdle)
          else (ActionQuarantine, dflt,
            reason @ ''; clean, every commit on a remote-tracking branch, and idle for over ''
              @ show_duration WorktreeIdle))"

definition builtinProposal :: "entry \<Rightarrow> classification \<Rightarrow> 'z policy_scheme \<Rightarrow> proposal" where
  "builtinProposal e c pol =
    (let spec = length (ent_Path e); reason = cn_Reason c; def = rpol_Default (pol_Retention pol);
         keep = (\<lambda>rule. proposes rule TierBuiltin ActionKeep RetentionUnset spec reason)
     in case cn_Class c of
          ClassEvidence \<Rightarrow> keep ''builtin.evidence''
        | ClassOperationalTool \<Rightarrow> keep ''builtin.operational_tool''
        | ClassPrimaryProject \<Rightarrow> keep ''builtin.primary_project''
        | ClassBackup \<Rightarrow> keep ''builtin.backup''
        | ClassTaskWorktree \<Rightarrow>
            (case worktreeProposal e reason def of (kind, ret, why) \<Rightarrow>
               proposes ''builtin.task_worktree'' TierBuiltin kind ret spec why)
        | ClassGeneratedArtifact \<Rightarrow>
            proposes ''builtin.generated_artifact'' TierBuiltin ActionQuarantine def spec reason
        | ClassCache \<Rightarrow>
            if Base (ent_Path e) = ''.cache''
            then proposes ''builtin.cache'' TierBuiltin ActionInvestigate RetentionNone spec
              (reason @ ''; a home cache directory holds many tools' caches, so select them with per-tool cache rules'')
            else if HasPrefix (cn_Rule c) ''classify.adapter:''
            then proposes ''builtin.cache'' TierBuiltin ActionInvestigate RetentionNone spec
              (reason @ ''; shared provider caches need explicit scoped policy and review'')
            else proposes ''builtin.cache'' TierBuiltin ActionQuarantine def spec reason
        | _ \<Rightarrow> proposes ''builtin.unknown'' TierFallback ActionInvestigate RetentionUnset spec
              ''nothing classified this path, so it is left for a human to look at'')"

section \<open>All proposals\<close>

definition safety_proposals :: "entry \<Rightarrow> verdict \<Rightarrow> proposal list" where
  "safety_proposals e v =
     (if Refused v
      then [proposes ''safety.refused'' TierSafety ActionKeep RetentionNone (length (ent_Path e))
        (''the safety engine refuses any mutation: '' @ Verdict_Summary v)]
      else [])"

definition protected_proposals :: "entry \<Rightarrow> 'z policy_scheme \<Rightarrow> proposal list" where
  "protected_proposals e pol =
    (let path = ent_Path e; home = gm_Home (pol_Gitmoot pol)
     in map (\<lambda>p. proposes ''policy.protected_path'' TierProtected ActionKeep RetentionUnset (length p)
           (path @ '' overlaps the protected path '' @ p))
         (filter (PathsOverlap path) (pro_Paths (pol_Protect pol)))
      @ (if home \<noteq> '''' \<and> PathsOverlap path home
         then [proposes ''policy.gitmoot_home'' TierProtected ActionKeep RetentionUnset (length home)
           (path @ '' overlaps Gitmoot's managed home '' @ home)] else [])
      @ (if gitmootSignal e \<noteq> ''''
         then [proposes ''policy.gitmoot_managed'' TierProtected ActionKeep RetentionUnset (length path)
           (''Gitmoot lifecycle evidence '' @ gitmootSignal e
             @ '' requires managed review, not generic filesystem cleanup'')] else []))"

definition canonical_proposals :: "entry \<Rightarrow> classification \<Rightarrow> 'z policy_scheme \<Rightarrow> proposal list" where
  "canonical_proposals e c pol =
    (let path = ent_Path e
     in case canonicalRootFor pol (cn_Class c) of
          None \<Rightarrow> []
        | Some canonical \<Rightarrow>
            let mk = (\<lambda>kind reason. proposes ''policy.canonical_root'' TierProtected kind RetentionUnset
                  (length canonical) reason)
            in if PathWithin path canonical
               then [mk ActionKeep (path @ '' already lives in the canonical root '' @ canonical @ '' for ''
                 @ artifactClass_str (cn_Class c))]
               else if cn_Class c = ClassPrimaryProject \<and> PathWithin canonical path
               then [mk ActionInvestigate (''the canonical root '' @ canonical @ '' is inside '' @ path
                 @ '', so relocating would move the entry into itself'')]
               else if cn_Class c = ClassPrimaryProject
               then [(mk ActionRelocate (''a primary project belongs in '' @ canonical @ '', not '' @ Dir path))
                 \<lparr>prp_Destination := Join [canonical, Base path]\<rparr>]
               else [])"

definition cache_proposals :: "entry \<Rightarrow> 'z policy_scheme \<Rightarrow> proposal list" where
  "cache_proposals e pol =
     map (\<lambda>rule. case boundedCacheAction e rule of (kind, reason) \<Rightarrow>
         proposes (''policy.cache:'' @ cr_Name rule) TierExplicit kind (cr_Retention rule) (length (cr_Path rule))
           (''cache rule '' @ quote (cr_Name rule) @ '' covers '' @ cr_Path rule @ ''; '' @ reason))
       (filter (\<lambda>rule. PathWithin (ent_Path e) (cr_Path rule)) (pol_Caches pol))"

definition export_proposals :: "entry \<Rightarrow> 'z policy_scheme \<Rightarrow> proposal list" where
  "export_proposals e pol =
     map (\<lambda>rule.
       let expired = xr_LocalExpiryEnabled rule \<and> ent_ExportArchive e \<noteq> None
             \<and> Expired (xr_LocalRetention rule) (xr_CompletedAt rule) (ent_ObservedAt e)
       in proposes (''policy.evidence_export:'' @ xr_Name rule) TierExplicit
            (if expired then ActionQuarantine else ActionKeep) (rpol_Default (pol_Retention pol))
            (length (xr_Path rule))
            (if expired
             then ''exact completed export has a verified archive and its approved local lifetime has elapsed''
             else ''export remains retained until its approved local lifetime and verified archive permit expiry''))
     (filter (\<lambda>rule. ent_Path e = xr_Path rule) (pol_EvidenceExports pol))"

definition archive_proposals :: "entry \<Rightarrow> 'z policy_scheme \<Rightarrow> proposal list" where
  "archive_proposals e pol =
     map (\<lambda>rule.
       let expired = wr_LocalExpiryEnabled rule \<and> (case ent_WorkspaceArchive e of
               None \<Rightarrow> False
             | Some b \<Rightarrow> Expired (wr_LocalRetention rule) (wab_CreatedAt b) (ent_ObservedAt e))
       in proposes (''policy.workspace_archive:'' @ wr_Name rule) TierExplicit
            (if expired then ActionQuarantine else ActionKeep) (rpol_Default (pol_Retention pol))
            (length (wr_Path rule))
            (if expired
             then ''released workspace exactly matches its pinned verified archive and its approved local lifetime has elapsed''
             else ''released workspace remains retained until local expiry is enabled, its approved local lifetime has elapsed and its pinned archive matches the local tree''))
     (filter (\<lambda>rule. ent_Path e = wr_Path rule) (pol_WorkspaceArchives pol))"

definition owner_proposals :: "entry \<Rightarrow> 'z policy_scheme \<Rightarrow> proposal list" where
  "owner_proposals e pol =
     (if opol_InvestigateForeignOwner (pol_Ownership pol) \<and> foreignOwner e pol
      then [proposes ''policy.foreign_owner'' TierExplicit ActionInvestigate RetentionUnset
        (length (ent_Path e)) (ent_Path e @ '' is owned by uid ''
          @ show_nat (unat (own_UID (ent_Ownership e))) @ '', not the expected owner'')]
      else [])"

definition proposal_key :: "proposal \<Rightarrow> nat \<times> int \<times> string" where
  "proposal_key p = (tier_rank (prp_Tier p), - int (prp_Specificity p), prp_Rule p)"

definition gathered :: "entry \<Rightarrow> classification \<Rightarrow> 'z policy_scheme \<Rightarrow> verdict \<Rightarrow> proposal list" where
  "gathered e c pol v =
     safety_proposals e v @ protected_proposals e pol @ canonical_proposals e c pol
     @ cache_proposals e pol @ export_proposals e pol @ archive_proposals e pol
     @ owner_proposals e pol @ [builtinProposal e c pol]"

definition proposals :: "entry \<Rightarrow> classification \<Rightarrow> 'z policy_scheme \<Rightarrow> verdict \<Rightarrow> proposal list" where
  "proposals e c pol v = sort_key proposal_key (gathered e c pol v)"

section \<open>Evaluation\<close>

definition rejects :: "action_kind \<Rightarrow> string \<Rightarrow> string \<Rightarrow> bool \<Rightarrow> rejected_action" where
  "rejects kind rule reason conflict =
     \<lparr>rej_Kind = kind, rej_Rule = rule, rej_Reason = reason, rej_Conflict = conflict\<rparr>"

text \<open>The variables of the loop: the winner so far and the lists of the decision.\<close>

record eval_state =
  evs_Winner :: "proposal option"
  evs_Rules :: "string list"
  evs_Reasons :: "string list"
  evs_Rejected :: "rejected_action list"
  evs_Conflicts :: "rejected_action list"

definition eval_step :: "tier \<Rightarrow> eval_state \<Rightarrow> proposal \<Rightarrow> eval_state" where
  "eval_step winningTier st c =
     (if prp_Tier c \<noteq> winningTier
      then st\<lparr>evs_Rejected := evs_Rejected st @ [rejects (prp_Kind c) (prp_Rule c)
        (tier_str winningTier @ '' tier decided first: '' @ prp_Reason c) False]\<rparr>
      else case evs_Winner st of
        None \<Rightarrow> st\<lparr>evs_Winner := Some c\<rparr>
      | Some w \<Rightarrow>
          let safer = Safer (prp_Kind w) (prp_Kind c)
          in if safer = prp_Kind c \<and> prp_Kind c \<noteq> prp_Kind w
             then st\<lparr>evs_Conflicts := evs_Conflicts st @ [rejects (prp_Kind w) (prp_Rule w)
                   (''conflicting rule '' @ prp_Rule c @ '' asked for the safer ''
                     @ actionKind_str (prp_Kind c)) True],
                 evs_Winner := Some c\<rparr>
             else if prp_Kind c \<noteq> prp_Kind w
             then st\<lparr>evs_Conflicts := evs_Conflicts st @ [rejects (prp_Kind c) (prp_Rule c)
                   (''conflicting rule '' @ prp_Rule w @ '' asked for the safer ''
                     @ actionKind_str (prp_Kind w)) True]\<rparr>
             else st\<lparr>evs_Rules := evs_Rules st @ [prp_Rule c],
                 evs_Reasons := evs_Reasons st @ [prp_Reason c]\<rparr>)"

definition take_winner :: "classification \<Rightarrow> eval_state \<Rightarrow> proposal \<Rightarrow> decision" where
  "take_winner c st w =
     \<lparr>dec_Class = cn_Class c, dec_Kind = prp_Kind w, dec_Retention = prp_Retention w,
      dec_Destination = prp_Destination w, dec_Rules = evs_Rules st @ [prp_Rule w],
      dec_Reasons = evs_Reasons st @ [prp_Reason w],
      dec_Rejected = evs_Rejected st @ evs_Conflicts st,
      dec_Ambiguous = (cn_Class c = ClassUnknown), dec_Conflicts = evs_Conflicts st\<rparr>"

definition need_destination :: "proposal \<Rightarrow> decision \<Rightarrow> decision" where
  "need_destination w d =
     (if dec_Kind d = ActionRelocate \<and> dec_Destination d = ''''
      then d\<lparr>dec_Rejected := dec_Rejected d @ [rejects ActionRelocate (prp_Rule w)
          ''no canonical destination is configured for this class'' False],
        dec_Kind := ActionInvestigate\<rparr>
      else d)"

definition obey_refusal :: "verdict \<Rightarrow> decision \<Rightarrow> decision" where
  "obey_refusal v d =
     (if Mutating (dec_Kind d) \<and> Refused v
      then d\<lparr>dec_Rejected := dec_Rejected d @ [rejects (dec_Kind d) ''safety.refused''
          (''the safety engine refuses any mutation: '' @ Verdict_Summary v) False],
        dec_Kind := ActionKeep, dec_Retention := RetentionNone, dec_Destination := ''''\<rparr>
      else d)"

definition settle_retention :: "'z policy_scheme \<Rightarrow> decision \<Rightarrow> decision" where
  "settle_retention pol d =
    (let d1 = (if \<not> Mutating (dec_Kind d)
          then d\<lparr>dec_Retention := RetentionNone,
            dec_Destination := (if dec_Kind d \<noteq> ActionRelocate then '''' else dec_Destination d)\<rparr>
          else d)
     in if dec_Kind d1 = ActionQuarantine \<and> dec_Retention d1 = RetentionUnset
        then d1\<lparr>dec_Retention := rpol_Default (pol_Retention pol)\<rparr> else d1)"

definition decide_among ::
    "classification \<Rightarrow> 'z policy_scheme \<Rightarrow> verdict \<Rightarrow> proposal list \<Rightarrow> decision" where
  "decide_among c pol v candidates =
    (let start = \<lparr>evs_Winner = None, evs_Rules = [cn_Rule c], evs_Reasons = [cn_Reason c],
           evs_Rejected = [], evs_Conflicts = []\<rparr>
     in case candidates of
          [] \<Rightarrow>
            \<lparr>dec_Class = cn_Class c, dec_Kind = ActionInvestigate, dec_Retention = RetentionUnset,
             dec_Destination = '''', dec_Rules = [cn_Rule c, ''fallback.no_rule''],
             dec_Reasons = [cn_Reason c, ''no rule applied, so the path is left for review''],
             dec_Rejected = [], dec_Ambiguous = (cn_Class c = ClassUnknown), dec_Conflicts = []\<rparr>
        | first # _ \<Rightarrow>
            let st = foldl (eval_step (prp_Tier first)) start candidates;
                w = (case evs_Winner st of Some w \<Rightarrow> w | None \<Rightarrow> first)
            in settle_retention pol (obey_refusal v (need_destination w (take_winner c st w))))"

definition Evaluate_rules :: "entry \<Rightarrow> 'z policy_scheme \<Rightarrow> verdict \<Rightarrow> decision" where
  "Evaluate_rules e pol v =
     (let c = Classify e pol in decide_among c pol v (proposals e c pol v))"

end
