(* ===== verification/PlanBuild.thy ===== *)
theory PlanBuild
  imports PlanRules SafetyEngine Sha256
begin

text \<open>
  \<open>internal/plan/plan.go\<close>: building a plan from an inventory.  The advisor, the JSON encoding of the
  policy, the shortest text of a float (\<open>%g\<close>) and the clock are parameters; SHA-256 is computed.
\<close>

section \<open>Inputs and results\<close>

text \<open>An advisor: its name, and its answers by path, or \<open>None\<close> for an error.\<close>

record advisor =
  adv_Name :: string
  adv_Classify :: "entry list \<Rightarrow> (string \<Rightarrow> recommendation option) option"

record 'z plan_input =
  pin_ScanID :: string
  pin_Entries :: "entry list"
  pin_Policy :: "'z policy_scheme"
  pin_Safety :: safety_policy
  pin_Jobs :: "job_ref list"
  pin_Target :: "target option"
  pin_Now :: time
  pin_Advisor :: "advisor option"

record trace =
  trc_Path :: string
  trc_Class :: artifact_class
  trc_Action :: action_kind
  trc_Rules :: "string list"
  trc_Reasons :: "string list"
  trc_Rejected :: "rejected_action list"
  trc_Ambiguous :: bool
  trc_AdvisedBy :: string
  trc_Fingerprint :: string

record plan_result =
  res_Plan :: plan
  res_Verdicts :: "verdict list"
  res_Traces :: "trace list"

datatype build_error = UnboundPlan | InvalidPlan field_errors

definition RulesOnly :: string where "RulesOnly = ''rules-only''"

definition AdvisorKey :: "'z plan_input \<Rightarrow> string" where
  "AdvisorKey inp = (case pin_Advisor inp of None \<Rightarrow> RulesOnly | Some a \<Rightarrow> adv_Name a)"

section \<open>Confidence\<close>

text \<open>The doubles nearest to 0.3, 0.6 and 0.9.\<close>

definition ambiguousConfidence :: go_float where
  "ambiguousConfidence = Fin (5404319552844595 / 18014398509481984)"

definition conflictConfidence :: go_float where
  "conflictConfidence = Fin (5404319552844595 / 9007199254740992)"

definition settledConfidence :: go_float where
  "settledConfidence = Fin (8106479329266893 / 9007199254740992)"

definition confidenceFor :: "decision \<Rightarrow> go_float" where
  "confidenceFor d =
     (if dec_Ambiguous d then ambiguousConfidence
      else if dec_Conflicts d \<noteq> [] then conflictConfidence
      else settledConfidence)"

section \<open>Digests and identities\<close>

text \<open>The map from paths to fingerprints keeps the last entry of a path.\<close>

definition fingerprint_of :: "entry list \<Rightarrow> string \<Rightarrow> string" where
  "fingerprint_of es p = (case find (\<lambda>e. ent_Path e = p) (rev es) of
     Some e \<Rightarrow> ent_Fingerprint e | None \<Rightarrow> '''')"

abbreviation nul :: string where "nul \<equiv> [CHR 0x00]"

definition evidence_payload :: "entry list \<Rightarrow> string" where
  "evidence_payload es =
     concat (map (\<lambda>p. p @ nul @ fingerprint_of es p @ nul) (sort (map ent_Path es)))"

definition EvidenceDigest :: "entry list \<Rightarrow> string" where
  "EvidenceDigest es = sha256_hex (evidence_payload es)"

definition PolicyDigest :: "('z policy_scheme \<Rightarrow> string option) \<Rightarrow> 'z policy_scheme \<Rightarrow> string" where
  "PolicyDigest encode pol =
     (case encode pol of None \<Rightarrow> ''unavailable'' | Some s \<Rightarrow> sha256_hex s)"

definition PlanID :: "string \<Rightarrow> string \<Rightarrow> string \<Rightarrow> string \<Rightarrow> string \<Rightarrow> string" where
  "PlanID scanID evidenceDigest policyDigest advisor adviceDigest =
     ''plan-'' @ scanID @ ''-''
       @ take 12 (sha256_hex (scanID @ nul @ evidenceDigest @ nul @ policyDigest @ nul @ advisor @ nul
           @ adviceDigest))"

definition ActionID :: "string \<Rightarrow> string \<Rightarrow> string" where
  "ActionID planID path = ''action-'' @ take 16 (sha256_hex (planID @ nul @ path))"

definition advice_line :: "(go_float \<Rightarrow> string) \<Rightarrow> string \<Rightarrow> recommendation \<Rightarrow> string" where
  "advice_line fg path r =
     path @ nul @ actionKind_str (rec_Action r) @ nul @ artifactClass_str (rec_Class r) @ nul
       @ retention_str (rec_Retention r) @ nul @ fg (rec_Confidence r) @ nul
       @ join [CHR 0x01] (rec_Reasons r) @ nul"

definition adviceDigest ::
    "(go_float \<Rightarrow> string) \<Rightarrow> (entry \<times> decision) list \<Rightarrow> (string \<Rightarrow> recommendation option) \<Rightarrow> string" where
  "adviceDigest fg eds advice =
    (let lines = concat (map (\<lambda>(e, d). case advice (ent_Path e) of
           None \<Rightarrow> [] | Some r \<Rightarrow> if dec_Ambiguous d then [advice_line fg (ent_Path e) r] else []) eds)
     in if lines = [] then '''' else sha256_hex (concat lines))"

section \<open>Advice\<close>

definition joinReasons :: "string list \<Rightarrow> string" where
  "joinReasons reasons =
     (if reasons = [] then ''the advisor gave no reason'' else join ''; '' reasons)"

text \<open>An answer that enters the plan: its retention defaulted, and well formed.\<close>

definition usable_advice :: "recommendation \<Rightarrow> recommendation option" where
  "usable_advice r0 =
    (let r = (if rec_Retention r0 = RetentionUnset then r0\<lparr>rec_Retention := RetentionNone\<rparr> else r0)
     in if \<not> (float_le (Fin 0) (rec_Confidence r) \<and> float_le (rec_Confidence r) (Fin 1))
           \<or> Recommendation_Validate r ''advisor'' \<noteq> [] then None else Some r)"

definition applyAdvice ::
    "decision \<Rightarrow> trace \<Rightarrow> recommendation \<Rightarrow> verdict \<Rightarrow> string \<Rightarrow> decision \<times> trace" where
  "applyAdvice d t0 r v name =
    (let t = t0\<lparr>trc_AdvisedBy := name\<rparr>; rule = ''advisor:'' @ name
     in if rec_Action r \<notin> {ActionKeep, ActionQuarantine, ActionInvestigate}
        then let t' = t\<lparr>trc_Rejected := trc_Rejected t @ [rejects (rec_Action r) rule
                ''advisor actions are limited to keep, quarantine, and investigate'' False]\<rparr>
             in (d\<lparr>dec_Rejected := trc_Rejected t'\<rparr>, t')
        else
          let c = ClampRecommendation v r; why = joinReasons (rec_Reasons c)
          in if rec_Action c = dec_Kind d
             then let d1 = d\<lparr>dec_Rules := dec_Rules d @ [rule], dec_Reasons := dec_Reasons d @ [why]\<rparr>;
                      labelled = (artifactClass_Valid (rec_Class c) \<and> rec_Class c \<noteq> ClassUnknown);
                      d2 = (if labelled then d1\<lparr>dec_Class := rec_Class c\<rparr> else d1);
                      t1 = (if labelled then t\<lparr>trc_Class := rec_Class c\<rparr> else t)
                  in (d2, t1\<lparr>trc_Rules := dec_Rules d2, trc_Reasons := dec_Reasons d2\<rparr>)
             else if RiskRank (dec_Kind d) \<le> RiskRank (rec_Action c)
             then let t' = t\<lparr>trc_Rejected := trc_Rejected t @ [rejects (rec_Action c) rule
                    (''the advisor proposed '' @ actionKind_str (rec_Action c)
                      @ '', which is not safer than the rules' '' @ actionKind_str (dec_Kind d) @ '': '' @ why)
                    False]\<rparr>
                  in (d\<lparr>dec_Rejected := trc_Rejected t'\<rparr>, t')
             else let t1 = t\<lparr>trc_Rejected := trc_Rejected t @ [rejects (dec_Kind d) ''builtin.unknown''
                    (''the advisor proposed the safer '' @ actionKind_str (rec_Action c)) False]\<rparr>;
                    d1 = d\<lparr>dec_Kind := rec_Action c, dec_Retention := rec_Retention c,
                      dec_Class := rec_Class c, dec_Rules := dec_Rules d @ [rule],
                      dec_Reasons := dec_Reasons d @ [why], dec_Rejected := trc_Rejected t1\<rparr>
                  in (d1, t1\<lparr>trc_Class := dec_Class d1, trc_Rules := dec_Rules d1,
                        trc_Reasons := dec_Reasons d1\<rparr>))"

section \<open>Destination collisions\<close>

definition without :: "string list \<Rightarrow> string \<Rightarrow> string list" where
  "without values exclude = filter (\<lambda>v. v \<noteq> exclude) values"

definition wants :: "action \<Rightarrow> string \<Rightarrow> bool" where
  "wants a destination \<longleftrightarrow>
     act_Kind a = ActionRelocate \<and> act_Destination a \<noteq> '''' \<and> act_Destination a = destination"

definition collision_reason :: "string \<Rightarrow> bool \<Rightarrow> string list \<Rightarrow> action \<Rightarrow> string" where
  "collision_reason destination taken others a =
     (if taken \<and> 1 < length others
      then destination @ '' already exists, and '' @ join '', '' (without others (act_Path a))
        @ '' is also proposed for it''
      else if taken
      then destination @ '' already exists, so relocating there would collide with it''
      else join '', '' (without others (act_Path a)) @ '' is also proposed for '' @ destination
        @ '', so relocating either would collide'')"

definition downgrade_collision :: "string \<Rightarrow> bool \<Rightarrow> string list \<Rightarrow> action \<Rightarrow> action" where
  "downgrade_collision destination taken others a =
    (let reason = collision_reason destination taken others a
     in a\<lparr>act_Rejected := act_Rejected a
            @ [rejects ActionRelocate ''policy.canonical_root'' reason True],
          act_Kind := ActionInvestigate, act_Destination := '''', act_Retention := RetentionNone,
          act_Confidence := conflictConfidence,
          act_Rules := act_Rules a @ [''plan.destination_collision''],
          act_Reasons := act_Reasons a @ [reason]\<rparr>)"

text \<open>The trace of a path is the last one; it takes over what the action became.\<close>

fun update_last :: "('a \<Rightarrow> bool) \<Rightarrow> ('a \<Rightarrow> 'a) \<Rightarrow> 'a list \<Rightarrow> 'a list" where
  "update_last P f [] = []"
| "update_last P f (x # xs) =
     (if P x \<and> \<not> list_ex P xs then f x # xs else x # update_last P f xs)"

definition follow_action :: "action \<Rightarrow> trace list \<Rightarrow> trace list" where
  "follow_action a traces =
     update_last (\<lambda>t. trc_Path t = act_Path a)
       (\<lambda>t. t\<lparr>trc_Action := ActionInvestigate, trc_Rules := act_Rules a, trc_Reasons := act_Reasons a,
             trc_Rejected := act_Rejected a\<rparr>) traces"

definition resolve_destination ::
    "action list \<Rightarrow> string set \<Rightarrow> action list \<times> trace list \<Rightarrow> string \<Rightarrow> action list \<times> trace list" where
  "resolve_destination original occupied st destination =
    (let indexes = filter (\<lambda>i. wants (original ! i) destination) [0..<length original];
         taken = (destination \<in> occupied);
         others = map (\<lambda>i. act_Path (original ! i)) indexes
     in if length indexes < 2 \<and> \<not> taken then st
        else foldl (\<lambda>(actions, traces) i.
            let a = downgrade_collision destination taken others (actions ! i)
            in (actions[i := a], follow_action a traces)) st indexes)"

definition destinations_of :: "action list \<Rightarrow> string list" where
  "destinations_of actions =
     sort (remdups (map act_Destination
       (filter (\<lambda>a. act_Kind a = ActionRelocate \<and> act_Destination a \<noteq> '''') actions)))"

definition resolveDestinationCollisions ::
    "action list \<Rightarrow> trace list \<Rightarrow> string set \<Rightarrow> action list \<times> trace list" where
  "resolveDestinationCollisions actions traces occupied =
     foldl (resolve_destination actions occupied) (actions, traces) (destinations_of actions)"

section \<open>Build\<close>

definition decide_entry :: "time \<Rightarrow> 'z plan_input \<Rightarrow> entry \<Rightarrow> verdict \<times> decision" where
  "decide_entry now inp e =
    (let v = Evaluate now \<lparr>in_Entry = e, in_Policy = pin_Safety inp, in_Jobs = pin_Jobs inp,
           in_Target = pin_Target inp, in_Now = now\<rparr>
     in (v, Evaluate_rules e (pin_Policy inp) v))"

definition gather_advice ::
    "advisor option \<Rightarrow> entry list \<Rightarrow> string \<Rightarrow> recommendation option" where
  "gather_advice adv ambiguous p =
     (case adv of
        None \<Rightarrow> None
      | Some a \<Rightarrow>
          if ambiguous = [] then None
          else case adv_Classify a ambiguous of
            None \<Rightarrow> None
          | Some answers \<Rightarrow>
              if p \<in> ent_Path ` set ambiguous then Option.bind (answers p) usable_advice else None)"

definition plan_action ::
    "string \<Rightarrow> time \<Rightarrow> entry \<Rightarrow> verdict \<Rightarrow> decision \<Rightarrow> go_float \<Rightarrow> action" where
  "plan_action planID now e v d confidence =
     \<lparr>act_ID = ActionID planID (ent_Path e), act_PlanID = planID, act_Path = ent_Path e,
      act_Kind = dec_Kind d, act_Class = dec_Class d, act_Retention = dec_Retention d,
      act_Confidence = confidence, act_Status = ActionStatusOther '''',
      act_Destination = dec_Destination d, act_FilesystemID = ent_FilesystemID e,
      act_Fingerprint = ent_Fingerprint e, act_Reasons = dec_Reasons d, act_Rules = dec_Rules d,
      act_Rejected = dec_Rejected d, act_Guards = ver_Guards v, act_CreatedAt = now,
      act_AppliedAt = None\<rparr>"

definition start_trace :: "entry \<Rightarrow> decision \<Rightarrow> trace" where
  "start_trace e d =
     \<lparr>trc_Path = ent_Path e, trc_Class = dec_Class d, trc_Action = ActionOther '''',
      trc_Rules = dec_Rules d, trc_Reasons = dec_Reasons d, trc_Rejected = dec_Rejected d,
      trc_Ambiguous = dec_Ambiguous d, trc_AdvisedBy = '''', trc_Fingerprint = ent_Fingerprint e\<rparr>"

definition plan_entry ::
    "string \<Rightarrow> time \<Rightarrow> (string \<Rightarrow> recommendation option) \<Rightarrow> string \<Rightarrow> entry \<Rightarrow> verdict \<times> decision
       \<Rightarrow> action \<times> trace" where
  "plan_entry planID now advice advisorName e vd =
    (let (v, d0) = vd;
         (d, t, confidence) =
           (case advice (ent_Path e) of
              None \<Rightarrow> (d0, start_trace e d0, confidenceFor d0)
            | Some r \<Rightarrow>
                if \<not> dec_Ambiguous d0 then (d0, start_trace e d0, confidenceFor d0)
                else let (d1, t1) = applyAdvice d0 (start_trace e d0) r v advisorName
                     in (d1, t1, if dec_Kind d1 \<noteq> dec_Kind d0 \<and> dec_Kind d1 = rec_Action r
                                 then rec_Confidence r else confidenceFor d0))
     in (plan_action planID now e v d confidence, t\<lparr>trc_Action := dec_Kind d\<rparr>))"

definition Build ::
    "('z policy_scheme \<Rightarrow> string option) \<Rightarrow> (go_float \<Rightarrow> string) \<Rightarrow> time \<Rightarrow> 'z plan_input
       \<Rightarrow> build_error + plan_result" where
  "Build encode fg clock inp =
    (if pin_ScanID inp = '''' then Inl UnboundPlan
     else
       let now = (if pin_Now inp = time_zero then clock else pin_Now inp);
           entries = sort_key ent_Path (pin_Entries inp);
           vds = map (decide_entry now inp) entries;
           ambiguous = map fst (filter (\<lambda>(e, vd). dec_Ambiguous (snd vd)) (zip entries vds));
           advice = gather_advice (pin_Advisor inp) ambiguous;
           advisorName = (case pin_Advisor inp of
             Some a \<Rightarrow> if ambiguous \<noteq> [] then adv_Name a else '''' | None \<Rightarrow> '''');
           evidence = EvidenceDigest entries;
           policy = PolicyDigest encode (pin_Policy inp);
           key = AdvisorKey inp;
           planID = PlanID (pin_ScanID inp) evidence policy key
             (adviceDigest fg (zip entries (map snd vds)) advice);
           ats = map (\<lambda>(e, vd). plan_entry planID now advice advisorName e vd) (zip entries vds);
           (actions, traces) = resolveDestinationCollisions (map fst ats) (map snd ats)
             (ent_Path ` set entries);
           p = Plan_Normalize \<lparr>plan_ContractVersion = 0, plan_ID = planID, plan_ScanID = pin_ScanID inp,
             plan_Status = PlanDraft, plan_CreatedAt = now, plan_EvidenceDigest = evidence,
             plan_PolicyDigest = policy, plan_Advisor = key, plan_Actions = actions\<rparr>
       in case Plan_Validate p of
            Some es \<Rightarrow> Inl (InvalidPlan es)
          | None \<Rightarrow> Inr \<lparr>res_Plan = p, res_Verdicts = map fst vds, res_Traces = traces\<rparr>)"

section \<open>Binding\<close>

datatype binding_error = BindingMismatch string

definition short_digest :: "string \<Rightarrow> string" where
  "short_digest digest =
     (if length digest > 12 then take 12 digest else if digest = '''' then ''unknown'' else digest)"

definition VerifyBinding ::
    "('z policy_scheme \<Rightarrow> string option) \<Rightarrow> plan \<Rightarrow> string \<Rightarrow> entry list \<Rightarrow> 'z policy_scheme
       \<Rightarrow> binding_error option" where
  "VerifyBinding encode p scanID entries pol =
    (let evidence = EvidenceDigest entries; policy = PolicyDigest encode pol
     in if plan_ScanID p \<noteq> scanID
        then Some (BindingMismatch (''plan '' @ plan_ID p @ '' was built from scan '' @ plan_ScanID p
          @ '', not '' @ scanID))
        else if evidence \<noteq> plan_EvidenceDigest p
        then Some (BindingMismatch (''the inventory changed since plan '' @ plan_ID p
          @ '' was built (evidence '' @ short_digest (plan_EvidenceDigest p) @ '', now ''
          @ short_digest evidence @ '')''))
        else if policy \<noteq> plan_PolicyDigest p
        then Some (BindingMismatch (''the policy changed since plan '' @ plan_ID p
          @ '' was built (policy '' @ short_digest (plan_PolicyDigest p) @ '', now ''
          @ short_digest policy @ '')''))
        else None)"

end
