(* ===== verification/PlanRulesFacts.thy ===== *)
theory PlanRulesFacts
  imports PlanRules
begin

text \<open>What rule evaluation guarantees: who decides, what can be decided, and what the trace accounts for.\<close>

section \<open>The loop\<close>

fun keep_safest :: "proposal option \<Rightarrow> proposal \<Rightarrow> proposal option" where
  "keep_safest None c = Some c"
| "keep_safest (Some w) c = Some (if RiskRank (prp_Kind c) < RiskRank (prp_Kind w) then c else w)"

lemma Safer_switch:
  "Safer k l = l \<and> l \<noteq> k \<longleftrightarrow> RiskRank l < RiskRank k"
  by (auto simp: Safer_def)

lemma eval_step_winner:
  "evs_Winner (eval_step t st c) =
     (if prp_Tier c \<noteq> t then evs_Winner st else keep_safest (evs_Winner st) c)"
  by (cases "evs_Winner st") (auto simp: eval_step_def Let_def Safer_switch)

lemma foldl_eval_winner:
  "evs_Winner (foldl (eval_step t) st cs) =
     foldl keep_safest (evs_Winner st) (filter (\<lambda>c. prp_Tier c = t) cs)"
  by (induction cs arbitrary: st) (simp_all add: eval_step_winner)

definition safest_of :: "proposal set \<Rightarrow> proposal option \<Rightarrow> bool" where
  "safest_of S m \<longleftrightarrow> (case m of
     None \<Rightarrow> S = {}
   | Some w \<Rightarrow> w \<in> S \<and> (\<forall>x \<in> S. RiskRank (prp_Kind w) \<le> RiskRank (prp_Kind x)))"

lemma keep_safest_of: "safest_of S m \<Longrightarrow> safest_of (insert c S) (keep_safest m c)"
  by (cases m) (auto simp: safest_of_def intro: order.trans less_imp_le)

lemma foldl_keep_safest: "safest_of S m \<Longrightarrow> safest_of (S \<union> set cs) (foldl keep_safest m cs)"
proof (induction cs arbitrary: S m)
  case (Cons c cs)
  from Cons.IH [OF keep_safest_of [OF Cons.prems]] show ?case by simp
qed simp

definition eval_start :: "classification \<Rightarrow> eval_state" where
  "eval_start c = \<lparr>evs_Winner = None, evs_Rules = [cn_Rule c], evs_Reasons = [cn_Reason c],
     evs_Rejected = [], evs_Conflicts = []\<rparr>"

lemma winner_safest:
  "safest_of {p \<in> set cs. prp_Tier p = t} (evs_Winner (foldl (eval_step t) (eval_start c) cs))"
proof -
  have "set (filter (\<lambda>p. prp_Tier p = t) cs) = {p \<in> set cs. prp_Tier p = t}" by auto
  then show ?thesis
    using foldl_keep_safest [of "{}" None "filter (\<lambda>p. prp_Tier p = t) cs"]
    by (simp add: foldl_eval_winner eval_start_def safest_of_def)
qed

text \<open>Rules and reasons stay index-aligned, and every proposal is credited, rejected or the winner.\<close>

lemma eval_step_aligned:
  "length (evs_Rules st) = length (evs_Reasons st) \<Longrightarrow>
     length (evs_Rules (eval_step t st c)) = length (evs_Reasons (eval_step t st c))"
  by (auto simp: eval_step_def Let_def split: option.split)

lemma foldl_eval_aligned:
  "length (evs_Rules st) = length (evs_Reasons st) \<Longrightarrow>
     length (evs_Rules (foldl (eval_step t) st cs)) = length (evs_Reasons (foldl (eval_step t) st cs))"
  by (induction cs arbitrary: st) (simp_all add: eval_step_aligned)

definition mentions :: "eval_state \<Rightarrow> string set" where
  "mentions st = set (evs_Rules st) \<union> rej_Rule ` set (evs_Rejected st) \<union> rej_Rule ` set (evs_Conflicts st)
     \<union> prp_Rule ` set_option (evs_Winner st)"

lemma eval_step_mentions: "mentions (eval_step t st c) = insert (prp_Rule c) (mentions st)"
  by (cases "evs_Winner st") (auto simp: eval_step_def mentions_def Let_def rejects_def)

lemma foldl_eval_mentions: "mentions (foldl (eval_step t) st cs) = mentions st \<union> prp_Rule ` set cs"
  by (induction cs arbitrary: st) (auto simp: eval_step_mentions)

section \<open>The decision\<close>

lemma gathered_ne [simp]: "gathered e c pol v \<noteq> []"
  by (simp add: gathered_def)

lemma set_proposals [simp]: "set (proposals e c pol v) = set (gathered e c pol v)"
  by (simp add: proposals_def)

lemma proposals_Cons:
  obtains q qs where "proposals e c pol v = q # qs" "q \<in> set (gathered e c pol v)"
    "\<forall>p \<in> set (gathered e c pol v). tier_rank (prp_Tier q) \<le> tier_rank (prp_Tier p)"
proof -
  obtain q qs where q: "proposals e c pol v = q # qs"
    by (cases "proposals e c pol v") (use set_proposals [of e c pol v] in auto)
  have m: "q \<in> set (gathered e c pol v)"
    using set_proposals [of e c pol v] q by (metis list.set_intros(1))
  have "sorted (map proposal_key (q # qs))" unfolding q [symmetric] by (simp add: proposals_def)
  then have "\<forall>p \<in> set qs. tier_rank (prp_Tier q) \<le> tier_rank (prp_Tier p)"
    by (auto simp: proposal_key_def less_eq_prod_def)
  moreover have "set (gathered e c pol v) = insert q (set qs)"
    using set_proposals [of e c pol v] q by simp
  ultimately show thesis using that [OF q m] by auto
qed

lemma tier_rank_inject: "tier_rank s = tier_rank t \<longleftrightarrow> s = t"
  by (cases s; cases t) simp_all

definition lowest_tier :: "entry \<Rightarrow> classification \<Rightarrow> 'z policy_scheme \<Rightarrow> verdict \<Rightarrow> tier \<Rightarrow> bool" where
  "lowest_tier e c pol v t \<longleftrightarrow> (\<exists>q \<in> set (gathered e c pol v). prp_Tier q = t)
     \<and> (\<forall>p \<in> set (gathered e c pol v). tier_rank t \<le> tier_rank (prp_Tier p))"

lemma lowest_tier_unique: "lowest_tier e c pol v s \<Longrightarrow> lowest_tier e c pol v t \<Longrightarrow> s = t"
proof -
  assume "lowest_tier e c pol v s" "lowest_tier e c pol v t"
  then have "tier_rank s \<le> tier_rank t" "tier_rank t \<le> tier_rank s"
    by (auto simp: lowest_tier_def)
  then show "s = t" using tier_rank_inject by (metis order.antisym)
qed

text \<open>The decision is the winner of the lowest tier, with the three adjustments applied.\<close>

lemma Evaluate_winner:
  obtains w st t where
    "Evaluate_rules e pol v = settle_retention pol (obey_refusal v (need_destination w
       (take_winner (Classify e pol) st w)))"
    "w \<in> set (gathered e (Classify e pol) pol v)" "prp_Tier w = t"
    "lowest_tier e (Classify e pol) pol v t"
    "\<forall>x \<in> set (gathered e (Classify e pol) pol v).
       prp_Tier x = t \<longrightarrow> RiskRank (prp_Kind w) \<le> RiskRank (prp_Kind x)"
    "st = foldl (eval_step t) (eval_start (Classify e pol)) (proposals e (Classify e pol) pol v)"
    "evs_Winner st = Some w"
proof -
  let ?c = "Classify e pol"
  obtain q qs where q: "proposals e ?c pol v = q # qs" "q \<in> set (gathered e ?c pol v)"
    "\<forall>p \<in> set (gathered e ?c pol v). tier_rank (prp_Tier q) \<le> tier_rank (prp_Tier p)"
    by (rule proposals_Cons)
  let ?t = "prp_Tier q"
  let ?st = "foldl (eval_step ?t) (eval_start ?c) (proposals e ?c pol v)"
  have s: "safest_of {p \<in> set (proposals e ?c pol v). prp_Tier p = ?t} (evs_Winner ?st)"
    by (rule winner_safest)
  have "q \<in> {p \<in> set (proposals e ?c pol v). prp_Tier p = ?t}" using q by simp
  with s obtain w where w: "evs_Winner ?st = Some w"
    by (auto simp: safest_of_def split: option.splits)
  with s have "w \<in> set (gathered e ?c pol v)" "prp_Tier w = ?t"
    "\<forall>x \<in> set (gathered e ?c pol v). prp_Tier x = ?t \<longrightarrow> RiskRank (prp_Kind w) \<le> RiskRank (prp_Kind x)"
    by (auto simp: safest_of_def)
  moreover have "Evaluate_rules e pol v = settle_retention pol (obey_refusal v (need_destination w
       (take_winner ?c ?st w)))"
    using q(1) w by (simp add: Evaluate_rules_def decide_among_def Let_def eval_start_def)
  moreover have "lowest_tier e ?c pol v ?t" using q by (auto simp: lowest_tier_def)
  ultimately show thesis using that w by blast
qed

definition final_kind :: "verdict \<Rightarrow> proposal \<Rightarrow> action_kind" where
  "final_kind v w =
     (let k = (if prp_Kind w = ActionRelocate \<and> prp_Destination w = '''' then ActionInvestigate
               else prp_Kind w)
      in if Mutating k \<and> Refused v then ActionKeep else k)"

lemma settle_simps [simp]:
  "dec_Kind (settle_retention pol d) = dec_Kind d" "dec_Class (settle_retention pol d) = dec_Class d"
  "dec_Rules (settle_retention pol d) = dec_Rules d" "dec_Reasons (settle_retention pol d) = dec_Reasons d"
  "dec_Rejected (settle_retention pol d) = dec_Rejected d"
  "dec_Ambiguous (settle_retention pol d) = dec_Ambiguous d"
  "dec_Conflicts (settle_retention pol d) = dec_Conflicts d"
  by (simp_all add: settle_retention_def Let_def)

lemma obey_simps [simp]:
  "dec_Class (obey_refusal v d) = dec_Class d" "dec_Rules (obey_refusal v d) = dec_Rules d"
  "dec_Reasons (obey_refusal v d) = dec_Reasons d" "dec_Ambiguous (obey_refusal v d) = dec_Ambiguous d"
  "dec_Kind (obey_refusal v d) = (if Mutating (dec_Kind d) \<and> Refused v then ActionKeep else dec_Kind d)"
  "set (dec_Rejected d) \<subseteq> set (dec_Rejected (obey_refusal v d))"
  by (auto simp: obey_refusal_def)

lemma need_simps [simp]:
  "dec_Class (need_destination w d) = dec_Class d" "dec_Rules (need_destination w d) = dec_Rules d"
  "dec_Reasons (need_destination w d) = dec_Reasons d"
  "dec_Ambiguous (need_destination w d) = dec_Ambiguous d"
  "dec_Destination (need_destination w d) = dec_Destination d"
  "dec_Kind (need_destination w d) =
     (if dec_Kind d = ActionRelocate \<and> dec_Destination d = '''' then ActionInvestigate else dec_Kind d)"
  "set (dec_Rejected d) \<subseteq> set (dec_Rejected (need_destination w d))"
  by (auto simp: need_destination_def)

lemma take_simps [simp]:
  "dec_Kind (take_winner c st w) = prp_Kind w" "dec_Destination (take_winner c st w) = prp_Destination w"
  "dec_Class (take_winner c st w) = cn_Class c" "dec_Rules (take_winner c st w) = evs_Rules st @ [prp_Rule w]"
  "dec_Reasons (take_winner c st w) = evs_Reasons st @ [prp_Reason w]"
  "dec_Rejected (take_winner c st w) = evs_Rejected st @ evs_Conflicts st"
  "dec_Ambiguous (take_winner c st w) = (cn_Class c = ClassUnknown)"
  by (simp_all add: take_winner_def)

lemma Evaluate_Kind:
  obtains w where "dec_Kind (Evaluate_rules e pol v) = final_kind v w"
    "w \<in> set (gathered e (Classify e pol) pol v)"
    "lowest_tier e (Classify e pol) pol v (prp_Tier w)"
    "\<forall>x \<in> set (gathered e (Classify e pol) pol v).
       prp_Tier x = prp_Tier w \<longrightarrow> RiskRank (prp_Kind w) \<le> RiskRank (prp_Kind x)"
proof -
  obtain w st t where *: "Evaluate_rules e pol v = settle_retention pol (obey_refusal v (need_destination w
       (take_winner (Classify e pol) st w)))"
    "w \<in> set (gathered e (Classify e pol) pol v)" "prp_Tier w = t"
    "lowest_tier e (Classify e pol) pol v t"
    "\<forall>x \<in> set (gathered e (Classify e pol) pol v).
       prp_Tier x = t \<longrightarrow> RiskRank (prp_Kind w) \<le> RiskRank (prp_Kind x)"
    by (rule Evaluate_winner)
  have "dec_Kind (Evaluate_rules e pol v) = final_kind v w"
    unfolding *(1) final_kind_def Let_def by simp
  then show thesis using that *(2-5) by blast
qed

lemma final_kind_risk: "RiskRank (final_kind v w) \<le> RiskRank (prp_Kind w)"
  by (simp add: final_kind_def Let_def)

section \<open>What the tiers contain\<close>

lemma proposes_simps [simp]:
  "prp_Rule (proposes r t k ret n why) = r" "prp_Tier (proposes r t k ret n why) = t"
  "prp_Kind (proposes r t k ret n why) = k" "prp_Retention (proposes r t k ret n why) = ret"
  "prp_Destination (proposes r t k ret n why) = ''''" "prp_Specificity (proposes r t k ret n why) = n"
  "prp_Reason (proposes r t k ret n why) = why"
  by (simp_all add: proposes_def)

lemma builtin_tier: "prp_Tier (builtinProposal e c pol) \<in> {TierBuiltin, TierFallback}"
  by (auto simp: builtinProposal_def Let_def split: artifact_class.split prod.split)

lemma builtin_kind: "prp_Kind (builtinProposal e c pol) \<in> {ActionKeep, ActionInvestigate, ActionQuarantine}"
  by (auto simp: builtinProposal_def worktreeProposal_def Let_def
      split: artifact_class.split option.split)

lemma canonical_tier: "p \<in> set (canonical_proposals e c pol) \<Longrightarrow> prp_Tier p = TierProtected"
  by (auto simp: canonical_proposals_def Let_def split: option.split_asm if_split_asm)

lemma protected_tier:
  "p \<in> set (protected_proposals e pol) \<Longrightarrow> prp_Tier p = TierProtected \<and> prp_Kind p = ActionKeep"
  by (auto simp: protected_proposals_def Let_def split: if_split_asm)

lemma explicit_tier:
  "p \<in> set (cache_proposals e pol @ export_proposals e pol @ archive_proposals e pol @ owner_proposals e pol)
     \<Longrightarrow> prp_Tier p = TierExplicit \<and> prp_Destination p = ''''"
  by (auto simp: cache_proposals_def export_proposals_def archive_proposals_def owner_proposals_def Let_def
      split: prod.split if_split_asm)

lemma safety_tier:
  "p \<in> set (safety_proposals e v) \<Longrightarrow> prp_Tier p = TierSafety \<and> prp_Kind p = ActionKeep"
  by (simp add: safety_proposals_def split: if_split_asm)

lemma tier_safety_only:
  "p \<in> set (gathered e c pol v) \<Longrightarrow> prp_Tier p = TierSafety \<Longrightarrow> p \<in> set (safety_proposals e v)"
  using builtin_tier [of e c pol] canonical_tier [of p e c pol] protected_tier [of p e pol]
    explicit_tier [of p e pol]
  by (auto simp: gathered_def)

lemma refused_lowest:
  "Refused v \<Longrightarrow> lowest_tier e c pol v TierSafety"
  by (auto simp: lowest_tier_def gathered_def safety_proposals_def)

lemma Evaluate_refused_Kind:
  assumes "Refused v"
  shows "dec_Kind (Evaluate_rules e pol v) = ActionKeep"
proof -
  obtain w where w: "dec_Kind (Evaluate_rules e pol v) = final_kind v w"
    "w \<in> set (gathered e (Classify e pol) pol v)" "lowest_tier e (Classify e pol) pol v (prp_Tier w)"
    by (rule Evaluate_Kind)
  have "prp_Tier w = TierSafety"
    using lowest_tier_unique [OF w(3) refused_lowest [OF assms]] .
  then have "prp_Kind w = ActionKeep" using tier_safety_only [OF w(2)] safety_tier by blast
  then show ?thesis using w(1) by (simp add: final_kind_def)
qed

lemma Evaluate_not_mutating:
  "\<not> Mutating (dec_Kind (Evaluate_rules e pol v)) \<Longrightarrow>
     dec_Retention (Evaluate_rules e pol v) = RetentionNone \<and> dec_Destination (Evaluate_rules e pol v) = ''''"
proof -
  obtain w st where eq: "Evaluate_rules e pol v = settle_retention pol (obey_refusal v (need_destination w
       (take_winner (Classify e pol) st w)))"
    by (rule Evaluate_winner)
  have *: "\<not> Mutating (dec_Kind d) \<Longrightarrow>
      dec_Retention (settle_retention pol d) = RetentionNone \<and> dec_Destination (settle_retention pol d) = ''''" for d
    by (cases "dec_Kind d") (auto simp: settle_retention_def Let_def)
  assume "\<not> Mutating (dec_Kind (Evaluate_rules e pol v))"
  then show ?thesis unfolding eq using * by simp
qed

lemma Evaluate_safest:
  assumes "p \<in> set (gathered e (Classify e pol) pol v)"
    and "\<forall>q \<in> set (gathered e (Classify e pol) pol v). tier_rank (prp_Tier p) \<le> tier_rank (prp_Tier q)"
  shows "RiskRank (dec_Kind (Evaluate_rules e pol v)) \<le> RiskRank (prp_Kind p)"
proof -
  obtain w where w: "dec_Kind (Evaluate_rules e pol v) = final_kind v w"
    "lowest_tier e (Classify e pol) pol v (prp_Tier w)"
    "\<forall>x \<in> set (gathered e (Classify e pol) pol v).
       prp_Tier x = prp_Tier w \<longrightarrow> RiskRank (prp_Kind w) \<le> RiskRank (prp_Kind x)"
    by (rule Evaluate_Kind)
  have "lowest_tier e (Classify e pol) pol v (prp_Tier p)"
    using assms by (auto simp: lowest_tier_def)
  then have "prp_Tier p = prp_Tier w" using lowest_tier_unique w(2) by blast
  then have "RiskRank (prp_Kind w) \<le> RiskRank (prp_Kind p)" using w(3) assms(1) by simp
  then show ?thesis using final_kind_risk [of v w] w(1) by simp
qed

lemma RiskRank_0: "RiskRank k = 0 \<longleftrightarrow> k = ActionKeep"
  by (cases k) simp_all

text \<open>A protected location is kept, whatever the other rules ask for.\<close>

lemma Evaluate_protected:
  assumes "p \<in> set (protected_proposals e pol)"
  shows "dec_Kind (Evaluate_rules e pol v) = ActionKeep"
proof (cases "Refused v")
  case True
  then show ?thesis by (rule Evaluate_refused_Kind)
next
  case False
  have k: "prp_Tier p = TierProtected" "prp_Kind p = ActionKeep" using protected_tier [OF assms] by auto
  have g: "p \<in> set (gathered e (Classify e pol) pol v)" using assms by (simp add: gathered_def)
  have "tier_rank (prp_Tier p) \<le> tier_rank (prp_Tier q)" if "q \<in> set (gathered e (Classify e pol) pol v)" for q
  proof -
    have "prp_Tier q \<noteq> TierSafety"
      using tier_safety_only [OF that] False by (auto simp: safety_proposals_def)
    then show ?thesis using k by (cases "prp_Tier q") simp_all
  qed
  from Evaluate_safest [OF g] this k have "RiskRank (dec_Kind (Evaluate_rules e pol v)) \<le> 0" by simp
  then show ?thesis using RiskRank_0 by simp
qed

section \<open>Where a mutation can come from\<close>

lemma boundedCacheAction_kind:
  "fst (boundedCacheAction e rule) \<in> {cr_Action rule, ActionInvestigate, ActionKeep}"
  by (simp add: boundedCacheAction_def Let_def)

lemma cache_proposal_kind:
  assumes "p \<in> set (cache_proposals e pol)"
  shows "\<exists>rule \<in> set (pol_Caches pol). PathWithin (ent_Path e) (cr_Path rule)
    \<and> prp_Kind p \<in> {cr_Action rule, ActionInvestigate, ActionKeep}"
proof -
  obtain rule where rule: "rule \<in> set (pol_Caches pol)" "PathWithin (ent_Path e) (cr_Path rule)"
    and p: "prp_Kind p = fst (boundedCacheAction e rule)"
    using assms by (auto simp: cache_proposals_def case_prod_beta)
  then show ?thesis using boundedCacheAction_kind [of e rule] by auto
qed

lemma other_kinds:
  "p \<in> set (export_proposals e pol) \<Longrightarrow> prp_Kind p \<in> {ActionKeep, ActionQuarantine}"
  "p \<in> set (archive_proposals e pol) \<Longrightarrow> prp_Kind p \<in> {ActionKeep, ActionQuarantine}"
  "p \<in> set (owner_proposals e pol) \<Longrightarrow> prp_Kind p = ActionInvestigate"
  "p \<in> set (canonical_proposals e c pol) \<Longrightarrow> prp_Kind p \<in> {ActionKeep, ActionInvestigate, ActionRelocate}"
  by (auto simp: export_proposals_def archive_proposals_def owner_proposals_def canonical_proposals_def
      Let_def split: if_split_asm option.split_asm)

lemma gathered_cases:
  assumes "p \<in> set (gathered e c pol v)"
  obtains "p \<in> set (safety_proposals e v)" | "p \<in> set (protected_proposals e pol)"
    | "p \<in> set (canonical_proposals e c pol)" | "p \<in> set (cache_proposals e pol)"
    | "p \<in> set (export_proposals e pol)" | "p \<in> set (archive_proposals e pol)"
    | "p \<in> set (owner_proposals e pol)" | "p = builtinProposal e c pol"
  using assms unfolding gathered_def by fastforce

lemma delete_proposal:
  assumes "p \<in> set (gathered e c pol v)" "prp_Kind p = ActionDeleteCandidate"
  shows "\<exists>rule \<in> set (pol_Caches pol).
    PathWithin (ent_Path e) (cr_Path rule) \<and> cr_Action rule = ActionDeleteCandidate"
  using assms(1)
proof (cases rule: gathered_cases)
  case 4
  then show ?thesis using cache_proposal_kind assms(2) by fastforce
next
  case 8
  then show ?thesis using builtin_kind [of e c pol] assms(2) by simp
qed (use assms(2) safety_tier protected_tier other_kinds in fastforce)+

lemma final_kind_delete: "final_kind v w = ActionDeleteCandidate \<Longrightarrow> prp_Kind w = ActionDeleteCandidate"
  by (auto simp: final_kind_def Let_def split: if_split_asm)

lemma Evaluate_delete:
  assumes "dec_Kind (Evaluate_rules e pol v) = ActionDeleteCandidate"
  shows "\<exists>rule \<in> set (pol_Caches pol).
    PathWithin (ent_Path e) (cr_Path rule) \<and> cr_Action rule = ActionDeleteCandidate"
proof -
  obtain w where w: "dec_Kind (Evaluate_rules e pol v) = final_kind v w"
    "w \<in> set (gathered e (Classify e pol) pol v)"
    by (rule Evaluate_Kind)
  then show ?thesis using delete_proposal final_kind_delete assms by metis
qed

lemma relocate_proposal:
  assumes "p \<in> set (gathered e c pol v)" "prp_Kind p = ActionRelocate" "prp_Destination p \<noteq> ''''"
  shows "\<exists>canonical. canonicalRootFor pol (cn_Class c) = Some canonical \<and> cn_Class c = ClassPrimaryProject
    \<and> \<not> PathWithin (ent_Path e) canonical \<and> \<not> PathWithin canonical (ent_Path e)
    \<and> prp_Destination p = Join [canonical, Base (ent_Path e)] \<and> p \<in> set (canonical_proposals e c pol)"
  using assms(1)
proof (cases rule: gathered_cases)
  case 3
  show ?thesis
  proof (cases "canonicalRootFor pol (cn_Class c)")
    case None
    then show ?thesis using 3 by (simp add: canonical_proposals_def)
  next
    case (Some r)
    have "\<not> PathWithin (ent_Path e) r \<and> cn_Class c = ClassPrimaryProject \<and> \<not> PathWithin r (ent_Path e)
        \<and> prp_Destination p = Join [r, Base (ent_Path e)]"
      using 3 Some assms(2)
      by (cases "PathWithin (ent_Path e) r"; cases "cn_Class c = ClassPrimaryProject";
          cases "PathWithin r (ent_Path e)")
         (simp_all add: canonical_proposals_def Let_def)
    then show ?thesis using 3 Some by simp
  qed
next
  case 8
  then show ?thesis using builtin_kind [of e c pol] assms(2) by simp
qed (use assms(2,3) safety_tier protected_tier explicit_tier in fastforce)+

lemma Evaluate_relocate:
  assumes "dec_Kind (Evaluate_rules e pol v) = ActionRelocate"
  shows "\<exists>canonical. canonicalRootFor pol ClassPrimaryProject = Some canonical
    \<and> dec_Class (Evaluate_rules e pol v) = ClassPrimaryProject
    \<and> \<not> PathsOverlap (ent_Path e) canonical
    \<and> dec_Destination (Evaluate_rules e pol v) = Join [canonical, Base (ent_Path e)]"
proof -
  obtain w st where eq: "Evaluate_rules e pol v = settle_retention pol (obey_refusal v (need_destination w
       (take_winner (Classify e pol) st w)))"
    and w: "w \<in> set (gathered e (Classify e pol) pol v)"
    by (rule Evaluate_winner)
  have k: "prp_Kind w = ActionRelocate" "prp_Destination w \<noteq> ''''" "\<not> Refused v"
    using assms unfolding eq by (auto split: if_split_asm)
  then have d: "dec_Destination (Evaluate_rules e pol v) = prp_Destination w"
    unfolding eq by (simp add: settle_retention_def obey_refusal_def need_destination_def Let_def)
  have "dec_Class (Evaluate_rules e pol v) = cn_Class (Classify e pol)" unfolding eq by simp
  then show ?thesis
    using relocate_proposal [OF w k(1,2)] d by (auto simp: PathsOverlap_def)
qed

section \<open>The trace accounts for every rule\<close>

lemma Evaluate_aligned:
  "length (dec_Rules (Evaluate_rules e pol v)) = length (dec_Reasons (Evaluate_rules e pol v))"
proof -
  obtain w st t where eq: "Evaluate_rules e pol v = settle_retention pol (obey_refusal v (need_destination w
       (take_winner (Classify e pol) st w)))"
    and st: "st = foldl (eval_step t) (eval_start (Classify e pol)) (proposals e (Classify e pol) pol v)"
    by (rule Evaluate_winner)
  have "length (evs_Rules st) = length (evs_Reasons st)"
    unfolding st by (rule foldl_eval_aligned) (simp add: eval_start_def)
  then show ?thesis unfolding eq by simp
qed

lemma Evaluate_accounts:
  assumes "p \<in> set (gathered e (Classify e pol) pol v)"
  shows "prp_Rule p \<in> set (dec_Rules (Evaluate_rules e pol v))
    \<or> prp_Rule p \<in> rej_Rule ` set (dec_Rejected (Evaluate_rules e pol v))"
proof -
  obtain w st t where eq: "Evaluate_rules e pol v = settle_retention pol (obey_refusal v (need_destination w
       (take_winner (Classify e pol) st w)))"
    and st: "st = foldl (eval_step t) (eval_start (Classify e pol)) (proposals e (Classify e pol) pol v)"
    and w: "evs_Winner st = Some w"
    by (rule Evaluate_winner)
  let ?d0 = "take_winner (Classify e pol) st w"
  have "prp_Rule p \<in> mentions st"
    unfolding st foldl_eval_mentions using assms by simp
  then have m: "prp_Rule p \<in> set (dec_Rules ?d0) \<or> prp_Rule p \<in> rej_Rule ` set (dec_Rejected ?d0)"
    using w by (auto simp: mentions_def)
  have "set (dec_Rejected ?d0) \<subseteq> set (dec_Rejected (Evaluate_rules e pol v))"
    unfolding eq settle_simps by (rule order.trans [OF need_simps(7) obey_simps(6)])
  moreover have "dec_Rules (Evaluate_rules e pol v) = dec_Rules ?d0" unfolding eq by simp
  ultimately show ?thesis using m by (metis image_mono subset_iff)
qed

section \<open>The order of the policy file\<close>

text \<open>Two policies with the same rules, written in a different order or with repetitions.\<close>

definition same_rules :: "'z policy_scheme \<Rightarrow> 'z policy_scheme \<Rightarrow> bool" where
  "same_rules a b \<longleftrightarrow>
     set (pro_Paths (pol_Protect a)) = set (pro_Paths (pol_Protect b))
   \<and> set (pol_Caches a) = set (pol_Caches b)
   \<and> set (pol_EvidenceExports a) = set (pol_EvidenceExports b)
   \<and> set (pol_WorkspaceArchives a) = set (pol_WorkspaceArchives b)
   \<and> pol_Gitmoot a = pol_Gitmoot b \<and> pol_CanonicalRoots a = pol_CanonicalRoots b
   \<and> pol_Classification a = pol_Classification b \<and> pol_Ownership a = pol_Ownership b
   \<and> pol_Retention a = pol_Retention b"

lemma Classify_same: "pol_Classification a = pol_Classification b \<Longrightarrow> Classify e a = Classify e b"
  by (simp add: Classify_def)

lemma gathered_same:
  assumes "same_rules a b"
  shows "set (gathered e c a v) = set (gathered e c b v)"
proof -
  note s = assms [unfolded same_rules_def]
  have "set (protected_proposals e a) = set (protected_proposals e b)"
    using s by (simp add: protected_proposals_def Let_def)
  moreover have "canonical_proposals e c a = canonical_proposals e c b"
    using s by (simp add: canonical_proposals_def canonicalRootFor_def)
  moreover have "set (cache_proposals e a) = set (cache_proposals e b)"
    using s by (simp add: cache_proposals_def)
  moreover have "set (export_proposals e a) = set (export_proposals e b)"
    using s by (simp add: export_proposals_def)
  moreover have "set (archive_proposals e a) = set (archive_proposals e b)"
    using s by (simp add: archive_proposals_def)
  moreover have "owner_proposals e a = owner_proposals e b"
    using s by (simp add: owner_proposals_def foreignOwner_def)
  moreover have "builtinProposal e c a = builtinProposal e c b"
    using s by (simp add: builtinProposal_def)
  ultimately show ?thesis by (simp add: gathered_def)
qed

lemma canonical_at_most_one: "length (canonical_proposals e c pol) \<le> 1"
  by (cases "canonicalRootFor pol (cn_Class c)") (simp_all add: canonical_proposals_def Let_def)

lemma relocate_destination:
  assumes "p \<in> set (gathered e c pol v)" "q \<in> set (gathered e c pol v)" "prp_Tier p = prp_Tier q"
    "prp_Kind p = ActionRelocate" "prp_Kind q = ActionRelocate"
  shows "prp_Destination p = prp_Destination q"
proof (cases "prp_Destination p = '''' \<and> prp_Destination q = ''''")
  case False
  have one: "x = y" if "x \<in> set (canonical_proposals e c pol)" "y \<in> set (canonical_proposals e c pol)" for x y
    using canonical_at_most_one [of e c pol] that by (cases "canonical_proposals e c pol") auto
  have can: "x \<in> set (canonical_proposals e c pol)"
    if "x \<in> set (gathered e c pol v)" "prp_Tier x = TierProtected" "prp_Kind x = ActionRelocate" for x
    using that(1)
    by (cases rule: gathered_cases)
       (use that safety_tier protected_tier explicit_tier builtin_tier [of e c pol] in fastforce)+
  have "prp_Tier p = TierProtected"
    using False relocate_proposal [OF assms(1,4)] relocate_proposal [OF assms(2,5)] canonical_tier assms(3)
    by metis
  then show ?thesis using one can assms by metis
qed simp

lemma RiskRank_valid_inject:
  "RiskRank k = RiskRank l \<Longrightarrow> actionKind_Valid k \<Longrightarrow> k = l"
  by (cases k; cases l) (auto simp: actionKind_Valid_def validEnum_def actionKinds_def)

lemma gathered_valid:
  assumes "\<forall>rule \<in> set (pol_Caches pol). actionKind_Valid (cr_Action rule)"
    and "p \<in> set (gathered e c pol v)"
  shows "actionKind_Valid (prp_Kind p)"
proof -
  have v: "actionKind_Valid ActionKeep" "actionKind_Valid ActionInvestigate" "actionKind_Valid ActionQuarantine"
    "actionKind_Valid ActionRelocate"
    by (simp_all add: actionKind_Valid_def validEnum_def actionKinds_def)
  show ?thesis
    using assms(2)
  proof (cases rule: gathered_cases)
    case 4
    then show ?thesis using cache_proposal_kind assms(1) v by fastforce
  next
    case 8
    then show ?thesis using builtin_kind [of e c pol] v by auto
  qed (use v safety_tier protected_tier other_kinds in fastforce)+
qed

lemma Evaluate_order_free:
  assumes "same_rules a b" "\<forall>rule \<in> set (pol_Caches a). actionKind_Valid (cr_Action rule)"
  shows "dec_Kind (Evaluate_rules e a v) = dec_Kind (Evaluate_rules e b v)"
proof -
  have c: "Classify e b = Classify e a"
    using assms(1) by (intro Classify_same) (simp add: same_rules_def)
  let ?G = "set (gathered e (Classify e a) a v)"
  have G: "set (gathered e (Classify e b) b v) = ?G"
    unfolding c using gathered_same [OF assms(1)] by simp
  obtain w where w: "dec_Kind (Evaluate_rules e a v) = final_kind v w" "w \<in> ?G"
    "lowest_tier e (Classify e a) a v (prp_Tier w)"
    "\<forall>x \<in> ?G. prp_Tier x = prp_Tier w \<longrightarrow> RiskRank (prp_Kind w) \<le> RiskRank (prp_Kind x)"
    by (rule Evaluate_Kind)
  obtain u where u: "dec_Kind (Evaluate_rules e b v) = final_kind v u" "u \<in> ?G"
    "lowest_tier e (Classify e b) b v (prp_Tier u)"
    "\<forall>x \<in> ?G. prp_Tier x = prp_Tier u \<longrightarrow> RiskRank (prp_Kind u) \<le> RiskRank (prp_Kind x)"
    by (rule Evaluate_Kind [of e b v]) (simp only: G)
  have "lowest_tier e (Classify e a) a v (prp_Tier u)"
    using u(3) unfolding lowest_tier_def G .
  then have t: "prp_Tier u = prp_Tier w" using lowest_tier_unique w(3) by blast
  then have "RiskRank (prp_Kind u) = RiskRank (prp_Kind w)"
    using w(2,4) u(2,4) by (simp add: order.antisym)
  then have k: "prp_Kind u = prp_Kind w"
    using RiskRank_valid_inject gathered_valid [OF assms(2) u(2)] by blast
  have "prp_Kind w = ActionRelocate \<Longrightarrow> prp_Destination u = prp_Destination w"
    using relocate_destination [OF u(2) w(2) t] k by simp
  then have "final_kind v u = final_kind v w"
    using k by (cases "prp_Kind w = ActionRelocate") (simp_all add: final_kind_def)
  then show ?thesis using w(1) u(1) by simp
qed

end
