(* ===== verification/PlanBuildFacts.thy ===== *)
theory PlanBuildFacts
  imports PlanBuild PlanRulesFacts SafetyFacts
begin

text \<open>
  Plan building: advice only lowers risk, relocations never collide, a plan has one action per entry, and
  the digests bind what they are computed from.
\<close>

section \<open>Advice\<close>

lemma applyAdvice_cases:
  obtains (kept) "dec_Kind (fst (applyAdvice d t r v n)) = dec_Kind d"
      "dec_Retention (fst (applyAdvice d t r v n)) = dec_Retention d"
      "dec_Destination (fst (applyAdvice d t r v n)) = dec_Destination d"
  | (lowered) "dec_Kind (fst (applyAdvice d t r v n)) = rec_Action (ClampRecommendation v r)"
      "dec_Retention (fst (applyAdvice d t r v n)) = rec_Retention (ClampRecommendation v r)"
      "dec_Destination (fst (applyAdvice d t r v n)) = dec_Destination d"
      "RiskRank (rec_Action (ClampRecommendation v r)) < RiskRank (dec_Kind d)"
      "rec_Action r \<in> {ActionKeep, ActionQuarantine, ActionInvestigate}"
proof (cases "rec_Action r \<in> {ActionKeep, ActionQuarantine, ActionInvestigate}
    \<and> rec_Action (ClampRecommendation v r) \<noteq> dec_Kind d
    \<and> RiskRank (rec_Action (ClampRecommendation v r)) < RiskRank (dec_Kind d)")
  case True
  have "(rec_Action (ClampRecommendation v r) = dec_Kind d) = False"
    "(RiskRank (dec_Kind d) \<le> RiskRank (rec_Action (ClampRecommendation v r))) = False"
    using True by auto
  note eqs = this
  show thesis
    by (rule lowered) (use True in \<open>simp_all add: applyAdvice_def Let_def eqs del: insert_iff\<close>)
next
  case False
  then consider "rec_Action r \<notin> {ActionKeep, ActionQuarantine, ActionInvestigate}"
    | "rec_Action r \<in> {ActionKeep, ActionQuarantine, ActionInvestigate}"
      "rec_Action (ClampRecommendation v r) = dec_Kind d"
    | "rec_Action r \<in> {ActionKeep, ActionQuarantine, ActionInvestigate}"
      "(rec_Action (ClampRecommendation v r) = dec_Kind d) = False"
      "(RiskRank (dec_Kind d) \<le> RiskRank (rec_Action (ClampRecommendation v r))) = True"
    by (auto simp: not_less)
  then show thesis
    by cases (rule kept, simp_all add: applyAdvice_def Let_def del: insert_iff)+
qed

lemma applyAdvice_not_riskier: "RiskRank (dec_Kind (fst (applyAdvice d t r v n))) \<le> RiskRank (dec_Kind d)"
  by (cases rule: applyAdvice_cases [of d t r v n]) simp_all

lemma Clamp_kind:
  "rec_Action (ClampRecommendation v r) = rec_Action r \<or> rec_Action (ClampRecommendation v r) = ActionInvestigate"
  by (simp add: ClampRecommendation_def)

text \<open>What a recommendation that enters the plan satisfies.\<close>

lemma usable_advice_valid:
  assumes "usable_advice r0 = Some r"
  shows "float_le (Fin 0) (rec_Confidence r)" "float_le (rec_Confidence r) (Fin 1)"
    "Recommendation_Validate r ''advisor'' = []" "rec_Action r = rec_Action r0"
  using assms by (auto simp: usable_advice_def Let_def split: if_splits)

lemma gather_advice_valid:
  assumes "gather_advice adv amb p = Some r"
  shows "float_le (Fin 0) (rec_Confidence r)" "float_le (rec_Confidence r) (Fin 1)"
    "Recommendation_Validate r ''advisor'' = []"
proof -
  obtain r0 where "usable_advice r0 = Some r"
    using assms by (auto simp: gather_advice_def bind_eq_Some_conv split: option.splits if_splits)
  from usable_advice_valid [OF this] show "float_le (Fin 0) (rec_Confidence r)"
    "float_le (rec_Confidence r) (Fin 1)" "Recommendation_Validate r ''advisor'' = []" by simp_all
qed

section \<open>The action of an entry\<close>

lemma plan_entry_identity [simp]:
  "act_Path (fst (plan_entry pid now adv n e vd)) = ent_Path e"
  "act_ID (fst (plan_entry pid now adv n e vd)) = ActionID pid (ent_Path e)"
  "act_PlanID (fst (plan_entry pid now adv n e vd)) = pid"
  "act_Fingerprint (fst (plan_entry pid now adv n e vd)) = ent_Fingerprint e"
  "act_FilesystemID (fst (plan_entry pid now adv n e vd)) = ent_FilesystemID e"
  "act_Guards (fst (plan_entry pid now adv n e vd)) = ver_Guards (fst vd)"
  "act_CreatedAt (fst (plan_entry pid now adv n e vd)) = now"
  "act_Status (fst (plan_entry pid now adv n e vd)) = ActionStatusOther ''''"
  by (simp_all add: plan_entry_def plan_action_def Let_def case_prod_beta)

lemma plan_entry_decision:
  obtains (rules) "act_Kind (fst (plan_entry pid now adv n e (v, d))) = dec_Kind d"
      "act_Retention (fst (plan_entry pid now adv n e (v, d))) = dec_Retention d"
      "act_Destination (fst (plan_entry pid now adv n e (v, d))) = dec_Destination d"
  | (advised) r where "adv (ent_Path e) = Some r" "dec_Ambiguous d"
      "act_Kind (fst (plan_entry pid now adv n e (v, d))) = rec_Action (ClampRecommendation v r)"
      "act_Retention (fst (plan_entry pid now adv n e (v, d))) = rec_Retention (ClampRecommendation v r)"
      "act_Destination (fst (plan_entry pid now adv n e (v, d))) = dec_Destination d"
      "RiskRank (rec_Action (ClampRecommendation v r)) < RiskRank (dec_Kind d)"
      "rec_Action r \<in> {ActionKeep, ActionQuarantine, ActionInvestigate}"
proof (cases "adv (ent_Path e)")
  case None
  show thesis
    by (rule rules) (simp_all add: None plan_entry_def plan_action_def Let_def)
next
  case (Some r)
  show thesis
  proof (cases "dec_Ambiguous d")
    case False
    show thesis
      by (rule rules) (simp_all add: Some False plan_entry_def plan_action_def Let_def)
  next
    case True
    let ?d = "fst (applyAdvice d (start_trace e d) r v n)"
    have eq: "act_Kind (fst (plan_entry pid now adv n e (v, d))) = dec_Kind ?d"
      "act_Retention (fst (plan_entry pid now adv n e (v, d))) = dec_Retention ?d"
      "act_Destination (fst (plan_entry pid now adv n e (v, d))) = dec_Destination ?d"
      by (simp_all add: Some True plan_entry_def plan_action_def Let_def case_prod_beta)
    show thesis
    proof (cases rule: applyAdvice_cases [of d "start_trace e d" r v n])
      case kept
      then show ?thesis by (intro rules) (simp_all add: eq)
    next
      case lowered
      then show ?thesis by (intro advised [OF Some True]) (simp_all only: eq)
    qed
  qed
qed

lemma plan_entry_not_riskier:
  "RiskRank (act_Kind (fst (plan_entry pid now adv n e (v, d)))) \<le> RiskRank (dec_Kind d)"
  by (cases rule: plan_entry_decision [of pid now adv n e v d]) simp_all

lemma plan_entry_riskiest:
  "act_Kind (fst (plan_entry pid now adv n e (v, d))) \<in> {ActionRelocate, ActionDeleteCandidate} \<Longrightarrow>
     act_Kind (fst (plan_entry pid now adv n e (v, d))) = dec_Kind d
   \<and> act_Destination (fst (plan_entry pid now adv n e (v, d))) = dec_Destination d"
proof (cases rule: plan_entry_decision [of pid now adv n e v d])
  case (advised r)
  moreover assume "act_Kind (fst (plan_entry pid now adv n e (v, d))) \<in> {ActionRelocate, ActionDeleteCandidate}"
  ultimately show ?thesis using Clamp_kind [of v r] by auto
qed simp

section \<open>Destination collisions\<close>

lemma without_iff [simp]: "set (without vs x) = set vs - {x}"
  by (auto simp: without_def)

lemma downgrade_simps [simp]:
  "act_Kind (downgrade_collision dest tk others a) = ActionInvestigate"
  "act_Destination (downgrade_collision dest tk others a) = ''''"
  "act_Retention (downgrade_collision dest tk others a) = RetentionNone"
  "act_Confidence (downgrade_collision dest tk others a) = conflictConfidence"
  "act_Path (downgrade_collision dest tk others a) = act_Path a"
  "act_ID (downgrade_collision dest tk others a) = act_ID a"
  "act_PlanID (downgrade_collision dest tk others a) = act_PlanID a"
  "act_Status (downgrade_collision dest tk others a) = act_Status a"
  "act_Fingerprint (downgrade_collision dest tk others a) = act_Fingerprint a"
  "act_FilesystemID (downgrade_collision dest tk others a) = act_FilesystemID a"
  "act_Guards (downgrade_collision dest tk others a) = act_Guards a"
  "act_CreatedAt (downgrade_collision dest tk others a) = act_CreatedAt a"
  by (simp_all add: downgrade_collision_def Let_def)

text \<open>The reference: an action whose destination is contested is downgraded, every other one is kept.\<close>

definition contested :: "action list \<Rightarrow> string set \<Rightarrow> string \<Rightarrow> bool" where
  "contested original occupied dest \<longleftrightarrow>
     dest \<in> occupied \<or> 2 \<le> length (filter (\<lambda>a. wants a dest) original)"

definition settled :: "action list \<Rightarrow> string set \<Rightarrow> action \<Rightarrow> action" where
  "settled original occupied a =
    (let dest = act_Destination a
     in if act_Kind a = ActionRelocate \<and> dest \<noteq> '''' \<and> contested original occupied dest
        then downgrade_collision dest (dest \<in> occupied)
          (map act_Path (filter (\<lambda>b. wants b dest) original)) a
        else a)"

lemma foldl_fst:
  "fst (foldl (\<lambda>(x, y) i. (f x i, g x y i)) (x, y) is) = foldl f x is"
  by (induction "is" arbitrary: x y) simp_all

lemma foldl_update:
  "distinct is \<Longrightarrow> foldl (\<lambda>xs i. xs[i := h (xs ! i)]) xs is =
     map (\<lambda>i. if i \<in> set is then h (xs ! i) else xs ! i) [0..<length xs]"
proof (induction "is" arbitrary: xs)
  case Nil
  then show ?case by (simp add: map_nth)
next
  case (Cons i "is")
  then show ?case
    by (simp add: nth_list_update cong: map_cong) (auto intro!: map_cong, metis nth_list_update_neq)
qed

lemma filter_indexes:
  "map (\<lambda>i. f (xs ! i)) (filter (\<lambda>i. P (xs ! i)) [0..<length xs]) = map f (filter P xs)"
  (is "?l = ?r")
proof -
  have "?l = map f (map ((!) xs) (filter (P \<circ> (!) xs) [0..<length xs]))" by (simp add: comp_def)
  also have "\<dots> = map f (filter P (map ((!) xs) [0..<length xs]))" by (simp only: filter_map)
  finally show ?thesis by (simp only: map_nth)
qed

lemma length_indexes:
  "length (filter (\<lambda>i. P (xs ! i)) [0..<length xs]) = length (filter P xs)"
  using filter_indexes [of "\<lambda>x. x" xs P] by (metis length_map)

lemma resolve_one:
  assumes "length (fst st) = length original" "dest \<noteq> ''''"
    and "\<And>i. i < length original \<Longrightarrow> wants (original ! i) dest \<Longrightarrow> fst st ! i = original ! i"
  shows "fst (resolve_destination original occupied st dest) =
    map (\<lambda>i. if wants (original ! i) dest then settled original occupied (original ! i) else fst st ! i)
      [0..<length original]"
proof -
  let ?I = "filter (\<lambda>i. wants (original ! i) dest) [0..<length original]"
  let ?h = "downgrade_collision dest (dest \<in> occupied) (map (\<lambda>i. act_Path (original ! i)) ?I)"
  have I: "map (\<lambda>i. act_Path (original ! i)) ?I = map act_Path (filter (\<lambda>b. wants b dest) original)"
    by (rule filter_indexes)
  have len: "length ?I = length (filter (\<lambda>b. wants b dest) original)" by (rule length_indexes)
  have s: "settled original occupied a = (if contested original occupied dest then ?h a else a)"
    if "wants a dest" for a
    unfolding I using that by (auto simp: settled_def wants_def Let_def)
  show ?thesis
  proof (cases "contested original occupied dest")
    case False
    then have "resolve_destination original occupied st dest = st"
      by (simp add: resolve_destination_def contested_def len Let_def)
    moreover have "fst st = map ((!) (fst st)) [0..<length original]" by (simp add: map_nth assms(1) [symmetric])
    ultimately show ?thesis using s False assms(3) by (auto intro!: nth_equalityI simp: assms(1))
  next
    case True
    obtain as ts where st: "st = (as, ts)" by (cases st)
    have c: "(length ?I < 2 \<and> dest \<notin> occupied) = False"
      using True by (auto simp: contested_def len)
    have "fst (resolve_destination original occupied st dest) =
        foldl (\<lambda>as i. as[i := ?h (as ! i)]) as ?I"
      unfolding resolve_destination_def Let_def c if_False st by (rule foldl_fst)
    also have "\<dots> = map (\<lambda>i. if i \<in> set ?I then ?h (as ! i) else as ! i) [0..<length as]"
      by (rule foldl_update) simp
    finally show ?thesis
      using s True assms(1,3) by (auto simp: st intro!: map_cong)
  qed
qed

lemma resolve_all:
  assumes "distinct ds" "'''' \<notin> set ds" "length (fst st) = length original"
    and "\<And>i d. i < length original \<Longrightarrow> d \<in> set ds \<Longrightarrow> wants (original ! i) d \<Longrightarrow> fst st ! i = original ! i"
  shows "fst (foldl (resolve_destination original occupied) st ds) =
    map (\<lambda>i. if \<exists>d \<in> set ds. wants (original ! i) d then settled original occupied (original ! i)
      else fst st ! i) [0..<length original]"
  using assms
proof (induction ds arbitrary: st)
  case Nil
  have "map ((!) (fst st)) [0..<length original] = fst st" unfolding Nil(3) [symmetric] by (rule map_nth)
  then show ?case by simp
next
  case (Cons d ds)
  let ?st = "resolve_destination original occupied st d"
  have one: "fst ?st = map (\<lambda>i. if wants (original ! i) d then settled original occupied (original ! i)
      else fst st ! i) [0..<length original]"
    using Cons.prems by (intro resolve_one) auto
  have other: "wants a d' \<Longrightarrow> d' \<in> set ds \<Longrightarrow> \<not> wants a d" for a d'
    using Cons.prems(1) by (auto simp: wants_def)
  have "fst (foldl (resolve_destination original occupied) ?st ds) =
    map (\<lambda>i. if \<exists>d \<in> set ds. wants (original ! i) d then settled original occupied (original ! i)
      else fst ?st ! i) [0..<length original]"
    using Cons.prems other by (intro Cons.IH) (auto simp: one)
  then show ?case by (auto simp: one intro!: map_cong)
qed

lemma resolve_exact:
  "fst (resolveDestinationCollisions actions traces occupied) = map (settled actions occupied) actions"
proof -
  let ?ds = "destinations_of actions"
  have ds: "set ?ds = {act_Destination a |a. a \<in> set actions \<and> act_Kind a = ActionRelocate \<and> act_Destination a \<noteq> ''''}"
    by (auto simp: destinations_of_def)
  have "fst (resolveDestinationCollisions actions traces occupied) =
    map (\<lambda>i. if \<exists>d \<in> set ?ds. wants (actions ! i) d then settled actions occupied (actions ! i)
      else actions ! i) [0..<length actions]"
    unfolding resolveDestinationCollisions_def
    by (subst resolve_all) (auto simp: destinations_of_def)
  also have "\<dots> = map (\<lambda>i. settled actions occupied (actions ! i)) [0..<length actions]"
  proof (rule map_cong [OF refl])
    fix i assume "i \<in> set [0..<length actions]"
    then have "actions ! i \<in> set actions" by simp
    then show "(if \<exists>d \<in> set ?ds. wants (actions ! i) d then settled actions occupied (actions ! i)
      else actions ! i) = settled actions occupied (actions ! i)"
      unfolding ds by (auto simp: settled_def wants_def Let_def)
  qed
  also have "\<dots> = map (settled actions occupied) (map ((!) actions) [0..<length actions])" by simp
  finally show ?thesis by (simp only: map_nth)
qed

lemma settled_identity [simp]:
  "act_Path (settled as occ a) = act_Path a" "act_ID (settled as occ a) = act_ID a"
  "act_PlanID (settled as occ a) = act_PlanID a" "act_Status (settled as occ a) = act_Status a"
  "act_Fingerprint (settled as occ a) = act_Fingerprint a"
  "act_FilesystemID (settled as occ a) = act_FilesystemID a"
  "act_Guards (settled as occ a) = act_Guards a" "act_CreatedAt (settled as occ a) = act_CreatedAt a"
  by (simp_all add: settled_def Let_def)

lemma settled_cases:
  obtains (same) "settled as occ a = a"
      "act_Kind a \<noteq> ActionRelocate \<or> act_Destination a = '''' \<or> \<not> contested as occ (act_Destination a)"
  | (down) "act_Kind (settled as occ a) = ActionInvestigate" "act_Destination (settled as occ a) = ''''"
      "act_Retention (settled as occ a) = RetentionNone" "act_Kind a = ActionRelocate"
      "contested as occ (act_Destination a)"
proof (cases "act_Kind a = ActionRelocate \<and> act_Destination a \<noteq> '''' \<and> contested as occ (act_Destination a)")
  case True
  then show thesis by (intro down) (simp_all add: settled_def Let_def)
next
  case False
  then show thesis by (intro same) (auto simp: settled_def Let_def)
qed

text \<open>Whatever still relocates has a destination of its own.\<close>

lemma settled_destinations:
  "distinct (map act_Destination (filter (\<lambda>a. act_Kind a = ActionRelocate \<and> act_Destination a \<noteq> '''')
     (map (settled actions occupied) actions)))" (is ?d)
  "a \<in> set (map (settled actions occupied) actions) \<Longrightarrow> act_Kind a = ActionRelocate \<Longrightarrow>
     act_Destination a \<noteq> '''' \<Longrightarrow> act_Destination a \<notin> occupied" (is "PROP ?o")
proof -
  let ?R = "\<lambda>a. act_Kind a = ActionRelocate \<and> act_Destination a \<noteq> ''''"
  have eq: "?R (settled actions occupied a) \<longleftrightarrow> ?R a \<and> \<not> contested actions occupied (act_Destination a)" for a
    by (cases rule: settled_cases [of actions occupied a]) auto
  have same: "settled actions occupied a = a" if "?R (settled actions occupied a)" for a
    using that by (cases rule: settled_cases [of actions occupied a]) auto
  have "distinct (map act_Destination (filter ?R (map (settled actions occupied) as)))"
    if "\<And>d. length (filter (\<lambda>a. wants a d) as) \<le> length (filter (\<lambda>a. wants a d) actions)" for as
    using that
  proof (induction as)
    case (Cons a as)
    have le: "length (filter (\<lambda>a. wants a d) as) \<le> length (filter (\<lambda>a. wants a d) actions)" for d
      using Cons.prems [of d] by (simp split: if_splits)
    show ?case
    proof (cases "?R (settled actions occupied a)")
      case True
      have n: "filter (\<lambda>b. wants b (act_Destination a)) as = []"
      proof -
        have "length (filter (\<lambda>b. wants b (act_Destination a)) (a # as)) < 2"
          using Cons.prems [of "act_Destination a"] True eq [of a]
          by (auto simp: contested_def)
        then show ?thesis using True eq [of a] by (simp add: wants_def split: if_splits)
      qed
      have "act_Destination (settled actions occupied b) \<noteq> act_Destination a"
        if "b \<in> set as" "?R (settled actions occupied b)" for b
        using n that same [OF that(2)] by (auto simp: filter_empty_conv wants_def)
      then have "act_Destination a \<notin> act_Destination ` set (filter ?R (map (settled actions occupied) as))"
        by fastforce
      then show ?thesis using Cons.IH [OF le] True same [OF True] by simp
    next
      case False
      then show ?thesis using Cons.IH [OF le] by auto
    qed
  qed simp
  then show ?d by blast
  assume "a \<in> set (map (settled actions occupied) actions)" "act_Kind a = ActionRelocate" "act_Destination a \<noteq> ''''"
  then obtain b where b: "a = settled actions occupied b" "?R (settled actions occupied b)" by auto
  then show "act_Destination a \<notin> occupied"
    using eq [of b] same [OF b(2)] by (simp add: contested_def)
qed

section \<open>Digests\<close>

lemma sep_cut:
  fixes c :: char
  assumes "a @ c # s = b @ c # t" "c \<notin> set a" "c \<notin> set b"
  shows "a = b \<and> s = t"
proof -
  have "split_on c (a @ c # s) = split_on c (b @ c # t)" using assms(1) by simp
  then have "a = b" using assms(2,3) by (simp add: split_on_append_sep)
  then show ?thesis using assms(1) by simp
qed

lemma evidence_payload_inject:
  assumes "list_all (\<lambda>(p, f). CHR 0x00 \<notin> set p \<and> CHR 0x00 \<notin> set f) xs"
    and "list_all (\<lambda>(p, f). CHR 0x00 \<notin> set p \<and> CHR 0x00 \<notin> set f) ys"
    and "concat (map (\<lambda>(p, f). p @ nul @ f @ nul) xs) = concat (map (\<lambda>(p, f). p @ nul @ f @ nul) ys)"
  shows "xs = ys"
  using assms
proof (induction xs arbitrary: ys)
  case Nil
  then show ?case by (cases ys) auto
next
  case (Cons x xs)
  obtain p f where x: "x = (p, f)" by (cases x)
  obtain q g ys' where ys: "ys = (q, g) # ys'" using Cons.prems(3) by (cases ys) (auto simp: x)
  have "p = q \<and> f @ CHR 0x00 # concat (map (\<lambda>(p, f). p @ nul @ f @ nul) xs)
      = g @ CHR 0x00 # concat (map (\<lambda>(p, f). p @ nul @ f @ nul) ys')"
    using Cons.prems by (intro sep_cut) (auto simp: x ys)
  moreover from this have "f = g \<and> concat (map (\<lambda>(p, f). p @ nul @ f @ nul) xs)
      = concat (map (\<lambda>(p, f). p @ nul @ f @ nul) ys')"
    using Cons.prems by (intro sep_cut) (auto simp: x ys)
  ultimately show ?case using Cons.IH [of ys'] Cons.prems by (simp add: x ys)
qed

text \<open>What a scan says about its paths: every path, as often as it occurs, with the last fingerprint
  recorded for it.\<close>

definition evidence_table :: "entry list \<Rightarrow> (string \<times> string) list" where
  "evidence_table es = map (\<lambda>p. (p, fingerprint_of es p)) (sort (map ent_Path es))"

definition NUL_free_evidence :: "entry list \<Rightarrow> bool" where
  "NUL_free_evidence es \<longleftrightarrow> list_all (\<lambda>(p, f). CHR 0x00 \<notin> set p \<and> CHR 0x00 \<notin> set f) (evidence_table es)"

lemma evidence_payload_table:
  "evidence_payload es = concat (map (\<lambda>(p, f). p @ nul @ f @ nul) (evidence_table es))"
  by (simp add: evidence_payload_def evidence_table_def comp_def)

lemma EvidenceDigest_eqD:
  assumes "EvidenceDigest as = EvidenceDigest bs" "NUL_free_evidence as" "NUL_free_evidence bs"
  shows "evidence_table as = evidence_table bs \<or> sha_collision (evidence_payload as) (evidence_payload bs)"
proof -
  have "evidence_payload as = evidence_payload bs \<or> sha_collision (evidence_payload as) (evidence_payload bs)"
    using assms(1) by (intro sha256_hex_eqD) (simp add: EvidenceDigest_def)
  then show ?thesis
    using assms(2,3) evidence_payload_inject by (auto simp: evidence_payload_table NUL_free_evidence_def)
qed

lemma fingerprint_of_sort: "fingerprint_of (sort_key ent_Path es) p = fingerprint_of es p"
proof -
  have "find (\<lambda>e. ent_Path e = p) (rev xs) = (case filter (\<lambda>e. ent_Path e = p) xs of
      [] \<Rightarrow> None | y # ys \<Rightarrow> Some (last (y # ys)))" for xs
    by (induction xs rule: rev_induct) (auto split: list.splits)
  note find_eq = this
  show ?thesis unfolding fingerprint_of_def find_eq sort_key_stable ..
qed

lemma EvidenceDigest_sort: "EvidenceDigest (sort_key ent_Path es) = EvidenceDigest es"
proof -
  have "sort (map ent_Path (sort_key ent_Path es)) = sort (map ent_Path es)"
    by (rule properties_for_sort) simp_all
  then show ?thesis by (simp add: EvidenceDigest_def evidence_payload_def fingerprint_of_sort)
qed

section \<open>The plan of an inventory\<close>

definition effective_now :: "time \<Rightarrow> 'z plan_input \<Rightarrow> time" where
  "effective_now clock inp = (if pin_Now inp = time_zero then clock else pin_Now inp)"

definition draft_plan :: "'z plan_input \<Rightarrow> ('z policy_scheme \<Rightarrow> string option) \<Rightarrow> string \<Rightarrow> time \<Rightarrow> action list \<Rightarrow> plan"
where
  "draft_plan inp encode pid now actions = Plan_Normalize
     \<lparr>plan_ContractVersion = 0, plan_ID = pid, plan_ScanID = pin_ScanID inp, plan_Status = PlanDraft,
      plan_CreatedAt = now, plan_EvidenceDigest = EvidenceDigest (pin_Entries inp),
      plan_PolicyDigest = PolicyDigest encode (pin_Policy inp), plan_Advisor = AdvisorKey inp,
      plan_Actions = map (settled actions (ent_Path ` set (pin_Entries inp))) actions\<rparr>"

definition entry_actions :: "'z plan_input \<Rightarrow> (string \<Rightarrow> recommendation option) \<Rightarrow> string \<Rightarrow> string \<Rightarrow> time
    \<Rightarrow> action list" where
  "entry_actions inp advice name pid now =
     map (\<lambda>e. fst (plan_entry pid now advice name e (decide_entry now inp e)))
       (sort_key ent_Path (pin_Entries inp))"

lemma zip_map_self: "zip xs (map f xs) = map (\<lambda>x. (x, f x)) xs"
  by (induction xs) simp_all

lemma Build_eq:
  assumes "pin_ScanID inp \<noteq> ''''"
  obtains advice name pid traces where
    "\<And>p r. advice p = Some r \<Longrightarrow> float_le (Fin 0) (rec_Confidence r) \<and> float_le (rec_Confidence r) (Fin 1)
       \<and> Recommendation_Validate r ''advisor'' = []"
    "prefix ''plan-'' pid"
    "let p = draft_plan inp encode pid (effective_now clock inp)
         (entry_actions inp advice name pid (effective_now clock inp))
     in Build encode fg clock inp = (case Plan_Validate p of
          Some es \<Rightarrow> Inl (InvalidPlan es)
        | None \<Rightarrow> Inr \<lparr>res_Plan = p,
            res_Verdicts = map (\<lambda>e. fst (decide_entry (effective_now clock inp) inp e))
              (sort_key ent_Path (pin_Entries inp)), res_Traces = traces\<rparr>)"
proof -
  let ?now = "effective_now clock inp"
  let ?es = "sort_key ent_Path (pin_Entries inp)"
  let ?vds = "map (decide_entry ?now inp) ?es"
  let ?amb = "map fst (filter (\<lambda>(e, vd). dec_Ambiguous (snd vd)) (zip ?es ?vds))"
  let ?advice = "gather_advice (pin_Advisor inp) ?amb"
  let ?name = "case pin_Advisor inp of Some a \<Rightarrow> if ?amb \<noteq> [] then adv_Name a else '''' | None \<Rightarrow> ''''"
  let ?pid = "PlanID (pin_ScanID inp) (EvidenceDigest ?es) (PolicyDigest encode (pin_Policy inp)) (AdvisorKey inp)
      (adviceDigest fg (zip ?es (map snd ?vds)) ?advice)"
  let ?ats = "map (\<lambda>(e, vd). plan_entry ?pid ?now ?advice ?name e vd) (zip ?es ?vds)"
  let ?res = "resolveDestinationCollisions (map fst ?ats) (map snd ?ats) (ent_Path ` set ?es)"
  have acts: "map fst ?ats = entry_actions inp ?advice ?name ?pid ?now"
    by (simp add: entry_actions_def zip_map_self)
  have v: "map fst ?vds = map (\<lambda>e. fst (decide_entry ?now inp e)) ?es" by simp
  have res: "fst ?res = map (settled (map fst ?ats) (ent_Path ` set (pin_Entries inp))) (map fst ?ats)"
    unfolding resolve_exact set_sort ..
  have plan: "Plan_Normalize \<lparr>plan_ContractVersion = 0, plan_ID = ?pid, plan_ScanID = pin_ScanID inp,
      plan_Status = PlanDraft, plan_CreatedAt = ?now, plan_EvidenceDigest = EvidenceDigest ?es,
      plan_PolicyDigest = PolicyDigest encode (pin_Policy inp), plan_Advisor = AdvisorKey inp,
      plan_Actions = fst ?res\<rparr> = draft_plan inp encode ?pid ?now (entry_actions inp ?advice ?name ?pid ?now)"
    unfolding res unfolding draft_plan_def acts by (simp only: EvidenceDigest_sort)
  have "Build encode fg clock inp = (case Plan_Validate
        (draft_plan inp encode ?pid ?now (entry_actions inp ?advice ?name ?pid ?now)) of
      Some es \<Rightarrow> Inl (InvalidPlan es)
    | None \<Rightarrow> Inr \<lparr>res_Plan = draft_plan inp encode ?pid ?now (entry_actions inp ?advice ?name ?pid ?now),
        res_Verdicts = map fst ?vds, res_Traces = snd ?res\<rparr>)"
    unfolding plan [symmetric] Build_def Let_def effective_now_def [symmetric]
    by (simp only: prod.case_eq_if assms if_False)
  note built = this [unfolded v]
  have pid: "prefix ''plan-'' ?pid" by (simp add: PlanID_def)
  have valid: "float_le (Fin 0) (rec_Confidence r) \<and> float_le (rec_Confidence r) (Fin 1)
      \<and> Recommendation_Validate r ''advisor'' = []" if "?advice p = Some r" for p r
    using gather_advice_valid [OF that] by blast
  show thesis
    by (rule that [of ?advice ?pid ?name "snd ?res", OF valid pid]) (simp_all only: built Let_def)
qed

lemma Build_Inr:
  assumes "Build encode fg clock inp = Inr res"
  obtains advice name pid where
    "res_Plan res = draft_plan inp encode pid (effective_now clock inp)
       (entry_actions inp advice name pid (effective_now clock inp))"
    "Plan_Validate (res_Plan res) = None" "pin_ScanID inp \<noteq> ''''"
    "res_Verdicts res = map (\<lambda>e. fst (decide_entry (effective_now clock inp) inp e))
              (sort_key ent_Path (pin_Entries inp))"
proof -
  have s: "pin_ScanID inp \<noteq> ''''" using assms by (auto simp: Build_def)
  obtain advice name pid traces where b: "let p = draft_plan inp encode pid (effective_now clock inp)
         (entry_actions inp advice name pid (effective_now clock inp))
     in Build encode fg clock inp = (case Plan_Validate p of
          Some es \<Rightarrow> Inl (InvalidPlan es)
        | None \<Rightarrow> Inr \<lparr>res_Plan = p,
            res_Verdicts = map (\<lambda>e. fst (decide_entry (effective_now clock inp) inp e))
              (sort_key ent_Path (pin_Entries inp)), res_Traces = traces\<rparr>)"
    by (rule Build_eq [OF s, of encode clock fg])
  then show thesis
    using assms s by (intro that [of pid advice name]) (auto simp: Let_def split: option.splits)
qed

lemma draft_action:
  assumes "a \<in> set (plan_Actions (draft_plan inp encode pid now (entry_actions inp advice name pid now)))"
  obtains e where "e \<in> set (pin_Entries inp)"
    "a = Action_Normalize ((settled (entry_actions inp advice name pid now) (ent_Path ` set (pin_Entries inp))
       (fst (plan_entry pid now advice name e (decide_entry now inp e))))\<lparr>act_PlanID := pid\<rparr>)"
  using assms unfolding draft_plan_def Plan_Normalize_def entry_actions_def by auto

lemma Action_Normalize_simps [simp]:
  "act_Path (Action_Normalize a) = act_Path a" "act_ID (Action_Normalize a) = act_ID a"
  "act_Kind (Action_Normalize a) = act_Kind a" "act_Destination (Action_Normalize a) = act_Destination a"
  "act_PlanID (Action_Normalize a) = act_PlanID a" "act_Fingerprint (Action_Normalize a) = act_Fingerprint a"
  "act_FilesystemID (Action_Normalize a) = act_FilesystemID a" "act_Guards (Action_Normalize a) = act_Guards a"
  "act_CreatedAt (Action_Normalize a) = act_CreatedAt a" "act_Confidence (Action_Normalize a) = act_Confidence a"
  by (simp_all add: Action_Normalize_def)

lemma draft_paths:
  "map act_Path (plan_Actions (draft_plan inp encode pid now (entry_actions inp advice name pid now)))
     = sort (map ent_Path (pin_Entries inp))"
proof -
  let ?as = "plan_Actions (draft_plan inp encode pid now (entry_actions inp advice name pid now))"
  have "mset (map act_Path ?as) = mset (map ent_Path (pin_Entries inp))"
    by (simp add: draft_plan_def Plan_Normalize_def entry_actions_def comp_def multiset.map_comp)
  moreover have "sorted (map act_Path ?as)"
    using Plan_Normalize_sorted [unfolded sorted_map]
    unfolding draft_plan_def sorted_map by (rule sorted_wrt_mono_rel [rotated]) (auto simp: less_eq_prod_def)
  ultimately show ?thesis by (intro properties_for_sort [symmetric]) simp_all
qed

text \<open>A verdict of the engine either refuses every mutation or allows all of them.\<close>

lemma settled_not_riskier: "RiskRank (act_Kind (settled as occ a)) \<le> RiskRank (act_Kind a)"
  by (cases rule: settled_cases [of as occ a]) simp_all

lemma risk_obeys_verdict:
  assumes "RiskRank k \<le> RiskRank (dec_Kind (snd (decide_entry now inp e)))"
  shows "Allows (fst (decide_entry now inp e)) k"
proof (cases "Refused (fst (decide_entry now inp e))")
  case True
  then have "dec_Kind (snd (decide_entry now inp e)) = ActionKeep"
    by (simp add: decide_entry_def Let_def Evaluate_refused_Kind)
  then have "k = ActionKeep" using assms RiskRank_0 [of k] by simp
  then show ?thesis by (simp add: Allows_def)
qed (simp add: Allows_def)

lemma draft_justified:
  assumes "a \<in> set (plan_Actions (draft_plan inp encode pid now (entry_actions inp advice name pid now)))"
  obtains e where "e \<in> set (pin_Entries inp)" "act_Path a = ent_Path e" "act_Fingerprint a = ent_Fingerprint e"
    "act_FilesystemID a = ent_FilesystemID e" "act_ID a = ActionID pid (ent_Path e)"
    "Allows (fst (decide_entry now inp e)) (act_Kind a)"
    "RiskRank (act_Kind a) \<le> RiskRank (dec_Kind (snd (decide_entry now inp e)))"
    "act_Kind a \<in> {ActionRelocate, ActionDeleteCandidate} \<Longrightarrow>
       act_Kind a = dec_Kind (snd (decide_entry now inp e))
       \<and> act_Destination a = dec_Destination (snd (decide_entry now inp e))"
proof -
  let ?as = "entry_actions inp advice name pid now" and ?occ = "ent_Path ` set (pin_Entries inp)"
  obtain e where e: "e \<in> set (pin_Entries inp)"
    and a: "a = Action_Normalize ((settled ?as ?occ
       (fst (plan_entry pid now advice name e (decide_entry now inp e))))\<lparr>act_PlanID := pid\<rparr>)"
    using assms by (rule draft_action)
  let ?b = "fst (plan_entry pid now advice name e (decide_entry now inp e))"
  obtain v d where vd: "decide_entry now inp e = (v, d)" by (cases "decide_entry now inp e")
  have r: "RiskRank (act_Kind a) \<le> RiskRank (dec_Kind (snd (decide_entry now inp e)))"
    using settled_not_riskier [of ?as ?occ ?b] plan_entry_not_riskier [of pid now advice name e v d]
    by (simp add: a vd)
  have k: "act_Kind a = dec_Kind (snd (decide_entry now inp e))
       \<and> act_Destination a = dec_Destination (snd (decide_entry now inp e))"
    if "act_Kind a \<in> {ActionRelocate, ActionDeleteCandidate}"
  proof -
    have s: "settled ?as ?occ ?b = ?b"
      using that by (cases rule: settled_cases [of ?as ?occ ?b]) (auto simp: a)
    then show ?thesis
      using that plan_entry_riskiest [of pid now advice name e v d] by (simp add: a vd)
  qed
  show thesis by (rule that [OF e _ _ _ _ risk_obeys_verdict [OF r] r k]) (simp_all add: a)
qed

lemma draft_destinations:
  assumes as_def: "as = plan_Actions (draft_plan inp encode pid now (entry_actions inp advice name pid now))"
  shows "distinct (map act_Destination (filter (\<lambda>a. act_Kind a = ActionRelocate \<and> act_Destination a \<noteq> '''') as))"
    "a \<in> set as \<Longrightarrow> act_Kind a = ActionRelocate \<Longrightarrow> act_Destination a \<noteq> '''' \<Longrightarrow>
       act_Destination a \<notin> ent_Path ` set (pin_Entries inp)"
proof -
  let ?R = "\<lambda>a. act_Kind a = ActionRelocate \<and> act_Destination a \<noteq> ''''"
  let ?n = "\<lambda>a. Action_Normalize (a\<lparr>act_PlanID := pid\<rparr>)"
  let ?s = "map (settled (entry_actions inp advice name pid now) (ent_Path ` set (pin_Entries inp)))
    (entry_actions inp advice name pid now)"
  have m: "mset as = mset (map ?n ?s)"
    by (simp add: as_def draft_plan_def Plan_Normalize_def multiset.map_comp)
  have n: "map act_Destination (filter ?R (map ?n xs)) = map act_Destination (filter ?R xs)" for xs
    by (induction xs) simp_all
  have "mset (map act_Destination (filter ?R as)) = mset (map act_Destination (filter ?R (map ?n ?s)))"
    unfolding mset_map mset_filter m [unfolded mset_map] ..
  then have "mset (map act_Destination (filter ?R as)) = mset (map act_Destination (filter ?R ?s))"
    unfolding n .
  then show "distinct (map act_Destination (filter ?R as))"
    using iffD2 [OF mset_eq_imp_distinct_iff settled_destinations(1)] by blast
  assume a: "a \<in> set as" "act_Kind a = ActionRelocate" "act_Destination a \<noteq> ''''"
  then obtain b where b: "b \<in> set ?s" "a = ?n b"
    using mset_eq_setD [OF m] by auto
  then show "act_Destination a \<notin> ent_Path ` set (pin_Entries inp)"
    using settled_destinations(2) [OF b(1)] a by simp
qed

end
