(* ===== verification/PlanRulesProps.thy ===== *)
theory PlanRulesProps
  imports PlanRulesFacts
begin

text \<open>The properties of rule evaluation, with concrete policies on which they apply.\<close>

definition plain_rules :: classification_policy where
  "plain_rules =
     \<lparr>cls_ProjectMarkers = [], cls_WorktreeMarkers = [], cls_GeneratedNames = [], cls_CacheNames = [],
      cls_BackupNames = [], cls_OperationalNames = [], cls_EvidenceNames = []\<rparr>"

definition sample_cache :: "string \<Rightarrow> string \<Rightarrow> action_kind \<Rightarrow> cache_rule" where
  "sample_cache name path kind =
     \<lparr>cr_Name = name, cr_Path = path, cr_Action = kind, cr_Retention = Retention7Days, cr_MaxBytes = 0,
      cr_TTL = 0, cr_Dedicated = False, cr_OfficialBinary = '''',
      cr_Recovery = \<lparr>crec_Owner = '''', crec_Approval = '''', crec_RebuildCost = '''',
        crec_MaxPruneBytes = 0, crec_MinIdle = 0\<rparr>\<rparr>"

definition sample_config :: "string list \<Rightarrow> cache_rule list \<Rightarrow> policy" where
  "sample_config protected caches =
     \<lparr>pol_Version = 1, pol_Roots = [],
      pol_Protect = \<lparr>pro_Paths = protected, pro_NamePatterns = []\<rparr>,
      pol_Retention = \<lparr>rpol_Default = Retention30Days, rpol_QuarantineDir = ''/w/.q'',
        rpol_DeleteEnabled = False\<rparr>,
      pol_Caches = caches, pol_EvidenceExports = [], pol_WorkspaceArchives = [],
      pol_Gitmoot = \<lparr>gm_Home = '''', gm_Database = ''''\<rparr>,
      pol_Safety = \<lparr>sfs_MinFreeBytes = 0, sfs_AllowCrossFilesystemQuarantine = False\<rparr>,
      pol_CanonicalRoots = [], pol_Classification = plain_rules,
      pol_Ownership = \<lparr>opol_InvestigateForeignOwner = False, opol_ExpectedUID = 0\<rparr>\<rparr>"

definition sample_verdict :: "safety_decision \<Rightarrow> verdict" where
  "sample_verdict d =
     \<lparr>ver_ContractVersion = 1, ver_Path = ''/w/a'', ver_Decision = d, ver_Protections = [],
      ver_Guards = [''git_state''], ver_EvaluatedAt = 9\<rparr>"

lemma sample_config_simps [simp]:
  "pro_Paths (pol_Protect (sample_config ps cs)) = ps" "pol_Caches (sample_config ps cs) = cs"
  "pol_EvidenceExports (sample_config ps cs) = []" "pol_WorkspaceArchives (sample_config ps cs) = []"
  "pol_Gitmoot (sample_config ps cs) = \<lparr>gm_Home = '''', gm_Database = ''''\<rparr>"
  "pol_CanonicalRoots (sample_config ps cs) = []" "pol_Classification (sample_config ps cs) = plain_rules"
  "pol_Ownership (sample_config ps cs) = \<lparr>opol_InvestigateForeignOwner = False, opol_ExpectedUID = 0\<rparr>"
  by (simp_all add: sample_config_def)

text \<open>A refusal and a protected location are final: when the safety engine refuses, or the entry
  overlaps a protected path or Gitmoot's home, or carries Gitmoot lifecycle evidence, the rules decide
  to keep it, with no retention and no destination, whatever any other rule asks for.\<close>

theorem rules_protect:
  assumes "Refused v \<or> list_ex (PathsOverlap (ent_Path e)) (pro_Paths (pol_Protect pol))
    \<or> gm_Home (pol_Gitmoot pol) \<noteq> '''' \<and> PathsOverlap (ent_Path e) (gm_Home (pol_Gitmoot pol))
    \<or> gitmootSignal e \<noteq> ''''"
  shows "dec_Kind (Evaluate_rules e pol v) = ActionKeep
    \<and> dec_Retention (Evaluate_rules e pol v) = RetentionNone
    \<and> dec_Destination (Evaluate_rules e pol v) = ''''"
proof -
  have k: "dec_Kind (Evaluate_rules e pol v) = ActionKeep"
  proof (cases "Refused v")
    case True
    then show ?thesis by (rule Evaluate_refused_Kind)
  next
    case False
    with assms have "protected_proposals e pol \<noteq> []"
      by (auto simp: protected_proposals_def Let_def filter_empty_conv list_ex_iff)
    then obtain p where "p \<in> set (protected_proposals e pol)" by (cases "protected_proposals e pol") auto
    then show ?thesis by (rule Evaluate_protected)
  qed
  then show ?thesis using Evaluate_not_mutating [of e pol v] by simp
qed

theorem rules_protect_witness:
  "dec_Kind (Evaluate_rules sample_entry
     (sample_config [''/w/a/keep''] [sample_cache ''a'' ''/w'' ActionDeleteCandidate])
     (sample_verdict DecisionAllow)) = ActionKeep"
proof -
  have "PathsOverlap ''/w/a'' ''/w/a/keep''" by code_simp
  then have "list_ex (PathsOverlap (ent_Path sample_entry)) (pro_Paths (pol_Protect
      (sample_config [''/w/a/keep''] [sample_cache ''a'' ''/w'' ActionDeleteCandidate])))"
    by (simp add: sample_entry_def)
  with rules_protect show ?thesis by blast
qed

text \<open>C26: Conflicts resolve to the safer action: the decision is never riskier than any proposal in the
  lowest tier that made one.\<close>

theorem rules_safest_wins:
  assumes "p \<in> set (proposals e (Classify e pol) pol v)"
    and "list_all (\<lambda>q. tier_rank (prp_Tier p) \<le> tier_rank (prp_Tier q)) (proposals e (Classify e pol) pol v)"
  shows "RiskRank (dec_Kind (Evaluate_rules e pol v)) \<le> RiskRank (prp_Kind p)"
  using assms by (intro Evaluate_safest) (simp_all add: list_all_iff)

theorem rules_safest_wins_witness:
  "RiskRank (dec_Kind (Evaluate_rules sample_entry (sample_config [] []) (sample_verdict DecisionRefuse)))
   \<le> RiskRank ActionKeep"
proof -
  let ?pol = "sample_config [] []" and ?v = "sample_verdict DecisionRefuse"
  let ?p = "proposes ''safety.refused'' TierSafety ActionKeep RetentionNone (length (ent_Path sample_entry))
        (''the safety engine refuses any mutation: '' @ Verdict_Summary ?v)"
  have "?p \<in> set (proposals sample_entry (Classify sample_entry ?pol) ?pol ?v)"
    by (simp add: gathered_def safety_proposals_def Refused_def sample_verdict_def)
  from rules_safest_wins [OF this] show ?thesis by (simp add: list_all_iff)
qed

text \<open>The riskiest outcomes need an operator: a deletion is proposed only where a cache rule of the
  policy covers the path and asks for it, and a relocation only for a primary project with a canonical
  root that neither contains the path nor lies inside it, to a place in that root.\<close>

theorem rules_mutation_origin:
  "(dec_Kind (Evaluate_rules e pol v) = ActionDeleteCandidate \<longrightarrow>
     (\<exists>rule \<in> set (pol_Caches pol). PathWithin (ent_Path e) (cr_Path rule)
        \<and> cr_Action rule = ActionDeleteCandidate))
   \<and> (dec_Kind (Evaluate_rules e pol v) = ActionRelocate \<longrightarrow>
     (\<exists>canonical. canonicalRootFor pol ClassPrimaryProject = Some canonical
        \<and> dec_Class (Evaluate_rules e pol v) = ClassPrimaryProject
        \<and> \<not> PathsOverlap (ent_Path e) canonical
        \<and> dec_Destination (Evaluate_rules e pol v) = Join [canonical, Base (ent_Path e)]))"
  using Evaluate_delete Evaluate_relocate by blast

text \<open>The action does not depend on the order in which the policy file lists its rules, nor on
  repetitions.\<close>

theorem rules_order_free:
  assumes "same_rules a b" "list_all (\<lambda>rule. actionKind_Valid (cr_Action rule)) (pol_Caches a)"
  shows "dec_Kind (Evaluate_rules e a v) = dec_Kind (Evaluate_rules e b v)"
  using assms Evaluate_order_free by (simp add: list_all_iff)

theorem rules_order_free_witness:
  "dec_Kind (Evaluate_rules sample_entry (sample_config []
      [sample_cache ''a'' ''/w'' ActionQuarantine, sample_cache ''b'' ''/w/a'' ActionKeep])
      (sample_verdict DecisionAllow))
   = dec_Kind (Evaluate_rules sample_entry (sample_config []
      [sample_cache ''b'' ''/w/a'' ActionKeep, sample_cache ''a'' ''/w'' ActionQuarantine])
      (sample_verdict DecisionAllow))"
proof (rule rules_order_free)
  show "same_rules (sample_config [] [sample_cache ''a'' ''/w'' ActionQuarantine,
        sample_cache ''b'' ''/w/a'' ActionKeep])
      (sample_config [] [sample_cache ''b'' ''/w/a'' ActionKeep,
        sample_cache ''a'' ''/w'' ActionQuarantine])"
    by (auto simp: same_rules_def) (simp add: sample_config_def)
qed (simp add: sample_cache_def actionKind_Valid_def validEnum_def actionKinds_def)

section \<open>A concrete evaluation\<close>

lemma sample_adapter: "DescribeAdapter sample_entry = None"
  by code_simp

lemma sample_class:
  "Classify sample_entry (sample_config ps cs) =
     classified ClassUnknown ''classify.unknown'' ''no built-in classification matched''"
proof -
  have "ent_Git sample_entry = None" "ent_Evidence sample_entry = []" by (simp_all add: sample_entry_def)
  then show ?thesis
    by (simp add: Classify_def classify_plain_def sample_adapter Let_def plain_rules_def matchAny_def
        hasProjectMarker_def gitmootSignal_def)
qed

lemma sample_gathered:
  assumes "filter (PathsOverlap (ent_Path sample_entry)) ps = []"
  shows "gathered sample_entry (Classify sample_entry (sample_config ps cs)) (sample_config ps cs)
      (sample_verdict DecisionAllow) =
    cache_proposals sample_entry (sample_config ps cs)
    @ [proposes ''builtin.unknown'' TierFallback ActionInvestigate RetentionUnset
         (length (ent_Path sample_entry))
         ''nothing classified this path, so it is left for a human to look at'']"
proof -
  have "ent_Evidence sample_entry = []" by (simp add: sample_entry_def)
  then show ?thesis
    using assms
    by (simp add: gathered_def sample_class safety_proposals_def Refused_def sample_verdict_def
        protected_proposals_def canonical_proposals_def canonicalRootFor_def export_proposals_def
        archive_proposals_def owner_proposals_def builtinProposal_def Let_def gitmootSignal_def)
qed

lemma sample_cache_simps:
  "boundedCacheAction e (sample_cache n p k) = (k, ''no size or age bound is configured'')"
  "cr_Name (sample_cache n p k) = n" "cr_Path (sample_cache n p k) = p"
  "cr_Retention (sample_cache n p k) = Retention7Days"
  by (simp_all add: boundedCacheAction_def sample_cache_def)

lemma sample_within: "PathWithin ''/w/a'' ''/w''" "PathWithin ''/w/a'' ''/w/a''" "PathWithin ''/w/a'' ''/''"
  by code_simp+

definition explicit_cache :: "string \<Rightarrow> string \<Rightarrow> action_kind \<Rightarrow> proposal" where
  "explicit_cache n p k = proposes (''policy.cache:'' @ n) TierExplicit k Retention7Days (length p)
     (''cache rule '' @ quote n @ '' covers '' @ p @ ''; '' @ ''no size or age bound is configured'')"

lemma sample_caches:
  assumes "list_all (\<lambda>(n, p, k). PathWithin ''/w/a'' p) cs"
  shows "cache_proposals sample_entry (sample_config ps (map (\<lambda>(n, p, k). sample_cache n p k) cs)) =
    map (\<lambda>(n, p, k). explicit_cache n p k) cs"
proof -
  have e: "ent_Path sample_entry = ''/w/a''" by (simp add: sample_entry_def)
  let ?f = "\<lambda>(n, p, k). sample_cache n p k"
  have "filter (\<lambda>rule. PathWithin ''/w/a'' (cr_Path rule)) (map ?f cs) = map ?f cs"
    using assms by (intro filter_True) (auto simp: list_all_iff sample_cache_simps(3))
  then show ?thesis
    by (simp add: cache_proposals_def e case_prod_beta sample_cache_simps explicit_cache_def)
qed

theorem rules_mutation_origin_witness:
  "\<exists>rule \<in> set [sample_cache ''a'' ''/w'' ActionDeleteCandidate].
     PathWithin (ent_Path sample_entry) (cr_Path rule) \<and> cr_Action rule = ActionDeleteCandidate"
proof -
  let ?pol = "sample_config [] [sample_cache ''a'' ''/w'' ActionDeleteCandidate]"
  let ?v = "sample_verdict DecisionAllow"
  have c: "cache_proposals sample_entry ?pol = [explicit_cache ''a'' ''/w'' ActionDeleteCandidate]"
    using sample_caches [of "[(''a'', ''/w'', ActionDeleteCandidate)]" "[]"] sample_within by simp
  have "dec_Kind (Evaluate_rules sample_entry ?pol ?v) = ActionDeleteCandidate"
    unfolding Evaluate_rules_def Let_def proposals_def sample_gathered [OF filter.simps(1)] c
    by (simp add: explicit_cache_def proposal_key_def decide_among_def Let_def eval_step_def
        take_winner_def need_destination_def obey_refusal_def settle_retention_def Refused_def
        sample_verdict_def less_eq_prod_def)
  with rules_mutation_origin show ?thesis by fastforce
qed

text \<open>The trace is complete and pairs up: every decision has one reason per rule, and the rule of
  every proposal is either among the credited rules or among the rejected alternatives.\<close>

theorem rules_trace_complete:
  "length (dec_Rules (Evaluate_rules e pol v)) = length (dec_Reasons (Evaluate_rules e pol v))
   \<and> prp_Rule ` set (proposals e (Classify e pol) pol v) \<subseteq>
       set (dec_Rules (Evaluate_rules e pol v)) \<union> rej_Rule ` set (dec_Rejected (Evaluate_rules e pol v))"
proof -
  have "prp_Rule p \<in> set (dec_Rules (Evaluate_rules e pol v))
      \<union> rej_Rule ` set (dec_Rejected (Evaluate_rules e pol v))"
    if "p \<in> set (proposals e (Classify e pol) pol v)" for p
    using Evaluate_accounts [of p e pol v] that by simp
  then show ?thesis using Evaluate_aligned by blast
qed

lemma eval_step_cases:
  "prp_Tier c = t \<Longrightarrow> evs_Winner st = None \<Longrightarrow> eval_step t st c = st\<lparr>evs_Winner := Some c\<rparr>"
  "prp_Tier c = t \<Longrightarrow> evs_Winner st = Some w \<Longrightarrow> prp_Kind c = prp_Kind w \<Longrightarrow>
     eval_step t st c = st\<lparr>evs_Rules := evs_Rules st @ [prp_Rule c], evs_Reasons := evs_Reasons st @ [prp_Reason c]\<rparr>"
  "prp_Tier c = t \<Longrightarrow> evs_Winner st = Some w \<Longrightarrow> prp_Kind w = ActionDeleteCandidate \<Longrightarrow> prp_Kind c = ActionKeep \<Longrightarrow>
     eval_step t st c = st\<lparr>evs_Conflicts := evs_Conflicts st @ [rejects (prp_Kind w) (prp_Rule w)
        (''conflicting rule '' @ prp_Rule c @ '' asked for the safer '' @ actionKind_str (prp_Kind c)) True],
        evs_Winner := Some c\<rparr>"
  "prp_Tier c \<noteq> t \<Longrightarrow> eval_step t st c = st\<lparr>evs_Rejected := evs_Rejected st @ [rejects (prp_Kind c) (prp_Rule c)
        (tier_str t @ '' tier decided first: '' @ prp_Reason c) False]\<rparr>"
  by (simp_all add: eval_step_def Let_def Safer_def)

lemma rej_Rule_rejects [simp]: "rej_Rule (rejects k r why b) = r"
  by (simp add: rejects_def)

lemma two_agree_third_safer:
  assumes "prp_Tier p = TierExplicit" "prp_Tier q = TierExplicit" "prp_Tier r = TierExplicit"
    "prp_Tier s = TierFallback" "prp_Kind p = ActionDeleteCandidate" "prp_Kind q = ActionDeleteCandidate"
    "prp_Kind r = ActionKeep"
  shows "dec_Kind (decide_among c pol v [p, q, r, s]) = ActionKeep
    \<and> dec_Rules (decide_among c pol v [p, q, r, s]) = [cn_Rule c, prp_Rule q, prp_Rule r]
    \<and> map rej_Rule (dec_Rejected (decide_among c pol v [p, q, r, s])) = [prp_Rule s, prp_Rule p]"
proof -
  let ?st0 = "\<lparr>evs_Winner = None, evs_Rules = [cn_Rule c], evs_Reasons = [cn_Reason c],
           evs_Rejected = [], evs_Conflicts = []\<rparr>"
  obtain st where st: "st = foldl (eval_step TierExplicit) ?st0 [p, q, r, s]" by simp
  have "evs_Winner st = Some r \<and> evs_Rules st = [cn_Rule c, prp_Rule q]
      \<and> map rej_Rule (evs_Rejected st) = [prp_Rule s] \<and> map rej_Rule (evs_Conflicts st) = [prp_Rule p]"
    using assms by (simp add: st eval_step_cases)
  moreover have "decide_among c pol v [p, q, r, s] = settle_retention pol (obey_refusal v
      (need_destination (case evs_Winner st of Some w \<Rightarrow> w | None \<Rightarrow> p)
        (take_winner c st (case evs_Winner st of Some w \<Rightarrow> w | None \<Rightarrow> p))))"
    unfolding decide_among_def list.case Let_def st assms(1) ..
  ultimately show ?thesis
    using assms(7) by (simp add: need_destination_def obey_refusal_def)
qed

text \<open>The trace can credit a rule that asked for something more destructive: when two rules of a tier
  agree and a third, safer one then wins, the second is still listed among the rules of the decision
  and is neither a conflict nor a rejected alternative.\<close>

theorem rules_credit_overruled:
  "\<exists>(e :: entry) (pol :: policy) v p.
     p \<in> set (proposals e (Classify e pol) pol v) \<and> prp_Kind p = ActionDeleteCandidate
     \<and> dec_Kind (Evaluate_rules e pol v) = ActionKeep
     \<and> prp_Rule p \<in> set (dec_Rules (Evaluate_rules e pol v))
     \<and> prp_Rule p \<notin> rej_Rule ` set (dec_Rejected (Evaluate_rules e pol v))"
proof -
  let ?rules = "[(''x'', ''/w/a'', ActionDeleteCandidate), (''y'', ''/w'', ActionDeleteCandidate),
    (''z'', ''/'', ActionKeep)]"
  let ?pol = "sample_config [] (map (\<lambda>(n, p, k). sample_cache n p k) ?rules)"
  let ?v = "sample_verdict DecisionAllow"
  let ?p = "explicit_cache ''y'' ''/w'' ActionDeleteCandidate"
  have c: "cache_proposals sample_entry ?pol = map (\<lambda>(n, p, k). explicit_cache n p k) ?rules"
    by (rule sample_caches) (simp add: sample_within)
  let ?s = "proposes ''builtin.unknown'' TierFallback ActionInvestigate RetentionUnset
         (length (ent_Path sample_entry))
         ''nothing classified this path, so it is left for a human to look at''"
  have ps: "proposals sample_entry (Classify sample_entry ?pol) ?pol ?v =
      [explicit_cache ''x'' ''/w/a'' ActionDeleteCandidate, ?p, explicit_cache ''z'' ''/'' ActionKeep, ?s]"
    unfolding proposals_def sample_gathered [OF filter.simps(1)] c
    by (simp add: explicit_cache_def proposal_key_def less_eq_prod_def)
  have ev: "Evaluate_rules sample_entry ?pol ?v = decide_among (Classify sample_entry ?pol) ?pol ?v
      (proposals sample_entry (Classify sample_entry ?pol) ?pol ?v)"
    by (simp only: Evaluate_rules_def Let_def)
  let ?d = "Evaluate_rules sample_entry ?pol ?v"
  have k: "prp_Tier (explicit_cache n q k) = TierExplicit" "prp_Kind (explicit_cache n q k) = k"
    "prp_Rule (explicit_cache n q k) = ''policy.cache:'' @ n" for n q k
    by (simp_all add: explicit_cache_def)
  have d: "dec_Kind ?d = ActionKeep"
    "dec_Rules ?d = [cn_Rule (Classify sample_entry ?pol), ''policy.cache:y'', ''policy.cache:z'']"
    "map rej_Rule (dec_Rejected ?d) = [''builtin.unknown'', ''policy.cache:x'']"
    unfolding ev ps
    using two_agree_third_safer [where p = "explicit_cache ''x'' ''/w/a'' ActionDeleteCandidate" and q = ?p
        and r = "explicit_cache ''z'' ''/'' ActionKeep" and s = ?s and c = "Classify sample_entry ?pol"
        and pol = ?pol and v = ?v, OF k(1) k(1) k(1) proposes_simps(2) k(2) k(2) k(2)]
    by (simp_all only: k(3)) simp_all
  have "set (map rej_Rule (dec_Rejected ?d)) = {''builtin.unknown'', ''policy.cache:x''}"
    unfolding d(3) by simp
  then have "dec_Kind ?d = ActionKeep \<and> prp_Rule ?p \<in> set (dec_Rules ?d)
      \<and> prp_Rule ?p \<notin> rej_Rule ` set (dec_Rejected ?d)"
    unfolding set_map using d(1,2) by (simp add: k)
  moreover have "?p \<in> set (proposals sample_entry (Classify sample_entry ?pol) ?pol ?v)"
    unfolding ps by simp
  moreover have "prp_Kind ?p = ActionDeleteCandidate" by (simp add: explicit_cache_def)
  ultimately show ?thesis by blast
qed

end
