(* ===== verification/PlanBuildProps.thy ===== *)
theory PlanBuildProps
  imports PlanBuildFacts PlanRulesProps PathFacts SafetyProps
begin

text \<open>
  The properties of plan building: what a plan says follows from the rules and the verdicts, when a plan
  is returned, and what its digests bind.
\<close>

section \<open>When a draft validates\<close>

lemma not_blank_ids: "\<not> blank (ActionID pid p)" "prefix ''plan-'' pid \<Longrightarrow> \<not> blank pid"
proof -
  show "\<not> blank (ActionID pid p)"
    by (simp add: ActionID_def) (rule not_blank_ascii; simp add: is_space_def)
  assume "prefix ''plan-'' pid"
  then show "\<not> blank pid"
    using not_blank_ascii [of "CHR ''p''"] by (auto simp: prefix_def is_space_def)
qed

section \<open>What a sound policy keeps of every decision\<close>

definition retention_ok :: "retention \<Rightarrow> bool" where
  "retention_ok r \<longleftrightarrow> retention_Valid r \<or> r = RetentionUnset"

definition policy_plannable :: "'z policy_scheme \<Rightarrow> bool" where
  "policy_plannable pol \<longleftrightarrow>
     list_all (\<lambda>rule. actionKind_Valid (cr_Action rule) \<and> retention_ok (cr_Retention rule)) (pol_Caches pol)
   \<and> retention_ok (rpol_Default (pol_Retention pol))
   \<and> list_all (\<lambda>root. isAbsClean (crt_Path root)) (pol_CanonicalRoots pol)"

lemma retention_ok_constants [simp]: "retention_ok RetentionNone" "retention_ok RetentionUnset"
  by (simp_all add: retention_ok_def retention_Valid_def validEnum_def retentions_def)

lemma worktree_retention:
  "fst (snd (worktreeProposal e reason r)) \<in> {RetentionUnset, RetentionNone, r}"
  by (simp add: worktreeProposal_def Let_def split: option.splits)

lemma builtin_retention:
  "prp_Retention (builtinProposal e c pol) \<in> {RetentionUnset, RetentionNone, rpol_Default (pol_Retention pol)}"
  using worktree_retention [of e "cn_Reason c" "rpol_Default (pol_Retention pol)"]
  by (auto simp: builtinProposal_def Let_def case_prod_beta split: artifact_class.splits)

lemma gathered_retention:
  assumes "policy_plannable pol" "p \<in> set (gathered e c pol v)"
  shows "retention_ok (prp_Retention p)"
proof -
  have d: "retention_ok (rpol_Default (pol_Retention pol))" using assms(1) by (simp add: policy_plannable_def)
  show ?thesis
    using assms(2)
  proof (cases rule: gathered_cases)
    case 3
    then show ?thesis
      by (auto simp: canonical_proposals_def Let_def split: if_split_asm option.split_asm)
  next
    case 4
    then show ?thesis
      using assms(1) by (auto simp: cache_proposals_def case_prod_beta policy_plannable_def list_all_iff)
  next
    case 8
    then show ?thesis using builtin_retention [of e c pol] d by auto
  qed (auto simp: safety_proposals_def protected_proposals_def export_proposals_def archive_proposals_def
      owner_proposals_def Let_def d split: if_split_asm)
qed

lemma decision_well_formed:
  assumes "policy_plannable pol"
  shows "retention_ok (dec_Retention (Evaluate_rules e pol v))"
    "actionKind_Valid (dec_Kind (Evaluate_rules e pol v))"
    "dec_Kind (Evaluate_rules e pol v) = ActionRelocate \<Longrightarrow>
       isAbsClean (dec_Destination (Evaluate_rules e pol v))"
proof -
  obtain w st where eq: "Evaluate_rules e pol v = settle_retention pol (obey_refusal v (need_destination w
       (take_winner (Classify e pol) st w)))"
    and w: "w \<in> set (gathered e (Classify e pol) pol v)"
    by (rule Evaluate_winner)
  have r: "retention_ok (prp_Retention w)" by (rule gathered_retention [OF assms w])
  have d: "retention_ok (rpol_Default (pol_Retention pol))" using assms by (simp add: policy_plannable_def)
  show "retention_ok (dec_Retention (Evaluate_rules e pol v))"
    unfolding eq using r d
    by (simp add: settle_retention_def Let_def obey_refusal_def need_destination_def take_winner_def)
  have "actionKind_Valid (prp_Kind w)"
    using gathered_valid [OF _ w] assms by (simp add: policy_plannable_def list_all_iff)
  then show "actionKind_Valid (dec_Kind (Evaluate_rules e pol v))"
    unfolding eq by (auto simp: actionKind_Valid_def validEnum_def actionKinds_def)
  assume "dec_Kind (Evaluate_rules e pol v) = ActionRelocate"
  from Evaluate_relocate [OF this] obtain canonical
    where c: "canonicalRootFor pol ClassPrimaryProject = Some canonical"
      "dec_Destination (Evaluate_rules e pol v) = Join [canonical, Base (ent_Path e)]" by blast
  from c(1) obtain root where "root \<in> set (pol_CanonicalRoots pol)" "crt_Path root = canonical"
    by (auto simp: canonicalRootFor_def find_Some_iff) (metis nth_mem)
  then have "isAbsClean canonical" using assms by (auto simp: policy_plannable_def list_all_iff)
  then have a: "IsAbs canonical" "canonical \<noteq> ''''"
    using canonical_IsAbs [of canonical] by (simp_all add: IsAbs_def)
  then have "IsAbs (canonical @ xs)" for xs by (simp add: IsAbs_def)
  from Clean_canonical [OF this] show "isAbsClean (dec_Destination (Evaluate_rules e pol v))"
    unfolding c(2) using a(2) by (simp add: Join_def)
qed

lemma normalized_action_valid:
  assumes "\<not> blank (act_ID c)" "isAbsClean (act_Path c)" "retention_ok (act_Retention c)"
    "actionKind_Valid (act_Kind c)" "act_Status c = ActionStatusOther ''''"
    "\<not> float_lt (act_Confidence c) (Fin 0)" "\<not> float_lt (Fin 1) (act_Confidence c)"
    "act_Kind c = ActionRelocate \<longrightarrow> isAbsClean (act_Destination c)" "act_CreatedAt c \<noteq> time_zero"
  shows "Action_Validate (Action_Normalize (c\<lparr>act_PlanID := pid\<rparr>)) [] = []"
proof -
  have "retention_Valid (act_Retention (Action_Normalize (c\<lparr>act_PlanID := pid\<rparr>)))"
    using assms(3) by (auto simp: Action_Normalize_def retention_ok_def retention_Valid_def validEnum_def retentions_def)
  moreover have "act_Status (Action_Normalize (c\<lparr>act_PlanID := pid\<rparr>)) = ActionPending"
    by (simp add: Action_Normalize_def assms(5))
  moreover have "actionStatus_Valid ActionPending"
    by (simp add: actionStatus_Valid_def validEnum_def actionStatuses_def)
  ultimately show ?thesis using assms(1,2,4,6-9) by (simp add: Action_Validate_Nil)
qed

lemma draft_validates:
  assumes "policy_plannable (pin_Policy inp)" "\<not> blank (pin_ScanID inp)" "now \<noteq> time_zero"
    and "list_all (\<lambda>e. isAbsClean (ent_Path e)) (pin_Entries inp)" "prefix ''plan-'' pid"
    and "distinct (map (\<lambda>e. ActionID pid (ent_Path e)) (pin_Entries inp))"
    and adv: "\<And>p r. advice p = Some r \<Longrightarrow> float_le (Fin 0) (rec_Confidence r)
       \<and> float_le (rec_Confidence r) (Fin 1) \<and> Recommendation_Validate r ''advisor'' = []"
  shows "Plan_Validate (draft_plan inp encode pid now (entry_actions inp advice name pid now)) = None"
proof -
  let ?as = "entry_actions inp advice name pid now" and ?occ = "ent_Path ` set (pin_Entries inp)"
  let ?p = "draft_plan inp encode pid now ?as"
  have valid: "Action_Validate a [] = [] \<and> act_PlanID a = pid" if a: "a \<in> set (plan_Actions ?p)" for a
  proof -
    obtain e where e: "e \<in> set (pin_Entries inp)" and b: "a = Action_Normalize ((settled ?as ?occ
       (fst (plan_entry pid now advice name e (decide_entry now inp e))))\<lparr>act_PlanID := pid\<rparr>)"
      using a by (rule draft_action)
    obtain v d where vd: "decide_entry now inp e = (v, d)" by (cases "decide_entry now inp e")
    have d: "d = Evaluate_rules e (pin_Policy inp) v" using vd by (auto simp: decide_entry_def Let_def)
    let ?b = "fst (plan_entry pid now advice name e (v, d))"
    have clamp: "retention_ok (rec_Retention (ClampRecommendation v r))"
        "actionKind_Valid (rec_Action (ClampRecommendation v r))" if "advice (ent_Path e) = Some r" for r
      using adv [OF that]
      by (auto simp: ClampRecommendation_def Recommendation_Validate_def retention_ok_def
          actionKind_Valid_def validEnum_def actionKinds_def retention_Valid_def retentions_def)
    note wf = decision_well_formed [OF assms(1), of e v, folded d]
    have b1: "retention_ok (act_Retention ?b)" "actionKind_Valid (act_Kind ?b)"
      by (cases rule: plan_entry_decision [of pid now advice name e v d]; use clamp wf(1,2) in simp)+
    have b2: "isAbsClean (act_Destination ?b)" if "act_Kind ?b = ActionRelocate"
      using that plan_entry_riskiest [of pid now advice name e v d] wf(3) by simp
    have conf: "\<not> float_lt (act_Confidence ?b) (Fin 0)" "\<not> float_lt (Fin 1) (act_Confidence ?b)"
    proof -
      have c0: "confidenceFor d \<in> {ambiguousConfidence, conflictConfidence, settledConfidence}"
        by (simp add: confidenceFor_def)
      have r: "\<not> float_lt x (Fin 0) \<and> \<not> float_lt (Fin 1) x"
        if "float_le (Fin 0) x \<and> float_le x (Fin 1)" for x
        using that by (cases x) auto
      have "act_Confidence ?b = confidenceFor d \<or> (\<exists>r. advice (ent_Path e) = Some r \<and> act_Confidence ?b = rec_Confidence r)"
        by (simp add: plan_entry_def plan_action_def Let_def case_prod_beta split: option.splits)
      then have "float_le (Fin 0) (act_Confidence ?b) \<and> float_le (act_Confidence ?b) (Fin 1)"
        using c0 adv
        by (auto simp: ambiguousConfidence_def conflictConfidence_def settledConfidence_def)
      from r [OF this] show "\<not> float_lt (act_Confidence ?b) (Fin 0)" "\<not> float_lt (Fin 1) (act_Confidence ?b)"
        by blast+
    qed
    have sk: "actionKind_Valid ActionInvestigate"
      by (simp add: actionKind_Valid_def validEnum_def actionKinds_def)
    have cc: "\<not> float_lt conflictConfidence (Fin 0)" "\<not> float_lt (Fin 1) conflictConfidence"
      by (simp_all add: conflictConfidence_def)
    have s: "retention_ok (act_Retention (settled ?as ?occ ?b)) \<and> actionKind_Valid (act_Kind (settled ?as ?occ ?b))
      \<and> (act_Kind (settled ?as ?occ ?b) = ActionRelocate \<longrightarrow> isAbsClean (act_Destination (settled ?as ?occ ?b)))
      \<and> \<not> float_lt (act_Confidence (settled ?as ?occ ?b)) (Fin 0)
      \<and> \<not> float_lt (Fin 1) (act_Confidence (settled ?as ?occ ?b))"
      using b1 b2 conf sk cc by (simp add: settled_def Let_def)

    have "isAbsClean (ent_Path e)" using assms(4) e by (auto simp: list_all_iff)
    moreover obtain c where c: "c = settled ?as ?occ ?b" by simp
    moreover have "act_ID c = ActionID pid (ent_Path e)" "act_Path c = ent_Path e"
      "act_Status c = ActionStatusOther ''''" "act_CreatedAt c = now"
      unfolding c by simp_all
    moreover note s [folded c]
    ultimately have "Action_Validate (Action_Normalize (c\<lparr>act_PlanID := pid\<rparr>)) [] = []"
      using not_blank_ids(1) assms(3) by (intro normalized_action_valid) simp_all
    then show ?thesis unfolding b vd c by simp
  qed
  have "distinct (map act_ID (plan_Actions ?p))"
  proof -
    have "mset (map act_ID (plan_Actions ?p)) = mset (map (\<lambda>e. ActionID pid (ent_Path e)) (pin_Entries inp))"
      by (simp add: draft_plan_def Plan_Normalize_def entry_actions_def multiset.map_comp comp_def)
    from iffD2 [OF mset_eq_imp_distinct_iff [OF this] assms(6)] show ?thesis .
  qed
  moreover have "plan_ContractVersion ?p = ContractVersion" "plan_ID ?p = pid" "plan_ScanID ?p = pin_ScanID inp"
    "planStatus_Valid (plan_Status ?p)" "plan_CreatedAt ?p = now"
    by (simp_all add: draft_plan_def Plan_Normalize_def planStatus_Valid_def validEnum_def planStatuses_def)
  ultimately show ?thesis
    using valid assms(2,3,5) not_blank_ids by (simp add: Plan_Validate_None)
qed

lemma Build_total:
  assumes "policy_plannable (pin_Policy inp)" "\<not> blank (pin_ScanID inp)" "effective_now clock inp \<noteq> time_zero"
    and "list_all (\<lambda>e. isAbsClean (ent_Path e)) (pin_Entries inp)"
    and "\<forall>pid. distinct (map (\<lambda>e. ActionID pid (ent_Path e)) (pin_Entries inp))"
  shows "\<exists>res. Build encode fg clock inp = Inr res"
proof -
  have s: "pin_ScanID inp \<noteq> ''''"
  proof
    assume "pin_ScanID inp = ''''"
    moreover have "blank ''''" by code_simp
    ultimately show False using assms(2) by simp
  qed
  show ?thesis
  proof (cases rule: Build_eq [OF s, of encode clock fg])
    case (1 advice name pid traces)
    have "Plan_Validate (draft_plan inp encode pid (effective_now clock inp)
           (entry_actions inp advice name pid (effective_now clock inp))) = None"
      using 1(2) spec [OF assms(5), of pid] assms(1-4)
      by (intro draft_validates 1(1)) simp_all
    then show ?thesis using 1(3) by (simp add: Let_def)
  qed
qed

definition sample_plan_input :: "unit plan_input" where
  "sample_plan_input =
     \<lparr>pin_ScanID = ''s1'', pin_Entries = [sample_entry],
      pin_Policy = sample_config [] [sample_cache ''a'' ''/w'' ActionDeleteCandidate],
      pin_Safety = sample_policy, pin_Jobs = [], pin_Target = None, pin_Now = 9, pin_Advisor = None\<rparr>"

lemma sample_plannable:
  "policy_plannable (pin_Policy sample_plan_input)" "\<not> blank (pin_ScanID sample_plan_input)"
  "effective_now 0 sample_plan_input \<noteq> time_zero"
  "list_all (\<lambda>e. isAbsClean (ent_Path e)) (pin_Entries sample_plan_input)"
  "\<forall>pid. distinct (map (\<lambda>e. ActionID pid (ent_Path e)) (pin_Entries sample_plan_input))"
proof -
  have "isAbsClean ''/w/a''" by code_simp
  then show "list_all (\<lambda>e. isAbsClean (ent_Path e)) (pin_Entries sample_plan_input)"
    by (simp add: sample_plan_input_def sample_entry_def)
  show "policy_plannable (pin_Policy sample_plan_input)"
    by (simp add: sample_plan_input_def policy_plannable_def sample_config_def sample_cache_def
        actionKind_Valid_def validEnum_def actionKinds_def retention_ok_def retention_Valid_def retentions_def)
  show "\<not> blank (pin_ScanID sample_plan_input)"
    using not_blank_ascii [of "CHR ''s''"] by (simp add: sample_plan_input_def is_space_def)
qed (simp_all add: sample_plan_input_def effective_now_def)

section \<open>The properties\<close>

text \<open>C8: A plan does nothing its rules and verdicts do not support: every action of a built plan is about
  an entry of the inventory, carries that entry's fingerprint and identity, is allowed by the verdict of
  the safety engine for that entry, and is never riskier than what the deterministic rules decided for it,
  whatever the advisor answered; and it deletes or relocates only where the rules did, to the
  destination they named.\<close>

theorem Build_actions_justified:
  assumes "Build encode fg clock inp = Inr res" "a \<in> set (plan_Actions (res_Plan res))"
  shows "\<exists>e \<in> set (pin_Entries inp).
    (let (v, d) = decide_entry (effective_now clock inp) inp e
     in act_Path a = ent_Path e \<and> act_Fingerprint a = ent_Fingerprint e
        \<and> act_FilesystemID a = ent_FilesystemID e \<and> Allows v (act_Kind a)
        \<and> RiskRank (act_Kind a) \<le> RiskRank (dec_Kind d)
        \<and> (if act_Kind a \<in> {ActionRelocate, ActionDeleteCandidate}
           then act_Kind a = dec_Kind d \<and> act_Destination a = dec_Destination d else True))"
proof -
  obtain advice name pid where "res_Plan res = draft_plan inp encode pid (effective_now clock inp)
       (entry_actions inp advice name pid (effective_now clock inp))"
    using assms(1) by (rule Build_Inr)
  from assms(2) [unfolded this] show ?thesis
  proof (cases rule: draft_justified)
    case (1 e)
    then show ?thesis by (intro bexI [of _ e]) (simp_all add: case_prod_beta)
  qed
qed

theorem Build_actions_justified_witness:
  "\<exists>res. Build (\<lambda>_. Some ''{}'') (\<lambda>_. ''0'') 0 sample_plan_input = Inr res
     \<and> act_Path (hd (plan_Actions (res_Plan res))) = ent_Path sample_entry"
proof -
  obtain res where res: "Build (\<lambda>_. Some ''{}'') (\<lambda>_. ''0'') 0 sample_plan_input = Inr res"
    using Build_total [OF sample_plannable] by blast
  obtain advice name pid where "res_Plan res = draft_plan sample_plan_input (\<lambda>_. Some ''{}'') pid
      (effective_now 0 sample_plan_input)
      (entry_actions sample_plan_input advice name pid (effective_now 0 sample_plan_input))"
    using res by (rule Build_Inr)
  then have "map act_Path (plan_Actions (res_Plan res)) = [ent_Path sample_entry]"
    by (simp add: draft_paths sample_plan_input_def)
  then obtain a as where as: "plan_Actions (res_Plan res) = a # as" by auto
  show ?thesis
    using Build_actions_justified [OF res, of a] res
    by (auto simp: as sample_plan_input_def Let_def case_prod_beta)
qed

text \<open>A plan covers its inventory: it has one action per entry, in path order, and one verdict per
  entry, and it passes validation.\<close>

theorem Build_covers_inventory:
  assumes "Build encode fg clock inp = Inr res"
  shows "map act_Path (plan_Actions (res_Plan res)) = sort (map ent_Path (pin_Entries inp))
    \<and> length (res_Verdicts res) = length (pin_Entries inp) \<and> Plan_Validate (res_Plan res) = None"
  using assms by (rule Build_Inr) (simp add: draft_paths)

theorem Build_covers_inventory_witness:
  "\<exists>res. Build (\<lambda>_. Some ''{}'') (\<lambda>_. ''0'') 0 sample_plan_input = Inr res
     \<and> map act_Path (plan_Actions (res_Plan res)) = [''/w/a'']"
proof -
  obtain res where res: "Build (\<lambda>_. Some ''{}'') (\<lambda>_. ''0'') 0 sample_plan_input = Inr res"
    using Build_total [OF sample_plannable] by blast
  from Build_covers_inventory [OF res] res show ?thesis
    by (simp add: sample_plan_input_def sample_entry_def)
qed

text \<open>C24: Relocations never collide: no two actions of a built plan relocate to the same place, and none
  relocates onto a path the inventory holds.\<close>

theorem Build_no_collision:
  assumes "Build encode fg clock inp = Inr res"
  shows "distinct (map act_Destination (filter (\<lambda>a. act_Kind a = ActionRelocate) (plan_Actions (res_Plan res))))
    \<and> list_all (\<lambda>a. act_Destination a \<notin> ent_Path ` set (pin_Entries inp))
        (filter (\<lambda>a. act_Kind a = ActionRelocate) (plan_Actions (res_Plan res)))"
proof -
  obtain advice name pid where p: "res_Plan res = draft_plan inp encode pid (effective_now clock inp)
       (entry_actions inp advice name pid (effective_now clock inp))"
    and v: "Plan_Validate (res_Plan res) = None"
    using assms by (rule Build_Inr)
  have "act_Destination a \<noteq> ''''"
    if "a \<in> set (plan_Actions (res_Plan res))" "act_Kind a = ActionRelocate" for a
  proof -
    have "isAbsClean (act_Destination a)"
      using v that by (auto simp: Plan_Validate_None Action_Validate_Nil)
    then show ?thesis using canonical_IsAbs [of "act_Destination a"] by (auto simp: IsAbs_def)
  qed
  then have "filter (\<lambda>a. act_Kind a = ActionRelocate) (plan_Actions (res_Plan res)) =
      filter (\<lambda>a. act_Kind a = ActionRelocate \<and> act_Destination a \<noteq> '''') (plan_Actions (res_Plan res))"
    by (intro filter_cong) auto
  then show ?thesis
    using draft_destinations [OF arg_cong [OF p, of plan_Actions]] by (auto simp: list_all_iff)
qed

theorem Build_no_collision_witness:
  "\<exists>res. Build (\<lambda>_. Some ''{}'') (\<lambda>_. ''0'') 0 sample_plan_input = Inr res
     \<and> distinct (map act_Destination (filter (\<lambda>a. act_Kind a = ActionRelocate) (plan_Actions (res_Plan res))))"
proof -
  obtain res where res: "Build (\<lambda>_. Some ''{}'') (\<lambda>_. ''0'') 0 sample_plan_input = Inr res"
    using Build_total [OF sample_plannable] by blast
  from Build_no_collision [OF res] res show ?thesis by blast
qed

text \<open>C25: Planning is deterministic: the result does not depend on the order in which the inventory lists
  its entries.\<close>

theorem Build_order_free:
  assumes "mset es = mset es'" "distinct_by ent_Path es"
  shows "Build encode fg clock (inp\<lparr>pin_Entries := es\<rparr>) = Build encode fg clock (inp\<lparr>pin_Entries := es'\<rparr>)"
proof -
  have "sort_key ent_Path es = sort_key ent_Path es'"
    using assms by (intro sort_key_perm_eq) (auto simp: distinct_by_def distinct_map)
  note sorted = this
  have d: "decide_entry now (inp\<lparr>pin_Entries := xs\<rparr>) = decide_entry now inp" for now xs
    by (rule ext) (simp add: decide_entry_def)
  have k: "AdvisorKey (inp\<lparr>pin_Entries := xs\<rparr>) = AdvisorKey inp" for xs
    by (simp add: AdvisorKey_def)
  have f: "pin_ScanID (inp\<lparr>pin_Entries := xs\<rparr>) = pin_ScanID inp"
    "pin_Now (inp\<lparr>pin_Entries := xs\<rparr>) = pin_Now inp" "pin_Entries (inp\<lparr>pin_Entries := xs\<rparr>) = xs"
    "pin_Policy (inp\<lparr>pin_Entries := xs\<rparr>) = pin_Policy inp"
    "pin_Advisor (inp\<lparr>pin_Entries := xs\<rparr>) = pin_Advisor inp" for xs
    by simp_all
  show ?thesis unfolding Build_def d k f sorted ..
qed

theorem Build_order_free_witness:
  "Build (\<lambda>_. None) (\<lambda>_. ''0'') 0
      (sample_plan_input\<lparr>pin_Entries := [sample_entry, sample_entry\<lparr>ent_Path := ''/w/b''\<rparr>]\<rparr>)
   = Build (\<lambda>_. None) (\<lambda>_. ''0'') 0
      (sample_plan_input\<lparr>pin_Entries := [sample_entry\<lparr>ent_Path := ''/w/b''\<rparr>, sample_entry]\<rparr>)"
  by (rule Build_order_free) (simp_all add: distinct_by_def sample_entry_def)

text \<open>Planning succeeds: with a policy of known actions and retentions and canonical roots, a scan
  identifier, a clock that is set and absolute entry paths, a plan is returned whatever the advisor
  answers or fails to answer, unless two of its truncated action identifiers coincide.\<close>

theorem Build_returns:
  assumes "policy_plannable (pin_Policy inp)" "\<not> blank (pin_ScanID inp)" "effective_now clock inp \<noteq> time_zero"
    and "list_all (\<lambda>e. isAbsClean (ent_Path e)) (pin_Entries inp)"
    and "\<forall>pid. distinct (map (\<lambda>e. ActionID pid (ent_Path e)) (pin_Entries inp))"
  shows "\<exists>res. Build encode fg clock inp = Inr res"
  using assms by (rule Build_total)

theorem Build_returns_witness:
  "\<exists>res. Build (\<lambda>_. None) (\<lambda>_. ''0'') 0 (sample_plan_input\<lparr>pin_Advisor :=
     Some \<lparr>adv_Name = ''m'', adv_Classify = (\<lambda>_. None)\<rparr>\<rparr>) = Inr res"
  using sample_plannable by (intro Build_returns) (simp_all add: effective_now_def)

section \<open>Binding\<close>

lemma PolicyDigest_eqD:
  assumes "PolicyDigest encode p = PolicyDigest encode q"
  shows "encode p = encode q \<or> (\<exists>s t. encode p = Some s \<and> encode q = Some t \<and> sha_collision s t)"
proof -
  have "sha256_hex s \<noteq> ''unavailable''" for s
  proof
    assume "sha256_hex s = ''unavailable''"
    then have "length (sha256_hex s) = length ''unavailable''" by simp
    then show False unfolding length_sha256_hex by simp
  qed
  then show ?thesis
    using assms sha256_hex_eqD
    by (cases "encode p"; cases "encode q") (fastforce simp: PolicyDigest_def)+
qed

lemma VerifyBinding_None:
  "VerifyBinding encode p scan es pol = None \<longleftrightarrow>
     plan_ScanID p = scan \<and> EvidenceDigest es = plan_EvidenceDigest p
   \<and> PolicyDigest encode pol = plan_PolicyDigest p"
  by (simp add: VerifyBinding_def Let_def)

lemma draft_binding:
  "plan_ScanID (draft_plan inp encode pid now as) = pin_ScanID inp"
  "plan_EvidenceDigest (draft_plan inp encode pid now as) = EvidenceDigest (pin_Entries inp)"
  "plan_PolicyDigest (draft_plan inp encode pid now as) = PolicyDigest encode (pin_Policy inp)"
  by (simp_all add: draft_plan_def Plan_Normalize_def)

text \<open>C9: A plan is bound to what it was built from: it verifies against the scan, the inventory and the
  policy it was built from; and whatever it verifies against is the same scan, an inventory with the same
  paths and fingerprints, and a policy with the same encoding, unless two different texts with one SHA-256
  digest were found.\<close>

theorem VerifyBinding_exact:
  assumes "Build encode fg clock inp = Inr res"
    and "NUL_free_evidence (pin_Entries inp)" "NUL_free_evidence es"
  shows "VerifyBinding encode (res_Plan res) (pin_ScanID inp) (pin_Entries inp) (pin_Policy inp) = None
    \<and> (if VerifyBinding encode (res_Plan res) scan es pol = None
       then scan = pin_ScanID inp
         \<and> (evidence_table es = evidence_table (pin_Entries inp)
            \<or> sha_collision (evidence_payload es) (evidence_payload (pin_Entries inp)))
         \<and> (encode pol = encode (pin_Policy inp)
            \<or> (\<exists>s t. encode pol = Some s \<and> encode (pin_Policy inp) = Some t \<and> sha_collision s t))
       else True)"
proof -
  obtain advice name pid where p: "res_Plan res = draft_plan inp encode pid (effective_now clock inp)
       (entry_actions inp advice name pid (effective_now clock inp))"
    using assms(1) by (rule Build_Inr)
  show ?thesis
    unfolding VerifyBinding_None p draft_binding
    using EvidenceDigest_eqD [of es "pin_Entries inp"] assms(2,3)
      PolicyDigest_eqD [of encode pol "pin_Policy inp"] by auto
qed

theorem VerifyBinding_exact_witness:
  "\<exists>res. Build (\<lambda>_. Some ''{}'') (\<lambda>_. ''0'') 0 sample_plan_input = Inr res
     \<and> VerifyBinding (\<lambda>_. Some ''{}'') (res_Plan res) (pin_ScanID sample_plan_input)
         (pin_Entries sample_plan_input) (pin_Policy sample_plan_input) = None"
proof -
  obtain res where res: "Build (\<lambda>_. Some ''{}'') (\<lambda>_. ''0'') 0 sample_plan_input = Inr res"
    using Build_total [OF sample_plannable] by blast
  have "NUL_free_evidence (pin_Entries sample_plan_input)"
    by (simp add: NUL_free_evidence_def evidence_table_def sample_plan_input_def fingerprint_of_def
        sample_entry_def)
  from VerifyBinding_exact [OF res this this] res show ?thesis by blast
qed

text \<open>Two policies that cannot be encoded have one digest, and it matches.\<close>

lemma PolicyDigest_unavailable: "PolicyDigest (\<lambda>_. None) p = PolicyDigest (\<lambda>_. None) q"
  by (simp add: PolicyDigest_def)

end
