(* ===== verification/StoreCleanup.thy ===== *)
theory StoreCleanup
  imports CoreCleanup
begin

text \<open>
  \<open>internal/store/cleanup.go\<close> and the tables of the cleanup journal in \<open>migrations.go\<close>: one row per
  item, keyed by cleanup and action identifier, and an append-only list of events written by the insert
  and update triggers.  The JSON encoding of a snapshot and the text of a timestamp are parameters (a
  \<open>codec\<close>); an operation returns an error or the tables after its statement.
\<close>

section \<open>Tables\<close>

record codec =
  enc_Entry :: "entry \<Rightarrow> string option"
  dec_Entry :: "string \<Rightarrow> entry option"
  enc_Action :: "action \<Rightarrow> string option"
  dec_Action :: "string \<Rightarrow> action option"
  fmt_Time :: "time \<Rightarrow> string"
  parse_Time :: "string \<Rightarrow> time option"

record cleanup_row =
  row_CleanupID :: string
  row_PlanID :: string
  row_ActionID :: string
  row_Source :: string
  row_Destination :: string
  row_State :: cleanup_state
  row_Entry :: string
  row_Action :: string
  row_Quarantined :: "string option"
  row_CreatedAt :: string
  row_UpdatedAt :: string
  row_MovedAt :: "string option"
  row_ExpiresAt :: "string option"
  row_Reason :: string

record cleanup_event =
  evt_CleanupID :: string
  evt_ActionID :: string
  evt_From :: "cleanup_state option"
  evt_To :: cleanup_state
  evt_OccurredAt :: string
  evt_Reason :: string

record journal =
  jnl_Rows :: "cleanup_row list"
  jnl_Events :: "cleanup_event list"

type_synonym item_key = "string \<times> string"

definition row_key :: "cleanup_row \<Rightarrow> item_key" where
  "row_key r = (row_CleanupID r, row_ActionID r)"

definition evt_key :: "cleanup_event \<Rightarrow> item_key" where
  "evt_key ev = (evt_CleanupID ev, evt_ActionID ev)"

definition item_key_of :: "cleanup_item \<Rightarrow> item_key" where
  "item_key_of c = (cln_CleanupID c, cln_ActionID c)"

text \<open>The states the partial unique index on \<open>source\<close> covers.\<close>

definition active :: "cleanup_state \<Rightarrow> bool" where
  "active s \<longleftrightarrow> s \<in> {CleanupPrepared, CleanupQuarantined, CleanupInvestigate}"

definition active_unique :: "cleanup_row list \<Rightarrow> bool" where
  "active_unique rs \<longleftrightarrow> distinct (map row_Source (filter (\<lambda>r. active (row_State r)) rs))"

text \<open>The constraints of the table: the check on \<open>state\<close>, the primary key, the index.\<close>

definition constraints_hold :: "cleanup_row list \<Rightarrow> bool" where
  "constraints_hold rs \<longleftrightarrow>
     list_all (\<lambda>r. cleanupState_Valid (row_State r)) rs \<and> distinct_by row_key rs \<and> active_unique rs"

definition transition_event :: "cleanup_state option \<Rightarrow> cleanup_row \<Rightarrow> cleanup_event" where
  "transition_event from r =
     \<lparr>evt_CleanupID = row_CleanupID r, evt_ActionID = row_ActionID r, evt_From = from,
      evt_To = row_State r, evt_OccurredAt = row_UpdatedAt r, evt_Reason = row_Reason r\<rparr>"

text \<open>An insert and an update, with their triggers; \<open>None\<close> when a constraint fails.\<close>

definition insert_row :: "cleanup_row \<Rightarrow> journal \<Rightarrow> journal option" where
  "insert_row r j =
     (if constraints_hold (jnl_Rows j @ [r])
      then Some (j\<lparr>jnl_Rows := jnl_Rows j @ [r], jnl_Events := jnl_Events j @ [transition_event None r]\<rparr>)
      else None)"

definition changed_events :: "(cleanup_row \<Rightarrow> bool) \<Rightarrow> (cleanup_row \<Rightarrow> cleanup_row) \<Rightarrow> cleanup_row list
    \<Rightarrow> cleanup_event list" where
  "changed_events P f rs =
     map (\<lambda>r. transition_event (Some (row_State r)) (f r))
       (filter (\<lambda>r. P r \<and> row_State r \<noteq> row_State (f r)) rs)"

definition update_rows :: "(cleanup_row \<Rightarrow> bool) \<Rightarrow> (cleanup_row \<Rightarrow> cleanup_row) \<Rightarrow> journal
    \<Rightarrow> (nat \<times> journal) option" where
  "update_rows P f j =
    (let rs = map (\<lambda>r. if P r then f r else r) (jnl_Rows j)
     in if constraints_hold rs
        then Some (length (filter P (jnl_Rows j)),
          j\<lparr>jnl_Rows := rs, jnl_Events := jnl_Events j @ changed_events P f (jnl_Rows j)\<rparr>)
        else None)"

section \<open>Operations\<close>

datatype store_error =
    BadInitialItem initial_error | BadItem field_errors | MarshalFailed | ConstraintFailed item_key
  | BadTransition cleanup_state cleanup_state | NotFound item_key | StateMismatch item_key
  | ImmutableChanged string | UpdatedAtPrecedes | EarlyEvidence | Unreadable string
  | DecodedInvalid field_errors | WriteFailed string

definition cleanupSnapshots :: "codec \<Rightarrow> cleanup_item \<Rightarrow> (string \<times> string) option" where
  "cleanupSnapshots c item =
     (case (enc_Entry c (cln_Entry item), enc_Action c (cln_Action item)) of
        (Some e, Some a) \<Rightarrow> Some (e, a) | _ \<Rightarrow> None)"

definition InsertCleanup :: "codec \<Rightarrow> cleanup_item \<Rightarrow> journal \<Rightarrow> store_error + journal" where
  "InsertCleanup c item0 j =
    (let item = CleanupItem_Normalize item0
     in case ValidateInitial item of
          Some e \<Rightarrow> Inl (BadInitialItem e)
        | None \<Rightarrow>
            (case cleanupSnapshots c item of
               None \<Rightarrow> Inl MarshalFailed
             | Some (e, a) \<Rightarrow>
                 (case insert_row
                     \<lparr>row_CleanupID = cln_CleanupID item, row_PlanID = cln_PlanID item,
                      row_ActionID = cln_ActionID item, row_Source = cln_Source item,
                      row_Destination = cln_Destination item, row_State = cln_State item,
                      row_Entry = e, row_Action = a, row_Quarantined = None,
                      row_CreatedAt = fmt_Time c (cln_CreatedAt item),
                      row_UpdatedAt = fmt_Time c (cln_UpdatedAt item), row_MovedAt = None,
                      row_ExpiresAt = map_option (fmt_Time c) (cln_ExpiresAt item),
                      row_Reason = cln_Reason item\<rparr> j of
                    None \<Rightarrow> Inl (ConstraintFailed (item_key_of item))
                  | Some j' \<Rightarrow> Inr j')))"

text \<open>Reading a row back: every column decoded, and the item validated again.\<close>

definition optionalCleanupTime :: "codec \<Rightarrow> string option \<Rightarrow> time option option" where
  "optionalCleanupTime c v = (case v of None \<Rightarrow> Some None | Some s \<Rightarrow> map_option Some (parse_Time c s))"

definition scanCleanup :: "codec \<Rightarrow> cleanup_row \<Rightarrow> store_error + cleanup_item" where
  "scanCleanup c r =
    (case dec_Entry c (row_Entry r) of
       None \<Rightarrow> Inl (Unreadable ''entry'')
     | Some e \<Rightarrow> (case dec_Action c (row_Action r) of
       None \<Rightarrow> Inl (Unreadable ''action'')
     | Some a \<Rightarrow> (case (case row_Quarantined r of None \<Rightarrow> Some None | Some q \<Rightarrow> map_option Some (dec_Entry c q)) of
       None \<Rightarrow> Inl (Unreadable ''quarantine evidence'')
     | Some q \<Rightarrow> (case parse_Time c (row_CreatedAt r) of
       None \<Rightarrow> Inl (Unreadable ''created_at'')
     | Some created \<Rightarrow> (case parse_Time c (row_UpdatedAt r) of
       None \<Rightarrow> Inl (Unreadable ''updated_at'')
     | Some updated \<Rightarrow> (case optionalCleanupTime c (row_MovedAt r) of
       None \<Rightarrow> Inl (Unreadable ''moved_at'')
     | Some moved \<Rightarrow> (case optionalCleanupTime c (row_ExpiresAt r) of
       None \<Rightarrow> Inl (Unreadable ''expires_at'')
     | Some expires \<Rightarrow>
         let item = \<lparr>cln_CleanupID = row_CleanupID r, cln_PlanID = row_PlanID r,
               cln_ActionID = row_ActionID r, cln_Source = row_Source r,
               cln_Destination = row_Destination r, cln_State = row_State r, cln_Entry = e, cln_Action = a,
               cln_Quarantined = q, cln_CreatedAt = created, cln_UpdatedAt = updated,
               cln_MovedAt = moved, cln_ExpiresAt = expires, cln_Reason = row_Reason r\<rparr>
         in case CleanupItem_Validate item of
              Some es \<Rightarrow> Inl (DecodedInvalid es) | None \<Rightarrow> Inr item)))))))"

definition cleanupItem :: "codec \<Rightarrow> journal \<Rightarrow> item_key \<Rightarrow> store_error + cleanup_item" where
  "cleanupItem c j k =
     (case find (\<lambda>r. row_key r = k) (jnl_Rows j) of
        None \<Rightarrow> Inl (NotFound k) | Some r \<Rightarrow> scanCleanup c r)"

definition kept_option :: "'a option \<Rightarrow> 'a option \<Rightarrow> bool" where
  "kept_option old nxt \<longleftrightarrow> (case old of None \<Rightarrow> True | Some x \<Rightarrow> nxt = Some x)"

definition checkCleanupImmutable :: "codec \<Rightarrow> cleanup_item \<Rightarrow> cleanup_item \<Rightarrow> store_error option" where
  "checkCleanupImmutable c old nxt =
    (if cln_PlanID old \<noteq> cln_PlanID nxt \<or> cln_Source old \<noteq> cln_Source nxt
        \<or> cln_Destination old \<noteq> cln_Destination nxt \<or> cln_CreatedAt old \<noteq> cln_CreatedAt nxt
     then Some (ImmutableChanged ''immutable cleanup identity or paths changed'')
     else if \<not> kept_option (cln_MovedAt old) (cln_MovedAt nxt)
     then Some (ImmutableChanged ''original move time changed'')
     else if \<not> kept_option (cln_ExpiresAt old) (cln_ExpiresAt nxt)
     then Some (ImmutableChanged ''original retention deadline changed'')
     else case (cleanupSnapshots c old, cleanupSnapshots c nxt) of
       (Some before, Some after) \<Rightarrow>
         if before \<noteq> after then Some (ImmutableChanged ''immutable entry or action snapshot changed'')
         else (case cln_Quarantined old of
             None \<Rightarrow> None
           | Some q \<Rightarrow> (case cln_Quarantined nxt of
               None \<Rightarrow> Some (ImmutableChanged ''quarantine evidence was removed'')
             | Some q' \<Rightarrow> (case (enc_Entry c q, enc_Entry c q') of
                 (Some s, Some s') \<Rightarrow>
                   if s \<noteq> s' then Some (ImmutableChanged ''immutable quarantine evidence changed'') else None
               | _ \<Rightarrow> Some MarshalFailed)))
     | _ \<Rightarrow> Some MarshalFailed)"

definition UpdateCleanup :: "codec \<Rightarrow> cleanup_item \<Rightarrow> cleanup_state \<Rightarrow> journal \<Rightarrow> store_error + journal" where
  "UpdateCleanup c item0 expected j =
    (let item = CleanupItem_Normalize item0; k = item_key_of item
     in case CleanupItem_Validate item of
          Some es \<Rightarrow> Inl (BadItem es)
        | None \<Rightarrow>
      if \<not> CanTransitionTo expected (cln_State item) then Inl (BadTransition expected (cln_State item))
      else (case cleanupItem c j k of
          Inl e \<Rightarrow> Inl e
        | Inr old \<Rightarrow>
      if cln_State old \<noteq> expected then Inl (StateMismatch k)
      else (case checkCleanupImmutable c old item of
          Some e \<Rightarrow> Inl e
        | None \<Rightarrow>
      if cln_UpdatedAt item < cln_UpdatedAt old then Inl UpdatedAtPrecedes
      else if cln_Quarantined old = None \<and> cln_Quarantined item \<noteq> None \<and> cln_State item \<noteq> CleanupQuarantined
      then Inl EarlyEvidence
      else (case cleanupSnapshots c item of
          None \<Rightarrow> Inl MarshalFailed
        | Some (e, a) \<Rightarrow>
            (case (case cln_Quarantined item of None \<Rightarrow> Some None | Some q \<Rightarrow> map_option Some (enc_Entry c q)) of
               None \<Rightarrow> Inl MarshalFailed
             | Some q \<Rightarrow>
            (case update_rows
                (\<lambda>r. row_key r = k \<and> row_State r = expected \<and> row_Entry r = e \<and> row_Action r = a)
                (\<lambda>r. r\<lparr>row_State := cln_State item, row_Quarantined := q,
                   row_UpdatedAt := fmt_Time c (cln_UpdatedAt item),
                   row_MovedAt := map_option (fmt_Time c) (cln_MovedAt item),
                   row_ExpiresAt := map_option (fmt_Time c) (cln_ExpiresAt item),
                   row_Reason := cln_Reason item\<rparr>) j of
               None \<Rightarrow> Inl (ConstraintFailed k)
             | Some (affected, j') \<Rightarrow> if affected \<noteq> 1 then Inl (StateMismatch k) else Inr j'))))))"

text \<open>Listing: all rows are scanned, in the order of the query; one unreadable row fails the list.\<close>

fun scan_rows :: "codec \<Rightarrow> cleanup_row list \<Rightarrow> store_error + cleanup_item list" where
  "scan_rows c [] = Inr []"
| "scan_rows c (r # rs) =
     (case scanCleanup c r of
        Inl e \<Rightarrow> Inl e
      | Inr item \<Rightarrow> (case scan_rows c rs of Inl e \<Rightarrow> Inl e | Inr items \<Rightarrow> Inr (item # items)))"

definition CleanupItems :: "codec \<Rightarrow> journal \<Rightarrow> string \<Rightarrow> store_error + cleanup_item list" where
  "CleanupItems c j cleanupID =
     scan_rows c (sort_key (\<lambda>r. (row_CreatedAt r, row_CleanupID r, row_ActionID r))
       (filter (\<lambda>r. cleanupID = '''' \<or> row_CleanupID r = cleanupID) (jnl_Rows j)))"

definition PendingCleanupItems :: "codec \<Rightarrow> journal \<Rightarrow> store_error + cleanup_item list" where
  "PendingCleanupItems c j =
     scan_rows c (sort_key (\<lambda>r. (row_UpdatedAt r, row_CleanupID r, row_ActionID r))
       (filter (\<lambda>r. active (row_State r)) (jnl_Rows j)))"

text \<open>\<open>Store.Write\<close>: the function's effect is kept only when the commit succeeds.\<close>

definition write_tx :: "bool \<Rightarrow> string option \<Rightarrow> string option \<Rightarrow> ('j \<Rightarrow> store_error + 'j) \<Rightarrow> 'j
    \<Rightarrow> store_error option \<times> 'j" where
  "write_tx readOnly begin_error commit_error fn j =
     (if readOnly then (Some (WriteFailed ''open read-only''), j)
      else case begin_error of
        Some e \<Rightarrow> (Some (WriteFailed e), j)
      | None \<Rightarrow> (case fn j of
          Inl e \<Rightarrow> (Some e, j)
        | Inr j' \<Rightarrow> (case commit_error of Some e \<Rightarrow> (Some (WriteFailed e), j) | None \<Rightarrow> (None, j'))))"

end
