(* ===== verification/StoreCleanupFacts.thy ===== *)
theory StoreCleanupFacts
  imports StoreCleanup
begin

text \<open>
  The cleanup journal keeps its contract: a locale states what the journal promises its client, the SQL
  model interprets it, and every reachable journal agrees with its own event log.
\<close>

section \<open>The contract\<close>

text \<open>
  What a client of the journal may rely on, in terms of the state recorded for an item.  \<open>inv\<close> is the
  invariant of the tables.
\<close>

locale cleanup_journal =
  fixes inv :: "'j \<Rightarrow> bool"
    and state_of :: "'j \<Rightarrow> item_key \<Rightarrow> cleanup_state option"
    and ins :: "cleanup_item \<Rightarrow> 'j \<Rightarrow> store_error + 'j"
    and upd :: "cleanup_item \<Rightarrow> cleanup_state \<Rightarrow> 'j \<Rightarrow> store_error + 'j"
  assumes ins_law: "inv j \<Longrightarrow> ins it j = Inr j' \<Longrightarrow>
      inv j' \<and> state_of j (item_key_of it) = None
      \<and> state_of j' = (state_of j)(item_key_of it \<mapsto> CleanupPrepared)"
    and upd_law: "inv j \<Longrightarrow> upd it ex j = Inr j' \<Longrightarrow>
      inv j' \<and> state_of j (item_key_of it) = Some ex \<and> CanTransitionTo ex (cln_State it)
      \<and> state_of j' = (state_of j)(item_key_of it \<mapsto> cln_State it)"
begin

definition one_step :: "'j \<Rightarrow> 'j \<Rightarrow> bool" where
  "one_step j j' \<longleftrightarrow> (\<exists>it. ins it j = Inr j') \<or> (\<exists>it ex. upd it ex j = Inr j')"

inductive runs :: "'j \<Rightarrow> 'j \<Rightarrow> bool" where
  stay: "runs j j"
| go: "runs i j \<Longrightarrow> one_step j k \<Longrightarrow> runs i k"

lemma one_step_inv: "inv j \<Longrightarrow> one_step j j' \<Longrightarrow> inv j'"
  unfolding one_step_def using ins_law upd_law by blast

lemma runs_inv: "runs i j \<Longrightarrow> inv i \<Longrightarrow> inv j"
  by (induction rule: runs.induct) (auto dest: one_step_inv)

lemma one_step_cases:
  assumes "inv j" "one_step j j'"
  shows "state_of j' = state_of j \<or> (\<exists>k. state_of j k = None \<and> state_of j' = (state_of j)(k \<mapsto> CleanupPrepared))
    \<or> (\<exists>k s t. state_of j k = Some s \<and> CanTransitionTo s t \<and> state_of j' = (state_of j)(k \<mapsto> t))"
  using assms(2) ins_law [OF assms(1)] upd_law [OF assms(1)] unfolding one_step_def by blast

text \<open>A terminal state stays: a deleted or restored item is never touched again.\<close>

lemma terminal_stays:
  "runs i j \<Longrightarrow> inv i \<Longrightarrow> state_of i k = Some s \<Longrightarrow> s \<in> {CleanupDeleted, CleanupRestored} \<Longrightarrow>
     state_of j k = Some s"
proof (induction rule: runs.induct)
  case (go i j l)
  from one_step_cases [OF runs_inv [OF go(1) go(4)] go(2)] go(3) [OF go(4-6)] go(6)
  show ?case using CanTransitionTo_terminal by (auto split: if_splits)
qed simp

text \<open>A record is never removed.\<close>

lemma recorded_stays: "runs i j \<Longrightarrow> inv i \<Longrightarrow> dom (state_of i) \<subseteq> dom (state_of j)"
proof (induction rule: runs.induct)
  case (go i j l)
  from one_step_cases [OF runs_inv [OF go(1) go(4)] go(2)] go(3) [OF go(4)] show ?case by auto
qed simp

end

section \<open>The tables keep the contract\<close>

definition journal_state :: "journal \<Rightarrow> item_key \<Rightarrow> cleanup_state option" where
  "journal_state j k = map_option row_State (find (\<lambda>r. row_key r = k) (jnl_Rows j))"

definition events_of :: "journal \<Rightarrow> item_key \<Rightarrow> cleanup_event list" where
  "events_of j k = filter (\<lambda>ev. evt_key ev = k) (jnl_Events j)"

text \<open>
  The event log of an item: it starts with the creation, each event continues from the one before, and
  the states form a permitted history whose latest one is the recorded state.
\<close>

definition log_agrees :: "journal \<Rightarrow> item_key \<Rightarrow> bool" where
  "log_agrees j k \<longleftrightarrow>
     (case journal_state j k of
        None \<Rightarrow> events_of j k = []
      | Some s \<Rightarrow> \<exists>h. map evt_To (events_of j k) = rev (s # h) \<and> history (s # h)
          \<and> map evt_From (events_of j k) = None # map Some (rev h))"

definition journal_ok :: "journal \<Rightarrow> bool" where
  "journal_ok j \<longleftrightarrow> constraints_hold (jnl_Rows j) \<and> (\<forall>k. log_agrees j k)"

lemma find_key_unique:
  assumes "distinct_by row_key rs"
  shows "find (\<lambda>r. row_key r = k) rs = Some r \<longleftrightarrow> r \<in> set rs \<and> row_key r = k"
  using assms
proof (induction rs)
  case (Cons a rs)
  then show ?case by (auto simp: distinct_by_def)
qed simp

lemma journal_state_Some:
  assumes "distinct_by row_key (jnl_Rows j)"
  shows "journal_state j k = Some s \<longleftrightarrow> (\<exists>r \<in> set (jnl_Rows j). row_key r = k \<and> row_State r = s)"
  unfolding journal_state_def using find_key_unique [OF assms] by fastforce

lemma find_snoc: "find P (xs @ [x]) = (case find P xs of Some y \<Rightarrow> Some y | None \<Rightarrow> if P x then Some x else None)"
  by (induction xs) auto

lemma insert_row_ok:
  assumes "journal_ok j" "insert_row r j = Some j'" "row_State r = CleanupPrepared"
  shows "journal_ok j' \<and> journal_state j (row_key r) = None
    \<and> journal_state j' = (journal_state j)(row_key r \<mapsto> CleanupPrepared)"
proof -
  have c: "constraints_hold (jnl_Rows j @ [r])" and j': "j' = j\<lparr>jnl_Rows := jnl_Rows j @ [r],
      jnl_Events := jnl_Events j @ [transition_event None r]\<rparr>"
    using assms(2) by (auto simp: insert_row_def split: if_splits)
  have new: "find (\<lambda>q. row_key q = row_key r) (jnl_Rows j) = None"
    using c by (auto simp: constraints_hold_def distinct_by_def find_None_iff image_iff)
  then have n: "journal_state j (row_key r) = None" by (simp add: journal_state_def)
  have s: "journal_state j' = (journal_state j)(row_key r \<mapsto> CleanupPrepared)"
    using new assms(3) by (auto simp: fun_eq_iff journal_state_def j' find_snoc split: option.splits)
  have ek: "evt_key (transition_event None r) = row_key r"
    by (simp add: evt_key_def row_key_def transition_event_def)
  have e: "events_of j' k = events_of j k @ (if k = row_key r then [transition_event None r] else [])" for k
    by (simp add: events_of_def j' ek)
  have "log_agrees j' k" for k
  proof (cases "k = row_key r")
    case True
    have "log_agrees j (row_key r)" using assms(1) unfolding journal_ok_def by blast
    then have "events_of j k = []" by (simp add: log_agrees_def n True)
    then show ?thesis
      using assms(3) history.start
      by (simp add: log_agrees_def s True e transition_event_def)
  next
    case False
    have "log_agrees j k" using assms(1) unfolding journal_ok_def by blast
    moreover have "events_of j' k = events_of j k" "journal_state j' k = journal_state j k"
      using False by (simp_all add: e s)
    ultimately show ?thesis by (simp only: log_agrees_def)
  qed
  then have "journal_ok j'" using c by (simp add: journal_ok_def j')
  then show ?thesis using n s by blast
qed

lemma find_map_key:
  assumes "\<And>r. row_key (g r) = row_key r"
  shows "find (\<lambda>r. row_key r = k) (map g rs) = map_option g (find (\<lambda>r. row_key r = k) rs)"
  by (induction rs) (auto simp: assms)

lemma filter_unique:
  assumes "distinct_by row_key rs" "r \<in> set rs" "\<And>q. P q \<Longrightarrow> row_key q = row_key r" "P r"
  shows "filter P rs = [r]"
  using assms(1,2)
proof (induction rs)
  case (Cons a rs)
  show ?case
  proof (cases "a = r")
    case True
    have "filter P rs = []"
      using Cons.prems(1) True assms(3) unfolding filter_empty_conv distinct_by_def by (metis distinct.simps(2) image_eqI list.simps(9) list.set_map)
    then show ?thesis using True assms(4) by simp
  next
    case False
    then have "r \<in> set rs" "row_key a \<noteq> row_key r" using Cons.prems by (auto simp: distinct_by_def)
    then show ?thesis using Cons.IH Cons.prems(1) assms(3) by (auto simp: distinct_by_def)
  qed
qed simp

lemma update_rows_ok:
  assumes ok: "journal_ok j" and upd: "update_rows P f j = Some (1, j')"
    and P: "\<And>r. P r \<Longrightarrow> row_key r = k \<and> row_State r = ex"
    and f: "\<And>r. row_key (f r) = row_key r" "\<And>r. row_State (f r) = t"
    and t: "CanTransitionTo ex t"
  obtains r where "r \<in> set (jnl_Rows j)" "P r" "filter P (jnl_Rows j) = [r]"
    "journal_ok j'" "journal_state j k = Some ex" "journal_state j' = (journal_state j)(k \<mapsto> t)"
    "jnl_Rows j' = map (\<lambda>r. if P r then f r else r) (jnl_Rows j)"
    "jnl_Events j' = jnl_Events j @ [transition_event (Some ex) (f r)]"
proof -
  let ?g = "\<lambda>r. if P r then f r else r"
  have d: "distinct_by row_key (jnl_Rows j)" using ok by (simp add: journal_ok_def constraints_hold_def)
  have c: "constraints_hold (map ?g (jnl_Rows j))" and len: "length (filter P (jnl_Rows j)) = 1"
    and j': "j' = j\<lparr>jnl_Rows := map ?g (jnl_Rows j), jnl_Events := jnl_Events j @ changed_events P f (jnl_Rows j)\<rparr>"
    using upd by (auto simp: update_rows_def Let_def split: if_splits)
  obtain r where one: "filter P (jnl_Rows j) = [r]" using len by (cases "filter P (jnl_Rows j)") auto
  then have r: "r \<in> set (jnl_Rows j)" "P r" by (auto simp: filter_eq_Cons_iff)
  have found: "find (\<lambda>r. row_key r = k) (jnl_Rows j) = Some r"
    using find_key_unique [OF d, of k r] r P [OF r(2)] by simp
  have s: "journal_state j k = Some ex" using P [OF r(2)] by (simp add: journal_state_def found)
  have gk: "row_key (?g q) = row_key q" for q by (simp add: f(1))
  have s': "journal_state j' q = ((journal_state j)(k \<mapsto> t)) q" for q
  proof (cases "q = k")
    case True
    then show ?thesis using r(2) by (simp add: journal_state_def j' find_map_key [OF gk] found f(2))
  next
    case False
    have "?g y = y" if "find (\<lambda>r. row_key r = q) (jnl_Rows j) = Some y" for y
      using that P [of y] False find_key_unique [OF d, of q y] by auto
    then show ?thesis
      using False by (cases "find (\<lambda>r. row_key r = q) (jnl_Rows j)")
        (auto simp: journal_state_def j' find_map_key [OF gk])
  qed
  have "ex \<noteq> t" using t CanTransitionTo_irrefl by auto
  then have "filter (\<lambda>r. P r \<and> row_State r \<noteq> row_State (f r)) (jnl_Rows j) = filter P (jnl_Rows j)"
    using P f(2) by (intro filter_cong) auto
  then have ev: "changed_events P f (jnl_Rows j) = [transition_event (Some ex) (f r)]"
    using P [OF r(2)] by (simp add: changed_events_def one)
  have ek: "evt_key (transition_event x (f r)) = k" for x
    using P [OF r(2)] f(1) [of r] by (simp add: evt_key_def row_key_def transition_event_def)
  have e: "events_of j' q = events_of j q @ (if q = k then [transition_event (Some ex) (f r)] else [])" for q
    by (simp add: events_of_def j' ev ek)
  have log: "log_agrees j q" for q using ok unfolding journal_ok_def by blast
  have "log_agrees j' q" for q
  proof (cases "q = k")
    case True
    obtain h where h: "map evt_To (events_of j k) = rev (ex # h)" "history (ex # h)"
        "map evt_From (events_of j k) = None # map Some (rev h)"
      using log [of k] by (auto simp: log_agrees_def s)
    have hist: "history (t # ex # h)" using h(2) t by (rule history.step)
    have "map evt_To (events_of j' k) = rev (t # ex # h)"
      "map evt_From (events_of j' k) = None # map Some (rev (ex # h))"
      using h(1,3) f(2) [of r] by (simp_all add: e transition_event_def)
    then show ?thesis
      unfolding log_agrees_def s' True fun_upd_same option.case using hist by (intro exI conjI)
  next
    case False
    then have "events_of j' q = events_of j q" "journal_state j' q = journal_state j q"
      by (simp_all add: e s')
    then show ?thesis using log [of q] by (simp only: log_agrees_def)
  qed
  then have "journal_ok j'" using c by (simp add: journal_ok_def j')
  then show thesis using that [OF r one _ s _ _ _] s' by (simp add: fun_eq_iff j' ev)
qed

section \<open>The operations keep the contract\<close>

lemma Normalize_item_simps [simp]:
  "cln_CleanupID (CleanupItem_Normalize c) = cln_CleanupID c" "cln_ActionID (CleanupItem_Normalize c) = cln_ActionID c"
  "cln_State (CleanupItem_Normalize c) = cln_State c" "cln_Source (CleanupItem_Normalize c) = cln_Source c"
  "cln_Destination (CleanupItem_Normalize c) = cln_Destination c"
  "cln_PlanID (CleanupItem_Normalize c) = cln_PlanID c"
  "cln_MovedAt (CleanupItem_Normalize c) = cln_MovedAt c" "cln_ExpiresAt (CleanupItem_Normalize c) = cln_ExpiresAt c"
  "cln_CreatedAt (CleanupItem_Normalize c) = cln_CreatedAt c" "cln_UpdatedAt (CleanupItem_Normalize c) = cln_UpdatedAt c"
  "item_key_of (CleanupItem_Normalize c) = item_key_of c"
  by (simp_all add: CleanupItem_Normalize_def item_key_of_def)

lemma InsertCleanup_Inr:
  assumes "InsertCleanup c it j = Inr j'"
  obtains e a where "ValidateInitial (CleanupItem_Normalize it) = None"
    "cleanupSnapshots c (CleanupItem_Normalize it) = Some (e, a)"
    "insert_row \<lparr>row_CleanupID = cln_CleanupID it, row_PlanID = cln_PlanID it, row_ActionID = cln_ActionID it,
        row_Source = cln_Source it, row_Destination = cln_Destination it, row_State = CleanupPrepared,
        row_Entry = e, row_Action = a, row_Quarantined = None, row_CreatedAt = fmt_Time c (cln_CreatedAt it),
        row_UpdatedAt = fmt_Time c (cln_UpdatedAt it), row_MovedAt = None,
        row_ExpiresAt = map_option (fmt_Time c) (cln_ExpiresAt it),
        row_Reason = cln_Reason (CleanupItem_Normalize it)\<rparr> j = Some j'"
  using assms unfolding InsertCleanup_def Let_def
  by (auto simp: ValidateInitial_None split: option.splits)

lemma InsertCleanup_ok:
  assumes "journal_ok j" "InsertCleanup c it j = Inr j'"
  shows "journal_ok j' \<and> journal_state j (item_key_of it) = None
    \<and> journal_state j' = (journal_state j)(item_key_of it \<mapsto> CleanupPrepared)"
  using assms(2)
proof (rule InsertCleanup_Inr)
  fix e a
  assume "insert_row \<lparr>row_CleanupID = cln_CleanupID it, row_PlanID = cln_PlanID it, row_ActionID = cln_ActionID it,
        row_Source = cln_Source it, row_Destination = cln_Destination it, row_State = CleanupPrepared,
        row_Entry = e, row_Action = a, row_Quarantined = None, row_CreatedAt = fmt_Time c (cln_CreatedAt it),
        row_UpdatedAt = fmt_Time c (cln_UpdatedAt it), row_MovedAt = None,
        row_ExpiresAt = map_option (fmt_Time c) (cln_ExpiresAt it),
        row_Reason = cln_Reason (CleanupItem_Normalize it)\<rparr> j = Some j'"
  from insert_row_ok [OF assms(1) this] show ?thesis by (simp add: row_key_def item_key_of_def)
qed

definition selected_row :: "cleanup_item \<Rightarrow> cleanup_state \<Rightarrow> string \<Rightarrow> string \<Rightarrow> cleanup_row \<Rightarrow> bool" where
  "selected_row it ex e a r \<longleftrightarrow>
     row_key r = item_key_of it \<and> row_State r = ex \<and> row_Entry r = e \<and> row_Action r = a"

definition written_row :: "codec \<Rightarrow> cleanup_item \<Rightarrow> string option \<Rightarrow> cleanup_row \<Rightarrow> cleanup_row" where
  "written_row c it q r =
     r\<lparr>row_State := cln_State it, row_Quarantined := q, row_UpdatedAt := fmt_Time c (cln_UpdatedAt it),
       row_MovedAt := map_option (fmt_Time c) (cln_MovedAt it),
       row_ExpiresAt := map_option (fmt_Time c) (cln_ExpiresAt it),
       row_Reason := cln_Reason (CleanupItem_Normalize it)\<rparr>"

lemma written_row_simps [simp]:
  "row_key (written_row c it q r) = row_key r" "row_State (written_row c it q r) = cln_State it"
  by (simp_all add: written_row_def row_key_def)

lemma UpdateCleanup_Inr:
  assumes "UpdateCleanup c it ex j = Inr j'"
  obtains old e a q where "CleanupItem_Validate (CleanupItem_Normalize it) = None" "CanTransitionTo ex (cln_State it)"
    "cleanupItem c j (item_key_of it) = Inr old" "cln_State old = ex"
    "checkCleanupImmutable c old (CleanupItem_Normalize it) = None" "cln_UpdatedAt old \<le> cln_UpdatedAt it"
    "cleanupSnapshots c (CleanupItem_Normalize it) = Some (e, a)"
    "update_rows (selected_row it ex e a) (written_row c it q) j = Some (1, j')"
    "cln_Quarantined old \<noteq> None \<or> q = None \<or> cln_State it = CleanupQuarantined"
proof -
  have P: "(\<lambda>r. row_key r = item_key_of it \<and> row_State r = ex \<and> row_Entry r = e \<and> row_Action r = a)
      = selected_row it ex e a" for e a
    by (rule ext) (simp add: selected_row_def)
  have F: "(\<lambda>r. r\<lparr>row_State := cln_State it, row_Quarantined := q,
                   row_UpdatedAt := fmt_Time c (cln_UpdatedAt it),
                   row_MovedAt := map_option (fmt_Time c) (cln_MovedAt it),
                   row_ExpiresAt := map_option (fmt_Time c) (cln_ExpiresAt it),
                   row_Reason := cln_Reason (CleanupItem_Normalize it)\<rparr>) = written_row c it q" for q
    by (rule ext) (simp add: written_row_def)
  show thesis
    using assms that unfolding UpdateCleanup_def Let_def Normalize_item_simps P F
    by (auto split: option.splits sum.splits if_splits simp: not_less)
qed

lemma UpdateCleanup_ok:
  assumes "journal_ok j" "UpdateCleanup c it ex j = Inr j'"
  shows "journal_ok j' \<and> journal_state j (item_key_of it) = Some ex \<and> CanTransitionTo ex (cln_State it)
    \<and> journal_state j' = (journal_state j)(item_key_of it \<mapsto> cln_State it)"
  using assms(2)
proof (rule UpdateCleanup_Inr)
  fix old e a q
  assume t: "CanTransitionTo ex (cln_State it)"
    and u: "update_rows (selected_row it ex e a) (written_row c it q) j = Some (1, j')"
  show ?thesis
    by (rule update_rows_ok [OF assms(1) u, of "item_key_of it" ex "cln_State it"])
       (simp_all add: selected_row_def t)
qed

text \<open>The SQL model provides the contract.\<close>

interpretation sql: cleanup_journal journal_ok journal_state "InsertCleanup c" "UpdateCleanup c" for c
  by unfold_locales (blast dest: InsertCleanup_ok UpdateCleanup_ok)+

definition empty_journal :: journal where
  "empty_journal = \<lparr>jnl_Rows = [], jnl_Events = []\<rparr>"

lemma empty_journal_ok: "journal_ok empty_journal"
  by (simp add: journal_ok_def empty_journal_def constraints_hold_def distinct_by_def active_unique_def
      log_agrees_def journal_state_def events_of_def)

end
