(* ===== verification/StoreCleanupProps.thy ===== *)
theory StoreCleanupProps
  imports StoreCleanupFacts
begin

text \<open>The properties of the cleanup journal, over every sequence of calls.\<close>

section \<open>Sequences of calls\<close>

datatype journal_call = CallInsert cleanup_item | CallUpdate cleanup_item cleanup_state

text \<open>A call whose transaction fails leaves the tables as they were.\<close>

definition apply_call :: "codec \<Rightarrow> journal \<Rightarrow> journal_call \<Rightarrow> journal" where
  "apply_call c j call =
     (case (case call of CallInsert it \<Rightarrow> InsertCleanup c it j | CallUpdate it ex \<Rightarrow> UpdateCleanup c it ex j) of
        Inl _ \<Rightarrow> j | Inr j' \<Rightarrow> j')"

definition run_calls :: "codec \<Rightarrow> journal_call list \<Rightarrow> journal" where
  "run_calls c calls = foldl (apply_call c) empty_journal calls"

lemma apply_call_step: "apply_call c j call = j \<or> sql.one_step c j (apply_call c j call)"
  by (auto simp: apply_call_def sql.one_step_def split: journal_call.splits sum.splits)

lemma foldl_runs: "sql.runs c j (foldl (apply_call c) j calls)"
proof (induction calls rule: rev_induct)
  case Nil
  then show ?case by (simp add: sql.runs.stay)
next
  case (snoc call calls)
  then show ?case using apply_call_step [of c "foldl (apply_call c) j calls" call]
    by (auto intro: sql.runs.go)
qed

lemma run_calls_ok: "journal_ok (run_calls c calls)"
  unfolding run_calls_def using sql.runs_inv [OF foldl_runs empty_journal_ok] .

section \<open>Properties\<close>

text \<open>C14: After any sequence of calls the journal is consistent: every row has a valid state, keys are
  unique, no two active items claim one source, and the event log of every item starts with its
  creation, is chained, is a permitted history and ends in the state the row records.\<close>

theorem journal_consistent:
  "constraints_hold (jnl_Rows (run_calls c calls)) \<and> log_agrees (run_calls c calls) k"
  using run_calls_ok [of c calls] unfolding journal_ok_def by blast

text \<open>A terminal record is final: once an item is journalled as deleted or restored, no later sequence
  of calls changes its state, and no recorded item ever disappears from the journal.\<close>

theorem journal_terminal_final:
  assumes "journal_state (run_calls c before) k = Some s"
  shows "journal_state (run_calls c (before @ after)) k \<noteq> None
    \<and> (if s \<in> {CleanupDeleted, CleanupRestored}
       then journal_state (run_calls c (before @ after)) k = Some s else True)"
proof -
  have r: "sql.runs c (run_calls c before) (run_calls c (before @ after))"
    unfolding run_calls_def foldl_append by (rule foldl_runs)
  show ?thesis
    using sql.terminal_stays [OF r run_calls_ok assms] sql.recorded_stays [OF r run_calls_ok] assms
    by (auto simp: dom_def)
qed

text \<open>C15: A transition is exact: a successful update found the item in the expected state, changed that one
  row to a state the transition table permits, left its identity, paths, creation time and snapshots and
  every other row alone, and appended exactly one event; a failed one returns no journal at all.\<close>

theorem UpdateCleanup_exact:
  assumes "journal_ok j" "UpdateCleanup c it ex j = Inr j'"
  shows "\<exists>r w. [x \<leftarrow> jnl_Rows j. row_key x = item_key_of it] = [r] \<and> row_State r = ex
    \<and> CanTransitionTo ex (cln_State it) \<and> row_State w = cln_State it
    \<and> jnl_Rows j' = map (\<lambda>x. if row_key x = item_key_of it then w else x) (jnl_Rows j)
    \<and> jnl_Events j' = jnl_Events j @ [transition_event (Some ex) w]
    \<and> row_key w = row_key r \<and> row_PlanID w = row_PlanID r \<and> row_Source w = row_Source r
    \<and> row_Destination w = row_Destination r \<and> row_Entry w = row_Entry r \<and> row_Action w = row_Action r
    \<and> row_CreatedAt w = row_CreatedAt r"
  using assms(2)
proof (rule UpdateCleanup_Inr)
  fix old e a q
  assume t: "CanTransitionTo ex (cln_State it)"
    and u: "update_rows (selected_row it ex e a) (written_row c it q) j = Some (1, j')"
  show ?thesis
  proof (rule update_rows_ok [OF assms(1) u, of "item_key_of it" ex "cln_State it"])
    fix r
    assume r: "r \<in> set (jnl_Rows j)" "selected_row it ex e a r"
      and rows: "jnl_Rows j' = map (\<lambda>r. if selected_row it ex e a r then written_row c it q r else r) (jnl_Rows j)"
      and ev: "jnl_Events j' = jnl_Events j @ [transition_event (Some ex) (written_row c it q r)]"
    have d: "distinct_by row_key (jnl_Rows j)" using assms(1) by (simp add: journal_ok_def constraints_hold_def)
    have k: "row_key r = item_key_of it" "row_State r = ex" using r(2) by (simp_all add: selected_row_def)
    have same: "x = r" if "x \<in> set (jnl_Rows j)" "row_key x = item_key_of it" for x
      using d that r(1) k(1) unfolding distinct_by_def distinct_map by (metis inj_onD)
    have "[x \<leftarrow> jnl_Rows j. row_key x = item_key_of it] = [r]"
      by (rule filter_unique [OF d r(1)]) (simp_all add: k)
    moreover have "jnl_Rows j' = map (\<lambda>x. if row_key x = item_key_of it then written_row c it q r else x) (jnl_Rows j)"
      unfolding rows using r(2) same by (intro map_cong) (auto simp: selected_row_def)
    ultimately show ?thesis
      using k t ev by (intro exI [of _ r] exI [of _ "written_row c it q r"]) (simp_all add: written_row_def row_key_def)
  qed (simp_all add: selected_row_def t)
qed



section \<open>A concrete item\<close>

definition sample_cleanup :: cleanup_item where
  "sample_cleanup =
     \<lparr>cln_CleanupID = ''c1'', cln_PlanID = ''p1'', cln_ActionID = ''a1'', cln_Source = ''/w/a'',
      cln_Destination = ''/q/c1/a1/item'', cln_State = CleanupPrepared, cln_Entry = sample_entry,
      cln_Action = \<lparr>act_ID = ''a1'', act_PlanID = ''p1'', act_Path = ''/w/a'', act_Kind = ActionQuarantine,
        act_Class = ClassCache, act_Retention = Retention7Days, act_Confidence = Fin (1 / 2),
        act_Status = ActionPending, act_Destination = '''', act_FilesystemID = \<lparr>fs_Device = 8, fs_Inode = 42\<rparr>,
        act_Fingerprint = '''', act_Reasons = [], act_Rules = [], act_Rejected = [], act_Guards = [],
        act_CreatedAt = 9, act_AppliedAt = None\<rparr>,
      cln_Quarantined = None, cln_CreatedAt = 10, cln_UpdatedAt = 10, cln_MovedAt = None,
      cln_ExpiresAt = None, cln_Reason = ''''\<rparr>"

lemma sample_strings:
  "safe_component ''c1''" "safe_component ''a1''"
  "isAbsClean ''/w/a''" "isAbsClean ''/q/c1/a1/item''" "isAbsClean ''/w''"
  by code_simp+

lemma sample_not_blank: "\<not> blank ''c1''" "\<not> blank ''p1''" "\<not> blank ''a1''"
  by (rule not_blank_ascii; simp add: is_space_def)+

lemma sample_entry_normal: "Entry_Normalize sample_entry = sample_entry"
  by (simp add: Entry_Normalize_def sample_entry_def)

lemma sample_entry_valid: "Entry_Validate sample_entry = None"
  by (simp add: Entry_Validate_def sample_entry_def sample_strings ContractVersion_def entryKind_Valid_def
      artifactClass_Valid_def validEnum_def entryKinds_def artifactClasses_def validate_all_def)

lemma sample_cleanup_initial: "ValidateInitial (CleanupItem_Normalize sample_cleanup) = None"
proof -
  have n: "CleanupItem_Normalize sample_cleanup = sample_cleanup"
    by (simp add: CleanupItem_Normalize_def sample_cleanup_def sample_entry_normal Action_Normalize_def)
  have a: "Action_Validate (cln_Action sample_cleanup) ''action'' = []"
    unfolding Action_Validate_Nil
    by (simp add: sample_cleanup_def sample_strings sample_not_blank actionKind_Valid_def validEnum_def
        actionKinds_def retention_Valid_def retentions_def actionStatus_Valid_def actionStatuses_def)
  have e: "ent_Path sample_entry = ''/w/a''" "ent_FilesystemID sample_entry = \<lparr>fs_Device = 8, fs_Inode = 42\<rparr>"
    by (simp_all add: sample_entry_def)
  show ?thesis
    unfolding n ValidateInitial_None CleanupItem_Validate_def
    using a by (simp add: sample_cleanup_def sample_strings sample_not_blank sample_entry_valid e)
qed

definition sample_codec :: codec where
  "sample_codec =
     \<lparr>enc_Entry = (\<lambda>_. Some ''e''), dec_Entry = (\<lambda>_. Some sample_entry), enc_Action = (\<lambda>_. Some ''a''),
      dec_Action = (\<lambda>_. Some (cln_Action sample_cleanup)), fmt_Time = (\<lambda>_. ''t''), parse_Time = (\<lambda>_. Some 10)\<rparr>"

definition sample_row :: "cleanup_state \<Rightarrow> cleanup_row" where
  "sample_row s =
     \<lparr>row_CleanupID = ''c1'', row_PlanID = ''p1'', row_ActionID = ''a1'', row_Source = ''/w/a'',
      row_Destination = ''/q/c1/a1/item'', row_State = s, row_Entry = ''e'', row_Action = ''a'',
      row_Quarantined = None, row_CreatedAt = ''t'', row_UpdatedAt = ''t'', row_MovedAt = None,
      row_ExpiresAt = None, row_Reason = ''''\<rparr>"

lemma sample_normal: "CleanupItem_Normalize sample_cleanup = sample_cleanup"
  by (simp add: CleanupItem_Normalize_def sample_cleanup_def sample_entry_normal Action_Normalize_def)

lemma sample_valid: "CleanupItem_Validate sample_cleanup = None" "ValidateInitial sample_cleanup = None"
  using sample_cleanup_initial by (simp_all add: ValidateInitial_None sample_normal)

lemma sample_constraints: "cleanupState_Valid s \<Longrightarrow> constraints_hold [sample_row s]"
  by (simp add: constraints_hold_def distinct_by_def active_unique_def sample_row_def)

abbreviation sample_journal :: journal where
  "sample_journal \<equiv> \<lparr>jnl_Rows = [sample_row CleanupPrepared],
     jnl_Events = [transition_event None (sample_row CleanupPrepared)]\<rparr>"

lemma sample_insert: "InsertCleanup sample_codec sample_cleanup empty_journal = Inr sample_journal"
proof -
  have "insert_row (sample_row CleanupPrepared) empty_journal = Some sample_journal"
    by (simp add: insert_row_def empty_journal_def sample_constraints)
  then show ?thesis
    by (simp add: InsertCleanup_def Let_def sample_normal sample_valid cleanupSnapshots_def)
       (simp add: sample_cleanup_def sample_codec_def sample_row_def)
qed

lemma sample_journal_ok: "journal_ok sample_journal"
  using InsertCleanup_ok [OF empty_journal_ok sample_insert] by blast

lemma sample_lookup: "cleanupItem sample_codec sample_journal (''c1'', ''a1'') = Inr sample_cleanup"
proof -
  have "\<lparr>cln_CleanupID = ''c1'', cln_PlanID = ''p1'', cln_ActionID = ''a1'', cln_Source = ''/w/a'',
      cln_Destination = ''/q/c1/a1/item'', cln_State = CleanupPrepared, cln_Entry = sample_entry,
      cln_Action = cln_Action sample_cleanup, cln_Quarantined = None, cln_CreatedAt = 10, cln_UpdatedAt = 10,
      cln_MovedAt = None, cln_ExpiresAt = None, cln_Reason = ''''\<rparr> = sample_cleanup"
    by (simp add: sample_cleanup_def)
  then show ?thesis
    using sample_valid(1)
    by (simp add: cleanupItem_def row_key_def scanCleanup_def optionalCleanupTime_def sample_row_def sample_codec_def Let_def)
qed

definition sample_restored :: cleanup_item where
  "sample_restored = sample_cleanup\<lparr>cln_State := CleanupRestored\<rparr>"

lemma sample_update:
  "UpdateCleanup sample_codec sample_restored CleanupPrepared sample_journal =
     Inr \<lparr>jnl_Rows = [sample_row CleanupRestored],
       jnl_Events = [transition_event None (sample_row CleanupPrepared),
         transition_event (Some CleanupPrepared) (sample_row CleanupRestored)]\<rparr>"
proof -
  have n: "CleanupItem_Normalize sample_restored = sample_restored"
    by (simp add: CleanupItem_Normalize_def sample_restored_def sample_cleanup_def sample_entry_normal
        Action_Normalize_def)
  have v: "CleanupItem_Validate sample_restored = None"
    using sample_valid(1) by (simp add: CleanupItem_Validate_def sample_restored_def sample_cleanup_def)
  have k: "item_key_of sample_restored = (''c1'', ''a1'')"
    by (simp add: item_key_of_def sample_restored_def sample_cleanup_def)
  have f: "cln_State sample_restored = CleanupRestored" "cln_State sample_cleanup = CleanupPrepared"
    "cln_UpdatedAt sample_restored = cln_UpdatedAt sample_cleanup"
    "cln_Quarantined sample_restored = None" "cln_Quarantined sample_cleanup = None"
    "cln_MovedAt sample_restored = None" "cln_ExpiresAt sample_restored = None" "cln_Reason sample_restored = ''''"
    by (simp_all add: sample_restored_def sample_cleanup_def)
  have i: "checkCleanupImmutable sample_codec sample_cleanup sample_restored = None"
    by (simp add: checkCleanupImmutable_def cleanupSnapshots_def sample_restored_def sample_codec_def
        kept_option_def sample_cleanup_def)
  have s: "cleanupSnapshots sample_codec sample_restored = Some (''e'', ''a'')"
    by (simp add: cleanupSnapshots_def sample_codec_def)
  have u: "update_rows
      (\<lambda>r. row_key r = (''c1'', ''a1'') \<and> row_State r = CleanupPrepared \<and> row_Entry r = ''e'' \<and> row_Action r = ''a'')
      (\<lambda>r. r\<lparr>row_State := CleanupRestored, row_Quarantined := None, row_UpdatedAt := ''t'',
         row_MovedAt := None, row_ExpiresAt := None, row_Reason := ''''\<rparr>) sample_journal =
      Some (1, \<lparr>jnl_Rows = [sample_row CleanupRestored],
       jnl_Events = [transition_event None (sample_row CleanupPrepared),
         transition_event (Some CleanupPrepared) (sample_row CleanupRestored)]\<rparr>)"
    using sample_constraints [of CleanupRestored]
    by (simp add: update_rows_def Let_def changed_events_def row_key_def sample_row_def)
  have t: "fmt_Time sample_codec x = ''t''" for x by (simp add: sample_codec_def)
  show ?thesis
    unfolding UpdateCleanup_def Let_def n v k f sample_lookup
    by (simp add: CanTransitionTo_def f t i s u)
qed

section \<open>Witnesses\<close>

abbreviation sample_final :: journal where
  "sample_final \<equiv> \<lparr>jnl_Rows = [sample_row CleanupRestored],
     jnl_Events = [transition_event None (sample_row CleanupPrepared),
       transition_event (Some CleanupPrepared) (sample_row CleanupRestored)]\<rparr>"

lemma sample_run:
  "run_calls sample_codec [CallInsert sample_cleanup, CallUpdate sample_restored CleanupPrepared] = sample_final"
  by (simp add: run_calls_def apply_call_def sample_insert sample_update)

lemma sample_run_state:
  "journal_state (run_calls sample_codec [CallInsert sample_cleanup, CallUpdate sample_restored CleanupPrepared])
     (''c1'', ''a1'') = Some CleanupRestored"
  by (simp add: sample_run journal_state_def row_key_def sample_row_def)

lemma journal_terminal_final_witness:
  "journal_state (run_calls sample_codec ([CallInsert sample_cleanup, CallUpdate sample_restored CleanupPrepared]
     @ [CallUpdate sample_cleanup CleanupRestored, CallInsert sample_cleanup])) (''c1'', ''a1'') = Some CleanupRestored"
  using journal_terminal_final [OF sample_run_state,
      of "[CallUpdate sample_cleanup CleanupRestored, CallInsert sample_cleanup]"] by simp

lemma UpdateCleanup_exact_witness:
  "\<exists>r w. [x \<leftarrow> jnl_Rows sample_journal. row_key x = (''c1'', ''a1'')] = [r] \<and> row_State w = CleanupRestored
    \<and> jnl_Events sample_final = jnl_Events sample_journal @ [transition_event (Some CleanupPrepared) w]"
proof -
  have k: "item_key_of sample_restored = (''c1'', ''a1'')" "cln_State sample_restored = CleanupRestored"
    by (simp_all add: item_key_of_def sample_restored_def sample_cleanup_def)
  show ?thesis
    using UpdateCleanup_exact [OF sample_journal_ok sample_update] unfolding k by blast
qed



end
