(* ===== verification/StoreRecords.thy ===== *)
theory StoreRecords
  imports CorePlan "HOL-Library.Monad_Syntax" "HOL-Library.Option_ord"
begin

text \<open>
  \<open>internal/store/records.go\<close> and its tables in \<open>migrations.go\<close>: scans, inventories, plans with their
  actions, and approvals.  JSON documents and the text of a timestamp are parameters; an operation returns
  an error or the tables after its statements.  Of an inventory row the columns that only index the stored
  document are left out.  \<open>json_Array\<close> is SQLite's view of a stored collector list: nothing when the text is no
  JSON array, and of each element that is an object its \<open>name\<close> and \<open>status\<close>.  \<open>tbl_Pinned\<close> stands for the
  scan identifiers that the cycle and advisory tables refer to.
\<close>

section \<open>Tables\<close>

record record_codec =
  enc_Strings :: "string list \<Rightarrow> string option"
  dec_Strings :: "string \<Rightarrow> string list option"
  enc_Rejected :: "rejected_action list \<Rightarrow> string option"
  dec_Rejected :: "string \<Rightarrow> rejected_action list option"
  enc_Reports :: "collector_report list \<Rightarrow> string option"
  dec_Reports :: "string \<Rightarrow> collector_report list option"
  enc_Document :: "entry \<Rightarrow> string option"
  dec_Document :: "string \<Rightarrow> entry option"
  enc_Plan :: "plan \<Rightarrow> string option"
  enc_Recommendation :: "recommendation \<Rightarrow> string option"
  dec_Recommendation :: "string \<Rightarrow> recommendation option"
  rfc_Time :: "time \<Rightarrow> string"
  rfc_Parse :: "string \<Rightarrow> time option"
  json_Array :: "string \<Rightarrow> (string \<times> string) option list option"

record scan_row =
  scr_ID :: string
  scr_ContractVersion :: int
  scr_Roots :: string
  scr_Status :: string
  scr_StartedAt :: string
  scr_FinishedAt :: "string option"
  scr_EntryCount :: int
  scr_Error :: string
  scr_Collectors :: string

record inventory_row =
  inv_ScanID :: string
  inv_Path :: string
  inv_Document :: string

record plan_row =
  plr_ID :: string
  plr_ScanID :: string
  plr_ContractVersion :: int
  plr_Status :: string
  plr_CreatedAt :: string
  plr_EvidenceDigest :: string
  plr_PolicyDigest :: string
  plr_Advisor :: string

record action_row =
  acr_ID :: string
  acr_PlanID :: string
  acr_Path :: string
  acr_Kind :: string
  acr_Class :: string
  acr_Retention :: string
  acr_Confidence :: go_float
  acr_Status :: string
  acr_Destination :: string
  acr_Device :: int64
  acr_Inode :: int64
  acr_Fingerprint :: string
  acr_Reasons :: string
  acr_Rules :: string
  acr_Rejected :: string
  acr_Guards :: string
  acr_CreatedAt :: string
  acr_AppliedAt :: "string option"

record usage_row =
  usr_ID :: string
  usr_ScanID :: "string option"
  usr_Provider :: string
  usr_Model :: string
  usr_RequestKind :: string
  usr_PromptTokens :: int64
  usr_CompletionTokens :: int64
  usr_EstimatedCostUSD :: go_float
  usr_CreatedAt :: string

record decision_row =
  der_Key :: string
  der_Fingerprint :: string
  der_SchemaVersion :: int
  der_Model :: string
  der_PolicyDigest :: string
  der_ResolvedModel :: string
  der_Recommendation :: string
  der_CreatedAt :: string
  der_ExpiresAt :: string

record approval_row =
  apr_PlanID :: string
  apr_ActionID :: string
  apr_Approver :: string
  apr_ApprovedAt :: string
  apr_Note :: string

record tables =
  tbl_Scans :: "scan_row list"
  tbl_Inventories :: "inventory_row list"
  tbl_Plans :: "plan_row list"
  tbl_Actions :: "action_row list"
  tbl_Approvals :: "approval_row list"
  tbl_Usage :: "usage_row list"
  tbl_Decisions :: "decision_row list"
  tbl_Pinned :: "string list"
datatype record_error =
  InvalidRecord field_errors | NotFound | Immutable | EncodeFails | DecodeFails | ConstraintFails
| UnknownStatus string

section \<open>Scans\<close>

definition encodeScanColumns :: "record_codec \<Rightarrow> scan \<Rightarrow> (string \<times> string) option" where
  "encodeScanColumns c s =
     (case enc_Strings c (scan_Roots s) of
        None \<Rightarrow> None
      | Some rts \<Rightarrow> (case enc_Reports c (scan_Collectors s) of None \<Rightarrow> None | Some reports \<Rightarrow> Some (rts, reports)))"

definition CreateScan :: "record_codec \<Rightarrow> scan \<Rightarrow> tables \<Rightarrow> record_error + tables" where
  "CreateScan c s0 t =
     (let s = Scan_Normalize s0
      in case Scan_Validate s of
           Some es \<Rightarrow> Inl (InvalidRecord es)
         | None \<Rightarrow>
       (case encodeScanColumns c s of
          None \<Rightarrow> Inl EncodeFails
        | Some (rts, reports) \<Rightarrow>
            if scan_ID s \<in> set (map scr_ID (tbl_Scans t)) then Inl ConstraintFails
            else Inr (t\<lparr>tbl_Scans := tbl_Scans t @
              [\<lparr>scr_ID = scan_ID s, scr_ContractVersion = scan_ContractVersion s, scr_Roots = rts,
                scr_Status = scanStatus_str (scan_Status s), scr_StartedAt = rfc_Time c (scan_StartedAt s),
                scr_FinishedAt = map_option (rfc_Time c) (scan_FinishedAt s), scr_EntryCount = scan_EntryCount s,
                scr_Error = scan_Error s, scr_Collectors = reports\<rparr>]\<rparr>)))"

definition UpdateScan :: "record_codec \<Rightarrow> scan \<Rightarrow> tables \<Rightarrow> record_error + tables" where
  "UpdateScan c s0 t =
     (let s = Scan_Normalize s0
      in case Scan_Validate s of
           Some es \<Rightarrow> Inl (InvalidRecord es)
         | None \<Rightarrow>
       (case encodeScanColumns c s of
          None \<Rightarrow> Inl EncodeFails
        | Some (rts, reports) \<Rightarrow>
            if scan_ID s \<notin> set (map scr_ID (tbl_Scans t)) then Inl NotFound
            else Inr (t\<lparr>tbl_Scans := map (\<lambda>r. if scr_ID r = scan_ID s
              then r\<lparr>scr_Roots := rts, scr_Status := scanStatus_str (scan_Status s),
                scr_StartedAt := rfc_Time c (scan_StartedAt s),
                scr_FinishedAt := map_option (rfc_Time c) (scan_FinishedAt s),
                scr_EntryCount := scan_EntryCount s, scr_Error := scan_Error s, scr_Collectors := reports\<rparr>
              else r) (tbl_Scans t)\<rparr>)))"

text \<open>Reading an optional timestamp.\<close>

definition read_optional :: "record_codec \<Rightarrow> string option \<Rightarrow> time option option" where
  "read_optional c v = (case v of None \<Rightarrow> Some None | Some x \<Rightarrow> map_option Some (rfc_Parse c x))"

text \<open>A parsed enumeration, and a row that decodes.\<close>

definition parsed :: "'e + 'a \<Rightarrow> 'a option" where
  "parsed x = (case x of Inl _ \<Rightarrow> None | Inr a \<Rightarrow> Some a)"

definition or_decode_error :: "'a option \<Rightarrow> record_error + 'a" where
  "or_decode_error x = (case x of None \<Rightarrow> Inl DecodeFails | Some a \<Rightarrow> Inr a)"

definition scanScanRow :: "record_codec \<Rightarrow> scan_row \<Rightarrow> record_error + scan" where
  "scanScanRow c r = or_decode_error (do {
      rts \<leftarrow> dec_Strings c (scr_Roots r);
      reports \<leftarrow> dec_Reports c (scr_Collectors r);
      _ \<leftarrow> if list_all (\<lambda>x. collectorStatus_Valid (rep_Status x)) reports then Some () else None;
      status \<leftarrow> parsed (ParseScanStatus (scr_Status r));
      started \<leftarrow> rfc_Parse c (scr_StartedAt r);
      finished \<leftarrow> read_optional c (scr_FinishedAt r);
      Some \<lparr>scan_ContractVersion = scr_ContractVersion r, scan_ID = scr_ID r, scan_Roots = rts,
        scan_Status = status, scan_StartedAt = started, scan_FinishedAt = finished,
        scan_EntryCount = scr_EntryCount r, scan_Collectors = reports, scan_Error = scr_Error r\<rparr> })"

definition Scan :: "record_codec \<Rightarrow> string \<Rightarrow> tables \<Rightarrow> record_error + scan" where
  "Scan c i t =
     (case find (\<lambda>r. scr_ID r = i) (tbl_Scans t) of None \<Rightarrow> Inl NotFound | Some r \<Rightarrow> scanScanRow c r)"

text \<open>Reading rows in order, up to the first that cannot be read.\<close>

fun read_all :: "('r \<Rightarrow> 'e + 'a) \<Rightarrow> 'r list \<Rightarrow> 'e + 'a list" where
  "read_all f [] = Inr []"
| "read_all f (r # rs) =
     (case f r of Inl e \<Rightarrow> Inl e
      | Inr a \<Rightarrow> (case read_all f rs of Inl e \<Rightarrow> Inl e | Inr xs \<Rightarrow> Inr (a # xs)))"

text \<open>The row with the greatest text of the time, then of the identifier.\<close>

definition newest :: "('r \<Rightarrow> string \<times> string) \<Rightarrow> 'r list \<Rightarrow> 'r option" where
  "newest key rows = (case sort_key key rows of [] \<Rightarrow> None | xs \<Rightarrow> Some (last xs))"

definition LatestScan :: "record_codec \<Rightarrow> scan_status \<Rightarrow> tables \<Rightarrow> record_error + scan" where
  "LatestScan c status t =
     (if \<not> scanStatus_Valid status then Inl (UnknownStatus (scanStatus_str status))
      else case newest (\<lambda>r. (scr_StartedAt r, scr_ID r))
          (filter (\<lambda>r. scr_Status r = scanStatus_str status) (tbl_Scans t)) of
        None \<Rightarrow> Inl NotFound | Some r \<Rightarrow> scanScanRow c r)"

definition ListScans :: "record_codec \<Rightarrow> nat \<Rightarrow> tables \<Rightarrow> record_error + scan list" where
  "ListScans c limit t =
     (let rows = rev (sort_key (\<lambda>r. (scr_StartedAt r, scr_ID r)) (tbl_Scans t))
      in read_all (scanScanRow c) (if limit = 0 then rows else take limit rows))"

section \<open>Inventories\<close>
definition PutEntry :: "record_codec \<Rightarrow> string \<Rightarrow> entry \<Rightarrow> tables \<Rightarrow> record_error + tables" where
  "PutEntry c scanID e0 t =
     (if scanID = '''' then Inl ConstraintFails
      else let e = Entry_Normalize e0
      in case Entry_Validate e of
           Some es \<Rightarrow> Inl (InvalidRecord es)
         | None \<Rightarrow>
       (case enc_Document c e of
          None \<Rightarrow> Inl EncodeFails
        | Some doc \<Rightarrow>
            if scanID \<notin> set (map scr_ID (tbl_Scans t)) then Inl ConstraintFails
            else let row = \<lparr>inv_ScanID = scanID, inv_Path = ent_Path e, inv_Document = doc\<rparr>
            in Inr (t\<lparr>tbl_Inventories :=
              (if \<exists>r \<in> set (tbl_Inventories t). inv_ScanID r = scanID \<and> inv_Path r = ent_Path e
               then map (\<lambda>r. if inv_ScanID r = scanID \<and> inv_Path r = ent_Path e then row else r) (tbl_Inventories t)
               else tbl_Inventories t @ [row])\<rparr>)))"

definition decodeEntry :: "record_codec \<Rightarrow> string \<Rightarrow> record_error + entry" where
  "decodeEntry c doc =
     (case dec_Document c doc of
        None \<Rightarrow> Inl DecodeFails
      | Some e \<Rightarrow> (case Entry_Validate e of Some es \<Rightarrow> Inl (InvalidRecord es) | None \<Rightarrow> Inr e))"

definition stored_Entry :: "record_codec \<Rightarrow> string \<Rightarrow> string \<Rightarrow> tables \<Rightarrow> record_error + entry" where
  "stored_Entry c scanID path t =
     (case find (\<lambda>r. inv_ScanID r = scanID \<and> inv_Path r = path) (tbl_Inventories t) of
        None \<Rightarrow> Inl NotFound | Some r \<Rightarrow> decodeEntry c (inv_Document r))"


definition Entries :: "record_codec \<Rightarrow> string \<Rightarrow> tables \<Rightarrow> record_error + entry list" where
  "Entries c scanID t =
     read_all (\<lambda>r. decodeEntry c (inv_Document r))
       (sort_key inv_Path (filter (\<lambda>r. inv_ScanID r = scanID) (tbl_Inventories t)))"

section \<open>Plans\<close>

definition action_row_of :: "record_codec \<Rightarrow> string \<Rightarrow> action \<Rightarrow> action_row option" where
  "action_row_of c planID a =
     do { reasons \<leftarrow> enc_Strings c (act_Reasons a);
      gds \<leftarrow> enc_Strings c (act_Guards a);
      rls \<leftarrow> enc_Strings c (act_Rules a);
      rejected \<leftarrow> enc_Rejected c (act_Rejected a);
      Some \<lparr>acr_ID = act_ID a, acr_PlanID = planID, acr_Path = act_Path a, acr_Kind = actionKind_str (act_Kind a),
        acr_Class = artifactClass_str (act_Class a), acr_Retention = retention_str (act_Retention a),
        acr_Confidence = act_Confidence a, acr_Status = actionStatus_str (act_Status a),
        acr_Destination = act_Destination a, acr_Device = ucast (fs_Device (act_FilesystemID a)),
        acr_Inode = ucast (fs_Inode (act_FilesystemID a)), acr_Fingerprint = act_Fingerprint a,
        acr_Reasons = reasons, acr_Rules = rls, acr_Rejected = rejected, acr_Guards = gds,
        acr_CreatedAt = rfc_Time c (act_CreatedAt a), acr_AppliedAt = map_option (rfc_Time c) (act_AppliedAt a)\<rparr> }"

definition action_of_row :: "record_codec \<Rightarrow> action_row \<Rightarrow> record_error + action" where
  "action_of_row c r = or_decode_error (do {
      cls \<leftarrow> parsed (ParseArtifactClass (acr_Class r));
      rls \<leftarrow> dec_Strings c (acr_Rules r);
      rejected \<leftarrow> dec_Rejected c (acr_Rejected r);
      kind \<leftarrow> parsed (ParseActionKind (acr_Kind r));
      retention \<leftarrow> parsed (ParseRetention (acr_Retention r));
      status \<leftarrow> parsed (ParseActionStatus (acr_Status r));
      reasons \<leftarrow> dec_Strings c (acr_Reasons r);
      gds \<leftarrow> dec_Strings c (acr_Guards r);
      created \<leftarrow> rfc_Parse c (acr_CreatedAt r);
      applied \<leftarrow> read_optional c (acr_AppliedAt r);
      Some \<lparr>act_ID = acr_ID r, act_PlanID = acr_PlanID r, act_Path = acr_Path r, act_Kind = kind, act_Class = cls,
        act_Retention = retention, act_Confidence = acr_Confidence r, act_Status = status,
        act_Destination = acr_Destination r,
        act_FilesystemID = \<lparr>fs_Device = ucast (acr_Device r), fs_Inode = ucast (acr_Inode r)\<rparr>,
        act_Fingerprint = acr_Fingerprint r, act_Reasons = reasons, act_Rules = rls, act_Rejected = rejected,
        act_Guards = gds, act_CreatedAt = created, act_AppliedAt = applied\<rparr> })"

definition planActions :: "record_codec \<Rightarrow> string \<Rightarrow> tables \<Rightarrow> record_error + action list" where
  "planActions c planID t =
     read_all (action_of_row c)
       (sort_key (\<lambda>r. (acr_Path r, acr_ID r)) (filter (\<lambda>r. acr_PlanID r = planID) (tbl_Actions t)))"

definition plan_of_row :: "record_codec \<Rightarrow> plan_row \<Rightarrow> action list \<Rightarrow> plan option" where
  "plan_of_row c r actions = do {
      status \<leftarrow> parsed (ParsePlanStatus (plr_Status r));
      created \<leftarrow> rfc_Parse c (plr_CreatedAt r);
      Some \<lparr>plan_ContractVersion = plr_ContractVersion r, plan_ID = plr_ID r, plan_ScanID = plr_ScanID r,
        plan_Status = status, plan_CreatedAt = created, plan_EvidenceDigest = plr_EvidenceDigest r,
        plan_PolicyDigest = plr_PolicyDigest r, plan_Advisor = plr_Advisor r, plan_Actions = actions\<rparr> }"

definition stored_Plan :: "record_codec \<Rightarrow> string \<Rightarrow> tables \<Rightarrow> record_error + plan" where
  "stored_Plan c i t =
     (case find (\<lambda>r. plr_ID r = i) (tbl_Plans t) of
        None \<Rightarrow> Inl NotFound
      | Some r \<Rightarrow>
          if plan_of_row c r [] = None then Inl DecodeFails
          else case planActions c i t of
            Inl e \<Rightarrow> Inl e
          | Inr actions \<Rightarrow> or_decode_error (plan_of_row c r actions))"

text \<open>Two plans are compared by their documents, without their creation times.\<close>

definition withoutTimestamps :: "plan \<Rightarrow> plan" where
  "withoutTimestamps p =
     p\<lparr>plan_CreatedAt := time_zero, plan_Actions := map (\<lambda>a. a\<lparr>act_CreatedAt := time_zero\<rparr>) (plan_Actions p)\<rparr>"

definition plansEqual :: "record_codec \<Rightarrow> plan \<Rightarrow> plan \<Rightarrow> bool option" where
  "plansEqual c a b =
     (case enc_Plan c (Plan_Normalize (withoutTimestamps a)) of None \<Rightarrow> None | Some x \<Rightarrow>
      case enc_Plan c (Plan_Normalize (withoutTimestamps b)) of None \<Rightarrow> None | Some y \<Rightarrow> Some (x = y))"

definition advisorOrRulesOnly :: "string \<Rightarrow> string" where
  "advisorOrRulesOnly s = (if s = '''' then ''rules-only'' else s)"

text \<open>Inserting the actions of a plan in order; SQLite stores NaN as NULL, which the column refuses.\<close>

fun insert_actions :: "record_codec \<Rightarrow> string \<Rightarrow> action list \<Rightarrow> tables \<Rightarrow> record_error + tables" where
  "insert_actions c planID [] t = Inr t"
| "insert_actions c planID (a # as) t =
     (case action_row_of c planID a of
        None \<Rightarrow> Inl EncodeFails
      | Some r \<Rightarrow>
          if acr_ID r \<in> set (map acr_ID (tbl_Actions t)) \<or> acr_Confidence r = NaN then Inl ConstraintFails
          else insert_actions c planID as (t\<lparr>tbl_Actions := tbl_Actions t @ [r]\<rparr>))"

definition SavePlan :: "record_codec \<Rightarrow> plan \<Rightarrow> tables \<Rightarrow> record_error + tables" where
  "SavePlan c p0 t =
     (let p = Plan_Normalize p0
      in case Plan_Validate p of
           Some es \<Rightarrow> Inl (InvalidRecord es)
         | None \<Rightarrow>
       (case stored_Plan c (plan_ID p) t of
          Inr existing \<Rightarrow>
            (case plansEqual c existing p of
               None \<Rightarrow> Inl EncodeFails
             | Some same \<Rightarrow> if same then Inr t else Inl Immutable)
        | Inl e \<Rightarrow>
            if e \<noteq> NotFound then Inl e
            else if plan_ScanID p \<notin> set (map scr_ID (tbl_Scans t)) then Inl ConstraintFails
            else insert_actions c (plan_ID p) (plan_Actions p) (t\<lparr>tbl_Plans := tbl_Plans t @
              [\<lparr>plr_ID = plan_ID p, plr_ScanID = plan_ScanID p, plr_ContractVersion = plan_ContractVersion p,
                plr_Status = planStatus_str (plan_Status p), plr_CreatedAt = rfc_Time c (plan_CreatedAt p),
                plr_EvidenceDigest = plan_EvidenceDigest p, plr_PolicyDigest = plan_PolicyDigest p,
                plr_Advisor = advisorOrRulesOnly (plan_Advisor p)\<rparr>]\<rparr>)))"

definition LatestPlan :: "record_codec \<Rightarrow> string \<Rightarrow> tables \<Rightarrow> record_error + plan" where
  "LatestPlan c scanID t =
     (case newest (\<lambda>r. (plr_CreatedAt r, plr_ID r))
          (filter (\<lambda>r. scanID = '''' \<or> plr_ScanID r = scanID) (tbl_Plans t)) of
        None \<Rightarrow> Inl NotFound | Some r \<Rightarrow> stored_Plan c (plr_ID r) t)"

definition ListPlans :: "record_codec \<Rightarrow> nat \<Rightarrow> tables \<Rightarrow> record_error + plan list" where
  "ListPlans c limit t =
     (let ids = map plr_ID (rev (sort_key (\<lambda>r. (plr_CreatedAt r, plr_ID r)) (tbl_Plans t)))
      in read_all (\<lambda>i. stored_Plan c i t) (if limit = 0 then ids else take limit ids))"

definition UpdateActionStatus ::
    "record_codec \<Rightarrow> string \<Rightarrow> action_status \<Rightarrow> time option \<Rightarrow> tables \<Rightarrow> record_error + tables" where
  "UpdateActionStatus c actionID status appliedAt t =
     (if \<not> actionStatus_Valid status then Inl (UnknownStatus (actionStatus_str status))
      else if actionID \<notin> set (map acr_ID (tbl_Actions t)) then Inl NotFound
      else Inr (t\<lparr>tbl_Actions := map (\<lambda>r. if acr_ID r = actionID
        then r\<lparr>acr_Status := actionStatus_str status, acr_AppliedAt := map_option (rfc_Time c) appliedAt\<rparr>
        else r) (tbl_Actions t)\<rparr>))"

section \<open>Approvals\<close>

definition Approve :: "record_codec \<Rightarrow> approval \<Rightarrow> tables \<Rightarrow> record_error + tables" where
  "Approve c a0 t =
     (let a = Approval_Normalize a0
      in case Approval_Validate a of
           Some es \<Rightarrow> Inl (InvalidRecord es)
         | None \<Rightarrow>
            if \<exists>r \<in> set (tbl_Approvals t). apr_PlanID r = app_PlanID a \<and> apr_ActionID r = app_ActionID a then Inr t
            else if app_PlanID a \<notin> set (map plr_ID (tbl_Plans t)) \<or> app_ActionID a \<notin> set (map acr_ID (tbl_Actions t))
            then Inl ConstraintFails
            else Inr (t\<lparr>tbl_Approvals := tbl_Approvals t @
              [\<lparr>apr_PlanID = app_PlanID a, apr_ActionID = app_ActionID a, apr_Approver = app_Approver a,
                apr_ApprovedAt = rfc_Time c (app_ApprovedAt a), apr_Note = app_Note a\<rparr>]\<rparr>))"

definition approval_of_row :: "record_codec \<Rightarrow> approval_row \<Rightarrow> record_error + approval" where
  "approval_of_row c r =
     (case rfc_Parse c (apr_ApprovedAt r) of
        None \<Rightarrow> Inl DecodeFails
      | Some at_ \<Rightarrow> Inr \<lparr>app_PlanID = apr_PlanID r, app_ActionID = apr_ActionID r, app_Approver = apr_Approver r,
          app_ApprovedAt = at_, app_Note = apr_Note r\<rparr>)"

definition Approvals :: "record_codec \<Rightarrow> string \<Rightarrow> tables \<Rightarrow> record_error + approval list" where
  "Approvals c planID t =
     read_all (approval_of_row c)
       (sort_key apr_ActionID (filter (\<lambda>r. apr_PlanID r = planID) (tbl_Approvals t)))"

section \<open>Model usage and cached decisions\<close>

definition RecordModelUsage :: "record_codec \<Rightarrow> model_usage \<Rightarrow> tables \<Rightarrow> record_error + tables" where
  "RecordModelUsage c u t =
     (case ModelUsage_Validate u of
        Some es \<Rightarrow> Inl (InvalidRecord es)
      | None \<Rightarrow>
          if use_ID u \<in> set (map usr_ID (tbl_Usage t)) \<or> use_EstimatedCostUSD u = NaN
            \<or> use_ScanID u \<noteq> '''' \<and> use_ScanID u \<notin> set (map scr_ID (tbl_Scans t))
          then Inl ConstraintFails
          else Inr (t\<lparr>tbl_Usage := tbl_Usage t @
            [\<lparr>usr_ID = use_ID u, usr_ScanID = (if use_ScanID u = '''' then None else Some (use_ScanID u)),
              usr_Provider = use_Provider u, usr_Model = use_Model u, usr_RequestKind = use_RequestKind u,
              usr_PromptTokens = use_PromptTokens u, usr_CompletionTokens = use_CompletionTokens u,
              usr_EstimatedCostUSD = use_EstimatedCostUSD u, usr_CreatedAt = rfc_Time c (use_CreatedAt u)\<rparr>]\<rparr>))"

record model_decision =
  mdd_Key :: string
  mdd_Fingerprint :: string
  mdd_SchemaVersion :: int
  mdd_Model :: string
  mdd_PolicyDigest :: string
  mdd_ResolvedModel :: string
  mdd_Recommendation :: recommendation
  mdd_CreatedAt :: time
  mdd_ExpiresAt :: time

definition PutModelDecision :: "record_codec \<Rightarrow> model_decision \<Rightarrow> tables \<Rightarrow> record_error + tables" where
  "PutModelDecision c d t =
     (if mdd_Key d = '''' then Inl ConstraintFails
      else case ErrorOrNil (Recommendation_Validate (mdd_Recommendation d) ''recommendation'') of
        Some es \<Rightarrow> Inl (InvalidRecord es)
      | None \<Rightarrow>
      (case enc_Recommendation c (mdd_Recommendation d) of
         None \<Rightarrow> Inl EncodeFails
       | Some doc \<Rightarrow>
           if mdd_Key d \<in> set (map der_Key (tbl_Decisions t))
           then Inr (t\<lparr>tbl_Decisions := map (\<lambda>r. if der_Key r = mdd_Key d
             then r\<lparr>der_ResolvedModel := mdd_ResolvedModel d, der_Recommendation := doc,
               der_CreatedAt := rfc_Time c (mdd_CreatedAt d), der_ExpiresAt := rfc_Time c (mdd_ExpiresAt d)\<rparr>
             else r) (tbl_Decisions t)\<rparr>)
           else Inr (t\<lparr>tbl_Decisions := tbl_Decisions t @
             [\<lparr>der_Key = mdd_Key d, der_Fingerprint = mdd_Fingerprint d, der_SchemaVersion = mdd_SchemaVersion d,
               der_Model = mdd_Model d, der_PolicyDigest = mdd_PolicyDigest d,
               der_ResolvedModel = mdd_ResolvedModel d, der_Recommendation = doc,
               der_CreatedAt = rfc_Time c (mdd_CreatedAt d), der_ExpiresAt = rfc_Time c (mdd_ExpiresAt d)\<rparr>]\<rparr>)))"

text \<open>A cached answer, or a miss: stale and undecodable rows are misses.\<close>

definition ModelDecision :: "record_codec \<Rightarrow> string \<Rightarrow> time \<Rightarrow> tables \<Rightarrow> recommendation option" where
  "ModelDecision c key now t = do {
      r \<leftarrow> find (\<lambda>r. der_Key r = key) (tbl_Decisions t);
      expires \<leftarrow> rfc_Parse c (der_ExpiresAt r);
      _ \<leftarrow> if now < expires then Some () else None;
      answer \<leftarrow> dec_Recommendation c (der_Recommendation r);
      if Recommendation_Validate answer ''recommendation'' = [] then Some answer else None }"

section \<open>Scan history\<close>

text \<open>
  \<open>internal/store/history.go\<close>: trimming the scans nothing refers to.  Deleting a scan also deletes its inventory
  rows and its plans with their actions and approvals, by the foreign keys of the schema.
\<close>

definition RecentScanLimit :: nat where "RecentScanLimit = 256"

definition padded :: "string \<Rightarrow> string \<times> string" where
  "padded s = (take 19 s, take 9 (filter (\<lambda>ch. ch \<noteq> CHR ''Z'') (take 9 (drop 20 s)) @ ''000000000''))"

definition recent_scans :: "tables \<Rightarrow> string list" where
  "recent_scans t =
     take RecentScanLimit (map scr_ID (rev (sort_key (\<lambda>r. (padded (scr_StartedAt r), scr_ID r)) (tbl_Scans t))))"

definition deep_scan :: "record_codec \<Rightarrow> scan_row \<Rightarrow> bool" where
  "deep_scan c r \<longleftrightarrow> scr_Status r = ''completed'' \<and>
     (case json_Array c (scr_Collectors r) of
        None \<Rightarrow> False
      | Some xs \<Rightarrow> Some (''deep_size'', ''ran'') \<in> set xs)"

definition last_deep :: "record_codec \<Rightarrow> tables \<Rightarrow> string list" where
  "last_deep c t =
     take 2 (map scr_ID (rev (sort_key (\<lambda>r. (map_option padded (scr_FinishedAt r), scr_ID r))
       (filter (deep_scan c) (tbl_Scans t)))))"

definition trim_candidate :: "record_codec \<Rightarrow> string \<Rightarrow> tables \<Rightarrow> scan_row \<Rightarrow> bool" where
  "trim_candidate c preserveID t r \<longleftrightarrow>
     scr_Status r \<noteq> ''running'' \<and> scr_ID r \<noteq> preserveID
   \<and> (case json_Array c (scr_Collectors r) of None \<Rightarrow> False | Some xs \<Rightarrow> None \<notin> set xs)
   \<and> scr_ID r \<notin> set (recent_scans t) \<and> scr_ID r \<notin> set (last_deep c t)
   \<and> scr_ID r \<notin> set (map plr_ScanID (tbl_Plans t))
   \<and> scr_ID r \<notin> set (tbl_Pinned t)
   \<and> Some (scr_ID r) \<notin> set (map usr_ScanID (tbl_Usage t))"

record scan_history_reduction =
  shr_Scans :: nat
  shr_Entries :: nat
  shr_Documents :: nat

definition scanHistoryPreview :: "record_codec \<Rightarrow> string \<Rightarrow> tables \<Rightarrow> scan_history_reduction" where
  "scanHistoryPreview c preserveID t =
     (let gone = map scr_ID (filter (trim_candidate c preserveID t) (tbl_Scans t));
          rows = filter (\<lambda>r. inv_ScanID r \<in> set gone) (tbl_Inventories t)
      in \<lparr>shr_Scans = length gone, shr_Entries = length rows,
         shr_Documents = sum_list (map (\<lambda>r. length (inv_Document r)) rows)\<rparr>)"

definition delete_scans :: "string list \<Rightarrow> tables \<Rightarrow> tables" where
  "delete_scans gone t =
     (let plans = map plr_ID (filter (\<lambda>r. plr_ScanID r \<in> set gone) (tbl_Plans t));
          acts = map acr_ID (filter (\<lambda>r. acr_PlanID r \<in> set plans) (tbl_Actions t))
      in t\<lparr>tbl_Scans := filter (\<lambda>r. scr_ID r \<notin> set gone) (tbl_Scans t),
           tbl_Inventories := filter (\<lambda>r. inv_ScanID r \<notin> set gone) (tbl_Inventories t),
           tbl_Plans := filter (\<lambda>r. plr_ScanID r \<notin> set gone) (tbl_Plans t),
           tbl_Actions := filter (\<lambda>r. acr_PlanID r \<notin> set plans) (tbl_Actions t),
           tbl_Approvals := filter (\<lambda>r. apr_PlanID r \<notin> set plans \<and> apr_ActionID r \<notin> set acts) (tbl_Approvals t),
           tbl_Usage := map (\<lambda>r. if usr_ScanID r \<in> Some ` set gone then r\<lparr>usr_ScanID := None\<rparr> else r) (tbl_Usage t)\<rparr>)"

definition TrimScanHistory ::
    "record_codec \<Rightarrow> string \<Rightarrow> tables \<Rightarrow> record_error + scan_history_reduction \<times> tables" where
  "TrimScanHistory c preserveID t =
     (let eligible = scanHistoryPreview c preserveID t;
          gone = map scr_ID (filter (trim_candidate c preserveID t) (tbl_Scans t))
      in if shr_Scans eligible = 0 then Inr (eligible, t)
         else if set gone \<inter> set (tbl_Pinned t) \<noteq> {} then Inl ConstraintFails
         else Inr (eligible, delete_scans gone t))"

end
