(* ===== verification/StoreRecordsFacts.thy ===== *)
theory StoreRecordsFacts
  imports StoreRecords
begin

text \<open>
  Facts about the record tables: the integrity the schema declares and that every call keeps it, what a
  saved plan reads back as, and which rows a call leaves alone.
\<close>

section \<open>Calls in transactions\<close>

text \<open>The calls that write, each in its own \<open>Store.Write\<close>: an error rolls the tables back.\<close>

datatype store_call =
  CallCreateScan scan | CallUpdateScan scan | CallPutEntry string entry | CallSavePlan plan
| CallUpdateActionStatus string action_status "time option" | CallApprove approval
| CallRecordModelUsage model_usage | CallPutModelDecision model_decision | CallTrimScanHistory string

fun do_store :: "record_codec \<Rightarrow> store_call \<Rightarrow> tables \<Rightarrow> record_error + tables" where
  "do_store c (CallCreateScan s) t = CreateScan c s t"
| "do_store c (CallUpdateScan s) t = UpdateScan c s t"
| "do_store c (CallPutEntry i e) t = PutEntry c i e t"
| "do_store c (CallSavePlan p) t = SavePlan c p t"
| "do_store c (CallUpdateActionStatus i s a) t = UpdateActionStatus c i s a t"
| "do_store c (CallApprove a) t = Approve c a t"
| "do_store c (CallRecordModelUsage u) t = RecordModelUsage c u t"
| "do_store c (CallPutModelDecision d) t = PutModelDecision c d t"
| "do_store c (CallTrimScanHistory i) t = map_sum id snd (TrimScanHistory c i t)"

definition committed :: "(tables \<Rightarrow> record_error + tables) \<Rightarrow> tables \<Rightarrow> tables" where
  "committed f t = (case f t of Inl _ \<Rightarrow> t | Inr t' \<Rightarrow> t')"

definition run_store :: "record_codec \<Rightarrow> store_call list \<Rightarrow> tables \<Rightarrow> tables" where
  "run_store c calls t = fold (\<lambda>call. committed (do_store c call)) calls t"

lemma run_store_induct:
  assumes "P t" "\<And>call t t'. call \<in> set calls \<Longrightarrow> P t \<Longrightarrow> do_store c call t = Inr t' \<Longrightarrow> P t'"
  shows "P (run_store c calls t)"
  using assms
proof (induction calls arbitrary: t)
  case (Cons x calls)
  have "P (committed (do_store c x) t)"
    using Cons.prems by (auto simp: committed_def split: sum.split)
  then show ?case
    using Cons.IH Cons.prems(2) by (simp add: run_store_def) (metis list.set_intros(2))
qed (simp add: run_store_def)

section \<open>Integrity\<close>

definition tables_ok :: "tables \<Rightarrow> bool" where
  "tables_ok t \<longleftrightarrow>
     distinct (map scr_ID (tbl_Scans t)) \<and> distinct (map plr_ID (tbl_Plans t))
   \<and> distinct (map acr_ID (tbl_Actions t))
   \<and> distinct (map (\<lambda>r. (apr_PlanID r, apr_ActionID r)) (tbl_Approvals t))
   \<and> distinct (map (\<lambda>r. (inv_ScanID r, inv_Path r)) (tbl_Inventories t))
   \<and> inv_ScanID ` set (tbl_Inventories t) \<subseteq> scr_ID ` set (tbl_Scans t)
   \<and> plr_ScanID ` set (tbl_Plans t) \<subseteq> scr_ID ` set (tbl_Scans t)
   \<and> acr_PlanID ` set (tbl_Actions t) \<subseteq> plr_ID ` set (tbl_Plans t)
   \<and> apr_PlanID ` set (tbl_Approvals t) \<subseteq> plr_ID ` set (tbl_Plans t)
   \<and> apr_ActionID ` set (tbl_Approvals t) \<subseteq> acr_ID ` set (tbl_Actions t)
   \<and> set (tbl_Pinned t) \<subseteq> scr_ID ` set (tbl_Scans t)"


lemma CreateScan_InrE:
  assumes "CreateScan c s t = Inr t'"
  obtains r where "t' = t\<lparr>tbl_Scans := tbl_Scans t @ [r]\<rparr>" "scr_ID r \<notin> scr_ID ` set (tbl_Scans t)"
    "scr_ID r = scan_ID s"
  using assms by (auto simp: CreateScan_def Let_def Scan_Normalize_def split: option.splits if_splits)

lemma UpdateScan_InrE:
  assumes "UpdateScan c s t = Inr t'"
  obtains f where "t' = t\<lparr>tbl_Scans := map f (tbl_Scans t)\<rparr>" "\<And>r. scr_ID (f r) = scr_ID r"
  using assms by (auto simp: UpdateScan_def Let_def Scan_Normalize_def split: option.splits if_splits)

lemma PutEntry_InrE:
  assumes "PutEntry c i e t = Inr t'"
  obtains inv where "t' = t\<lparr>tbl_Inventories := inv\<rparr>" "i \<in> scr_ID ` set (tbl_Scans t)"
    "inv_ScanID ` set inv \<subseteq> insert i (inv_ScanID ` set (tbl_Inventories t))"
    "distinct (map (\<lambda>r. (inv_ScanID r, inv_Path r)) (tbl_Inventories t)) \<Longrightarrow>
       distinct (map (\<lambda>r. (inv_ScanID r, inv_Path r)) inv)"
proof -
  let ?key = "\<lambda>r. (inv_ScanID r, inv_Path r)"
  define p where "p = ent_Path (Entry_Normalize e)"
  obtain doc where i: "i \<in> scr_ID ` set (tbl_Scans t)" and t':
    "t' = t\<lparr>tbl_Inventories :=
        (if \<exists>r \<in> set (tbl_Inventories t). inv_ScanID r = i \<and> inv_Path r = p
         then map (\<lambda>r. if inv_ScanID r = i \<and> inv_Path r = p
                       then \<lparr>inv_ScanID = i, inv_Path = p, inv_Document = doc\<rparr> else r) (tbl_Inventories t)
         else tbl_Inventories t @ [\<lparr>inv_ScanID = i, inv_Path = p, inv_Document = doc\<rparr>])\<rparr>"
    using assms unfolding PutEntry_def Let_def p_def
    by (cases "i = ''''"; cases "Entry_Validate (Entry_Normalize e)"; cases "enc_Document c (Entry_Normalize e)";
        cases "i \<in> set (map scr_ID (tbl_Scans t))") auto
  have key: "map ?key (map (\<lambda>r. if inv_ScanID r = i \<and> inv_Path r = p
      then \<lparr>inv_ScanID = i, inv_Path = p, inv_Document = doc\<rparr> else r) xs) = map ?key xs" for xs
    by simp
  show thesis
    using i by (intro that [OF t']) (auto simp: key simp del: map_map split: if_splits)
qed

lemma insert_actions_InrE:
  assumes "insert_actions c i as t = Inr t'"
  obtains rows where "t' = t\<lparr>tbl_Actions := tbl_Actions t @ rows\<rparr>"
    "list_all2 (\<lambda>a r. action_row_of c i a = Some r \<and> act_Confidence a \<noteq> NaN) as rows"
    "set (map acr_ID rows) \<inter> set (map acr_ID (tbl_Actions t)) = {}" "distinct (map acr_ID rows)"
  using assms
proof (induction as arbitrary: t thesis)
  case (Cons a as)
  from Cons.prems(2) obtain r where r: "action_row_of c i a = Some r" "acr_ID r \<notin> set (map acr_ID (tbl_Actions t))"
    "acr_Confidence r \<noteq> NaN" "insert_actions c i as (t\<lparr>tbl_Actions := tbl_Actions t @ [r]\<rparr>) = Inr t'"
    by (auto split: option.splits if_splits)
  from Cons.IH [OF _ r(4)] obtain rows where rows:
    "t' = t\<lparr>tbl_Actions := (tbl_Actions t @ [r]) @ rows\<rparr>"
    "list_all2 (\<lambda>a r. action_row_of c i a = Some r \<and> act_Confidence a \<noteq> NaN) as rows"
    "set (map acr_ID rows) \<inter> set (map acr_ID (tbl_Actions t @ [r])) = {}" "distinct (map acr_ID rows)"
    by auto
  have "act_Confidence a \<noteq> NaN"
    using r(1,3) by (auto simp: action_row_of_def split: Option.bind_splits)
  with rows r(1,2) show ?case by (intro Cons.prems(1) [of "r # rows"]) auto
qed simp

lemma action_row_of_Some:
  assumes "action_row_of c i a = Some r"
  shows "acr_ID r = act_ID a" "acr_PlanID r = i" "acr_Path r = act_Path a"
  using assms by (auto simp: action_row_of_def split: Option.bind_splits)

definition plan_row_of :: "record_codec \<Rightarrow> plan \<Rightarrow> plan_row" where
  "plan_row_of c p =
     \<lparr>plr_ID = plan_ID p, plr_ScanID = plan_ScanID p, plr_ContractVersion = plan_ContractVersion p,
      plr_Status = planStatus_str (plan_Status p), plr_CreatedAt = rfc_Time c (plan_CreatedAt p),
      plr_EvidenceDigest = plan_EvidenceDigest p, plr_PolicyDigest = plan_PolicyDigest p,
      plr_Advisor = advisorOrRulesOnly (plan_Advisor p)\<rparr>"

lemma find_key_iff: "(find (\<lambda>r. key r = i) rows = None) \<longleftrightarrow> i \<notin> key ` set rows"
  by (auto simp: find_None_iff image_iff)

lemma or_decode_error_simps [simp]:
  "(or_decode_error x = Inl e) \<longleftrightarrow> x = None \<and> e = DecodeFails" "(or_decode_error x = Inr a) \<longleftrightarrow> x = Some a"
  by (auto simp: or_decode_error_def split: option.splits)

lemma read_all_Inl: "read_all f rows = Inl e \<Longrightarrow> \<exists>r \<in> set rows. f r = Inl e"
  by (induction rows) (auto split: sum.splits)

lemma read_all_Inr: "read_all f rows = Inr xs \<longleftrightarrow> list_all2 (\<lambda>r x. f r = Inr x) rows xs"
proof (induction rows arbitrary: xs)
  case (Cons r rows)
  show ?case by (auto simp: list_all2_Cons1 Cons.IH [symmetric] split: sum.splits)
qed auto

lemma stored_Plan_NotFound: "stored_Plan c i t = Inl NotFound \<longleftrightarrow> i \<notin> plr_ID ` set (tbl_Plans t)"
proof -
  have "planActions c i t \<noteq> Inl NotFound" for i
    by (auto simp: planActions_def action_of_row_def dest!: read_all_Inl)
  then show ?thesis
    by (auto simp: stored_Plan_def find_key_iff [symmetric] split: option.splits sum.splits)
qed

lemma SavePlan_InrE:
  assumes "SavePlan c p0 t = Inr t'"
  obtains (same) existing where "t' = t" "stored_Plan c (plan_ID p0) t = Inr existing"
      "plansEqual c existing (Plan_Normalize p0) = Some True"
    | (fresh) rows where "t' = t\<lparr>tbl_Plans := tbl_Plans t @ [plan_row_of c (Plan_Normalize p0)],
          tbl_Actions := tbl_Actions t @ rows\<rparr>"
      "plan_ID p0 \<notin> plr_ID ` set (tbl_Plans t)" "plan_ScanID p0 \<in> scr_ID ` set (tbl_Scans t)"
      "Plan_Validate (Plan_Normalize p0) = None"
      "list_all2 (\<lambda>a r. action_row_of c (plan_ID p0) a = Some r \<and> act_Confidence a \<noteq> NaN)
         (plan_Actions (Plan_Normalize p0)) rows"
      "set (map acr_ID rows) \<inter> set (map acr_ID (tbl_Actions t)) = {}" "distinct (map acr_ID rows)"
proof -
  have ids [simp]: "plan_ID (Plan_Normalize p0) = plan_ID p0" "plan_ScanID (Plan_Normalize p0) = plan_ScanID p0"
    by (simp_all add: Plan_Normalize_def)
  have v: "Plan_Validate (Plan_Normalize p0) = None"
    using assms by (auto simp: SavePlan_def Let_def split: option.splits)
  show thesis
  proof (cases "stored_Plan c (plan_ID p0) t")
    case (Inr existing)
    with assms v have "plansEqual c existing (Plan_Normalize p0) = Some True" "t' = t"
      by (auto simp: SavePlan_def Let_def split: option.splits if_splits)
    with Inr same show thesis by blast
  next
    case (Inl e)
    with assms v have nf: "e = NotFound" and sc: "plan_ScanID p0 \<in> set (map scr_ID (tbl_Scans t))"
      and ins: "insert_actions c (plan_ID p0) (plan_Actions (Plan_Normalize p0))
        (t\<lparr>tbl_Plans := tbl_Plans t @ [plan_row_of c (Plan_Normalize p0)]\<rparr>) = Inr t'"
      by (auto simp: SavePlan_def Let_def plan_row_of_def split: if_splits)
    from insert_actions_InrE [OF ins] obtain rows where
      "t' = t\<lparr>tbl_Plans := tbl_Plans t @ [plan_row_of c (Plan_Normalize p0)], tbl_Actions := tbl_Actions t @ rows\<rparr>"
      "list_all2 (\<lambda>a r. action_row_of c (plan_ID p0) a = Some r \<and> act_Confidence a \<noteq> NaN)
         (plan_Actions (Plan_Normalize p0)) rows"
      "set (map acr_ID rows) \<inter> set (map acr_ID (tbl_Actions t)) = {}" "distinct (map acr_ID rows)"
      by auto
    moreover from Inl nf have "plan_ID p0 \<notin> plr_ID ` set (tbl_Plans t)" by (simp add: stored_Plan_NotFound)
    ultimately show thesis using sc v fresh by auto
  qed
qed

definition restatus :: "record_codec \<Rightarrow> string \<Rightarrow> action_status \<Rightarrow> time option \<Rightarrow> action_row \<Rightarrow> action_row" where
  "restatus c i s a r =
     (if acr_ID r = i
      then r\<lparr>acr_Status := actionStatus_str s, acr_AppliedAt := map_option (rfc_Time c) a\<rparr> else r)"

lemma restatus_simps [simp]:
  "acr_ID (restatus c i s a r) = acr_ID r" "acr_PlanID (restatus c i s a r) = acr_PlanID r"
  "acr_Path (restatus c i s a r) = acr_Path r"
  by (simp_all add: restatus_def)

lemma UpdateActionStatus_InrE:
  assumes "UpdateActionStatus c i s a t = Inr t'"
  obtains "t' = t\<lparr>tbl_Actions := map (restatus c i s a) (tbl_Actions t)\<rparr>" "actionStatus_Valid s"
  using assms by (auto simp: UpdateActionStatus_def restatus_def [abs_def] split: if_splits)

lemma Approve_InrE:
  assumes "Approve c a t = Inr t'"
  obtains (known) "t' = t"
    | (added) r where "t' = t\<lparr>tbl_Approvals := tbl_Approvals t @ [r]\<rparr>"
      "\<forall>r' \<in> set (tbl_Approvals t). apr_PlanID r' = apr_PlanID r \<longrightarrow> apr_ActionID r' \<noteq> apr_ActionID r"
      "apr_PlanID r \<in> plr_ID ` set (tbl_Plans t)" "apr_ActionID r \<in> acr_ID ` set (tbl_Actions t)"
proof -
  let ?r = "\<lparr>apr_PlanID = app_PlanID (Approval_Normalize a), apr_ActionID = app_ActionID (Approval_Normalize a),
    apr_Approver = app_Approver (Approval_Normalize a), apr_ApprovedAt = rfc_Time c (app_ApprovedAt (Approval_Normalize a)),
    apr_Note = app_Note (Approval_Normalize a)\<rparr>"
  consider "t' = t"
    | "t' = t\<lparr>tbl_Approvals := tbl_Approvals t @ [?r]\<rparr>"
      "\<forall>r' \<in> set (tbl_Approvals t). apr_PlanID r' = apr_PlanID ?r \<longrightarrow> apr_ActionID r' \<noteq> apr_ActionID ?r"
      "apr_PlanID ?r \<in> plr_ID ` set (tbl_Plans t)" "apr_ActionID ?r \<in> acr_ID ` set (tbl_Actions t)"
    using assms by (auto simp: Approve_def Let_def split: option.splits if_splits)
  then show thesis by cases (rule known, assumption, rule added, assumption+)
qed

text \<open>The parts of the tables that a plan is read from.\<close>

definition plan_tables :: "tables \<Rightarrow> plan_row list \<times> action_row list \<times> approval_row list" where
  "plan_tables t = (tbl_Plans t, tbl_Actions t, tbl_Approvals t)"

lemma Usage_Decisions_InrD:
  "RecordModelUsage c u t = Inr t' \<Longrightarrow> \<exists>us. t' = t\<lparr>tbl_Usage := us\<rparr>"
  "PutModelDecision c d t = Inr t' \<Longrightarrow> \<exists>ds. t' = t\<lparr>tbl_Decisions := ds\<rparr>"
  by (auto simp: RecordModelUsage_def PutModelDecision_def split: option.splits if_splits)

lemma Trim_keeps_plans:
  assumes "TrimScanHistory c i t = Inr (x, t')"
  shows "plan_tables t' = plan_tables t"
proof -
  define gone where "gone = map scr_ID (filter (trim_candidate c i t) (tbl_Scans t))"
  have none: "\<forall>r \<in> set (tbl_Plans t). plr_ScanID r \<notin> set gone"
    by (auto simp: trim_candidate_def gone_def) (metis image_eqI)
  then have "filter (\<lambda>r. plr_ScanID r \<in> set gone) (tbl_Plans t) = []"
    "filter (\<lambda>r. plr_ScanID r \<notin> set gone) (tbl_Plans t) = tbl_Plans t"
    by (simp_all add: filter_empty_conv filter_id_conv)
  then have "plan_tables (delete_scans gone t) = plan_tables t"
    unfolding plan_tables_def delete_scans_def Let_def by simp
  then show ?thesis using assms by (auto simp: TrimScanHistory_def Let_def gone_def split: if_splits)
qed

lemma Trim_InrE:
  assumes "TrimScanHistory c i t = Inr (x, t')"
  obtains (none) "t' = t"
    | (trimmed) gone where "gone = map scr_ID (filter (trim_candidate c i t) (tbl_Scans t))"
      "t' = delete_scans gone t" "set gone \<inter> set (tbl_Pinned t) = {}"
  using assms by (auto simp: TrimScanHistory_def Let_def split: if_splits)

lemma delete_scans_ok:
  assumes "tables_ok t" "set gone \<inter> set (tbl_Pinned t) = {}" "set gone \<inter> plr_ScanID ` set (tbl_Plans t) = {}"
  shows "tables_ok (delete_scans gone t)"
proof -
  have plans: "filter (\<lambda>r. plr_ScanID r \<in> set gone) (tbl_Plans t) = []"
    "filter (\<lambda>r. plr_ScanID r \<notin> set gone) (tbl_Plans t) = tbl_Plans t"
    using assms(3) by (auto simp: filter_empty_conv filter_id_conv)
  have disj: "X \<subseteq> g ` {x \<in> B. g x \<notin> G}" if "X \<subseteq> g ` B" "G \<inter> X = {}" for X :: "string set" and g :: "'b \<Rightarrow> string" and B G
    using that by auto
  have sub: "f ` {x \<in> A. f x \<notin> G} \<subseteq> g ` {x \<in> B. g x \<notin> G}" if "f ` A \<subseteq> g ` B"
    for f :: "'a \<Rightarrow> string" and g :: "'b \<Rightarrow> string" and A B G
    using that by auto
  have "plr_ScanID ` set (tbl_Plans t) \<subseteq> scr_ID ` {x \<in> set (tbl_Scans t). scr_ID x \<notin> set gone}"
    "set (tbl_Pinned t) \<subseteq> scr_ID ` {x \<in> set (tbl_Scans t). scr_ID x \<notin> set gone}"
    using assms(1) unfolding tables_ok_def
    by (simp_all only: disj assms(2,3))
  moreover have "inv_ScanID ` {x \<in> set (tbl_Inventories t). inv_ScanID x \<notin> set gone}
      \<subseteq> scr_ID ` {x \<in> set (tbl_Scans t). scr_ID x \<notin> set gone}"
    using assms(1) unfolding tables_ok_def by (intro sub) simp
  moreover obtain us where "delete_scans gone t = t\<lparr>tbl_Scans := filter (\<lambda>r. scr_ID r \<notin> set gone) (tbl_Scans t),
      tbl_Inventories := filter (\<lambda>r. inv_ScanID r \<notin> set gone) (tbl_Inventories t), tbl_Usage := us\<rparr>"
    by (simp add: delete_scans_def plans)
  ultimately show ?thesis
    using assms(1) by (simp add: tables_ok_def distinct_map_filter)
qed

lemma do_store_ok:
  assumes "tables_ok t" "do_store c call t = Inr t'"
  shows "tables_ok t'"
proof (cases call)
  case (CallCreateScan s)
  with assms(2) have "CreateScan c s t = Inr t'" by simp
  then show ?thesis by (rule CreateScan_InrE) (use assms(1) in \<open>auto simp: tables_ok_def\<close>)
next
  case (CallUpdateScan s)
  with assms(2) have "UpdateScan c s t = Inr t'" by simp
  then show ?thesis
    by (rule UpdateScan_InrE) (use assms(1) in \<open>auto simp: tables_ok_def comp_def image_image\<close>)
next
  case (CallPutEntry i e)
  with assms(2) have "PutEntry c i e t = Inr t'" by simp
  then show ?thesis by (rule PutEntry_InrE) (use assms(1) in \<open>auto simp: tables_ok_def\<close>)
next
  case (CallSavePlan p)
  with assms(2) have "SavePlan c p t = Inr t'" by simp
  then show ?thesis
  proof (cases rule: SavePlan_InrE)
    case (fresh rows)
    then have "set (map acr_PlanID rows) \<subseteq> {plan_ID p}"
      by (auto simp: list_all2_conv_all_nth in_set_conv_nth) (metis action_row_of_Some(2))
    with fresh assms(1) show ?thesis
      by (auto simp: tables_ok_def plan_row_of_def Plan_Normalize_def)
  qed (use assms(1) in simp)
next
  case (CallUpdateActionStatus i s a)
  with assms(2) have "UpdateActionStatus c i s a t = Inr t'" by simp
  then show ?thesis
    by (rule UpdateActionStatus_InrE)
      (use assms(1) in \<open>simp add: tables_ok_def comp_def image_image\<close>)
next
  case (CallApprove a)
  with assms(2) have "Approve c a t = Inr t'" by simp
  then show ?thesis by (rule Approve_InrE) (use assms(1) in \<open>auto simp: tables_ok_def\<close>)
next
  case (CallRecordModelUsage u)
  with assms(2) have "RecordModelUsage c u t = Inr t'" by simp
  from Usage_Decisions_InrD(1) [OF this] obtain us where "t' = t\<lparr>tbl_Usage := us\<rparr>" ..
  with assms(1) show ?thesis by (simp add: tables_ok_def)
next
  case (CallPutModelDecision d)
  with assms(2) have "PutModelDecision c d t = Inr t'" by simp
  from Usage_Decisions_InrD(2) [OF this] obtain ds where "t' = t\<lparr>tbl_Decisions := ds\<rparr>" ..
  with assms(1) show ?thesis by (simp add: tables_ok_def)
next
  case (CallTrimScanHistory i)
  with assms(2) obtain x where "TrimScanHistory c i t = Inr (x, t')"
    by (cases "TrimScanHistory c i t") auto
  then show ?thesis
  proof (cases rule: Trim_InrE)
    case (trimmed gone)
    then show ?thesis
      using delete_scans_ok [OF assms(1) trimmed(3)] by (auto simp: trim_candidate_def)
  qed (use assms(1) in simp)
qed

section \<open>What calls do to stored plans\<close>

lemma sort_key_map_key: "sort_key k (map f xs) = map f (sort_key (\<lambda>x. k (f x)) xs)"
proof -
  have ins: "insort_key k (f x) (map f ys) = map f (insort_key (\<lambda>x. k (f x)) x ys)" for x ys
    by (induction ys) auto
  show ?thesis by (induction xs) (simp_all add: ins)
qed

text \<open>A plan or action apart from the progress of its application.\<close>

definition action_reviewed :: "action \<Rightarrow> action" where
  "action_reviewed a = a\<lparr>act_Status := ActionPending, act_AppliedAt := None\<rparr>"

definition reviewed :: "plan \<Rightarrow> plan" where
  "reviewed p = p\<lparr>plan_Actions := map action_reviewed (plan_Actions p)\<rparr>"

lemma parsed_ActionStatus: "actionStatus_Valid s \<Longrightarrow> parsed (ParseActionStatus (actionStatus_str s)) = Some s"
  by (simp add: parsed_def ParseActionStatus_def actionStatus_of_def actionStatus_Valid_def validEnum_def
      actionStatus_enum.parse_str)

lemma action_of_row_restatus:
  assumes "action_of_row c r = Inr a" "actionStatus_Valid s"
    and "\<And>x. v = Some x \<Longrightarrow> rfc_Parse c (rfc_Time c x) \<noteq> None"
  shows "\<exists>b. action_of_row c (restatus c i s v r) = Inr b \<and> action_reviewed b = action_reviewed a"
proof (cases "acr_ID r = i")
  case True
  obtain w where w: "read_optional c (map_option (rfc_Time c) v) = Some w"
    using assms(3) by (cases v) (auto simp: read_optional_def)
  from True assms(1,2) show ?thesis
    by (auto simp: action_of_row_def restatus_def parsed_ActionStatus w action_reviewed_def split: Option.bind_splits)
qed (use assms(1) in \<open>simp add: restatus_def\<close>)

lemma stored_Plan_eq:
  assumes "find (\<lambda>r. plr_ID r = i) (tbl_Plans t') = find (\<lambda>r. plr_ID r = i) (tbl_Plans t)"
    and "filter (\<lambda>r. acr_PlanID r = i) (tbl_Actions t') = filter (\<lambda>r. acr_PlanID r = i) (tbl_Actions t)"
  shows "stored_Plan c i t' = stored_Plan c i t"
proof -
  have eq: "planActions c i t' = planActions c i t" by (simp add: planActions_def assms(2))
  show ?thesis unfolding stored_Plan_def assms(1) eq by (rule refl)
qed

lemma stored_Plan_plan_tables: "plan_tables t' = plan_tables t \<Longrightarrow> stored_Plan c i t' = stored_Plan c i t"
  by (rule stored_Plan_eq) (simp_all add: plan_tables_def)
lemma plan_of_row_actions:
  "plan_of_row c r as = Some p \<Longrightarrow> plan_of_row c r bs = Some (p\<lparr>plan_Actions := bs\<rparr>)"
  by (auto simp: plan_of_row_def split: Option.bind_splits)

lemma stored_Plan_InrE:
  assumes "stored_Plan c i t = Inr p"
  obtains r where "find (\<lambda>r. plr_ID r = i) (tbl_Plans t) = Some r" "plan_of_row c r (plan_Actions p) = Some p"
    "planActions c i t = Inr (plan_Actions p)"
proof -
  from assms obtain r as where r: "find (\<lambda>r. plr_ID r = i) (tbl_Plans t) = Some r" "planActions c i t = Inr as"
    "plan_of_row c r as = Some p"
    by (auto simp: stored_Plan_def split: option.splits sum.splits if_splits)
  moreover from r(3) have "plan_Actions p = as" by (auto simp: plan_of_row_def split: Option.bind_splits)
  ultimately show thesis using that by simp
qed

lemma UpdateActionStatus_plan:
  assumes "UpdateActionStatus c j s v t = Inr t'" "stored_Plan c i t = Inr p"
    and v: "\<And>x. v = Some x \<Longrightarrow> rfc_Parse c (rfc_Time c x) \<noteq> None"
  shows "\<exists>q. stored_Plan c i t' = Inr q \<and> reviewed q = reviewed p"
proof -
  from assms(1) have t': "t' = t\<lparr>tbl_Actions := map (restatus c j s v) (tbl_Actions t)\<rparr>"
    and s: "actionStatus_Valid s" by (auto elim: UpdateActionStatus_InrE)
  from assms(2) obtain r where r: "find (\<lambda>r. plr_ID r = i) (tbl_Plans t) = Some r"
    "plan_of_row c r (plan_Actions p) = Some p" "planActions c i t = Inr (plan_Actions p)"
    by (rule stored_Plan_InrE)
  define rows where "rows = sort_key (\<lambda>r. (acr_Path r, acr_ID r)) (filter (\<lambda>r. acr_PlanID r = i) (tbl_Actions t))"
  have rows': "sort_key (\<lambda>r. (acr_Path r, acr_ID r)) (filter (\<lambda>r. acr_PlanID r = i) (tbl_Actions t'))
      = map (restatus c j s v) rows"
    by (simp add: t' filter_map comp_def sort_key_map_key rows_def)
  have old: "list_all2 (\<lambda>r a. action_of_row c r = Inr a) rows (plan_Actions p)"
    using r(3) by (simp add: planActions_def rows_def read_all_Inr)
  have "\<exists>bs. list_all2 (\<lambda>r b. action_of_row c (restatus c j s v r) = Inr b) rs bs
      \<and> map action_reviewed bs = map action_reviewed as"
    if "list_all2 (\<lambda>r a. action_of_row c r = Inr a) rs as" for rs as
    using that
  proof (induction rs as rule: list_all2_induct)
    case (Cons r rs a as)
    from action_of_row_restatus [OF Cons.hyps(1) s v, where i = j] obtain b where
      "action_of_row c (restatus c j s v r) = Inr b" "action_reviewed b = action_reviewed a" by blast
    moreover from Cons.IH obtain bs where
      "list_all2 (\<lambda>r b. action_of_row c (restatus c j s v r) = Inr b) rs bs"
      "map action_reviewed bs = map action_reviewed as" by blast
    ultimately show ?case by (intro exI [of _ "b # bs"]) simp
  qed simp
  from this [OF old] obtain bs where
    bs: "list_all2 (\<lambda>r b. action_of_row c r = Inr b) (map (restatus c j s v) rows) bs"
      "map action_reviewed bs = map action_reviewed (plan_Actions p)"
    by (auto simp: list_all2_map1)
  then have "planActions c i t' = Inr bs" by (simp add: planActions_def rows' read_all_Inr)
  with r(1) plan_of_row_actions [OF r(2)] have "stored_Plan c i t' = Inr (p\<lparr>plan_Actions := bs\<rparr>)"
    by (simp add: stored_Plan_def t')
  with bs(2) show ?thesis by (auto simp: reviewed_def)
qed

lemma do_store_plan:
  assumes "do_store c call t = Inr t'" "stored_Plan c i t = Inr p"
    and "\<And>j s v. call \<noteq> CallUpdateActionStatus j s v"
  shows "stored_Plan c i t' = Inr p"
proof (cases call)
  case (CallSavePlan q)
  with assms(1) have "SavePlan c q t = Inr t'" by simp
  then show ?thesis
  proof (cases rule: SavePlan_InrE)
    case (fresh rows)
    have i: "i \<in> plr_ID ` set (tbl_Plans t)"
      using assms(2) stored_Plan_NotFound [of c i t] by auto
    have "\<forall>r \<in> set rows. acr_PlanID r = plan_ID q"
      using fresh(5) by (auto simp: list_all2_conv_all_nth in_set_conv_nth) (metis action_row_of_Some(2))
    then have "filter (\<lambda>r. acr_PlanID r = i) rows = []"
      using i fresh(2) by (auto simp: filter_empty_conv)
    moreover have "find (\<lambda>r. plr_ID r = i) (xs @ [r]) = find (\<lambda>r. plr_ID r = i) xs"
      if "i \<in> plr_ID ` set xs" for xs and r :: plan_row
      using that by (induction xs) auto
    ultimately have "stored_Plan c i t' = stored_Plan c i t"
      using i fresh(1) by (intro stored_Plan_eq) simp_all
    with assms(2) show ?thesis by simp
  qed (use assms(2) in simp)
next
  case (CallApprove a)
  with assms(1) have "Approve c a t = Inr t'" by simp
  then have "stored_Plan c i t' = stored_Plan c i t"
    by (rule Approve_InrE) (auto intro: stored_Plan_eq)
  with assms(2) show ?thesis by simp
next
  case (CallTrimScanHistory j)
  with assms(1) obtain x where "TrimScanHistory c j t = Inr (x, t')"
    by (cases "TrimScanHistory c j t") auto
  from Trim_keeps_plans [OF this] assms(2) show ?thesis by (metis stored_Plan_plan_tables)
next
  case (CallCreateScan s)
  with assms(1) have "CreateScan c s t = Inr t'" by simp
  then have "plan_tables t' = plan_tables t" by (rule CreateScan_InrE) (simp add: plan_tables_def)
  with assms(2) show ?thesis by (metis stored_Plan_plan_tables)
next
  case (CallUpdateScan s)
  with assms(1) have "UpdateScan c s t = Inr t'" by simp
  then have "plan_tables t' = plan_tables t" by (rule UpdateScan_InrE) (simp add: plan_tables_def)
  with assms(2) show ?thesis by (metis stored_Plan_plan_tables)
next
  case (CallPutEntry k e)
  with assms(1) have "PutEntry c k e t = Inr t'" by simp
  then have "plan_tables t' = plan_tables t" by (rule PutEntry_InrE) (simp add: plan_tables_def)
  with assms(2) show ?thesis by (metis stored_Plan_plan_tables)
next
  case (CallRecordModelUsage u)
  with assms(1) have "plan_tables t' = plan_tables t"
    by (auto dest!: Usage_Decisions_InrD simp: plan_tables_def)
  with assms(2) show ?thesis by (metis stored_Plan_plan_tables)
next
  case (CallPutModelDecision d)
  with assms(1) have "plan_tables t' = plan_tables t"
    by (auto dest!: Usage_Decisions_InrD simp: plan_tables_def)
  with assms(2) show ?thesis by (metis stored_Plan_plan_tables)
qed (use assms(3) in simp)

end
