(* ===== verification/StoreRecordsProps.thy ===== *)
theory StoreRecordsProps
  imports StoreRecordsFacts
begin

text \<open>
  The properties of the record tables: what is saved is read back, what is saved is never changed, and
  nothing audited is trimmed.
\<close>

section \<open>Encodings that keep their documents\<close>

text \<open>
  JSON and RFC 3339 keep what they are documented to keep: text that is valid UTF-8, and instants of the
  years 1 to 9999.
\<close>

definition utf8_valid :: "string \<Rightarrow> bool" where
  "utf8_valid s \<longleftrightarrow> (\<forall>(r, w) \<in> set (rune_chunks s). r = rune_error \<longrightarrow> length w \<noteq> 1)"

definition year_10000 :: time where "year_10000 = 315537897600000000000"

definition rejected_plain :: "rejected_action \<Rightarrow> bool" where
  "rejected_plain r \<longleftrightarrow> actionKind_Valid (rej_Kind r) \<and> utf8_valid (rej_Rule r) \<and> utf8_valid (rej_Reason r)"

definition lawful_codec :: "record_codec \<Rightarrow> bool" where
  "lawful_codec c \<longleftrightarrow>
     (\<forall>xs s. enc_Strings c xs = Some s \<longrightarrow> list_all utf8_valid xs \<longrightarrow> dec_Strings c s = Some xs)
   \<and> (\<forall>xs s. enc_Rejected c xs = Some s \<longrightarrow> list_all rejected_plain xs \<longrightarrow> dec_Rejected c s = Some xs)
   \<and> (\<forall>x. 0 \<le> x \<longrightarrow> x < year_10000 \<longrightarrow> rfc_Parse c (rfc_Time c x) = Some x)"

definition in_calendar :: "time \<Rightarrow> bool" where
  "in_calendar x \<longleftrightarrow> 0 \<le> x \<and> x < year_10000"

definition storable :: "action \<Rightarrow> bool" where
  "storable a \<longleftrightarrow>
     artifactClass_Valid (act_Class a) \<and> list_all utf8_valid (act_Reasons a) \<and> list_all utf8_valid (act_Rules a)
   \<and> list_all utf8_valid (act_Guards a) \<and> list_all rejected_plain (act_Rejected a)
   \<and> in_calendar (act_CreatedAt a) \<and> (case act_AppliedAt a of None \<Rightarrow> True | Some x \<Rightarrow> in_calendar x)"

lemma parsed_enums:
  "actionKind_Valid k \<Longrightarrow> parsed (ParseActionKind (actionKind_str k)) = Some k"
  "retention_Valid r \<Longrightarrow> parsed (ParseRetention (retention_str r)) = Some r"
  "artifactClass_Valid cl \<Longrightarrow> parsed (ParseArtifactClass (artifactClass_str cl)) = Some cl"
  "planStatus_Valid s \<Longrightarrow> parsed (ParsePlanStatus (planStatus_str s)) = Some s"
  by (simp_all add: parsed_def ParseActionKind_def actionKind_of_def actionKind_Valid_def validEnum_def
      actionKind_enum.parse_str ParseRetention_def retention_of_def retention_Valid_def retention_enum.parse_str
      ParseArtifactClass_def artifactClass_of_def artifactClass_Valid_def artifactClass_enum.parse_str
      ParsePlanStatus_def planStatus_of_def planStatus_Valid_def planStatus_enum.parse_str)

lemma action_of_row_of:
  assumes c: "lawful_codec c" and a: "storable a" "Action_Validate a [] = []"
    and r: "action_row_of c (act_PlanID a) a = Some r"
  shows "action_of_row c r = Inr a"
proof -
  have opt: "read_optional c (map_option (rfc_Time c) (act_AppliedAt a)) = Some (act_AppliedAt a)"
    using c a(1) by (auto simp: read_optional_def lawful_codec_def storable_def in_calendar_def split: option.splits)
  have at: "rfc_Parse c (rfc_Time c (act_CreatedAt a)) = Some (act_CreatedAt a)"
    using c a(1) by (simp add: lawful_codec_def storable_def in_calendar_def)
  have ss: "enc_Strings c xs = Some s \<Longrightarrow> list_all utf8_valid xs \<Longrightarrow> dec_Strings c s = Some xs"
    "enc_Rejected c ys = Some s \<Longrightarrow> list_all rejected_plain ys \<Longrightarrow> dec_Rejected c s = Some ys" for xs ys s
    using c by (auto simp: lawful_codec_def)
  have v: "actionKind_Valid (act_Kind a)" "retention_Valid (act_Retention a)" "actionStatus_Valid (act_Status a)"
    using a(2) by (simp_all add: Action_Validate_Nil)
  from r obtain r1 r2 r3 r4 where
    "enc_Strings c (act_Reasons a) = Some r1" "enc_Strings c (act_Guards a) = Some r2"
    "enc_Strings c (act_Rules a) = Some r3" "enc_Rejected c (act_Rejected a) = Some r4"
    by (auto simp: action_row_of_def split: Option.bind_splits)
  with r a(1) show ?thesis
    by (auto simp: action_row_of_def action_of_row_def storable_def parsed_enums parsed_ActionStatus v opt at ss)
qed

lemma plan_of_row_of:
  assumes c: "lawful_codec c" and "in_calendar (plan_CreatedAt p)" "plan_Advisor p \<noteq> ''''"
    and "planStatus_Valid (plan_Status p)"
  shows "plan_of_row c (plan_row_of c p) as = Some (p\<lparr>plan_Actions := as\<rparr>)"
  using assms by (simp add: plan_of_row_def plan_row_of_def parsed_enums advisorOrRulesOnly_def lawful_codec_def
      in_calendar_def)

lemma saved_plan_reads:
  assumes c: "lawful_codec c" and p: "in_calendar (plan_CreatedAt p)" "list_all storable (plan_Actions p)"
    and ok: "tables_ok t" and t': "t' = t\<lparr>tbl_Plans := tbl_Plans t @ [plan_row_of c p], tbl_Actions := tbl_Actions t @ rows\<rparr>"
    and fresh: "plan_ID p \<notin> plr_ID ` set (tbl_Plans t)" and v: "Plan_Validate p = None" "plan_Advisor p \<noteq> ''''"
    and rows: "list_all2 (\<lambda>a r. action_row_of c (plan_ID p) a = Some r \<and> act_Confidence a \<noteq> NaN) (plan_Actions p) rows"
    and sorted: "sorted (map (\<lambda>a. (act_Path a, act_ID a)) (plan_Actions p))"
  shows "stored_Plan c (plan_ID p) t' = Inr p"
proof -
  have "filter (\<lambda>r. acr_PlanID r = plan_ID p) (tbl_Actions t) = []"
    using fresh imageI [of _ "set (tbl_Actions t)" acr_PlanID] ok unfolding tables_ok_def filter_empty_conv
    by (metis subsetD)
  moreover have "\<forall>r \<in> set rows. acr_PlanID r = plan_ID p"
    using rows by (auto simp: list_all2_conv_all_nth in_set_conv_nth) (metis action_row_of_Some(2))
  ultimately have mine: "filter (\<lambda>r. acr_PlanID r = plan_ID p) (tbl_Actions t') = rows"
    by (simp add: t' filter_id_conv)
  have "map (\<lambda>r. (acr_Path r, acr_ID r)) rs = map (\<lambda>a. (act_Path a, act_ID a)) as"
    if "list_all2 (\<lambda>a r. action_row_of c (plan_ID p) a = Some r \<and> act_Confidence a \<noteq> NaN) as rs" for as rs
    using that by (induction rule: list_all2_induct) (auto dest: action_row_of_Some)
  from this [OF rows] have srt: "sort_key (\<lambda>r. (acr_Path r, acr_ID r)) rows = rows"
    using sorted by (simp add: sort_key_id_if_sorted)
  have "list_all2 (\<lambda>r a. action_of_row c r = Inr a) rows (plan_Actions p)"
    using rows v(1) p(2) unfolding list_all2_conv_all_nth Plan_Validate_None list_all_length
    by (auto intro!: action_of_row_of [OF c])
  then have acts: "planActions c (plan_ID p) t' = Inr (plan_Actions p)"
    by (simp add: planActions_def mine srt read_all_Inr)
  have "find (\<lambda>r. plr_ID r = plan_ID p) (tbl_Plans t') = Some (plan_row_of c p)"
  proof -
    have "find (\<lambda>r. plr_ID r = i) (xs @ [r]) = Some r" if "i \<notin> plr_ID ` set xs" "plr_ID r = i" for i xs and r :: plan_row
      using that by (induction xs) auto
    with fresh show ?thesis by (simp add: t' plan_row_of_def)
  qed
  moreover have "planStatus_Valid (plan_Status p)" using v(1) by (simp add: Plan_Validate_None)
  ultimately show ?thesis
    using acts v(2) p(1) by (simp add: stored_Plan_def plan_of_row_of [OF c])
qed

section \<open>Properties\<close>

text \<open>C18: A saved plan reads back as its normalized document, whatever other plans the tables hold, and saving the
  same document again, at a later time or not, is accepted and changes nothing.\<close>

theorem saved_plan_round_trip:
  assumes "lawful_codec c" "tables_ok t" "SavePlan c p t = Inr t'"
    and "plan_ID p \<notin> plr_ID ` set (tbl_Plans t)" "in_calendar (plan_CreatedAt p)"
    and "list_all storable (plan_Actions (Plan_Normalize p))"
    and "enc_Plan c (Plan_Normalize (withoutTimestamps (Plan_Normalize p))) \<noteq> None"
  shows "stored_Plan c (plan_ID p) t' = Inr (Plan_Normalize p) \<and> SavePlan c p t' = Inr t'"
proof -
  have [simp]: "plan_ID (Plan_Normalize p) = plan_ID p" "plan_CreatedAt (Plan_Normalize p) = plan_CreatedAt p"
    "plan_Advisor (Plan_Normalize p) \<noteq> ''''"
    by (simp_all add: Plan_Normalize_def)
  from assms(3) obtain rows where fresh:
    "t' = t\<lparr>tbl_Plans := tbl_Plans t @ [plan_row_of c (Plan_Normalize p)], tbl_Actions := tbl_Actions t @ rows\<rparr>"
    "Plan_Validate (Plan_Normalize p) = None"
    "list_all2 (\<lambda>a r. action_row_of c (plan_ID p) a = Some r \<and> act_Confidence a \<noteq> NaN)
       (plan_Actions (Plan_Normalize p)) rows"
    using assms(4) stored_Plan_NotFound [of c "plan_ID p" t] by (cases rule: SavePlan_InrE) auto
  then have stored: "stored_Plan c (plan_ID p) t' = Inr (Plan_Normalize p)"
    using saved_plan_reads [OF assms(1) _ assms(6,2) fresh(1)] assms(4,5) Plan_Normalize_sorted by simp
  moreover have "SavePlan c p t' = Inr t'"
    using assms(7) fresh(2) stored by (auto simp: SavePlan_def Let_def plansEqual_def)
  ultimately show ?thesis by simp
qed

text \<open>C17: A stored plan is immutable: after any session of store calls, failed ones included, it reads back with
  the same content; only the progress of its actions can have moved, and only by status updates.\<close>

theorem plans_immutable:
  assumes "stored_Plan c i t = Inr p"
    and "\<And>j s x. CallUpdateActionStatus j s (Some x) \<in> set calls \<Longrightarrow> rfc_Parse c (rfc_Time c x) \<noteq> None"
  shows "(\<exists>q. stored_Plan c i (run_store c calls t) = Inr q \<and> reviewed q = reviewed p)
    \<and> ((\<forall>j s v. CallUpdateActionStatus j s v \<notin> set calls) \<longrightarrow> stored_Plan c i (run_store c calls t) = Inr p)"
proof (intro conjI impI)
  show "\<exists>q. stored_Plan c i (run_store c calls t) = Inr q \<and> reviewed q = reviewed p"
  proof (rule run_store_induct)
    fix call u u' assume call: "call \<in> set calls" "do_store c call u = Inr u'"
      and "\<exists>q. stored_Plan c i u = Inr q \<and> reviewed q = reviewed p"
    then obtain q where q: "stored_Plan c i u = Inr q" "reviewed q = reviewed p" by blast
    show "\<exists>q. stored_Plan c i u' = Inr q \<and> reviewed q = reviewed p"
    proof (cases "\<exists>j s v. call = CallUpdateActionStatus j s v")
      case True
      then obtain j s v where j: "call = CallUpdateActionStatus j s v" by blast
      with call assms(2) have "\<And>x. v = Some x \<Longrightarrow> rfc_Parse c (rfc_Time c x) \<noteq> None" by blast
      with UpdateActionStatus_plan [of c j s v u u' i q] j call q show ?thesis by auto
    next
      case False
      with do_store_plan [OF call(2) q(1)] q show ?thesis by blast
    qed
  qed (use assms(1) in blast)
  assume none: "\<forall>j s v. CallUpdateActionStatus j s v \<notin> set calls"
  show "stored_Plan c i (run_store c calls t) = Inr p"
    by (rule run_store_induct) (use assms(1) none do_store_plan in \<open>blast+\<close>)
qed


text \<open>C20: Trimming never removes a running scan, the scan just made, one of the 256 most recent scans, one of the
  last two deep ones, or a scan that a plan, a cycle, an advisory run or a billed request refers to; of the other
  scans it keeps the rows as they were.\<close>

theorem trim_keeps_audit:
  assumes "TrimScanHistory c preserveID t = Inr (x, t')" "r \<in> set (tbl_Scans t)"
    and "scr_Status r = ''running'' \<or> scr_ID r = preserveID \<or> scr_ID r \<in> set (recent_scans t)
      \<or> scr_ID r \<in> set (last_deep c t) \<or> scr_ID r \<in> plr_ScanID ` set (tbl_Plans t) \<or> scr_ID r \<in> set (tbl_Pinned t)
      \<or> Some (scr_ID r) \<in> usr_ScanID ` set (tbl_Usage t)"
    and "distinct (map scr_ID (tbl_Scans t))"
  shows "r \<in> set (tbl_Scans t')
    \<and> filter (\<lambda>e. inv_ScanID e = scr_ID r) (tbl_Inventories t') = filter (\<lambda>e. inv_ScanID e = scr_ID r) (tbl_Inventories t)
    \<and> plan_tables t' = plan_tables t"
  using assms(1)
proof (cases rule: Trim_InrE)
  case (trimmed gone)
  have "\<not> trim_candidate c preserveID t r" using assms(3) by (auto simp: trim_candidate_def)
  then have "scr_ID r \<notin> set gone"
    using assms(2,4) unfolding trimmed(1) by (auto simp: distinct_map inj_on_def)
  then show ?thesis
    using assms(2) Trim_keeps_plans [OF assms(1)] unfolding trimmed(2)
    by (auto simp: delete_scans_def filter_filter intro!: filter_cong)
qed (use assms(2) in simp)

section \<open>A concrete session\<close>

text \<open>A lawful encoding: every character is marked, every string is closed, and instants are written in decimal.\<close>

definition mark_strings :: "string list \<Rightarrow> string" where
  "mark_strings xs = concat (map (\<lambda>x. concat (map (\<lambda>ch. [CHR ''c'', ch]) x) @ '';'') xs)"

fun unmark_strings :: "string \<Rightarrow> string \<Rightarrow> string list option" where
  "unmark_strings cur [] = Some []"
| "unmark_strings cur [x] = Some [rev cur]"
| "unmark_strings cur (x # y # s) =
     (if x = CHR '';'' then map_option ((#) (rev cur)) (unmark_strings [] (y # s)) else unmark_strings (y # cur) s)"

lemma unmark_string:
  "unmark_strings cur (concat (map (\<lambda>ch. [CHR ''c'', ch]) x) @ CHR '';'' # s)
     = map_option ((#) (rev cur @ x)) (unmark_strings [] s)"
  by (induction x arbitrary: cur) (cases s; auto)+

lemma unmark_mark [simp]: "unmark_strings [] (mark_strings xs) = Some xs"
  by (induction xs) (simp_all add: mark_strings_def unmark_string)

fun unmark_rejected :: "string list \<Rightarrow> rejected_action list option" where
  "unmark_rejected (k # r # s # b # xs) = do {
      kind \<leftarrow> parsed (ParseActionKind k);
      rest \<leftarrow> unmark_rejected xs;
      Some (\<lparr>rej_Kind = kind, rej_Rule = r, rej_Reason = s, rej_Conflict = (b = ''true'')\<rparr> # rest) }"
| "unmark_rejected _ = Some []"

definition mark_rejected :: "rejected_action list \<Rightarrow> string list" where
  "mark_rejected rs =
     concat (map (\<lambda>r. [actionKind_str (rej_Kind r), rej_Rule r, rej_Reason r, show_bool (rej_Conflict r)]) rs)"

lemma unmark_mark_rejected: "list_all rejected_plain rs \<Longrightarrow> unmark_rejected (mark_rejected rs) = Some rs"
  by (induction rs) (simp_all add: mark_rejected_def rejected_plain_def parsed_enums show_bool_def)

definition sample_record_codec :: record_codec where
  "sample_record_codec =
     \<lparr>enc_Strings = \<lambda>xs. Some (mark_strings xs), dec_Strings = unmark_strings [],
      enc_Rejected = \<lambda>rs. Some (mark_strings (mark_rejected rs)),
      dec_Rejected = \<lambda>s. Option.bind (unmark_strings [] s) unmark_rejected,
      enc_Reports = \<lambda>rs. Some (mark_strings (map rep_Name rs)), dec_Reports = \<lambda>_. Some [],
      enc_Document = \<lambda>e. Some (ent_Path e), dec_Document = \<lambda>_. None,
      enc_Plan = \<lambda>p. Some (plan_ID p @ mark_strings (map act_Path (plan_Actions p))),
      enc_Recommendation = \<lambda>_. None, dec_Recommendation = \<lambda>_. None,
      rfc_Time = \<lambda>t. show_nat (nat t), rfc_Parse = \<lambda>s. Some (int (read_digits s)),
      json_Array = \<lambda>_. Some []\<rparr>"

lemma sample_record_codec_lawful: "lawful_codec sample_record_codec"
  by (simp add: lawful_codec_def sample_record_codec_def unmark_mark_rejected read_show_nat)

definition sample_action :: action where
  "sample_action =
     \<lparr>act_ID = ''a1'', act_PlanID = '''', act_Path = ''/w/a'', act_Kind = ActionQuarantine, act_Class = ClassCache,
      act_Retention = RetentionNone, act_Confidence = Fin 1, act_Status = ActionPending, act_Destination = '''',
      act_FilesystemID = \<lparr>fs_Device = 8, fs_Inode = 42\<rparr>, act_Fingerprint = ''f'', act_Reasons = [''stale''],
      act_Rules = [], act_Rejected = [], act_Guards = [], act_CreatedAt = 7, act_AppliedAt = None\<rparr>"

definition sample_saved_plan :: plan where
  "sample_saved_plan =
     \<lparr>plan_ContractVersion = 0, plan_ID = ''p1'', plan_ScanID = ''s1'', plan_Status = PlanReady, plan_CreatedAt = 7,
      plan_EvidenceDigest = ''e'', plan_PolicyDigest = ''d'', plan_Advisor = '''', plan_Actions = [sample_action]\<rparr>"

definition sample_tables :: tables where
  "sample_tables =
     \<lparr>tbl_Scans = [\<lparr>scr_ID = ''s1'', scr_ContractVersion = 1, scr_Roots = '''', scr_Status = ''completed'',
        scr_StartedAt = ''1'', scr_FinishedAt = None, scr_EntryCount = 0, scr_Error = '''', scr_Collectors = ''''\<rparr>],
      tbl_Inventories = [], tbl_Plans = [], tbl_Actions = [], tbl_Approvals = [], tbl_Usage = [], tbl_Decisions = [],
      tbl_Pinned = []\<rparr>"

lemma sample_tables_ok: "tables_ok sample_tables"
  by (simp add: tables_ok_def sample_tables_def)

lemma rune_chunks_ascii:
  "rune_chunks [] = []" "byte x < 128 \<Longrightarrow> rune_chunks (x # s) = (byte x, [x]) # rune_chunks s"
  by (subst rune_chunks.simps, simp add: decode_rune_def Let_def)+

lemma sample_record_valid:
  "isAbsClean ''/w/a''" "actionKind_Valid ActionQuarantine" "retention_Valid RetentionNone"
  "actionStatus_Valid ActionPending" "planStatus_Valid PlanReady" "artifactClass_Valid ClassCache"
  by code_simp+

lemma sample_texts:
  "utf8_valid ''stale''" "\<not> blank ''a1''" "\<not> blank ''p1''" "\<not> blank ''s1''"
  by (simp_all add: utf8_valid_def rune_chunks_ascii rune_error_def not_blank_ascii is_space_def)

lemma sample_saved: "\<exists>t. SavePlan sample_record_codec sample_saved_plan sample_tables = Inr t"
proof -
  have v: "Plan_Validate (Plan_Normalize sample_saved_plan) = None"
    by (simp add: Plan_Validate_None Plan_Normalize_def sample_saved_plan_def Action_Normalize_def sample_action_def
        Action_Validate_Nil sample_record_valid sample_texts ContractVersion_def)
  then show ?thesis
    by (simp add: SavePlan_def stored_Plan_def sample_tables_def Plan_Normalize_def sample_saved_plan_def
        Action_Normalize_def sample_action_def action_row_of_def sample_record_codec_def)
qed

definition sample_stored :: tables where
  "sample_stored = committed (SavePlan sample_record_codec sample_saved_plan) sample_tables"

lemma sample_stored: "SavePlan sample_record_codec sample_saved_plan sample_tables = Inr sample_stored"
  using sample_saved by (auto simp: sample_stored_def committed_def)

lemma sample_normal_actions:
  "plan_Actions (Plan_Normalize sample_saved_plan) = [sample_action\<lparr>act_PlanID := ''p1''\<rparr>]"
  by (simp add: Plan_Normalize_def sample_saved_plan_def Action_Normalize_def sample_action_def)

lemma saved_plan_round_trip_witness:
  "stored_Plan sample_record_codec ''p1'' sample_stored = Inr (Plan_Normalize sample_saved_plan)
   \<and> SavePlan sample_record_codec sample_saved_plan sample_stored = Inr sample_stored"
proof -
  have "plan_ID sample_saved_plan = ''p1''" "in_calendar (plan_CreatedAt sample_saved_plan)"
    "plan_ID sample_saved_plan \<notin> plr_ID ` set (tbl_Plans sample_tables)"
    "list_all storable (plan_Actions (Plan_Normalize sample_saved_plan))"
    "enc_Plan sample_record_codec (Plan_Normalize (withoutTimestamps (Plan_Normalize sample_saved_plan))) \<noteq> None"
    unfolding sample_normal_actions
    by (simp_all add: sample_saved_plan_def in_calendar_def year_10000_def sample_tables_def storable_def sample_action_def
        sample_record_valid sample_texts sample_record_codec_def)
  with saved_plan_round_trip [OF sample_record_codec_lawful sample_tables_ok sample_stored] show ?thesis by simp
qed

definition sample_calls :: "store_call list" where
  "sample_calls =
     [CallSavePlan (sample_saved_plan\<lparr>plan_EvidenceDigest := ''other''\<rparr>), CallUpdateActionStatus ''a1'' ActionApplied (Some 9),
      CallApprove \<lparr>app_PlanID = ''p1'', app_ActionID = ''a1'', app_Approver = '''', app_ApprovedAt = 8, app_Note = ''''\<rparr>,
      CallTrimScanHistory '''']"

lemma sample_fresh:
  obtains rows where
    "sample_stored = sample_tables\<lparr>tbl_Plans := [plan_row_of sample_record_codec (Plan_Normalize sample_saved_plan)],
       tbl_Actions := rows\<rparr>"
    "list_all2 (\<lambda>a r. action_row_of sample_record_codec ''p1'' a = Some r \<and> act_Confidence a \<noteq> NaN)
       (plan_Actions (Plan_Normalize sample_saved_plan)) rows"
    "Plan_Validate (Plan_Normalize sample_saved_plan) = None"
proof -
  have nf: "stored_Plan sample_record_codec (plan_ID sample_saved_plan) sample_tables = Inl NotFound"
    by (simp add: stored_Plan_NotFound sample_tables_def)
  have e: "tbl_Plans sample_tables = []" "tbl_Actions sample_tables = []" "plan_ID sample_saved_plan = ''p1''"
    by (simp_all add: sample_tables_def sample_saved_plan_def)
  from sample_stored show thesis
    by (cases rule: SavePlan_InrE) (use nf that in \<open>auto simp: e\<close>)
qed

lemma sample_reads: "stored_Plan sample_record_codec ''p1'' sample_stored = Inr (Plan_Normalize sample_saved_plan)"
proof -
  obtain rows where fresh:
    "sample_stored = sample_tables\<lparr>tbl_Plans := [plan_row_of sample_record_codec (Plan_Normalize sample_saved_plan)],
       tbl_Actions := rows\<rparr>"
    "list_all2 (\<lambda>a r. action_row_of sample_record_codec ''p1'' a = Some r \<and> act_Confidence a \<noteq> NaN)
       (plan_Actions (Plan_Normalize sample_saved_plan)) rows"
    "Plan_Validate (Plan_Normalize sample_saved_plan) = None" by (rule sample_fresh)
  have p: "plan_ID (Plan_Normalize sample_saved_plan) = ''p1''" "plan_Advisor (Plan_Normalize sample_saved_plan) \<noteq> ''''"
    "in_calendar (plan_CreatedAt (Plan_Normalize sample_saved_plan))"
    by (simp_all add: Plan_Normalize_def sample_saved_plan_def in_calendar_def year_10000_def)
  have st: "list_all storable (plan_Actions (Plan_Normalize sample_saved_plan))"
    unfolding sample_normal_actions
    by (simp add: in_calendar_def year_10000_def storable_def sample_action_def sample_record_valid sample_texts)
  have eq: "sample_stored = sample_tables
      \<lparr>tbl_Plans := tbl_Plans sample_tables @ [plan_row_of sample_record_codec (Plan_Normalize sample_saved_plan)],
       tbl_Actions := tbl_Actions sample_tables @ rows\<rparr>"
    using fresh(1) by (simp add: sample_tables_def)
  have "stored_Plan sample_record_codec (plan_ID (Plan_Normalize sample_saved_plan)) sample_stored
      = Inr (Plan_Normalize sample_saved_plan)"
    by (rule saved_plan_reads [OF sample_record_codec_lawful p(3) st sample_tables_ok eq _ fresh(3) p(2) _ Plan_Normalize_sorted])
      (use fresh(2) p(1) in \<open>simp_all add: sample_tables_def\<close>)
  then show ?thesis by (simp add: p(1))
qed

lemma plans_immutable_witness:
  "\<exists>q. stored_Plan sample_record_codec ''p1'' (run_store sample_record_codec sample_calls sample_stored) = Inr q
     \<and> reviewed q = reviewed (Plan_Normalize sample_saved_plan)"
  using plans_immutable [OF sample_reads, of sample_calls] by (simp add: sample_record_codec_def)



lemma sample_plan_scans: "plr_ScanID ` set (tbl_Plans sample_stored) = {''s1''}"
  "tbl_Scans sample_stored = tbl_Scans sample_tables"
  "tbl_Pinned sample_stored = []"
proof -
  obtain rows where e: "sample_stored = sample_tables
      \<lparr>tbl_Plans := [plan_row_of sample_record_codec (Plan_Normalize sample_saved_plan)], tbl_Actions := rows\<rparr>"
    by (rule sample_fresh)
  show "plr_ScanID ` set (tbl_Plans sample_stored) = {''s1''}"
    by (simp add: e) (simp add: plan_row_of_def Plan_Normalize_def sample_saved_plan_def)
  show "tbl_Scans sample_stored = tbl_Scans sample_tables" "tbl_Pinned sample_stored = []"
    by (simp_all add: e) (simp add: sample_tables_def)
qed

lemma trim_keeps_audit_witness:
  "tbl_Scans sample_stored \<noteq> [] \<and> (\<exists>x t'. TrimScanHistory sample_record_codec '''' sample_stored = Inr (x, t')
     \<and> hd (tbl_Scans sample_stored) \<in> set (tbl_Scans t'))"
proof -
  let ?r = "hd (tbl_Scans sample_stored)"
  have r: "?r \<in> set (tbl_Scans sample_stored)" "scr_ID ?r = ''s1''" "distinct (map scr_ID (tbl_Scans sample_stored))"
    "tbl_Scans sample_stored \<noteq> []"
    unfolding sample_plan_scans(2) by (simp_all add: sample_tables_def)
  obtain x t' where t': "TrimScanHistory sample_record_codec '''' sample_stored = Inr (x, t')"
    using sample_plan_scans(3)
    by (cases "TrimScanHistory sample_record_codec '''' sample_stored") (auto simp: TrimScanHistory_def Let_def split: if_splits)
  from trim_keeps_audit [OF t' r(1) _ r(3)] r(2,4) sample_plan_scans(1) t' show ?thesis by auto
qed

end
