(* ===== verification/ActionKernel.thy ===== *)
theory ActionKernel
  imports StoreCleanup SafetyRevalidate
begin

text \<open>
  What \<open>internal/action\<close> asks of the operating system, as a record of functions on an abstract system
  state, and the sequencing of steps that may fail.  Nothing here says what the system does: the laws the
  theorems assume of it are the locale of \<open>ActionKernelFacts\<close>.  A call answers the text of its error;
  only "no such file" is told apart, because only that is tested (\<open>errors.Is(err, os.ErrNotExist)\<close>).
\<close>

section \<open>Programs\<close>

text \<open>A program runs in a state and returns an error or a value, and the state it leaves.\<close>

type_synonym ('w, 'e, 'a) prog = "'w \<Rightarrow> ('e + 'a) \<times> 'w"

definition ok :: "'a \<Rightarrow> ('w, 'e, 'a) prog" where
  "ok a w = (Inr a, w)"

definition fail :: "'e \<Rightarrow> ('w, 'e, 'a) prog" where
  "fail e w = (Inl e, w)"

definition andthen :: "('w, 'e, 'a) prog \<Rightarrow> ('a \<Rightarrow> ('w, 'e, 'b) prog) \<Rightarrow> ('w, 'e, 'b) prog" where
  "andthen m f w = (case m w of (Inl e, w') \<Rightarrow> (Inl e, w') | (Inr a, w') \<Rightarrow> f a w')"

definition ask :: "('w \<Rightarrow> 'e + 'a) \<Rightarrow> ('w, 'e, 'a) prog" where
  "ask f w = (f w, w)"

definition require :: "bool \<Rightarrow> 'e \<Rightarrow> ('w, 'e, unit) prog" where
  "require b e = (if b then ok () else fail e)"

text \<open>The steps in order, up to the first that fails.\<close>

fun steps :: "('w, 'e, unit) prog list \<Rightarrow> ('w, 'e, unit) prog" where
  "steps [] = ok ()"
| "steps (m # ms) = andthen m (\<lambda>_. steps ms)"

text \<open>A call that answers an error or nothing.\<close>

definition effect :: "('w \<Rightarrow> string option \<times> 'w) \<Rightarrow> ('w, string, unit) prog" where
  "effect f w = (case f w of (Some e, w') \<Rightarrow> (Inl e, w') | (None, w') \<Rightarrow> (Inr (), w'))"

text \<open>A test in the middle of a program, of the state it runs in.\<close>

definition reading :: "('w \<Rightarrow> 'r) \<Rightarrow> ('r \<Rightarrow> ('w, 'e, 'a) prog) \<Rightarrow> ('w, 'e, 'a) prog" where
  "reading q f w = f (q w) w"

text \<open>A step that always runs after another and cannot fail, and closing a file that was written.\<close>

definition finally_do :: "('w, 'e, 'a) prog \<Rightarrow> ('w \<Rightarrow> 'w) \<Rightarrow> ('w, 'e, 'a) prog" where
  "finally_do m f w = (case m w of (r, w') \<Rightarrow> (r, f w'))"

definition then_close :: "('w, string, unit) prog \<Rightarrow> ('w \<Rightarrow> string option \<times> 'w) \<Rightarrow> ('w, string, unit) prog" where
  "then_close m c w =
     (case m w of
        (Inl e, w') \<Rightarrow> (Inl e, snd (c w'))
      | (Inr _, w') \<Rightarrow> effect c w')"

definition wrap :: "string \<Rightarrow> ('w, string, 'a) prog \<Rightarrow> ('w, string, 'a) prog" where
  "wrap msg m w = (case m w of (Inl e, w') \<Rightarrow> (Inl (msg @ e), w') | (Inr a, w') \<Rightarrow> (Inr a, w'))"

section \<open>The system\<close>

datatype file_kind = KindDirectory | KindRegular | KindSymlink | KindOtherFile

record file_info =
  fi_ID :: filesystem_id
  fi_Kind :: file_kind
  fi_Size :: int
  fi_Mode :: nat
  fi_Ctime :: int
  fi_Atime :: int
  fi_Mtime :: int

datatype stat_result = StatAbsent | StatError string | StatObject file_info
datatype 'd open_result = OpenAbsent | OpenError string | Opened 'd
datatype read_result = ReadAbsent | ReadError string | ReadFile file_info string
datatype read_end = ReadMore | ReadEOF | ReadStops string

text \<open>What the collection run around a path is asked for, beyond the configured options.\<close>

record observe_request =
  obs_Root :: string
  obs_FollowSymlinks :: bool
  obs_Deep :: bool
  obs_ArchiveBindPath :: string
  obs_WorktreeOrigin :: "(string \<times> string) option"
  obs_ArchiveCreationPath :: string

record observe_result =
  res_Entries :: "entry list"
  res_References :: "reference list"
  res_Reports :: "collector_report list"

text \<open>One run of a command: whether its context ended first, its error, and all it wrote.\<close>

record command_run =
  run_Cancelled :: "string option"
  run_Error :: "string option"
  run_Stdout :: string
  run_Stderr :: string

text \<open>
  \<open>'s\<close> is the state of the system and \<open>'d\<close> an open directory.  \<open>k_Lstat\<close>, \<open>k_Stat\<close>, \<open>k_Fstat\<close>,
  \<open>k_Fstatat\<close>, the opens and reads leave the state alone; reading names from a directory advances it.
  \<open>k_Begin\<close> and \<open>k_Commit\<close> say whether a journal transaction can start and be committed.
\<close>

record ('s, 'd) kernel =
  k_Now :: "'s \<Rightarrow> time \<times> 's"
  k_Cancelled :: "'s \<Rightarrow> string option"
  k_Getwd :: "'s \<Rightarrow> string + string"
  k_Lstat :: "string \<Rightarrow> 's \<Rightarrow> stat_result"
  k_Stat :: "string \<Rightarrow> 's \<Rightarrow> stat_result"
  k_Statfs :: "'s \<Rightarrow> string \<Rightarrow> string + uint64 \<times> int64"
  k_EvalSymlinks :: "string \<Rightarrow> 's \<Rightarrow> string + string"
  k_OpenRoot :: "'s \<Rightarrow> string + 'd"
  k_OpenDir :: "string \<Rightarrow> 's \<Rightarrow> string + 'd"
  k_Openat :: "'d \<Rightarrow> string \<Rightarrow> bool \<Rightarrow> 's \<Rightarrow> 'd open_result"
  k_Fstat :: "'d \<Rightarrow> 's \<Rightarrow> string + file_info"
  k_Fstatat :: "'d \<Rightarrow> string \<Rightarrow> 's \<Rightarrow> stat_result"
  k_Readdirnames :: "'d \<Rightarrow> 's \<Rightarrow> (string list \<times> read_end) \<times> 's"
  k_CloseDir :: "'d \<Rightarrow> 's \<Rightarrow> string option \<times> 's"
  k_Mkdirat :: "'d \<Rightarrow> string \<Rightarrow> 's \<Rightarrow> string option \<times> 's"
  k_Fsync :: "'d \<Rightarrow> 's \<Rightarrow> string option \<times> 's"
  k_SyncPath :: "string \<Rightarrow> 's \<Rightarrow> string option \<times> 's"
  k_Renameat2 :: "'d \<Rightarrow> string \<Rightarrow> 'd \<Rightarrow> string \<Rightarrow> 's \<Rightarrow> string option \<times> 's"
  k_Unlinkat :: "'d \<Rightarrow> string \<Rightarrow> bool \<Rightarrow> 's \<Rightarrow> string option \<times> 's"
  k_ReadPath :: "string \<Rightarrow> 's \<Rightarrow> read_result"
  k_ReadAt :: "'d \<Rightarrow> string \<Rightarrow> 's \<Rightarrow> read_result"
  k_CreateAt :: "'d \<Rightarrow> string \<Rightarrow> 's \<Rightarrow> string option \<times> 's"
  k_WriteAt :: "'d \<Rightarrow> string \<Rightarrow> string \<Rightarrow> 's \<Rightarrow> string option \<times> 's"
  k_FsyncAt :: "'d \<Rightarrow> string \<Rightarrow> 's \<Rightarrow> string option \<times> 's"
  k_CloseAt :: "'d \<Rightarrow> string \<Rightarrow> 's \<Rightarrow> string option \<times> 's"
  k_CreateTemp :: "string \<Rightarrow> string \<Rightarrow> 's \<Rightarrow> (string + string) \<times> 's"
  k_Chmod :: "string \<Rightarrow> 's \<Rightarrow> string option \<times> 's"
  k_Write :: "string \<Rightarrow> string \<Rightarrow> 's \<Rightarrow> string option \<times> 's"
  k_Sync :: "string \<Rightarrow> 's \<Rightarrow> string option \<times> 's"
  k_Close :: "string \<Rightarrow> 's \<Rightarrow> string option \<times> 's"
  k_Remove :: "string \<Rightarrow> 's \<Rightarrow> 's"
  k_Fchmodat :: "'d \<Rightarrow> string \<Rightarrow> nat \<Rightarrow> 's \<Rightarrow> string option \<times> 's"
  k_UtimesNanoAt :: "'d \<Rightarrow> string \<Rightarrow> int \<Rightarrow> int \<Rightarrow> 's \<Rightarrow> string option \<times> 's"
  k_PathEnv :: "'s \<Rightarrow> string"
  k_Exec :: "string list \<Rightarrow> string list \<Rightarrow> 's \<Rightarrow> command_run \<times> 's"
  k_OpenHandle :: "string \<Rightarrow> 's \<Rightarrow> string + handle"
  k_Observe :: "observe_request \<Rightarrow> 's \<Rightarrow> string + observe_result"
  k_Begin :: "'s \<Rightarrow> string option"
  k_Commit :: "'s \<Rightarrow> string option"

section \<open>Directories without symbolic links\<close>

text \<open>\<open>openExistingDirNoSymlinks\<close>: every component is opened from the one before; the last for reading.\<close>

fun open_walk :: "('s, 'd) kernel \<Rightarrow> 'd \<Rightarrow> string list \<Rightarrow> 's \<Rightarrow> string + 'd" where
  "open_walk K d [] s = Inr d"
| "open_walk K d (p # ps) s =
     (if p = '''' then open_walk K d ps s
      else case k_Openat K d p (ps = []) s of
        Opened d' \<Rightarrow> open_walk K d' ps s
      | OpenAbsent \<Rightarrow> Inl (''open directory component '' @ p @ '' without symlinks: no such file or directory'')
      | OpenError e \<Rightarrow> Inl (''open directory component '' @ p @ '' without symlinks: '' @ e))"

definition openExistingDirNoSymlinks :: "('s, 'd) kernel \<Rightarrow> string \<Rightarrow> 's \<Rightarrow> string + 'd" where
  "openExistingDirNoSymlinks K path s =
     (if \<not> IsAbs path \<or> Clean path \<noteq> path then Inl (''directory path must be absolute and canonical: '' @ path)
      else case k_OpenRoot K s of
        Inl e \<Rightarrow> Inl e
      | Inr d \<Rightarrow> open_walk K d (split_on slash (TrimPrefix path ''/'')) s)"

text \<open>\<open>createReceiptDir\<close>: the same walk, creating and syncing each missing component.\<close>

fun create_walk :: "('s, 'd) kernel \<Rightarrow> 'd \<Rightarrow> string list \<Rightarrow> ('s, string, unit) prog" where
  "create_walk K d [] = effect (k_Fsync K d)"
| "create_walk K d (p # ps) =
     (if p = '''' then create_walk K d ps
      else andthen
        (reading (k_Openat K d p True) (\<lambda>r. case r of
             Opened d' \<Rightarrow> ok d'
           | OpenError e \<Rightarrow> fail (''open receipt component '' @ p @ '' without symlinks: '' @ e)
           | OpenAbsent \<Rightarrow>
               andthen (wrap (''create receipt component '' @ p @ '': '') (effect (k_Mkdirat K d p))) (\<lambda>_.
               andthen (wrap ''sync new receipt parent: '' (effect (k_Fsync K d))) (\<lambda>_.
               reading (k_Openat K d p True) (\<lambda>r'. case r' of
                 Opened d' \<Rightarrow> ok d'
               | OpenError e \<Rightarrow> fail (''open receipt component '' @ p @ '' without symlinks: '' @ e)
               | OpenAbsent \<Rightarrow> fail (''open receipt component '' @ p
                   @ '' without symlinks: no such file or directory''))))))
        (\<lambda>d'. create_walk K d' ps))"

definition createReceiptDir :: "('s, 'd) kernel \<Rightarrow> string \<Rightarrow> ('s, string, unit) prog" where
  "createReceiptDir K path =
     andthen (require (IsAbs path) ''receipt directory must be absolute'') (\<lambda>_.
     andthen (ask (k_OpenRoot K)) (\<lambda>d.
     create_walk K d (split_on slash (TrimPrefix (Clean path) ''/''))))"

section \<open>Renaming without replacement\<close>

definition syncDir :: "('s, 'd) kernel \<Rightarrow> string \<Rightarrow> ('s, string, unit) prog" where
  "syncDir K path = effect (k_SyncPath K path)"

text \<open>The part after both parents are open, and the part after the source was inspected.\<close>

definition rename_checked ::
    "('s, 'd) kernel \<Rightarrow> 'd \<Rightarrow> 'd \<Rightarrow> string \<Rightarrow> string \<Rightarrow> filesystem_id \<Rightarrow> ('s, string, unit) prog" where
  "rename_checked K fromDir toDir from to expected =
     andthen (wrap ''stat destination parent: '' (ask (k_Fstat K toDir))) (\<lambda>destination.
     andthen (require (fs_Device expected = fs_Device (fi_ID destination))
       ''cross-filesystem quarantine is unsupported'') (\<lambda>_.
     andthen (wrap ''atomic no-replace rename: '' (effect (k_Renameat2 K fromDir from toDir to))) (\<lambda>_.
     andthen (reading (k_Fstatat K toDir to) (\<lambda>r.
       require (case r of StatObject moved \<Rightarrow> fi_ID moved = expected | _ \<Rightarrow> False)
         ''moved object identity did not match the checked source'')) (\<lambda>_.
     steps [wrap ''sync destination parent: '' (effect (k_Fsync K toDir)),
            wrap ''sync source parent: '' (effect (k_Fsync K fromDir))]))))"

definition rename_opened ::
    "('s, 'd) kernel \<Rightarrow> 'd \<Rightarrow> 'd \<Rightarrow> string \<Rightarrow> string \<Rightarrow> filesystem_id \<Rightarrow> ('s, string, unit) prog" where
  "rename_opened K fromDir toDir from to expected =
     reading (k_Fstatat K fromDir from) (\<lambda>r. case r of
       StatAbsent \<Rightarrow> fail ''stat source: no such file or directory''
     | StatError e \<Rightarrow> fail (''stat source: '' @ e)
     | StatObject source \<Rightarrow>
         if fi_ID source \<noteq> expected then fail ''source identity changed before rename''
         else rename_checked K fromDir toDir from to expected)"

definition renameNoReplace ::
    "('s, 'd) kernel \<Rightarrow> string \<Rightarrow> string \<Rightarrow> filesystem_id \<Rightarrow> ('s, string, unit) prog" where
  "renameNoReplace K from to expected =
     andthen (wrap ''open source parent: '' (ask (openExistingDirNoSymlinks K (Dir from)))) (\<lambda>fromDir.
     andthen (wrap ''open destination parent: '' (ask (openExistingDirNoSymlinks K (Dir to)))) (\<lambda>toDir.
     rename_opened K fromDir toDir (Base from) (Base to) expected))"

section \<open>Checks on names\<close>

definition identityMatches :: "file_info \<Rightarrow> filesystem_id \<Rightarrow> bool" where
  "identityMatches info i \<longleftrightarrow> \<not> fsid_Zero i \<and> fi_ID info = i"

definition present :: "stat_result \<Rightarrow> filesystem_id \<Rightarrow> bool" where
  "present r i = (case r of StatObject info \<Rightarrow> identityMatches info i | _ \<Rightarrow> False)"

definition absent :: "('s, 'd) kernel \<Rightarrow> string \<Rightarrow> 's \<Rightarrow> string + unit" where
  "absent K path s =
     (case k_Lstat K path s of
        StatAbsent \<Rightarrow> Inr () | StatError e \<Rightarrow> Inl e | StatObject _ \<Rightarrow> Inl (path @ '' is occupied''))"

definition sameFilesystem :: "('s, 'd) kernel \<Rightarrow> string \<Rightarrow> string \<Rightarrow> 's \<Rightarrow> string + unit" where
  "sameFilesystem K source destDir s =
     (case k_Lstat K source s of
        StatAbsent \<Rightarrow> Inl ''inspect source: no such file or directory''
      | StatError e \<Rightarrow> Inl (''inspect source: '' @ e)
      | StatObject object \<Rightarrow>
          (case k_Stat K destDir s of
             StatAbsent \<Rightarrow> Inl ''inspect destination parent: no such file or directory''
           | StatError e \<Rightarrow> Inl (''inspect destination parent: '' @ e)
           | StatObject parent \<Rightarrow>
               if fi_Kind parent \<noteq> KindDirectory then Inl ''destination parent is not a directory''
               else if fsid_Zero (fi_ID object) \<or> fsid_Zero (fi_ID parent)
                  \<or> fs_Device (fi_ID object) \<noteq> fs_Device (fi_ID parent)
               then Inl ''cross-filesystem rename is unsupported''
               else Inr ()))"

definition within_root :: "string \<Rightarrow> string \<Rightarrow> bool" where
  "within_root path base =
     (case Rel base path of None \<Rightarrow> False | Some r \<Rightarrow> r \<noteq> ''..'' \<and> \<not> HasPrefix r ''../'')"

end
