(* ===== verification/ActionFiles.thy ===== *)
theory ActionFiles
  imports ActionKernel
begin

text \<open>
  The files of a receipt directory (\<open>manifest.go\<close>, \<open>marker_linux.go\<close>) and the removal of a quarantined
  tree (\<open>delete_linux.go\<close>).  Closing a descriptor that was only read is left out: nothing tests it.
\<close>

section \<open>The manifest\<close>

definition maxManifestBytes :: int where "maxManifestBytes = 4 * 2 ^ 20"

datatype manifest_match = ManifestMatches | ManifestAbsent | ManifestFails string

definition matchesManifest :: "('s, 'd) kernel \<Rightarrow> string \<Rightarrow> string \<Rightarrow> 's \<Rightarrow> manifest_match" where
  "matchesManifest K path want s =
     (case k_ReadPath K path s of
        ReadAbsent \<Rightarrow> ManifestAbsent
      | ReadError e \<Rightarrow> ManifestFails e
      | ReadFile info content \<Rightarrow>
          if fi_Kind info \<noteq> KindRegular \<or> maxManifestBytes < fi_Size info
          then ManifestFails ''manifest is not a bounded regular file''
          else if take (nat (maxManifestBytes + 1)) content \<noteq> want
          then ManifestFails ''receipt manifest differs from prepared journal row''
          else ManifestMatches)"

text \<open>Writing the body to a new file beside the manifest and moving it into place.\<close>

definition installManifest :: "('s, 'd) kernel \<Rightarrow> string \<Rightarrow> string \<Rightarrow> string \<Rightarrow> ('s, string, unit) prog" where
  "installManifest K base path body =
     andthen (wrap ''create manifest staging file: '' (k_CreateTemp K base ''.manifest-'')) (\<lambda>tmp.
     finally_do
       (andthen
         (wrap ''sync staged manifest: ''
           (then_close
             (steps [effect (k_Chmod K tmp), effect (k_Write K tmp body), effect (k_Sync K tmp)])
             (k_Close K tmp))) (\<lambda>_.
        reading (k_Lstat K tmp) (\<lambda>r. case r of
          StatAbsent \<Rightarrow> fail ''lstat: no such file or directory''
        | StatError e \<Rightarrow> fail e
        | StatObject info \<Rightarrow> (\<lambda>s.
            (case renameNoReplace K tmp path (fi_ID info) s of
               (Inr _, s') \<Rightarrow> syncDir K base s'
             | (Inl e, s') \<Rightarrow>
                 if matchesManifest K path body s' = ManifestMatches then (Inr (), s')
                 else (Inl (''install manifest without replacement: '' @ e), s'))))))
       (k_Remove K tmp))"

definition ensureManifest ::
    "('s, 'd) kernel \<Rightarrow> (cleanup_item \<Rightarrow> string option) \<Rightarrow> cleanup_item \<Rightarrow> ('s, string, unit) prog" where
  "ensureManifest K marshal item =
     (if cln_State item \<noteq> CleanupPrepared then fail ''only prepared receipts can install a manifest''
      else case marshal (CleanupItem_Normalize item) of
        None \<Rightarrow> fail ''marshal''
      | Some body \<Rightarrow>
          if maxManifestBytes < int (length body) then fail ''receipt manifest exceeds size bound''
          else let base = Dir (cln_Destination item); path = Join [base, ''manifest.json'']
               in reading (matchesManifest K path body) (\<lambda>m. case m of
                    ManifestMatches \<Rightarrow> ok ()
                  | ManifestFails e \<Rightarrow> fail e
                  | ManifestAbsent \<Rightarrow> installManifest K base path body))"

section \<open>The deletion marker\<close>

definition deletionMarkerName :: string where "deletionMarkerName = ''deleting''"

definition markerContent :: "cleanup_item \<Rightarrow> filesystem_id \<Rightarrow> string" where
  "markerContent item dir =
     (let obj = ent_FilesystemID (cln_Entry item)
      in cln_ActionID item @ '' dir='' @ show_u64 (fs_Device dir) @ '':'' @ show_u64 (fs_Inode dir)
         @ '' object='' @ show_u64 (fs_Device obj) @ '':'' @ show_u64 (fs_Inode obj) @ [CHR 0x0A])"

definition openReceiptDir :: "('s, 'd) kernel \<Rightarrow> cleanup_item \<Rightarrow> 's \<Rightarrow> string + ('d \<times> file_info)" where
  "openReceiptDir K item s =
     (case k_OpenDir K (Dir (cln_Destination item)) s of
        Inl e \<Rightarrow> Inl e
      | Inr d \<Rightarrow> (case k_Fstat K d s of Inl e \<Rightarrow> Inl e | Inr info \<Rightarrow> Inr (d, info)))"

definition writeDeletionMarker :: "('s, 'd) kernel \<Rightarrow> cleanup_item \<Rightarrow> ('s, string, unit) prog" where
  "writeDeletionMarker K item =
     andthen (ask (openReceiptDir K item)) (\<lambda>(dir, info).
     reading (k_Fstatat K dir (Base (cln_Destination item))) (\<lambda>r. case r of
       StatAbsent \<Rightarrow> fail ''receipt directory does not hold the object: no such file or directory''
     | StatError e \<Rightarrow> fail (''receipt directory does not hold the object: '' @ e)
     | StatObject obj \<Rightarrow>
         if fi_ID obj \<noteq> ent_FilesystemID (cln_Entry item) then fail ''receipt directory holds a different object''
         else andthen (effect (k_CreateAt K dir deletionMarkerName)) (\<lambda>_.
              andthen (then_close
                (steps [effect (k_WriteAt K dir deletionMarkerName (markerContent item (fi_ID info))),
                        effect (k_FsyncAt K dir deletionMarkerName)])
                (k_CloseAt K dir deletionMarkerName)) (\<lambda>_.
              effect (k_Fsync K dir)))))"

definition hasDeletionMarker :: "('s, 'd) kernel \<Rightarrow> cleanup_item \<Rightarrow> 's \<Rightarrow> bool" where
  "hasDeletionMarker K item s =
     (case openReceiptDir K item s of
        Inl _ \<Rightarrow> False
      | Inr (dir, info) \<Rightarrow>
          let want = markerContent item (fi_ID info)
          in (case k_ReadAt K dir deletionMarkerName s of
                ReadFile st content \<Rightarrow>
                  fi_Kind st = KindRegular \<and> fi_Size st = int (length want)
                  \<and> take (length want + 1) content = want
              | _ \<Rightarrow> False))"

section \<open>Walking a tree\<close>

text \<open>
  The two recursions over a directory tree, with a bound on the number of nested calls: \<open>StillRunning\<close> is
  the outcome of a walk that has not returned within the bound.
\<close>

datatype fault = Fault string | StillRunning

definition faulty :: "('w, string, 'a) prog \<Rightarrow> ('w, fault, 'a) prog" where
  "faulty m w = (case m w of (Inl e, w') \<Rightarrow> (Inl (Fault e), w') | (Inr a, w') \<Rightarrow> (Inr a, w'))"

definition wrap_fault :: "string \<Rightarrow> ('w, fault, 'a) prog \<Rightarrow> ('w, fault, 'a) prog" where
  "wrap_fault msg m w =
     (case m w of (Inl (Fault e), w') \<Rightarrow> (Inl (Fault (msg @ e)), w') | r \<Rightarrow> r)"

definition walk_device :: "string \<Rightarrow> stat_result \<Rightarrow> uint64 \<Rightarrow> fault + file_info" where
  "walk_device name r device =
     (case r of
        StatAbsent \<Rightarrow> Inl (Fault ''no such file or directory'')
      | StatError e \<Rightarrow> Inl (Fault e)
      | StatObject st \<Rightarrow>
          if fs_Device (fi_ID st) \<noteq> device
          then Inl (Fault (''mounted child '' @ name @ '' crossed the deletion filesystem''))
          else Inr st)"

text \<open>Opening a directory that was just inspected, and checking that it is the same one.\<close>

definition open_same :: "('s, 'd) kernel \<Rightarrow> 'd \<Rightarrow> string \<Rightarrow> file_info \<Rightarrow> 's \<Rightarrow> fault + 'd" where
  "open_same K parent name st s =
     (case k_Openat K parent name True s of
        OpenAbsent \<Rightarrow> Inl (Fault ''no such file or directory'')
      | OpenError e \<Rightarrow> Inl (Fault e)
      | Opened fd \<Rightarrow>
          (case k_Fstat K fd s of
             Inl e \<Rightarrow> Inl (Fault e)
           | Inr opened \<Rightarrow>
               if fi_ID st \<noteq> fi_ID opened then Inl (Fault ''directory changed during deletion'') else Inr fd))"

fun verifyAt :: "nat \<Rightarrow> ('s, 'd) kernel \<Rightarrow> 'd \<Rightarrow> string \<Rightarrow> uint64 \<Rightarrow> ('s, fault, unit) prog"
  and verify_names :: "nat \<Rightarrow> ('s, 'd) kernel \<Rightarrow> 'd \<Rightarrow> uint64 \<Rightarrow> ('s, fault, unit) prog"
  and verify_children :: "nat \<Rightarrow> ('s, 'd) kernel \<Rightarrow> 'd \<Rightarrow> string list \<Rightarrow> uint64 \<Rightarrow> ('s, fault, unit) prog" where
  "verifyAt 0 K parent name device = fail StillRunning"
| "verifyAt (Suc n) K parent name device =
     reading (k_Cancelled K) (\<lambda>c. case c of
       Some e \<Rightarrow> fail (Fault e)
     | None \<Rightarrow>
         andthen (ask (\<lambda>s. walk_device name (k_Fstatat K parent name s) device)) (\<lambda>st.
         if fi_Kind st \<noteq> KindDirectory then ok ()
         else andthen (ask (open_same K parent name st)) (\<lambda>fd. verify_names n K fd device)))"
| "verify_names 0 K fd device = fail StillRunning"
| "verify_names (Suc n) K fd device = (\<lambda>s.
     (case k_Readdirnames K fd s of
        ((children, ReadStops e), s') \<Rightarrow> (Inl (Fault e), s')
      | ((children, ReadEOF), s') \<Rightarrow> verify_children n K fd children device s'
      | ((children, ReadMore), s') \<Rightarrow>
          andthen (verify_children n K fd children device) (\<lambda>_. verify_names n K fd device) s'))"
| "verify_children 0 K fd names device = fail StillRunning"
| "verify_children (Suc n) K fd names device =
     (case names of
        [] \<Rightarrow> ok ()
      | child # rest \<Rightarrow>
          andthen (verifyAt n K fd child device) (\<lambda>_. verify_children n K fd rest device))"

text \<open>An error inside the loop still closes the directory; only a clean loop syncs it first.\<close>

definition finish_directory :: "('s, 'd) kernel \<Rightarrow> 'd \<Rightarrow> 'd \<Rightarrow> string \<Rightarrow> ('s, fault, unit) prog \<Rightarrow> ('s, fault, unit) prog" where
  "finish_directory K parent fd name loop s =
     (case loop s of
        (Inl StillRunning, s') \<Rightarrow> (Inl StillRunning, s')
      | (Inl (Fault e), s') \<Rightarrow> (Inl (Fault e), snd (k_CloseDir K fd s'))
      | (Inr _, s') \<Rightarrow>
          faulty (andthen (then_close (effect (k_Fsync K fd)) (k_CloseDir K fd)) (\<lambda>_.
            effect (k_Unlinkat K parent name True))) s')"

fun removeAt :: "nat \<Rightarrow> ('s, 'd) kernel \<Rightarrow> 'd \<Rightarrow> string \<Rightarrow> uint64 \<Rightarrow> ('s, fault, unit) prog"
  and remove_names :: "nat \<Rightarrow> ('s, 'd) kernel \<Rightarrow> 'd \<Rightarrow> uint64 \<Rightarrow> ('s, fault, unit) prog"
  and remove_children :: "nat \<Rightarrow> ('s, 'd) kernel \<Rightarrow> 'd \<Rightarrow> string list \<Rightarrow> uint64 \<Rightarrow> ('s, fault, unit) prog" where
  "removeAt 0 K parent name device = fail StillRunning"
| "removeAt (Suc n) K parent name device =
     andthen (ask (\<lambda>s. walk_device name (k_Fstatat K parent name s) device)) (\<lambda>st.
     if fi_Kind st \<noteq> KindDirectory then faulty (effect (k_Unlinkat K parent name False))
     else andthen (ask (open_same K parent name st)) (\<lambda>fd.
            finish_directory K parent fd name (remove_names n K fd device)))"
| "remove_names 0 K fd device = fail StillRunning"
| "remove_names (Suc n) K fd device = (\<lambda>s.
     (case k_Readdirnames K fd s of
        ((children, ReadStops e), s') \<Rightarrow> (Inl (Fault e), s')
      | ((children, e), s') \<Rightarrow>
          if children = [] then (Inr (), s')
          else andthen (remove_children n K fd children device) (\<lambda>_. remove_names n K fd device) s'))"
| "remove_children 0 K fd names device = fail StillRunning"
| "remove_children (Suc n) K fd names device =
     (case names of
        [] \<Rightarrow> ok ()
      | child # rest \<Rightarrow>
          andthen (removeAt n K fd child device) (\<lambda>_. remove_children n K fd rest device))"

section \<open>Verifying and removing a quarantined object\<close>

definition anchored ::
    "('s, 'd) kernel \<Rightarrow> string \<Rightarrow> filesystem_id \<Rightarrow> int \<Rightarrow> 's \<Rightarrow> fault + 'd" where
  "anchored K path expected ctimeNS s =
     (case openExistingDirNoSymlinks K (Dir path) s of
        Inl e \<Rightarrow> Inl (Fault e)
      | Inr parent \<Rightarrow>
          (case k_Fstatat K parent (Base path) s of
             StatAbsent \<Rightarrow> Inl (Fault ''no such file or directory'')
           | StatError e \<Rightarrow> Inl (Fault e)
           | StatObject st \<Rightarrow>
               if fi_ID st \<noteq> expected then Inl (Fault ''quarantined identity changed'')
               else if ctimeNS \<noteq> 0 \<and> fi_Ctime st \<noteq> ctimeNS
               then Inl (Fault (path @ '' changed since it was observed (ctime differs); not removed''))
               else Inr parent))"

definition verifyDeletionTree ::
    "nat \<Rightarrow> ('s, 'd) kernel \<Rightarrow> string \<Rightarrow> filesystem_id \<Rightarrow> ('s, fault, unit) prog" where
  "verifyDeletionTree n K path expected =
     andthen (ask (anchored K path expected 0)) (\<lambda>parent. verifyAt n K parent (Base path) (fs_Device expected))"

definition deleteAnchoredAt ::
    "nat \<Rightarrow> ('s, 'd) kernel \<Rightarrow> string \<Rightarrow> filesystem_id \<Rightarrow> int \<Rightarrow> ('s, fault, unit) prog" where
  "deleteAnchoredAt n K path expected ctimeNS =
     andthen (ask (anchored K path expected ctimeNS)) (\<lambda>parent.
     andthen (removeAt n K parent (Base path) (fs_Device expected)) (\<lambda>_.
     faulty (effect (k_Fsync K parent))))"

definition deleteAnchored :: "nat \<Rightarrow> ('s, 'd) kernel \<Rightarrow> string \<Rightarrow> filesystem_id \<Rightarrow> ('s, fault, unit) prog" where
  "deleteAnchored n K path expected = deleteAnchoredAt n K path expected 0"

definition RemoveAnchored ::
    "nat \<Rightarrow> ('s, 'd) kernel \<Rightarrow> string \<Rightarrow> filesystem_id \<Rightarrow> int \<Rightarrow> ('s, fault, unit) prog" where
  "RemoveAnchored n K path expected ctimeNS =
     andthen (verifyDeletionTree n K path expected) (\<lambda>_. deleteAnchoredAt n K path expected ctimeNS)"

end
