(* ===== verification/ActionGit.thy ===== *)
theory ActionGit
  imports ActionKernel Collect
begin

text \<open>
  \<open>internal/action/git.go\<close> and \<open>git_metadata_linux.go\<close>: moving a linked worktree with Git, and the checks
  that its registration holds in both directions before and after.
\<close>

section \<open>Running Git\<close>

definition maxGitOutput :: nat where "maxGitOutput = 64 * 1024"
definition maxGitPointer :: nat where "maxGitPointer = 4096"

definition git_environment :: "string \<Rightarrow> string list" where
  "git_environment path =
     [''PATH='' @ path, ''HOME=/nonexistent'', ''GIT_CONFIG_NOSYSTEM=1'', ''GIT_CONFIG_GLOBAL=/dev/null'',
      ''GIT_TERMINAL_PROMPT=0'', ''GIT_ASKPASS=true'', ''LC_ALL=C'']"

text \<open>Both outputs are kept up to the limit, and reaching the limit is an error.\<close>

definition git_result :: "string list \<Rightarrow> command_run \<Rightarrow> string + string" where
  "git_result args r =
    (let what = ''git '' @ join '' '' args; out = take maxGitOutput (run_Stdout r);
         err = take maxGitOutput (run_Stderr r)
     in case run_Cancelled r of
          Some e \<Rightarrow> Inl (what @ '': '' @ e)
        | None \<Rightarrow> (case run_Error r of
            Some e \<Rightarrow> Inl (what @ '': '' @ e @ '': '' @ TrimSpace err)
          | None \<Rightarrow>
              if length out = maxGitOutput \<or> length err = maxGitOutput
              then Inl (what @ '' output exceeded limit'')
              else Inr (TrimSuffix out [CHR 0x0A])))"

definition runLocalGit :: "('s, 'd) kernel \<Rightarrow> string \<Rightarrow> string list \<Rightarrow> ('s, string, string) prog" where
  "runLocalGit K dir args s =
     (case k_Exec K (git_environment (k_PathEnv K s)) ([''-C'', dir, ''--no-optional-locks''] @ args) s of
        (r, s') \<Rightarrow> (git_result args r, s'))"

section \<open>Reading the listing and the pointers\<close>

text \<open>
  The records of \<open>git worktree list --porcelain -z\<close>: fields end in a NUL, records in an empty field.
\<close>

fun registered_loop :: "string \<Rightarrow> string list \<Rightarrow> string \<Rightarrow> bool \<Rightarrow> bool \<Rightarrow> bool \<Rightarrow> string + bool" where
  "registered_loop path [] current locked prunable found = Inr found"
| "registered_loop path (field # rest) current locked prunable found =
     (if field = '''' then
        if current = '''' then Inl ''malformed Git worktree record''
        else if current = path then
          if found then Inl ''duplicate worktree registration''
          else if locked \<or> prunable then Inl (''worktree '' @ quote path @ '' is locked or prunable'')
          else registered_loop path rest '''' False False True
        else registered_loop path rest '''' False False found
      else if current = '''' then
        if \<not> HasPrefix field ''worktree '' then Inl ''malformed Git worktree record''
        else let c = TrimPrefix field ''worktree ''
             in if \<not> IsAbs c \<or> Clean c \<noteq> c then Inl ''malformed Git worktree path''
                else registered_loop path rest c locked prunable found
      else if field = ''locked'' \<or> HasPrefix field ''locked '' then
        registered_loop path rest current True prunable found
      else if field = ''prunable'' \<or> HasPrefix field ''prunable '' then
        registered_loop path rest current locked True found
      else registered_loop path rest current locked prunable found)"

definition registeredWorktree :: "string \<Rightarrow> string \<Rightarrow> string + bool" where
  "registeredWorktree listing path =
     (if \<not> HasSuffix listing [NUL, NUL] then Inl ''malformed Git worktree listing''
      else registered_loop path (split_on NUL (TrimSuffix listing [NUL])) '''' False False False)"

definition parseGitPointer :: "string \<Rightarrow> string \<Rightarrow> string \<Rightarrow> string + string" where
  "parseGitPointer path pre content =
    (let data = take (Suc maxGitPointer) content; value = TrimSuffix data [CHR 0x0A]
     in if maxGitPointer < length data then Inl (''read Git pointer '' @ quote path)
        else if \<not> HasPrefix value pre \<or> ContainsAny value [NUL, CHR 0x0D, CHR 0x0A]
        then Inl (''malformed Git pointer '' @ quote path)
        else let v = TrimPrefix value pre
             in if \<not> IsAbs v \<or> Clean v \<noteq> v
                then Inl (''Git pointer '' @ quote path @ '' is not an absolute normalized path'')
                else Inr v)"

definition readGitPointer :: "('s, 'd) kernel \<Rightarrow> string \<Rightarrow> string \<Rightarrow> 's \<Rightarrow> string + string" where
  "readGitPointer K path pre s =
     (case k_Lstat K path s of
        StatAbsent \<Rightarrow> Inl (''inspect Git pointer '' @ quote path @ '': no such file or directory'')
      | StatError e \<Rightarrow> Inl (''inspect Git pointer '' @ quote path @ '': '' @ e)
      | StatObject info \<Rightarrow>
          if fi_Kind info \<noteq> KindRegular \<or> int maxGitPointer < fi_Size info
          then Inl (''Git pointer '' @ quote path @ '' is not a small regular file'')
          else (case k_ReadPath K path s of
              ReadAbsent \<Rightarrow> Inl ''no such file or directory''
            | ReadError e \<Rightarrow> Inl e
            | ReadFile _ content \<Rightarrow> parseGitPointer path pre content))"

section \<open>A linked worktree\<close>

definition validGitPath :: "string \<Rightarrow> string + unit" where
  "validGitPath path =
     (if path = '''' \<or> \<not> IsAbs path \<or> Clean path \<noteq> path
      then Inl (''path '' @ quote path @ '' must be absolute and normalized'') else Inr ())"

definition gitDirectory :: "('s, 'd) kernel \<Rightarrow> string \<Rightarrow> 's \<Rightarrow> string + unit" where
  "gitDirectory K path s =
     (case k_Lstat K path s of
        StatAbsent \<Rightarrow> Inl ''no such file or directory''
      | StatError e \<Rightarrow> Inl e
      | StatObject info \<Rightarrow>
          if fi_Kind info \<noteq> KindDirectory then Inl (quote path @ '' is not a directory'')
          else (case k_EvalSymlinks K path s of
              Inl e \<Rightarrow> Inl e
            | Inr resolved \<Rightarrow> if resolved \<noteq> path then Inl (quote path @ '' traverses a symlink'') else Inr ()))"

text \<open>No lock file at any of the names.\<close>

fun unlocked :: "('s, 'd) kernel \<Rightarrow> string list \<Rightarrow> 's \<Rightarrow> string + unit" where
  "unlocked K [] s = Inr ()"
| "unlocked K (lock # locks) s =
     (case k_Lstat K lock s of
        StatObject _ \<Rightarrow> Inl (''Git lock present: '' @ lock)
      | StatError e \<Rightarrow> Inl (''inspect Git lock '' @ quote lock @ '': '' @ e)
      | StatAbsent \<Rightarrow> unlocked K locks s)"

text \<open>The owner: a bare repository, or the primary worktree of its own repository.\<close>

definition inspectOwner :: "('s, 'd) kernel \<Rightarrow> string \<Rightarrow> ('s, string, string) prog" where
  "inspectOwner K owner =
     andthen (wrap ''inspect owner: '' (runLocalGit K owner [''rev-parse'', ''--is-bare-repository''])) (\<lambda>bare.
     andthen (wrap ''inspect owner common directory: ''
       (runLocalGit K owner [''rev-parse'', ''--path-format=absolute'', ''--git-common-dir''])) (\<lambda>raw.
     let common = TrimSpace raw
     in if \<not> IsAbs common \<or> Clean common \<noteq> common then fail ''owner has invalid Git common directory''
        else andthen
          (if bare = ''true'' then require (common = owner) ''owner is not the bare repository''
           else if bare = ''false'' then
             andthen (wrap ''inspect owner root: '' (runLocalGit K owner [''rev-parse'', ''--show-toplevel'']))
               (\<lambda>root. require (TrimSpace root = owner \<and> common = Join [owner, ''.git''])
                  ''owner is not the primary repository'')
           else fail ''owner has invalid bare status'')
          (\<lambda>_. andthen (wrap ''owner common directory: '' (ask (gitDirectory K common))) (\<lambda>_. ok common))))"

definition inspectLinkedWorktree :: "('s, 'd) kernel \<Rightarrow> string \<Rightarrow> string \<Rightarrow> ('s, string, string) prog" where
  "inspectLinkedWorktree K owner path =
     andthen (wrap ''owner: '' (ask (\<lambda>_. validGitPath owner))) (\<lambda>_.
     andthen (wrap ''worktree: '' (ask (\<lambda>_. validGitPath path))) (\<lambda>_.
     andthen (require (owner \<noteq> path) ''owner is not a linked worktree'') (\<lambda>_.
     andthen (wrap ''owner: '' (ask (gitDirectory K owner))) (\<lambda>_.
     andthen (wrap ''worktree: '' (ask (gitDirectory K path))) (\<lambda>_.
     andthen (inspectOwner K owner) (\<lambda>common.
     andthen (wrap ''list registered worktrees: ''
       (runLocalGit K owner [''worktree'', ''list'', ''--porcelain'', ''-z''])) (\<lambda>listing.
     andthen (ask (\<lambda>_. registeredWorktree listing path)) (\<lambda>registered.
     andthen (require registered (''worktree '' @ quote path @ '' is not registered to '' @ quote owner)) (\<lambda>_.
     andthen (ask (readGitPointer K (Join [path, ''.git'']) ''gitdir: '')) (\<lambda>pointer.
     andthen (require (Dir pointer = Join [common, ''worktrees''] \<and> Base pointer \<noteq> ''.'')
       ''worktree gitfile does not point into owner's worktree records'') (\<lambda>_.
     andthen (wrap ''worktree administrative directory: '' (ask (gitDirectory K pointer))) (\<lambda>_.
     andthen (ask (readGitPointer K (Join [pointer, ''gitdir'']) '''')) (\<lambda>back.
     andthen (require (back = Join [path, ''.git''])
       ''worktree administrative gitdir does not point back to worktree'') (\<lambda>_.
     andthen (ask (unlocked K [Join [pointer, ''locked''], Join [pointer, ''index.lock''],
       Join [common, ''index.lock'']])) (\<lambda>_.
     andthen (wrap (''worktree cannot resolve its own root '' @ quote path @ '': '')
       (runLocalGit K path [''rev-parse'', ''--show-toplevel''])) (\<lambda>root.
     andthen (require (TrimSpace root = path) (''worktree cannot resolve its own root '' @ quote path)) (\<lambda>_.
     andthen (wrap ''worktree Git directory does not match gitfile: ''
       (runLocalGit K path [''rev-parse'', ''--absolute-git-dir''])) (\<lambda>gitDir.
     andthen (require (TrimSpace gitDir = pointer) ''worktree Git directory does not match gitfile'') (\<lambda>_.
     andthen (wrap ''worktree Git common directory does not match owner: ''
       (runLocalGit K path [''rev-parse'', ''--path-format=absolute'', ''--git-common-dir''])) (\<lambda>worktreeCommon.
     andthen (require (TrimSpace worktreeCommon = common)
       ''worktree Git common directory does not match owner'') (\<lambda>_.
     ok pointer)))))))))))))))))))))"

definition VerifyLinkedWorktree :: "('s, 'd) kernel \<Rightarrow> string \<Rightarrow> string \<Rightarrow> ('s, string, unit) prog" where
  "VerifyLinkedWorktree K owner path = andthen (inspectLinkedWorktree K owner path) (\<lambda>_. ok ())"

section \<open>Moving one\<close>

definition captureGitMetadata :: "('s, 'd) kernel \<Rightarrow> string \<Rightarrow> 's \<Rightarrow> string + file_info" where
  "captureGitMetadata K path s =
     (case openExistingDirNoSymlinks K (Dir path) s of
        Inl e \<Rightarrow> Inl e
      | Inr parent \<Rightarrow>
          (case k_Fstatat K parent (Base path) s of
             StatAbsent \<Rightarrow> Inl ''no such file or directory''
           | StatError e \<Rightarrow> Inl e
           | StatObject st \<Rightarrow>
               if fi_Kind st \<noteq> KindDirectory \<and> fi_Kind st \<noteq> KindRegular
               then Inl (''Git metadata path '' @ path @ '' is not a directory or regular file'')
               else Inr st))"

definition restoreGitMetadata :: "('s, 'd) kernel \<Rightarrow> string \<Rightarrow> file_info \<Rightarrow> ('s, string, unit) prog" where
  "restoreGitMetadata K path before =
     andthen (ask (openExistingDirNoSymlinks K (Dir path))) (\<lambda>parent.
     reading (k_Fstatat K parent (Base path)) (\<lambda>r. case r of
       StatAbsent \<Rightarrow> fail ''no such file or directory''
     | StatError e \<Rightarrow> fail e
     | StatObject st \<Rightarrow>
         if fs_Device (fi_ID st) \<noteq> fs_Device (fi_ID before) \<or> fi_Kind st \<noteq> fi_Kind before
            \<or> (fi_Kind st = KindDirectory \<and> fs_Inode (fi_ID st) \<noteq> fs_Inode (fi_ID before))
         then fail (''Git metadata path '' @ path @ '' changed identity or type'')
         else steps [effect (k_Fchmodat K parent (Base path) (fi_Mode before)),
                     effect (k_UtimesNanoAt K parent (Base path) (fi_Atime before) (fi_Mtime before)),
                     effect (k_Fsync K parent)]))"

definition MoveLinkedWorktree ::
    "('s, 'd) kernel \<Rightarrow> string \<Rightarrow> string \<Rightarrow> string \<Rightarrow> ('s, string, unit) prog" where
  "MoveLinkedWorktree K owner from to =
     andthen (wrap ''destination: '' (ask (\<lambda>_. validGitPath to))) (\<lambda>_.
     andthen (require (from \<noteq> to) ''source and destination are the same'') (\<lambda>_.
     andthen (wrap ''capture worktree metadata: '' (ask (captureGitMetadata K from))) (\<lambda>rootMetadata.
     andthen (wrap ''capture worktree gitfile metadata: ''
       (ask (captureGitMetadata K (Join [from, ''.git''])))) (\<lambda>gitfileMetadata.
     andthen (inspectLinkedWorktree K owner from) (\<lambda>_.
     andthen (reading (k_Lstat K to) (\<lambda>r. case r of
         StatAbsent \<Rightarrow> ok ()
       | StatError e \<Rightarrow> fail (''inspect destination '' @ quote to @ '': '' @ e)
       | StatObject _ \<Rightarrow> fail (''destination '' @ quote to @ '' already exists''))) (\<lambda>_.
     andthen (wrap ''destination parent: '' (ask (gitDirectory K (Dir to)))) (\<lambda>_.
     andthen (wrap ''move linked worktree: ''
       (runLocalGit K owner [''worktree'', ''move'', ''--'', from, to])) (\<lambda>_.
     andthen (wrap ''verify moved linked worktree: '' (inspectLinkedWorktree K owner to)) (\<lambda>_.
     steps
       [wrap ''preserve moved worktree gitfile metadata: ''
          (restoreGitMetadata K (Join [to, ''.git'']) gitfileMetadata),
        wrap ''preserve moved worktree directory metadata: '' (restoreGitMetadata K to rootMetadata)])))))))))"

end
