(* ===== verification/ActionEngine.thy ===== *)
theory ActionEngine
  imports ActionFiles ActionGit
begin

text \<open>
  \<open>internal/action/engine.go\<close> and \<open>retention.go\<close>: the operations on receipts.  An operation runs on the
  system together with the journal; its error carries the item as the code returns it beside the error.
\<close>

section \<open>The engine\<close>

record 's world =
  wld_Sys :: 's
  wld_Journal :: journal

text \<open>
  The fields of \<open>Engine\<close>; \<open>eng_DB\<close> says that a store is open, \<open>eng_Fuel\<close> bounds the tree walks, and
  \<open>eng_Codec\<close> and \<open>eng_Marshal\<close> are the encodings of the store and of the manifest.
\<close>

record engine =
  eng_DB :: bool
  eng_ReadOnly :: bool
  eng_QuarantineDir :: string
  eng_Policy :: safety_policy
  eng_AgentSources :: bool
  eng_ArchiveCreationPath :: string
  eng_WorktreeOrigin :: "(string \<times> string) option"
  eng_Codec :: codec
  eng_Marshal :: "cleanup_item \<Rightarrow> string option"
  eng_Fuel :: nat

type_synonym ('s, 'a) operation = "('s world, cleanup_item \<times> fault, 'a) prog"

definition refuse :: "cleanup_item \<Rightarrow> string \<Rightarrow> ('s, 'a) operation" where
  "refuse item msg = fail (item, Fault msg)"

text \<open>A step on the system alone, whose error is returned with the item.\<close>

definition sys_fault :: "cleanup_item \<Rightarrow> ('s, fault, 'a) prog \<Rightarrow> ('s, 'a) operation" where
  "sys_fault item m w =
     (case m (wld_Sys w) of
        (Inl e, s) \<Rightarrow> (Inl (item, e), w\<lparr>wld_Sys := s\<rparr>)
      | (Inr a, s) \<Rightarrow> (Inr a, w\<lparr>wld_Sys := s\<rparr>))"

definition sys :: "cleanup_item \<Rightarrow> ('s, string, 'a) prog \<Rightarrow> ('s, 'a) operation" where
  "sys item m = sys_fault item (faulty m)"

definition inspect :: "('s \<Rightarrow> 'r) \<Rightarrow> ('r \<Rightarrow> ('s, 'a) operation) \<Rightarrow> ('s, 'a) operation" where
  "inspect q f w = f (q (wld_Sys w)) w"

definition with_now :: "('s, 'd) kernel \<Rightarrow> (time \<Rightarrow> ('s, 'a) operation) \<Rightarrow> ('s, 'a) operation" where
  "with_now K f w = (case k_Now K (wld_Sys w) of (t, s) \<Rightarrow> f t (w\<lparr>wld_Sys := s\<rparr>))"

text \<open>One journal transaction; the system is left alone.\<close>

definition journal_write ::
    "('s, 'd) kernel \<Rightarrow> engine \<Rightarrow> cleanup_item \<Rightarrow> (journal \<Rightarrow> store_error + journal) \<Rightarrow> ('s, unit) operation" where
  "journal_write K e item tx w =
     (case write_tx (eng_ReadOnly e) (k_Begin K (wld_Sys w)) (k_Commit K (wld_Sys w)) tx (wld_Journal w) of
        (Some _, j) \<Rightarrow> (Inl (item, Fault ''journal''), w\<lparr>wld_Journal := j\<rparr>)
      | (None, j) \<Rightarrow> (Inr (), w\<lparr>wld_Journal := j\<rparr>))"

definition update ::
    "('s, 'd) kernel \<Rightarrow> engine \<Rightarrow> cleanup_item \<Rightarrow> cleanup_state \<Rightarrow> ('s, unit) operation" where
  "update K e item expected = journal_write K e item (UpdateCleanup (eng_Codec e) item expected)"

text \<open>Recording a new state and returning the item.\<close>

definition record_state ::
    "('s, 'd) kernel \<Rightarrow> engine \<Rightarrow> cleanup_item \<Rightarrow> cleanup_state \<Rightarrow> ('s, cleanup_item) operation" where
  "record_state K e item expected = andthen (update K e item expected) (\<lambda>_. ok item)"

definition linked_owner :: "cleanup_item \<Rightarrow> string option" where
  "linked_owner item =
     (case ent_Git (cln_Entry item) of
        Some g \<Rightarrow> if git_WorktreeOf g \<noteq> '''' then Some (git_WorktreeOf g) else None
      | None \<Rightarrow> None)"

text \<open>The Git registration is checked only for a linked worktree.\<close>

definition verify_linked :: "('s, 'd) kernel \<Rightarrow> cleanup_item \<Rightarrow> string \<Rightarrow> ('s, string, unit) prog" where
  "verify_linked K item path =
     (case linked_owner item of None \<Rightarrow> ok () | Some owner \<Rightarrow> VerifyLinkedWorktree K owner path)"

definition move_object :: "('s, 'd) kernel \<Rightarrow> cleanup_item \<Rightarrow> string \<Rightarrow> string \<Rightarrow> filesystem_id
    \<Rightarrow> ('s, string, unit) prog" where
  "move_object K item from to i =
     (case linked_owner item of
        Some owner \<Rightarrow> MoveLinkedWorktree K owner from to
      | None \<Rightarrow> renameNoReplace K from to i)"

section \<open>Observing\<close>

definition observeAround ::
    "('s, 'd) kernel \<Rightarrow> engine \<Rightarrow> string \<Rightarrow> bool \<Rightarrow> 's \<Rightarrow> string + observe_result" where
  "observeAround K e path deep s =
     (case k_Observe K
         \<lparr>obs_Root = Dir path, obs_FollowSymlinks = (\<not> within_root path (eng_QuarantineDir e)), obs_Deep = deep,
          obs_ArchiveBindPath = path, obs_WorktreeOrigin = eng_WorktreeOrigin e,
          obs_ArchiveCreationPath = eng_ArchiveCreationPath e\<rparr> s of
        Inl err \<Rightarrow> Inl err
      | Inr res \<Rightarrow>
          (case EvidenceGap (res_Reports res) (eng_AgentSources e) of
             Some gap \<Rightarrow> Inl (path @ '' '' @ gap)
           | None \<Rightarrow> Inr res))"

definition recollectWithSize :: "('s, 'd) kernel \<Rightarrow> engine \<Rightarrow> string \<Rightarrow> bool \<Rightarrow> 's \<Rightarrow> string + entry" where
  "recollectWithSize K e path deep s =
     (case observeAround K e path deep s of
        Inl err \<Rightarrow> Inl err
      | Inr res \<Rightarrow>
          (case find (\<lambda>x. ent_Path x = path) (res_Entries res) of
             Some x \<Rightarrow> Inr x
           | None \<Rightarrow> Inl (path @ '' not found in fresh collection'')))"

definition recollectReceipt :: "('s, 'd) kernel \<Rightarrow> engine \<Rightarrow> string \<Rightarrow> string \<Rightarrow> 's \<Rightarrow> string + entry" where
  "recollectReceipt K e path source =
     recollectWithSize K (e\<lparr>eng_WorktreeOrigin := Some (path, source)\<rparr>) path False"

definition reference_text :: "reference \<Rightarrow> string" where
  "reference_text r = protectionKind_str (ref_Protection r) @ '' ('' @ ref_Detail r @ '')''"

definition refers_to :: "string \<Rightarrow> reference \<Rightarrow> bool" where
  "refers_to source r \<longleftrightarrow>
     PathWithin (ref_Path r) source \<or> ref_Subtree r \<and> PathWithin source (ref_Path r)"

definition originalReferences :: "('s, 'd) kernel \<Rightarrow> engine \<Rightarrow> string \<Rightarrow> 's \<Rightarrow> string + unit" where
  "originalReferences K e source s =
     (case observeAround K e source False s of
        Inl err \<Rightarrow> Inl err
      | Inr res \<Rightarrow>
          let found = filter (refers_to source) (res_References res)
          in if found \<noteq> []
             then Inl (''original source has new protected references: ''
               @ join ''; '' (map reference_text found))
             else Inr ())"

section \<open>Eligibility for deletion\<close>

text \<open>The policy without the protection of the janitor's own directories.\<close>

definition receipt_policy :: "safety_policy \<Rightarrow> safety_policy" where
  "receipt_policy p =
     p\<lparr>spol_StateDir := '''', spol_QuarantineDir := '''',
       spol_ProtectedPaths := filter (\<lambda>x. Clean x \<noteq> Clean (spol_StateDir p)
         \<and> Clean x \<noteq> Clean (spol_QuarantineDir p)) (spol_ProtectedPaths p)\<rparr>"

text \<open>What the probe observed: nothing (the zero entry, here \<open>None\<close>) when re-observation failed.\<close>

definition receipt_revalidation :: "engine \<Rightarrow> cleanup_item \<Rightarrow> entry \<Rightarrow> time \<Rightarrow> handle \<Rightarrow> string + entry
    \<Rightarrow> revalidate_input" where
  "receipt_revalidation e item planned now h fresh =
     \<lparr>rev_Planned = planned,
      rev_Action = (cln_Action item)\<lparr>act_Path := cln_Destination item, act_Kind := ActionDeleteCandidate,
        act_FilesystemID := ent_FilesystemID planned\<rparr>,
      rev_Policy = receipt_policy (eng_Policy e), rev_Jobs = [], rev_Target = None, rev_Now = now,
      rev_Recollect = Some (\<lambda>_. case fresh of
        Inl err \<Rightarrow> Inl err | Inr x \<Rightarrow> Inr (x\<lparr>ent_Root := ent_Root (cln_Entry item)\<rparr>)),
      rev_Handle = Some h\<rparr>"

definition original_input :: "engine \<Rightarrow> cleanup_item \<Rightarrow> entry \<Rightarrow> time \<Rightarrow> safety_input" where
  "original_input e item observed now =
     \<lparr>in_Entry = observed\<lparr>ent_Path := cln_Source item, ent_Root := ent_Root (cln_Entry item),
        ent_CanonicalPath := ent_CanonicalPath (cln_Entry item)\<rparr>,
      in_Policy = eng_Policy e, in_Jobs = [], in_Target = None, in_Now = now\<rparr>"

definition Eligible :: "('s, 'd) kernel \<Rightarrow> engine \<Rightarrow> cleanup_item \<Rightarrow> ('s, unit) operation" where
  "Eligible K e item =
     (if cln_State item \<noteq> CleanupQuarantined then refuse item (cln_ActionID item @ '' is not quarantined'')
      else case cln_MovedAt item of
        None \<Rightarrow> refuse item ''retention has not expired''
      | Some moved \<Rightarrow> with_now K (\<lambda>now.
      if \<not> Expired (act_Retention (cln_Action item)) moved now then refuse item ''retention has not expired''
      else case cln_Quarantined item of
        None \<Rightarrow> refuse item ''missing post-move safety snapshot''
      | Some snapshot \<Rightarrow>
      andthen (sys item (ask (originalReferences K e (cln_Source item)))) (\<lambda>_.
      andthen (sys item (ask (k_OpenHandle K (cln_Destination item)))) (\<lambda>h.
      let planned = snapshot\<lparr>ent_Root := ent_Root (cln_Entry item)\<rparr>
      in with_now K (\<lambda>now1. inspect (recollectReceipt K e (cln_Destination item) (cln_Source item)) (\<lambda>fresh.
      let verdict = Revalidate now1 (receipt_revalidation e item planned now1 h fresh)
      in if \<not> Allows verdict ActionDeleteCandidate
         then refuse item (''deletion safety refused: '' @ Verdict_Summary verdict)
         else with_now K (\<lambda>now2.
      case fresh of
        Inl err \<Rightarrow> refuse item (''deletion safety refused: '' @ err)
      | Inr observed \<Rightarrow>
          let original = Evaluate now2 (original_input e item observed now2)
          in if \<not> Allows original ActionDeleteCandidate
             then refuse item (''original source safety refused: '' @ Verdict_Summary original)
             else sys_fault item (wrap_fault ''deletion footprint is unproven: ''
               (verifyDeletionTree (eng_Fuel e) K (cln_Destination item) (ent_FilesystemID planned))))))))))"

section \<open>Preparing\<close>

definition filepath_Abs :: "('s, 'd) kernel \<Rightarrow> string \<Rightarrow> 's \<Rightarrow> string + string" where
  "filepath_Abs K path s =
     (if IsAbs path then Inr (Clean path)
      else case k_Getwd K s of Inl e \<Rightarrow> Inl e | Inr wd \<Rightarrow> Inr (Join [wd, path]))"

definition Prepare :: "('s, 'd) kernel \<Rightarrow> engine \<Rightarrow> cleanup_item \<Rightarrow> ('s, cleanup_item) operation" where
  "Prepare K e item0 =
     (if \<not> eng_DB e \<or> eng_QuarantineDir e = '''' then refuse item0 ''quarantine store and directory are required''
      else andthen (sys item0 (ask (filepath_Abs K (eng_QuarantineDir e)))) (\<lambda>qdir.
      let base = Join [qdir, cln_CleanupID item0, cln_ActionID item0]
      in with_now K (\<lambda>now.
      let item = CleanupItem_Normalize (item0\<lparr>cln_Destination := Join [base, ''item''],
            cln_State := CleanupPrepared, cln_CreatedAt := now, cln_UpdatedAt := now\<rparr>)
      in if CleanupItem_Validate item \<noteq> None then refuse item ''invalid item''
         else if within_root (cln_Source item) qdir \<or> within_root qdir (cln_Source item)
         then refuse item (''quarantine overlaps source '' @ cln_Source item)
         else andthen (steps
           [sys item (wrap ''create receipt directory: '' (createReceiptDir K base)),
            sys item (ask (sameFilesystem K (cln_Source item) base)),
            sys item (syncDir K (Dir base)),
            journal_write K e item (InsertCleanup (eng_Codec e) item),
            sys item (ensureManifest K (eng_Marshal e) item)]) (\<lambda>_. ok item))))"

section \<open>Preflight checks\<close>

definition recollector_of :: "('s, 'd) kernel \<Rightarrow> engine \<Rightarrow> bool \<Rightarrow> 's \<Rightarrow> recollector" where
  "recollector_of K e deep s = (\<lambda>path. recollectWithSize K e path deep s)"

definition preflightEntry ::
    "('s, 'd) kernel \<Rightarrow> engine \<Rightarrow> cleanup_item \<Rightarrow> entry \<Rightarrow> action \<Rightarrow> string \<Rightarrow> ('s, unit) operation" where
  "preflightEntry K e item x a label =
     andthen (sys item (ask (k_OpenHandle K (ent_Path x)))) (\<lambda>h.
     with_now K (\<lambda>now. inspect (recollector_of K e (ent_SizeIsDeep x)) (\<lambda>recollect.
     let verdict = Revalidate now \<lparr>rev_Planned = x, rev_Action = a, rev_Policy = eng_Policy e, rev_Jobs = [],
           rev_Target = None, rev_Now = now, rev_Recollect = Some recollect, rev_Handle = Some h\<rparr>
     in if \<not> Allows verdict (act_Kind a)
        then refuse item (label @ '' refused '' @ ent_Path x @ '': '' @ Verdict_Summary verdict)
        else ok ())))"

definition PreflightOfficial ::
    "('s, 'd) kernel \<Rightarrow> engine \<Rightarrow> cleanup_item \<Rightarrow> entry \<Rightarrow> action \<Rightarrow> ('s, unit) operation" where
  "PreflightOfficial K e item x a =
     (if act_Kind a \<noteq> ActionDeleteCandidate \<or> act_Path a \<noteq> ent_Path x \<or> ent_Kind x \<noteq> EntryKindDirectory
         \<or> ent_Git x \<noteq> None
      then refuse item ''official prune requires an exact approved cache directory, not a repository''
      else preflightEntry K e item x a ''official prune'')"

definition PreflightExport ::
    "('s, 'd) kernel \<Rightarrow> engine \<Rightarrow> cleanup_item \<Rightarrow> entry \<Rightarrow> action \<Rightarrow> ('s, unit) operation" where
  "PreflightExport K e item x a =
     (if ent_Kind x \<noteq> EntryKindFile \<or> ent_Git x \<noteq> None \<or> act_Path a \<noteq> ent_Path x
         \<or> act_Kind a \<noteq> ActionQuarantine \<or> eng_ArchiveCreationPath e \<noteq> ent_Path x
      then refuse item ''archive requires an exact owner-approved regular export''
      else with_now K (\<lambda>now.
      let initial = Evaluate now \<lparr>in_Entry = x, in_Policy = eng_Policy e, in_Jobs = [], in_Target = None,
            in_Now = now\<rparr>
      in if \<not> Allows initial (act_Kind a)
         then refuse item (''archive source remains protected: '' @ Verdict_Summary initial)
         else preflightEntry K e item x a ''export archive''))"

section \<open>Quarantining\<close>

definition finishMove :: "('s, 'd) kernel \<Rightarrow> engine \<Rightarrow> cleanup_item \<Rightarrow> ('s, cleanup_item) operation" where
  "finishMove K e item =
     andthen (sys item (wrap ''source reappeared after move: '' (ask (absent K (cln_Source item))))) (\<lambda>_.
     andthen (sys item (wrap ''moved object requires investigation: ''
       (ask (recollectReceipt K e (cln_Destination item) (cln_Source item))))) (\<lambda>fresh.
     if ent_FilesystemID fresh \<noteq> ent_FilesystemID (cln_Entry item)
     then refuse item ''moved object identity changed; investigate receipt''
     else andthen (sys item (verify_linked K item (cln_Destination item))) (\<lambda>_.
     with_now K (\<lambda>moved.
     record_state K e
       (item\<lparr>cln_State := CleanupQuarantined, cln_UpdatedAt := moved, cln_MovedAt := Some moved,
          cln_ExpiresAt := (case ExpiresAt (act_Retention (cln_Action item)) moved of
             Some x \<Rightarrow> Some x | None \<Rightarrow> cln_ExpiresAt item),
          cln_Quarantined := Some fresh\<rparr>) CleanupPrepared))))"

definition stat_answer_of :: "('s, 'd) kernel \<Rightarrow> 's \<Rightarrow> string \<Rightarrow> stat_answer" where
  "stat_answer_of K s p =
     (case k_Stat K p s of
        StatAbsent \<Rightarrow> StatNoEntry | StatError err \<Rightarrow> StatFails err
      | StatObject i \<Rightarrow> if fi_Kind i = KindDirectory then StatDir (fs_Device (fi_ID i)) else StatNotDir)"

definition quarantine_revalidation :: "('s, 'd) kernel \<Rightarrow> engine \<Rightarrow> cleanup_item \<Rightarrow> handle \<Rightarrow> time \<Rightarrow> 's
    \<Rightarrow> revalidate_input" where
  "quarantine_revalidation K e item h now s =
     \<lparr>rev_Planned = cln_Entry item, rev_Action = cln_Action item, rev_Policy = eng_Policy e, rev_Jobs = [],
      rev_Target = ResolveTarget (stat_answer_of K s) (k_Statfs K s) (Dir (cln_Destination item)),
      rev_Now = now, rev_Recollect = Some (recollector_of K e (ent_SizeIsDeep (cln_Entry item)) s),
      rev_Handle = Some h\<rparr>"

definition Quarantine :: "('s, 'd) kernel \<Rightarrow> engine \<Rightarrow> cleanup_item \<Rightarrow> ('s, cleanup_item) operation" where
  "Quarantine K e item =
     (if cln_State item \<noteq> CleanupPrepared then refuse item (''item '' @ cln_ActionID item @ '' is not prepared'')
      else andthen (sys item (ensureManifest K (eng_Marshal e) item)) (\<lambda>_.
      andthen (sys item (ask (sameFilesystem K (cln_Source item) (Dir (cln_Destination item))))) (\<lambda>_.
      andthen (sys item (ask (k_OpenHandle K (cln_Source item)))) (\<lambda>h.
      with_now K (\<lambda>now. inspect (quarantine_revalidation K e item h now) (\<lambda>input.
      let verdict = Revalidate now input
      in if \<not> Allows verdict (act_Kind (cln_Action item))
         then refuse item (''revalidation refused '' @ cln_Source item @ '': '' @ Verdict_Summary verdict)
         else andthen (steps
           [sys item (ask (absent K (cln_Destination item))),
            sys item (move_object K item (cln_Source item) (cln_Destination item) (hnd_ID h)),
            sys item (syncDir K (Dir (cln_Destination item))),
            sys item (syncDir K (Dir (cln_Source item)))]) (\<lambda>_.
         finishMove K e item)))))))"

section \<open>Expiry\<close>

datatype absent_outcome = absentUnproven | absentDeleted | absentRestored

definition settleAbsent :: "('s, 'd) kernel \<Rightarrow> cleanup_item \<Rightarrow> 's \<Rightarrow> absent_outcome" where
  "settleAbsent K item s =
     (case k_Lstat K (cln_Destination item) s of
        StatAbsent \<Rightarrow>
          let src = k_Lstat K (cln_Source item) s
          in if present src (ent_FilesystemID (cln_Entry item)) then absentRestored
             else (case src of
                StatError _ \<Rightarrow> absentUnproven
              | _ \<Rightarrow> if hasDeletionMarker K item s then absentDeleted else absentUnproven)
      | _ \<Rightarrow> absentUnproven)"

definition ExpiryPreview :: "('s, 'd) kernel \<Rightarrow> engine \<Rightarrow> cleanup_item \<Rightarrow> ('s, unit) operation" where
  "ExpiryPreview K e item =
     inspect (settleAbsent K item) (\<lambda>out. if out \<noteq> absentUnproven then ok () else Eligible K e item)"

definition has_expired :: "cleanup_item \<Rightarrow> time \<Rightarrow> bool" where
  "has_expired item now =
     (case cln_MovedAt item of
        None \<Rightarrow> False | Some moved \<Rightarrow> Expired (act_Retention (cln_Action item)) moved now)"

text \<open>An error is returned with the caller's item, or handled; a walk still running is neither.\<close>

definition blame :: "cleanup_item \<Rightarrow> ('s, 'a) operation \<Rightarrow> ('s, 'a) operation" where
  "blame item m w = (case m w of (Inl (_, err), w') \<Rightarrow> (Inl (item, err), w') | r \<Rightarrow> r)"

definition rescue :: "('s, 'a) operation \<Rightarrow> (string \<Rightarrow> ('s, 'a) operation) \<Rightarrow> ('s, 'a) operation" where
  "rescue m h w = (case m w of (Inl (_, Fault err), w') \<Rightarrow> h err w' | r \<Rightarrow> r)"

definition RetryPreview :: "('s, 'd) kernel \<Rightarrow> engine \<Rightarrow> cleanup_item \<Rightarrow> ('s, unit) operation" where
  "RetryPreview K e item =
    (let candidate = item\<lparr>cln_State := CleanupQuarantined\<rparr>
     in inspect (settleAbsent K item) (\<lambda>out.
        andthen (if out = absentUnproven then Eligible K e candidate else ok ()) (\<lambda>_.
        if cln_MovedAt candidate = None then refuse item ''retention has not expired''
        else with_now K (\<lambda>now.
          if \<not> has_expired candidate now then refuse item ''retention has not expired''
          else ExpiryPreview K e candidate))))"

section \<open>Recovery\<close>

definition investigate :: "('s, 'd) kernel \<Rightarrow> engine \<Rightarrow> cleanup_item \<Rightarrow> string \<Rightarrow> ('s, cleanup_item) operation" where
  "investigate K e item reason = with_now K (\<lambda>now.
     let after = item\<lparr>cln_State := CleanupInvestigate, cln_UpdatedAt := now, cln_Reason := reason\<rparr>
     in andthen (update K e after (cln_State item)) (\<lambda>_.
        refuse after (cln_ActionID after @ '': '' @ reason)))"

definition retry_investigated :: "('s, 'd) kernel \<Rightarrow> engine \<Rightarrow> cleanup_item \<Rightarrow> ('s, cleanup_item) operation" where
  "retry_investigated K e item =
     inspect (settleAbsent K item) (\<lambda>out.
     andthen (if out = absentUnproven
              then blame item (Eligible K e (item\<lparr>cln_State := CleanupQuarantined\<rparr>)) else ok ()) (\<lambda>_.
     with_now K (\<lambda>now.
     record_state K e (item\<lparr>cln_State := CleanupQuarantined, cln_UpdatedAt := now, cln_Reason := ''''\<rparr>)
       CleanupInvestigate)))"

definition Reconcile :: "('s, 'd) kernel \<Rightarrow> engine \<Rightarrow> cleanup_item \<Rightarrow> ('s, cleanup_item) operation" where
  "Reconcile K e item =
     (if cln_State item = CleanupInvestigate \<and> cln_Quarantined item \<noteq> None \<and> cln_MovedAt item \<noteq> None
      then retry_investigated K e item
      else if cln_State item \<noteq> CleanupPrepared \<and> cln_State item \<noteq> CleanupQuarantined then ok item
      else inspect (\<lambda>s. (k_Lstat K (cln_Source item) s, k_Lstat K (cln_Destination item) s)) (\<lambda>(src, dst).
      let i = ent_FilesystemID (cln_Entry item)
      in if cln_State item = CleanupPrepared then
           if present src i \<and> dst = StatAbsent then ok item
           else if src = StatAbsent \<and> present dst i then
             rescue (finishMove K e item) (\<lambda>err.
               investigate K e item (''post-move observation failed: '' @ err))
           else investigate K e item ''prepared move has conflicting or changed source and destination''
         else if src = StatAbsent \<and> present dst i then ok item
         else if present dst i \<and> (case src of StatObject _ \<Rightarrow> True | _ \<Rightarrow> False) then ok item
         else if present src i \<and> dst = StatAbsent then
           andthen (rescue (sys item (verify_linked K item (cln_Source item))) (\<lambda>_.
             andthen (investigate K e item ''restored Git registration is invalid'') (\<lambda>_. ok ()))) (\<lambda>_.
           with_now K (\<lambda>now.
           record_state K e (item\<lparr>cln_State := CleanupRestored, cln_UpdatedAt := now\<rparr>) CleanupQuarantined))
         else investigate K e item ''quarantined move has conflicting or changed source and destination''))"

section \<open>Restoring\<close>

definition restore_recorded ::
    "('s, 'd) kernel \<Rightarrow> engine \<Rightarrow> cleanup_item \<Rightarrow> ('s, cleanup_item) operation" where
  "restore_recorded K e item = with_now K (\<lambda>now.
     record_state K e (item\<lparr>cln_State := CleanupRestored, cln_UpdatedAt := now\<rparr>) (cln_State item))"

definition restore_prepared :: "('s, 'd) kernel \<Rightarrow> engine \<Rightarrow> cleanup_item \<Rightarrow> ('s, cleanup_item) operation" where
  "restore_prepared K e item =
     inspect (k_Lstat K (cln_Source item)) (\<lambda>src.
     if \<not> present src (ent_FilesystemID (cln_Entry item)) then refuse item ''prepared source changed''
     else andthen (sys item (wrap ''prepared destination is occupied: ''
       (ask (absent K (cln_Destination item))))) (\<lambda>_.
     restore_recorded K e item))"

definition restore_move :: "('s, 'd) kernel \<Rightarrow> engine \<Rightarrow> cleanup_item \<Rightarrow> ('s, cleanup_item) operation" where
  "restore_move K e item =
     andthen (sys item (wrap ''occupied original source: '' (ask (absent K (cln_Source item))))) (\<lambda>_.
     andthen (sys item (ask (sameFilesystem K (cln_Destination item) (Dir (cln_Source item))))) (\<lambda>_.
     inspect (k_Lstat K (cln_Destination item)) (\<lambda>dst.
     if \<not> present dst (ent_FilesystemID (cln_Entry item)) then
       if cln_State item = CleanupInvestigate
       then refuse item ''investigated object disappeared or changed identity''
       else investigate K e item ''quarantined object disappeared or changed identity''
     else andthen (steps
       [sys item (verify_linked K item (cln_Destination item)),
        sys item (move_object K item (cln_Destination item) (cln_Source item)
          (ent_FilesystemID (cln_Entry item))),
        sys item (syncDir K (Dir (cln_Source item)))]) (\<lambda>_.
     restore_recorded K e item))))"

definition restore_item :: "('s, 'd) kernel \<Rightarrow> engine \<Rightarrow> cleanup_item \<Rightarrow> ('s, cleanup_item) operation" where
  "restore_item K e item =
     (if cln_State item = CleanupRestored then ok item
      else if cln_State item = CleanupPrepared then restore_prepared K e item
      else if cln_State item \<noteq> CleanupQuarantined \<and> cln_State item \<noteq> CleanupInvestigate
      then refuse item (cln_ActionID item @ '' is '' @ cleanupState_str (cln_State item) @ '', not recoverable'')
      else if cln_State item = CleanupInvestigate then
        inspect (\<lambda>s. (k_Lstat K (cln_Source item) s, k_Lstat K (cln_Destination item) s)) (\<lambda>(src, dst).
        if present src (ent_FilesystemID (cln_Entry item)) \<and> dst = StatAbsent then
          andthen (sys item (verify_linked K item (cln_Source item))) (\<lambda>_. restore_recorded K e item)
        else restore_move K e item)
      else restore_move K e item)"

text \<open>An item that reconciliation moved to investigation is still restored.\<close>

definition Restore :: "('s, 'd) kernel \<Rightarrow> engine \<Rightarrow> cleanup_item \<Rightarrow> ('s, cleanup_item) operation" where
  "Restore K e item w =
     (case Reconcile K e item w of
        (Inr item', w') \<Rightarrow> restore_item K e item' w'
      | (Inl (item', err), w') \<Rightarrow>
          if err \<noteq> StillRunning \<and> cln_State item' = CleanupInvestigate then restore_item K e item' w'
          else (Inl (item', err), w'))"

section \<open>Deleting\<close>

definition deleted_reason :: string where
  "deleted_reason = ''expiry had already deleted the quarantined object but not journaled it; recorded as deleted''"

definition delete_object :: "('s, 'd) kernel \<Rightarrow> engine \<Rightarrow> cleanup_item \<Rightarrow> ('s, cleanup_item) operation" where
  "delete_object K e item =
     andthen (sys item (wrap ''record deletion intent: '' (writeDeletionMarker K item))) (\<lambda>_.
     andthen (sys_fault item (deleteAnchored (eng_Fuel e) K (cln_Destination item)
       (ent_FilesystemID (cln_Entry item)))) (\<lambda>_.
     with_now K (\<lambda>now.
     record_state K e (item\<lparr>cln_State := CleanupDeleted, cln_UpdatedAt := now\<rparr>) CleanupQuarantined)))"

definition Delete :: "('s, 'd) kernel \<Rightarrow> engine \<Rightarrow> cleanup_item \<Rightarrow> ('s, cleanup_item) operation" where
  "Delete K e item =
     (if cln_State item \<noteq> CleanupQuarantined \<or> cln_MovedAt item = None
      then refuse item ''retention has not expired or item is not quarantined''
      else with_now K (\<lambda>now.
      if \<not> has_expired item now then refuse item ''retention has not expired or item is not quarantined''
      else inspect (settleAbsent K item) (\<lambda>out. case out of
        absentDeleted \<Rightarrow> with_now K (\<lambda>now'.
          record_state K e (item\<lparr>cln_State := CleanupDeleted, cln_UpdatedAt := now',
            cln_Reason := deleted_reason\<rparr>) CleanupQuarantined)
      | absentRestored \<Rightarrow> Reconcile K e item
      | absentUnproven \<Rightarrow> (\<lambda>w.
          (case Eligible K e item w of
             (Inr _, w') \<Rightarrow> delete_object K e item w'
           | (Inl (_, StillRunning), w') \<Rightarrow> (Inl (item, StillRunning), w')
           | (Inl (_, Fault err), w') \<Rightarrow> investigate K e item err w')))))"

end
