(* ===== verification/ActionKernelFacts.thy ===== *)
theory ActionKernelFacts
  imports ActionEngine StoreCleanupFacts PathFacts
begin

text \<open>
  What the theorems on the action engine assume of the system: a locale over an abstraction of its state to
  the object each name holds.  It fixes which names each call may change; whether and when a call fails is
  left open, so every statement about all outcomes covers a stop after any step.  The laws describe the
  documented behaviour of the calls while no other process changes the names concerned and no name is
  reached through a symbolic link or a second mount.
\<close>

section \<open>Rules for programs\<close>

text \<open>\<open>touches v S m\<close>: a run of \<open>m\<close> changes what \<open>v\<close> shows at no name outside \<open>S\<close>, whatever its outcome.\<close>

definition touches :: "('w \<Rightarrow> 'p \<Rightarrow> 'o) \<Rightarrow> 'p set \<Rightarrow> ('w \<Rightarrow> 'r \<times> 'w) \<Rightarrow> bool" where
  "touches v S m \<longleftrightarrow> (\<forall>w p. p \<notin> S \<longrightarrow> v (snd (m w)) p = v w p)"

named_theorems frame "programs that leave names alone"

lemma touchesI: "(\<And>w p. p \<notin> S \<Longrightarrow> v (snd (m w)) p = v w p) \<Longrightarrow> touches v S m"
  unfolding touches_def by blast

lemma touchesD: "touches v S m \<Longrightarrow> m w = (r, w') \<Longrightarrow> p \<notin> S \<Longrightarrow> v w' p = v w p"
  unfolding touches_def by (metis snd_conv)

lemma touches_quiet: "touches v {} m \<Longrightarrow> m w = (r, w') \<Longrightarrow> v w' = v w"
  unfolding touches_def by (metis empty_iff ext snd_conv)

lemma touches_mono: "touches v S m \<Longrightarrow> S \<subseteq> T \<Longrightarrow> touches v T m"
  unfolding touches_def by blast

lemma touches_pure [frame]:
  "touches v S (ok a)" "touches v S (fail e)" "touches v S (ask f)" "touches v S (require b e)"
  by (simp_all add: touches_def ok_def fail_def ask_def require_def)

lemma touches_andthen_value:
  assumes "touches v S m" "\<And>w a w'. m w = (Inr a, w') \<Longrightarrow> touches v S (f a)"
  shows "touches v S (andthen m f)"
proof (rule touchesI)
  fix w p assume p: "p \<notin> S"
  show "v (snd (andthen m f w)) p = v w p"
  proof (cases "m w")
    case (Pair r w')
    then show ?thesis using touchesD [OF assms(1) Pair p] assms(2) [of w _ w'] p
      by (cases r) (simp_all add: andthen_def touches_def)
  qed
qed

lemma touches_andthen [frame]:
  "touches v S m \<Longrightarrow> (\<And>a. touches v S (f a)) \<Longrightarrow> touches v S (andthen m f)"
  by (rule touches_andthen_value)

lemma touches_steps [frame]: "(\<And>m. m \<in> set ms \<Longrightarrow> touches v S m) \<Longrightarrow> touches v S (steps ms)"
  by (induction ms) (auto intro: frame)

lemma touches_result:
  assumes "touches v S m" "\<And>w. snd (m' w) = snd (m w)"
  shows "touches v S m'"
  using assms unfolding touches_def by simp

lemma touches_wrap [frame]: "touches v S m \<Longrightarrow> touches v S (wrap msg m)"
  by (erule touches_result) (auto simp: wrap_def split: prod.splits sum.splits)

lemma touches_faulty [frame]: "touches v S m \<Longrightarrow> touches v S (faulty m)"
  by (erule touches_result) (auto simp: faulty_def split: prod.splits sum.splits)

lemma touches_wrap_fault [frame]: "touches v S m \<Longrightarrow> touches v S (wrap_fault msg m)"
  by (erule touches_result) (auto simp: wrap_fault_def split: prod.splits sum.splits fault.splits)

lemma touches_effect [frame]: "touches v S f \<Longrightarrow> touches v S (effect f)"
  by (erule touches_result) (auto simp: effect_def split: prod.splits option.splits)

lemma touches_reading [frame]: "(\<And>r. touches v S (f r)) \<Longrightarrow> touches v S (reading q f)"
  unfolding touches_def reading_def by blast

lemma touches_then_close [frame]:
  assumes "touches v S m" "touches v S c"
  shows "touches v S (then_close m c)"
proof (rule touchesI)
  fix w p assume p: "p \<notin> S"
  show "v (snd (then_close m c w)) p = v w p"
  proof (cases "m w")
    case (Pair r w')
    then show ?thesis using touchesD [OF assms(1) Pair p] touches_effect [OF assms(2)] assms(2) p
      by (cases r) (simp_all add: then_close_def touches_def)
  qed
qed

lemma touches_finally [frame]:
  assumes "touches v S m" "touches v S (\<lambda>w. ((), f w))"
  shows "touches v S (finally_do m f)"
proof (rule touchesI)
  fix w p assume p: "p \<notin> S"
  show "v (snd (finally_do m f w)) p = v w p"
  proof (cases "m w")
    case (Pair r w')
    then show ?thesis using touchesD [OF assms(1) Pair p] assms(2) p by (simp add: finally_do_def touches_def)
  qed
qed

lemma touches_case_sum [frame]:
  "(\<And>a. touches v S (f a)) \<Longrightarrow> (\<And>b. touches v S (g b)) \<Longrightarrow> touches v S (case x of Inl a \<Rightarrow> f a | Inr b \<Rightarrow> g b)"
  by (cases x) auto

lemma touches_case_option [frame]:
  "touches v S f \<Longrightarrow> (\<And>b. touches v S (g b)) \<Longrightarrow> touches v S (case x of None \<Rightarrow> f | Some b \<Rightarrow> g b)"
  by (cases x) auto

lemma touches_case_stat [frame]:
  "touches v S f \<Longrightarrow> (\<And>e. touches v S (g e)) \<Longrightarrow> (\<And>i. touches v S (h i)) \<Longrightarrow>
     touches v S (case x of StatAbsent \<Rightarrow> f | StatError e \<Rightarrow> g e | StatObject i \<Rightarrow> h i)"
  by (cases x) auto

lemma touches_case_open [frame]:
  "touches v S f \<Longrightarrow> (\<And>e. touches v S (g e)) \<Longrightarrow> (\<And>i. touches v S (h i)) \<Longrightarrow>
     touches v S (case x of OpenAbsent \<Rightarrow> f | OpenError e \<Rightarrow> g e | Opened i \<Rightarrow> h i)"
  by (cases x) auto

lemma touches_if [frame]: "touches v S f \<Longrightarrow> touches v S g \<Longrightarrow> touches v S (if b then f else g)"
  by simp

text \<open>The same on the system together with the journal.\<close>

lemma touches_sys_fault [frame]:
  assumes "touches v S m"
  shows "touches (\<lambda>w. v (wld_Sys w)) S (sys_fault item m)"
proof (rule touchesI)
  fix w :: "'a world" and p assume p: "p \<notin> S"
  show "v (wld_Sys (snd (sys_fault item m w))) p = v (wld_Sys w) p"
  proof (cases "m (wld_Sys w)")
    case (Pair r s')
    then show ?thesis using touchesD [OF assms Pair p]
      by (cases r) (simp_all add: sys_fault_def)
  qed
qed

lemma touches_sys [frame]: "touches v S m \<Longrightarrow> touches (\<lambda>w. v (wld_Sys w)) S (sys item m)"
  unfolding sys_def by (intro frame)

lemma touches_inspect [frame]: "(\<And>r. touches v S (f r)) \<Longrightarrow> touches v S (inspect q f)"
  unfolding touches_def inspect_def by blast

lemma touches_journal_write [frame]:
  "touches (\<lambda>w. v (wld_Sys w)) S (journal_write K e item tx)"
  unfolding touches_def journal_write_def by (auto split: prod.splits option.splits)

lemma touches_refuse [frame]: "touches v S (refuse item msg)"
  unfolding refuse_def by (intro frame)

lemma touches_update [frame]: "touches (\<lambda>w. v (wld_Sys w)) S (update K e item expected)"
  unfolding update_def by (intro frame)

lemma touches_record_state [frame]: "touches (\<lambda>w. v (wld_Sys w)) S (record_state K e item expected)"
  unfolding record_state_def by (intro frame)

lemma touches_blame [frame]: "touches v S m \<Longrightarrow> touches v S (blame item m)"
  by (erule touches_result) (auto simp: blame_def split: prod.splits sum.splits)

lemma touches_rescue [frame]:
  assumes "touches v S m" "\<And>err. touches v S (h err)"
  shows "touches v S (rescue m h)"
proof (rule touchesI)
  fix w p assume p: "p \<notin> S"
  show "v (snd (rescue m h w)) p = v w p"
  proof (cases "m w")
    case (Pair r w')
    then show ?thesis using touchesD [OF assms(1) Pair p] assms(2) p
      by (auto simp: rescue_def touches_def split: sum.splits prod.splits fault.splits)
  qed
qed

lemma touches_with_now [frame]:
  assumes "touches v S (k_Now K)" "\<And>t. touches (\<lambda>w. v (wld_Sys w)) S (f t)"
  shows "touches (\<lambda>w. v (wld_Sys w)) S (with_now K f)"
proof (rule touchesI)
  fix w :: "'a world" and p assume p: "p \<notin> S"
  show "v (wld_Sys (snd (with_now K f w))) p = v (wld_Sys w) p"
  proof (cases "k_Now K (wld_Sys w)")
    case (Pair t s')
    then show ?thesis using touchesD [OF assms(1) Pair p] assms(2) [of t] p
      unfolding with_now_def touches_def by simp
  qed
qed

text \<open>Triples: from a state satisfying \<open>P\<close>, success ends in \<open>Q\<close> and failure in \<open>E\<close>.\<close>

definition meets :: "('a \<Rightarrow> 'w \<Rightarrow> bool) \<Rightarrow> ('w \<Rightarrow> bool) \<Rightarrow> ('e + 'a) \<times> 'w \<Rightarrow> bool" where
  "meets Q E x = (case x of (Inr a, w) \<Rightarrow> Q a w | (Inl _, w) \<Rightarrow> E w)"

lemma meets_simps [simp]: "meets Q E (Inr a, w) = Q a w" "meets Q E (Inl e, w) = E w"
  by (simp_all add: meets_def)

lemma outcome_cases:
  obtains (success) a w where "x = (Inr a, w)" | (failure) e w where "x = (Inl e, w)"
  by (cases x) (metis old.sum.exhaust)

lemma meets_mono:
  "meets Q E x \<Longrightarrow> (\<And>a w. Q a w \<Longrightarrow> Q' a w) \<Longrightarrow> (\<And>w. E w \<Longrightarrow> E' w) \<Longrightarrow> meets Q' E' x"
  by (cases x rule: outcome_cases) auto

definition hoare :: "('w \<Rightarrow> bool) \<Rightarrow> ('w, 'e, 'a) prog \<Rightarrow> ('a \<Rightarrow> 'w \<Rightarrow> bool) \<Rightarrow> ('w \<Rightarrow> bool) \<Rightarrow> bool" where
  "hoare P m Q E \<longleftrightarrow> (\<forall>w. P w \<longrightarrow> meets Q E (m w))"

lemma hoareI: "(\<And>w. P w \<Longrightarrow> meets Q E (m w)) \<Longrightarrow> hoare P m Q E"
  unfolding hoare_def by blast

lemma hoareD: "hoare P m Q E \<Longrightarrow> P w \<Longrightarrow> meets Q E (m w)"
  unfolding hoare_def by blast

lemma hoare_weaken:
  "hoare P m Q E \<Longrightarrow> (\<And>w. P' w \<Longrightarrow> P w) \<Longrightarrow> (\<And>a w. Q a w \<Longrightarrow> Q' a w) \<Longrightarrow> (\<And>w. E w \<Longrightarrow> E' w) \<Longrightarrow>
     hoare P' m Q' E'"
  unfolding hoare_def using meets_mono by metis

lemma hoare_pre: "hoare P m Q E \<Longrightarrow> (\<And>w. P' w \<Longrightarrow> P w) \<Longrightarrow> hoare P' m Q E"
  unfolding hoare_def by blast

lemma hoare_ok: "(\<And>w. P w \<Longrightarrow> Q a w) \<Longrightarrow> hoare P (ok a) Q E"
  and hoare_fail: "(\<And>w. P w \<Longrightarrow> E w) \<Longrightarrow> hoare P (fail e) Q E"
  and hoare_require: "(\<And>w. P w \<Longrightarrow> if b then Q' () w else E w) \<Longrightarrow> hoare P (require b e) Q' E"
  and hoare_reading: "(\<And>r. hoare (\<lambda>w. P w \<and> q w = r) (f r) Q E) \<Longrightarrow> hoare P (reading q f) Q E"
  by (simp_all add: hoare_def ok_def fail_def require_def reading_def)

lemma hoare_fail_iff: "hoare P (fail e) Q E \<longleftrightarrow> (\<forall>w. P w \<longrightarrow> E w)"
  by (simp add: hoare_def fail_def)

lemma andthen_require_False: "andthen (require False e) f = fail e"
  by (simp add: fun_eq_iff andthen_def require_def fail_def)

lemma hoare_ask:
  assumes "\<And>w a. P w \<Longrightarrow> f w = Inr a \<Longrightarrow> Q a w" "\<And>w e. P w \<Longrightarrow> f w = Inl e \<Longrightarrow> E w"
  shows "hoare P (ask f) Q E"
proof (rule hoareI)
  fix w assume "P w"
  then show "meets Q E (ask f w)" using assms by (cases "f w") (simp_all add: ask_def)
qed

lemma hoare_andthen:
  assumes "hoare P m R E" "\<And>a. hoare (R a) (f a) Q E"
  shows "hoare P (andthen m f) Q E"
proof (rule hoareI)
  fix w assume "P w"
  with hoareD [OF assms(1)] have "meets R E (m w)" .
  then show "meets Q E (andthen m f w)"
    by (cases "m w" rule: outcome_cases) (simp_all add: andthen_def hoareD [OF assms(2)])
qed

lemma hoare_touches:
  assumes "touches v {} m" "\<And>w. P (v w) \<Longrightarrow> E w"
  shows "hoare (\<lambda>w. P (v w)) m (\<lambda>_ w. P (v w)) E"
proof (rule hoareI)
  fix w assume "P (v w)"
  then show "meets (\<lambda>_ w. P (v w)) E (m w)"
    using touches_quiet [OF assms(1), of w] assms(2) by (cases "m w" rule: outcome_cases) simp_all
qed

lemma hoare_wrap: "hoare P m Q E \<Longrightarrow> hoare P (wrap msg m) Q E"
proof (rule hoareI)
  fix w assume "hoare P m Q E" "P w"
  then have "meets Q E (m w)" by (rule hoareD)
  then show "meets Q E (wrap msg m w)" by (cases "m w" rule: outcome_cases) (simp_all add: wrap_def)
qed

lemma hoare_effect:
  assumes "\<And>w r w'. P w \<Longrightarrow> f w = (r, w') \<Longrightarrow> if r = None then Q () w' else E w'"
  shows "hoare P (effect f) Q E"
proof (rule hoareI)
  fix w assume "P w"
  then show "meets Q E (effect f w)"
    using assms [of w "fst (f w)" "snd (f w)"] by (cases "f w") (auto simp: effect_def split: option.splits)
qed

lemma hoare_steps_Cons:
  "hoare P m (\<lambda>_. R) E \<Longrightarrow> hoare R (steps ms) Q E \<Longrightarrow> hoare P (steps (m # ms)) Q E"
  by (simp add: hoare_andthen)

lemma hoare_steps_Nil: "(\<And>w. P w \<Longrightarrow> Q () w) \<Longrightarrow> hoare P (steps []) Q E"
  by (simp add: hoare_ok)

lemma hoare_sys:
  assumes "hoare P m Q E"
  shows "hoare (\<lambda>w. P (wld_Sys w)) (sys item m) (\<lambda>a w. Q a (wld_Sys w)) (\<lambda>w. E (wld_Sys w))"
proof (rule hoareI)
  fix w :: "'a world" assume "P (wld_Sys w)"
  with hoareD [OF assms] have "meets Q E (m (wld_Sys w))" .
  then show "meets (\<lambda>a w. Q a (wld_Sys w)) (\<lambda>w. E (wld_Sys w)) (sys item m w)"
    by (cases "m (wld_Sys w)" rule: outcome_cases) (simp_all add: sys_def sys_fault_def faulty_def)
qed

section \<open>The laws\<close>

abbreviation is_move :: "string list \<Rightarrow> bool" where
  "is_move args \<equiv> take 2 (drop 3 args) = [''worktree'', ''move'']"

type_synonym 's tree = "'s \<Rightarrow> string \<Rightarrow> (filesystem_id \<times> file_kind) option"

text \<open>\<open>moved t from to t'\<close>: the object at \<open>from\<close> is now at \<open>to\<close>, where there was none, and nothing else differs
  outside the two subtrees.\<close>

definition moved :: "(string \<Rightarrow> 'o option) \<Rightarrow> string \<Rightarrow> string \<Rightarrow> (string \<Rightarrow> 'o option) \<Rightarrow> bool" where
  "moved t from to t' \<longleftrightarrow> t to = None \<and> t from \<noteq> None \<and> t' to = t from \<and> t' from = None
     \<and> (\<forall>p. \<not> PathWithin p from \<longrightarrow> \<not> PathWithin p to \<longrightarrow> t' p = t p)"

locale file_kernel =
  fixes K :: "('s, 'd) kernel" and loc :: "'d \<Rightarrow> string" and tree :: "'s tree"
  assumes lstat_object: "k_Lstat K p s = StatObject i \<Longrightarrow> tree s p = Some (fi_ID i, fi_Kind i)"
    and lstat_absent: "k_Lstat K p s = StatAbsent \<Longrightarrow> tree s p = None"
    and fstatat_object: "k_Fstatat K d n s = StatObject i \<Longrightarrow> tree s (Join [loc d, n]) = Some (fi_ID i, fi_Kind i)"
    and fstatat_absent: "k_Fstatat K d n s = StatAbsent \<Longrightarrow> tree s (Join [loc d, n]) = None"
    and handle_object: "k_OpenHandle K p s = Inr h \<Longrightarrow> hnd_Path h = p \<and> (\<exists>k. tree s p = Some (hnd_ID h, k))"
    and at_root: "k_OpenRoot K s = Inr d \<Longrightarrow> loc d = ''/''"
    and at_openat: "k_Openat K d n rd s = Opened d' \<Longrightarrow> loc d' = Join [loc d, n]"
    and at_opendir: "k_OpenDir K p s = Inr d \<Longrightarrow> loc d = p"
    and quiet [frame]: "touches tree {} (k_Now K)" "touches tree {} (k_Fsync K d)" "touches tree {} (k_SyncPath K p)"
      "touches tree {} (k_CloseDir K d)" "touches tree {} (k_Readdirnames K d)"
      "touches tree {} (k_WriteAt K d n body)" "touches tree {} (k_FsyncAt K d n)" "touches tree {} (k_CloseAt K d n)"
      "touches tree {} (k_Chmod K p)" "touches tree {} (k_Write K p body)" "touches tree {} (k_Sync K p)"
      "touches tree {} (k_Close K p)" "touches tree {} (k_Fchmodat K d n mode)"
      "touches tree {} (k_UtimesNanoAt K d n ta mt)"
    and readdir: "k_Readdirnames K d s = (rd_names, s') \<Longrightarrow> list_all good_seg (fst rd_names)"
    and mkdir: "k_Mkdirat K d n s = (r, s') \<Longrightarrow> tree s' = tree s \<or> r = None \<and> tree s (Join [loc d, n]) = None
      \<and> tree s' (Join [loc d, n]) \<noteq> None \<and> (\<forall>p. p \<noteq> Join [loc d, n] \<longrightarrow> tree s' p = tree s p)"
    and create_at: "touches tree {Join [loc d, n]} (k_CreateAt K d n)"
    and create_temp: "k_CreateTemp K base pat s = (rt, s') \<Longrightarrow>
      (case rt of Inl _ \<Rightarrow> tree s' = tree s
       | Inr t \<Rightarrow> (\<exists>x. good_seg (pat @ x) \<and> t = Join [base, pat @ x]) \<and> tree s t = None \<and> (\<forall>p. p \<noteq> t \<longrightarrow> tree s' p = tree s p))"
    and remove: "p \<noteq> t \<Longrightarrow> tree (k_Remove K t s) p = tree s p"
    and unlink: "k_Unlinkat K d n rmdir s = (r, s') \<Longrightarrow>
      tree s' = (if r = None then (tree s)(Join [loc d, n] := None) else tree s)"
    and rename: "k_Renameat2 K d n d' n' s = (r, s') \<Longrightarrow>
      (if r = None then moved (tree s) (Join [loc d, n]) (Join [loc d', n']) (tree s') else tree s' = tree s)"
    and exec_reads: "\<not> is_move args \<Longrightarrow> touches tree {} (k_Exec K env args)"
    and exec_moves: "k_Exec K env [''-C'', owner, ''--no-optional-locks'', ''worktree'', ''move'', ''--'', from, to] s
        = (rx, s') \<Longrightarrow> moved (tree s) from to (tree s') \<or> tree s' = tree s"
begin

section \<open>Directories and names\<close>

lemma Join_Dir_Base:
  assumes "isAbsClean p" "p \<noteq> ''/''"
  shows "Join [Dir p, Base p] = p"
  using assms(1)
proof (rule canonicalE)
  fix es assume p: "p = abs_path es" "good_segs es" "segs p = es"
  then show ?thesis
  proof (cases es rule: rev_cases)
    case Nil
    then show ?thesis using p assms(2) by (simp add: abs_path_def)
  next
    case (snoc fs e)
    then show ?thesis using p by (simp add: Dir_snoc Base_snoc Join_child)
  qed
qed

lemma open_walk_at:
  "open_walk K d ps s = Inr d' \<Longrightarrow> loc d = abs_path es \<Longrightarrow> good_segs es \<Longrightarrow> good_segs (filter (\<lambda>p. p \<noteq> '''') ps) \<Longrightarrow>
     loc d' = abs_path (es @ filter (\<lambda>p. p \<noteq> '''') ps)"
proof (induction ps arbitrary: d es)
  case (Cons p ps)
  show ?case
  proof (cases "p = ''''")
    case True
    then show ?thesis using Cons by simp
  next
    case False
    then obtain d1 where o: "k_Openat K d p (ps = []) s = Opened d1" and w: "open_walk K d1 ps s = Inr d'"
      using Cons.prems(1) by (auto split: open_result.splits)
    have "loc d1 = abs_path (es @ [p])"
      using at_openat [OF o] Cons.prems False by (simp add: Join_child)
    then show ?thesis using Cons.IH [OF w, of "es @ [p]"] Cons.prems False by simp
  qed
qed simp

lemma openExisting_at:
  assumes "openExistingDirNoSymlinks K p s = Inr d"
  shows "loc d = p \<and> isAbsClean p"
proof -
  have c: "isAbsClean p"
    using assms by (auto simp: openExistingDirNoSymlinks_def isAbsClean_def IsAbs_def split: if_splits)
  obtain d0 where r: "k_OpenRoot K s = Inr d0" and w: "open_walk K d0 (split_on slash (TrimPrefix p ''/'')) s = Inr d"
    using assms by (auto simp: openExistingDirNoSymlinks_def split: if_splits sum.splits)
  obtain es where p: "p = abs_path es" "good_segs es" using c by (rule canonicalE)
  have "TrimPrefix p ''/'' = join ''/'' es" by (simp add: p abs_path_def TrimPrefix_def HasPrefix_def)
  moreover have "filter (\<lambda>q. q \<noteq> '''') (split_on slash (join ''/'' es)) = es"
  proof (cases "es = []")
    case False
    then have "split_on slash (join ''/'' es) = es"
      using p(2) by (intro split_on_join) (auto simp: good_segs_def good_seg_def)
    then show ?thesis using p(2) by (auto simp: filter_id_conv good_segs_def good_seg_def)
  qed simp
  ultimately show ?thesis
    using open_walk_at [OF w, of "[]"] at_root [OF r] p c by (simp add: abs_path_def)
qed

lemma Join_root_root: "Join [''/'', ''/''] = ''/''"
  by code_simp

lemma Join_parent: "isAbsClean p \<Longrightarrow> Join [Dir p, Base p] = p"
  using Join_Dir_Base Join_root_root Dir_root by (cases "p = ''/''") (simp_all add: Base_def)

section \<open>Renaming\<close>

lemma rename_done:
  "k_Renameat2 K d n d' n' s = (None, s') \<Longrightarrow> moved (tree s) (Join [loc d, n]) (Join [loc d', n']) (tree s')"
  and rename_failed: "k_Renameat2 K d n d' n' s = (Some e, s') \<Longrightarrow> tree s' = tree s"
  using rename by fastforce+

text \<open>Whatever its outcome, a rename either changes no name, or moves exactly the expected object to a name
  that was free; success means it moved.\<close>

lemma renameNoReplace_outcome:
  assumes "isAbsClean from" "isAbsClean to"
  shows "hoare (\<lambda>s. tree s = T) (renameNoReplace K from to i)
    (\<lambda>_ s. moved T from to (tree s) \<and> (\<exists>k. T from = Some (i, k)))
    (\<lambda>s. tree s = T \<or> moved T from to (tree s) \<and> (\<exists>k. T from = Some (i, k)))"
proof -
  let ?M = "\<lambda>s. moved T from to (tree s) \<and> (\<exists>k. T from = Some (i, k))"
  let ?E = "\<lambda>s. tree s = T \<or> ?M s"
  let ?at = "\<lambda>d p. Join [loc d, Base p] = p"
  let ?P = "\<lambda>fd td s. tree s = T \<and> ?at fd from \<and> ?at td to \<and> (\<exists>k. T from = Some (i, k))"
  have dir: "hoare (\<lambda>s. tree s = T \<and> C) (wrap msg (ask (openExistingDirNoSymlinks K (Dir p))))
      (\<lambda>d s. tree s = T \<and> C \<and> ?at d p) ?E" if "isAbsClean p" for C msg p
    using openExisting_at Join_parent [OF that] by (intro hoare_wrap hoare_ask) auto
  have checked: "hoare (?P fd td) (rename_checked K fd td (Base from) (Base to) i) (\<lambda>_. ?M) ?E" for fd td
    unfolding rename_checked_def
  proof (intro hoare_andthen)
    show "hoare (?P fd td) (wrap ''stat destination parent: '' (ask (k_Fstat K td))) (\<lambda>_. ?P fd td) ?E"
      by (intro hoare_wrap hoare_ask) simp_all
    show "hoare (?P fd td) (require (fs_Device i = fs_Device (fi_ID dst)) ''cross-filesystem quarantine is unsupported'')
        (\<lambda>_. ?P fd td) ?E" for dst
      by (rule hoare_require) simp
    show "hoare (?P fd td) (wrap ''atomic no-replace rename: ''
        (effect (k_Renameat2 K fd (Base from) td (Base to)))) (\<lambda>_. ?M) ?E"
      using rename_done [of fd "Base from" td "Base to"] rename_failed [of fd "Base from" td "Base to"]
      by (intro hoare_wrap hoare_effect) auto
    have quietly: "hoare ?M m (\<lambda>_. ?M) ?E" if "touches tree {} m" for m :: "('s, string, 'x) prog"
      using hoare_touches [OF that, of "\<lambda>t. moved T from to t \<and> (\<exists>k. T from = Some (i, k))"] by simp
    show "hoare ?M (reading (k_Fstatat K td (Base to)) (\<lambda>r. require (case r of StatObject m \<Rightarrow> fi_ID m = i | _ \<Rightarrow> False)
        ''moved object identity did not match the checked source'')) (\<lambda>_. ?M) ?E"
      and "hoare ?M (steps [wrap ''sync destination parent: '' (effect (k_Fsync K td)),
        wrap ''sync source parent: '' (effect (k_Fsync K fd))]) (\<lambda>_. ?M) ?E"
      by (rule quietly, auto intro!: frame)+
  qed
  have opened: "hoare (\<lambda>s. tree s = T \<and> ?at fd from \<and> ?at td to)
      (rename_opened K fd td (Base from) (Base to) i) (\<lambda>_. ?M) ?E" for fd td
    unfolding rename_opened_def
  proof (rule hoare_reading)
    fix r
    show "hoare (\<lambda>s. (tree s = T \<and> ?at fd from \<and> ?at td to) \<and> k_Fstatat K fd (Base from) s = r)
       (case r of StatAbsent \<Rightarrow> fail ''stat source: no such file or directory''
        | StatError e \<Rightarrow> fail (''stat source: '' @ e)
        | StatObject source \<Rightarrow>
            if fi_ID source \<noteq> i then fail ''source identity changed before rename''
            else rename_checked K fd td (Base from) (Base to) i) (\<lambda>_. ?M) ?E"
    proof (cases r)
      case (StatObject src)
      show ?thesis
      proof (cases "fi_ID src = i")
        case True
        have "hoare (\<lambda>s. (tree s = T \<and> ?at fd from \<and> ?at td to) \<and> k_Fstatat K fd (Base from) s = StatObject src)
            (rename_checked K fd td (Base from) (Base to) i) (\<lambda>_. ?M) ?E"
          by (rule hoare_pre [OF checked]) (use fstatat_object [of fd "Base from"] True in force)
        then show ?thesis using True by (simp add: StatObject)
      qed (simp add: StatObject hoare_fail_iff)
    qed (simp_all add: hoare_fail_iff)
  qed
  show ?thesis
    unfolding renameNoReplace_def
    using hoare_pre [OF dir [OF assms(1), of True]] dir [OF assms(2)] opened
    by (intro hoare_andthen [where R = "\<lambda>fd s. tree s = T \<and> ?at fd from"]
        hoare_andthen [where R = "\<lambda>td s. tree s = T \<and> _ \<and> ?at td to"]) simp_all
qed

lemma renameNoReplace_touches:
  assumes "isAbsClean from" "isAbsClean to"
  shows "touches tree {p. PathWithin p from \<or> PathWithin p to} (renameNoReplace K from to i)"
proof (rule touchesI)
  fix s p
  assume p: "p \<notin> {p. PathWithin p from \<or> PathWithin p to}"
  from hoareD [OF renameNoReplace_outcome [OF assms, of _ i] refl, of s] p
  show "tree (snd (renameNoReplace K from to i s)) p = tree s p"
    by (cases "renameNoReplace K from to i s" rule: outcome_cases) (auto simp: moved_def)
qed

end

end
