(* ===== verification/ActionFacts.thy ===== *)
theory ActionFacts
  imports ActionKernelFacts
begin

text \<open>
  Which names each operation of the action engine may change, under the laws of \<open>file_kernel\<close>.
\<close>

section \<open>Names beside the item\<close>

text \<open>The names of a receipt directory other than the item itself, and all below them.\<close>

definition beside :: "string \<Rightarrow> string set" where
  "beside base = {p. \<exists>n. good_seg n \<and> n \<noteq> ''item'' \<and> PathWithin p (Join [base, n])}"

lemma Join_child_canonical:
  assumes "isAbsClean base" "good_seg n"
  shows "isAbsClean (Join [base, n])" "segs (Join [base, n]) = segs base @ [n]" "PathWithin (Join [base, n]) base"
proof -
  obtain es where p: "base = abs_path es" "good_segs es" "segs base = es" using assms(1) by (rule canonicalE)
  have j: "Join [base, n] = abs_path (es @ [n])" using p assms by (simp add: Join_child)
  show "isAbsClean (Join [base, n])" "segs (Join [base, n]) = segs base @ [n]"
    unfolding j using p assms by (simp_all add: canonical_abs_path segs_abs_path)
  have "PathWithin (abs_path (es @ [n])) (abs_path es)" using p assms by (simp add: PathWithin_paths)
  then show "PathWithin (Join [base, n]) base" by (subst j) (simp only: p(1))
qed

lemma item_not_beside:
  assumes "isAbsClean base"
  shows "Join [base, ''item''] \<notin> beside base"
proof
  have g: "good_seg ''item''" by (simp add: good_seg_def)
  assume "Join [base, ''item''] \<in> beside base"
  then obtain n where n: "good_seg n" "n \<noteq> ''item''" "PathWithin (Join [base, ''item'']) (Join [base, n])"
    by (auto simp: beside_def)
  have "prefix (segs base @ [n]) (segs base @ [''item''])"
    using n(3) PathWithin_canonical Join_child_canonical [OF assms] n(1) g by metis
  then show False using n(2) by simp
qed

lemma beside_within:
  assumes "isAbsClean base" "p \<in> beside base" "isAbsClean p"
  shows "PathWithin p base"
proof -
  obtain n where "good_seg n" "PathWithin p (Join [base, n])" using assms(2) by (auto simp: beside_def)
  then show ?thesis using PathWithin_trans assms(1,3) Join_child_canonical [OF assms(1)] by metis
qed

lemma touches_case_manifest [frame]:
  "touches v S f \<Longrightarrow> touches v S g \<Longrightarrow> (\<And>e. touches v S (h e)) \<Longrightarrow>
     touches v S (case x of ManifestMatches \<Rightarrow> f | ManifestAbsent \<Rightarrow> g | ManifestFails e \<Rightarrow> h e)"
  by (cases x) auto

lemma touches_case_prod [frame]: "(\<And>a b. touches v S (f a b)) \<Longrightarrow> touches v S (case x of (a, b) \<Rightarrow> f a b)"
  by (cases x) auto

lemma touches_recover [frame]:
  assumes "touches v S m" "touches v S f"
  shows "touches v S (\<lambda>s. case m s of (Inr _, s') \<Rightarrow> f s' | (Inl e, s') \<Rightarrow> if c s' then (Inr (), s') else (Inl (g e), s'))"
    (is "touches v S ?m")
proof (rule touchesI)
  fix w p assume p: "p \<notin> S"
  show "v (snd (?m w)) p = v w p"
    using touchesD [OF assms(1) _ p, of w] assms(2) p
    by (cases "m w" rule: outcome_cases) (simp_all add: touches_def)
qed

lemma wrap_InrD: "wrap msg m w = (Inr a, w') \<Longrightarrow> m w = (Inr a, w')"
  by (auto simp: wrap_def split: prod.splits sum.splits)

context file_kernel
begin

section \<open>The manifest and the marker\<close>

lemma quiet_any: "touches tree {} m \<Longrightarrow> touches tree S m"
  by (erule touches_mono) simp

lemma child_beside:
  assumes "isAbsClean base" "good_seg n" "n \<noteq> ''item''"
  shows "Join [base, n] \<in> beside base" "{p. PathWithin p (Join [base, n])} \<subseteq> beside base"
  using assms Join_child_canonical(1) [OF assms(1,2)] PathWithin_refl [of "Join [base, n]"]
  by (auto simp: beside_def canonical_ne)

lemma CreateTemp_touches:
  assumes "isAbsClean base" "\<And>x. pat @ x \<noteq> ''item''"
  shows "touches tree (beside base) (k_CreateTemp K base pat)"
proof (rule touchesI)
  fix s p assume p: "p \<notin> beside base"
  obtain r s' where c: "k_CreateTemp K base pat s = (r, s')" by fastforce
  show "tree (snd (k_CreateTemp K base pat s)) p = tree s p"
  proof (cases r)
    case (Inl e)
    then show ?thesis using create_temp [OF c] c by simp
  next
    case (Inr t)
    then obtain x where x: "good_seg (pat @ x)" "t = Join [base, pat @ x]" "\<forall>p. p \<noteq> t \<longrightarrow> tree s' p = tree s p"
      using create_temp [OF c] by auto
    have "p \<noteq> t" using child_beside(1) [OF assms(1) x(1) assms(2), folded x(2)] p by blast
    with x(3) have "tree s' p = tree s p" by blast
    then show ?thesis unfolding c snd_conv .
  qed
qed

lemma installManifest_touches:
  assumes "isAbsClean base"
  shows "touches tree (beside base) (installManifest K base (Join [base, ''manifest.json'']) body)"
  unfolding installManifest_def
proof (rule touches_andthen_value)
  let ?S = "beside base"
  show "touches tree ?S (wrap ''create manifest staging file: '' (k_CreateTemp K base ''.manifest-''))"
    using CreateTemp_touches [OF assms] by (intro touches_wrap) simp
  fix s t s'
  assume "wrap ''create manifest staging file: '' (k_CreateTemp K base ''.manifest-'') s = (Inr t, s')"
  then have "k_CreateTemp K base ''.manifest-'' s = (Inr t, s')" by (rule wrap_InrD)
  from create_temp [OF this] obtain n where n: "good_seg n" "n \<noteq> ''item''" and t: "t = Join [base, n]"
    by auto
  note temp = Join_child_canonical(1) [OF assms n(1), folded t] child_beside [OF assms n, folded t]
  have g: "good_seg ''manifest.json''" "''manifest.json'' \<noteq> ''item''" by (simp_all add: good_seg_def)
  note m = Join_child_canonical(1) [OF assms g(1)] child_beside(2) [OF assms g]
  have r: "touches tree ?S (renameNoReplace K t (Join [base, ''manifest.json'']) i)" for i
    by (rule touches_mono [OF renameNoReplace_touches [OF temp(1) m(1)]])
      (use temp(3) m(2) in blast)
  have f: "touches tree ?S (\<lambda>w. ((), k_Remove K t w))"
    using remove temp(2) by (intro touchesI) (metis snd_conv)
  show "touches tree ?S (finally_do
       (andthen
         (wrap ''sync staged manifest: ''
           (then_close
             (steps [effect (k_Chmod K t), effect (k_Write K t body), effect (k_Sync K t)])
             (k_Close K t))) (\<lambda>_.
        reading (k_Lstat K t) (\<lambda>r. case r of
          StatAbsent \<Rightarrow> fail ''lstat: no such file or directory''
        | StatError e \<Rightarrow> fail e
        | StatObject info \<Rightarrow> (\<lambda>s.
            (case renameNoReplace K t (Join [base, ''manifest.json'']) (fi_ID info) s of
               (Inr _, s') \<Rightarrow> syncDir K base s'
             | (Inl e, s') \<Rightarrow>
                 if matchesManifest K (Join [base, ''manifest.json'']) body s' = ManifestMatches then (Inr (), s')
                 else (Inl (''install manifest without replacement: '' @ e), s'))))))
       (k_Remove K t))"
    unfolding syncDir_def using r f by (auto intro!: frame intro: quiet_any quiet)
qed

lemma ensureManifest_touches:
  assumes "isAbsClean (cln_Destination item)"
  shows "touches tree (beside (Dir (cln_Destination item))) (ensureManifest K marshal item)"
  unfolding ensureManifest_def Let_def using installManifest_touches [OF Dir_facts(1) [OF assms]]
  by (auto intro!: frame)

lemma openReceiptDir_at: "openReceiptDir K item s = Inr (d, info) \<Longrightarrow> loc d = Dir (cln_Destination item)"
  using at_opendir by (auto simp: openReceiptDir_def split: sum.splits)

lemma writeDeletionMarker_touches:
  "touches tree {Join [Dir (cln_Destination item), deletionMarkerName]} (writeDeletionMarker K item)"
  unfolding writeDeletionMarker_def
proof (rule touches_andthen_value [OF touches_pure(3)])
  fix s x s'
  assume "ask (openReceiptDir K item) s = (Inr x, s')"
  then obtain d info where x: "x = (d, info)" and d: "loc d = Dir (cln_Destination item)"
    using openReceiptDir_at by (cases x) (auto simp: ask_def)
  have c: "touches tree {Join [Dir (cln_Destination item), deletionMarkerName]} (k_CreateAt K d deletionMarkerName)"
    using create_at [of d deletionMarkerName] d by simp
  show "touches tree {Join [Dir (cln_Destination item), deletionMarkerName]}
     (case x of (dir, info) \<Rightarrow> reading (k_Fstatat K dir (Base (cln_Destination item))) (\<lambda>r. case r of
       StatAbsent \<Rightarrow> fail ''receipt directory does not hold the object: no such file or directory''
     | StatError e \<Rightarrow> fail (''receipt directory does not hold the object: '' @ e)
     | StatObject obj \<Rightarrow>
         if fi_ID obj \<noteq> ent_FilesystemID (cln_Entry item) then fail ''receipt directory holds a different object''
         else andthen (effect (k_CreateAt K dir deletionMarkerName)) (\<lambda>_.
              andthen (then_close
                (steps [effect (k_WriteAt K dir deletionMarkerName (markerContent item (fi_ID info))),
                        effect (k_FsyncAt K dir deletionMarkerName)])
                (k_CloseAt K dir deletionMarkerName)) (\<lambda>_.
              effect (k_Fsync K dir)))))"
    unfolding x using c by (auto intro!: frame intro: quiet_any quiet)
qed

section \<open>Walking a tree\<close>

lemma verify_touches:
  "touches tree {} (verifyAt n K d name device)"
  "touches tree {} (verify_names n K d device)"
  "touches tree {} (verify_children n K d names device)"
proof (induction n arbitrary: d name names)
  case (Suc n)
  { case 1
    show ?case using Suc by (auto intro!: frame)
  next
    case 2
    show ?case
    proof (rule touchesI)
      fix s p
      obtain children e s' where r: "k_Readdirnames K d s = ((children, e), s')" by (metis prod.exhaust)
      have "tree s' = tree s" using touches_quiet [OF quiet(5) r] .
      moreover have "touches tree {} (verify_children n K d children device)"
        "touches tree {} (andthen (verify_children n K d children device) (\<lambda>_. verify_names n K d device))"
        using Suc by (auto intro!: frame)
      ultimately show "tree (snd (verify_names (Suc n) K d device s)) p = tree s p"
        unfolding touches_def by (cases e) (simp_all add: r)
    qed
  next
    case 3
    show ?case using Suc by (cases names) (auto intro!: frame) }
qed (auto intro!: frame)

text \<open>Removing a tree changes names at and below it only, and success means that the name is free.\<close>

lemma finish_directory_touches:
  assumes "touches tree S loop" "Join [loc parent, name] \<in> S"
  shows "touches tree S (finish_directory K parent fd name loop)"
proof (rule touchesI)
  fix s p assume p: "p \<notin> S"
  have u: "touches tree S (k_Unlinkat K parent name True)"
    using unlink assms(2) by (intro touchesI) (metis fun_upd_apply snd_conv surj_pair)
  have "touches tree S (faulty (andthen (then_close (effect (k_Fsync K fd)) (k_CloseDir K fd)) (\<lambda>_.
            effect (k_Unlinkat K parent name True))))"
    using u by (auto intro!: frame intro: quiet_any quiet)
  then show "tree (snd (finish_directory K parent fd name loop s)) p = tree s p"
    using touchesD [OF assms(1) _ p, of s] touches_quiet [OF quiet(4)] p
    by (cases "loop s" rule: outcome_cases)
      (auto simp: finish_directory_def touches_def split: fault.splits, metis prod.collapse)
qed

end

section \<open>Removing a tree\<close>

lemma Clean_relative:
  assumes "\<not> IsAbs p"
  shows "\<not> IsAbs (Clean p)"
proof -
  let ?es = "clean_stack False (split_on slash p)"
  have rel: "rel_stack (rev ?es)" by (rule clean_stack_rel) (simp add: split_on_no_sep)
  have c: "Clean p = (if join ''/'' ?es = [] then ''.'' else join ''/'' ?es)" using assms by (simp add: Clean_def Let_def)
  show ?thesis
  proof (cases "?es = []")
    case True
    then show ?thesis by (simp add: c IsAbs_def)
  next
    case False
    have h: "hd ?es \<noteq> [] \<and> slash \<notin> set (hd ?es)"
      using rel_stack_segs [OF rel, of "hd ?es"] False by (auto simp: good_seg_def)
    then have "join ''/'' ?es \<noteq> [] \<and> hd (join ''/'' ?es) = hd (hd ?es)" using False by (intro hd_join) auto
    moreover have "hd (hd ?es) \<noteq> slash" using h by (metis hd_in_set)
    ultimately show ?thesis by (simp add: c IsAbs_def)
  qed
qed

lemma PathWithin_IsAbs:
  assumes "PathWithin p q" "isAbsClean q"
  shows "IsAbs p"
proof -
  have q: "Clean q = q" "q \<noteq> []" "IsAbs q" using assms(2) by (simp_all add: canonical_Clean canonical_ne canonical_IsAbs)
  have "IsAbs (Clean p)"
  proof (cases "Clean p = q \<or> q = ''/''")
    case True
    then show ?thesis using assms(1) q by (auto simp: PathWithin_def Let_def split: if_splits)
  next
    case False
    then have "take (Suc (length q)) (Clean p) = q @ [slash]"
      using assms(1) q by (simp add: PathWithin_def Let_def HasPrefix_def split: if_splits)
    then have "Clean p = q @ slash # drop (Suc (length q)) (Clean p)"
      by (metis append_take_drop_id append.assoc append_Cons append_Nil)
    then show ?thesis using q(2,3) by (metis IsAbs_def append_is_Nil_conv hd_append2)
  qed
  then show ?thesis using Clean_relative by blast
qed

lemma PathWithin_below:
  assumes "PathWithin p q" "PathWithin q r" "isAbsClean q" "isAbsClean r"
  shows "PathWithin p r"
  using PathWithin_abs [OF PathWithin_IsAbs [OF assms(1,3)] canonical_IsAbs [OF assms(3)]]
    PathWithin_abs [OF PathWithin_IsAbs [OF assms(1,3)] canonical_IsAbs [OF assms(4)]]
    PathWithin_abs [OF canonical_IsAbs [OF assms(3)] canonical_IsAbs [OF assms(4)]] assms(1,2)
  using prefix_order.trans by blast

abbreviation below :: "string \<Rightarrow> string set" where
  "below q \<equiv> {p. PathWithin p q}"

lemma below_mono: "isAbsClean q \<Longrightarrow> isAbsClean r \<Longrightarrow> PathWithin q r \<Longrightarrow> below q \<subseteq> below r"
  using PathWithin_below by blast

context file_kernel
begin

lemma unlink_touches: "p \<in> S \<Longrightarrow> p = Join [loc d, n] \<Longrightarrow> touches tree S (k_Unlinkat K d n rm)"
  using unlink by (intro touchesI) (metis fun_upd_apply snd_conv surj_pair)

lemma remove_touches:
  "isAbsClean (loc d) \<Longrightarrow> good_seg name \<Longrightarrow> touches tree (below (Join [loc d, name])) (removeAt n K d name device)"
  "isAbsClean (loc d) \<Longrightarrow> touches tree (below (loc d)) (remove_names n K d device)"
  "isAbsClean (loc d) \<Longrightarrow> list_all good_seg names \<Longrightarrow>
     touches tree (below (loc d)) (remove_children n K d names device)"
proof (induction n arbitrary: d name names)
  case (Suc n)
  { case 1
    let ?p = "Join [loc d, name]"
    have p: "isAbsClean ?p" "?p \<in> below ?p"
      using Join_child_canonical [OF 1] PathWithin_refl by (auto simp: canonical_ne)
    have fd: "loc fd = ?p" if "open_same K d name st s = Inr fd" for st s fd
      using that at_openat by (auto simp: open_same_def split: open_result.splits sum.splits if_splits)
    have inner: "touches tree (below ?p) (andthen (ask (open_same K d name st)) (\<lambda>fd.
        finish_directory K d fd name (remove_names n K fd device)))" for st
    proof (rule touches_andthen_value [OF touches_pure(3)])
      fix s fd s'
      assume "ask (open_same K d name st) s = (Inr fd, s')"
      then have "loc fd = ?p" by (auto simp: ask_def intro: fd)
      then show "touches tree (below ?p) (finish_directory K d fd name (remove_names n K fd device))"
        using Suc(2) [of fd] p by (intro finish_directory_touches) simp_all
    qed
    show ?case
      unfolding removeAt.simps
      by (intro touches_andthen touches_if inner)
        (use unlink_touches [OF p(2) refl] in \<open>auto intro!: frame\<close>)
  next
    case 2
    show ?case
    proof (rule touchesI)
      fix s p assume p: "p \<notin> below (loc d)"
      obtain children e s' where r: "k_Readdirnames K d s = ((children, e), s')" by (metis prod.exhaust)
      have g: "list_all good_seg children" using readdir [OF r] by simp
      have "tree s' = tree s" using touches_quiet [OF quiet(5) r] .
      moreover have "touches tree (below (loc d))
          (andthen (remove_children n K d children device) (\<lambda>_. remove_names n K d device))"
        using Suc(2,3) 2 g by (auto intro!: frame)
      ultimately show "tree (snd (remove_names (Suc n) K d device s)) p = tree s p"
        using p unfolding touches_def by (cases e) (simp_all add: r)
    qed
  next
    case 3
    show ?case
    proof (cases names)
      case (Cons child rest)
      then have g: "good_seg child" "list_all good_seg rest" using 3 by simp_all
      note c = Join_child_canonical [OF 3(1) g(1)]
      have "touches tree (below (loc d)) (removeAt n K d child device)"
        by (rule touches_mono [OF Suc(1) [OF 3(1) g(1)] below_mono [OF c(1) 3(1) c(3)]])
      then show ?thesis using Suc(3) [OF 3(1) g(2)] Cons by (auto intro!: frame)
    qed (auto intro!: frame) }
qed (auto intro!: frame)

text \<open>A successful removal leaves the name free.\<close>

lemma removeAt_gone:
  assumes "removeAt n K d name device s = (Inr x, s')"
  shows "tree s' (Join [loc d, name]) = None"
proof -
  have u: "tree s2 (Join [loc d, name]) = None" if "k_Unlinkat K d name rm s1 = (None, s2)" for rm s1 s2
    using unlink [OF that] by simp
  obtain m where n: "n = Suc m" using assms by (cases n) (auto simp: fail_def)
  show ?thesis
    using assms u unfolding n
    by (auto simp: andthen_def ask_def faulty_def effect_def finish_directory_def
        split: sum.splits prod.splits option.splits if_splits fault.splits)
qed

lemma anchored_at:
  assumes "anchored K path expected c s = Inr d" "isAbsClean path"
  shows "loc d = Dir path \<and> (\<exists>k. tree s path = Some (expected, k))"
proof -
  obtain st where o: "openExistingDirNoSymlinks K (Dir path) s = Inr d"
    and st: "k_Fstatat K d (Base path) s = StatObject st" "fi_ID st = expected"
    using assms(1) by (auto simp: anchored_def split: sum.splits stat_result.splits if_splits)
  show ?thesis
    using openExisting_at [OF o] fstatat_object [OF st(1)] st(2) Join_parent [OF assms(2)] by auto
qed

end

end
