(* ===== verification/ActionEngineFacts.thy ===== *)
theory ActionEngineFacts
  imports ActionFacts
begin

text \<open>
  The operations of the engine, step by step: what each outcome leaves of the names and of the journal.
\<close>

section \<open>Successful runs\<close>

lemma andthen_InrE:
  assumes "andthen m f w = (Inr b, w')"
  obtains a w1 where "m w = (Inr a, w1)" "f a w1 = (Inr b, w')"
  using assms by (cases "m w" rule: outcome_cases) (simp_all add: andthen_def)

lemma success_simps [simp]:
  "ask q w = (Inr a, w') \<longleftrightarrow> q w = Inr a \<and> w' = w"
  "require b e w = (Inr u, w') \<longleftrightarrow> b \<and> w' = w"
  "ok a w = (Inr x, w') \<longleftrightarrow> x = a \<and> w' = w"
  "fail e w = (Inr y, w') \<longleftrightarrow> False"
  by (auto simp: ask_def require_def ok_def fail_def)

lemma wrap_success [simp]: "wrap msg m w = (Inr z, w') \<longleftrightarrow> m w = (Inr z, w')"
  by (auto simp: wrap_def split: prod.splits sum.splits)

section \<open>Git\<close>

context file_kernel
begin

lemma runLocalGit_touches [frame]:
  assumes "take 2 args \<noteq> [''worktree'', ''move'']"
  shows "touches tree S (runLocalGit K dir args)"
proof -
  have e: "touches tree {} (k_Exec K env ([''-C'', dir, ''--no-optional-locks''] @ args))" for env
    using exec_reads [of "[''-C'', dir, ''--no-optional-locks''] @ args" env] assms by simp
  have "tree (snd (runLocalGit K dir args s)) = tree s" for s
  proof -
    let ?x = "k_Exec K (git_environment (k_PathEnv K s)) ([''-C'', dir, ''--no-optional-locks''] @ args) s"
    obtain r s' where x: "?x = (r, s')" by fastforce
    have "tree s' = tree s" by (rule touches_quiet [OF e x])
    then show ?thesis using x by (simp add: runLocalGit_def)
  qed
  then show ?thesis by (intro touchesI) simp
qed

lemma inspect_touches [frame]:
  "touches tree S (inspectOwner K owner)" "touches tree S (inspectLinkedWorktree K owner path)"
  "touches tree S (VerifyLinkedWorktree K owner path)" "touches tree S (verify_linked K item path)"
proof -
  show o: "touches tree S (inspectOwner K owner)" for owner
    unfolding inspectOwner_def Let_def by (intro frame) simp_all
  show i: "touches tree S (inspectLinkedWorktree K owner path)" for owner path
    unfolding inspectLinkedWorktree_def by (intro frame o) simp_all
  show v: "touches tree S (VerifyLinkedWorktree K owner path)" for owner path
    unfolding VerifyLinkedWorktree_def by (intro frame i)
  show "touches tree S (verify_linked K item path)"
    unfolding verify_linked_def by (intro frame v)
qed

lemma restoreGitMetadata_touches [frame]: "touches tree S (restoreGitMetadata K path before)"
  unfolding restoreGitMetadata_def by (auto intro!: frame intro: quiet_any quiet)

lemma gitDirectory_present: "gitDirectory K path s = Inr () \<Longrightarrow> tree s path \<noteq> None"
  using lstat_object by (auto simp: gitDirectory_def split: stat_result.splits if_splits)

lemma inspect_present:
  "hoare (\<lambda>s. tree s = T) (inspectLinkedWorktree K owner path) (\<lambda>_ s. tree s = T \<and> T path \<noteq> None) (\<lambda>s. tree s = T)"
proof (rule hoareI)
  fix s assume t: "tree s = T"
  let ?m = "inspectLinkedWorktree K owner path"
  show "meets (\<lambda>_ s. tree s = T \<and> T path \<noteq> None) (\<lambda>s. tree s = T) (?m s)"
  proof (cases "?m s" rule: outcome_cases)
    case (success p s')
    have "gitDirectory K path s = Inr ()"
      using success unfolding inspectLinkedWorktree_def
      by (elim andthen_InrE [of "wrap _ (ask _)"] andthen_InrE [of "require _ _"]) simp
    then show ?thesis
      using gitDirectory_present success t touches_quiet [OF inspect_touches(2) success] by auto
  next
    case (failure e s')
    then show ?thesis using t touches_quiet [OF inspect_touches(2) failure] by simp
  qed
qed

end

section \<open>Moving an object\<close>

context file_kernel
begin

lemma quietly:
  assumes "touches tree {} m" "\<And>t. P t \<Longrightarrow> E t"
  shows "hoare (\<lambda>s. P (tree s)) m (\<lambda>_ s. P (tree s)) (\<lambda>s. E (tree s))"
  by (rule hoare_touches [OF assms(1)]) (rule assms(2))

lemma run_move:
  "hoare (\<lambda>s. tree s = T) (runLocalGit K owner [''worktree'', ''move'', ''--'', from, to])
     (\<lambda>_ s. tree s = T \<or> moved T from to (tree s)) (\<lambda>s. tree s = T \<or> moved T from to (tree s))"
proof (rule hoareI)
  fix s assume t: "tree s = T"
  let ?args = "[''-C'', owner, ''--no-optional-locks'', ''worktree'', ''move'', ''--'', from, to]"
  obtain r s' where x: "k_Exec K (git_environment (k_PathEnv K s)) ?args s = (r, s')" by fastforce
  have "tree s' = T \<or> moved T from to (tree s')" using exec_moves [OF x] t by auto
  then show "meets (\<lambda>_ s. tree s = T \<or> moved T from to (tree s)) (\<lambda>s. tree s = T \<or> moved T from to (tree s))
      (runLocalGit K owner [''worktree'', ''move'', ''--'', from, to] s)"
    using x by (cases "git_result [''worktree'', ''move'', ''--'', from, to] r") (simp_all add: runLocalGit_def)
qed

lemma MoveLinkedWorktree_outcome:
  "hoare (\<lambda>s. tree s = T) (MoveLinkedWorktree K owner from to) (\<lambda>_ s. moved T from to (tree s))
     (\<lambda>s. tree s = T \<or> moved T from to (tree s))"
proof -
  let ?E = "\<lambda>s. tree s = T \<or> moved T from to (tree s)"
  let ?free = "\<lambda>s. tree s = T \<and> T to = None"
  let ?ran = "\<lambda>s. tree s = T \<and> T to = None \<or> moved T from to (tree s)"
  have same: "hoare (\<lambda>s. tree s = T) m (\<lambda>_ s. tree s = T) ?E" if "touches tree {} m" for m :: "('s, string, 'a) prog"
    using quietly [OF that, of "\<lambda>t. t = T" "\<lambda>t. t = T \<or> moved T from to t"] by simp
  have free: "hoare ?free m (\<lambda>_. ?free) ?E" if "touches tree {} m" for m :: "('s, string, 'a) prog"
    using quietly [OF that, of "\<lambda>t. t = T \<and> T to = None" "\<lambda>t. t = T \<or> moved T from to t"] by simp
  have finished: "hoare (\<lambda>s. moved T from to (tree s)) m (\<lambda>_ s. moved T from to (tree s)) ?E"
    if "touches tree {} m" for m :: "('s, string, 'a) prog"
    using quietly [OF that, of "\<lambda>t. moved T from to t" "\<lambda>t. t = T \<or> moved T from to t"] by simp
  have look: "hoare (\<lambda>s. tree s = T) (reading (k_Lstat K to) (\<lambda>r. case r of
         StatAbsent \<Rightarrow> ok ()
       | StatError e \<Rightarrow> fail (''inspect destination '' @ quote to @ '': '' @ e)
       | StatObject _ \<Rightarrow> fail (''destination '' @ quote to @ '' already exists''))) (\<lambda>_. ?free) ?E"
    using lstat_absent by (auto simp: hoare_def reading_def ok_def fail_def split: stat_result.splits)
  have run: "hoare ?free (wrap ''move linked worktree: ''
       (runLocalGit K owner [''worktree'', ''move'', ''--'', from, to])) (\<lambda>_. ?ran) ?E"
  proof (rule hoare_wrap, rule hoareI)
    fix s assume s: "?free s"
    then show "meets (\<lambda>_. ?ran) ?E (runLocalGit K owner [''worktree'', ''move'', ''--'', from, to] s)"
      using hoareD [OF run_move, of s T "from" "to" owner] by (auto elim: meets_mono)
  qed
  have verify: "hoare ?ran (wrap ''verify moved linked worktree: '' (inspectLinkedWorktree K owner to))
      (\<lambda>_ s. moved T from to (tree s)) ?E"
  proof (rule hoare_wrap, rule hoareI)
    fix s assume s: "?ran s"
    show "meets (\<lambda>_ s. moved T from to (tree s)) ?E (inspectLinkedWorktree K owner to s)"
      using hoareD [OF inspect_present [of "tree s" owner to] refl] s by (auto elim!: meets_mono)
  qed
  show ?thesis
    unfolding MoveLinkedWorktree_def
    by (intro hoare_andthen [OF look] hoare_andthen [OF free] hoare_andthen [OF run] hoare_andthen [OF verify]
        hoare_andthen [OF same] finished frame)
      (auto intro: frame)
qed

lemma move_object_outcome:
  assumes "isAbsClean from" "isAbsClean to"
  shows "hoare (\<lambda>s. tree s = T) (move_object K item from to i)
    (\<lambda>_ s. moved T from to (tree s) \<and> (linked_owner item = None \<longrightarrow> (\<exists>k. T from = Some (i, k))))
    (\<lambda>s. tree s = T \<or> moved T from to (tree s))"
proof (cases "linked_owner item")
  case None
  show ?thesis unfolding move_object_def None option.case
    by (rule hoare_weaken [OF renameNoReplace_outcome [OF assms]]) auto
next
  case (Some owner)
  show ?thesis unfolding move_object_def Some option.case
    by (rule hoare_weaken [OF MoveLinkedWorktree_outcome]) auto
qed

end

section \<open>The operations and the names\<close>

lemma hoare_inspect: "(\<And>r. hoare P (f r) Q E) \<Longrightarrow> hoare P (inspect q f) Q E"
  unfolding hoare_def inspect_def by blast

lemma hoare_refuse: "(\<And>w. P w \<Longrightarrow> E w) \<Longrightarrow> hoare P (refuse item msg) Q E"
  unfolding refuse_def by (rule hoare_fail)

lemma hoare_if: "hoare P f Q E \<Longrightarrow> hoare P g Q E \<Longrightarrow> hoare P (if b then f else g) Q E"
  by simp

text \<open>The names a state of the world shows agree with \<open>T\<close> except beside the item.\<close>

definition agree :: "string \<Rightarrow> (string \<Rightarrow> 'o) \<Rightarrow> (string \<Rightarrow> 'o) \<Rightarrow> bool" where
  "agree dst T t \<longleftrightarrow> (\<forall>p. p \<notin> beside (Dir dst) \<longrightarrow> t p = T p)"

definition moved_beside :: "string \<Rightarrow> (string \<Rightarrow> 'o option) \<Rightarrow> string \<Rightarrow> string \<Rightarrow> (string \<Rightarrow> 'o option) \<Rightarrow> bool" where
  "moved_beside dst T from to t \<longleftrightarrow> (\<exists>T1. agree dst T T1 \<and> moved T1 from to t)"

context file_kernel
begin

abbreviation names :: "'s world \<Rightarrow> string \<Rightarrow> (filesystem_id \<times> file_kind) option" where
  "names w \<equiv> tree (wld_Sys w)"

lemma hoare_with_now:
  assumes "\<And>t. hoare (\<lambda>w. P (names w)) (f t) Q E"
  shows "hoare (\<lambda>w. P (names w)) (with_now K f) Q E"
proof (rule hoareI)
  fix w assume p: "P (names w)"
  obtain t s where n: "k_Now K (wld_Sys w) = (t, s)" by fastforce
  have "tree s = names w" by (rule touches_quiet [OF quiet(1) n])
  then show "meets Q E (with_now K f w)" using hoareD [OF assms, of "w\<lparr>wld_Sys := s\<rparr>"] p n by (simp add: with_now_def)
qed

lemma hoare_unchanged:
  assumes "touches names {} m" "\<And>t. P t \<Longrightarrow> E t"
  shows "hoare (\<lambda>w. P (names w)) m (\<lambda>_ w. P (names w)) (\<lambda>w. E (names w))"
  by (rule hoare_touches [OF assms(1)]) (rule assms(2))

lemma sys_quiet: "touches tree {} m \<Longrightarrow> touches names {} (sys item m)"
  by (rule touches_sys)

lemma ask_quiet: "touches names {} (sys item (ask q))"
  by (intro frame)

lemma with_now_touches [frame]: "(\<And>t. touches names S (f t)) \<Longrightarrow> touches names S (with_now K f)"
  by (rule touches_with_now [OF quiet_any [OF quiet(1)]])

lemma Eligible_touches [frame]: "touches names S (Eligible K e item)"
  unfolding Eligible_def Let_def
  using quiet_any [OF verify_touches(1)] quiet_any [OF touches_pure(3)]
  by (auto intro!: frame simp: verifyDeletionTree_def split: option.splits sum.splits)

lemma finishMove_touches [frame]: "touches names S (finishMove K e item)"
  unfolding finishMove_def by (intro frame)

lemma investigate_touches [frame]: "touches names S (investigate K e item reason)"
  unfolding investigate_def Let_def by (intro frame)

lemma Reconcile_touches: "touches names S (Reconcile K e item)"
  unfolding Reconcile_def retry_investigated_def Let_def
  by (intro frame)

lemma previews_touch:
  "touches names S (ExpiryPreview K e item)" "touches names S (RetryPreview K e item)"
  unfolding RetryPreview_def ExpiryPreview_def Let_def by (intro frame)+

lemma preflights_touch:
  "touches names S (PreflightOfficial K e item x a)" "touches names S (PreflightExport K e item x a)"
  unfolding PreflightOfficial_def PreflightExport_def preflightEntry_def Let_def by (intro frame)+

end

section \<open>Outcomes\<close>

context file_kernel
begin

text \<open>
  Every outcome of \<open>Quarantine\<close> leaves the object where it was or at the destination, and other names alone
  except beside the item; success means that it was moved.
\<close>

lemma Quarantine_outcome:
  assumes "isAbsClean (cln_Source item)" "isAbsClean (cln_Destination item)"
  shows "hoare (\<lambda>w. names w = T) (Quarantine K e item)
    (\<lambda>_ w. moved_beside (cln_Destination item) T (cln_Source item) (cln_Destination item) (names w))
    (\<lambda>w. agree (cln_Destination item) T (names w)
       \<or> moved_beside (cln_Destination item) T (cln_Source item) (cln_Destination item) (names w))"
proof -
  let ?d = "cln_Destination item" and ?s = "cln_Source item"
  let ?A = "agree ?d T" and ?M = "moved_beside ?d T ?s ?d"
  let ?E = "\<lambda>w. ?A (names w) \<or> ?M (names w)"
  have A: "hoare (\<lambda>w. ?A (names w)) m (\<lambda>_ w. ?A (names w)) ?E" if "touches names {} m" for m :: "('s, 'x) operation"
    by (rule hoare_unchanged [OF that]) simp
  have M: "hoare (\<lambda>w. ?M (names w)) m (\<lambda>_ w. ?M (names w)) ?E" if "touches names {} m" for m :: "('s, 'x) operation"
    by (rule hoare_unchanged [OF that]) simp
  have start: "hoare (\<lambda>w. names w = T) (sys item (ensureManifest K (eng_Marshal e) item)) (\<lambda>_ w. ?A (names w)) ?E"
  proof (rule hoareI)
    fix w assume w: "names w = T"
    have t: "touches names (beside (Dir ?d)) (sys item (ensureManifest K (eng_Marshal e) item))"
      by (rule touches_sys [OF ensureManifest_touches [OF assms(2)]])
    show "meets (\<lambda>_ w. ?A (names w)) ?E (sys item (ensureManifest K (eng_Marshal e) item) w)"
      using touchesD [OF t, of w] w
      by (cases "sys item (ensureManifest K (eng_Marshal e) item) w" rule: outcome_cases) (auto simp: agree_def)
  qed
  have move: "hoare (\<lambda>w. ?A (names w)) (sys item (move_object K item ?s ?d i)) (\<lambda>_ w. ?M (names w)) ?E" for i
  proof (rule hoareI)
    fix w assume w: "?A (names w)"
    have h: "hoare (\<lambda>w'. names w' = names w) (sys item (move_object K item ?s ?d i))
        (\<lambda>_ w'. moved (names w) ?s ?d (names w') \<and> (linked_owner item = None \<longrightarrow> (\<exists>k. names w ?s = Some (i, k))))
        (\<lambda>w'. names w' = names w \<or> moved (names w) ?s ?d (names w'))"
      by (rule hoare_sys [OF move_object_outcome [OF assms]])
    show "meets (\<lambda>_ w. ?M (names w)) ?E (sys item (move_object K item ?s ?d i) w)"
      by (rule meets_mono [OF hoareD [OF h refl]]) (use w in \<open>auto simp: moved_beside_def\<close>)
  qed
  have rest: "hoare (\<lambda>w. ?A (names w)) (andthen (steps
           [sys item (ask (absent K ?d)), sys item (move_object K item ?s ?d i),
            sys item (syncDir K (Dir ?d)), sys item (syncDir K (Dir ?s))]) (\<lambda>_. finishMove K e item))
      (\<lambda>_ w. ?M (names w)) ?E" for i
    by (rule hoare_andthen [OF hoare_steps_Cons [OF A] M [OF finishMove_touches]])
      (auto simp: syncDir_def intro!: frame hoare_andthen [OF move] hoare_andthen [OF M] M intro: quiet)
  show ?thesis
  proof (cases "cln_State item \<noteq> CleanupPrepared")
    case True
    then show ?thesis by (simp add: Quarantine_def refuse_def hoare_fail_iff agree_def)
  next
    case False
    then have c: "(cln_State item \<noteq> CleanupPrepared) = False" by simp
    show ?thesis
      unfolding Quarantine_def Let_def c if_False
      by (intro hoare_andthen [OF start] hoare_andthen [OF A [OF ask_quiet]] hoare_with_now hoare_inspect
          hoare_if rest hoare_refuse disjI1)
  qed
qed

end

end
