(* ===== verification/ActionOutcomes.thy ===== *)
theory ActionOutcomes
  imports ActionEngineFacts
begin

text \<open>
  What the operations return, what they do to the journal, and the outcomes of restoring and deleting.
\<close>

section \<open>Returned items\<close>

text \<open>\<open>results R Q m\<close>: the item beside every error satisfies \<open>R\<close>, and every returned value \<open>Q\<close>.\<close>

definition results :: "(cleanup_item \<Rightarrow> bool) \<Rightarrow> ('a \<Rightarrow> bool) \<Rightarrow> ('s, 'a) operation \<Rightarrow> bool" where
  "results R Q m \<longleftrightarrow> (\<forall>w. case fst (m w) of Inl x \<Rightarrow> R (fst x) | Inr a \<Rightarrow> Q a)"

named_theorems returned "what operations return"

lemma results_pure [returned]:
  "Q a \<Longrightarrow> results R Q (ok a)" "R item \<Longrightarrow> results R Q (refuse item msg)"
  "R item \<Longrightarrow> results R (\<lambda>_. True) (sys item m)" "R item \<Longrightarrow> results R (\<lambda>_. True) (sys_fault item m')"
  by (auto simp: results_def ok_def refuse_def fail_def sys_def sys_fault_def split: sum.splits prod.splits)

lemma results_andthen [returned]:
  assumes "results R (\<lambda>_. True) m" "\<And>a. results R Q (f a)"
  shows "results R Q (andthen m f)"
  unfolding results_def
proof
  fix w
  show "case fst (andthen m f w) of Inl x \<Rightarrow> R (fst x) | Inr a \<Rightarrow> Q a"
    using assms(1) spec [OF assms(2) [unfolded results_def]]
    by (cases "m w" rule: outcome_cases) (auto simp: andthen_def results_def dest: spec [of _ w] split: prod.splits)
qed

lemma results_steps [returned]:
  "(\<And>m. m \<in> set ms \<Longrightarrow> results R (\<lambda>_. True) m) \<Longrightarrow> results R (\<lambda>_. True) (steps ms)"
  by (induction ms) (auto intro: returned)

lemma results_journal [returned]:
  "R item \<Longrightarrow> results R (\<lambda>_. True) (journal_write K e item tx)"
  "R item \<Longrightarrow> results R (\<lambda>_. True) (update K e item expected)"
  by (auto simp: results_def update_def journal_write_def split: prod.splits option.splits)

lemma results_record [returned]: "R item \<Longrightarrow> Q item \<Longrightarrow> results R Q (record_state K e item expected)"
  unfolding record_state_def by (intro returned)

lemma results_reading [returned]:
  "(\<And>r. results R Q (f r)) \<Longrightarrow> results R Q (inspect q f)" "(\<And>t. results R Q (g t)) \<Longrightarrow> results R Q (with_now K g)"
  by (auto simp: results_def inspect_def with_now_def split: prod.splits)

lemma results_cases [returned]:
  "results R Q f \<Longrightarrow> results R Q g \<Longrightarrow> results R Q (if b then f else g)"
  "results R Q f \<Longrightarrow> (\<And>x. results R Q (h x)) \<Longrightarrow> results R Q (case y of None \<Rightarrow> f | Some x \<Rightarrow> h x)"
  "(\<And>a. results R Q (h1 a)) \<Longrightarrow> (\<And>b. results R Q (h2 b)) \<Longrightarrow> results R Q (case z of Inl a \<Rightarrow> h1 a | Inr b \<Rightarrow> h2 b)"
  "(\<And>a b. results R Q (h3 a b)) \<Longrightarrow> results R Q (case c of (a, b) \<Rightarrow> h3 a b)"
  by (auto split: option.splits sum.splits prod.splits)

lemma results_blame [returned]:
  assumes "R item" "results (\<lambda>_. True) Q m"
  shows "results R Q (blame item m)"
  unfolding results_def
proof
  fix w
  show "case fst (blame item m w) of Inl x \<Rightarrow> R (fst x) | Inr a \<Rightarrow> Q a"
    using spec [OF assms(2) [unfolded results_def], of w] assms(1)
    by (cases "m w" rule: outcome_cases) (auto simp: blame_def split: prod.splits)
qed

lemma results_rescue [returned]:
  assumes "results R Q m" "\<And>err. results R Q (h err)"
  shows "results R Q (rescue m h)"
  unfolding results_def
proof
  fix w
  show "case fst (rescue m h w) of Inl x \<Rightarrow> R (fst x) | Inr a \<Rightarrow> Q a"
    using spec [OF assms(1) [unfolded results_def], of w] spec [OF assms(2) [unfolded results_def]]
    by (cases "m w" rule: outcome_cases) (auto simp: rescue_def split: prod.splits fault.splits)
qed

lemma results_mono:
  "results R Q m \<Longrightarrow> (\<And>x. R x \<Longrightarrow> R' x) \<Longrightarrow> (\<And>a. Q a \<Longrightarrow> Q' a) \<Longrightarrow> results R' Q' m"
  unfolding results_def by (fastforce split: sum.splits)

lemma results_any: "results (\<lambda>_. True) (\<lambda>_. True) m"
  by (auto simp: results_def split: sum.splits)

text \<open>An operation never changes what a receipt is about.\<close>

definition same_receipt :: "cleanup_item \<Rightarrow> cleanup_item \<Rightarrow> bool" where
  "same_receipt x y \<longleftrightarrow> item_key_of y = item_key_of x \<and> cln_Source y = cln_Source x
     \<and> cln_Destination y = cln_Destination x \<and> cln_Entry y = cln_Entry x \<and> cln_Action y = cln_Action x
     \<and> cln_PlanID y = cln_PlanID x"

lemma same_receipt_simps [simp]:
  "same_receipt x x" "same_receipt x (y\<lparr>cln_State := s\<rparr>) = same_receipt x y"
  "same_receipt x (y\<lparr>cln_UpdatedAt := t\<rparr>) = same_receipt x y"
  "same_receipt x (y\<lparr>cln_Reason := r\<rparr>) = same_receipt x y"
  "same_receipt x (y\<lparr>cln_MovedAt := m\<rparr>) = same_receipt x y"
  "same_receipt x (y\<lparr>cln_ExpiresAt := m'\<rparr>) = same_receipt x y"
  "same_receipt x (y\<lparr>cln_Quarantined := q\<rparr>) = same_receipt x y"
  by (auto simp: same_receipt_def item_key_of_def)

lemma finishMove_results:
  "same_receipt x item \<Longrightarrow> results (same_receipt x) (\<lambda>y. same_receipt x y \<and> cln_State y = CleanupQuarantined)
     (finishMove K e item)"
  unfolding finishMove_def by (intro returned) simp_all

lemma investigate_results:
  "same_receipt x item \<Longrightarrow> results (same_receipt x) Q (investigate K e item reason)"
  unfolding investigate_def Let_def by (intro returned) simp_all

lemma Reconcile_results:
  "same_receipt x item \<Longrightarrow> results (same_receipt x) (same_receipt x) (Reconcile K e item)"
  unfolding Reconcile_def retry_investigated_def Let_def
  by (intro returned investigate_results results_mono [OF finishMove_results] results_any) auto

lemma Reconcile_item:
  assumes "Reconcile K e item w = (r, w')"
  shows "case r of Inl x \<Rightarrow> same_receipt item (fst x) | Inr x \<Rightarrow> same_receipt item x"
  using Reconcile_results [of item item K e] assms unfolding results_def by (metis fst_conv same_receipt_simps(1))

lemma Quarantine_results:
  "results (same_receipt item) (\<lambda>y. same_receipt item y \<and> cln_State y = CleanupQuarantined) (Quarantine K e item)"
  unfolding Quarantine_def Let_def
  by (intro returned finishMove_results) (auto intro: returned)

section \<open>Restoring\<close>

lemma hoare_case_prod: "(\<And>a b. hoare P (f a b) Q E) \<Longrightarrow> hoare P (case x of (a, b) \<Rightarrow> f a b) Q E"
  by (cases x) simp

context file_kernel
begin

lemma restore_item_outcome:
  assumes "isAbsClean (cln_Source item)" "isAbsClean (cln_Destination item)"
  shows "hoare (\<lambda>w. names w = T) (restore_item K e item)
    (\<lambda>_ w. names w = T \<or> moved T (cln_Destination item) (cln_Source item) (names w))
    (\<lambda>w. names w = T \<or> moved T (cln_Destination item) (cln_Source item) (names w))"
proof -
  let ?s = "cln_Source item" and ?d = "cln_Destination item"
  let ?E = "\<lambda>w. names w = T \<or> moved T ?d ?s (names w)"
  have still: "hoare (\<lambda>w. names w = T) m (\<lambda>_ w. names w = T) ?E" if "touches names {} m" for m :: "('s, 'x) operation"
    using hoare_unchanged [OF that, of "\<lambda>t. t = T" "\<lambda>t. t = T \<or> moved T ?d ?s t"] by simp
  have any: "hoare ?E m (\<lambda>_. ?E) ?E" if "touches names {} m" for m :: "('s, 'x) operation"
    using hoare_unchanged [OF that, of "\<lambda>t. t = T \<or> moved T ?d ?s t" "\<lambda>t. t = T \<or> moved T ?d ?s t"] by simp
  have quietly_done: "hoare (\<lambda>w. names w = T) m (\<lambda>_. ?E) ?E" if "touches names {} m" for m :: "('s, 'x) operation"
    by (rule hoare_weaken [OF any [OF that]]) simp_all
  have rec: "touches names {} (restore_recorded K e item)"
    unfolding restore_recorded_def by (intro frame)
  have prep: "touches names {} (restore_prepared K e item)"
    unfolding restore_prepared_def by (intro frame rec)
  have move: "hoare (\<lambda>w. names w = T) (sys item (move_object K item ?d ?s i)) (\<lambda>_. ?E) ?E" for i
    by (rule hoare_weaken [OF hoare_sys [OF move_object_outcome [OF assms(2,1)]]]) auto
  have tail: "hoare (\<lambda>w. names w = T) (andthen (steps
       [sys item (verify_linked K item ?d), sys item (move_object K item ?d ?s i), sys item (syncDir K (Dir ?s))])
       (\<lambda>_. restore_recorded K e item)) (\<lambda>_. ?E) ?E" for i
    by (rule hoare_andthen [OF hoare_steps_Cons [OF still [OF sys_quiet [OF inspect_touches(4)]]] any [OF rec]],
        rule hoare_steps_Cons [OF move], rule hoare_steps_Cons [OF any])
      (auto simp: syncDir_def intro!: frame hoare_ok intro: quiet)
  have move_then: "hoare (\<lambda>w. names w = T) (restore_move K e item) (\<lambda>_. ?E) ?E"
    unfolding restore_move_def
    by (intro hoare_andthen [OF still] hoare_inspect hoare_if hoare_refuse tail quietly_done frame disjI1)
  show ?thesis
    unfolding restore_item_def
    by (intro move_then hoare_if hoare_inspect hoare_case_prod hoare_refuse quietly_done prep rec frame disjI1)
qed

end

text \<open>The names a deletion may change.\<close>

definition delete_names :: "cleanup_item \<Rightarrow> string set" where
  "delete_names item = below (cln_Destination item) \<union> {Join [Dir (cln_Destination item), deletionMarkerName]}"

context file_kernel
begin

lemma Restore_outcome:
  assumes "isAbsClean (cln_Source item)" "isAbsClean (cln_Destination item)"
  shows "hoare (\<lambda>w. names w = T) (Restore K e item)
    (\<lambda>_ w. names w = T \<or> moved T (cln_Destination item) (cln_Source item) (names w))
    (\<lambda>w. names w = T \<or> moved T (cln_Destination item) (cln_Source item) (names w))"
proof (rule hoareI)
  fix w assume t: "names w = T"
  let ?E = "\<lambda>w. names w = T \<or> moved T (cln_Destination item) (cln_Source item) (names w)"
  have step: "meets (\<lambda>_. ?E) ?E (restore_item K e x w')"
    if "same_receipt item x" "names w' = T" for x w'
    using hoareD [OF restore_item_outcome [of x T e], of w'] assms that by (simp add: same_receipt_def)
  show "meets (\<lambda>_. ?E) ?E (Restore K e item w)"
  proof (cases "Reconcile K e item w" rule: outcome_cases)
    case (success x w')
    then show ?thesis
      using step [of x w'] Reconcile_item [OF success] touches_quiet [OF Reconcile_touches success] t
      by (simp add: Restore_def)
  next
    case (failure er w')
    then show ?thesis
      using step [of "fst er" w'] Reconcile_item [OF failure] touches_quiet [OF Reconcile_touches failure] t
      by (cases er) (simp add: Restore_def)
  qed
qed

section \<open>Deleting\<close>

lemma deleteAnchored_touches:
  assumes "isAbsClean p" "p \<noteq> ''/''"
  shows "touches tree (below p) (deleteAnchored n K p i)"
  unfolding deleteAnchored_def deleteAnchoredAt_def
proof (rule touches_andthen_value [OF touches_pure(3)])
  fix s d s'
  assume "ask (anchored K p i 0) s = (Inr d, s')"
  then have d: "loc d = Dir p" using anchored_at [of p i 0 s d] assms(1) by simp
  obtain es where es: "p = abs_path es" "good_segs es" using assms(1) by (rule canonicalE)
  then obtain fs b where "es = fs @ [b]" using assms(2) by (cases es rule: rev_cases) (auto simp: abs_path_def)
  then have "good_seg (Base p)" using es by (simp add: Base_snoc)
  then have "touches tree (below p) (removeAt n K d (Base p) (fs_Device i))"
    using remove_touches(1) [of d "Base p" n "fs_Device i"] d Dir_facts(1) [OF assms(1)] Join_parent [OF assms(1)] by simp
  then show "touches tree (below p)
      (andthen (removeAt n K d (Base p) (fs_Device i)) (\<lambda>_. faulty (effect (k_Fsync K d))))"
    by (auto intro!: frame intro: quiet_any [OF quiet(2)])
qed

lemma delete_object_touches:
  assumes "isAbsClean (cln_Destination item)" "cln_Destination item \<noteq> ''/''"
  shows "touches names (delete_names item) (delete_object K e item)"
proof -
  have "touches tree (delete_names item) (writeDeletionMarker K item)"
    by (rule touches_mono [OF writeDeletionMarker_touches]) (simp add: delete_names_def)
  moreover have "touches tree (delete_names item) (deleteAnchored n K (cln_Destination item) i)" for n i
    by (rule touches_mono [OF deleteAnchored_touches [OF assms]]) (auto simp: delete_names_def)
  ultimately show ?thesis unfolding delete_object_def by (intro with_now_touches frame)
qed

lemma Delete_touches:
  assumes "isAbsClean (cln_Destination item)" "cln_Destination item \<noteq> ''/''"
  shows "touches names (delete_names item) (Delete K e item)"
  unfolding Delete_def
proof (intro with_now_touches touches_if touches_refuse touches_inspect)
  fix out :: absent_outcome
  have "touches names (delete_names item) (\<lambda>w. case Eligible K e item w of
       (Inr _, w') \<Rightarrow> delete_object K e item w'
     | (Inl (_, StillRunning), w') \<Rightarrow> (Inl (item, StillRunning), w')
     | (Inl (_, Fault err), w') \<Rightarrow> investigate K e item err w')" (is "touches _ _ ?m")
  proof (rule touchesI)
    fix w p assume p: "p \<notin> delete_names item"
    show "names (snd (?m w)) p = names w p"
      using touches_quiet [OF Eligible_touches, of e item w] delete_object_touches [OF assms, of e]
        investigate_touches [of "{}" e item] p
      by (cases "Eligible K e item w" rule: outcome_cases)
        (auto simp: touches_def split: fault.splits prod.splits)
  qed
  then show "touches names (delete_names item) (case out of
        absentDeleted \<Rightarrow> with_now K (\<lambda>now'.
          record_state K e (item\<lparr>cln_State := CleanupDeleted, cln_UpdatedAt := now',
            cln_Reason := deleted_reason\<rparr>) CleanupQuarantined)
      | absentRestored \<Rightarrow> Reconcile K e item
      | absentUnproven \<Rightarrow> ?m)"
    using Reconcile_touches by (cases out) (auto intro!: with_now_touches frame)
qed

text \<open>Nothing is deleted before the item was found eligible at an expired time.\<close>

lemma Delete_only_eligible:
  assumes "names (snd (Delete K e item w)) \<noteq> names w"
  shows "cln_State item = CleanupQuarantined \<and> (\<exists>now. has_expired item now)
    \<and> (\<exists>w1 w2. names w1 = names w \<and> wld_Journal w1 = wld_Journal w \<and> Eligible K e item w1 = (Inr (), w2))"
proof -
  have st: "cln_State item = CleanupQuarantined" "cln_MovedAt item \<noteq> None"
    using assms by (auto simp: Delete_def refuse_def fail_def)
  obtain now s where n: "k_Now K (wld_Sys w) = (now, s)" by fastforce
  let ?w = "w\<lparr>wld_Sys := s\<rparr>"
  have q: "names ?w = names w" using touches_quiet [OF quiet(1) n] by simp
  have x: "has_expired item now" using assms st n q by (auto simp: Delete_def with_now_def refuse_def fail_def)
  have "settleAbsent K item s = absentUnproven"
  proof (cases "settleAbsent K item s")
    case absentDeleted
    have "touches names {} (with_now K (\<lambda>now'. record_state K e (item\<lparr>cln_State := CleanupDeleted,
        cln_UpdatedAt := now', cln_Reason := deleted_reason\<rparr>) CleanupQuarantined))" by (intro frame)
    then show ?thesis using assms st n x q absentDeleted by (auto simp: Delete_def with_now_def [of K _ w] inspect_def touches_def)
  next
    case absentRestored
    then show ?thesis using assms st n x q Reconcile_touches [of "{}" e item]
      by (auto simp: Delete_def with_now_def [of K _ w] inspect_def touches_def)
  qed simp
  then have d: "Delete K e item w = (case Eligible K e item ?w of
       (Inr _, w') \<Rightarrow> delete_object K e item w'
     | (Inl (_, StillRunning), w') \<Rightarrow> (Inl (item, StillRunning), w')
     | (Inl (_, Fault err), w') \<Rightarrow> investigate K e item err w')"
    using st n x by (auto simp: Delete_def with_now_def [of K _ w] inspect_def)
  have e: "\<exists>w2. Eligible K e item ?w = (Inr (), w2)"
  proof (cases "Eligible K e item ?w" rule: outcome_cases)
    case (failure er w')
    then show ?thesis
      using assms d q touches_quiet [OF Eligible_touches failure] investigate_touches [of "{}" e item]
      by (cases er) (auto simp: touches_def split: fault.splits)
  qed auto
  have "names ?w = names w" "wld_Journal ?w = wld_Journal w" using q by simp_all
  with e st x show ?thesis by blast
qed

end

end
