(* ===== verification/ActionJournal.thy ===== *)
theory ActionJournal
  imports ActionOutcomes
begin

text \<open>
  The operations of the engine and the journal: consistency, other receipts, and the recorded state.
\<close>

section \<open>The journal\<close>

abbreviation jview :: "'s world \<Rightarrow> unit \<Rightarrow> journal" where
  "jview w \<equiv> \<lambda>_. wld_Journal w"

named_theorems unjournaled "steps that write nothing to the journal"

lemma sys_unjournaled [unjournaled]:
  "touches jview S (sys item m)" "touches jview S (sys_fault item m')" "touches jview S (refuse item msg)"
  by (auto simp: touches_def sys_def sys_fault_def refuse_def fail_def split: prod.splits sum.splits)

lemma with_now_unjournaled [unjournaled]: "(\<And>t. touches jview S (f t)) \<Longrightarrow> touches jview S (with_now K f)"
  by (auto simp: touches_def with_now_def split: prod.splits)

lemma Eligible_unjournaled [unjournaled]: "touches jview S (Eligible K e item)"
  unfolding Eligible_def Let_def by (auto intro!: frame unjournaled split: option.splits sum.splits)

lemmas unjournaled_intros = unjournaled touches_pure(1,2,3,4) touches_andthen touches_steps touches_inspect
  touches_if touches_blame touches_case_option touches_case_sum touches_case_prod

text \<open>The journal stays consistent and every other receipt as recorded.\<close>

definition journal_inv :: "item_key \<Rightarrow> (item_key \<Rightarrow> cleanup_state option) \<Rightarrow> journal \<Rightarrow> bool" where
  "journal_inv k others j \<longleftrightarrow> journal_ok j \<and> (\<forall>k'. k' \<noteq> k \<longrightarrow> journal_state j k' = others k')"

definition recorded :: "cleanup_item \<Rightarrow> journal \<Rightarrow> bool" where
  "recorded item j \<longleftrightarrow> journal_state j (item_key_of item) = Some (cln_State item)"

abbreviation holds_in :: "(journal \<Rightarrow> bool) \<Rightarrow> 's world \<Rightarrow> bool" where
  "holds_in P w \<equiv> P (wld_Journal w)"

lemma hoare_unjournaled:
  assumes "touches jview {} m" "\<And>j. P j \<Longrightarrow> E j"
  shows "hoare (holds_in P) m (\<lambda>_. holds_in P) (holds_in E)"
  using hoare_touches [OF assms(1), of "\<lambda>v. P (v ())" "holds_in E"] assms(2) by simp

lemma hoare_now_journal:
  assumes "\<And>t. hoare (holds_in P) (f t) Q E"
  shows "hoare (holds_in P) (with_now K f) Q E"
  using assms unfolding hoare_def with_now_def by (auto split: prod.splits)

lemma write_tx_Some: "write_tx ro b c fn j = (Some err, j') \<Longrightarrow> j' = j"
  by (auto simp: write_tx_def split: if_splits option.splits sum.splits)

lemma write_tx_None: "write_tx ro b c fn j = (None, j') \<Longrightarrow> fn j = Inr j'"
  by (auto simp: write_tx_def split: if_splits option.splits sum.splits)

lemma update_journal:
  assumes "item_key_of item = k" "\<And>j. P j \<Longrightarrow> journal_inv k others j"
  shows "hoare (holds_in P) (update (K :: ('s, 'd) kernel) e item ex)
    (\<lambda>_ w. journal_inv k others (wld_Journal w) \<and> recorded item (wld_Journal w)) (holds_in (journal_inv k others))"
proof (rule hoareI)
  fix w :: "'s world" assume p: "P (wld_Journal w)"
  let ?tx = "UpdateCleanup (eng_Codec e) item ex"
  obtain r j where t: "write_tx (eng_ReadOnly e) (k_Begin K (wld_Sys w)) (k_Commit K (wld_Sys w)) ?tx (wld_Journal w) = (r, j)"
    by fastforce
  show "meets (\<lambda>_ w. journal_inv k others (wld_Journal w) \<and> recorded item (wld_Journal w)) (holds_in (journal_inv k others))
      (update K e item ex w)"
  proof (cases r)
    case (Some err)
    have "j = wld_Journal w" by (rule write_tx_Some [OF t [unfolded Some]])
    then show ?thesis using t Some assms(2) [OF p] by (simp add: update_def journal_write_def)
  next
    case None
    have "UpdateCleanup (eng_Codec e) item ex (wld_Journal w) = Inr j"
      by (rule write_tx_None [OF t [unfolded None]])
    then show ?thesis
      using UpdateCleanup_ok assms p t None
      by (fastforce simp: update_def journal_write_def journal_inv_def recorded_def)
  qed
qed

lemma record_journal:
  assumes "item_key_of item = k" "\<And>j. P j \<Longrightarrow> journal_inv k others j"
  shows "hoare (holds_in P) (record_state K e item ex)
    (\<lambda>y w. journal_inv k others (wld_Journal w) \<and> recorded y (wld_Journal w)) (holds_in (journal_inv k others))"
  unfolding record_state_def
  by (rule hoare_andthen [OF update_journal [where others = others, OF assms]]) (simp_all add: hoare_ok)

text \<open>\<open>logs P item m\<close>: from a consistent journal satisfying \<open>P\<close>, the journal stays consistent under \<open>m\<close>, other
  receipts are left as they are, and the state of a returned item is the recorded one.\<close>

definition logs :: "(journal \<Rightarrow> bool) \<Rightarrow> cleanup_item \<Rightarrow> ('s, cleanup_item) operation \<Rightarrow> bool" where
  "logs P item m \<longleftrightarrow> (\<forall>others. hoare (holds_in (\<lambda>j. journal_inv (item_key_of item) others j \<and> P j)) m
     (\<lambda>y w. journal_inv (item_key_of item) others (wld_Journal w) \<and> recorded y (wld_Journal w))
     (holds_in (journal_inv (item_key_of item) others)))"

lemma item_key_simps [simp]:
  "item_key_of (item\<lparr>cln_State := s\<rparr>) = item_key_of item" "item_key_of (item\<lparr>cln_UpdatedAt := t\<rparr>) = item_key_of item"
  "item_key_of (item\<lparr>cln_Reason := r\<rparr>) = item_key_of item" "item_key_of (item\<lparr>cln_MovedAt := m\<rparr>) = item_key_of item"
  "item_key_of (item\<lparr>cln_ExpiresAt := m'\<rparr>) = item_key_of item"
  "item_key_of (item\<lparr>cln_Quarantined := q\<rparr>) = item_key_of item"
  by (simp_all add: item_key_of_def)

named_theorems logging "operations that keep the journal in step"

lemma logged_ok [logging]: "logs (recorded item) item (ok item)"
  by (simp add: logs_def hoare_ok)

lemma logged_refuse [logging]: "logs P item (refuse item' msg)"
  by (simp add: logs_def refuse_def hoare_fail_iff)

lemma logged_record [logging]: "item_key_of item' = item_key_of item \<Longrightarrow> logs P item (record_state K e item' ex)"
  unfolding logs_def by (intro allI record_journal) simp_all

lemma logged_andthen [logging]:
  "touches jview {} m \<Longrightarrow> (\<And>a. logs P item (f a)) \<Longrightarrow> logs P item (andthen m f)"
  unfolding logs_def by (intro allI hoare_andthen [OF hoare_unjournaled]) simp_all

lemma logged_if [logging]: "logs P item f \<Longrightarrow> logs P item g \<Longrightarrow> logs P item (if b then f else g)"
  by simp

lemma logged_case_prod [logging]: "(\<And>a b. logs P item (f a b)) \<Longrightarrow> logs P item (case x of (a, b) \<Rightarrow> f a b)"
  by (cases x) simp

lemma logged_inspect [logging]: "(\<And>r. logs P item (f r)) \<Longrightarrow> logs P item (inspect q f)"
  unfolding logs_def by (blast intro: hoare_inspect)

lemma logged_with_now [logging]: "(\<And>t. logs P item (f t)) \<Longrightarrow> logs P item (with_now K f)"
  unfolding logs_def
  by (intro allI hoare_now_journal [where P = "\<lambda>j. journal_inv (item_key_of item) _ j \<and> P j"]) blast

lemma logged_finishMove [logging]: "item_key_of item' = item_key_of item \<Longrightarrow> logs P item (finishMove K e item')"
  unfolding finishMove_def by (intro logging unjournaled_intros) simp

lemma logged_investigate:
  "item_key_of item' = item_key_of item \<Longrightarrow>
     hoare (holds_in (journal_inv (item_key_of item) others)) (investigate K e item' reason) Q
       (holds_in (journal_inv (item_key_of item) others))"
  unfolding investigate_def Let_def
  by (rule hoare_now_journal, rule hoare_andthen [OF update_journal [where others = others and k = "item_key_of item"]])
    (simp_all add: refuse_def hoare_fail_iff)

lemma logged_investigate' [logging]:
  "item_key_of item' = item_key_of item \<Longrightarrow> logs P item (investigate K e item' reason)"
  unfolding logs_def by (intro allI hoare_pre [OF logged_investigate]) simp_all

lemma logged_rescue [logging]:
  assumes "logs P item m" "\<And>err others Q. hoare (holds_in (journal_inv (item_key_of item) others)) (h err) Q
       (holds_in (journal_inv (item_key_of item) others))"
  shows "logs P item (rescue m h)"
  unfolding logs_def
proof (intro allI hoareI)
  fix others and w :: "'a world"
  assume p: "journal_inv (item_key_of item) others (wld_Journal w) \<and> P (wld_Journal w)"
  let ?Q = "\<lambda>y w. journal_inv (item_key_of item) others (wld_Journal w) \<and> recorded y (wld_Journal w)"
  let ?E = "holds_in (journal_inv (item_key_of item) others)"
  have m: "meets ?Q ?E (m w)" using assms(1) p by (auto simp: logs_def hoare_def)
  show "meets ?Q ?E (rescue m h w)"
    using m hoareD [OF assms(2)]
    by (cases "m w" rule: outcome_cases) (auto simp: rescue_def split: prod.splits fault.splits)
qed

lemma Quarantine_logged: "logs P item (Quarantine K e item)"
  unfolding Quarantine_def Let_def
  by (intro logging) (auto intro!: logging unjournaled_intros)

lemma investigate_logged_unit:
  "item_key_of item' = item_key_of item \<Longrightarrow>
     hoare (holds_in (journal_inv (item_key_of item) others))
       (andthen (investigate K e item' reason) (\<lambda>_. ok ())) Q (holds_in (journal_inv (item_key_of item) others))"
  by (rule hoare_andthen [OF logged_investigate [where Q = "\<lambda>_ _. False"]]) (simp_all add: hoare_ok)

lemma retry_logged: "logs P item (retry_investigated K e item)"
  unfolding retry_investigated_def
  by (intro logging unjournaled_intros) simp

text \<open>Checking the Git registration of a restored item may move it to investigation.\<close>

lemma verify_or_investigate:
  "hoare (holds_in (\<lambda>j. journal_inv (item_key_of item) others j \<and> P j))
     (rescue (sys item (verify_linked K item p)) (\<lambda>_. andthen (investigate K e item reason) (\<lambda>_. ok ())))
     (\<lambda>_. holds_in (\<lambda>j. journal_inv (item_key_of item) others j \<and> P j))
     (holds_in (journal_inv (item_key_of item) others))"
  (is "hoare ?P (rescue ?m ?h) ?Q ?E")
proof (rule hoareI)
  fix w assume p: "?P w"
  have m: "meets ?Q ?E (?m w)"
    using hoareD [OF hoare_unjournaled [OF sys_unjournaled(1), of
        "\<lambda>j. journal_inv (item_key_of item) others j \<and> P j" "journal_inv (item_key_of item) others"]] p
    by simp
  show "meets ?Q ?E (rescue ?m ?h w)"
    using m hoareD [OF investigate_logged_unit [OF refl, of item others K e reason ?Q]] p
    by (cases "?m w" rule: outcome_cases)
      (auto simp: rescue_def sys_def sys_fault_def split: prod.splits fault.splits sum.splits)
qed

lemma Reconcile_logged: "logs (recorded item) item (Reconcile K e item)"
proof -
  have restored: "logs P item (andthen (rescue (sys item (verify_linked K item p))
       (\<lambda>_. andthen (investigate K e item reason) (\<lambda>_. ok ()))) (\<lambda>_. f))" if "logs P item f" for P p reason f
    using that verify_or_investigate unfolding logs_def by (blast intro: hoare_andthen)
  show ?thesis
    unfolding Reconcile_def Let_def
    by (intro restored logging retry_logged logged_investigate) simp_all
qed

lemma Restore_logged:
  fixes K :: "('s, 'd) kernel"
  shows "logs (recorded item) item (Restore K e item)"
proof -
  let ?I = "\<lambda>others j. journal_inv (item_key_of item) others j"
  have move: "logs P item (restore_move K e x)" and rec: "logs P item (restore_recorded K e x)"
    and prep: "logs P item (restore_prepared K e x)" if "item_key_of x = item_key_of item" for x P
    unfolding restore_move_def restore_recorded_def restore_prepared_def
    using that by (auto intro!: logging unjournaled_intros)
  have other: "logs P item (restore_item K e x)" if "item_key_of x = item_key_of item" "cln_State x \<noteq> CleanupRestored" for x P
    unfolding restore_item_def using that
    by (auto intro!: logging unjournaled_intros move rec prep)
  have same: "logs (recorded x) item (restore_item K e x)" if "item_key_of x = item_key_of item" for x
  proof (cases "cln_State x = CleanupRestored")
    case True
    then show ?thesis by (simp add: restore_item_def logs_def hoare_ok)
  qed (simp add: other that)
  show ?thesis
    unfolding logs_def
  proof (intro allI hoareI)
    fix others and w :: "'s world"
    assume p: "?I others (wld_Journal w) \<and> recorded item (wld_Journal w)"
    let ?Q = "\<lambda>y w. ?I others (wld_Journal w) \<and> recorded y (wld_Journal w)" and ?E = "holds_in (?I others)"
    have r: "meets ?Q ?E (Reconcile K e item w)" using Reconcile_logged [of item K e, unfolded logs_def hoare_def] p by blast
    show "meets ?Q ?E (Restore K e item w)"
    proof (cases "Reconcile K e item w" rule: outcome_cases)
      case (success x w')
      then have "item_key_of x = item_key_of item" using Reconcile_item [OF success] by (simp add: same_receipt_def)
      then show ?thesis using same [of x] r success by (auto simp: Restore_def logs_def hoare_def)
    next
      case (failure er w')
      obtain x err where er: "er = (x, err)" by fastforce
      then have "item_key_of x = item_key_of item" using Reconcile_item [OF failure] by (simp add: same_receipt_def)
      then show ?thesis using other [of x "\<lambda>_. True"] r failure er by (auto simp: Restore_def logs_def hoare_def)
    qed
  qed
qed

lemma delete_object_logged: "logs P item (delete_object K e item)"
  unfolding delete_object_def by (auto intro!: logging unjournaled_intros)

lemma Delete_logged:
  fixes K :: "('s, 'd) kernel"
  shows "logs (recorded item) item (Delete K e item)"
proof -
  let ?I = "\<lambda>others j. journal_inv (item_key_of item) others j"
  have "logs (recorded item) item (\<lambda>w. case Eligible K e item w of
       (Inr _, w') \<Rightarrow> delete_object K e item w'
     | (Inl (_, StillRunning), w') \<Rightarrow> (Inl (item, StillRunning), w')
     | (Inl (_, Fault err), w') \<Rightarrow> investigate K e item err w')" (is "logs _ _ ?m")
    unfolding logs_def
  proof (intro allI hoareI)
    fix others and w :: "'s world"
    assume p: "?I others (wld_Journal w) \<and> recorded item (wld_Journal w)"
    let ?Q = "\<lambda>y w. ?I others (wld_Journal w) \<and> recorded y (wld_Journal w)" and ?E = "holds_in (?I others)"
    have j: "Eligible K e item w = (r, w') \<Longrightarrow> wld_Journal w' = wld_Journal w" for r w'
      using touches_quiet [OF Eligible_unjournaled [of "{}" K e item], of w r w'] by (metis)
    show "meets ?Q ?E (?m w)"
      using delete_object_logged [of "\<lambda>_. True" item K e] logged_investigate [of item item others K e _ ?Q] p j
      by (cases "Eligible K e item w" rule: outcome_cases)
        (auto simp: logs_def hoare_def split: prod.splits fault.splits)
  qed
  then show ?thesis
    unfolding Delete_def
    by (auto intro!: logging unjournaled_intros Reconcile_logged split: absent_outcome.splits)
qed

end
