(* ===== verification/ActionFlat.thy ===== *)
theory ActionFlat
  imports ActionJournal
begin

text \<open>
  A file system that satisfies the laws of \<open>file_kernel\<close>: a map from names to objects, a map from names to
  contents, a clock and a list of the names in use.  Directories are opened by name; the collection run
  answers from the recorded entries.  It is what the laws are interpreted on, and the concrete system of the
  examples.
\<close>

record flat =
  fl_Tree :: "string \<Rightarrow> (filesystem_id \<times> file_kind) option"
  fl_Body :: "string \<Rightarrow> string"
  fl_Names :: "string list"
  fl_Listed :: "string list"
  fl_Next :: nat
  fl_Clock :: time
  fl_Entries :: "entry list"
  fl_Commits :: bool

definition flat_info :: "flat \<Rightarrow> string \<Rightarrow> filesystem_id \<times> file_kind \<Rightarrow> file_info" where
  "flat_info s p x =
     \<lparr>fi_ID = fst x, fi_Kind = snd x, fi_Size = int (length (fl_Body s p)), fi_Mode = 448, fi_Ctime = 1,
      fi_Atime = 1, fi_Mtime = 1\<rparr>"

definition flat_stat :: "string \<Rightarrow> flat \<Rightarrow> stat_result" where
  "flat_stat p s = (case fl_Tree s p of None \<Rightarrow> StatAbsent | Some x \<Rightarrow> StatObject (flat_info s p x))"

definition flat_read :: "string \<Rightarrow> flat \<Rightarrow> read_result" where
  "flat_read p s =
     (case fl_Tree s p of None \<Rightarrow> ReadAbsent | Some x \<Rightarrow> ReadFile (flat_info s p x) (fl_Body s p))"

definition flat_open :: "string \<Rightarrow> flat \<Rightarrow> string open_result" where
  "flat_open p s =
     (case fl_Tree s p of
        None \<Rightarrow> OpenAbsent
      | Some x \<Rightarrow> if snd x = KindDirectory then Opened p else OpenError ''not a directory'')"

definition flat_fstat :: "string \<Rightarrow> flat \<Rightarrow> string + file_info" where
  "flat_fstat p s = (case fl_Tree s p of None \<Rightarrow> Inl ''stale'' | Some x \<Rightarrow> Inr (flat_info s p x))"

definition flat_create :: "string \<Rightarrow> file_kind \<Rightarrow> flat \<Rightarrow> flat" where
  "flat_create p k s =
     s\<lparr>fl_Tree := (fl_Tree s)(p \<mapsto> (\<lparr>fs_Device = 8, fs_Inode = of_nat (fl_Next s)\<rparr>, k)),
       fl_Body := (fl_Body s)(p := ''''), fl_Names := p # fl_Names s, fl_Next := Suc (fl_Next s)\<rparr>"

definition flat_children :: "string \<Rightarrow> flat \<Rightarrow> string list" where
  "flat_children d s =
     filter good_seg (map Base (filter (\<lambda>p. fl_Tree s p \<noteq> None \<and> Dir p = d \<and> p \<noteq> d) (remdups (fl_Names s))))"

definition flat_readdir :: "string \<Rightarrow> flat \<Rightarrow> (string list \<times> read_end) \<times> flat" where
  "flat_readdir d s =
     (if d \<in> set (fl_Listed s) then (([], ReadEOF), s\<lparr>fl_Listed := filter (\<lambda>x. x \<noteq> d) (fl_Listed s)\<rparr>)
      else ((flat_children d s, ReadMore), s\<lparr>fl_Listed := d # fl_Listed s\<rparr>))"

definition move_map :: "string \<Rightarrow> string \<Rightarrow> (string \<Rightarrow> 'o option) \<Rightarrow> string \<Rightarrow> 'o option" where
  "move_map old new t p =
     (if PathWithin p old then None else if p = new then t old
      else if PathWithin p new then t (old @ drop (length new) p) else t p)"

definition flat_rename :: "string \<Rightarrow> string \<Rightarrow> flat \<Rightarrow> string option \<times> flat" where
  "flat_rename old new s =
     (if old = '''' \<or> new = '''' \<or> fl_Tree s old = None then (Some ''no such file or directory'', s)
      else if fl_Tree s new \<noteq> None then (Some ''file exists'', s)
      else if PathWithin new old then (Some ''invalid argument'', s)
      else (None, s\<lparr>fl_Tree := move_map old new (fl_Tree s),
             fl_Body := (\<lambda>p. if PathWithin p new then fl_Body s (old @ drop (length new) p) else fl_Body s p),
             fl_Names := map (\<lambda>p. if PathWithin p old then new @ drop (length old) p else p) (fl_Names s)\<rparr>))"

definition flat_mkdir :: "string \<Rightarrow> flat \<Rightarrow> string option \<times> flat" where
  "flat_mkdir p s =
     (if fl_Tree s p \<noteq> None then (Some ''file exists'', s) else (None, flat_create p KindDirectory s))"

definition flat_unlink :: "string \<Rightarrow> flat \<Rightarrow> string option \<times> flat" where
  "flat_unlink p s =
     (if fl_Tree s p = None then (Some ''no such file or directory'', s)
      else (None, s\<lparr>fl_Tree := (fl_Tree s)(p := None)\<rparr>))"

definition flat_append :: "string \<Rightarrow> string \<Rightarrow> flat \<Rightarrow> string option \<times> flat" where
  "flat_append p body s = (None, s\<lparr>fl_Body := (fl_Body s)(p := fl_Body s p @ body)\<rparr>)"

definition flat_kernel :: "(flat, string) kernel" where
  "flat_kernel =
     \<lparr>k_Now = (\<lambda>s. (fl_Clock s, s\<lparr>fl_Clock := fl_Clock s + 1\<rparr>)),
      k_Cancelled = (\<lambda>_. None), k_Getwd = (\<lambda>_. Inr ''/''),
      k_Lstat = flat_stat, k_Stat = flat_stat, k_Statfs = (\<lambda>_ _. Inr (1000000, 4096)),
      k_EvalSymlinks = (\<lambda>p _. Inr p), k_OpenRoot = (\<lambda>_. Inr ''/''),
      k_OpenDir = (\<lambda>p s. case flat_open p s of Opened d \<Rightarrow> Inr d | _ \<Rightarrow> Inl ''open''),
      k_Openat = (\<lambda>d n _. flat_open (Join [d, n])), k_Fstat = flat_fstat,
      k_Fstatat = (\<lambda>d n. flat_stat (Join [d, n])), k_Readdirnames = flat_readdir,
      k_CloseDir = (\<lambda>_ s. (None, s)), k_Mkdirat = (\<lambda>d n. flat_mkdir (Join [d, n])),
      k_Fsync = (\<lambda>_ s. (None, s)), k_SyncPath = (\<lambda>_ s. (None, s)),
      k_Renameat2 = (\<lambda>d n d' n'. flat_rename (Join [d, n]) (Join [d', n'])),
      k_Unlinkat = (\<lambda>d n _. flat_unlink (Join [d, n])),
      k_ReadPath = flat_read, k_ReadAt = (\<lambda>d n. flat_read (Join [d, n])),
      k_CreateAt = (\<lambda>d n s. (None, flat_create (Join [d, n]) KindRegular s)),
      k_WriteAt = (\<lambda>d n. flat_append (Join [d, n])), k_FsyncAt = (\<lambda>_ _ s. (None, s)),
      k_CloseAt = (\<lambda>_ _ s. (None, s)),
      k_CreateTemp = (\<lambda>base pat s.
        (let n = pat @ show_nat (fl_Next s); p = Join [base, n]
         in if good_seg n \<and> fl_Tree s p = None then (Inr p, flat_create p KindRegular s) else (Inl ''create'', s))),
      k_Chmod = (\<lambda>_ s. (None, s)), k_Write = flat_append, k_Sync = (\<lambda>_ s. (None, s)),
      k_Close = (\<lambda>_ s. (None, s)), k_Remove = (\<lambda>p s. snd (flat_unlink p s)),
      k_Fchmodat = (\<lambda>_ _ _ s. (None, s)), k_UtimesNanoAt = (\<lambda>_ _ _ _ s. (None, s)),
      k_PathEnv = (\<lambda>_. ''/usr/bin''),
      k_Exec = (\<lambda>_ _ s. (\<lparr>run_Cancelled = None, run_Error = Some ''no git'', run_Stdout = '''', run_Stderr = ''''\<rparr>, s)),
      k_OpenHandle = (\<lambda>p s. case fl_Tree s p of
          None \<Rightarrow> Inl ''open'' | Some x \<Rightarrow> Inr \<lparr>hnd_Path = p, hnd_ID = fst x, hnd_Linked = Inr True\<rparr>),
      k_Observe = (\<lambda>q s. Inr \<lparr>res_Entries = fl_Entries s, res_References = [], res_Reports = []\<rparr>),
      k_Begin = (\<lambda>_. None), k_Commit = (\<lambda>s. if fl_Commits s then None else Some ''disk full'')\<rparr>"

lemma move_map_moved:
  assumes "old \<noteq> ''''" "new \<noteq> ''''" "t old \<noteq> None" "t new = None" "\<not> PathWithin new old"
  shows "moved t old new (move_map old new t)"
  using assms PathWithin_refl by (auto simp: moved_def move_map_def)

interpretation flat: file_kernel flat_kernel id fl_Tree
proof
  show "touches fl_Tree {} (k_Now flat_kernel)" "touches fl_Tree {} (k_Fsync flat_kernel d)"
    "touches fl_Tree {} (k_SyncPath flat_kernel p)" "touches fl_Tree {} (k_CloseDir flat_kernel d)"
    "touches fl_Tree {} (k_Readdirnames flat_kernel d)" "touches fl_Tree {} (k_WriteAt flat_kernel d n body)"
    "touches fl_Tree {} (k_FsyncAt flat_kernel d n)" "touches fl_Tree {} (k_CloseAt flat_kernel d n)"
    "touches fl_Tree {} (k_Chmod flat_kernel p)" "touches fl_Tree {} (k_Write flat_kernel p body)"
    "touches fl_Tree {} (k_Sync flat_kernel p)" "touches fl_Tree {} (k_Close flat_kernel p)"
    "touches fl_Tree {} (k_Fchmodat flat_kernel d n mode)" "touches fl_Tree {} (k_UtimesNanoAt flat_kernel d n ta mt)"
    for d n p body mode ta mt
    by (simp_all add: touches_def flat_kernel_def flat_readdir_def flat_append_def)
  show "touches fl_Tree {} (k_Exec flat_kernel env args)" for env args
    by (simp add: touches_def flat_kernel_def)
  show "touches fl_Tree {Join [id d, n]} (k_CreateAt flat_kernel d n)" for d n
    by (simp add: touches_def flat_kernel_def flat_create_def)
  show "if r = None then moved (fl_Tree s) (Join [id d, n]) (Join [id d', n']) (fl_Tree s') else fl_Tree s' = fl_Tree s"
    if "k_Renameat2 flat_kernel d n d' n' s = (r, s')" for d n d' n' s r s'
    using that move_map_moved [of "Join [d, n]" "Join [d', n']" "fl_Tree s"]
    by (auto simp: flat_kernel_def flat_rename_def simp del: not_None_eq split: if_splits)
  show "list_all good_seg (fst names)" if "k_Readdirnames flat_kernel d s = (names, s')" for d s names s'
    using that by (auto simp: flat_kernel_def flat_readdir_def flat_children_def list_all_iff split: if_splits)
  show "case r of Inl _ \<Rightarrow> fl_Tree s' = fl_Tree s
      | Inr t \<Rightarrow> (\<exists>x. good_seg (pat @ x) \<and> t = Join [base, pat @ x]) \<and> fl_Tree s t = None
          \<and> (\<forall>p. p \<noteq> t \<longrightarrow> fl_Tree s' p = fl_Tree s p)"
    if "k_CreateTemp flat_kernel base pat s = (r, s')" for base pat s r s'
    using that by (auto simp: flat_kernel_def Let_def flat_create_def split: if_splits)
qed (auto simp: flat_kernel_def flat_stat_def flat_info_def flat_open_def flat_mkdir_def flat_create_def flat_unlink_def
    split: option.splits if_splits)

end
