(* ===== verification/ActionTruth.thy ===== *)
theory ActionTruth
  imports ActionFlat
begin

text \<open>
  The state an operation returns tells where the object is; every change of the journal goes through its
  transitions; and what \<open>Eligible\<close> has established when it succeeds.
\<close>

section \<open>Journals the engine reaches\<close>

text \<open>\<open>journal_safe c m\<close>: the journal after \<open>m\<close> is reached from the one before by inserts and updates.\<close>

definition journal_safe :: "codec \<Rightarrow> ('s, 'a) operation \<Rightarrow> bool" where
  "journal_safe c m \<longleftrightarrow> (\<forall>w. sql.runs c (wld_Journal w) (wld_Journal (snd (m w))))"

named_theorems safe_steps "steps that change the journal by inserts and updates only"

lemma runs_trans: "sql.runs c j k \<Longrightarrow> sql.runs c i j \<Longrightarrow> sql.runs c i k"
  by (induction rule: sql.runs.induct) (auto intro: sql.runs.go)

lemma journal_safe_unjournaled: "touches jview {} m \<Longrightarrow> journal_safe c m"
  unfolding journal_safe_def touches_def by (metis empty_iff sql.runs.stay)

lemma journal_safe_pure [safe_steps]:
  "journal_safe c (ok a)" "journal_safe c (refuse item msg)" "journal_safe c (sys item m)"
  "journal_safe c (sys_fault item m')" "journal_safe c (Eligible K e item)"
  by (rule journal_safe_unjournaled, rule unjournaled_intros)+

lemma journal_safe_update [safe_steps]: "c = eng_Codec e \<Longrightarrow> journal_safe c (update K e item ex)"
  unfolding journal_safe_def
proof
  fix w :: "'a world"
  assume c: "c = eng_Codec e"
  obtain r j where t: "write_tx (eng_ReadOnly e) (k_Begin K (wld_Sys w)) (k_Commit K (wld_Sys w))
      (UpdateCleanup c item ex) (wld_Journal w) = (r, j)"
    by fastforce
  have "sql.runs c (wld_Journal w) j"
  proof (cases r)
    case (Some err)
    then show ?thesis using write_tx_Some [OF t [unfolded Some]] by (simp add: sql.runs.stay)
  next
    case None
    have "UpdateCleanup c item ex (wld_Journal w) = Inr j" by (rule write_tx_None [OF t [unfolded None]])
    then show ?thesis by (intro sql.runs.go [OF sql.runs.stay]) (auto simp: sql.one_step_def)
  qed
  then show "sql.runs c (wld_Journal w) (wld_Journal (snd (update K e item ex w)))"
    using t c by (cases r) (simp_all add: update_def journal_write_def)
qed

lemma journal_safe_andthen [safe_steps]:
  assumes "journal_safe c m" "\<And>a. journal_safe c (f a)"
  shows "journal_safe c (andthen m f)"
  unfolding journal_safe_def
proof
  fix w :: "'a world"
  have m: "sql.runs c (wld_Journal w) (wld_Journal (snd (m w)))" using assms(1) by (simp add: journal_safe_def)
  show "sql.runs c (wld_Journal w) (wld_Journal (snd (andthen m f w)))"
    using m assms(2) by (cases "m w" rule: outcome_cases) (auto simp: andthen_def journal_safe_def intro: runs_trans)
qed

lemma journal_safe_if [safe_steps]: "journal_safe c f \<Longrightarrow> journal_safe c g \<Longrightarrow> journal_safe c (if b then f else g)"
  by simp

lemma journal_safe_case_prod [safe_steps]:
  "(\<And>a b. journal_safe c (h a b)) \<Longrightarrow> journal_safe c (case x of (a, b) \<Rightarrow> h a b)"
  by (cases x) simp

lemma journal_safe_inspect [safe_steps]: "(\<And>r. journal_safe c (f r)) \<Longrightarrow> journal_safe c (inspect q f)"
  by (simp add: journal_safe_def inspect_def)

lemma journal_safe_with_now [safe_steps]:
  assumes "\<And>t. journal_safe c (f t)"
  shows "journal_safe c (with_now K f)"
  unfolding journal_safe_def
proof
  fix w :: "'a world"
  obtain t s where "k_Now K (wld_Sys w) = (t, s)" by fastforce
  then show "sql.runs c (wld_Journal w) (wld_Journal (snd (with_now K f w)))"
    using spec [OF assms [of t, unfolded journal_safe_def], of "w\<lparr>wld_Sys := s\<rparr>"] by (simp add: with_now_def)
qed

lemma journal_safe_steps [safe_steps]: "(\<And>m. m \<in> set ms \<Longrightarrow> journal_safe c m) \<Longrightarrow> journal_safe c (steps ms)"
  by (induction ms) (auto intro: safe_steps)

lemma journal_safe_blame [safe_steps]: "journal_safe c m \<Longrightarrow> journal_safe c (blame item m)"
proof -
  have "snd (blame item m w) = snd (m w)" for w
    by (cases "m w" rule: outcome_cases) (auto simp: blame_def split: prod.splits)
  then show "journal_safe c m \<Longrightarrow> journal_safe c (blame item m)" by (simp add: journal_safe_def)
qed

lemma journal_safe_rescue [safe_steps]:
  assumes "journal_safe c m" "\<And>err. journal_safe c (h err)"
  shows "journal_safe c (rescue m h)"
  unfolding journal_safe_def
proof
  fix w :: "'a world"
  have m: "sql.runs c (wld_Journal w) (wld_Journal (snd (m w)))" using assms(1) by (simp add: journal_safe_def)
  show "sql.runs c (wld_Journal w) (wld_Journal (snd (rescue m h w)))"
    using m assms(2) by (cases "m w" rule: outcome_cases)
      (auto simp: rescue_def journal_safe_def intro: runs_trans split: prod.splits fault.splits)
qed

lemma journal_safe_record [safe_steps]: "c = eng_Codec e \<Longrightarrow> journal_safe c (record_state K e item ex)"
  unfolding record_state_def by (intro safe_steps)

lemma journal_safe_investigate [safe_steps]: "c = eng_Codec e \<Longrightarrow> journal_safe c (investigate K e item reason)"
  unfolding investigate_def Let_def by (intro safe_steps)

lemma journal_safe_finishMove [safe_steps]: "c = eng_Codec e \<Longrightarrow> journal_safe c (finishMove K e item)"
  unfolding finishMove_def by (intro safe_steps)

lemma journal_safe_Quarantine: "c = eng_Codec e \<Longrightarrow> journal_safe c (Quarantine K e item)"
  unfolding Quarantine_def Let_def by (intro safe_steps) (auto intro: safe_steps)

lemma journal_safe_Reconcile [safe_steps]: "c = eng_Codec e \<Longrightarrow> journal_safe c (Reconcile K e item)"
  unfolding Reconcile_def retry_investigated_def Let_def by (intro safe_steps)

lemma journal_safe_restore_item: "c = eng_Codec e \<Longrightarrow> journal_safe c (restore_item K e item)"
  unfolding restore_item_def restore_prepared_def restore_move_def restore_recorded_def
  by (intro safe_steps) (auto intro: safe_steps)

text \<open>An operation that continues with its first step's outcome.\<close>

lemma journal_safe_then:
  fixes m :: "('s, 'a) operation" and k :: "cleanup_item \<times> fault + 'a \<Rightarrow> ('s, 'b) operation"
  assumes "journal_safe c m" "\<And>r. journal_safe c (k r)"
  shows "journal_safe c (\<lambda>w. k (fst (m w)) (snd (m w)))"
  using assms runs_trans unfolding journal_safe_def by blast

lemma journal_safe_Restore: "c = eng_Codec e \<Longrightarrow> journal_safe c (Restore K e item)"
proof -
  assume c: "c = eng_Codec e"
  have "Restore K e item = (\<lambda>w. (\<lambda>r. case r of
        Inr item' \<Rightarrow> restore_item K e item'
      | Inl x \<Rightarrow> (if snd x \<noteq> StillRunning \<and> cln_State (fst x) = CleanupInvestigate then restore_item K e (fst x)
          else fail x)) (fst (Reconcile K e item w)) (snd (Reconcile K e item w)))"
    by (simp add: fun_eq_iff Restore_def fail_def split: prod.splits sum.splits)
  moreover have "journal_safe c (fail x)" for x :: "cleanup_item \<times> fault"
    by (simp add: journal_safe_def fail_def sql.runs.stay)
  ultimately show ?thesis
    using journal_safe_restore_item [OF c]
    by (simp only:) (rule journal_safe_then [OF journal_safe_Reconcile [OF c]],
      auto intro: safe_steps split: sum.splits)
qed

lemma journal_safe_Delete: "c = eng_Codec e \<Longrightarrow> journal_safe c (Delete K e item)"
proof -
  assume c: "c = eng_Codec e"
  have d: "journal_safe c (delete_object K e item)" unfolding delete_object_def by (intro safe_steps c)
  have "journal_safe c (\<lambda>w. case Eligible K e item w of
       (Inr _, w') \<Rightarrow> delete_object K e item w'
     | (Inl (_, StillRunning), w') \<Rightarrow> (Inl (item, StillRunning), w')
     | (Inl (_, Fault err), w') \<Rightarrow> investigate K e item err w')" (is "journal_safe c ?m")
  proof -
    have "?m = (\<lambda>w. (\<lambda>r. case r of
        Inr _ \<Rightarrow> delete_object K e item
      | Inl x \<Rightarrow> (case snd x of StillRunning \<Rightarrow> fail (item, StillRunning) | Fault err \<Rightarrow> investigate K e item err))
        (fst (Eligible K e item w)) (snd (Eligible K e item w)))"
      by (simp add: fun_eq_iff fail_def split: prod.splits sum.splits fault.splits)
    moreover have "journal_safe c (fail x)" for x :: "cleanup_item \<times> fault"
      by (simp add: journal_safe_def fail_def sql.runs.stay)
    ultimately show ?thesis
      using d by (simp only:) (rule journal_safe_then [OF journal_safe_pure(5)],
        auto intro: safe_steps c split: sum.splits fault.splits)
  qed
  then show ?thesis
    unfolding Delete_def using c
    by (auto intro!: safe_steps split: absent_outcome.splits)
qed

section \<open>Where the object is\<close>

lemma hoare_inspect_value:
  "(\<And>r. hoare (\<lambda>w. P w \<and> q (wld_Sys w) = r) (f r) Q E) \<Longrightarrow> hoare P (inspect q f) Q E"
  unfolding hoare_def inspect_def by blast

lemma hoare_cond: "(b \<Longrightarrow> hoare P f Q E) \<Longrightarrow> (\<not> b \<Longrightarrow> hoare P g Q E) \<Longrightarrow> hoare P (if b then f else g) Q E"
  by simp

text \<open>The object of a receipt is at a name, or the name is free.\<close>

definition holds_object :: "(string \<Rightarrow> (filesystem_id \<times> 'k) option) \<Rightarrow> string \<Rightarrow> cleanup_item \<Rightarrow> bool" where
  "holds_object t p item \<longleftrightarrow> (\<exists>k. t p = Some (ent_FilesystemID (cln_Entry item), k))"

text \<open>What the returned state of a reconciled receipt says of the names.\<close>

definition truthful :: "cleanup_item \<Rightarrow> cleanup_state \<Rightarrow> (string \<Rightarrow> (filesystem_id \<times> 'k) option) \<Rightarrow> bool" where
  "truthful item st t \<longleftrightarrow> (case st of
     CleanupPrepared \<Rightarrow> holds_object t (cln_Source item) item \<and> t (cln_Destination item) = None
   | CleanupQuarantined \<Rightarrow> holds_object t (cln_Destination item) item
   | CleanupRestored \<Rightarrow> holds_object t (cln_Source item) item \<and> t (cln_Destination item) = None
   | _ \<Rightarrow> False)"

context file_kernel
begin

lemma present_object: "present (k_Lstat K p s) (ent_FilesystemID (cln_Entry item)) \<Longrightarrow> holds_object (tree s) p item"
  using lstat_object by (auto simp: present_def identityMatches_def holds_object_def split: stat_result.splits)

lemma hoare_keep:
  assumes "touches names {} m" "\<And>w. P (names w) \<Longrightarrow> True"
  shows "hoare (\<lambda>w. P (names w)) m (\<lambda>_ w. P (names w)) (\<lambda>_. True)"
  by (rule hoare_touches [OF assms(1)]) simp

lemma record_result:
  "hoare (\<lambda>w. P (names w)) (record_state K e item ex) (\<lambda>x w. x = item \<and> P (names w)) (\<lambda>_. True)"
  unfolding record_state_def by (rule hoare_andthen [OF hoare_keep [OF touches_update]]) (simp_all add: hoare_ok)

lemma finishMove_result:
  "hoare (\<lambda>w. P (names w)) (finishMove K e item) (\<lambda>x w. cln_State x = CleanupQuarantined \<and> P (names w)) (\<lambda>_. True)"
proof (rule hoareI)
  fix w assume p: "P (names w)"
  show "meets (\<lambda>x w. cln_State x = CleanupQuarantined \<and> P (names w)) (\<lambda>_. True) (finishMove K e item w)"
  proof (cases "finishMove K e item w" rule: outcome_cases)
    case (success x w')
    then show ?thesis
      using touches_quiet [OF finishMove_touches success] p
        finishMove_results [of item item K e, unfolded results_def, THEN spec, of w] by simp
  qed simp
qed

lemma Reconcile_truthful:
  assumes "cln_State item = CleanupPrepared \<or> cln_State item = CleanupQuarantined"
  shows "hoare (\<lambda>_. True) (Reconcile K e item) (\<lambda>x w. truthful item (cln_State x) (names w)) (\<lambda>_. True)"
proof (rule hoareI)
  fix w :: "'s world"
  let ?Q = "\<lambda>x w. truthful item (cln_State x) (names w)"
  define src where "src = k_Lstat K (cln_Source item) (wld_Sys w)"
  define dst where "dst = k_Lstat K (cln_Destination item) (wld_Sys w)"
  let ?i = "ent_FilesystemID (cln_Entry item)"
  have here: "present src ?i \<Longrightarrow> holds_object (names w) (cln_Source item) item"
    "present dst ?i \<Longrightarrow> holds_object (names w) (cln_Destination item) item"
    "dst = StatAbsent \<Longrightarrow> names w (cln_Destination item) = None"
    using present_object lstat_absent by (auto simp: src_def dst_def)
  have inv: "meets Q (\<lambda>_. True) (investigate K e item reason w)" for Q reason
  proof (cases "investigate K e item reason w" rule: outcome_cases)
    case (success x w')
    then show ?thesis
      by (auto simp: investigate_def Let_def with_now_def refuse_def elim!: andthen_InrE split: prod.splits)
  qed simp
  have notinv: "\<not> (cln_State item = CleanupInvestigate \<and> c)" for c using assms by auto
  have run: "Reconcile K e item w =
     (if cln_State item = CleanupPrepared then
           if present src ?i \<and> dst = StatAbsent then ok item
           else if src = StatAbsent \<and> present dst ?i then
             rescue (finishMove K e item) (\<lambda>err.
               investigate K e item (''post-move observation failed: '' @ err))
           else investigate K e item ''prepared move has conflicting or changed source and destination''
         else if src = StatAbsent \<and> present dst ?i then ok item
         else if present dst ?i \<and> (case src of StatObject _ \<Rightarrow> True | _ \<Rightarrow> False) then ok item
         else if present src ?i \<and> dst = StatAbsent then
           andthen (rescue (sys item (verify_linked K item (cln_Source item))) (\<lambda>_.
             andthen (investigate K e item ''restored Git registration is invalid'') (\<lambda>_. ok ()))) (\<lambda>_.
           with_now K (\<lambda>now.
           record_state K e (item\<lparr>cln_State := CleanupRestored, cln_UpdatedAt := now\<rparr>) CleanupQuarantined))
         else investigate K e item ''quarantined move has conflicting or changed source and destination'') w"
    using assms by (auto simp: Reconcile_def inspect_def Let_def src_def dst_def)
  have moved: "meets ?Q (\<lambda>_. True) (rescue (finishMove K e item) (\<lambda>err.
      investigate K e item (''post-move observation failed: '' @ err)) w)" if "present dst ?i"
  proof -
    have "hoare (\<lambda>w. holds_object (names w) (cln_Destination item) item) (finishMove K e item) ?Q (\<lambda>_. True)"
      by (rule hoare_weaken [OF finishMove_result [of "\<lambda>t. holds_object t (cln_Destination item) item"]])
        (simp_all add: truthful_def)
    from hoareD [OF this here(2) [OF that]] show ?thesis
    proof (cases "finishMove K e item w" rule: outcome_cases)
      case (failure er w')
      obtain x err where er: "er = (x, err)" by fastforce
      have "meets Q (\<lambda>_. True) (investigate K e item reason w')" for Q reason
      proof (cases "investigate K e item reason w'" rule: outcome_cases)
        case (success x w')
        then show ?thesis
          by (auto simp: investigate_def Let_def with_now_def refuse_def elim!: andthen_InrE split: prod.splits)
      qed simp
      then show ?thesis using failure er by (cases err) (simp_all add: rescue_def)
    qed (simp add: rescue_def)
  qed
  have returned_back: "meets ?Q (\<lambda>_. True) (andthen (rescue (sys item (verify_linked K item (cln_Source item))) (\<lambda>_.
             andthen (investigate K e item ''restored Git registration is invalid'') (\<lambda>_. ok ()))) (\<lambda>_.
           with_now K (\<lambda>now.
           record_state K e (item\<lparr>cln_State := CleanupRestored, cln_UpdatedAt := now\<rparr>) CleanupQuarantined)) w)"
    if "present src ?i" "dst = StatAbsent"
  proof -
    let ?P = "\<lambda>t. holds_object t (cln_Source item) item \<and> t (cln_Destination item) = None"
    have "hoare (\<lambda>w. ?P (names w)) (andthen (rescue (sys item (verify_linked K item (cln_Source item))) (\<lambda>_.
             andthen (investigate K e item ''restored Git registration is invalid'') (\<lambda>_. ok ()))) (\<lambda>_.
           with_now K (\<lambda>now.
           record_state K e (item\<lparr>cln_State := CleanupRestored, cln_UpdatedAt := now\<rparr>) CleanupQuarantined))) ?Q (\<lambda>_. True)"
    proof (rule hoare_andthen [OF hoare_keep])
      show "touches names {} (rescue (sys item (verify_linked K item (cln_Source item))) (\<lambda>_.
             andthen (investigate K e item ''restored Git registration is invalid'') (\<lambda>_. ok ())))"
        by (intro frame)
      show "hoare (\<lambda>w. ?P (names w)) (with_now K (\<lambda>now.
           record_state K e (item\<lparr>cln_State := CleanupRestored, cln_UpdatedAt := now\<rparr>) CleanupQuarantined)) ?Q (\<lambda>_. True)"
        by (rule hoare_with_now, rule hoare_weaken [OF record_result [of ?P]]) (simp_all add: truthful_def)
    qed simp
    from hoareD [OF this] show ?thesis using here that by simp
  qed
  show "meets ?Q (\<lambda>_. True) (Reconcile K e item w)"
    unfolding run using assms here inv moved returned_back
    by (auto simp: ok_def truthful_def split: if_splits)
qed

end

end
