(* ===== verification/ActionGuards.thy ===== *)
theory ActionGuards
  imports ActionTruth RevalidateFacts
begin

text \<open>
  What must have been established before the engine moves, restores or deletes an object, and what a
  returned receipt says of the names.
\<close>

section \<open>Restoring\<close>

text \<open>The object is back at its source.\<close>

definition back_home :: "cleanup_item \<Rightarrow> (string \<Rightarrow> (filesystem_id \<times> 'k) option) \<Rightarrow> bool" where
  "back_home item t \<longleftrightarrow> holds_object t (cln_Source item) item \<and> t (cln_Destination item) = None"

lemma back_home_same: "same_receipt item x \<Longrightarrow> back_home x t = back_home item t"
  by (simp add: same_receipt_def back_home_def holds_object_def)

text \<open>Which states a reconciliation can return.\<close>

lemma Reconcile_states:
  "results (\<lambda>_. True) (\<lambda>y. cln_State y = cln_State item
      \<or> cln_State item = CleanupPrepared \<and> cln_State y = CleanupQuarantined
      \<or> cln_State item = CleanupQuarantined \<and> cln_State y = CleanupRestored
      \<or> cln_State item = CleanupInvestigate \<and> cln_State y = CleanupQuarantined) (Reconcile K e item)"
  (is "results _ ?Q _")
proof -
  have inv: "results (\<lambda>_. True) Q (investigate K e item reason)" for Q reason
    unfolding investigate_def Let_def by (intro returned) simp_all
  have fin: "results (\<lambda>_. True) (\<lambda>y. cln_State y = CleanupQuarantined) (finishMove K e item)"
    by (rule results_mono [OF finishMove_results [of item item K e]]) simp_all
  consider "cln_State item = CleanupPrepared" | "cln_State item = CleanupQuarantined"
    | "cln_State item = CleanupInvestigate" | "cln_State item \<notin> {CleanupPrepared, CleanupQuarantined, CleanupInvestigate}"
    by auto
  then show ?thesis
  proof cases
    case 1
    then show ?thesis
      by (auto simp: Reconcile_def Let_def intro!: returned inv results_mono [OF fin])
  next
    case 2
    then show ?thesis
      by (auto simp: Reconcile_def Let_def intro!: returned inv results_any)
  next
    case 3
    then show ?thesis
      by (auto simp: Reconcile_def Let_def retry_investigated_def intro!: returned results_any)
  next
    case 4
    then show ?thesis by (auto simp: Reconcile_def intro!: returned)
  qed
qed

context file_kernel
begin

lemma hoare_andthen_quiet:
  assumes "touches names {} m" "\<And>a. hoare (\<lambda>w. P (names w)) (f a) Q (\<lambda>_. True)"
  shows "hoare (\<lambda>w. P (names w)) (andthen m f) Q (\<lambda>_. True)"
  by (rule hoare_andthen [OF hoare_keep [OF assms(1)]]) (simp_all add: assms(2))

lemma restore_recorded_result:
  "hoare (\<lambda>w. P (names w)) (restore_recorded K e item)
     (\<lambda>y w. cln_State y = CleanupRestored \<and> P (names w)) (\<lambda>_. True)"
  unfolding restore_recorded_def
  by (rule hoare_with_now, rule hoare_weaken [OF record_result [of P]]) simp_all

lemma move_object_result:
  assumes "isAbsClean from" "isAbsClean to"
  shows "hoare (\<lambda>w. \<exists>k. names w from = Some (i, k)) (sys item (move_object K item from to i))
     (\<lambda>_ w. (\<exists>k. names w to = Some (i, k)) \<and> names w from = None) (\<lambda>_. True)"
proof (rule hoareI)
  fix w assume w: "\<exists>k. names w from = Some (i, k)"
  show "meets (\<lambda>_ w. (\<exists>k. names w to = Some (i, k)) \<and> names w from = None) (\<lambda>_. True)
      (sys item (move_object K item from to i) w)"
    by (rule meets_mono [OF hoareD [OF hoare_sys [OF move_object_outcome [OF assms, of "names w"]] refl]])
      (use w in \<open>auto simp: moved_def\<close>)
qed

lemma absent_names: "absent K p s = Inr () \<Longrightarrow> tree s p = None"
  using lstat_absent by (auto simp: absent_def split: stat_result.splits)

lemma hoare_absent:
  assumes "\<And>t. P t \<Longrightarrow> t p = None \<Longrightarrow> R t"
  shows "hoare (\<lambda>w. P (names w)) (sys item (wrap msg (ask (absent K p)))) (\<lambda>_ w. R (names w)) (\<lambda>_. True)"
proof (rule hoareI)
  fix w assume w: "P (names w)"
  show "meets (\<lambda>_ w. R (names w)) (\<lambda>_. True) (sys item (wrap msg (ask (absent K p))) w)"
    using assms [OF w] absent_names [of p "wld_Sys w"]
    by (cases "absent K p (wld_Sys w)") (simp_all add: sys_def sys_fault_def faulty_def wrap_def ask_def)
qed

lemma restore_move_result:
  assumes "isAbsClean (cln_Source item)" "isAbsClean (cln_Destination item)"
  shows "hoare (\<lambda>_. True) (restore_move K e item) (\<lambda>y w. cln_State y = CleanupRestored \<and> back_home item (names w)) (\<lambda>_. True)"
proof -
  let ?s = "cln_Source item" and ?d = "cln_Destination item" and ?i = "ent_FilesystemID (cln_Entry item)"
  let ?at = "\<lambda>t. \<exists>k. t ?d = Some (?i, k)" and ?Q = "\<lambda>y w. cln_State y = CleanupRestored \<and> back_home item (names w)"
  have inv: "hoare P (investigate K e item reason) Q (\<lambda>_. True)" for P Q reason
    by (intro hoareI) (auto simp: meets_def investigate_def Let_def with_now_def refuse_def elim!: andthen_InrE
      split: prod.splits sum.splits)
  have tail: "hoare (\<lambda>w. ?at (names w)) (andthen (steps
       [sys item (verify_linked K item ?d), sys item (move_object K item ?d ?s ?i), sys item (syncDir K (Dir ?s))])
       (\<lambda>_. restore_recorded K e item)) ?Q (\<lambda>_. True)"
  proof (rule hoare_andthen)
    show "hoare (\<lambda>w. ?at (names w)) (steps [sys item (verify_linked K item ?d), sys item (move_object K item ?d ?s ?i),
        sys item (syncDir K (Dir ?s))]) (\<lambda>_ w. back_home item (names w)) (\<lambda>_. True)"
    proof (intro hoare_steps_Cons hoare_steps_Nil)
      show "hoare (\<lambda>w. ?at (names w)) (sys item (verify_linked K item ?d)) (\<lambda>_ w. ?at (names w)) (\<lambda>_. True)"
        by (rule hoare_keep) (auto intro: frame)
      show "hoare (\<lambda>w. ?at (names w)) (sys item (move_object K item ?d ?s ?i)) (\<lambda>_ w. back_home item (names w)) (\<lambda>_. True)"
        by (rule hoare_weaken [OF move_object_result [OF assms(2,1)]]) (auto simp: back_home_def holds_object_def)
      show "hoare (\<lambda>w. back_home item (names w)) (sys item (syncDir K (Dir ?s))) (\<lambda>_ w. back_home item (names w)) (\<lambda>_. True)"
        by (rule hoare_keep) (auto simp: syncDir_def intro!: frame intro: quiet)
    qed
  qed (rule restore_recorded_result)
  show ?thesis
    unfolding restore_move_def
  proof (rule hoare_andthen [OF hoare_absent [where P = "\<lambda>_. True" and R = "\<lambda>_. True"]], simp,
      rule hoare_andthen_quiet [where P = "\<lambda>_. True"], intro frame, rule hoare_inspect_value)
    fix dst
    show "hoare (\<lambda>w. True \<and> k_Lstat K ?d (wld_Sys w) = dst) (if \<not> present dst ?i then
       if cln_State item = CleanupInvestigate
       then refuse item ''investigated object disappeared or changed identity''
       else investigate K e item ''quarantined object disappeared or changed identity''
     else andthen (steps
       [sys item (verify_linked K item ?d), sys item (move_object K item ?d ?s ?i),
        sys item (syncDir K (Dir ?s))]) (\<lambda>_. restore_recorded K e item)) ?Q (\<lambda>_. True)"
      by (intro hoare_cond hoare_refuse inv hoare_pre [OF tail])
        (use present_object [of ?d] in \<open>auto simp: holds_object_def\<close>)
  qed
qed

lemma restore_item_result:
  assumes "isAbsClean (cln_Source item)" "isAbsClean (cln_Destination item)" "cln_State item \<noteq> CleanupRestored"
  shows "hoare (\<lambda>_. True) (restore_item K e item)
    (\<lambda>y w. cln_State y = CleanupRestored \<and> back_home item (names w)) (\<lambda>_. True)"
proof -
  let ?s = "cln_Source item" and ?d = "cln_Destination item" and ?i = "ent_FilesystemID (cln_Entry item)"
  let ?Q = "\<lambda>y w. cln_State y = CleanupRestored \<and> back_home item (names w)"
  have prepared: "hoare (\<lambda>_. True) (restore_prepared K e item) ?Q (\<lambda>_. True)"
    unfolding restore_prepared_def
  proof (rule hoare_inspect_value)
    fix src
    have "hoare (\<lambda>w. holds_object (names w) ?s item) (andthen (sys item (wrap ''prepared destination is occupied: ''
       (ask (absent K ?d)))) (\<lambda>_. restore_recorded K e item)) ?Q (\<lambda>_. True)"
      by (rule hoare_andthen [OF hoare_absent [where R = "back_home item"]])
        (auto simp: back_home_def intro: restore_recorded_result)
    then show "hoare (\<lambda>w. True \<and> k_Lstat K ?s (wld_Sys w) = src)
       (if \<not> present src ?i then refuse item ''prepared source changed''
        else andthen (sys item (wrap ''prepared destination is occupied: '' (ask (absent K ?d))))
          (\<lambda>_. restore_recorded K e item)) ?Q (\<lambda>_. True)"
      by (intro hoare_cond hoare_refuse, auto elim!: hoare_pre dest: present_object)
  qed
  have home: "hoare (\<lambda>w. back_home item (names w)) (andthen (sys item (verify_linked K item ?s))
      (\<lambda>_. restore_recorded K e item)) ?Q (\<lambda>_. True)"
    by (rule hoare_andthen_quiet) (auto intro: frame restore_recorded_result)
  have investigated: "hoare (\<lambda>_. True) (inspect (\<lambda>s. (k_Lstat K ?s s, k_Lstat K ?d s)) (\<lambda>(src, dst).
        if present src ?i \<and> dst = StatAbsent then
          andthen (sys item (verify_linked K item ?s)) (\<lambda>_. restore_recorded K e item)
        else restore_move K e item)) ?Q (\<lambda>_. True)"
  proof (rule hoare_inspect_value, rule hoareI)
    fix r and w :: "'s world"
    assume r: "True \<and> (k_Lstat K ?s (wld_Sys w), k_Lstat K ?d (wld_Sys w)) = r"
    obtain src dst where sd: "r = (src, dst)" by fastforce
    have "present src ?i \<and> dst = StatAbsent \<Longrightarrow> back_home item (names w)"
      using r sd present_object [of ?s "wld_Sys w" item] lstat_absent [of ?d "wld_Sys w"]
      by (auto simp: back_home_def)
    then show "meets ?Q (\<lambda>_. True) ((case r of (src, dst) \<Rightarrow>
        if present src ?i \<and> dst = StatAbsent then
          andthen (sys item (verify_linked K item ?s)) (\<lambda>_. restore_recorded K e item)
        else restore_move K e item) w)"
      using hoareD [OF home, of w] hoareD [OF restore_move_result [OF assms(1,2), of e], of w] sd by simp
  qed
  show ?thesis
    unfolding restore_item_def
    by (intro hoare_cond prepared investigated hoare_refuse restore_move_result assms(1,2)) (simp_all add: assms(3))
qed

lemma Restore_truthful:
  assumes "isAbsClean (cln_Source item)" "isAbsClean (cln_Destination item)" "cln_State item \<noteq> CleanupRestored"
  shows "hoare (\<lambda>_. True) (Restore K e item) (\<lambda>y w. cln_State y = CleanupRestored \<and> back_home item (names w)) (\<lambda>_. True)"
proof (rule hoareI)
  fix w :: "'s world"
  let ?Q = "\<lambda>y w. cln_State y = CleanupRestored \<and> back_home item (names w)"
  have step: "meets ?Q (\<lambda>_. True) (restore_item K e x w')" if "same_receipt item x" "cln_State x \<noteq> CleanupRestored" for x w'
    using hoareD [OF restore_item_result [of x e], of w'] assms that
    by (simp add: back_home_same [OF that(1)]) (simp add: same_receipt_def)
  show "meets ?Q (\<lambda>_. True) (Restore K e item w)"
  proof (cases "Reconcile K e item w" rule: outcome_cases)
    case (success x w')
    have st: "cln_State item = CleanupQuarantined" if "cln_State x = CleanupRestored"
      using Reconcile_states [of item K e, unfolded results_def, THEN spec, of w] success that assms(3) by auto
    have "back_home item (names w')" if "cln_State x = CleanupRestored"
      using hoareD [OF Reconcile_truthful [of item e], of w] success st [OF that] that
      by (simp add: truthful_def back_home_def)
    then show ?thesis
      using step [of x w'] Reconcile_item [OF success] success
      by (cases "cln_State x = CleanupRestored") (simp_all add: Restore_def restore_item_def ok_def)
  next
    case (failure er w')
    then show ?thesis
      using step [of "fst er" w'] Reconcile_item [OF failure]
      by (cases er) (simp add: Restore_def)
  qed
qed

end

section \<open>Eligibility\<close>

text \<open>
  What the deletion of a receipt rests on: its retention has expired, nothing refers to its source in a
  collection without gaps, and the object observed is the one of the post-move snapshot, safe to mutate both
  where it is and under the original path.
\<close>

definition observed_anew :: "engine \<Rightarrow> cleanup_item \<Rightarrow> entry \<Rightarrow> entry \<Rightarrow> bool" where
  "observed_anew e item snapshot observed \<longleftrightarrow>
     ent_FilesystemID observed = ent_FilesystemID snapshot
   \<and> ent_Path observed = ent_Path snapshot
   \<and> SnapshotFingerprint (snapshot\<lparr>ent_Root := ent_Root (cln_Entry item)\<rparr>)
       = Some (Fingerprint (observed\<lparr>ent_Root := ent_Root (cln_Entry item)\<rparr>))
   \<and> (\<exists>now. safe_to_mutate \<lparr>in_Entry = observed\<lparr>ent_Root := ent_Root (cln_Entry item)\<rparr>,
        in_Policy = receipt_policy (eng_Policy e), in_Jobs = [], in_Target = None, in_Now = now\<rparr>)
   \<and> (\<exists>now. safe_to_mutate (original_input e item observed now))"

definition unreferenced :: "('s, 'd) kernel \<Rightarrow> engine \<Rightarrow> cleanup_item \<Rightarrow> 's \<Rightarrow> bool" where
  "unreferenced K e item s \<longleftrightarrow> (\<exists>res. observeAround K e (cln_Source item) False s = Inr res
     \<and> EvidenceGap (res_Reports res) (eng_AgentSources e) = None
     \<and> list_all (\<lambda>r. \<not> refers_to (cln_Source item) r) (res_References res))"

definition retained_long_enough :: "cleanup_item \<Rightarrow> bool" where
  "retained_long_enough item \<longleftrightarrow>
     (\<exists>moved now. cln_MovedAt item = Some moved \<and> Expired (act_Retention (cln_Action item)) moved now)"

lemma originalReferences_Inr: "originalReferences K e (cln_Source item) s = Inr () \<Longrightarrow> unreferenced K e item s"
  by (auto simp: originalReferences_def unreferenced_def Let_def observeAround_def filter_empty_conv list_all_iff
      split: sum.splits option.splits if_splits)

lemma Revalidate_receipt:
  assumes "Allows (Revalidate clock (receipt_revalidation e item (snapshot\<lparr>ent_Root := ent_Root (cln_Entry item)\<rparr>) now h fresh))
      ActionDeleteCandidate"
    "fresh = Inr observed" "Allows (Evaluate now2 (original_input e item observed now2)) ActionDeleteCandidate"
  shows "observed_anew e item snapshot observed \<and> (fsid_Zero (hnd_ID h) \<or> hnd_ID h = ent_FilesystemID snapshot)"
proof -
  let ?r = "receipt_revalidation e item (snapshot\<lparr>ent_Root := ent_Root (cln_Entry item)\<rparr>) now h fresh"
  let ?f = "observed\<lparr>ent_Root := ent_Root (cln_Entry item)\<rparr>"
  have "\<not> Refused (Revalidate clock ?r)" using assms(1) by (simp add: Allows_def)
  then have s: "safe_to_mutate (fresh_input clock ?r ?f)" and u: "unchanged_since_plan ?r ?f"
    unfolding Revalidate_refused_iff using assms(2) by (auto simp: receipt_revalidation_def)
  have "safe_to_mutate (original_input e item observed now2)"
    using assms(3) by (simp add: Allows_def Evaluate_refused_iff)
  moreover have "safe_to_mutate \<lparr>in_Entry = ?f, in_Policy = receipt_policy (eng_Policy e), in_Jobs = [],
      in_Target = None, in_Now = in_Now (fresh_input clock ?r ?f)\<rparr>"
    using s by (simp add: fresh_input_def receipt_revalidation_def)
  moreover have "ent_FilesystemID observed = ent_FilesystemID snapshot \<and> ent_Path observed = ent_Path snapshot
      \<and> SnapshotFingerprint (snapshot\<lparr>ent_Root := ent_Root (cln_Entry item)\<rparr>) = Some (Fingerprint ?f)
      \<and> (fsid_Zero (hnd_ID h) \<or> hnd_ID h = ent_FilesystemID snapshot)"
    using u by (auto simp: unchanged_since_plan_def receipt_revalidation_def handle_agrees_def)
  ultimately show ?thesis unfolding observed_anew_def by metis
qed

lemma sys_success: "sys item m w = (Inr a, w') \<Longrightarrow> m (wld_Sys w) = (Inr a, wld_Sys w')"
  by (auto simp: sys_def sys_fault_def faulty_def split: prod.splits sum.splits)

lemma with_now_success:
  assumes "with_now K f w = r"
  obtains t s where "k_Now K (wld_Sys w) = (t, s)" "f t (w\<lparr>wld_Sys := s\<rparr>) = r"
  using assms by (auto simp: with_now_def split: prod.splits)

lemma refuse_not_success [simp]: "refuse item msg w = (Inr a, w') \<longleftrightarrow> False"
  by (simp add: refuse_def)

context file_kernel
begin

lemma sys_ask_success:
  assumes "sys item (ask q) w = (Inr a, w')"
  shows "q (wld_Sys w) = Inr a \<and> names w' = names w"
  using sys_success [OF assms] by simp

lemma Eligible_establishes:
  assumes "Eligible K e item w = (Inr (), w')"
  shows "cln_State item = CleanupQuarantined \<and> retained_long_enough item
    \<and> (\<exists>s. tree s = names w \<and> unreferenced K e item s)
    \<and> (\<exists>snapshot observed i k. cln_Quarantined item = Some snapshot \<and> observed_anew e item snapshot observed
        \<and> names w (cln_Destination item) = Some (i, k) \<and> (fsid_Zero i \<or> i = ent_FilesystemID snapshot))"
proof -
  have st: "cln_State item = CleanupQuarantined"
    using assms by (auto simp: Eligible_def split: if_splits)
  obtain moved where mv: "cln_MovedAt item = Some moved"
    using assms st by (auto simp: Eligible_def split: option.splits)
  obtain now s where n: "k_Now K (wld_Sys w) = (now, s)" by fastforce
  let ?w = "w\<lparr>wld_Sys := s\<rparr>"
  have q: "names ?w = names w" using touches_quiet [OF quiet(1) n] by simp
  have x: "Expired (act_Retention (cln_Action item)) moved now"
    using assms st mv n by (auto simp: Eligible_def with_now_def [of K _ w] split: if_splits)
  obtain snapshot where sn: "cln_Quarantined item = Some snapshot"
    using assms st mv n x by (auto simp: Eligible_def with_now_def [of K _ w] split: option.splits)
  let ?planned = "snapshot\<lparr>ent_Root := ent_Root (cln_Entry item)\<rparr>"
  let ?tail = "\<lambda>h fresh now1. with_now K (\<lambda>now2.
      case fresh of
        Inl err \<Rightarrow> refuse item (''deletion safety refused: '' @ err)
      | Inr observed \<Rightarrow>
          let original = Evaluate now2 (original_input e item observed now2)
          in if \<not> Allows original ActionDeleteCandidate
             then refuse item (''original source safety refused: '' @ Verdict_Summary original)
             else sys_fault item (wrap_fault ''deletion footprint is unproven: ''
               (verifyDeletionTree (eng_Fuel e) K (cln_Destination item) (ent_FilesystemID ?planned))))"
  let ?body = "\<lambda>h now1. inspect (recollectReceipt K e (cln_Destination item) (cln_Source item)) (\<lambda>fresh.
      let verdict = Revalidate now1 (receipt_revalidation e item ?planned now1 h fresh)
      in if \<not> Allows verdict ActionDeleteCandidate
         then refuse item (''deletion safety refused: '' @ Verdict_Summary verdict) else ?tail h fresh now1)"
  have "andthen (sys item (ask (originalReferences K e (cln_Source item)))) (\<lambda>_.
      andthen (sys item (ask (k_OpenHandle K (cln_Destination item)))) (\<lambda>h.
      with_now K (?body h))) ?w = (Inr (), w')"
    using assms st mv n x sn by (simp add: Eligible_def Let_def [of ?planned] with_now_def [of K _ w])
  then obtain w1 h w2 where
    refs: "sys item (ask (originalReferences K e (cln_Source item))) ?w = (Inr (), w1)"
    and hnd: "sys item (ask (k_OpenHandle K (cln_Destination item))) w1 = (Inr h, w2)"
    and rest: "with_now K (?body h) w2 = (Inr (), w')"
    by (elim andthen_InrE) auto
  from rest obtain now1 s1 where "?body h now1 (w2\<lparr>wld_Sys := s1\<rparr>) = (Inr (), w')"
    by (rule with_now_success) blast
  then obtain fresh w3 where
    rev: "Allows (Revalidate now1 (receipt_revalidation e item ?planned now1 h fresh)) ActionDeleteCandidate"
    and tl: "?tail h fresh now1 w3 = (Inr (), w')"
    by (auto simp: inspect_def Let_def split: if_splits)
  from tl obtain now2 where orig: "case fresh of Inl err \<Rightarrow> False
      | Inr observed \<Rightarrow> Allows (Evaluate now2 (original_input e item observed now2)) ActionDeleteCandidate"
    by (rule with_now_success) (auto simp: Let_def split: if_splits sum.splits)
  obtain observed where ob: "fresh = Inr observed"
    "Allows (Evaluate now2 (original_input e item observed now2)) ActionDeleteCandidate"
    using orig by (cases fresh) auto
  have u: "unreferenced K e item s"
    by (rule originalReferences_Inr) (use sys_ask_success [OF refs] in simp)
  obtain k where "names w (cln_Destination item) = Some (hnd_ID h, k)"
    using handle_object sys_ask_success [OF hnd] sys_ask_success [OF refs] q by metis
  moreover note Revalidate_receipt [OF rev ob]
  ultimately show ?thesis using st mv x sn u q unfolding retained_long_enough_def by (fastforce)
qed

end

section \<open>Deleting\<close>

context file_kernel
begin

lemma deleteAnchored_gone:
  assumes "deleteAnchored n K p i s = (Inr x, s')" "isAbsClean p"
  shows "tree s' p = None"
proof -
  obtain d s1 where a: "anchored K p i 0 s = Inr d" and r: "removeAt n K d (Base p) (fs_Device i) s = (Inr (), s1)"
    and f: "faulty (effect (k_Fsync K d)) s1 = (Inr x, s')"
    using assms(1) unfolding deleteAnchored_def deleteAnchoredAt_def by (elim andthen_InrE) auto
  have "tree s1 p = None"
    using removeAt_gone [OF r] anchored_at [OF a assms(2)] Join_parent [OF assms(2)] by simp
  moreover have t: "touches tree {} (faulty (effect (k_Fsync K d)))" by (intro frame)
  ultimately show ?thesis using touches_quiet [OF t f] by simp
qed

lemma delete_object_result:
  assumes "isAbsClean (cln_Destination item)"
  shows "hoare (\<lambda>_. True) (delete_object K e item)
    (\<lambda>y w. cln_State y = CleanupDeleted \<and> names w (cln_Destination item) = None) (\<lambda>_. True)"
  unfolding delete_object_def
proof (rule hoare_andthen [where R = "\<lambda>_ _. True"], simp add: hoare_def meets_def split: prod.splits sum.splits,
    rule hoare_andthen [where R = "\<lambda>_ w. names w (cln_Destination item) = None"])
  show "hoare (\<lambda>_. True) (sys_fault item (deleteAnchored (eng_Fuel e) K (cln_Destination item)
      (ent_FilesystemID (cln_Entry item)))) (\<lambda>_ w. names w (cln_Destination item) = None) (\<lambda>_. True)"
    using deleteAnchored_gone [OF _ assms]
    by (auto simp: hoare_def meets_def sys_fault_def split: prod.splits sum.splits)
  show "hoare (\<lambda>w. names w (cln_Destination item) = None) (with_now K (\<lambda>now.
      record_state K e (item\<lparr>cln_State := CleanupDeleted, cln_UpdatedAt := now\<rparr>) CleanupQuarantined))
      (\<lambda>y w. cln_State y = CleanupDeleted \<and> names w (cln_Destination item) = None) (\<lambda>_. True)"
    by (rule hoare_with_now, rule hoare_weaken [OF record_result [of "\<lambda>t. t (cln_Destination item) = None"]]) simp_all
qed

lemma Delete_truthful:
  assumes "isAbsClean (cln_Destination item)"
  shows "hoare (\<lambda>_. True) (Delete K e item) (\<lambda>y w. names w (cln_Destination item) = None
     \<and> (cln_State y = CleanupDeleted \<or> cln_State y = CleanupRestored \<and> back_home item (names w))) (\<lambda>_. True)"
    (is "hoare _ _ ?Q _")
proof (cases "cln_State item = CleanupQuarantined \<and> cln_MovedAt item \<noteq> None")
  case False
  then show ?thesis by (auto simp: Delete_def refuse_def hoare_fail_iff)
next
  case True
  let ?d = "cln_Destination item"
  have inv: "meets ?Q (\<lambda>_. True) (investigate K e item reason w)" for reason w
    by (auto simp: meets_def investigate_def Let_def with_now_def refuse_def elim!: andthen_InrE
      split: prod.splits sum.splits)
  have deleted: "hoare (\<lambda>w. names w ?d = None) (with_now K (\<lambda>now'. record_state K e
      (item\<lparr>cln_State := CleanupDeleted, cln_UpdatedAt := now', cln_Reason := deleted_reason\<rparr>) CleanupQuarantined))
      ?Q (\<lambda>_. True)"
    by (rule hoare_with_now, rule hoare_weaken [OF record_result [of "\<lambda>t. t ?d = None"]]) simp_all
  have restored: "hoare (\<lambda>w. names w ?d = None) (Reconcile K e item) ?Q (\<lambda>_. True)"
  proof (rule hoareI)
    fix w assume n: "names w ?d = None"
    show "meets ?Q (\<lambda>_. True) (Reconcile K e item w)"
    proof (cases "Reconcile K e item w" rule: outcome_cases)
      case (success x w')
      have "names w' = names w" using touches_quiet [OF Reconcile_touches success] by simp
      then show ?thesis
        using success n True hoareD [OF Reconcile_truthful [of item e], of w]
          Reconcile_states [of item K e, unfolded results_def, THEN spec, of w]
        by (auto simp: truthful_def back_home_def holds_object_def)
    qed simp
  qed
  have eligible: "hoare (\<lambda>_. True) (\<lambda>w. case Eligible K e item w of
       (Inr _, w') \<Rightarrow> delete_object K e item w'
     | (Inl (_, StillRunning), w') \<Rightarrow> (Inl (item, StillRunning), w')
     | (Inl (_, Fault err), w') \<Rightarrow> investigate K e item err w') ?Q (\<lambda>_. True)"
  proof (rule hoareI)
    fix w :: "'s world"
    show "meets ?Q (\<lambda>_. True) (case Eligible K e item w of
       (Inr _, w') \<Rightarrow> delete_object K e item w'
     | (Inl (_, StillRunning), w') \<Rightarrow> (Inl (item, StillRunning), w')
     | (Inl (_, Fault err), w') \<Rightarrow> investigate K e item err w')"
      using hoareD [OF hoare_weaken [OF delete_object_result [OF assms, of e],
          where P' = "\<lambda>_. True" and Q' = ?Q and E' = "\<lambda>_. True"]] inv
      by (cases "Eligible K e item w" rule: outcome_cases) (auto split: fault.splits)
  qed
  have "hoare (\<lambda>_. True) (inspect (settleAbsent K item) (\<lambda>out. case out of
        absentDeleted \<Rightarrow> with_now K (\<lambda>now'.
          record_state K e (item\<lparr>cln_State := CleanupDeleted, cln_UpdatedAt := now',
            cln_Reason := deleted_reason\<rparr>) CleanupQuarantined)
      | absentRestored \<Rightarrow> Reconcile K e item
      | absentUnproven \<Rightarrow> (\<lambda>w.
          (case Eligible K e item w of
             (Inr _, w') \<Rightarrow> delete_object K e item w'
           | (Inl (_, StillRunning), w') \<Rightarrow> (Inl (item, StillRunning), w')
           | (Inl (_, Fault err), w') \<Rightarrow> investigate K e item err w')))) ?Q (\<lambda>_. True)"
  proof (rule hoare_inspect_value)
    fix out
    have "settleAbsent K item s \<noteq> absentUnproven \<Longrightarrow> tree s ?d = None" for s
      using lstat_absent [of ?d s] by (auto simp: settleAbsent_def split: stat_result.splits)
    then show "hoare (\<lambda>w. True \<and> settleAbsent K item (wld_Sys w) = out) (case out of
        absentDeleted \<Rightarrow> with_now K (\<lambda>now'.
          record_state K e (item\<lparr>cln_State := CleanupDeleted, cln_UpdatedAt := now',
            cln_Reason := deleted_reason\<rparr>) CleanupQuarantined)
      | absentRestored \<Rightarrow> Reconcile K e item
      | absentUnproven \<Rightarrow> (\<lambda>w.
          (case Eligible K e item w of
             (Inr _, w') \<Rightarrow> delete_object K e item w'
           | (Inl (_, StillRunning), w') \<Rightarrow> (Inl (item, StillRunning), w')
           | (Inl (_, Fault err), w') \<Rightarrow> investigate K e item err w'))) ?Q (\<lambda>_. True)"
      by (cases out) (auto intro: hoare_pre [OF deleted] hoare_pre [OF restored] hoare_pre [OF eligible])
  qed
  then show ?thesis
    unfolding Delete_def using True
    by (auto intro!: hoare_with_now [where P = "\<lambda>_. True"] hoare_cond hoare_refuse)
qed

end

section \<open>Quarantining\<close>

text \<open>What the last check before a move has established: the source is the open object, and a
  revalidation against it allowed the action.\<close>

definition move_allowed :: "('s, 'd) kernel \<Rightarrow> engine \<Rightarrow> cleanup_item \<Rightarrow> filesystem_id \<Rightarrow> bool" where
  "move_allowed K e item i \<longleftrightarrow> (\<exists>h now s. hnd_ID h = i
     \<and> Allows (Revalidate now (quarantine_revalidation K e item h now s)) (act_Kind (cln_Action item)))"

context file_kernel
begin

lemma Quarantine_only_allowed:
  fixes e :: engine and item :: cleanup_item
  assumes "isAbsClean (cln_Source item)" "isAbsClean (cln_Destination item)"
  defines "A \<equiv> \<lambda>T w. agree (cln_Destination item) T (names w)"
    and "C \<equiv> \<lambda>T. cln_State item = CleanupPrepared \<and> (\<exists>T1 i k. agree (cln_Destination item) T T1
        \<and> T1 (cln_Source item) = Some (i, k) \<and> move_allowed K e item i)"
  shows "hoare (\<lambda>w. names w = T) (Quarantine K e item) (\<lambda>_ w. C T) (\<lambda>w. A T w \<or> C T)"
proof (cases "cln_State item = CleanupPrepared")
  case False
  then show ?thesis by (simp add: Quarantine_def refuse_def hoare_fail_iff A_def agree_def)
next
  case True
  let ?d = "cln_Destination item" and ?s = "cln_Source item"
  let ?E = "\<lambda>w. A T w \<or> C T"
  have A: "hoare (\<lambda>w. agree ?d T (names w)) m (\<lambda>_ w. agree ?d T (names w)) ?E"
    if "touches names {} m" for m :: "('s, 'x) operation"
    by (rule hoare_touches [OF that]) (simp add: A_def)
  have start: "hoare (\<lambda>w. names w = T) (sys item (ensureManifest K (eng_Marshal e) item)) (\<lambda>_ w. agree ?d T (names w)) ?E"
  proof (rule hoareI)
    fix w assume w: "names w = T"
    have t: "touches names (beside (Dir ?d)) (sys item (ensureManifest K (eng_Marshal e) item))"
      by (rule touches_sys [OF ensureManifest_touches [OF assms(2)]])
    show "meets (\<lambda>_ w. agree ?d T (names w)) ?E (sys item (ensureManifest K (eng_Marshal e) item) w)"
      using touchesD [OF t, of w] w
      by (cases "sys item (ensureManifest K (eng_Marshal e) item) w" rule: outcome_cases) (auto simp: A_def agree_def)
  qed
  let ?H = "\<lambda>h t. agree ?d T t \<and> (\<exists>k. t ?s = Some (hnd_ID h, k))"
  have opened: "hoare (\<lambda>w. agree ?d T (names w)) (sys item (ask (k_OpenHandle K ?s))) (\<lambda>h w. ?H h (names w)) ?E"
  proof (rule hoareI)
    fix w assume w: "agree ?d T (names w)"
    show "meets (\<lambda>h w. ?H h (names w)) ?E (sys item (ask (k_OpenHandle K ?s)) w)"
      using w handle_object [of ?s "wld_Sys w"]
      by (cases "k_OpenHandle K ?s (wld_Sys w)") (simp_all add: sys_def sys_fault_def faulty_def ask_def A_def)
  qed
  have checked: "hoare (\<lambda>w. ?H h (names w)) (with_now K (\<lambda>now. inspect (quarantine_revalidation K e item h now) (\<lambda>input.
      let verdict = Revalidate now input
      in if \<not> Allows verdict (act_Kind (cln_Action item))
         then refuse item (''revalidation refused '' @ ?s @ '': '' @ Verdict_Summary verdict)
         else f))) (\<lambda>_ w. C T) ?E" for h f
  proof (rule hoare_with_now, rule hoare_inspect_value)
    fix now r
    show "hoare (\<lambda>w. ?H h (names w) \<and> quarantine_revalidation K e item h now (wld_Sys w) = r)
      (let verdict = Revalidate now r
      in if \<not> Allows verdict (act_Kind (cln_Action item))
         then refuse item (''revalidation refused '' @ ?s @ '': '' @ Verdict_Summary verdict)
         else f) (\<lambda>_ w. C T) ?E"
    proof (rule hoareI)
      fix w assume w: "?H h (names w) \<and> quarantine_revalidation K e item h now (wld_Sys w) = r"
      show "meets (\<lambda>_ w. C T) ?E ((let verdict = Revalidate now r
      in if \<not> Allows verdict (act_Kind (cln_Action item))
         then refuse item (''revalidation refused '' @ ?s @ '': '' @ Verdict_Summary verdict)
         else f) w)"
      proof (cases "Allows (Revalidate now r) (act_Kind (cln_Action item))")
        case al: True
        have "move_allowed K e item (hnd_ID h)" using al w unfolding move_allowed_def by blast
        then have "C T" using w True unfolding C_def by blast
        then show ?thesis using al by (cases "f w" rule: outcome_cases) (simp_all add: Let_def)
      next
        case False
        then show ?thesis using w by (simp add: Let_def refuse_def fail_def A_def)
      qed
    qed
  qed
  show ?thesis
    unfolding Quarantine_def using True
    by (simp only: not_True_eq_False if_False simp_thms)
      (intro hoare_andthen [OF start] hoare_andthen [OF A [OF ask_quiet]] hoare_andthen [OF opened] checked)
qed

end

end
