(* ===== verification/ActionProps.thy ===== *)
theory ActionProps
  imports ActionGuards StoreCleanupProps
begin

text \<open>
  The properties of the action engine, for every system that satisfies the laws of \<open>file_kernel\<close> and every
  outcome of a run: a call that fails at any step is an outcome like the others.
\<close>

section \<open>Operations on a world\<close>

text \<open>The names a system shows, as the abstraction \<open>tree\<close> reads them.\<close>

abbreviation shown :: "('s \<Rightarrow> string \<Rightarrow> 'o) \<Rightarrow> 's world \<Rightarrow> string \<Rightarrow> 'o" where
  "shown tree w \<equiv> tree (wld_Sys w)"

datatype engine_call =
  CallPrepare cleanup_item | CallQuarantine cleanup_item | CallReconcile cleanup_item | CallRestore cleanup_item
| CallDelete cleanup_item | CallPreview cleanup_item

definition run_call :: "('s, 'd) kernel \<Rightarrow> engine \<Rightarrow> 's world \<Rightarrow> engine_call \<Rightarrow> 's world" where
  "run_call K e w call =
     (case call of
        CallPrepare item \<Rightarrow> snd (Prepare K e item w)
      | CallQuarantine item \<Rightarrow> snd (Quarantine K e item w)
      | CallReconcile item \<Rightarrow> snd (Reconcile K e item w)
      | CallRestore item \<Rightarrow> snd (Restore K e item w)
      | CallDelete item \<Rightarrow> snd (Delete K e item w)
      | CallPreview item \<Rightarrow> snd (ExpiryPreview K e item w))"

definition run_session :: "('s, 'd) kernel \<Rightarrow> engine \<Rightarrow> 's world \<Rightarrow> engine_call list \<Rightarrow> 's world" where
  "run_session K e w calls = foldl (run_call K e) w calls"

lemma journal_safe_insert [safe_steps]:
  assumes "c = eng_Codec e"
  shows "journal_safe c (journal_write K e item (InsertCleanup c item))"
  unfolding journal_safe_def
proof
  fix w :: "'a world"
  obtain r j where t: "write_tx (eng_ReadOnly e) (k_Begin K (wld_Sys w)) (k_Commit K (wld_Sys w))
      (InsertCleanup c item) (wld_Journal w) = (r, j)"
    by fastforce
  have "sql.runs c (wld_Journal w) j"
  proof (cases r)
    case (Some err)
    then show ?thesis using write_tx_Some [OF t [unfolded Some]] by (simp add: sql.runs.stay)
  next
    case None
    have "InsertCleanup c item (wld_Journal w) = Inr j" by (rule write_tx_None [OF t [unfolded None]])
    then show ?thesis by (intro sql.runs.go [OF sql.runs.stay]) (auto simp: sql.one_step_def)
  qed
  then show "sql.runs c (wld_Journal w) (wld_Journal (snd (journal_write K e item (InsertCleanup c item) w)))"
    using t by (cases r) (simp_all add: journal_write_def)
qed

lemma journal_safe_Prepare: "c = eng_Codec e \<Longrightarrow> journal_safe c (Prepare K e item)"
  unfolding Prepare_def Let_def by (auto intro!: safe_steps)

lemma journal_safe_ExpiryPreview: "journal_safe c (ExpiryPreview K e item)"
  unfolding ExpiryPreview_def by (intro safe_steps)

lemma journal_safe_runs: "journal_safe c m \<Longrightarrow> sql.runs c (wld_Journal w) (wld_Journal (snd (m w)))"
  by (simp add: journal_safe_def)

lemma run_call_runs: "sql.runs (eng_Codec e) (wld_Journal w) (wld_Journal (run_call K e w call))"
  by (cases call) (simp_all add: run_call_def journal_safe_runs [OF journal_safe_Prepare]
    journal_safe_runs [OF journal_safe_Quarantine] journal_safe_runs [OF journal_safe_Reconcile]
    journal_safe_runs [OF journal_safe_Restore] journal_safe_runs [OF journal_safe_Delete]
    journal_safe_runs [OF journal_safe_ExpiryPreview])

lemma run_session_runs: "sql.runs (eng_Codec e) (wld_Journal w) (wld_Journal (run_session K e w calls))"
proof (induction calls rule: rev_induct)
  case Nil
  then show ?case by (simp add: run_session_def sql.runs.stay)
next
  case (snoc call calls)
  then show ?case using run_call_runs runs_trans by (fastforce simp: run_session_def)
qed

text \<open>Restoring and deleting return their receipt.\<close>

lemma restore_item_results: "same_receipt x item \<Longrightarrow> results (same_receipt x) (\<lambda>_. True) (restore_item K e item)"
  unfolding restore_item_def restore_prepared_def restore_move_def restore_recorded_def
  by (intro returned investigate_results results_any) (auto intro!: returned investigate_results results_any)

lemma Restore_results: "results (same_receipt item) (\<lambda>_. True) (Restore K e item)"
  unfolding results_def
proof
  fix w
  show "case fst (Restore K e item w) of Inl x \<Rightarrow> same_receipt item (fst x) | Inr _ \<Rightarrow> True"
  proof (cases "Reconcile K e item w" rule: outcome_cases)
    case (success x w')
    then show ?thesis
      using Reconcile_item [OF success] restore_item_results [of item x K e, unfolded results_def]
      by (simp add: Restore_def)
  next
    case (failure er w')
    then show ?thesis
      using Reconcile_item [OF failure] restore_item_results [of item "fst er" K e, unfolded results_def]
      by (cases er) (simp add: Restore_def)
  qed
qed

lemma Delete_results: "results (same_receipt item) (\<lambda>_. True) (Delete K e item)"
proof -
  have d: "results (same_receipt item) (\<lambda>_. True) (delete_object K e item)"
    unfolding delete_object_def by (intro returned results_any) simp_all
  have "results (same_receipt item) (\<lambda>_. True) (\<lambda>w. case Eligible K e item w of
       (Inr _, w') \<Rightarrow> delete_object K e item w'
     | (Inl (_, StillRunning), w') \<Rightarrow> (Inl (item, StillRunning), w')
     | (Inl (_, Fault err), w') \<Rightarrow> investigate K e item err w')" (is "results _ _ ?m")
    unfolding results_def
  proof
    fix w
    show "case fst (?m w) of Inl x \<Rightarrow> same_receipt item (fst x) | Inr _ \<Rightarrow> True"
      using d investigate_results [of item item "\<lambda>_. True" K e]
      by (cases "Eligible K e item w" rule: outcome_cases) (auto simp: results_def split: fault.splits)
  qed
  then show ?thesis
    unfolding Delete_def
    by (auto intro!: returned results_mono [OF Reconcile_results [of item item]] split: absent_outcome.splits)
qed

section \<open>Quarantining\<close>

lemma moved_beside_apart:
  assumes "moved_beside dst T src dst t" "src \<notin> beside (Dir dst)" "dst \<notin> beside (Dir dst)"
  shows "T dst = None \<and> T src \<noteq> None \<and> t dst = T src \<and> t src = None
    \<and> (\<forall>p. p \<notin> beside (Dir dst) \<longrightarrow> \<not> PathWithin p src \<longrightarrow> \<not> PathWithin p dst \<longrightarrow> t p = T p)"
  using assms by (auto simp: moved_beside_def moved_def agree_def)

lemma receipt_apart:
  assumes "isAbsClean base" "isAbsClean src" "\<not> PathWithin src base"
  shows "Dir (Join [base, ''item'']) = base" "isAbsClean (Join [base, ''item''])"
    "src \<notin> beside base" "Join [base, ''item''] \<notin> beside base"
proof -
  have g: "good_seg ''item''" by (simp add: good_seg_def)
  note c = Join_child_canonical [OF assms(1) g]
  show "isAbsClean (Join [base, ''item''])" by (rule c(1))
  show "Dir (Join [base, ''item'']) = base"
    using Dir_facts(2) [OF c(1)] Dir_facts(1) [OF c(1)] c(2) canonical_eq [OF assms(1)] canonical_eq
    by (metis butlast_snoc)
  show "src \<notin> beside base" using beside_within assms by blast
  show "Join [base, ''item''] \<notin> beside base" by (rule item_not_beside [OF assms(1)])
qed

text \<open>C5: Moving an object into quarantine is atomic and never overwrites: whatever the run's outcome, either
  the object is still at its source and the destination is as it was, or the destination was free, holds
  the object, and the source is free; nothing else changes outside the receipt's own files, and success
  means that it moved.\<close>

theorem Quarantine_atomic:
  assumes "file_kernel K loc tree" "Quarantine K e item w = (r, w')"
    and "isAbsClean (cln_Source item)" "isAbsClean base" "cln_Destination item = Join [base, ''item'']"
      "\<not> PathWithin (cln_Source item) base"
  shows "(if shown tree w' (cln_Source item) = shown tree w (cln_Source item) \<and> (\<exists>x. r = Inl x)
          then shown tree w' (cln_Destination item) = shown tree w (cln_Destination item)
          else shown tree w (cln_Destination item) = None \<and> shown tree w' (cln_Source item) = None
            \<and> shown tree w (cln_Source item) \<noteq> None
            \<and> shown tree w' (cln_Destination item) = shown tree w (cln_Source item))
    \<and> (\<forall>p. p \<notin> beside base \<longrightarrow> \<not> PathWithin p (cln_Source item) \<longrightarrow> \<not> PathWithin p (cln_Destination item)
          \<longrightarrow> shown tree w' p = shown tree w p)"
proof -
  note r = receipt_apart [OF assms(4,3,6)]
  have d: "Dir (cln_Destination item) = base" "isAbsClean (cln_Destination item)" using r assms(5) by simp_all
  have out: "agree (cln_Destination item) (shown tree w) (shown tree w') \<and> (\<exists>x. r = Inl x)
      \<or> moved_beside (cln_Destination item) (shown tree w) (cln_Source item) (cln_Destination item) (shown tree w')"
    using hoareD [OF file_kernel.Quarantine_outcome [OF assms(1,3) d(2), of "shown tree w" e], of w] assms(2)
    by (cases r) auto
  show ?thesis
    using out moved_beside_apart [of "cln_Destination item" "shown tree w" "cln_Source item" "shown tree w'"]
      r(3,4) d(1) assms(5) by (auto simp: agree_def)
qed



section \<open>Restoring\<close>

text \<open>C6: Restoring never overwrites and tells the truth: whatever the outcome, either no name changed or the
  object moved from the quarantine to its source, where there was none; and a run that succeeds for an
  item not yet restored leaves the recorded object at the source and the quarantine free.\<close>

theorem Restore_no_overwrite:
  assumes "file_kernel K loc tree" "Restore K e item w = (r, w')"
    and "isAbsClean (cln_Source item)" "isAbsClean (cln_Destination item)" "cln_State item \<noteq> CleanupRestored"
  shows "(shown tree w' = shown tree w
      \<or> moved (shown tree w) (cln_Destination item) (cln_Source item) (shown tree w'))
    \<and> (case r of Inl _ \<Rightarrow> True
       | Inr y \<Rightarrow> cln_State y = CleanupRestored \<and> back_home item (shown tree w'))"
  using hoareD [OF file_kernel.Restore_outcome [OF assms(1,3,4), of "shown tree w" e], of w]
    hoareD [OF file_kernel.Restore_truthful [OF assms(1,3,4,5), of e], of w] assms(2)
  by (cases r) auto

section \<open>Deleting\<close>


text \<open>C10: Deletion is confined and truthful: no run of Delete changes a name other than those at or below the
  destination and the deletion marker beside it, and a run that succeeds leaves the destination free and
  reports the item deleted, or restored with the recorded object at its source.\<close>

theorem Delete_confined:
  assumes "file_kernel K loc tree" "Delete K e item w = (r, w')"
    and "isAbsClean (cln_Destination item)" "cln_Destination item \<noteq> ''/''"
  shows "(\<forall>p. p \<notin> delete_names item \<longrightarrow> shown tree w' p = shown tree w p)
    \<and> (case r of Inl _ \<Rightarrow> True
       | Inr y \<Rightarrow> shown tree w' (cln_Destination item) = None
          \<and> (cln_State y = CleanupDeleted \<or> cln_State y = CleanupRestored \<and> back_home item (shown tree w')))"
proof -
  have "p \<notin> delete_names item \<Longrightarrow> shown tree w' p = shown tree w p" for p
    using touchesD [OF file_kernel.Delete_touches [OF assms(1,3,4), of e] assms(2)] by simp
  moreover have "meets (\<lambda>y w. shown tree w (cln_Destination item) = None \<and> (cln_State y = CleanupDeleted
      \<or> cln_State y = CleanupRestored \<and> back_home item (shown tree w))) (\<lambda>_. True) (r, w')"
    using hoareD [OF file_kernel.Delete_truthful [OF assms(1,3), of e], of w] assms(2) by simp
  ultimately show ?thesis by (cases r) simp_all
qed

section \<open>Recovering\<close>

text \<open>C11: A reconciled receipt tells where its object is: when reconciling a prepared or quarantined item
  succeeds, its new state is prepared only with the recorded object at the source and the quarantine
  free, quarantined only with the object in quarantine, and restored only with the object at the source
  and the quarantine free.\<close>

theorem Reconcile_tells_where:
  assumes "file_kernel K loc tree" "Reconcile K e item w = (Inr y, w')"
    and "cln_State item = CleanupPrepared \<or> cln_State item = CleanupQuarantined"
  shows "truthful item (cln_State y) (shown tree w')"
  using hoareD [OF file_kernel.Reconcile_truthful [OF assms(1,3), of e], of w] assms(2) by simp


section \<open>The journal\<close>


text \<open>C13: A session of the engine, whatever its calls and whichever of them fail, keeps the journal
  consistent, never drops a receipt, and never changes the state of a deleted or restored one.\<close>

theorem session_keeps_journal:
  assumes "journal_ok (wld_Journal w)"
  shows "journal_ok (wld_Journal (run_session K e w calls))
    \<and> dom (journal_state (wld_Journal w)) \<subseteq> dom (journal_state (wld_Journal (run_session K e w calls)))
    \<and> (\<forall>k s. journal_state (wld_Journal w) k = Some s \<longrightarrow> s \<in> {CleanupDeleted, CleanupRestored}
        \<longrightarrow> journal_state (wld_Journal (run_session K e w calls)) k = Some s)"
  using sql.runs_inv [OF run_session_runs assms] sql.recorded_stays [OF run_session_runs assms]
    sql.terminal_stays [OF run_session_runs assms] by blast

text \<open>C22: An error names its receipt: whatever an operation fails with, the item returned beside the error
  has the identifiers, the paths, the entry and the action of the item it was called with.\<close>

theorem errors_name_receipt:
  assumes "op \<in> {Quarantine K e item, Reconcile K e item, Restore K e item, Delete K e item}"
    and "op w = (Inl (y, err), w')"
  shows "same_receipt item y"
proof -
  have r: "results (same_receipt item) (\<lambda>_. True) op" if "op \<in> {Quarantine K e item, Reconcile K e item}" for op
    using that
    by (auto intro: results_mono [OF Quarantine_results] results_mono [OF Reconcile_results [of item item]])
  consider "op \<in> {Quarantine K e item, Reconcile K e item}" | "op = Restore K e item" | "op = Delete K e item"
    using assms(1) by blast
  then show ?thesis
  proof cases
    case 1
    from r [OF this, unfolded results_def, THEN spec, of w] assms(2) show ?thesis by simp
  next
    case 2
    then show ?thesis using Restore_results assms(2) unfolding results_def by (metis fst_conv sum.case(1))
  next
    case 3
    then show ?thesis using Delete_results assms(2) unfolding results_def by (metis fst_conv sum.case(1))
  qed
qed

end
