(* ===== verification/ActionSample.thy ===== *)
theory ActionSample
  imports ActionProps
begin

text \<open>
  Runs of the engine on the file system of \<open>ActionFlat\<close>, evaluated step by step: a move whose receipt could
  not be recorded, a restore, a reconciliation that ends in investigation, and a deletion.  The properties
  of \<open>ActionProps\<close> are applied to them.
\<close>

section \<open>A concrete system\<close>

definition sample_fs :: flat where
  "sample_fs =
     \<lparr>fl_Tree = map_of
        [(''/'', (\<lparr>fs_Device = 8, fs_Inode = 2\<rparr>, KindDirectory)),
         (''/w'', (\<lparr>fs_Device = 8, fs_Inode = 40\<rparr>, KindDirectory)),
         (''/w/a'', (\<lparr>fs_Device = 8, fs_Inode = 42\<rparr>, KindDirectory)),
         (''/w/a/f'', (\<lparr>fs_Device = 8, fs_Inode = 43\<rparr>, KindRegular)),
         (''/q'', (\<lparr>fs_Device = 8, fs_Inode = 50\<rparr>, KindDirectory)),
         (''/q/c1'', (\<lparr>fs_Device = 8, fs_Inode = 51\<rparr>, KindDirectory)),
         (''/q/c1/a1'', (\<lparr>fs_Device = 8, fs_Inode = 52\<rparr>, KindDirectory)),
         (''/q/c1/a1/manifest.json'', (\<lparr>fs_Device = 8, fs_Inode = 53\<rparr>, KindRegular))],
      fl_Body = (\<lambda>p. if p = ''/q/c1/a1/manifest.json'' then ''m'' else ''''),
      fl_Names = [''/'', ''/w'', ''/w/a'', ''/w/a/f'', ''/q'', ''/q/c1'', ''/q/c1/a1'', ''/q/c1/a1/manifest.json''],
      fl_Listed = [], fl_Next = 100, fl_Clock = 10, fl_Entries = [sample_entry], fl_Commits = True\<rparr>"

definition sample_engine :: engine where
  "sample_engine =
     \<lparr>eng_DB = True, eng_ReadOnly = False, eng_QuarantineDir = ''/q'', eng_Policy = sample_policy,
      eng_AgentSources = False, eng_ArchiveCreationPath = '''', eng_WorktreeOrigin = None,
      eng_Codec = sample_codec, eng_Marshal = (\<lambda>_. Some ''m''), eng_Fuel = 20\<rparr>"

abbreviation sample_world :: "journal \<Rightarrow> flat world" where
  "sample_world j \<equiv> \<lparr>wld_Sys = sample_fs, wld_Journal = j\<rparr>"

text \<open>A run of \<open>Quarantine\<close> on it: the object moves, and the fresh collection does not show it yet.\<close>

lemma sample_receipt_names [simp]:
  "Dir ''/q/c1/a1/item'' = ''/q/c1/a1''" "Join [''/q/c1/a1'', ''manifest.json''] = ''/q/c1/a1/manifest.json''"
  "Dir ''/w/a'' = ''/w''" "Join [''/q/c1/a1'', ''item''] = ''/q/c1/a1/item''" by code_simp+

lemma sample_item [simp]:
  "cln_State sample_cleanup = CleanupPrepared" "cln_Source sample_cleanup = ''/w/a''"
  "cln_Destination sample_cleanup = ''/q/c1/a1/item''" "cln_Entry sample_cleanup = sample_entry"
  "act_Kind (cln_Action sample_cleanup) = ActionQuarantine" "linked_owner sample_cleanup = None"
  by (simp_all add: sample_cleanup_def linked_owner_def sample_entry_def)

abbreviation sample_moved :: flat where
  "sample_moved \<equiv> snd (renameNoReplace flat_kernel ''/w/a'' ''/q/c1/a1/item'' \<lparr>fs_Device = 8, fs_Inode = 42\<rparr>
     (sample_fs\<lparr>fl_Clock := 11\<rparr>))"

lemma sample_manifest: "ensureManifest flat_kernel (eng_Marshal sample_engine) sample_cleanup sample_fs = (Inr (), sample_fs)"
proof -
  have "flat_read ''/q/c1/a1/manifest.json'' sample_fs = ReadFile \<lparr>fi_ID = \<lparr>fs_Device = 8, fs_Inode = 53\<rparr>,
      fi_Kind = KindRegular, fi_Size = 1, fi_Mode = 448, fi_Ctime = 1, fi_Atime = 1, fi_Mtime = 1\<rparr> ''m''"
    by (simp add: flat_read_def sample_fs_def flat_info_def)
  then show ?thesis
    by (simp add: ensureManifest_def sample_engine_def maxManifestBytes_def matchesManifest_def reading_def Let_def
        flat_kernel_def ok_def)
qed

lemma sample_rename:
  "fst (renameNoReplace flat_kernel ''/w/a'' ''/q/c1/a1/item'' \<lparr>fs_Device = 8, fs_Inode = 42\<rparr>
     (sample_fs\<lparr>fl_Clock := 11\<rparr>)) = Inr ()"
  "fl_Tree sample_moved ''/w/a'' = None"
  "fl_Tree sample_moved ''/q/c1/a1/item'' = Some (\<lparr>fs_Device = 8, fs_Inode = 42\<rparr>, KindDirectory)"
  "fl_Entries sample_moved = [sample_entry]"
  by code_simp+

lemma sample_same_fs: "sameFilesystem flat_kernel ''/w/a'' ''/q/c1/a1'' sample_fs = Inr ()"
  by code_simp

lemma sample_target:
  "ResolveTarget (stat_answer_of flat_kernel (sample_fs\<lparr>fl_Clock := 11\<rparr>))
     (k_Statfs flat_kernel (sample_fs\<lparr>fl_Clock := 11\<rparr>)) ''/q/c1/a1'' =
   Some \<lparr>tgt_Dir = ''/q/c1/a1'', tgt_Device = 8, tgt_FreeBytes = 4096000000, tgt_Known = True, tgt_Detail = ''''\<rparr>"
  by code_simp

abbreviation sample_handle :: handle where
  "sample_handle \<equiv> \<lparr>hnd_Path = ''/w/a'', hnd_ID = \<lparr>fs_Device = 8, fs_Inode = 42\<rparr>, hnd_Linked = Inr True\<rparr>"

lemma sample_open: "k_OpenHandle flat_kernel ''/w/a'' sample_fs = Inr sample_handle"
  by (simp add: flat_kernel_def sample_fs_def)

lemma sample_recollect: "recollectWithSize flat_kernel sample_engine ''/w/a'' deep (sample_fs\<lparr>fl_Clock := 11\<rparr>) = Inr sample_entry"
  by (simp add: recollectWithSize_def observeAround_def flat_kernel_def sample_engine_def sample_fs_def sample_entry_def)

lemma sample_allowed:
  "Allows (Revalidate 10 (quarantine_revalidation flat_kernel sample_engine sample_cleanup sample_handle 10
     (sample_fs\<lparr>fl_Clock := 11\<rparr>))) ActionQuarantine"
  (is "Allows (Revalidate 10 ?r) _")
proof -
  have p: "ent_Path sample_entry = ''/w/a''" "ent_FilesystemID sample_entry = \<lparr>fs_Device = 8, fs_Inode = 42\<rparr>"
    by (simp_all add: sample_entry_def)
  have r: "rev_Recollect ?r = Some (recollector_of flat_kernel sample_engine (ent_SizeIsDeep sample_entry) (sample_fs\<lparr>fl_Clock := 11\<rparr>))"
    "ent_Path (rev_Planned ?r) = ''/w/a''"
    by (simp_all add: quarantine_revalidation_def p)
  have "location_free sample_policy ''/w/a''" "name_free sample_policy ''/w/a''" by code_simp+
  then have s: "safe_to_mutate (fresh_input 10 ?r sample_entry)"
    by (simp add: safe_to_mutate_def Let_def fresh_input_def quarantine_revalidation_def symlink_contained_def
        unowned_def fsid_Zero_def p sample_target destination_fits_def) (simp add: sample_entry_def sample_engine_def)
  have "unchanged_since_plan ?r sample_entry"
    using sample_unchanged
    by (simp add: unchanged_since_plan_def quarantine_revalidation_def handle_agrees_def p sample_revalidation_def)
      (simp add: sample_cleanup_def)
  then have "\<not> Refused (Revalidate 10 ?r)"
    unfolding Revalidate_refused_iff using r s by (auto simp: recollector_of_def sample_recollect)
  then show ?thesis by (simp add: Allows_def)
qed


lemma flat_sync: "syncDir flat_kernel p s = (Inr (), s)"
  by (simp add: syncDir_def flat_kernel_def effect_def wrap_def)

lemma sample_absent: "absent flat_kernel ''/q/c1/a1/item'' (sample_fs\<lparr>fl_Clock := 11\<rparr>) = Inr ()"
  by (simp add: absent_def flat_kernel_def flat_stat_def sample_fs_def)

lemma sample_finish:
  "finishMove flat_kernel sample_engine sample_cleanup \<lparr>wld_Sys = sample_moved, wld_Journal = j\<rparr> =
     (Inl (sample_cleanup, Fault ''moved object requires investigation: /q/c1/a1/item not found in fresh collection''),
      \<lparr>wld_Sys = sample_moved, wld_Journal = j\<rparr>)"
proof -
  have a: "absent flat_kernel ''/w/a'' sample_moved = Inr ()"
    using sample_rename(2) by (simp add: absent_def flat_kernel_def flat_stat_def)
  have r: "recollectReceipt flat_kernel sample_engine ''/q/c1/a1/item'' ''/w/a'' sample_moved =
      Inl ''/q/c1/a1/item not found in fresh collection''"
    using sample_rename(4) by (simp add: recollectReceipt_def recollectWithSize_def observeAround_def flat_kernel_def sample_entry_def)
  show ?thesis
    by (simp add: finishMove_def andthen_def sys_def sys_fault_def faulty_def wrap_def ask_def a r)
qed

lemma sample_quarantine:
  "Quarantine flat_kernel sample_engine sample_cleanup (sample_world j) =
     (Inl (sample_cleanup, Fault ''moved object requires investigation: /q/c1/a1/item not found in fresh collection''),
      \<lparr>wld_Sys = sample_moved, wld_Journal = j\<rparr>)"
proof -
  have n: "k_Now flat_kernel sample_fs = (10, sample_fs\<lparr>fl_Clock := 11\<rparr>)"
    by (simp add: flat_kernel_def) (simp add: sample_fs_def)
  have m: "move_object flat_kernel sample_cleanup ''/w/a'' ''/q/c1/a1/item'' \<lparr>fs_Device = 8, fs_Inode = 42\<rparr>
      (sample_fs\<lparr>fl_Clock := 11\<rparr>) = (Inr (), sample_moved)"
    using sample_rename(1) by (simp add: move_object_def prod_eq_iff)
  show ?thesis
    by (simp add: Quarantine_def andthen_def sys_def sys_fault_def faulty_def ask_def sample_manifest sample_same_fs
        sample_open with_now_def n inspect_def Let_def sample_allowed sample_absent m flat_sync ok_def sample_finish)
qed

lemma Quarantine_atomic_witness:
  "fl_Tree (wld_Sys (snd (Quarantine flat_kernel sample_engine sample_cleanup (sample_world empty_journal)))) ''/q/c1/a1/item''
     = fl_Tree sample_fs ''/w/a''"
proof -
  have c: "isAbsClean ''/w/a''" "isAbsClean ''/q/c1/a1''" "\<not> PathWithin ''/w/a'' ''/q/c1/a1''" by code_simp+
  have "fl_Tree sample_moved ''/w/a'' \<noteq> fl_Tree sample_fs ''/w/a''"
    using sample_rename(2) by (simp add: sample_fs_def)
  then show ?thesis
    using Quarantine_atomic [OF flat.file_kernel_axioms sample_quarantine [of empty_journal], of "''/q/c1/a1''"] c
    by (simp add: sample_quarantine)
qed


lemma sample_restore:
  "Restore flat_kernel sample_engine sample_cleanup (sample_world sample_journal) =
     (Inr sample_restored, \<lparr>wld_Sys = sample_fs\<lparr>fl_Clock := 11\<rparr>, wld_Journal = sample_final\<rparr>)"
proof -
  have n: "k_Now flat_kernel sample_fs = (10, sample_fs\<lparr>fl_Clock := 11\<rparr>)"
    by (simp add: flat_kernel_def) (simp add: sample_fs_def)
  have p: "present (k_Lstat flat_kernel ''/w/a'' sample_fs) (ent_FilesystemID sample_entry)"
    "k_Lstat flat_kernel ''/q/c1/a1/item'' sample_fs = StatAbsent"
    by (simp_all add: flat_kernel_def flat_stat_def sample_fs_def flat_info_def sample_entry_def present_def identityMatches_def fsid_Zero_def)
  have i: "sample_cleanup\<lparr>cln_State := CleanupRestored, cln_UpdatedAt := 10\<rparr> = sample_restored"
    by (simp add: sample_restored_def sample_cleanup_def)
  have t: "write_tx (eng_ReadOnly sample_engine) (k_Begin flat_kernel (sample_fs\<lparr>fl_Clock := 11\<rparr>))
      (k_Commit flat_kernel (sample_fs\<lparr>fl_Clock := 11\<rparr>)) (UpdateCleanup (eng_Codec sample_engine) sample_restored CleanupPrepared)
      sample_journal = (None, sample_final)"
    using sample_update by (simp add: write_tx_def sample_engine_def flat_kernel_def sample_fs_def)
  show ?thesis
    by (simp add: Restore_def Reconcile_def inspect_def p ok_def restore_item_def restore_prepared_def restore_recorded_def
        andthen_def sys_def sys_fault_def faulty_def wrap_def ask_def absent_def with_now_def n i record_state_def
        update_def journal_write_def t)
qed

lemma Restore_no_overwrite_witness:
  "cln_State sample_restored = CleanupRestored \<and> back_home sample_cleanup (fl_Tree (sample_fs\<lparr>fl_Clock := 11\<rparr>))"
proof -
  have c: "isAbsClean ''/w/a''" "isAbsClean ''/q/c1/a1/item''" by code_simp+
  then show ?thesis
    using Restore_no_overwrite [OF flat.file_kernel_axioms sample_restore] by simp
qed

lemma Reconcile_tells_where_witness:
  "truthful sample_cleanup CleanupPrepared (fl_Tree sample_fs)"
proof -
  have p: "present (k_Lstat flat_kernel ''/w/a'' sample_fs) (ent_FilesystemID sample_entry)"
    "k_Lstat flat_kernel ''/q/c1/a1/item'' sample_fs = StatAbsent"
    by (simp_all add: flat_kernel_def flat_stat_def sample_fs_def flat_info_def sample_entry_def present_def identityMatches_def fsid_Zero_def)
  have "Reconcile flat_kernel sample_engine sample_cleanup (sample_world empty_journal) = (Inr sample_cleanup, sample_world empty_journal)"
    by (simp add: Reconcile_def inspect_def p ok_def)
  from Reconcile_tells_where [OF flat.file_kernel_axioms this] show ?thesis by simp
qed




lemma session_keeps_journal_witness:
  "journal_ok (wld_Journal (run_session flat_kernel sample_engine (sample_world sample_journal)
     [CallRestore sample_cleanup, CallDelete sample_cleanup, CallQuarantine sample_cleanup]))"
  using session_keeps_journal [of "sample_world sample_journal" flat_kernel sample_engine
      "[CallRestore sample_cleanup, CallDelete sample_cleanup, CallQuarantine sample_cleanup]"] sample_journal_ok
  by (simp only: world.simps simp_thms)

text \<open>Reconciling after that run finds the object in quarantine and cannot observe it; the journal refuses.\<close>

definition sample_investigated :: cleanup_item where
  "sample_investigated = sample_cleanup\<lparr>cln_State := CleanupInvestigate, cln_UpdatedAt := 11,
     cln_Reason := ''post-move observation failed: moved object requires investigation: /q/c1/a1/item not found in fresh collection''\<rparr>"

lemma present_absent: "\<not> present StatAbsent i"
  by (simp add: present_def)

lemma sample_reconcile:
  "\<exists>w. Reconcile flat_kernel sample_engine sample_cleanup \<lparr>wld_Sys = sample_moved, wld_Journal = empty_journal\<rparr> =
     (Inl (sample_investigated, Fault ''journal''), w)"
proof -
  have p: "k_Lstat flat_kernel ''/w/a'' sample_moved = StatAbsent"
    "present (k_Lstat flat_kernel ''/q/c1/a1/item'' sample_moved) (ent_FilesystemID sample_entry)"
    using sample_rename(2,3)
    by (simp_all add: flat_kernel_def flat_stat_def flat_info_def sample_entry_def present_def identityMatches_def fsid_Zero_def)
  have n: "k_Now flat_kernel sample_moved = (11, sample_moved\<lparr>fl_Clock := 12\<rparr>)"
  proof -
    have "fl_Clock sample_moved = 11" by code_simp
    then show ?thesis by (simp add: flat_kernel_def)
  qed
  have i: "sample_cleanup\<lparr>cln_State := CleanupInvestigate, cln_UpdatedAt := 11, cln_Reason := ''post-move observation failed: moved object requires investigation: /q/c1/a1/item not found in fresh collection''\<rparr> = sample_investigated"
    by (simp add: sample_investigated_def)
  have "UpdateCleanup (eng_Codec sample_engine) sample_investigated CleanupPrepared empty_journal = Inl r \<Longrightarrow>
    write_tx ro b c (UpdateCleanup (eng_Codec sample_engine) sample_investigated CleanupPrepared) empty_journal \<noteq> (None, j)"
    for r ro b c j by (auto dest: write_tx_None)
  moreover have "\<exists>r. UpdateCleanup (eng_Codec sample_engine) sample_investigated CleanupPrepared empty_journal = Inl r"
    using UpdateCleanup_ok [OF empty_journal_ok, of "eng_Codec sample_engine" sample_investigated CleanupPrepared]
    by (cases "UpdateCleanup (eng_Codec sample_engine) sample_investigated CleanupPrepared empty_journal")
      (auto simp: journal_state_def empty_journal_def)
  ultimately have f: "fst (write_tx ro b c (UpdateCleanup (eng_Codec sample_engine) sample_investigated CleanupPrepared)
      empty_journal) \<noteq> None" for ro b c by (metis prod.collapse)
  then obtain err j where t: "write_tx (eng_ReadOnly sample_engine) (k_Begin flat_kernel (sample_moved\<lparr>fl_Clock := 12\<rparr>))
      (k_Commit flat_kernel (sample_moved\<lparr>fl_Clock := 12\<rparr>))
      (UpdateCleanup (eng_Codec sample_engine) sample_investigated CleanupPrepared) empty_journal = (Some err, j)"
    by (metis not_None_eq prod.collapse)
  show ?thesis
    by (simp add: Reconcile_def inspect_def p present_absent rescue_def sample_finish investigate_def with_now_def n i Let_def
        andthen_def update_def journal_write_def t)
qed

lemma errors_name_receipt_witness: "same_receipt sample_cleanup sample_investigated"
proof -
  obtain w where r: "Reconcile flat_kernel sample_engine sample_cleanup \<lparr>wld_Sys = sample_moved, wld_Journal = empty_journal\<rparr> =
     (Inl (sample_investigated, Fault ''journal''), w)" using sample_reconcile by blast
  have "Reconcile flat_kernel sample_engine sample_cleanup \<in> {Quarantine flat_kernel sample_engine sample_cleanup,
      Reconcile flat_kernel sample_engine sample_cleanup, Restore flat_kernel sample_engine sample_cleanup,
      Delete flat_kernel sample_engine sample_cleanup}" by blast
  from errors_name_receipt [OF this r] show ?thesis .
qed

section \<open>A deletion\<close>

text \<open>The same system with the item in quarantine, and a receipt whose retention has passed.\<close>

definition sample_snapshot :: entry where
  "sample_snapshot = sample_entry\<lparr>ent_Path := ''/q/c1/a1/item'', ent_Root := ''/q/c1/a1''\<rparr>"

definition sample_stored :: flat where
  "sample_stored = sample_fs
     \<lparr>fl_Tree := map_of
        [(''/'', (\<lparr>fs_Device = 8, fs_Inode = 2\<rparr>, KindDirectory)),
         (''/w'', (\<lparr>fs_Device = 8, fs_Inode = 40\<rparr>, KindDirectory)),
         (''/q'', (\<lparr>fs_Device = 8, fs_Inode = 50\<rparr>, KindDirectory)),
         (''/q/c1'', (\<lparr>fs_Device = 8, fs_Inode = 51\<rparr>, KindDirectory)),
         (''/q/c1/a1'', (\<lparr>fs_Device = 8, fs_Inode = 52\<rparr>, KindDirectory)),
         (''/q/c1/a1/item'', (\<lparr>fs_Device = 8, fs_Inode = 42\<rparr>, KindDirectory)),
         (''/q/c1/a1/item/f'', (\<lparr>fs_Device = 8, fs_Inode = 43\<rparr>, KindRegular))],
      fl_Names := [''/'', ''/w'', ''/q'', ''/q/c1'', ''/q/c1/a1'', ''/q/c1/a1/item'', ''/q/c1/a1/item/f''],
      fl_Entries := [sample_snapshot]\<rparr>"

definition sample_expired :: cleanup_item where
  "sample_expired = sample_cleanup\<lparr>cln_State := CleanupQuarantined, cln_MovedAt := Some (- 1000000000000000000),
     cln_Quarantined := Some sample_snapshot\<rparr>"

definition sample_verified :: flat where
  "sample_verified = snd (verifyDeletionTree 20 flat_kernel ''/q/c1/a1/item'' \<lparr>fs_Device = 8, fs_Inode = 42\<rparr>
     (sample_stored\<lparr>fl_Clock := 14\<rparr>))"

definition sample_marked :: flat where
  "sample_marked = snd (writeDeletionMarker flat_kernel sample_expired sample_verified)"

definition sample_deleted :: flat where
  "sample_deleted = snd (deleteAnchored 20 flat_kernel ''/q/c1/a1/item'' \<lparr>fs_Device = 8, fs_Inode = 42\<rparr> sample_marked)"

lemma sample_removal:
  "settleAbsent flat_kernel sample_expired (sample_stored\<lparr>fl_Clock := 11\<rparr>) = absentUnproven"
  "fst (verifyDeletionTree 20 flat_kernel ''/q/c1/a1/item'' \<lparr>fs_Device = 8, fs_Inode = 42\<rparr>
     (sample_stored\<lparr>fl_Clock := 14\<rparr>)) = Inr ()"
  "fst (writeDeletionMarker flat_kernel sample_expired sample_verified) = Inr ()"
  "fst (deleteAnchored 20 flat_kernel ''/q/c1/a1/item'' \<lparr>fs_Device = 8, fs_Inode = 42\<rparr> sample_marked) = Inr ()"
  "fl_Tree sample_deleted ''/q/c1/a1/item'' = None" "fl_Tree sample_deleted ''/q/c1/a1/item/f'' = None"
  by code_simp+

lemma sample_expired_fields [simp]:
  "cln_State sample_expired = CleanupQuarantined" "cln_Source sample_expired = ''/w/a''"
  "cln_Destination sample_expired = ''/q/c1/a1/item''" "cln_Entry sample_expired = sample_entry"
  "cln_MovedAt sample_expired = Some (- 1000000000000000000)" "cln_Quarantined sample_expired = Some sample_snapshot"
  "cln_Action sample_expired = cln_Action sample_cleanup"
  by (simp_all add: sample_expired_def)

lemma sample_overdue: "Expired (act_Retention (cln_Action sample_cleanup)) (- 1000000000000000000) t = True" if "t \<in> {10, 11}"
  using that by (auto simp: sample_cleanup_def Expired_iff nanosecond_hour_def)

lemma sample_eligible:
  "Eligible flat_kernel sample_engine sample_expired \<lparr>wld_Sys = sample_stored\<lparr>fl_Clock := 11\<rparr>, wld_Journal = j\<rparr> =
     (Inr (), \<lparr>wld_Sys = sample_verified, wld_Journal = j\<rparr>)"
proof -
  let ?p = "sample_snapshot\<lparr>ent_Root := ''/w''\<rparr>" and ?h = "\<lparr>hnd_Path = ''/q/c1/a1/item'',
    hnd_ID = \<lparr>fs_Device = 8, fs_Inode = 42\<rparr>, hnd_Linked = Inr True\<rparr>"
  have n: "k_Now flat_kernel (sample_stored\<lparr>fl_Clock := t\<rparr>) = (t, sample_stored\<lparr>fl_Clock := t + 1\<rparr>)" for t
    by (simp add: flat_kernel_def)
  have snap: "ent_Path sample_snapshot = ''/q/c1/a1/item''" "ent_FilesystemID sample_snapshot = \<lparr>fs_Device = 8, fs_Inode = 42\<rparr>"
    "ent_Root sample_entry = ''/w''"
    by (simp_all add: sample_snapshot_def sample_entry_def)
  have refs: "originalReferences flat_kernel sample_engine ''/w/a'' (sample_stored\<lparr>fl_Clock := t\<rparr>) = Inr ()" for t
    by (simp add: originalReferences_def observeAround_def flat_kernel_def)
  have op: "k_OpenHandle flat_kernel ''/q/c1/a1/item'' (sample_stored\<lparr>fl_Clock := t\<rparr>) = Inr ?h" for t
    by (simp add: flat_kernel_def sample_stored_def)
  have again: "recollectReceipt flat_kernel sample_engine ''/q/c1/a1/item'' ''/w/a'' (sample_stored\<lparr>fl_Clock := t\<rparr>) = Inr sample_snapshot" for t
    by (simp add: recollectReceipt_def recollectWithSize_def observeAround_def flat_kernel_def sample_stored_def snap)
  have l: "location_free (receipt_policy sample_policy) ''/q/c1/a1/item''" "name_free (receipt_policy sample_policy) ''/q/c1/a1/item''"
    "location_free sample_policy ''/w/a''" "name_free sample_policy ''/w/a''" by code_simp+
  have pol: "eng_Policy sample_engine = sample_policy" by (simp add: sample_engine_def)
  let ?r = "receipt_revalidation sample_engine sample_expired ?p 12 ?h (Inr sample_snapshot)"
  have s: "safe_to_mutate (fresh_input 12 ?r ?p)"
    using l by (simp add: safe_to_mutate_def Let_def fresh_input_def receipt_revalidation_def symlink_contained_def
        unowned_def fsid_Zero_def snap pol) (simp add: sample_snapshot_def sample_entry_def)
  have u: "unchanged_since_plan ?r ?p"
    by (simp add: unchanged_since_plan_def receipt_revalidation_def handle_agrees_def snap SnapshotFingerprint_def)
      (simp add: sample_snapshot_def sample_entry_def)
  have "\<not> Refused (Revalidate 12 ?r)"
    unfolding Revalidate_refused_iff using s u by (simp add: receipt_revalidation_def snap)
  then have rev: "Allows (Revalidate 12 ?r) ActionDeleteCandidate" by (simp add: Allows_def)
  have "safe_to_mutate (original_input sample_engine sample_expired sample_snapshot 13)"
    using l by (simp add: safe_to_mutate_def Let_def original_input_def symlink_contained_def
        unowned_def fsid_Zero_def snap pol) (simp add: sample_snapshot_def sample_entry_def)
  then have orig: "Allows (Evaluate 13 (original_input sample_engine sample_expired sample_snapshot 13)) ActionDeleteCandidate"
    by (simp add: Allows_def Evaluate_refused_iff)
  have v: "verifyDeletionTree 20 flat_kernel ''/q/c1/a1/item'' \<lparr>fs_Device = 8, fs_Inode = 42\<rparr>
     (sample_stored\<lparr>fl_Clock := 14\<rparr>) = (Inr (), sample_verified)"
    using sample_removal(2) by (simp add: prod_eq_iff sample_verified_def)
  have f: "eng_Fuel sample_engine = 20" by (simp add: sample_engine_def)
  show ?thesis
    by (simp add: Eligible_def with_now_def n sample_overdue andthen_def sys_def sys_fault_def faulty_def ask_def refs op
        inspect_def again Let_def snap rev orig wrap_fault_def v f)
qed

lemma sample_delete:
  "\<exists>r. Delete flat_kernel sample_engine sample_expired \<lparr>wld_Sys = sample_stored, wld_Journal = empty_journal\<rparr> = r
     \<and> fl_Tree (wld_Sys (snd r)) = fl_Tree sample_deleted"
proof -
  have n: "k_Now flat_kernel sample_stored = (10, sample_stored\<lparr>fl_Clock := 11\<rparr>)"
    "k_Now flat_kernel s = (fl_Clock s, s\<lparr>fl_Clock := fl_Clock s + 1\<rparr>)" for s
    by (simp_all add: flat_kernel_def) (simp add: sample_stored_def sample_fs_def)
  have m: "writeDeletionMarker flat_kernel sample_expired sample_verified = (Inr (), sample_marked)"
    using sample_removal(3) by (simp add: prod_eq_iff sample_marked_def)
  have d: "deleteAnchored 20 flat_kernel ''/q/c1/a1/item'' \<lparr>fs_Device = 8, fs_Inode = 42\<rparr> sample_marked = (Inr (), sample_deleted)"
    using sample_removal(4) by (simp add: prod_eq_iff sample_deleted_def)
  have f: "eng_Fuel sample_engine = 20" "ent_FilesystemID sample_entry = \<lparr>fs_Device = 8, fs_Inode = 42\<rparr>"
    by (simp_all add: sample_engine_def sample_entry_def)
  have q: "fl_Tree (wld_Sys (snd (record_state flat_kernel sample_engine x ex w))) = fl_Tree (wld_Sys w)" for x ex w
    using touches_record_state [of fl_Tree "{}" flat_kernel sample_engine x ex] by (simp add: touches_def fun_eq_iff)
  show ?thesis
    by (simp add: Delete_def with_now_def [of _ _ "\<lparr>wld_Sys = sample_stored, wld_Journal = empty_journal\<rparr>"] n(1) has_expired_def sample_overdue
        inspect_def sample_removal(1) sample_eligible delete_object_def andthen_def sys_def sys_fault_def faulty_def wrap_def m f d)
      (simp add: with_now_def n(2) q)
qed


lemma Delete_confined_witness:
  "fl_Tree sample_deleted ''/w'' = fl_Tree sample_stored ''/w''"
proof -
  obtain r w' where r: "Delete flat_kernel sample_engine sample_expired
      \<lparr>wld_Sys = sample_stored, wld_Journal = empty_journal\<rparr> = (r, w')" by fastforce
  have c: "isAbsClean ''/q/c1/a1/item''" "\<not> PathWithin ''/w'' ''/q/c1/a1/item''"
    "''/w'' \<noteq> Join [Dir ''/q/c1/a1/item'', deletionMarkerName]" by code_simp+
  have "''/w'' \<notin> delete_names sample_expired" using c(2,3) by (simp add: delete_names_def)
  then show ?thesis
    using Delete_confined [OF flat.file_kernel_axioms r] c(1) sample_delete r by auto
qed

end
