(* ===== verification/CliPlan.thy ===== *)
theory CliPlan
  imports Config StoreRecordsProps StoreCleanupProps SafetyEngine
begin

text \<open>
  \<open>internal/cli/plan.go\<close>: the approvals an operator gives to a plan and how they are recorded.  The journal and
  the record tables are read and written as the store operations do; the clock and the order in which Go
  walks a map are parameters.
\<close>

section \<open>Selecting\<close>


datatype cli_error =
  UsageError string | RecordFails record_error | JournalFails store_error | CommandFails string





section \<open>Recording\<close>






section \<open>Reporting and policy\<close>

record plan_conflict =
  pcf_Path :: string
  pcf_Chosen :: action_kind
  pcf_Rejected :: "rejected_action list"

definition conflictsOf :: "plan \<Rightarrow> plan_conflict list" where
  "conflictsOf built =
     sort_key pcf_Path (concat (map (\<lambda>a.
       let disagreements = filter rej_Conflict (act_Rejected a)
       in if disagreements = [] then []
          else [\<lparr>pcf_Path = act_Path a, pcf_Chosen = act_Kind a, pcf_Rejected = disagreements\<rparr>]) (plan_Actions built)))"

definition enginePolicy :: "string \<Rightarrow> 'z policy_scheme \<Rightarrow> safety_policy" where
  "enginePolicy stateDir pol =
     \<lparr>spol_ProtectedPaths = pro_Paths (pol_Protect pol), spol_NamePatterns = pro_NamePatterns (pol_Protect pol),
      spol_StateDir = stateDir, spol_QuarantineDir = rpol_QuarantineDir (pol_Retention pol),
      spol_AllowCrossFilesystemCopy = sfs_AllowCrossFilesystemQuarantine (pol_Safety pol),
      spol_MinFreeBytes = sfs_MinFreeBytes (pol_Safety pol)\<rparr>"

section \<open>Facts\<close>






section \<open>Properties\<close>




end
