(* ===== verification/ConfigDoc.thy ===== *)
theory ConfigDoc
  imports Config GoDuration
begin

text \<open>
  \<open>internal/config\<close>: the sections of the policy document that only the collectors, the archives, the reports and
  the background cycle read, as an extension of the record of \<open>Config\<close>, and the pure functions the package defines
  on them: idle durations, archive categories and their versions, the policy facts that keep a path out of an archive
  category, of the stale report and of a scratch run, the reserved names, and the names that may be approved as source.
  A Go pointer to a section is an option; \<open>clone\<close>, which only avoids sharing slices, is the identity.
\<close>

section \<open>Sections of the document\<close>

record jev_policy =
  jev_Enabled :: bool
  jev_Model :: string
  jev_Endpoint :: string
  jev_APIKeyEnv :: string
  jev_MaxBatch :: int
  jev_MaxStateTokens :: int
  jev_Timeout :: duration
  jev_MaxRetries :: int
  jev_MinInterval :: duration
  jev_BreakerFailures :: int
  jev_MinConfidence :: go_float
  jev_MaxUnsafe :: go_float
  jev_PricePerMTokUSD :: go_float
  jev_CacheTTL :: duration
  jev_RedactSegments :: "string list"

record limits_policy =
  lim_GitTimeout :: duration
  lim_CommandTimeout :: duration
  lim_MaxEntries :: int
  lim_MaxDirEntries :: int
  lim_DeepSizeMaxEntries :: int
  lim_DeepSizeMaxDepth :: int
  lim_DependentIndexMaxEntries :: int

record collectors_policy =
  col_DeepSize :: bool
  col_Git :: bool
  col_Processes :: bool
  col_Services :: bool
  col_ProcRoot :: string
  col_SystemdDirs :: "string list"
  col_CronPaths :: "string list"
  col_PM2Dumps :: "string list"
  col_ConfigFiles :: "string list"
  col_StagehandDirs :: "string list"
  col_StagehandStateDir :: string

record capacity_target =
  tgt_Path :: string
  tgt_TargetFreeBytes :: int64
  tgt_ReserveFreeBytes :: int64
  tgt_RecoveryMarginBytes :: int64

record recovery_policy =
  rvp_Enabled :: bool
  rvp_MaxStores :: int
  rvp_MaxBytes :: int64
  rvp_Interval :: duration
  rvp_TimeBudget :: duration

record cache_trim =
  ctr_Kind :: string
  ctr_Path :: string
  ctr_Binary :: string
  ctr_MaxBytes :: int64

record prevention_policy =
  prv_DeepInterval :: duration
  prv_MinFreeBytes :: int64
  prv_MinFreePercent :: int
  prv_AlertInterval :: duration
  prv_AutoExpire :: bool
  prv_AutoQuarantine :: bool
  prv_CapacityInterval :: duration
  prv_Targets :: "capacity_target list"
  prv_Recovery :: recovery_policy
  prv_CacheTrims :: "cache_trim list"
  prv_CacheTrimInterval :: duration

record workspace_archive_keep =
  wak_Path :: string
  wak_Owner :: string
  wak_Reference :: string

record source_name_approval =
  sna_Repository :: string
  sna_Remote :: string
  sna_Path :: string
  sna_Commit :: string
  sna_Blob :: string
  sna_SHA256 :: string
  sna_NamePattern :: string
  sna_Reviewer :: string
  sna_Record :: string
  sna_Generation :: string
  sna_ReviewedAt :: time
  sna_ExpiresAt :: time

record source_name_approval_policy =
  snp_Generation :: string
  snp_Reviewers :: "string list"
  snp_Files :: "source_name_approval list"

record category_destination =
  wcd_Directory :: string
  wcd_ExpectMountSource :: string
  wcd_ExpectFSType :: string

datatype category_kind =
    CategoryMergedWorktrees | CategoryPushedClones | CategoryRootScratch | CategoryVersionedWork
  | CategoryOther string

fun categoryKind_str :: "category_kind \<Rightarrow> string" where
  "categoryKind_str CategoryMergedWorktrees = ''merged_worktrees''"
| "categoryKind_str CategoryPushedClones = ''pushed_clones''"
| "categoryKind_str CategoryRootScratch = ''root_scratch''"
| "categoryKind_str CategoryVersionedWork = ''versioned_work''"
| "categoryKind_str (CategoryOther s) = s"

definition categoryKinds :: "category_kind list" where
  "categoryKinds = [CategoryMergedWorktrees, CategoryPushedClones, CategoryRootScratch, CategoryVersionedWork]"

definition categoryKind_of :: "string \<Rightarrow> category_kind" where
  "categoryKind_of = enum_of categoryKind_str categoryKinds CategoryOther"

interpretation category_kind_enum: string_enum categoryKind_str categoryKinds CategoryOther
  by unfold_locales (auto simp: categoryKinds_def)

fun categoryKind_Valid :: "category_kind \<Rightarrow> bool" where
  "categoryKind_Valid CategoryMergedWorktrees = True"
| "categoryKind_Valid CategoryPushedClones = True"
| "categoryKind_Valid CategoryRootScratch = True"
| "categoryKind_Valid CategoryVersionedWork = True"
| "categoryKind_Valid (CategoryOther _) = False"

record archive_category =
  wac_Name :: string
  wac_Kind :: category_kind
  wac_Roots :: "string list"
  wac_Idle :: duration
  wac_Archive :: category_destination
  wac_LocalRetention :: retention
  wac_MaxItemsPerCycle :: int
  wac_MaxBytesPerItem :: int64
  wac_Match :: string
  wac_KeepNewest :: int

datatype stale_release_action = StaleReleaseNone | StaleReleaseArchive | StaleReleaseOther string

fun staleRelease_str :: "stale_release_action \<Rightarrow> string" where
  "staleRelease_str StaleReleaseNone = ''none''"
| "staleRelease_str StaleReleaseArchive = ''archive''"
| "staleRelease_str (StaleReleaseOther s) = s"

record stale_report =
  srp_Enabled :: bool
  srp_Roots :: "string list"
  srp_Idle :: duration
  srp_CoordinatorRole :: string
  srp_ReleaseAction :: stale_release_action
  srp_Archive :: category_destination
  srp_LocalRetention :: retention
  srp_MaxItemsPerCycle :: int
  srp_MaxBytesPerItem :: int64

record scratch_cleanup =
  scl_Path :: string
  scl_Idle :: duration
  scl_RegenerableIdle :: duration
  scl_RegenerableEvery :: duration
  scl_Every :: duration
  scl_Skip :: "string list"
  scl_Regenerable :: "string list"
  scl_Archive :: category_destination
  scl_MaxBytesPerRun :: int64
  scl_MaxEntries :: int

record full_policy = policy +
  fpl_WorkspaceArchiveKeep :: "workspace_archive_keep list"
  fpl_SourceNameApprovals :: "source_name_approval_policy option"
  fpl_Collectors :: collectors_policy
  fpl_Categories :: "archive_category list"
  fpl_Report :: stale_report
  fpl_ScratchCleanup :: "scratch_cleanup list"
  fpl_Prevention :: prevention_policy
  fpl_Jev :: jev_policy
  fpl_Limits :: limits_policy
  fpl_Source :: string
  fpl_FromFile :: bool

section \<open>Idle durations\<close>

definition day :: duration where "day = 24 * nanosecond_hour"

definition IdleDuration_String :: "duration \<Rightarrow> string" where
  "IdleDuration_String d = (if 0 < d \<and> d mod day = 0 then show_int (d div day) @ ''d'' else show_duration d)"

text \<open>\<open>strconv.ParseInt(s, 10, bits)\<close>: an optional sign and decimal digits, within the range of the type.\<close>

definition is_digit :: "char \<Rightarrow> bool" where
  "is_digit c \<longleftrightarrow> 48 \<le> byte c \<and> byte c \<le> 57"

definition ParseInt :: "string \<Rightarrow> nat \<Rightarrow> int option" where
  "ParseInt s bits =
     (let neg = (s \<noteq> [] \<and> hd s = CHR ''-'');
          ds = (if s \<noteq> [] \<and> (hd s = CHR ''-'' \<or> hd s = CHR ''+'') then tl s else s);
          n = (if neg then - int (read_digits ds) else int (read_digits ds))
      in if ds \<noteq> [] \<and> list_all is_digit ds \<and> - (2 ^ (bits - 1)) \<le> n \<and> n < 2 ^ (bits - 1) then Some n else None)"

text \<open>\<open>parse_duration\<close> is \<open>time.ParseDuration\<close>; \<open>None\<close> is the error. A number of days that overflows the
  64-bit nanoseconds wraps, as \<open>time.Duration(n) * day\<close> does.\<close>

definition parseIdleDuration :: "(string \<Rightarrow> duration option) \<Rightarrow> string \<Rightarrow> duration option" where
  "parseIdleDuration parse_duration s =
     (if HasSuffix s ''d''
      then (case ParseInt (take (length s - 1) s) 32 of
              None \<Rightarrow> None
            | Some n \<Rightarrow> if n < 0 then None else Some (wrap64 (n * day)))
      else parse_duration s)"

section \<open>Archive categories\<close>

fun DefaultIdle :: "category_kind \<Rightarrow> duration" where
  "DefaultIdle CategoryVersionedWork = day"
| "DefaultIdle CategoryMergedWorktrees = 14 * 24 * nanosecond_hour"
| "DefaultIdle _ = 30 * 24 * nanosecond_hour"

fun MinIdle :: "category_kind \<Rightarrow> duration" where
  "MinIdle CategoryVersionedWork = day"
| "MinIdle CategoryMergedWorktrees = 7 * 24 * nanosecond_hour"
| "MinIdle _ = 14 * 24 * nanosecond_hour"

definition DefaultCategoryMaxItemsPerCycle :: int where "DefaultCategoryMaxItemsPerCycle = 20"
definition MaxCategoryItemsPerCycle :: int where "MaxCategoryItemsPerCycle = 200"
definition DefaultCategoryMaxBytesPerItem :: int64 where "DefaultCategoryMaxBytesPerItem = push_bit 30 10"
definition maxWorkspaceArchiveCategories :: nat where "maxWorkspaceArchiveCategories = 16"

text \<open>\<open>strings.Cut\<close> at a byte.\<close>

definition cut :: "char \<Rightarrow> string \<Rightarrow> (string \<times> string) option" where
  "cut c s = (if c \<in> set s then Some (takeWhile (\<lambda>x. x \<noteq> c) s, tl (dropWhile (\<lambda>x. x \<noteq> c) s)) else None)"

definition Version :: "archive_category \<Rightarrow> string \<Rightarrow> int option" where
  "Version c name =
     (case cut CHR ''*'' (wac_Match c) of
        None \<Rightarrow> None
      | Some (pre, suf) \<Rightarrow>
          if length name < length pre + length suf \<or> \<not> HasPrefix name pre \<or> \<not> HasSuffix name suf then None
          else let middle = take (length name - length suf - length pre) (drop (length pre) name);
                   ds = takeWhile is_digit middle
               in if ds = [] \<or> length ds > 18 then None else ParseInt ds 64)"

definition name_chars :: "(char \<Rightarrow> bool) \<Rightarrow> nat \<Rightarrow> string \<Rightarrow> bool" where
  "name_chars plus_char limit s \<longleftrightarrow>
     (case s of
        [] \<Rightarrow> False
      | c # cs \<Rightarrow> (let alnum = (\<lambda>c. is_digit c \<or> 65 \<le> byte c \<and> byte c \<le> 90 \<or> 97 \<le> byte c \<and> byte c \<le> 122)
                  in alnum c \<and> length cs \<le> limit \<and> list_all (\<lambda>c. alnum c \<or> plus_char c) cs))"

definition workspaceArchiveName :: "string \<Rightarrow> bool" where
  "workspaceArchiveName = name_chars (\<lambda>c. c \<in> {CHR ''.'', CHR ''_'', CHR ''-''}) 127"

definition categoryName :: "string \<Rightarrow> bool" where
  "categoryName = name_chars (\<lambda>c. c \<in> {CHR ''_'', CHR ''-''}) 47"

definition CategoryOwnerPrefix :: string where "CategoryOwnerPrefix = ''category:''"

definition WorkspaceArchiveManifestPath :: "workspace_archive_rule \<Rightarrow> string" where
  "WorkspaceArchiveManifestPath r = Join [wad_Directory (wr_Archive r), wr_Name r @ ''.manifest.json'']"

definition WorkspaceArchiveCategory :: "full_policy \<Rightarrow> string \<Rightarrow> archive_category option" where
  "WorkspaceArchiveCategory p name = find (\<lambda>c. wac_Name c = name) (fpl_Categories p)"

definition rawStateOrCredentialPath :: "string \<Rightarrow> bool" where
  "rawStateOrCredentialPath path \<longleftrightarrow>
     list_ex (\<lambda>part. part \<in> set [''.omp'', ''.claude'', ''.codex'', ''.gitmoot'', ''.ssh'', ''.gnupg'', ''.git'', ''tokens''])
       (split_on slash path)"

section \<open>The stale report\<close>

definition ReportReleaseCategory :: string where "ReportReleaseCategory = ''report-release''"
definition UnknownOwner :: string where "UnknownOwner = ''unknown''"
definition DefaultStaleReportIdle :: duration where "DefaultStaleReportIdle = 14 * 24 * nanosecond_hour"
definition minStaleReportIdle :: duration where "minStaleReportIdle = 24 * nanosecond_hour"

definition ValidRole :: "string \<Rightarrow> bool" where
  "ValidRole role \<longleftrightarrow> name_chars (\<lambda>c. c \<in> {CHR ''.'', CHR ''_'', CHR ''-''}) 63 role \<and> role \<noteq> UnknownOwner"

definition no_destination :: category_destination where
  "no_destination = \<lparr>wcd_Directory = '''', wcd_ExpectMountSource = '''', wcd_ExpectFSType = ''''\<rparr>"

definition defaultStaleReport :: stale_report where
  "defaultStaleReport =
     \<lparr>srp_Enabled = False, srp_Roots = [], srp_Idle = DefaultStaleReportIdle, srp_CoordinatorRole = '''',
      srp_ReleaseAction = StaleReleaseNone, srp_Archive = no_destination, srp_LocalRetention = Retention30Days,
      srp_MaxItemsPerCycle = DefaultCategoryMaxItemsPerCycle, srp_MaxBytesPerItem = DefaultCategoryMaxBytesPerItem\<rparr>"

definition ArchivesReleases :: "stale_report \<Rightarrow> bool" where
  "ArchivesReleases r \<longleftrightarrow> srp_Enabled r \<and> srp_ReleaseAction r = StaleReleaseArchive"

definition ReleaseCategory :: "stale_report \<Rightarrow> category_kind \<Rightarrow> archive_category option" where
  "ReleaseCategory r kind =
     (if \<not> ArchivesReleases r \<or> \<not> categoryKind_Valid kind then None
      else Some \<lparr>wac_Name = ReportReleaseCategory, wac_Kind = kind, wac_Roots = srp_Roots r, wac_Idle = srp_Idle r,
        wac_Archive = srp_Archive r, wac_LocalRetention = srp_LocalRetention r,
        wac_MaxItemsPerCycle = srp_MaxItemsPerCycle r, wac_MaxBytesPerItem = srp_MaxBytesPerItem r,
        wac_Match = '''', wac_KeepNewest = 0\<rparr>)"

definition ArchiveCategory :: "full_policy \<Rightarrow> string \<Rightarrow> string \<Rightarrow> archive_category option" where
  "ArchiveCategory p name kind =
     (if name = ReportReleaseCategory then ReleaseCategory (fpl_Report p) (categoryKind_of kind)
      else WorkspaceArchiveCategory p name)"

definition HasArchiveCategories :: "full_policy \<Rightarrow> bool" where
  "HasArchiveCategories p \<longleftrightarrow> fpl_Categories p \<noteq> [] \<or> ArchivesReleases (fpl_Report p)"

section \<open>What keeps a path where it is\<close>

text \<open>The scopes both lists below go through; the first that overlaps names the reason.\<close>

definition kept_reasons :: "(string \<Rightarrow> string \<Rightarrow> string \<Rightarrow> string) \<Rightarrow> full_policy \<Rightarrow> string \<Rightarrow> string list" where
  "kept_reasons msg p path =
     map (\<lambda>k. msg (wak_Path k) (wak_Owner k) (wak_Reference k))
       (filter (\<lambda>k. PathsOverlap path (wak_Path k)) (fpl_WorkspaceArchiveKeep p))"

definition protected_reasons :: "string \<Rightarrow> full_policy \<Rightarrow> string \<Rightarrow> string list" where
  "protected_reasons pre p path =
     map (\<lambda>x. pre @ ''protect.paths entry '' @ quote x) (filter (PathsOverlap path) (pro_Paths (pol_Protect p)))"

definition rule_reasons :: "string \<Rightarrow> full_policy \<Rightarrow> string \<Rightarrow> string list" where
  "rule_reasons pre p path =
     map (\<lambda>r. pre @ ''explicit workspace_archives rule '' @ quote (wr_Name r))
       (filter (\<lambda>r. PathsOverlap path (wr_Path r) \<and> \<not> HasPrefix (wr_Owner r) CategoryOwnerPrefix) (pol_WorkspaceArchives p))
     @ map (\<lambda>x. pre @ ''evidence_exports rule '' @ quote (xr_Name x))
       (filter (\<lambda>x. PathsOverlap path (xr_Path x) \<or> PathsOverlap path (xr_SourceContainer x)) (pol_EvidenceExports p))"

definition cache_reasons :: "string \<Rightarrow> full_policy \<Rightarrow> string \<Rightarrow> string list" where
  "cache_reasons pre p path =
     map (\<lambda>c. pre @ ''cache rule '' @ quote (cr_Name c)) (filter (\<lambda>c. PathsOverlap path (cr_Path c)) (pol_Caches p))"

definition scope_reasons :: "string \<Rightarrow> (string \<times> string) list \<Rightarrow> string \<Rightarrow> string list" where
  "scope_reasons pre scopes path =
     map (\<lambda>s. pre @ fst s) (filter (\<lambda>s. snd s \<noteq> '''' \<and> PathsOverlap path (snd s)) scopes)"

definition root_reasons :: "full_policy \<Rightarrow> string \<Rightarrow> string list" where
  "root_reasons p path = concat (map (\<lambda>r.
     if PathWithin (rt_Path r) path then [''contains inventory root '' @ quote (rt_Path r)]
     else if rt_ReportOnly r \<and> PathsOverlap path (rt_Path r) then [''overlaps report_only root '' @ quote (rt_Path r)]
     else []) (pol_Roots p))"

definition category_reasons :: "full_policy \<Rightarrow> string \<Rightarrow> string list" where
  "category_reasons p path = concat (map (\<lambda>c.
     (if PathsOverlap path (wcd_Directory (wac_Archive c))
      then [''overlaps category '' @ quote (wac_Name c) @ '' archive directory''] else [])
     @ map (\<lambda>r. ''contains category '' @ quote (wac_Name c) @ '' root '' @ quote r)
         (filter (\<lambda>r. PathWithin r path) (wac_Roots c))) (fpl_Categories p))"

definition report_reasons :: "full_policy \<Rightarrow> string \<Rightarrow> string list" where
  "report_reasons p path =
     (if ArchivesReleases (fpl_Report p)
      then (if PathsOverlap path (wcd_Directory (srp_Archive (fpl_Report p)))
            then [''overlaps the report archive directory''] else [])
           @ map (\<lambda>r. ''contains report root '' @ quote r)
               (filter (\<lambda>r. PathWithin r path) (srp_Roots (fpl_Report p)))
      else [])"

definition own_scopes :: "full_policy \<Rightarrow> (string \<times> string) list" where
  "own_scopes p =
     [(''the quarantine directory'', rpol_QuarantineDir (pol_Retention p)),
      (''Gitmoot'' @ [CHR 0x27] @ ''s managed state'', gm_Home (pol_Gitmoot p))]"

definition CategoryArchiveRefusals :: "full_policy \<Rightarrow> string \<Rightarrow> string list" where
  "CategoryArchiveRefusals p path =
     (if \<not> IsCanonicalPath path \<or> path = ''/'' then [quote path @ '' is not a canonical directory path'']
      else (if HasPrefix (Base path) ''.''
            then [''dot-named entries are tool or configuration state, never category items''] else [])
        @ (if rawStateOrCredentialPath path
           then [''raw runtime/session stores and credential containers are never archived by category''] else [])
        @ kept_reasons (\<lambda>k o' r. ''unresolved KEEP: workspace_archive_keep '' @ quote k @ '' is kept by '' @ quote o'
            @ '' ('' @ r @ '')'') p path
        @ protected_reasons ''overlaps '' p path
        @ rule_reasons ''overlaps '' p path
        @ root_reasons p path
        @ cache_reasons ''overlaps '' p path
        @ scope_reasons ''overlaps '' (own_scopes p) path
        @ category_reasons p path
        @ report_reasons p path)"

text \<open>The first reason, or the empty string.\<close>

definition first_of :: "string list \<Rightarrow> string" where
  "first_of rs = (case rs of [] \<Rightarrow> '''' | r # _ \<Rightarrow> r)"

definition StaleReportExclusion :: "full_policy \<Rightarrow> string \<Rightarrow> string" where
  "StaleReportExclusion p path =
     (if HasPrefix (Base path) ''.'' then ''dot-named entries are tool or configuration state''
      else if rawStateOrCredentialPath path then ''raw runtime/session stores and credential containers''
      else first_of
        (kept_reasons (\<lambda>k o' r. ''workspace_archive_keep '' @ quote k @ '' by '' @ quote o') p path
         @ protected_reasons '''' p path
         @ rule_reasons '''' p path
         @ cache_reasons '''' p path
         @ scope_reasons '''' (own_scopes p
             @ [(''the report archive directory'', wcd_Directory (srp_Archive (fpl_Report p)))]) path
         @ map (\<lambda>c. ''category '' @ quote (wac_Name c) @ '' archive directory'')
             (filter (\<lambda>c. PathsOverlap path (wcd_Directory (wac_Archive c))) (fpl_Categories p))))"

section \<open>Scratch directories\<close>

definition DefaultScratchIdle :: duration where "DefaultScratchIdle = 72 * nanosecond_hour"
definition DefaultScratchEvery :: duration where "DefaultScratchEvery = 48 * nanosecond_hour"
definition minScratchInterval :: duration where "minScratchInterval = 24 * nanosecond_hour"
definition minRegenerableIdle :: duration where "minRegenerableIdle = nanosecond_hour"
definition maxScratchCleanups :: nat where "maxScratchCleanups = 16"
definition maxScratchPatterns :: nat where "maxScratchPatterns = 256"
definition DefaultScratchMaxEntries :: int where "DefaultScratchMaxEntries = 100000"

definition IdleFor :: "scratch_cleanup \<Rightarrow> bool \<Rightarrow> duration" where
  "IdleFor s regenerable = (if regenerable \<and> scl_RegenerableIdle s \<noteq> 0 then scl_RegenerableIdle s else scl_Idle s)"

definition ScratchCleanupFor :: "full_policy \<Rightarrow> string \<Rightarrow> scratch_cleanup option" where
  "ScratchCleanupFor p path = find (\<lambda>s. scl_Path s = path) (fpl_ScratchCleanup p)"

definition ScratchRefusal :: "full_policy \<Rightarrow> string \<Rightarrow> string" where
  "ScratchRefusal p path = first_of
     (protected_reasons ''overlaps '' p path
      @ kept_reasons (\<lambda>k o' r. ''workspace_archive_keep '' @ quote k @ '' is kept by '' @ quote o' @ '' ('' @ r @ '')'')
          p path)"

definition MatchesAny :: "string \<Rightarrow> string list \<Rightarrow> bool" where
  "MatchesAny name patterns \<longleftrightarrow> list_ex (\<lambda>pattern. Match pattern name = Some True) patterns"

section \<open>Cache trims\<close>

definition DockerDataRoot :: string where "DockerDataRoot = ''/var/lib/docker''"
definition CacheTrimGoBuild :: string where "CacheTrimGoBuild = ''go-build''"
definition CacheTrimDockerBuilder :: string where "CacheTrimDockerBuilder = ''docker-builder''"

definition TrimTarget :: "cache_trim \<Rightarrow> string" where
  "TrimTarget t = (if ctr_Kind t = CacheTrimDockerBuilder then DockerDataRoot else ctr_Path t)"

text \<open>What \<open>filepath.EvalSymlinks\<close> answers is a parameter: the resolved path, that nothing is there, or another error.\<close>

datatype resolution = Resolved string | NotThere | CannotResolve string

definition path_forms :: "(string \<Rightarrow> resolution) \<Rightarrow> string \<Rightarrow> string + string list" where
  "path_forms eval p =
     (case eval p of
        Resolved r \<Rightarrow> Inr [Clean p, r]
      | NotThere \<Rightarrow> Inr [Clean p]
      | CannotResolve e \<Rightarrow> Inl (''resolve '' @ p @ '': '' @ e))"

fun overlaps_roots :: "(string \<Rightarrow> resolution) \<Rightarrow> string list \<Rightarrow> root_policy list \<Rightarrow> string + bool" where
  "overlaps_roots eval targets [] = Inr False"
| "overlaps_roots eval targets (rt # rs) =
     (if \<not> rt_ArchiveOnly rt then overlaps_roots eval targets rs
      else case path_forms eval (rt_Path rt) of
        Inl e \<Rightarrow> Inl (''archive_only root: '' @ e)
      | Inr roots \<Rightarrow>
          if list_ex (\<lambda>r. list_ex (\<lambda>p. PathsOverlap p r) targets) roots then Inr True
          else overlaps_roots eval targets rs)"

definition ResolvesIntoArchiveOnlyRoot :: "(string \<Rightarrow> resolution) \<Rightarrow> full_policy option \<Rightarrow> string \<Rightarrow> string + bool" where
  "ResolvesIntoArchiveOnlyRoot eval policy path =
     (case policy of
        None \<Rightarrow> Inr False
      | Some p \<Rightarrow>
          if path = '''' then Inr False
          else case path_forms eval path of
            Inl e \<Rightarrow> Inl e
          | Inr targets \<Rightarrow> overlaps_roots eval targets (pol_Roots p))"

section \<open>Names approved as source\<close>

definition SourceApprovalPath :: "string \<Rightarrow> bool" where
  "SourceApprovalPath path \<longleftrightarrow>
     (if path = '''' \<or> IsAbs path \<or> Clean path \<noteq> path \<or> path = ''.'' \<or> path = ''..'' \<or> HasPrefix path ''../''
         \<or> ContainsAny path [CHR 0x00, CHR 0x0D, CHR 0x0A, CHR 0x5C]
      then False
      else if list_ex (\<lambda>part. HasPrefix part ''.'') (split_on slash path) then False
      else if MatchesAny (to_lower_ascii (Base path))
          [''*.pem'', ''*.key'', ''*.kdbx'', ''id_rsa*'', ''id_ed25519*'', ''.env'', ''.env.*''] then False
      else if IsDatabasePath path then False
      else to_lower_ascii (Ext path) \<in> set [''.go'', ''.rs'', ''.py'', ''.ts'', ''.tsx'', ''.js'', ''.jsx'', ''.c'', ''.cc'',
        ''.cpp'', ''.h'', ''.hpp'', ''.java'', ''.kt'', ''.swift'', ''.md'', ''.rst''])"

definition lower_hex :: "char \<Rightarrow> bool" where
  "lower_hex c \<longleftrightarrow> is_digit c \<or> 97 \<le> byte c \<and> byte c \<le> 102"

text \<open>\<open>hex.DecodeString\<close> accepts an even number of hexadecimal digits; a text equal to its lower case has no
  upper-case digit.\<close>

definition sourceApprovalHex :: "string \<Rightarrow> nat list \<Rightarrow> bool" where
  "sourceApprovalHex s sizes \<longleftrightarrow> length s \<in> set sizes \<and> even (length s) \<and> list_all lower_hex s"

definition sha256_text :: "string \<Rightarrow> bool" where
  "sha256_text s \<longleftrightarrow> length s = 64 \<and> list_all lower_hex s"

section \<open>Names\<close>

definition isEnvName :: "string \<Rightarrow> bool" where
  "isEnvName s \<longleftrightarrow>
     (case s of
        [] \<Rightarrow> False
      | c # cs \<Rightarrow>
          (let letter = (\<lambda>c. 65 \<le> byte c \<and> byte c \<le> 90 \<or> 97 \<le> byte c \<and> byte c \<le> 122 \<or> c = CHR ''_'')
           in letter c \<and> list_all (\<lambda>c. letter c \<or> is_digit c) cs))"

definition validMarkerName :: "string \<Rightarrow> bool" where
  "validMarkerName marker \<longleftrightarrow>
     marker \<noteq> '''' \<and> marker \<noteq> ''.'' \<and> marker \<noteq> ''..'' \<and> slash \<notin> set marker \<and> Base marker = marker"

definition joinRetentions :: string where
  "joinRetentions = join '', '' (map retention_str retentions)"

end
