(* ===== verification/ConfigValidate.thy ===== *)
theory ConfigValidate
  imports ConfigDoc
begin

text \<open>
  \<open>Policy.Validate\<close>: every field-level problem of a policy, section by section in the order of the source.  A map that
  remembers what earlier elements declared is read as a search among the elements before the current one.  The clock,
  \<open>url.Parse\<close> and \<open>net.ParseIP\<close> are parameters.
\<close>

record go_url =
  url_Scheme :: string
  url_Host :: string
  url_Hostname :: string
  url_HasUser :: bool
  url_Path :: string
  url_RawQuery :: string
  url_Fragment :: string

record config_env =
  cfe_Now :: time
  cfe_ParseURL :: "string \<Rightarrow> go_url option"
  cfe_Loopback :: "string \<Rightarrow> bool"

section \<open>Lists of checked elements\<close>

definition each :: "(nat \<Rightarrow> 'a \<Rightarrow> field_errors) \<Rightarrow> 'a list \<Rightarrow> field_errors" where
  "each f xs = concat (map (\<lambda>(i, x). f i x) (enumerate 0 xs))"

definition earlier :: "('a \<Rightarrow> 'k) \<Rightarrow> 'a list \<Rightarrow> nat \<Rightarrow> 'a \<Rightarrow> nat option" where
  "earlier f xs i x = map_option fst (find (\<lambda>(j, y). f y = f x) (enumerate 0 (take i xs)))"

definition idx :: "string \<Rightarrow> nat \<Rightarrow> string" where
  "idx s i = s @ ''['' @ show_nat i @ '']''"

lemma set_enumerate: "set (enumerate 0 xs) = (\<lambda>i. (i, xs ! i)) ` {..<length xs}"
proof (rule set_eqI)
  fix p :: "nat \<times> 'a"
  show "p \<in> set (enumerate 0 xs) \<longleftrightarrow> p \<in> (\<lambda>i. (i, xs ! i)) ` {..<length xs}"
    by (cases p) (auto simp: in_set_enumerate_eq)
qed

lemma each_Nil: "each f xs = [] \<longleftrightarrow> (\<forall>i < length xs. f i (xs ! i) = [])"
  by (auto simp: each_def set_enumerate)

lemma each_NilD: "each f xs = [] \<Longrightarrow> x \<in> set xs \<Longrightarrow> \<exists>i. i < length xs \<and> xs ! i = x \<and> f i x = []"
  unfolding each_Nil by (metis in_set_conv_nth)

lemma earlier_None: "earlier f xs i x = None \<longleftrightarrow> (\<forall>y \<in> set (take i xs). f y \<noteq> f x)"
proof -
  have "earlier f xs i x = None \<longleftrightarrow> (\<forall>j < length (take i xs). f (take i xs ! j) \<noteq> f x)"
    by (simp only: earlier_def map_option_is_None find_None_iff set_enumerate) auto
  then show ?thesis by (metis in_set_conv_nth)
qed

lemma each_earlier_distinct:
  assumes "\<And>i. i < length xs \<Longrightarrow> earlier f xs i (xs ! i) = None"
  shows "distinct (map f xs)"
proof -
  have "f (xs ! j) \<noteq> f (xs ! i)" if "j < i" "i < length xs" for i j
  proof -
    have "xs ! j \<in> set (take i xs)" using that by (auto simp: in_set_conv_nth intro!: exI [of _ j])
    with assms [OF that(2)] show ?thesis by (auto simp: earlier_None)
  qed
  then show ?thesis by (auto simp: distinct_conv_nth) (metis nat_neq_iff)
qed

section \<open>Evidence exports\<close>

definition validateEvidenceExport :: "config_env \<Rightarrow> full_policy \<Rightarrow> nat \<Rightarrow> evidence_export_rule \<Rightarrow> field_errors" where
  "validateEvidenceExport env p i rule =
     (let field = idx ''evidence_exports'' i; a = xr_Archive rule; dir = xad_Directory a; path = xr_Path rule
      in err_if (blank (xr_Name rule) \<or> earlier xr_Name (pol_EvidenceExports p) i rule \<noteq> None) (field @ ''.name'')
           ''must be nonempty and unique'' []
       @ err_if (\<not> IsCanonicalPath path \<or> earlier xr_Path (pol_EvidenceExports p) i rule \<noteq> None) (field @ ''.path'')
           ''must be a unique canonical absolute file path'' []
       @ err_if (\<not> list_ex (\<lambda>rt. path \<noteq> rt_Path rt \<and> PathWithin path (rt_Path rt)) (pol_Roots p))
           (field @ ''.path'') ''must be inside a configured inventory root'' []
       @ err_if (rawStateOrCredentialPath path \<or> rawStateOrCredentialPath dir) field
           ''raw runtime/session stores and credential containers cannot be export sources or archive destinations'' []
       @ err_if (PathsOverlap dir (rpol_QuarantineDir (pol_Retention p))) (field @ ''.archive.directory'')
           ''archive cannot share a cleanup receipt container'' []
       @ concat (map (\<lambda>c. err_if (PathsOverlap dir (cr_Path c)) (field @ ''.archive.directory'')
           ''archive overlaps a cache cleanup scope'' []) (pol_Caches p))
       @ concat (map (\<lambda>x. err_if (PathsOverlap dir (xr_SourceContainer x)) (field @ ''.archive.directory'')
           ''archive overlaps an export source container'' []) (pol_EvidenceExports p))
       @ err_if (\<not> list_ex (PathWithin dir) (pro_Paths (pol_Protect p))) (field @ ''.archive.directory'')
           ''must also be covered by an independent protect.paths rule that survives removal of this export rule'' []
       @ err_if (\<not> IsCanonicalPath (xr_SourceContainer rule) \<or> path = xr_SourceContainer rule
           \<or> \<not> PathWithin path (xr_SourceContainer rule)) (field @ ''.source_container'')
           ''must be a canonical containing directory distinct from the exact export'' []
       @ err_if (xr_Class rule \<notin> set [''completed_report'', ''review_evidence'', ''session_export'', ''evidence_export''])
           (field @ ''.class'') ''must name a completed_report, review_evidence, session_export, or evidence_export'' []
       @ err_if (blank (xr_Owner rule) \<or> blank (xr_Approval rule) \<or> xr_CompletedAt rule = time_zero
           \<or> \<not> xr_CredentialFree rule) field
           ''requires owner, saved approval, verified completion time, and explicit credential_free confirmation'' []
       @ err_if (cfe_Now env < xr_CompletedAt rule) (field @ ''.completed_at'') ''cannot be in the future'' []
       @ err_if (xr_LocalRetention rule \<notin> {Retention30Days, Retention90Days, RetentionPermanent})
           (field @ ''.local_retention'') ''must retain exports for at least 30d (30d, 90d, or permanent)'' []
       @ err_if (xr_LocalExpiryEnabled rule \<and> xr_LocalRetention rule = RetentionPermanent)
           (field @ ''.local_expiry_enabled'') ''cannot expire permanent local retention'' []
       @ err_if (sint (xr_MaxBytes rule) \<le> 0 \<or> 2 ^ 30 < sint (xr_MaxBytes rule)) (field @ ''.max_bytes'')
           ''must be positive and at most 1 GiB per export'' []
       @ err_if (\<not> IsCanonicalPath dir \<or> PathsOverlap (xr_SourceContainer rule) dir) (field @ ''.archive.directory'')
           ''must be canonical and outside the source container, without overlapping it'' []
       @ err_if (blank (xr_SourceLifetime rule) \<or> blank (xad_Lifetime a) \<or> xr_SourceLifetime rule = xad_Lifetime a)
           (field @ ''.archive.lifetime'') ''source and archive need distinct explicit owner-confirmed lifetimes'' []
       @ err_if (blank (xad_Owner a) \<or> blank (xad_Approval a)) (field @ ''.archive'')
           ''requires the archive owner and saved destination approval'' []
       @ err_if (xad_DeleteEnabled a \<or> xad_Retention a \<noteq> RetentionPermanent) (field @ ''.archive'')
           ''archive deletion is disabled; archive retention must be permanent'' []
       @ (if xad_Manifest a \<noteq> ''''
          then err_if (\<not> IsCanonicalPath (xad_Manifest a) \<or> \<not> PathWithin (xad_Manifest a) dir
                 \<or> Base (xad_Manifest a) \<noteq> ''manifest.json'') (field @ ''.archive.manifest'')
                 ''must name manifest.json inside the approved archive directory'' []
             @ err_if (\<not> sha256_text (xad_ManifestSHA256 a)) (field @ ''.archive.manifest_sha256'')
                 ''must bind the manifest with its lowercase SHA256'' []
          else err_if (xad_ManifestSHA256 a \<noteq> '''') (field @ ''.archive.manifest_sha256'')
                 ''requires an exact manifest path'' []))"

definition validateEvidenceExports :: "config_env \<Rightarrow> full_policy \<Rightarrow> field_errors" where
  "validateEvidenceExports env p =
     (let col = fpl_Collectors p; xs = pol_EvidenceExports p
      in err_if (64 < length xs) ''evidence_exports'' ''at most 64 exact exports are allowed'' []
       @ err_if (0 < length xs \<and> (\<not> col_Git col \<or> \<not> col_Processes col \<or> \<not> col_Services col)) ''evidence_exports''
           ''requires Git, process, and service collectors'' []
       @ each (validateEvidenceExport env p) xs)"

section \<open>Workspace archives\<close>

text \<open>\<open>validateArchiveDirectory\<close> also says whether the directory is a usable path.\<close>

definition validateArchiveDirectory ::
    "full_policy \<Rightarrow> string \<Rightarrow> string \<Rightarrow> string \<Rightarrow> string \<Rightarrow> field_errors \<times> bool" where
  "validateArchiveDirectory p field dir mountSource fstype =
     (if \<not> IsCanonicalPath dir \<or> dir = ''/''
      then ([FieldError (field @ ''.directory'') ''must be a canonical absolute directory path, got %q'' [GStr dir]], False)
      else (concat (map (\<lambda>other. err_if (PathsOverlap dir (wr_Path other)) (field @ ''.directory'')
              ''overlaps workspace archive source %q'' [GStr (wr_Path other)]) (pol_WorkspaceArchives p))
          @ concat (map (\<lambda>x. err_if (PathsOverlap dir (xr_SourceContainer x)) (field @ ''.directory'')
              ''overlaps an evidence export source container'' []) (pol_EvidenceExports p))
          @ err_if (PathsOverlap dir (rpol_QuarantineDir (pol_Retention p))) (field @ ''.directory'')
              ''archive cannot share a cleanup receipt container'' []
          @ err_if (PathsOverlap dir (gm_Home (pol_Gitmoot p))) (field @ ''.directory'')
              (''archive cannot overlap Gitmoot'' @ [CHR 0x27] @ ''s managed state'') []
          @ concat (map (\<lambda>c. err_if (PathsOverlap dir (cr_Path c)) (field @ ''.directory'')
              ''archive overlaps a cache cleanup scope'' []) (pol_Caches p))
          @ err_if (\<not> list_ex (PathWithin dir) (pro_Paths (pol_Protect p))) (field @ ''.directory'')
              ''must also be covered by an independent protect.paths rule that survives removal of this archive rule'' []
          @ err_if (ContainsAny mountSource [CHR '' '', CHR 0x09, CHR 0x0A]) (field @ ''.expect_mount_source'')
              ''must not contain whitespace; mountinfo escapes it as octal'' []
          @ err_if (ContainsAny fstype [CHR '' '', CHR 0x09, CHR 0x0A]) (field @ ''.expect_fstype'')
              ''must not contain whitespace; mountinfo escapes it as octal'' [], True))"

definition validateWorkspaceArchiveSource ::
    "full_policy \<Rightarrow> nat \<Rightarrow> string \<Rightarrow> workspace_archive_rule \<Rightarrow> field_errors" where
  "validateWorkspaceArchiveSource p index field rule =
     (let path = wr_Path rule
      in each (\<lambda>j other. err_if (PathsOverlap path (wr_Path other)) (field @ ''.path'')
           ''is the same as or overlaps workspace_archives[%d].path %q; one path needs exactly one release''
           [GInt (int j), GStr (wr_Path other)]) (take index (pol_WorkspaceArchives p))
       @ concat (map (\<lambda>rt.
             err_if (rt_ReportOnly rt \<and> PathsOverlap path (rt_Path rt)) (field @ ''.path'')
               ''overlaps report_only root %q'' [GStr (rt_Path rt)]
           @ err_if (rt_ArchiveOnly rt \<and> PathsOverlap path (rt_Path rt)) (field @ ''.path'')
               ''overlaps archive_only root %q; only workspace_archive_categories may archive there''
               [GStr (rt_Path rt)]) (pol_Roots p))
       @ err_if (\<not> list_ex (\<lambda>rt. path \<noteq> rt_Path rt \<and> PathWithin path (rt_Path rt)) (pol_Roots p))
           (field @ ''.path'') ''must be inside a configured inventory root'' []
       @ concat (map (\<lambda>x. err_if (PathsOverlap path x) (field @ ''.path'') ''overlaps protect.paths entry %q'' [GStr x])
           (pro_Paths (pol_Protect p)))
       @ each (\<lambda>j keep. err_if (PathsOverlap path (wak_Path keep)) (field @ ''.path'')
           ''unresolved KEEP/release conflict: workspace_archive_keep[%d] %q is kept by %q (%s); only the custodian can resolve it''
           [GInt (int j), GStr (wak_Path keep), GStr (wak_Owner keep), GStr (wak_Reference keep)])
           (fpl_WorkspaceArchiveKeep p))"

definition validateWorkspaceArchiveDestination ::
    "full_policy \<Rightarrow> string \<Rightarrow> workspace_archive_rule \<Rightarrow> field_errors" where
  "validateWorkspaceArchiveDestination p field rule =
     (let a = wr_Archive rule;
          (errs, ok) = validateArchiveDirectory p (field @ ''.archive'') (wad_Directory a) (wad_ExpectMountSource a)
            (wad_ExpectFSType a)
      in if \<not> ok then errs
         else errs
           @ (if wad_Manifest a \<noteq> ''''
              then err_if (wad_Manifest a \<noteq> WorkspaceArchiveManifestPath rule) (field @ ''.archive.manifest'')
                     ''must name %s.manifest.json directly inside archive.directory'' [GStr (wr_Name rule)]
                 @ err_if (\<not> sha256_text (wad_ManifestSHA256 a)) (field @ ''.archive.manifest_sha256'')
                     ''must bind the manifest with its lowercase SHA256'' []
              else err_if (wad_ManifestSHA256 a \<noteq> '''') (field @ ''.archive.manifest_sha256'')
                     ''requires an exact manifest path'' []))"

definition validateWorkspaceArchiveExpiry :: "full_policy \<Rightarrow> string \<Rightarrow> workspace_archive_rule \<Rightarrow> field_errors" where
  "validateWorkspaceArchiveExpiry p field rule =
     err_if (wr_LocalRetention rule \<notin> {Retention30Days, Retention90Days, RetentionPermanent})
       (field @ ''.local_retention'') ''must retain released workspaces for at least 30d (30d, 90d, or permanent)'' []
     @ (if \<not> wr_LocalExpiryEnabled rule then []
        else err_if (wr_LocalRetention rule = RetentionPermanent) (field @ ''.local_expiry_enabled'')
               ''cannot expire permanent local retention'' []
           @ err_if (wad_Manifest (wr_Archive rule) = '''' \<or> wad_ManifestSHA256 (wr_Archive rule) = '''')
               (field @ ''.local_expiry_enabled'')
               ''requires a pinned archive manifest and manifest_sha256; create and verify the archive first'' []
           @ err_if (\<not> col_Git (fpl_Collectors p) \<or> \<not> col_Services (fpl_Collectors p))
               (field @ ''.local_expiry_enabled'') ''requires Git, process, and service collectors'' [])"

definition validateWorkspaceArchive :: "full_policy \<Rightarrow> nat \<Rightarrow> workspace_archive_rule \<Rightarrow> field_errors" where
  "validateWorkspaceArchive p i rule =
     (let field = idx ''workspace_archives'' i
      in (if \<not> workspaceArchiveName (wr_Name rule)
          then [FieldError (field @ ''.name'')
            (''must be 1-128 letters, digits, '' @ [CHR 0x27] @ ''.'' @ [CHR 0x27] @ '', '' @ [CHR 0x27] @ ''_'' @ [CHR 0x27]
             @ '' or '' @ [CHR 0x27] @ ''-'' @ [CHR 0x27] @ '' starting with a letter or digit, got %q'')
            [GStr (wr_Name rule)]]
          else case earlier wr_Name (pol_WorkspaceArchives p) i rule of
            None \<Rightarrow> []
          | Some first \<Rightarrow> [FieldError (field @ ''.name'') ''duplicates workspace_archives[%d].name %q''
              [GInt (int first), GStr (wr_Name rule)]])
       @ err_if (blank (wr_Owner rule) \<or> blank (wr_Release rule)) field
           ''requires the releasing owner and a release reference'' []
       @ err_if (HasPrefix (wr_Owner rule) CategoryOwnerPrefix) (field @ ''.owner'')
           (''the %q prefix is reserved for Janitor'' @ [CHR 0x27] @ ''s own category archive records'')
           [GStr CategoryOwnerPrefix]
       @ (if \<not> IsCanonicalPath (wr_Path rule) \<or> wr_Path rule = ''/''
          then [FieldError (field @ ''.path'') ''must be a canonical absolute directory path, got %q'' [GStr (wr_Path rule)]]
          else validateWorkspaceArchiveSource p i field rule)
       @ each (\<lambda>j rt. err_if (\<not> IsCanonicalPath rt) (idx (field @ ''.dependent_roots'') j)
           ''must be a canonical absolute path, got %q'' [GStr rt]) (wr_DependentRoots rule)
       @ err_if (rawStateOrCredentialPath (wr_Path rule) \<or> rawStateOrCredentialPath (wad_Directory (wr_Archive rule))) field
           ''raw runtime/session stores and credential containers cannot be workspace archive sources or destinations'' []
       @ validateWorkspaceArchiveDestination p field rule
       @ validateWorkspaceArchiveExpiry p field rule)"

definition validateWorkspaceArchives :: "full_policy \<Rightarrow> field_errors" where
  "validateWorkspaceArchives p =
     err_if (64 < length (pol_WorkspaceArchives p)) ''workspace_archives'' ''at most 64 workspace archives are allowed'' []
     @ err_if (0 < length (pol_WorkspaceArchives p) \<and> \<not> col_Processes (fpl_Collectors p)) ''workspace_archives''
         ''requires the process collector; live-use checks cannot be disabled'' []
     @ each (\<lambda>i keep.
           err_if (\<not> IsCanonicalPath (wak_Path keep)) (idx ''workspace_archive_keep'' i @ ''.path'')
             ''must be a canonical absolute path, got %q'' [GStr (wak_Path keep)]
         @ err_if (blank (wak_Owner keep) \<or> blank (wak_Reference keep)) (idx ''workspace_archive_keep'' i)
             ''requires the keeping owner and a reference to the KEEP decision'' []) (fpl_WorkspaceArchiveKeep p)
     @ each (validateWorkspaceArchive p) (pol_WorkspaceArchives p)"

section \<open>Archive categories\<close>

definition validateCategoryRoot :: "full_policy \<Rightarrow> string \<Rightarrow> string \<Rightarrow> field_errors" where
  "validateCategoryRoot p field rt =
     (if \<not> IsCanonicalPath rt \<or> rt = ''/''
      then [FieldError field ''must be a canonical absolute directory path other than /, got %q'' [GStr rt]]
      else concat (map (\<lambda>c. err_if (rt_Path c = rt \<and> rt_ReportOnly c) field ''is a report_only root'' []) (pol_Roots p))
         @ err_if (\<not> list_ex (\<lambda>c. rt_Path c = rt) (pol_Roots p)) field
             ''must be a configured inventory root, got %q'' [GStr rt]
         @ concat (map (\<lambda>x. err_if (PathWithin rt x) field ''lies inside protect.paths entry %q'' [GStr x])
             (pro_Paths (pol_Protect p)))
         @ concat (map (\<lambda>k. err_if (PathWithin rt (wak_Path k)) field ''lies inside workspace_archive_keep path %q''
             [GStr (wak_Path k)]) (fpl_WorkspaceArchiveKeep p))
         @ err_if (rawStateOrCredentialPath rt) field
             ''raw runtime/session stores and credential containers cannot be category roots'' [])"

text \<open>The checks every category-style destination passes: an approved archive directory outside every inventory root.\<close>

definition validateCategoryDestination :: "full_policy \<Rightarrow> string \<Rightarrow> category_destination \<Rightarrow> field_errors" where
  "validateCategoryDestination p field d =
     (let (errs, ok) = validateArchiveDirectory p field (wcd_Directory d) (wcd_ExpectMountSource d) (wcd_ExpectFSType d)
      in if \<not> ok then errs
         else errs
           @ concat (map (\<lambda>rt. err_if (PathsOverlap (wcd_Directory d) (rt_Path rt)) (field @ ''.directory'')
               ''must be outside every inventory root, overlaps %q'' [GStr (rt_Path rt)]) (pol_Roots p))
           @ err_if (rawStateOrCredentialPath (wcd_Directory d)) (field @ ''.directory'')
               ''raw runtime/session stores and credential containers cannot be archive destinations'' [])"

definition validateCycleBounds :: "string \<Rightarrow> retention \<Rightarrow> int \<Rightarrow> int64 \<Rightarrow> field_errors" where
  "validateCycleBounds field r items bytes =
     err_if (r \<notin> {RetentionNone, Retention30Days, Retention90Days}) (field @ ''.local_retention'')
       ''must be none, 30d or 90d, got %q'' [GStr (retention_str r)]
     @ err_if (items < 1 \<or> MaxCategoryItemsPerCycle < items) (field @ ''.max_items_per_cycle'')
         ''must be between 1 and %d, got %d'' [GInt MaxCategoryItemsPerCycle, GInt items]
     @ err_if (sint bytes \<le> 0) (field @ ''.max_bytes_per_item'') ''must be greater than zero, got %d'' [GInt (sint bytes)]"

text \<open>The category roots declared before root \<open>j\<close> of category \<open>i\<close>, with the key they are remembered under.\<close>

definition kind_root_key :: "archive_category \<Rightarrow> string \<Rightarrow> string" where
  "kind_root_key c rt = categoryKind_str (wac_Kind c) @ [CHR 0x00] @ rt"

definition kind_roots_before :: "full_policy \<Rightarrow> nat \<Rightarrow> archive_category \<Rightarrow> nat \<Rightarrow> (nat \<times> string) list" where
  "kind_roots_before p i c j =
     concat (map (\<lambda>(k, other). map (\<lambda>r. (k, kind_root_key other r)) (wac_Roots other))
       (enumerate 0 (take i (fpl_Categories p))))
     @ map (\<lambda>r. (i, kind_root_key c r)) (take j (wac_Roots c))"

definition validateCategory :: "full_policy \<Rightarrow> nat \<Rightarrow> archive_category \<Rightarrow> field_errors" where
  "validateCategory p i c =
     (let field = idx ''workspace_archive_categories'' i
      in (if \<not> categoryName (wac_Name c)
          then [FieldError (field @ ''.name'')
            (''must be 1-48 letters, digits, '' @ [CHR 0x27] @ ''_'' @ [CHR 0x27] @ '' or '' @ [CHR 0x27] @ ''-'' @ [CHR 0x27]
             @ '' starting with a letter or digit, got %q'') [GStr (wac_Name c)]]
          else case earlier wac_Name (fpl_Categories p) i c of
            None \<Rightarrow> []
          | Some first \<Rightarrow> [FieldError (field @ ''.name'') ''duplicates workspace_archive_categories[%d].name %q''
              [GInt (int first), GStr (wac_Name c)]])
       @ (if \<not> categoryKind_Valid (wac_Kind c)
          then [FieldError (field @ ''.kind'')
            ''must be merged_worktrees, pushed_clones, root_scratch or versioned_work, got %q''
            [GStr (categoryKind_str (wac_Kind c))]]
          else err_if (wac_Idle c < MinIdle (wac_Kind c)) (field @ ''.idle'') ''must be at least %s for %s, got %s''
            [GStr (IdleDuration_String (MinIdle (wac_Kind c))), GStr (categoryKind_str (wac_Kind c)),
             GStr (IdleDuration_String (wac_Idle c))])
       @ (if wac_Kind c = CategoryVersionedWork
          then err_if (length (filter (\<lambda>x. x = CHR ''*'') (wac_Match c)) \<noteq> 1
                 \<or> ContainsAny (wac_Match c) [slash, CHR ''?'', CHR ''['', CHR 0x5C] \<or> wac_Match c = ''*'') (field @ ''.match'')
                 (''must be a base-name pattern with exactly one '' @ [CHR 0x27] @ ''*'' @ [CHR 0x27]
                  @ '' and a fixed prefix or suffix, got %q'') [GStr (wac_Match c)]
             @ err_if (wac_KeepNewest c < 1 \<or> 100 < wac_KeepNewest c) (field @ ''.keep_newest'')
                 ''must be between 1 and 100, got %d'' [GInt (wac_KeepNewest c)]
          else err_if (wac_Match c \<noteq> '''' \<or> wac_KeepNewest c \<noteq> 0) field
                 ''match and keep_newest apply to versioned_work only'' [])
       @ err_if (wac_Roots c = []) (field @ ''.roots'') ''must name at least one configured inventory root'' []
       @ each (\<lambda>j rt.
           validateCategoryRoot p (idx (field @ ''.roots'') j) rt
           @ (case find (\<lambda>(k, key). key = kind_root_key c rt) (kind_roots_before p i c j) of
                None \<Rightarrow> []
              | Some (first, _) \<Rightarrow> [FieldError (idx (field @ ''.roots'') j)
                  ''duplicates workspace_archive_categories[%d]: one %s category per root''
                  [GInt (int first), GStr (categoryKind_str (wac_Kind c))]])) (wac_Roots c)
       @ validateCategoryDestination p (field @ ''.archive'') (wac_Archive c)
       @ validateCycleBounds field (wac_LocalRetention c) (wac_MaxItemsPerCycle c) (wac_MaxBytesPerItem c))"

definition validateWorkspaceArchiveCategories :: "full_policy \<Rightarrow> field_errors" where
  "validateWorkspaceArchiveCategories p =
     (let cs = fpl_Categories p; col = fpl_Collectors p
      in if cs = [] then []
         else err_if (maxWorkspaceArchiveCategories < length cs) ''workspace_archive_categories''
                ''at most %d categories are allowed'' [GInt (int maxWorkspaceArchiveCategories)]
            @ err_if (\<not> col_Processes col \<or> \<not> col_Git col \<or> \<not> col_Services col) ''workspace_archive_categories''
                ''requires the Git, process and service collectors; live-use and publication checks cannot be disabled'' []
            @ each (validateCategory p) cs)"

section \<open>The stale report\<close>

definition validateReportRoot :: "full_policy \<Rightarrow> nat \<Rightarrow> string \<Rightarrow> field_errors" where
  "validateReportRoot p i rt =
     (let field = idx ''report.roots'' i; r = fpl_Report p
      in case earlier id (srp_Roots r) i rt of
           Some first \<Rightarrow> [FieldError field ''duplicates report.roots[%d]'' [GInt (int first)]]
         | None \<Rightarrow>
             if srp_ReleaseAction r = StaleReleaseArchive then validateCategoryRoot p field rt
             else if \<not> IsCanonicalPath rt \<or> rt = ''/''
             then [FieldError field ''must be a canonical absolute directory path other than /, got %q'' [GStr rt]]
             else err_if (\<not> list_ex (\<lambda>c. rt_Path c = rt) (pol_Roots p)) field
               ''must be a configured inventory root, got %q'' [GStr rt])"

definition validateReportAlways :: "full_policy \<Rightarrow> field_errors" where
  "validateReportAlways p =
     (let r = fpl_Report p
      in err_if (srp_ReleaseAction r \<notin> {StaleReleaseNone, StaleReleaseArchive}) ''report.release_action''
           ''must be none or archive, got %q'' [GStr (staleRelease_str (srp_ReleaseAction r))]
       @ each (\<lambda>i c. err_if (wac_Name c = ReportReleaseCategory) (idx ''workspace_archive_categories'' i @ ''.name'')
           ''%q is reserved for archives of released report items'' [GStr ReportReleaseCategory]) (fpl_Categories p)
       @ err_if (srp_Idle r < minStaleReportIdle) ''report.idle'' ''must be at least %s, got %s''
           [GStr (IdleDuration_String minStaleReportIdle), GStr (IdleDuration_String (srp_Idle r))])"

definition validateReportArchive :: "full_policy \<Rightarrow> field_errors" where
  "validateReportArchive p =
     (let r = fpl_Report p; col = fpl_Collectors p
      in err_if (\<not> col_Processes col \<or> \<not> col_Git col \<or> \<not> col_Services col) ''report.release_action''
           ''archive requires the Git, process and service collectors; live-use and publication checks cannot be disabled'' []
       @ validateCategoryDestination p ''report.archive'' (srp_Archive r)
       @ validateCycleBounds ''report'' (srp_LocalRetention r) (srp_MaxItemsPerCycle r) (srp_MaxBytesPerItem r))"

definition validateStaleReport :: "full_policy \<Rightarrow> field_errors" where
  "validateStaleReport p =
     (let r = fpl_Report p
      in validateReportAlways p
       @ (if \<not> srp_Enabled r
          then err_if (srp_ReleaseAction r = StaleReleaseArchive) ''report.release_action''
                 ''archive requires report.enabled'' []
          else err_if (\<not> ValidRole (srp_CoordinatorRole r)) ''report.coordinator_role''
                 (''must name the role that receives unknown-owner entries: 1-64 letters, digits, '' @ [CHR 0x27] @ ''.''
                  @ [CHR 0x27] @ '', '' @ [CHR 0x27] @ ''_'' @ [CHR 0x27] @ '' or '' @ [CHR 0x27] @ ''-'' @ [CHR 0x27]
                  @ '' (not %q), got %q'') [GStr UnknownOwner, GStr (srp_CoordinatorRole r)]
             @ err_if (srp_Roots r = []) ''report.roots'' ''must name at least one configured inventory root'' []
             @ each (validateReportRoot p) (srp_Roots r)
             @ (if srp_ReleaseAction r \<noteq> StaleReleaseArchive then [] else validateReportArchive p)))"

end
