(* ===== verification/ConfigPolicy.thy ===== *)
theory ConfigPolicy
  imports ConfigValidate
begin

text \<open>
  \<open>Policy.Validate\<close>, continued: scratch directories, source-name approvals, the core sections, prevention, the model
  classifier, limits and collectors, and \<open>Validate\<close> itself, which appends them in the order of the source.
\<close>

section \<open>Scratch directories\<close>

definition validateScratchPath :: "full_policy \<Rightarrow> string \<Rightarrow> string \<Rightarrow> field_errors" where
  "validateScratchPath p field path =
     err_if (rawStateOrCredentialPath path) field
       ''raw runtime/session stores and credential containers cannot be scratch directories'' []
     @ concat (map (\<lambda>x. err_if (PathWithin path x) field ''lies inside protect.paths entry %q'' [GStr x])
         (pro_Paths (pol_Protect p)))
     @ concat (map (\<lambda>k. err_if (PathWithin path (wak_Path k)) field ''lies inside workspace_archive_keep path %q''
         [GStr (wak_Path k)]) (fpl_WorkspaceArchiveKeep p))
     @ concat (map (\<lambda>r. err_if (PathsOverlap path (rt_Path r)) field
         ''must not overlap inventory root %q; that root is already cleaned by plan/quarantine'' [GStr (rt_Path r)])
         (pol_Roots p))
     @ concat (map (\<lambda>(what, scope). err_if (scope \<noteq> '''' \<and> PathsOverlap path scope) field ''must not overlap %s %q''
         [GStr what, GStr scope]) (own_scopes p))
     @ concat (map (\<lambda>r. err_if (PathsOverlap path (wr_Path r) \<or> PathsOverlap path (wad_Directory (wr_Archive r))) field
         ''must not overlap workspace_archives rule %q'' [GStr (wr_Name r)]) (pol_WorkspaceArchives p))
     @ concat (map (\<lambda>c. err_if (PathsOverlap path (wcd_Directory (wac_Archive c))) field
         ''must not overlap category %q archive directory'' [GStr (wac_Name c)]) (fpl_Categories p))
     @ concat (map (\<lambda>c. err_if (PathsOverlap path (cr_Path c)) field ''must not overlap cache rule %q'' [GStr (cr_Name c)])
         (pol_Caches p))"

definition validateScratchTimes :: "string \<Rightarrow> scratch_cleanup \<Rightarrow> field_errors" where
  "validateScratchTimes field s =
     err_if (scl_Idle s < minScratchInterval) (field @ ''.idle'') ''must be at least %s, got %s''
       [GStr (IdleDuration_String minScratchInterval), GStr (IdleDuration_String (scl_Idle s))]
     @ (if scl_RegenerableEvery s \<noteq> 0
        then if scl_RegenerableEvery s < minRegenerableIdle
          then [FieldError (field @ ''.regenerable_every'') ''must be at least %s, got %s''
            [GStr (IdleDuration_String minRegenerableIdle), GStr (IdleDuration_String (scl_RegenerableEvery s))]]
          else if scl_RegenerableIdle s = 0
          then [FieldError (field @ ''.regenerable_every'') ''requires regenerable_idle'' []]
          else err_if (scl_Regenerable s = []) (field @ ''.regenerable_every'') ''requires regenerable patterns'' []
        else [])
     @ err_if (scl_RegenerableIdle s \<noteq> 0 \<and> scl_RegenerableIdle s < minRegenerableIdle) (field @ ''.regenerable_idle'')
         ''must be at least %s, got %s''
         [GStr (IdleDuration_String minRegenerableIdle), GStr (IdleDuration_String (scl_RegenerableIdle s))]
     @ err_if (scl_Every s < minScratchInterval) (field @ ''.every'') ''must be at least %s, got %s''
         [GStr (IdleDuration_String minScratchInterval), GStr (IdleDuration_String (scl_Every s))]"

definition validateScratchPatterns :: "string \<Rightarrow> string \<Rightarrow> string list \<Rightarrow> field_errors" where
  "validateScratchPatterns field name patterns =
     err_if (maxScratchPatterns < length patterns) (field @ ''.'' @ name) ''at most %d patterns are allowed''
       [GInt (int maxScratchPatterns)]
     @ each (\<lambda>j pattern. err_if (pattern = '''' \<or> Match pattern ''probe'' = None) (idx (field @ ''.'' @ name) j)
         ''must be a non-empty filepath.Match glob, got %q'' [GStr pattern]) patterns"

definition validateScratchArchive :: "full_policy \<Rightarrow> string \<Rightarrow> category_destination \<Rightarrow> field_errors" where
  "validateScratchArchive p field d =
     (let (errs, ok) = validateArchiveDirectory p (field @ ''.archive'') (wcd_Directory d) (wcd_ExpectMountSource d)
        (wcd_ExpectFSType d)
      in if \<not> ok then errs
         else errs
           @ concat (map (\<lambda>r. err_if (PathsOverlap (wcd_Directory d) (rt_Path r)) (field @ ''.archive.directory'')
               ''must be outside every inventory root, overlaps %q'' [GStr (rt_Path r)]) (pol_Roots p))
           @ concat (map (\<lambda>s. err_if (PathsOverlap (wcd_Directory d) (scl_Path s)) (field @ ''.archive.directory'')
               ''must be outside every scratch directory, overlaps %q'' [GStr (scl_Path s)]) (fpl_ScratchCleanup p))
           @ err_if (rawStateOrCredentialPath (wcd_Directory d)) (field @ ''.archive.directory'')
               ''raw runtime/session stores and credential containers cannot be archive destinations'' [])"

definition validateScratch :: "full_policy \<Rightarrow> nat \<Rightarrow> scratch_cleanup \<Rightarrow> field_errors" where
  "validateScratch p i s =
     (let field = idx ''scratch_cleanup'' i
      in (if \<not> IsCanonicalPath (scl_Path s) \<or> scl_Path s = ''/''
          then [FieldError (field @ ''.path'') ''must be a canonical absolute directory path other than /, got %q''
            [GStr (scl_Path s)]]
          else each (\<lambda>j other. err_if (IsCanonicalPath (scl_Path other) \<and> PathsOverlap (scl_Path s) (scl_Path other))
                 (field @ ''.path'') ''overlaps scratch_cleanup[%d].path %q'' [GInt (int j), GStr (scl_Path other)])
                 (take i (fpl_ScratchCleanup p))
             @ validateScratchPath p (field @ ''.path'') (scl_Path s))
       @ validateScratchTimes field s
       @ validateScratchPatterns field ''skip'' (scl_Skip s)
       @ validateScratchPatterns field ''regenerable'' (scl_Regenerable s)
       @ validateScratchArchive p field (scl_Archive s)
       @ err_if (scl_MaxEntries s < 1) (field @ ''.max_entries'') ''must be at least 1, got %d'' [GInt (scl_MaxEntries s)]
       @ err_if (sint (scl_MaxBytesPerRun s) < 0) (field @ ''.max_bytes_per_run'')
           ''must be zero (no bound) or positive, got %d'' [GInt (sint (scl_MaxBytesPerRun s))])"

definition validateScratchCleanup :: "full_policy \<Rightarrow> field_errors" where
  "validateScratchCleanup p =
     (let ss = fpl_ScratchCleanup p; col = fpl_Collectors p
      in if ss = [] then []
         else err_if (maxScratchCleanups < length ss) ''scratch_cleanup''
                ''at most %d scratch directories are allowed'' [GInt (int maxScratchCleanups)]
            @ err_if (\<not> col_Processes col \<or> \<not> IsCanonicalPath (col_ProcRoot col)) ''scratch_cleanup''
                ''requires the process collector and a procfs root; live-use checks cannot be disabled'' []
            @ each (validateScratch p) ss)"

section \<open>Source-name approvals\<close>

text \<open>A remote is a canonical local path or an HTTPS URL without credentials, query and fragment.\<close>

definition exact_remote :: "config_env \<Rightarrow> string \<Rightarrow> bool" where
  "exact_remote env remote \<longleftrightarrow>
     IsCanonicalPath remote
     \<or> (case cfe_ParseURL env remote of
          None \<Rightarrow> False
        | Some u \<Rightarrow> url_Scheme u = ''https'' \<and> url_Host u \<noteq> '''' \<and> \<not> url_HasUser u \<and> url_RawQuery u = ''''
            \<and> url_Fragment u = '''' \<and> url_Path u \<noteq> '''')"

definition approval_key :: "source_name_approval \<Rightarrow> string" where
  "approval_key a = sna_Repository a @ [CHR 0x00] @ sna_Path a @ [CHR 0x00] @ sna_NamePattern a"

definition validateSourceName ::
    "config_env \<Rightarrow> full_policy \<Rightarrow> source_name_approval_policy \<Rightarrow> nat \<Rightarrow> source_name_approval \<Rightarrow> field_errors" where
  "validateSourceName env p approvals i a =
     (let field = idx ''source_name_approvals.files'' i
      in err_if (\<not> IsCanonicalPath (sna_Repository a)) (field @ ''.repository'')
           ''must be the canonical absolute original checkout path'' []
       @ err_if (\<not> SourceApprovalPath (sna_Path a)) (field @ ''.path'')
           ''must be an exact relative ordinary source/documentation path, not a secret container or database'' []
       @ err_if (\<not> exact_remote env (sna_Remote a)) (field @ ''.remote'')
           ''must be an exact credential-free HTTPS origin URL or canonical local origin path'' []
       @ err_if (\<not> sourceApprovalHex (sna_Commit a) [40, 64] \<or> \<not> sourceApprovalHex (sna_Blob a) [length (sna_Commit a)]
           \<or> \<not> sourceApprovalHex (sna_SHA256 a) [64]) field
           ''requires full lowercase Git commit/blob object IDs and a SHA-256 content digest'' []
       @ err_if (Match (sna_NamePattern a) (Base (sna_Path a)) \<noteq> Some True
           \<or> sna_NamePattern a \<notin> set (pro_NamePatterns (pol_Protect p))) (field @ ''.name_pattern'')
           ''must name an existing protected-name pattern matching this file'' []
       @ err_if (sna_Reviewer a \<notin> set (snp_Reviewers approvals) \<or> blank (sna_Reviewer a)) (field @ ''.reviewer'')
           ''must be an explicitly authorized source-name reviewer'' []
       @ err_if (blank (sna_Record a) \<or> 2048 < length (sna_Record a)
           \<or> ContainsAny (sna_Record a) [CHR 0x00, CHR 0x0D, CHR 0x0A]) (field @ ''.record'')
           ''must reference the exact authorized source-content review, without embedding contents'' []
       @ err_if (sna_Generation a \<noteq> snp_Generation approvals) (field @ ''.generation'')
           ''must match the current source-name approval policy generation'' []
       @ err_if (sna_ReviewedAt a = time_zero \<or> \<not> sna_ReviewedAt a < sna_ExpiresAt a) (field @ ''.expires_at'')
           ''must be later than an explicit reviewed_at timestamp'' []
       @ err_if (earlier approval_key (snp_Files approvals) i a \<noteq> None) field
           ''duplicates an approval for the same repository, file and protected-name pattern'' [])"

definition validateSourceNameApprovals :: "config_env \<Rightarrow> full_policy \<Rightarrow> field_errors" where
  "validateSourceNameApprovals env p =
     (case fpl_SourceNameApprovals p of
        None \<Rightarrow> []
      | Some approvals \<Rightarrow>
          err_if (blank (snp_Generation approvals) \<or> 128 < length (snp_Generation approvals))
            ''source_name_approvals.generation'' ''must name a nonempty policy generation of at most 128 bytes'' []
          @ err_if (64 < length (snp_Files approvals) \<or> 64 < length (snp_Reviewers approvals)) ''source_name_approvals''
              ''at most 64 reviewed files and 64 reviewers are allowed'' []
          @ each (\<lambda>i r. err_if (blank r \<or> 256 < length r \<or> earlier id (snp_Reviewers approvals) i r \<noteq> None)
              (idx ''source_name_approvals.reviewers'' i)
              ''must be a unique nonempty authorized issuer of at most 256 bytes'' []) (snp_Reviewers approvals)
          @ each (validateSourceName env p approvals) (snp_Files approvals))"

section \<open>The core sections\<close>

definition PolicyVersion :: int where "PolicyVersion = 1"

definition validateRoot :: "full_policy \<Rightarrow> nat \<Rightarrow> root_policy \<Rightarrow> field_errors" where
  "validateRoot p i r =
     (let field = idx ''roots'' i
      in (if \<not> IsCanonicalPath (rt_Path r)
          then [FieldError (field @ ''.path'') ''must be an absolute path, got %q'' [GStr (rt_Path r)]]
          else case earlier rt_Path (pol_Roots p) i r of
            None \<Rightarrow> []
          | Some first \<Rightarrow> [FieldError (field @ ''.path'') ''duplicates roots[%d].path %q''
              [GInt (int first), GStr (rt_Path r)]])
       @ err_if (rt_MaxDepth r < 0) (field @ ''.max_depth'') ''must not be negative, got %d'' [GInt (rt_MaxDepth r)]
       @ err_if (rt_ArchiveOnly r \<and> rt_ReportOnly r) (field @ ''.archive_only'')
           ''cannot be combined with report_only; archive_only is already report-only for every ordinary rule'' []
       @ err_if (64 < rt_MaxDepth r) (field @ ''.max_depth'') ''must be at most 64, got %d'' [GInt (rt_MaxDepth r)])"

definition validatePattern :: "string \<Rightarrow> string \<Rightarrow> field_errors" where
  "validatePattern field pattern =
     (if pattern = '''' then [FieldError field ''must not be empty'' []]
      else err_if (Match pattern ''probe'' = None) field ''invalid pattern %q: %v''
        [GStr pattern, GStr ''syntax error in pattern''])"

definition validateProtect :: "full_policy \<Rightarrow> field_errors" where
  "validateProtect p =
     each (\<lambda>i path. err_if (\<not> IsCanonicalPath path) (idx ''protect.paths'' i) ''must be an absolute path, got %q''
       [GStr path]) (pro_Paths (pol_Protect p))
     @ each (\<lambda>i pattern. validatePattern (idx ''protect.name_patterns'' i) pattern) (pro_NamePatterns (pol_Protect p))"

definition validateRetention :: "full_policy \<Rightarrow> field_errors" where
  "validateRetention p =
     (let r = pol_Retention p
      in err_if (\<not> retention_Valid (rpol_Default r)) ''retention.default'' ''unknown retention %q (allowed: %s)''
           [GStr (retention_str (rpol_Default r)), GStr joinRetentions]
       @ err_if (rpol_QuarantineDir r \<noteq> '''' \<and> \<not> IsCanonicalPath (rpol_QuarantineDir r)) ''retention.quarantine_dir''
           ''must be an absolute path, got %q'' [GStr (rpol_QuarantineDir r)])"

definition no_recovery :: cache_recovery where
  "no_recovery = \<lparr>crec_Owner = '''', crec_Approval = '''', crec_RebuildCost = '''', crec_MaxPruneBytes = 0, crec_MinIdle = 0\<rparr>"

definition validateCache :: "full_policy \<Rightarrow> nat \<Rightarrow> cache_rule \<Rightarrow> field_errors" where
  "validateCache p i c =
     (let field = idx ''caches'' i; r = cr_Recovery c
      in (if cr_Name c = '''' then [FieldError (field @ ''.name'') ''must not be empty'' []]
          else case earlier cr_Name (pol_Caches p) i c of
            None \<Rightarrow> []
          | Some first \<Rightarrow> [FieldError (field @ ''.name'') ''duplicates caches[%d].name %q''
              [GInt (int first), GStr (cr_Name c)]])
       @ err_if (\<not> IsCanonicalPath (cr_Path c)) (field @ ''.path'') ''must be an absolute path, got %q'' [GStr (cr_Path c)]
       @ (if \<not> actionKind_Valid (cr_Action c)
          then [FieldError (field @ ''.action'') ''unknown action kind %q'' [GStr (actionKind_str (cr_Action c))]]
          else err_if (cr_Action c = ActionRelocate) (field @ ''.action'') ''relocate is not a valid cache action'' [])
       @ err_if (\<not> retention_Valid (cr_Retention c)) (field @ ''.retention'') ''unknown retention %q (allowed: %s)''
           [GStr (retention_str (cr_Retention c)), GStr joinRetentions]
       @ (if cr_Dedicated c
          then err_if (cr_Action c \<noteq> ActionDeleteCandidate) (field @ ''.action'')
                 ''dedicated official prune requires delete_candidate'' []
             @ err_if (\<not> IsCanonicalPath (cr_OfficialBinary c)) (field @ ''.official_binary'')
                 ''dedicated official prune requires an absolute executable path'' []
          else err_if (cr_OfficialBinary c \<noteq> '''') (field @ ''.official_binary'')
                 ''official binary requires dedicated: true'' [])
       @ (if r \<noteq> no_recovery
          then err_if (\<not> cr_Dedicated c \<or> blank (crec_Owner r) \<or> blank (crec_Approval r) \<or> blank (crec_RebuildCost r))
                 (field @ ''.recovery'') ''requires a dedicated cache, owner, approval reference, and rebuild cost'' []
             @ err_if (sint (crec_MaxPruneBytes r) \<le> 0 \<or> crec_MinIdle r < nanosecond_hour) (field @ ''.recovery'')
                 ''requires positive max_prune_bytes and min_idle of at least 1h'' []
          else []))"

definition validateGitmoot :: "full_policy \<Rightarrow> field_errors" where
  "validateGitmoot p =
     (let g = pol_Gitmoot p
      in err_if (gm_Home g \<noteq> '''' \<and> \<not> IsCanonicalPath (gm_Home g)) ''gitmoot.home''
           ''must be an absolute path, got %q'' [GStr (gm_Home g)]
       @ err_if (gm_Database g \<noteq> '''' \<and> \<not> IsCanonicalPath (gm_Database g)) ''gitmoot.database''
           ''must be an absolute path, got %q'' [GStr (gm_Database g)])"

definition validateCacheBounds :: "nat \<Rightarrow> cache_rule \<Rightarrow> field_errors" where
  "validateCacheBounds i c =
     err_if (sint (cr_MaxBytes c) < 0) (idx ''caches'' i @ ''.max_bytes'') ''must not be negative'' []
     @ err_if (cr_TTL c < 0) (idx ''caches'' i @ ''.ttl'') ''must not be negative'' []"

section \<open>Prevention\<close>

definition minute :: duration where "minute = 60000000000"
definition second :: duration where "second = 1000000000"

definition validateRecovery :: "full_policy \<Rightarrow> field_errors" where
  "validateRecovery p =
     (let r = prv_Recovery (fpl_Prevention p); col = fpl_Collectors p
      in if \<not> rvp_Enabled r then []
         else err_if (prv_Targets (fpl_Prevention p) = [] \<or> rvp_MaxStores r < 1 \<or> 16 < rvp_MaxStores r
                \<or> sint (rvp_MaxBytes r) \<le> 0 \<or> rvp_Interval r < nanosecond_hour
                \<or> rvp_TimeBudget r \<le> 0 \<or> nanosecond_hour < rvp_TimeBudget r) ''prevention.recovery''
                ''requires capacity targets, max_stores 1..16, positive max_bytes, interval >=1h, and time_budget in (0,1h]'' []
            @ err_if (\<not> col_Git col \<or> \<not> col_Processes col \<or> \<not> col_Services col) ''prevention.recovery''
                ''requires Git, process, and service collectors; active-use checks cannot be disabled'' [])"

definition validateTrim :: "full_policy \<Rightarrow> nat \<Rightarrow> cache_trim \<Rightarrow> field_errors" where
  "validateTrim p i t =
     (let field = idx ''prevention.cache_trims'' i
      in (if ctr_Kind t = CacheTrimGoBuild
          then err_if (\<not> IsCanonicalPath (ctr_Path t) \<or> ctr_Path t = ''/'') (field @ ''.path'')
                 ''go-build requires the absolute cache directory'' []
          else if ctr_Kind t = CacheTrimDockerBuilder
          then err_if (ctr_Path t \<noteq> '''') (field @ ''.path'')
                 ''docker-builder takes no path; Docker owns its build cache location'' []
          else [FieldError (field @ ''.kind'') ''must be go-build or docker-builder'' []])
       @ concat (map (\<lambda>r. err_if (rt_ArchiveOnly r \<and> PathsOverlap (TrimTarget t) (rt_Path r)) (field @ ''.path'')
           ''overlaps archive_only root %q; only an archive category may remove data there'' [GStr (rt_Path r)]) (pol_Roots p))
       @ err_if (earlier (\<lambda>t. ctr_Kind t @ [CHR 0x00] @ ctr_Path t) (prv_CacheTrims (fpl_Prevention p)) i t \<noteq> None) field
           ''duplicates an earlier cache trim'' []
       @ err_if (\<not> IsCanonicalPath (ctr_Binary t)) (field @ ''.binary'') ''must be an absolute executable path'' []
       @ err_if (sint (ctr_MaxBytes t) \<le> 0) (field @ ''.max_bytes'') ''must be positive'' [])"

definition validateTarget :: "full_policy \<Rightarrow> nat \<Rightarrow> capacity_target \<Rightarrow> field_errors" where
  "validateTarget p i t =
     (let field = idx ''prevention.targets'' i
      in err_if (\<not> list_ex (\<lambda>r. tgt_Path t = rt_Path r) (pol_Roots p)
           \<or> earlier tgt_Path (prv_Targets (fpl_Prevention p)) i t \<noteq> None) (field @ ''.path'')
           ''must name a configured root exactly once'' []
       @ err_if (sint (tgt_TargetFreeBytes t) \<le> 0 \<or> sint (tgt_ReserveFreeBytes t) < 0
           \<or> sint (tgt_TargetFreeBytes t) < sint (tgt_ReserveFreeBytes t)) field
           ''target_free_bytes must be positive and reserve_free_bytes between zero and target'' []
       @ err_if (sint (tgt_RecoveryMarginBytes t) < 0
           \<or> sint ((0x7FFFFFFFFFFFFFFF :: int64) - tgt_RecoveryMarginBytes t) < sint (tgt_TargetFreeBytes t)) (field @ ''.recovery_margin_bytes'')
           ''must be nonnegative and target plus margin must fit in int64'' [])"

definition validatePrevention :: "full_policy \<Rightarrow> field_errors" where
  "validatePrevention p =
     (let v = fpl_Prevention p
      in validateRecovery p
       @ err_if (prv_DeepInterval v \<le> 0) ''prevention.deep_interval'' ''must be greater than zero'' []
       @ err_if (sint (prv_MinFreeBytes v) < 0) ''prevention.min_free_bytes'' ''must not be negative'' []
       @ err_if (prv_MinFreePercent v < 0 \<or> 100 < prv_MinFreePercent v) ''prevention.min_free_percent''
           ''must be between 0 and 100'' []
       @ err_if (prv_AlertInterval v \<le> 0) ''prevention.alert_interval'' ''must be greater than zero'' []
       @ err_if (prv_CacheTrimInterval v < minute \<or> 2 * nanosecond_hour < prv_CacheTrimInterval v)
           ''prevention.cache_trim_interval'' ''must be between 1m and 2h'' []
       @ err_if (prv_CapacityInterval v < second \<or> nanosecond_hour < prv_CapacityInterval v)
           ''prevention.capacity_interval'' ''must be between 1s and 1h'' []
       @ err_if (64 < length (prv_Targets v)) ''prevention.targets'' ''at most 64 roots may have capacity targets'' []
       @ each (validateTrim p) (prv_CacheTrims v)
       @ each (validateTarget p) (prv_Targets v))"

section \<open>The model classifier\<close>

definition openRouterSystemOneEndpoint :: string where
  "openRouterSystemOneEndpoint = ''https://openrouter.ai/api/v1/systemone''"

definition validateEndpoint :: "config_env \<Rightarrow> string \<Rightarrow> string option" where
  "validateEndpoint env raw =
     (let bad = Some ''must be the OpenRouter System One endpoint or loopback HTTP''
      in if raw = openRouterSystemOneEndpoint then None
         else case cfe_ParseURL env raw of
           None \<Rightarrow> bad
         | Some u \<Rightarrow>
             if url_Host u = '''' \<or> url_HasUser u \<or> url_Fragment u \<noteq> '''' then bad
             else if url_Scheme u = ''http'' \<and> (url_Hostname u = ''localhost'' \<or> cfe_Loopback env (url_Hostname u)) then None
             else bad)"

definition validateJev :: "config_env \<Rightarrow> jev_policy \<Rightarrow> field_errors" where
  "validateJev env j =
     (case validateEndpoint env (jev_Endpoint j) of None \<Rightarrow> [] | Some e \<Rightarrow> [FieldError ''jev.endpoint'' ''%v'' [GStr e]])
     @ err_if (jev_Model j \<noteq> ''~typesafe/jev-latest'') ''jev.model''
         ''must use the OpenRouter rolling alias ~typesafe/jev-latest, got %q'' [GStr (jev_Model j)]
     @ err_if (\<not> isEnvName (jev_APIKeyEnv j)) ''jev.api_key_env'' ''must name an environment variable, got %q''
         [GStr (jev_APIKeyEnv j)]
     @ err_if (jev_MaxStateTokens j \<le> 0 \<or> 28000 < jev_MaxStateTokens j) ''jev.max_state_tokens''
         ''must be within (0, 28000], the bounded request budget; got %d'' [GInt (jev_MaxStateTokens j)]
     @ err_if (jev_Timeout j \<le> 0) ''jev.timeout'' ''must be greater than zero, got %s'' [GStr (show_duration (jev_Timeout j))]
     @ err_if (jev_MaxRetries j < 0 \<or> 5 < jev_MaxRetries j) ''jev.max_retries'' ''must be within [0, 5], got %d''
         [GInt (jev_MaxRetries j)]
     @ err_if (jev_MinInterval j < 0) ''jev.min_interval'' ''must not be negative, got %s''
         [GStr (show_duration (jev_MinInterval j))]
     @ err_if (jev_BreakerFailures j \<le> 0) ''jev.breaker_failures'' ''must be greater than zero, got %d''
         [GInt (jev_BreakerFailures j)]
     @ err_if (float_lt (jev_MinConfidence j) (Fin 0) \<or> float_lt (Fin 1) (jev_MinConfidence j)) ''jev.min_confidence''
         ''must be within [0, 1], got %v'' [GFlt (jev_MinConfidence j)]
     @ err_if (float_lt (jev_MaxUnsafe j) (Fin 0) \<or> float_lt (Fin 1) (jev_MaxUnsafe j)) ''jev.max_unsafe''
         ''must be within [0, 1], got %v'' [GFlt (jev_MaxUnsafe j)]
     @ err_if (float_lt (jev_PricePerMTokUSD j) (Fin 0)) ''jev.price_per_mtok_usd'' ''must not be negative, got %v''
         [GFlt (jev_PricePerMTokUSD j)]
     @ err_if (jev_CacheTTL j \<le> 0) ''jev.cache_ttl'' ''must be greater than zero, got %s''
         [GStr (show_duration (jev_CacheTTL j))]"

section \<open>Limits, classes, names and collectors\<close>

definition validateLimits :: "full_policy \<Rightarrow> field_errors" where
  "validateLimits p =
     (let l = fpl_Limits p
      in err_if (lim_GitTimeout l \<le> 0) ''limits.git_timeout'' ''must be greater than zero, got %s''
           [GStr (show_duration (lim_GitTimeout l))]
       @ err_if (lim_CommandTimeout l \<le> 0) ''limits.command_timeout'' ''must be greater than zero, got %s''
           [GStr (show_duration (lim_CommandTimeout l))]
       @ concat (map (\<lambda>(field, v). err_if (v \<le> 0) field ''must be greater than zero, got %d'' [GInt v])
           [(''limits.max_entries'', lim_MaxEntries l), (''limits.max_dir_entries'', lim_MaxDirEntries l),
            (''limits.deep_size_max_entries'', lim_DeepSizeMaxEntries l),
            (''limits.deep_size_max_depth'', lim_DeepSizeMaxDepth l),
            (''limits.dependent_index_max_entries'', lim_DependentIndexMaxEntries l)]))"

definition validateCanonicalRoot :: "full_policy \<Rightarrow> nat \<Rightarrow> canonical_root \<Rightarrow> field_errors" where
  "validateCanonicalRoot p i r =
     (let field = idx ''canonical_roots'' i; class = artifactClass_str (crt_Class r)
      in (if \<not> artifactClass_Valid (crt_Class r)
          then [FieldError (field @ ''.class'') ''unknown artifact class %q'' [GStr class]]
          else case earlier crt_Class (pol_CanonicalRoots p) i r of
            None \<Rightarrow> []
          | Some first \<Rightarrow> [FieldError (field @ ''.class'') ''duplicates canonical_roots[%d].class %q''
              [GInt (int first), GStr class]])
       @ err_if (\<not> IsCanonicalPath (crt_Path r)) (field @ ''.path'') ''must be an absolute path, got %q'' [GStr (crt_Path r)])"

definition validateMarker :: "nat \<Rightarrow> string \<Rightarrow> field_errors" where
  "validateMarker i marker =
     (let field = idx ''classification.project_markers'' i
      in if marker = '''' then [FieldError field ''must not be empty'' []]
         else if ContainsAny marker [CHR ''*'', CHR ''?'', CHR ''['']
         then [FieldError field (''must be a literal file name, got the pattern %q: ''
           @ ''markers are detected with a single lstat, so a glob would never match'') [GStr marker]]
         else if marker = ''.'' \<or> marker = ''..'' \<or> marker = ''/''
         then [FieldError field
           ''must be a plain file name inside the directory, got %q, which would match every directory'' [GStr marker]]
         else err_if (\<not> validMarkerName marker) field
           ''must be a plain file name inside the directory, got %q'' [GStr marker])"

definition validateClassification :: "full_policy \<Rightarrow> field_errors" where
  "validateClassification p =
     (let c = pol_Classification p
      in each validateMarker (cls_ProjectMarkers c)
       @ concat (map (\<lambda>(field, patterns). each (\<lambda>i pattern. validatePattern (idx field i) pattern) patterns)
           [(''classification.worktree_markers'', cls_WorktreeMarkers c),
            (''classification.generated_names'', cls_GeneratedNames c),
            (''classification.cache_names'', cls_CacheNames c), (''classification.backup_names'', cls_BackupNames c),
            (''classification.operational_names'', cls_OperationalNames c),
            (''classification.evidence_names'', cls_EvidenceNames c)]))"

definition validateCollectors :: "full_policy \<Rightarrow> field_errors" where
  "validateCollectors p =
     (let c = fpl_Collectors p
      in err_if (col_Processes c \<and> \<not> IsCanonicalPath (col_ProcRoot c)) ''collectors.proc_root''
           ''must be an absolute path while collectors.processes is true, got %q'' [GStr (col_ProcRoot c)]
       @ concat (map (\<lambda>(field, values). each (\<lambda>i value. err_if (\<not> IsCanonicalPath value) (idx field i)
             ''must be an absolute path, got %q'' [GStr value]) values)
           [(''collectors.systemd_dirs'', col_SystemdDirs c), (''collectors.cron_paths'', col_CronPaths c),
            (''collectors.pm2_dumps'', col_PM2Dumps c), (''collectors.config_files'', col_ConfigFiles c),
            (''collectors.stagehand_dirs'', col_StagehandDirs c)])
       @ err_if (col_StagehandStateDir c \<noteq> '''' \<and> \<not> IsCanonicalPath (col_StagehandStateDir c))
           ''collectors.stagehand_state_dir'' ''must be an absolute path, got %q'' [GStr (col_StagehandStateDir c)])"

section \<open>Validate\<close>

definition Validate :: "config_env \<Rightarrow> full_policy \<Rightarrow> field_errors" where
  "Validate env p =
     validateEvidenceExports env p
     @ validateWorkspaceArchives p
     @ validateWorkspaceArchiveCategories p
     @ validateStaleReport p
     @ validateScratchCleanup p
     @ validateSourceNameApprovals env p
     @ err_if (pol_Version p \<noteq> PolicyVersion) ''version'' ''must be %d, got %d'' [GInt PolicyVersion, GInt (pol_Version p)]
     @ err_if (pol_Roots p = []) ''roots'' ''must declare at least one discovery root'' []
     @ each (validateRoot p) (pol_Roots p)
     @ validateProtect p
     @ validateRetention p
     @ each (validateCache p) (pol_Caches p)
     @ validateGitmoot p
     @ each validateCacheBounds (pol_Caches p)
     @ validatePrevention p
     @ err_if (jev_Enabled (fpl_Jev p) \<and> jev_Model (fpl_Jev p) = '''') ''jev.model''
         ''must be set when jev.enabled is true'' []
     @ err_if (jev_MaxBatch (fpl_Jev p) \<le> 0) ''jev.max_batch'' ''must be greater than zero, got %d''
         [GInt (jev_MaxBatch (fpl_Jev p))]
     @ validateJev env (fpl_Jev p)
     @ each (\<lambda>i segment. err_if (segment = '''') (idx ''jev.redact_segments'' i) ''must not be empty'' [])
         (jev_RedactSegments (fpl_Jev p))
     @ validateLimits p
     @ each (validateCanonicalRoot p) (pol_CanonicalRoots p)
     @ validateClassification p
     @ err_if (sint (sfs_MinFreeBytes (pol_Safety p)) < 0) ''safety.min_free_bytes'' ''must not be negative, got %d''
         [GInt (sint (sfs_MinFreeBytes (pol_Safety p)))]
     @ validateCollectors p"

end
