(* ===== verification/ConfigLoad.thy ===== *)
theory ConfigLoad
  imports ConfigPolicy "HOL-Library.State_Monad"
begin

text \<open>
  \<open>internal/config\<close>: the locations of a run (\<open>ResolvePaths\<close>), the built-in policy, the normalization of a decoded
  document, and loading.  \<open>expand\<close> collects errors as it goes, so a normalization step is a computation in the
  state monad over the errors so far.  The environment, the content of the policy file and the YAML decoder are
  parameters; creating directories is not modelled.
\<close>

section \<open>Paths of a run\<close>

datatype origin = OriginFlag | OriginEnv | OriginXDG | OriginDefault | OriginDerived | OriginUnset

record path_origins =
  org_ConfigDir :: origin
  org_StateDir :: origin
  org_CacheDir :: origin
  org_PolicyFile :: origin

record paths =
  pth_Home :: string
  pth_ConfigDir :: string
  pth_StateDir :: string
  pth_CacheDir :: string
  pth_PolicyFile :: string
  pth_DatabaseFile :: string
  pth_QuarantineDir :: string
  pth_Origins :: path_origins

record overrides =
  ovr_ConfigDir :: string
  ovr_StateDir :: string
  ovr_CacheDir :: string
  ovr_PolicyFile :: string

datatype config_error = ConfigError (cer_Scope: string) (cer_Errors: field_errors) | ReadError string

type_synonym 'a expanding = "(field_errors, 'a) state"

definition AppName :: string where "AppName = ''workspace-janitor''"
definition EnvHome :: string where "EnvHome = ''HOME''"

definition envValue :: "(string \<Rightarrow> string option) \<Rightarrow> string \<Rightarrow> string option" where
  "envValue look key =
     (case look key of
        None \<Rightarrow> None
      | Some raw \<Rightarrow> if TrimSpace raw = '''' then None else Some (TrimSpace raw))"

definition add_error :: "string \<Rightarrow> string \<Rightarrow> goval list \<Rightarrow> unit expanding" where
  "add_error field fmt args = State_Monad.update (\<lambda>errs. errs @ [FieldError field fmt args])"

definition checkAbs :: "string \<Rightarrow> string \<Rightarrow> string expanding" where
  "checkAbs field v =
     (if \<not> IsAbs (Clean v)
      then do { _ \<leftarrow> add_error field ''must be an absolute path, got %q'' [GStr v]; State_Monad.return '''' }
      else State_Monad.return (Clean v))"

text \<open>\<open>home\<close> is \<open>None\<close> when \<open>HOME\<close> is unset, blank or relative.\<close>

definition resolve ::
    "(string \<Rightarrow> string option) \<Rightarrow> string option \<Rightarrow> string \<Rightarrow> string \<Rightarrow> string \<Rightarrow> string \<Rightarrow> string \<Rightarrow> string list
       \<Rightarrow> (string \<times> origin) expanding" where
  "resolve look home field override envKey xdgKey xdgSuffix homeSuffix =
     (if TrimSpace override \<noteq> '''' then do { v \<leftarrow> checkAbs field (TrimSpace override); State_Monad.return (v, OriginFlag) }
      else case envValue look envKey of
        Some v \<Rightarrow> do { w \<leftarrow> checkAbs envKey v; State_Monad.return (w, OriginEnv) }
      | None \<Rightarrow>
          (case envValue look xdgKey of
             Some v \<Rightarrow> do { w \<leftarrow> checkAbs xdgKey (Join [v, xdgSuffix]); State_Monad.return (w, OriginXDG) }
           | None \<Rightarrow>
               (case home of
                  None \<Rightarrow> do {
                    _ \<leftarrow> add_error field ''cannot be resolved: set --%s, %s, %s, or %s''
                      [GStr field, GStr envKey, GStr xdgKey, GStr EnvHome];
                    State_Monad.return ('''', OriginDefault) }
                | Some h \<Rightarrow> State_Monad.return (Join (h # homeSuffix), OriginDefault))))"

definition resolve_policy_file ::
    "(string \<Rightarrow> string option) \<Rightarrow> string \<Rightarrow> string \<Rightarrow> (string \<times> origin) expanding" where
  "resolve_policy_file look override configDir =
     (if TrimSpace override \<noteq> ''''
      then do { v \<leftarrow> checkAbs ''policy'' (TrimSpace override); State_Monad.return (v, OriginFlag) }
      else case envValue look ''JANITOR_POLICY'' of
        Some v \<Rightarrow> do { w \<leftarrow> checkAbs ''JANITOR_POLICY'' v; State_Monad.return (w, OriginEnv) }
      | None \<Rightarrow>
          if configDir \<noteq> '''' then State_Monad.return (Join [configDir, ''policy.yaml''], OriginDerived)
          else State_Monad.return ('''', OriginUnset))"

definition resolve_home :: "(string \<Rightarrow> string option) \<Rightarrow> (string \<times> string option) expanding" where
  "resolve_home look =
     (case envValue look EnvHome of
        None \<Rightarrow> State_Monad.return ('''', None)
      | Some h \<Rightarrow>
          if \<not> IsAbs h
          then do {
            _ \<leftarrow> add_error EnvHome ''must be an absolute path, got %q'' [GStr h];
            State_Monad.return (h, None) }
          else State_Monad.return (h, Some h))"

definition resolved_paths :: "(string \<Rightarrow> string option) \<Rightarrow> overrides \<Rightarrow> paths expanding" where
  "resolved_paths look ov = do {
     (home, known) \<leftarrow> resolve_home look;
     (config, configOrigin) \<leftarrow> resolve look known ''config-dir'' (ovr_ConfigDir ov) ''JANITOR_CONFIG_DIR''
       ''XDG_CONFIG_HOME'' AppName [''.config'', AppName];
     (st, stateOrigin) \<leftarrow> resolve look known ''state-dir'' (ovr_StateDir ov) ''JANITOR_STATE_DIR''
       ''XDG_STATE_HOME'' AppName [''.local'', ''state'', AppName];
     (cache, cacheOrigin) \<leftarrow> resolve look known ''cache-dir'' (ovr_CacheDir ov) ''JANITOR_CACHE_DIR''
       ''XDG_CACHE_HOME'' AppName [''.cache'', AppName];
     (file, fileOrigin) \<leftarrow> resolve_policy_file look (ovr_PolicyFile ov) config;
     State_Monad.return
       \<lparr>pth_Home = home, pth_ConfigDir = config, pth_StateDir = st, pth_CacheDir = cache, pth_PolicyFile = file,
        pth_DatabaseFile = (if st \<noteq> '''' then Join [st, ''janitor.db''] else ''''),
        pth_QuarantineDir = (if st \<noteq> '''' then Join [st, ''quarantine''] else ''''),
        pth_Origins = \<lparr>org_ConfigDir = configOrigin, org_StateDir = stateOrigin, org_CacheDir = cacheOrigin,
          org_PolicyFile = fileOrigin\<rparr>\<rparr> }"

definition ResolvePaths ::
    "(go_float \<Rightarrow> string) \<Rightarrow> (string \<Rightarrow> string option) option \<Rightarrow> overrides \<Rightarrow> config_error + paths" where
  "ResolvePaths ff lookup ov =
     (case lookup of
        None \<Rightarrow> Inl (ReadError ''config: environment lookup must not be nil'')
      | Some look \<Rightarrow>
          (let (p, errs) = run_state (resolved_paths look ov) []
           in case ErrorOrNil errs of
                None \<Rightarrow> Inr p
              | Some es \<Rightarrow> Inl (ConfigError ''paths'' (Sorted ff es))))"

definition ExpandPath :: "string \<Rightarrow> string \<Rightarrow> string + string" where
  "ExpandPath raw home =
     (let p = TrimSpace raw
      in if p = '''' then Inl ''path must not be empty''
         else if p = ''~''
         then (if home = '''' then Inl (''cannot expand '' @ quote p @ '': no home directory is configured'')
               else Inr (Clean home))
         else if HasPrefix p ''~/''
         then (if home = '''' then Inl (''cannot expand '' @ quote p @ '': no home directory is configured'')
               else Inr (Join [home, drop 2 p]))
         else if HasPrefix p ''~'' then Inl (''cannot expand '' @ quote p @ '': only ~ and ~/ are supported'')
         else Inr (Clean p))"

section \<open>The built-in policy\<close>

definition default_jev :: jev_policy where
  "default_jev =
     \<lparr>jev_Enabled = False, jev_Model = ''~typesafe/jev-latest'', jev_Endpoint = openRouterSystemOneEndpoint,
      jev_APIKeyEnv = ''OPENROUTER_API_KEY'', jev_MaxBatch = 20, jev_MaxStateTokens = 24000,
      jev_Timeout = 20 * second, jev_MaxRetries = 2, jev_MinInterval = 100000000, jev_BreakerFailures = 3,
      jev_MinConfidence = Fin (3152519739159347 / 4503599627370496),
      jev_MaxUnsafe = Fin (3602879701896397 / 18014398509481984),
      jev_PricePerMTokUSD = Fin (6052837899185947 / 144115188075855872),
      jev_CacheTTL = 30 * 24 * nanosecond_hour, jev_RedactSegments = []\<rparr>"

definition default_limits :: limits_policy where
  "default_limits =
     \<lparr>lim_GitTimeout = 5 * second, lim_CommandTimeout = 10 * second, lim_MaxEntries = 20000, lim_MaxDirEntries = 5000,
      lim_DeepSizeMaxEntries = 200000, lim_DeepSizeMaxDepth = 16, lim_DependentIndexMaxEntries = 5000000\<rparr>"

definition default_prevention :: prevention_policy where
  "default_prevention =
     \<lparr>prv_DeepInterval = 7 * 24 * nanosecond_hour, prv_MinFreeBytes = 0, prv_MinFreePercent = 10,
      prv_AlertInterval = 24 * nanosecond_hour, prv_AutoExpire = False, prv_AutoQuarantine = False,
      prv_CapacityInterval = minute, prv_Targets = [],
      prv_Recovery = \<lparr>rvp_Enabled = False, rvp_MaxStores = 1, rvp_MaxBytes = push_bit 30 1,
        rvp_Interval = 24 * nanosecond_hour, rvp_TimeBudget = minute\<rparr>,
      prv_CacheTrims = [], prv_CacheTrimInterval = 15 * minute\<rparr>"

definition default_classification :: classification_policy where
  "default_classification =
     \<lparr>cls_ProjectMarkers = [''.git'', ''go.mod'', ''package.json'', ''Cargo.toml'', ''pyproject.toml''],
      cls_WorktreeMarkers = [''*-wt-*'', ''*.worktree'', ''worktrees''],
      cls_GeneratedNames = [''node_modules'', ''dist'', ''build'', ''target'', ''.venv'', ''__pycache__'', ''.next''],
      cls_CacheNames = [''.cache'', ''*-cache'', ''.uv-cache'', ''.gradle'', ''.pytest_cache''],
      cls_BackupNames = [''*.bak'', ''*-backup'', ''backup'', ''backups'', ''*.tar.gz'', ''*.zip''],
      cls_OperationalNames = [''.gitmoot'', ''fleet-tools'', ''.ssh'', ''.config''],
      cls_EvidenceNames = [''evidence'', ''receipts'', ''incidents'', ''*-evidence'']\<rparr>"

definition default_collectors :: "string \<Rightarrow> string \<Rightarrow> collectors_policy" where
  "default_collectors home gitmoot =
     \<lparr>col_DeepSize = False, col_Git = True, col_Processes = True, col_Services = True, col_ProcRoot = ''/proc'',
      col_SystemdDirs = [''/etc/systemd/system'', ''/usr/lib/systemd/system'']
        @ (if home \<noteq> '''' then [Join [home, ''.config'', ''systemd'', ''user'']] else []),
      col_CronPaths = [''/etc/crontab'', ''/etc/cron.d''],
      col_PM2Dumps = (if home \<noteq> '''' then [Join [home, ''.pm2'', ''dump.pm2'']] else []),
      col_ConfigFiles = (if home \<noteq> '''' then [Join [gitmoot, ''config.toml'']] else []),
      col_StagehandDirs = [''/etc/stagehand/pipelines''], col_StagehandStateDir = ''/var/lib/stagehand''\<rparr>"

definition default_patterns :: "string list" where
  "default_patterns = [''*.pem'', ''*.key'', ''*.kdbx'', ''id_rsa*'', ''id_ed25519*'', ''.env'', ''.env.*'',
     ''*credentials*'', ''*.sqlite'', ''*.db'']"

definition default_protected :: "paths \<Rightarrow> string \<Rightarrow> string list" where
  "default_protected p gitmoot =
     (if pth_Home p \<noteq> ''''
      then map (\<lambda>rel. Join [pth_Home p, rel]) [''.ssh'', ''.gnupg'', ''.aws'', ''.kube'', ''.config''] @ [gitmoot]
      else [])
     @ filter (\<lambda>path. path \<noteq> '''') [pth_StateDir p, pth_QuarantineDir p]"

definition DefaultPolicy :: "paths \<Rightarrow> full_policy" where
  "DefaultPolicy p =
     (let home = pth_Home p;
          gitmoot = (if home \<noteq> '''' then Join [home, ''.gitmoot''] else '''')
      in \<lparr>pol_Version = PolicyVersion,
          pol_Roots = (if home \<noteq> ''''
            then [\<lparr>rt_Path = home, rt_MaxDepth = 1, rt_FollowSymlinks = False, rt_CrossFilesystem = False,
              rt_ReportOnly = False, rt_ArchiveOnly = False\<rparr>] else []),
          pol_Protect = \<lparr>pro_Paths = default_protected p gitmoot, pro_NamePatterns = default_patterns\<rparr>,
          pol_Retention = \<lparr>rpol_Default = Retention30Days, rpol_QuarantineDir = pth_QuarantineDir p,
            rpol_DeleteEnabled = False\<rparr>,
          pol_Caches = [], pol_EvidenceExports = [], pol_WorkspaceArchives = [],
          pol_Gitmoot = \<lparr>gm_Home = gitmoot,
            gm_Database = (if home \<noteq> '''' then Join [home, ''.gitmoot'', ''gitmoot.db''] else '''')\<rparr>,
          pol_Safety = \<lparr>sfs_MinFreeBytes = push_bit 30 1, sfs_AllowCrossFilesystemQuarantine = False\<rparr>,
          pol_CanonicalRoots = [], pol_Classification = default_classification,
          pol_Ownership = \<lparr>opol_InvestigateForeignOwner = True, opol_ExpectedUID = 0\<rparr>,
          fpl_WorkspaceArchiveKeep = [], fpl_SourceNameApprovals = None,
          fpl_Collectors = default_collectors home gitmoot, fpl_Categories = [], fpl_Report = defaultStaleReport,
          fpl_ScratchCleanup = [], fpl_Prevention = default_prevention, fpl_Jev = default_jev,
          fpl_Limits = default_limits, fpl_Source = ''built-in defaults'', fpl_FromFile = False\<rparr>)"

section \<open>Normalization\<close>

definition expand :: "string \<Rightarrow> string \<Rightarrow> string \<Rightarrow> string expanding" where
  "expand home field v =
     (case ExpandPath v home of
        Inl e \<Rightarrow> do { _ \<leftarrow> add_error field ''%s'' [GStr e]; State_Monad.return v }
      | Inr w \<Rightarrow> State_Monad.return w)"

definition expand_set :: "string \<Rightarrow> string \<Rightarrow> string \<Rightarrow> string expanding" where
  "expand_set home field v = (if v \<noteq> '''' then expand home field v else State_Monad.return v)"

definition each_m :: "(nat \<Rightarrow> 'a \<Rightarrow> 'b expanding) \<Rightarrow> 'a list \<Rightarrow> 'b list expanding" where
  "each_m f xs = State_Monad.traverse_list (\<lambda>(i, x). f i x) (enumerate 0 xs)"

definition expand_list :: "string \<Rightarrow> string \<Rightarrow> string list \<Rightarrow> string list expanding" where
  "expand_list home field = each_m (\<lambda>i. expand home (idx field i))"

definition default_retention :: "retention \<Rightarrow> retention \<Rightarrow> retention" where
  "default_retention d r = (if r = RetentionUnset then d else r)"

definition normalizeCache :: "string \<Rightarrow> retention \<Rightarrow> nat \<Rightarrow> cache_rule \<Rightarrow> cache_rule expanding" where
  "normalizeCache home d i c = do {
     path \<leftarrow> expand home (idx ''caches'' i @ ''.path'') (cr_Path c);
     binary \<leftarrow> expand_set home (idx ''caches'' i @ ''.official_binary'') (cr_OfficialBinary c);
     State_Monad.return (c\<lparr>cr_Path := path, cr_OfficialBinary := binary,
       cr_Action := (if cr_Action c = ActionOther '''' then ActionInvestigate else cr_Action c),
       cr_Retention := default_retention d (cr_Retention c)\<rparr>) }"

definition normalizeExport :: "string \<Rightarrow> nat \<Rightarrow> evidence_export_rule \<Rightarrow> evidence_export_rule expanding" where
  "normalizeExport home i x = do {
     path \<leftarrow> expand home (idx ''evidence_exports'' i @ ''.path'') (xr_Path x);
     container \<leftarrow> expand home (idx ''evidence_exports'' i @ ''.source_container'') (xr_SourceContainer x);
     dir \<leftarrow> expand home (idx ''evidence_exports'' i @ ''.archive.directory'') (xad_Directory (xr_Archive x));
     manifest \<leftarrow> expand_set home (idx ''evidence_exports'' i @ ''.archive.manifest'') (xad_Manifest (xr_Archive x));
     State_Monad.return (x\<lparr>xr_Path := path, xr_SourceContainer := container,
       xr_LocalRetention := default_retention Retention30Days (xr_LocalRetention x),
       xr_MaxBytes := (if xr_MaxBytes x = 0 then push_bit 30 1 else xr_MaxBytes x),
       xr_Archive := (xr_Archive x)\<lparr>xad_Directory := dir, xad_Manifest := manifest,
         xad_Retention := default_retention RetentionPermanent (xad_Retention (xr_Archive x))\<rparr>\<rparr>) }"

definition normalizeArchive :: "string \<Rightarrow> nat \<Rightarrow> workspace_archive_rule \<Rightarrow> workspace_archive_rule expanding" where
  "normalizeArchive home i r = do {
     path \<leftarrow> expand home (idx ''workspace_archives'' i @ ''.path'') (wr_Path r);
     dir \<leftarrow> expand home (idx ''workspace_archives'' i @ ''.archive.directory'') (wad_Directory (wr_Archive r));
     manifest \<leftarrow> expand_set home (idx ''workspace_archives'' i @ ''.archive.manifest'') (wad_Manifest (wr_Archive r));
     roots \<leftarrow> expand_list home (idx ''workspace_archives'' i @ ''.dependent_roots'') (wr_DependentRoots r);
     State_Monad.return (r\<lparr>wr_Path := path, wr_DependentRoots := roots,
       wr_LocalRetention := default_retention Retention30Days (wr_LocalRetention r),
       wr_Archive := (wr_Archive r)\<lparr>wad_Directory := dir, wad_Manifest := manifest\<rparr>\<rparr>) }"

definition normalizeKeep :: "string \<Rightarrow> nat \<Rightarrow> workspace_archive_keep \<Rightarrow> workspace_archive_keep expanding" where
  "normalizeKeep home i k = do {
     path \<leftarrow> expand home (idx ''workspace_archive_keep'' i @ ''.path'') (wak_Path k);
     State_Monad.return (k\<lparr>wak_Path := path\<rparr>) }"

definition normalizeDestination :: "string \<Rightarrow> string \<Rightarrow> category_destination \<Rightarrow> category_destination expanding" where
  "normalizeDestination home field d = do {
     dir \<leftarrow> expand_set home field (wcd_Directory d);
     State_Monad.return (d\<lparr>wcd_Directory := dir\<rparr>) }"

definition normalizeCategory :: "string \<Rightarrow> nat \<Rightarrow> archive_category \<Rightarrow> archive_category expanding" where
  "normalizeCategory home i c = do {
     roots \<leftarrow> expand_list home (idx ''workspace_archive_categories'' i @ ''.roots'') (wac_Roots c);
     dest \<leftarrow> normalizeDestination home (idx ''workspace_archive_categories'' i @ ''.archive.directory'') (wac_Archive c);
     State_Monad.return (c\<lparr>wac_Roots := roots, wac_Archive := dest,
       wac_Idle := (if wac_Idle c = 0 \<and> categoryKind_Valid (wac_Kind c) then DefaultIdle (wac_Kind c) else wac_Idle c),
       wac_LocalRetention := default_retention Retention30Days (wac_LocalRetention c),
       wac_MaxItemsPerCycle := (if wac_MaxItemsPerCycle c = 0 then DefaultCategoryMaxItemsPerCycle
         else wac_MaxItemsPerCycle c),
       wac_MaxBytesPerItem := (if wac_MaxBytesPerItem c = 0 then DefaultCategoryMaxBytesPerItem
         else wac_MaxBytesPerItem c)\<rparr>) }"

definition normalizeStaleReport :: "string \<Rightarrow> stale_report \<Rightarrow> stale_report expanding" where
  "normalizeStaleReport home r = do {
     roots \<leftarrow> expand_list home ''report.roots'' (srp_Roots r);
     dest \<leftarrow> normalizeDestination home ''report.archive.directory'' (srp_Archive r);
     State_Monad.return (r\<lparr>srp_Roots := roots, srp_Archive := dest\<rparr>) }"

definition normalizeScratch :: "string \<Rightarrow> nat \<Rightarrow> scratch_cleanup \<Rightarrow> scratch_cleanup expanding" where
  "normalizeScratch home i s = do {
     path \<leftarrow> expand home (idx ''scratch_cleanup'' i @ ''.path'') (scl_Path s);
     dest \<leftarrow> normalizeDestination home (idx ''scratch_cleanup'' i @ ''.archive.directory'') (scl_Archive s);
     State_Monad.return (s\<lparr>scl_Path := path, scl_Archive := dest,
       scl_Idle := (if scl_Idle s = 0 then DefaultScratchIdle else scl_Idle s),
       scl_Every := (if scl_Every s = 0 then DefaultScratchEvery else scl_Every s),
       scl_MaxEntries := (if scl_MaxEntries s = 0 then DefaultScratchMaxEntries else scl_MaxEntries s)\<rparr>) }"

definition normalizeTrim :: "string \<Rightarrow> nat \<Rightarrow> cache_trim \<Rightarrow> cache_trim expanding" where
  "normalizeTrim home i t = do {
     path \<leftarrow> expand_set home (idx ''prevention.cache_trims'' i @ ''.path'') (ctr_Path t);
     binary \<leftarrow> expand home (idx ''prevention.cache_trims'' i @ ''.binary'') (ctr_Binary t);
     State_Monad.return (t\<lparr>ctr_Path := path, ctr_Binary := binary\<rparr>) }"

definition normalizeCollectors :: "string \<Rightarrow> collectors_policy \<Rightarrow> collectors_policy expanding" where
  "normalizeCollectors home c = do {
     proc \<leftarrow> expand_set home ''collectors.proc_root'' (col_ProcRoot c);
     systemd \<leftarrow> expand_list home ''collectors.systemd_dirs'' (col_SystemdDirs c);
     cron \<leftarrow> expand_list home ''collectors.cron_paths'' (col_CronPaths c);
     stateDir \<leftarrow> expand home ''collectors.stagehand_state_dir'' (col_StagehandStateDir c);
     stagehand \<leftarrow> expand_list home ''collectors.stagehand_dirs'' (col_StagehandDirs c);
     files \<leftarrow> expand_list home ''collectors.config_files'' (col_ConfigFiles c);
     dumps \<leftarrow> expand_list home ''collectors.pm2_dumps'' (col_PM2Dumps c);
     State_Monad.return (c\<lparr>col_ProcRoot := proc, col_SystemdDirs := systemd, col_CronPaths := cron,
       col_StagehandStateDir := stateDir, col_StagehandDirs := stagehand, col_ConfigFiles := files,
       col_PM2Dumps := dumps\<rparr>) }"

text \<open>\<open>mergeUnique\<close> appends what is not there yet, in order.\<close>

definition mergeUnique :: "string list \<Rightarrow> string list \<Rightarrow> string list" where
  "mergeUnique base extra = rev (foldl (\<lambda>seen v. if v \<in> set seen then seen else v # seen) [] (base @ extra))"

definition merge_protect :: "protect_policy \<Rightarrow> protect_policy \<Rightarrow> string \<Rightarrow> string \<Rightarrow> protect_policy" where
  "merge_protect p defaults quarantine gitmoot =
     (let ps = mergeUnique (pro_Paths p) (pro_Paths defaults);
          qs = (if quarantine \<noteq> '''' then mergeUnique ps [quarantine] else ps);
          gs = (if gitmoot \<noteq> '''' then mergeUnique qs [gitmoot] else qs)
      in \<lparr>pro_Paths = gs, pro_NamePatterns = mergeUnique (pro_NamePatterns p) (pro_NamePatterns defaults)\<rparr>)"

definition normalize_lists :: "string \<Rightarrow> full_policy \<Rightarrow> full_policy expanding" where
  "normalize_lists home p = do {
     roots \<leftarrow> each_m (\<lambda>i r. do {
       x \<leftarrow> expand home (idx ''roots'' i @ ''.path'') (rt_Path r); State_Monad.return (r\<lparr>rt_Path := x\<rparr>) }) (pol_Roots p);
     targets \<leftarrow> each_m (\<lambda>i t. do {
       x \<leftarrow> expand home (idx ''prevention.targets'' i @ ''.path'') (tgt_Path t);
       State_Monad.return (t\<lparr>tgt_Path := x\<rparr>) }) (prv_Targets (fpl_Prevention p));
     protected \<leftarrow> expand_list home ''protect.paths'' (pro_Paths (pol_Protect p));
     caches \<leftarrow> each_m (normalizeCache home (rpol_Default (pol_Retention p))) (pol_Caches p);
     exports \<leftarrow> each_m (normalizeExport home) (pol_EvidenceExports p);
     archives \<leftarrow> each_m (normalizeArchive home) (pol_WorkspaceArchives p);
     keeps \<leftarrow> each_m (normalizeKeep home) (fpl_WorkspaceArchiveKeep p);
     categories \<leftarrow> each_m (normalizeCategory home) (fpl_Categories p);
     report \<leftarrow> normalizeStaleReport home (fpl_Report p);
     scratch \<leftarrow> each_m (normalizeScratch home) (fpl_ScratchCleanup p);
     State_Monad.return (p\<lparr>pol_Roots := roots,
       fpl_Prevention := (fpl_Prevention p)\<lparr>prv_Targets := targets\<rparr>,
       pol_Protect := (pol_Protect p)\<lparr>pro_Paths := protected\<rparr>, pol_Caches := caches, pol_EvidenceExports := exports,
       pol_WorkspaceArchives := archives, fpl_WorkspaceArchiveKeep := keeps, fpl_Categories := categories,
       fpl_Report := report, fpl_ScratchCleanup := scratch\<rparr>) }"

definition normalize_state :: "string \<Rightarrow> full_policy \<Rightarrow> full_policy expanding" where
  "normalize_state home p = do {
     gitmoot \<leftarrow> expand_set home ''gitmoot.home'' (gm_Home (pol_Gitmoot p));
     database \<leftarrow> expand_set home ''gitmoot.database'' (gm_Database (pol_Gitmoot p));
     quarantine \<leftarrow> expand_set home ''retention.quarantine_dir'' (rpol_QuarantineDir (pol_Retention p));
     trims \<leftarrow> each_m (normalizeTrim home) (prv_CacheTrims (fpl_Prevention p));
     collectors \<leftarrow> normalizeCollectors home (fpl_Collectors p);
     State_Monad.return (p\<lparr>pol_Gitmoot := \<lparr>gm_Home = gitmoot, gm_Database = database\<rparr>,
       pol_Retention := (pol_Retention p)\<lparr>rpol_QuarantineDir := quarantine\<rparr>,
       fpl_Prevention := (fpl_Prevention p)\<lparr>prv_CacheTrims := trims\<rparr>, fpl_Collectors := collectors\<rparr>) }"

definition normalize :: "paths \<Rightarrow> full_policy \<Rightarrow> full_policy \<Rightarrow> full_policy expanding" where
  "normalize paths defaults p = do {
     q \<leftarrow> normalize_lists (pth_Home paths) p;
     r \<leftarrow> normalize_state (pth_Home paths) q;
     canonical \<leftarrow> each_m (\<lambda>i c. do {
       x \<leftarrow> expand (pth_Home paths) (idx ''canonical_roots'' i @ ''.path'') (crt_Path c);
       State_Monad.return (c\<lparr>crt_Path := x\<rparr>) }) (pol_CanonicalRoots r);
     State_Monad.return (r\<lparr>pol_Protect := merge_protect (pol_Protect r) (pol_Protect defaults)
         (rpol_QuarantineDir (pol_Retention r)) (gm_Home (pol_Gitmoot r)),
       pol_CanonicalRoots := canonical\<rparr>) }"

section \<open>Loading\<close>

definition MaxPolicyBytes :: nat where "MaxPolicyBytes = 2 ^ 20"

text \<open>What opening and reading the file gives; a decoder answers over a policy it fills in, and says whether another
  document follows.\<close>

datatype file_content = FileMissing | FileUnreadable string | FileBytes string

datatype yaml_error = YamlEOF | YamlTypes "string list" | YamlOther string

type_synonym yaml_decoder = "string \<Rightarrow> full_policy \<Rightarrow> yaml_error + (full_policy \<times> bool)"

definition re_space :: "char \<Rightarrow> bool" where
  "re_space c \<longleftrightarrow> c \<in> {CHR '' '', CHR 0x09, CHR 0x0A, CHR 0x0C, CHR 0x0D}"

text \<open>\<open>line N: rest\<close>, the part both regular expressions share.\<close>

definition line_message :: "string \<Rightarrow> (string \<times> string) option" where
  "line_message msg =
     (let s = drop 5 msg; n = takeWhile is_digit s; rest = dropWhile is_digit s
      in if HasPrefix msg ''line '' \<and> n \<noteq> [] \<and> HasPrefix rest '': '' then Some (n, drop 2 rest) else None)"

definition unknown_field :: "string \<Rightarrow> string option" where
  "unknown_field rest =
     (let s = drop 6 rest; name = takeWhile (\<lambda>c. \<not> re_space c) s; tl' = dropWhile (\<lambda>c. \<not> re_space c) s;
          ty = drop (length '' not found in type '') tl'
      in if HasPrefix rest ''field '' \<and> name \<noteq> [] \<and> HasPrefix tl' '' not found in type '' \<and> ty \<noteq> []
            \<and> list_all (\<lambda>c. \<not> re_space c) ty then Some name else None)"

definition fieldErrorFromMessage :: "string \<Rightarrow> field_error" where
  "fieldErrorFromMessage raw =
     (let msg = TrimSpace raw
      in case line_message msg of
           None \<Rightarrow> FieldError ''document'' ''%s'' [GStr msg]
         | Some (n, rest) \<Rightarrow>
             (case unknown_field rest of
                Some name \<Rightarrow> FieldError name ''unknown field (line %s); remove it or fix the spelling'' [GStr n]
              | None \<Rightarrow>
                  if CHR 0x0A \<in> set rest then FieldError ''document'' ''%s'' [GStr msg]
                  else FieldError (''line '' @ n) ''%s'' [GStr rest]))"

fun yamlFieldErrors :: "yaml_error \<Rightarrow> field_errors" where
  "yamlFieldErrors (YamlTypes msgs) = map fieldErrorFromMessage msgs"
| "yamlFieldErrors (YamlOther msg) = [fieldErrorFromMessage msg]"
| "yamlFieldErrors YamlEOF = [FieldError ''document'' ''policy file is empty; remove it to use built-in defaults'' []]"

definition ParsePolicy ::
    "config_env \<Rightarrow> yaml_decoder \<Rightarrow> string \<Rightarrow> paths \<Rightarrow> string \<Rightarrow> config_error + full_policy" where
  "ParsePolicy env dec data paths source =
     (let defaults = DefaultPolicy paths
      in case dec data defaults of
           Inl e \<Rightarrow> Inl (ConfigError source (yamlFieldErrors e))
         | Inr (p, extra) \<Rightarrow>
             if extra then Inl (ConfigError source
               [FieldError ''document'' ''policy file must contain exactly one YAML document'' []])
             else (let (q, errs) = run_state (normalize paths defaults (p\<lparr>fpl_Source := source, fpl_FromFile := True\<rparr>)) []
                   in if errs @ Validate env q \<noteq> [] then Inl (ConfigError source (errs @ Validate env q)) else Inr q))"

definition policyFileHint :: "paths \<Rightarrow> string" where
  "policyFileHint paths = (if pth_PolicyFile paths \<noteq> '''' then pth_PolicyFile paths else ''the configured policy path'')"

definition defaultsOnly :: "config_env \<Rightarrow> paths \<Rightarrow> string \<Rightarrow> config_error + full_policy" where
  "defaultsOnly env paths source =
     (let p = (DefaultPolicy paths)\<lparr>fpl_Source := source\<rparr>
      in if pol_Roots p = [] \<and> pth_Home paths = ''''
         then Inl (ConfigError source [FieldError ''roots''
           ''cannot be derived without a home directory: write a policy file at %s declaring at least one root, or set %s''
           [GStr (policyFileHint paths), GStr EnvHome]])
         else if Validate env p \<noteq> [] then Inl (ConfigError source (Validate env p))
         else Inr p)"

definition readPolicyFile :: "file_content \<Rightarrow> file_content" where
  "readPolicyFile f =
     (case f of
        FileBytes bytes \<Rightarrow>
          if MaxPolicyBytes < length bytes
          then FileUnreadable (''policy file exceeds '' @ show_nat MaxPolicyBytes @ '' bytes'') else f
      | _ \<Rightarrow> f)"

definition LoadPolicy ::
    "config_env \<Rightarrow> yaml_decoder \<Rightarrow> (string \<Rightarrow> file_content) \<Rightarrow> paths \<Rightarrow> config_error + full_policy" where
  "LoadPolicy env dec files paths =
     (if pth_PolicyFile paths = '''' then defaultsOnly env paths ''built-in defaults''
      else case readPolicyFile (files (pth_PolicyFile paths)) of
        FileMissing \<Rightarrow> defaultsOnly env paths
          (''built-in defaults (no policy file at '' @ pth_PolicyFile paths @ '')'')
      | FileUnreadable e \<Rightarrow> Inl (ReadError (''read policy '' @ pth_PolicyFile paths @ '': '' @ e))
      | FileBytes bytes \<Rightarrow> ParsePolicy env dec bytes paths (pth_PolicyFile paths))"

end
