(* ===== verification/ConfigFacts.thy ===== *)
theory ConfigFacts
  imports ConfigLoad PlanBuildProps PathFacts
begin

text \<open>
  What a policy without validation errors satisfies, section by section; what normalization keeps; the locations a run
  resolves to.
\<close>

section \<open>Sections of a valid policy\<close>

lemma Validate_NilD:
  assumes "Validate env p = []"
  shows "validateEvidenceExports env p = []" "validateWorkspaceArchives p = []"
    "validateWorkspaceArchiveCategories p = []" "validateStaleReport p = []" "validateScratchCleanup p = []"
    "validateSourceNameApprovals env p = []" "pol_Version p = PolicyVersion" "pol_Roots p \<noteq> []"
    "each (validateRoot p) (pol_Roots p) = []" "validateProtect p = []" "validateRetention p = []"
    "each (validateCache p) (pol_Caches p) = []" "validateGitmoot p = []" "validatePrevention p = []"
    "validateJev env (fpl_Jev p) = []" "each (validateCanonicalRoot p) (pol_CanonicalRoots p) = []"
    "validateClassification p = []" "0 \<le> sint (sfs_MinFreeBytes (pol_Safety p))" "validateCollectors p = []"
  using assms by (simp_all add: Validate_def)

lemma valid_root:
  assumes "each (validateRoot p) (pol_Roots p) = []" "r \<in> set (pol_Roots p)"
  shows "isAbsClean (rt_Path r)" "0 \<le> rt_MaxDepth r" "rt_MaxDepth r \<le> 64" "\<not> (rt_ArchiveOnly r \<and> rt_ReportOnly r)"
  using each_NilD [OF assms]
  by (auto simp: validateRoot_def Let_def IsCanonicalPath_def split: if_splits option.splits)

lemma valid_roots_distinct:
  assumes "each (validateRoot p) (pol_Roots p) = []"
  shows "distinct (map rt_Path (pol_Roots p))"
proof (rule each_earlier_distinct)
  fix i assume "i < length (pol_Roots p)"
  then show "earlier rt_Path (pol_Roots p) i (pol_Roots p ! i) = None"
    using assms by (auto simp: each_Nil validateRoot_def Let_def split: if_splits option.splits)
qed

lemma valid_protected:
  assumes "validateProtect p = []"
  shows "x \<in> set (pro_Paths (pol_Protect p)) \<Longrightarrow> isAbsClean x"
    "pat \<in> set (pro_NamePatterns (pol_Protect p)) \<Longrightarrow> pat \<noteq> '''' \<and> Match pat ''probe'' \<noteq> None"
  using assms each_NilD [of _ "pro_Paths (pol_Protect p)" x]
    each_NilD [of _ "pro_NamePatterns (pol_Protect p)" pat]
  by (fastforce simp: validateProtect_def validatePattern_def IsCanonicalPath_def split: if_splits)+

lemma valid_retention:
  assumes "validateRetention p = []"
  shows "retention_Valid (rpol_Default (pol_Retention p))"
    "rpol_QuarantineDir (pol_Retention p) \<noteq> '''' \<Longrightarrow> isAbsClean (rpol_QuarantineDir (pol_Retention p))"
  using assms by (auto simp: validateRetention_def Let_def IsCanonicalPath_def)

lemma valid_cache:
  assumes "each (validateCache p) (pol_Caches p) = []" "c \<in> set (pol_Caches p)"
  shows "isAbsClean (cr_Path c)" "actionKind_Valid (cr_Action c)" "cr_Action c \<noteq> ActionRelocate"
    "retention_Valid (cr_Retention c)" "cr_Dedicated c \<Longrightarrow> cr_Action c = ActionDeleteCandidate \<and> isAbsClean (cr_OfficialBinary c)"
    "cr_Recovery c \<noteq> no_recovery \<Longrightarrow> cr_Dedicated c \<and> \<not> blank (crec_Owner (cr_Recovery c))
       \<and> \<not> blank (crec_Approval (cr_Recovery c)) \<and> 0 < sint (crec_MaxPruneBytes (cr_Recovery c))
       \<and> nanosecond_hour \<le> crec_MinIdle (cr_Recovery c)"
  using each_NilD [OF assms]
  by (auto simp: validateCache_def Let_def IsCanonicalPath_def split: if_splits)

lemma valid_canonical_root:
  assumes "each (validateCanonicalRoot p) (pol_CanonicalRoots p) = []" "r \<in> set (pol_CanonicalRoots p)"
  shows "isAbsClean (crt_Path r)" "artifactClass_Valid (crt_Class r)"
  using each_NilD [OF assms]
  by (auto simp: validateCanonicalRoot_def Let_def IsCanonicalPath_def split: if_splits)

lemma valid_gitmoot:
  "validateGitmoot p = [] \<Longrightarrow> gm_Home (pol_Gitmoot p) \<noteq> '''' \<Longrightarrow> isAbsClean (gm_Home (pol_Gitmoot p))"
  by (auto simp: validateGitmoot_def Let_def IsCanonicalPath_def)

lemma valid_plannable: "Validate env p = [] \<Longrightarrow> policy_plannable p"
  using valid_cache [of p] valid_retention(1) [of p] valid_canonical_root [of p] Validate_NilD(11,12,16) [of env p]
  by (auto simp: policy_plannable_def retention_ok_def list_all_iff)

section \<open>Archive directories\<close>

text \<open>A directory that passed \<open>validateArchiveDirectory\<close>.\<close>

definition archive_directory_ok :: "full_policy \<Rightarrow> string \<Rightarrow> bool" where
  "archive_directory_ok p dir \<longleftrightarrow>
     isAbsClean dir \<and> dir \<noteq> ''/''
     \<and> \<not> PathsOverlap dir (rpol_QuarantineDir (pol_Retention p))
     \<and> \<not> PathsOverlap dir (gm_Home (pol_Gitmoot p))
     \<and> list_all (\<lambda>c. \<not> PathsOverlap dir (cr_Path c)) (pol_Caches p)
     \<and> list_all (\<lambda>r. \<not> PathsOverlap dir (wr_Path r)) (pol_WorkspaceArchives p)
     \<and> list_all (\<lambda>x. \<not> PathsOverlap dir (xr_SourceContainer x)) (pol_EvidenceExports p)
     \<and> list_ex (PathWithin dir) (pro_Paths (pol_Protect p))"

lemma validateArchiveDirectory_ok:
  assumes "validateArchiveDirectory p field dir m f = ([], ok)"
  shows "ok" "archive_directory_ok p dir"
  using assms by (auto simp: validateArchiveDirectory_def archive_directory_ok_def IsCanonicalPath_def list_all_iff
      split: if_splits)

lemma validateCategoryDestination_ok:
  assumes "validateCategoryDestination p field d = []"
  shows "archive_directory_ok p (wcd_Directory d)"
    "r \<in> set (pol_Roots p) \<Longrightarrow> \<not> PathsOverlap (wcd_Directory d) (rt_Path r)"
    "\<not> rawStateOrCredentialPath (wcd_Directory d)"
proof -
  obtain errs ok where v: "validateArchiveDirectory p field (wcd_Directory d) (wcd_ExpectMountSource d)
      (wcd_ExpectFSType d) = (errs, ok)" by (cases "validateArchiveDirectory p field (wcd_Directory d)
      (wcd_ExpectMountSource d) (wcd_ExpectFSType d)")
  have e: "errs = []" using assms v by (auto simp: validateCategoryDestination_def split: if_splits)
  note ok = validateArchiveDirectory_ok [OF v [unfolded e]]
  show "archive_directory_ok p (wcd_Directory d)" by (rule ok(2))
  show "r \<in> set (pol_Roots p) \<Longrightarrow> \<not> PathsOverlap (wcd_Directory d) (rt_Path r)"
    "\<not> rawStateOrCredentialPath (wcd_Directory d)"
    using assms v ok(1) by (auto simp: validateCategoryDestination_def)
qed

lemma valid_archive:
  assumes "validateWorkspaceArchives p = []" "r \<in> set (pol_WorkspaceArchives p)"
  shows "archive_directory_ok p (wad_Directory (wr_Archive r))" "isAbsClean (wr_Path r)"
    "list_all (\<lambda>x. \<not> PathsOverlap (wr_Path r) x) (pro_Paths (pol_Protect p))"
    "list_all (\<lambda>k. \<not> PathsOverlap (wr_Path r) (wak_Path k)) (fpl_WorkspaceArchiveKeep p)"
    "wr_LocalExpiryEnabled r \<Longrightarrow> wad_Manifest (wr_Archive r) = WorkspaceArchiveManifestPath r
       \<and> sha256_text (wad_ManifestSHA256 (wr_Archive r)) \<and> wr_LocalRetention r \<in> {Retention30Days, Retention90Days}"
proof -
  from assms have "each (validateWorkspaceArchive p) (pol_WorkspaceArchives p) = []"
    by (simp add: validateWorkspaceArchives_def)
  from each_NilD [OF this assms(2)] obtain i where v: "validateWorkspaceArchive p i r = []" by blast
  define field where "field = idx ''workspace_archives'' i"
  from v have d: "validateWorkspaceArchiveDestination p field r = []"
    and x: "validateWorkspaceArchiveExpiry p field r = []"
    and s: "isAbsClean (wr_Path r)" "validateWorkspaceArchiveSource p i field r = []"
    by (auto simp: validateWorkspaceArchive_def Let_def field_def IsCanonicalPath_def split: if_splits)
  obtain errs ok where a: "validateArchiveDirectory p (field @ ''.archive'') (wad_Directory (wr_Archive r))
      (wad_ExpectMountSource (wr_Archive r)) (wad_ExpectFSType (wr_Archive r)) = (errs, ok)"
    by (cases "validateArchiveDirectory p (field @ ''.archive'') (wad_Directory (wr_Archive r))
      (wad_ExpectMountSource (wr_Archive r)) (wad_ExpectFSType (wr_Archive r))")
  have e: "errs = []" using d a by (auto simp: validateWorkspaceArchiveDestination_def Let_def split: if_splits)
  note ok = validateArchiveDirectory_ok [OF a [unfolded e]]
  show "archive_directory_ok p (wad_Directory (wr_Archive r))" by (rule ok(2))
  show "isAbsClean (wr_Path r)" by (rule s(1))
  show "list_all (\<lambda>x. \<not> PathsOverlap (wr_Path r) x) (pro_Paths (pol_Protect p))"
    using s(2) by (auto simp: validateWorkspaceArchiveSource_def Let_def list_all_iff)
  have "each (\<lambda>j keep. err_if (PathsOverlap (wr_Path r) (wak_Path keep)) (field @ ''.path'')
      ''unresolved KEEP/release conflict: workspace_archive_keep[%d] %q is kept by %q (%s); only the custodian can resolve it''
      [GInt (int j), GStr (wak_Path keep), GStr (wak_Owner keep), GStr (wak_Reference keep)])
      (fpl_WorkspaceArchiveKeep p) = []"
    using s(2) by (simp add: validateWorkspaceArchiveSource_def Let_def)
  from each_NilD [OF this] show "list_all (\<lambda>k. \<not> PathsOverlap (wr_Path r) (wak_Path k)) (fpl_WorkspaceArchiveKeep p)"
    by (auto simp: list_all_iff)
  assume "wr_LocalExpiryEnabled r"
  with x have "wad_Manifest (wr_Archive r) \<noteq> ''''" "wr_LocalRetention r \<in> {Retention30Days, Retention90Days}"
    by (auto simp: validateWorkspaceArchiveExpiry_def)
  with d a ok(1) show "wad_Manifest (wr_Archive r) = WorkspaceArchiveManifestPath r
       \<and> sha256_text (wad_ManifestSHA256 (wr_Archive r)) \<and> wr_LocalRetention r \<in> {Retention30Days, Retention90Days}"
    by (auto simp: validateWorkspaceArchiveDestination_def Let_def)
qed

lemma valid_category:
  assumes "validateWorkspaceArchiveCategories p = []" "c \<in> set (fpl_Categories p)"
  shows "archive_directory_ok p (wcd_Directory (wac_Archive c))"
    "r \<in> set (pol_Roots p) \<Longrightarrow> \<not> PathsOverlap (wcd_Directory (wac_Archive c)) (rt_Path r)"
    "categoryKind_Valid (wac_Kind c)" "MinIdle (wac_Kind c) \<le> wac_Idle c"
    "wac_LocalRetention c \<in> {RetentionNone, Retention30Days, Retention90Days}"
    "root' \<in> set (wac_Roots c) \<Longrightarrow> \<exists>field. validateCategoryRoot p field root' = []"
proof -
  from assms have "each (validateCategory p) (fpl_Categories p) = []"
    by (auto simp: validateWorkspaceArchiveCategories_def Let_def split: if_splits)
  from each_NilD [OF this assms(2)] obtain j where v: "validateCategory p j c = []" by blast
  define field where "field = idx ''workspace_archive_categories'' j"
  from v have d: "validateCategoryDestination p (field @ ''.archive'') (wac_Archive c) = []"
    by (simp add: validateCategory_def Let_def field_def)
  show "archive_directory_ok p (wcd_Directory (wac_Archive c))"
    "r \<in> set (pol_Roots p) \<Longrightarrow> \<not> PathsOverlap (wcd_Directory (wac_Archive c)) (rt_Path r)"
    using validateCategoryDestination_ok [OF d] by blast+
  show "categoryKind_Valid (wac_Kind c)" "MinIdle (wac_Kind c) \<le> wac_Idle c"
    "wac_LocalRetention c \<in> {RetentionNone, Retention30Days, Retention90Days}"
    using v by (auto simp: validateCategory_def validateCycleBounds_def Let_def split: if_splits)
  assume "root' \<in> set (wac_Roots c)"
  moreover have "\<forall>i < length (wac_Roots c). validateCategoryRoot p (idx (field @ ''.roots'') i) (wac_Roots c ! i) = []"
    using v by (auto simp: validateCategory_def Let_def field_def each_Nil)
  ultimately show "\<exists>field. validateCategoryRoot p field root' = []" by (auto simp: in_set_conv_nth)
qed

lemma valid_report_archive:
  assumes "validateStaleReport p = []" "ArchivesReleases (fpl_Report p)"
  shows "archive_directory_ok p (wcd_Directory (srp_Archive (fpl_Report p)))"
    "r \<in> set (pol_Roots p) \<Longrightarrow> \<not> PathsOverlap (wcd_Directory (srp_Archive (fpl_Report p))) (rt_Path r)"
proof -
  from assms have d: "validateCategoryDestination p ''report.archive'' (srp_Archive (fpl_Report p)) = []"
    by (simp add: validateStaleReport_def ArchivesReleases_def validateReportArchive_def Let_def)
  show "archive_directory_ok p (wcd_Directory (srp_Archive (fpl_Report p)))"
    "r \<in> set (pol_Roots p) \<Longrightarrow> \<not> PathsOverlap (wcd_Directory (srp_Archive (fpl_Report p))) (rt_Path r)"
    using validateCategoryDestination_ok [OF d] by blast+
qed

section \<open>Scratch directories\<close>

lemma scratch_validated:
  assumes "validateScratchCleanup p = []" "i < length (fpl_ScratchCleanup p)"
  shows "validateScratch p i (fpl_ScratchCleanup p ! i) = []"
  using assms by (auto simp: validateScratchCleanup_def Let_def each_Nil split: if_splits)

lemma valid_scratch:
  assumes "validateScratch p i s = []"
  shows "isAbsClean (scl_Path s)" "\<exists>field. validateScratchPath p field (scl_Path s) = []"
    "minScratchInterval \<le> scl_Idle s" "minScratchInterval \<le> scl_Every s"
    "scl_RegenerableIdle s \<noteq> 0 \<Longrightarrow> minRegenerableIdle \<le> scl_RegenerableIdle s"
    "\<exists>field. validateScratchArchive p field (scl_Archive s) = []"
    "other \<in> set (take i (fpl_ScratchCleanup p)) \<Longrightarrow> isAbsClean (scl_Path other) \<Longrightarrow>
       \<not> PathsOverlap (scl_Path s) (scl_Path other)"
proof -
  define field where "field = idx ''scratch_cleanup'' i"
  show "isAbsClean (scl_Path s)" "\<exists>field. validateScratchPath p field (scl_Path s) = []"
    "minScratchInterval \<le> scl_Idle s" "minScratchInterval \<le> scl_Every s"
    "scl_RegenerableIdle s \<noteq> 0 \<Longrightarrow> minRegenerableIdle \<le> scl_RegenerableIdle s"
    "\<exists>field. validateScratchArchive p field (scl_Archive s) = []"
    using assms by (auto simp: validateScratch_def validateScratchTimes_def Let_def IsCanonicalPath_def
        split: if_splits)
  assume o': "other \<in> set (take i (fpl_ScratchCleanup p))" "isAbsClean (scl_Path other)"
  from assms have "each (\<lambda>j other. err_if (IsCanonicalPath (scl_Path other) \<and> PathsOverlap (scl_Path s) (scl_Path other))
      (field @ ''.path'') ''overlaps scratch_cleanup[%d].path %q'' [GInt (int j), GStr (scl_Path other)])
      (take i (fpl_ScratchCleanup p)) = []"
    by (auto simp: validateScratch_def Let_def field_def split: if_splits)
  from each_NilD [OF this o'(1)] show "\<not> PathsOverlap (scl_Path s) (scl_Path other)"
    using o'(2) by (auto simp: IsCanonicalPath_def)
qed

lemma valid_scratch_path:
  assumes "validateScratchPath p field path = []"
  shows "list_all (\<lambda>r. \<not> PathsOverlap path (rt_Path r)) (pol_Roots p)"
    "list_all (\<lambda>x. \<not> PathWithin path x) (pro_Paths (pol_Protect p))"
    "list_all (\<lambda>k. \<not> PathWithin path (wak_Path k)) (fpl_WorkspaceArchiveKeep p)"
    "rpol_QuarantineDir (pol_Retention p) \<noteq> '''' \<Longrightarrow> \<not> PathsOverlap path (rpol_QuarantineDir (pol_Retention p))"
    "gm_Home (pol_Gitmoot p) \<noteq> '''' \<Longrightarrow> \<not> PathsOverlap path (gm_Home (pol_Gitmoot p))"
    "list_all (\<lambda>r. \<not> PathsOverlap path (wr_Path r) \<and> \<not> PathsOverlap path (wad_Directory (wr_Archive r)))
       (pol_WorkspaceArchives p)"
    "list_all (\<lambda>c. \<not> PathsOverlap path (wcd_Directory (wac_Archive c))) (fpl_Categories p)"
    "list_all (\<lambda>c. \<not> PathsOverlap path (cr_Path c)) (pol_Caches p)"
  using assms by (auto simp: validateScratchPath_def own_scopes_def list_all_iff)

lemma valid_scratch_archive:
  assumes "validateScratchArchive p field d = []"
  shows "archive_directory_ok p (wcd_Directory d)"
    "list_all (\<lambda>r. \<not> PathsOverlap (wcd_Directory d) (rt_Path r)) (pol_Roots p)"
    "list_all (\<lambda>s. \<not> PathsOverlap (wcd_Directory d) (scl_Path s)) (fpl_ScratchCleanup p)"
proof -
  obtain errs ok where v: "validateArchiveDirectory p (field @ ''.archive'') (wcd_Directory d) (wcd_ExpectMountSource d)
      (wcd_ExpectFSType d) = (errs, ok)"
    by (cases "validateArchiveDirectory p (field @ ''.archive'') (wcd_Directory d) (wcd_ExpectMountSource d)
      (wcd_ExpectFSType d)")
  have e: "errs = []" using assms v by (auto simp: validateScratchArchive_def split: if_splits)
  note ok = validateArchiveDirectory_ok [OF v [unfolded e]]
  show "archive_directory_ok p (wcd_Directory d)" by (rule ok(2))
  show "list_all (\<lambda>r. \<not> PathsOverlap (wcd_Directory d) (rt_Path r)) (pol_Roots p)"
    "list_all (\<lambda>s. \<not> PathsOverlap (wcd_Directory d) (scl_Path s)) (fpl_ScratchCleanup p)"
    using assms v ok(1) by (auto simp: validateScratchArchive_def list_all_iff)
qed

section \<open>Capacity targets\<close>

lemma valid_target:
  assumes "validatePrevention p = []" "t \<in> set (prv_Targets (fpl_Prevention p))"
  shows "\<exists>r \<in> set (pol_Roots p). rt_Path r = tgt_Path t" "0 < sint (tgt_TargetFreeBytes t)"
    "0 \<le> sint (tgt_ReserveFreeBytes t)" "sint (tgt_ReserveFreeBytes t) \<le> sint (tgt_TargetFreeBytes t)"
    "0 \<le> sint (tgt_RecoveryMarginBytes t)"
    "sint (tgt_TargetFreeBytes t) + sint (tgt_RecoveryMarginBytes t) < 2 ^ 63"
proof -
  from assms have "each (validateTarget p) (prv_Targets (fpl_Prevention p)) = []"
    by (simp add: validatePrevention_def Let_def)
  from each_NilD [OF this assms(2)] obtain i where v: "validateTarget p i t = []" by blast
  have all: "(\<exists>r \<in> set (pol_Roots p). rt_Path r = tgt_Path t) \<and> 0 < sint (tgt_TargetFreeBytes t)
    \<and> 0 \<le> sint (tgt_ReserveFreeBytes t) \<and> sint (tgt_ReserveFreeBytes t) \<le> sint (tgt_TargetFreeBytes t)
    \<and> 0 \<le> sint (tgt_RecoveryMarginBytes t)
    \<and> sint (tgt_TargetFreeBytes t) \<le> sint (0x7FFFFFFFFFFFFFFF - tgt_RecoveryMarginBytes t)"
    using v by (auto simp: validateTarget_def Let_def list_ex_iff)
  then show "\<exists>r \<in> set (pol_Roots p). rt_Path r = tgt_Path t" "0 < sint (tgt_TargetFreeBytes t)"
    "0 \<le> sint (tgt_ReserveFreeBytes t)" "sint (tgt_ReserveFreeBytes t) \<le> sint (tgt_TargetFreeBytes t)"
    "0 \<le> sint (tgt_RecoveryMarginBytes t)" by blast+
  from all have m: "0 \<le> sint (tgt_RecoveryMarginBytes t)"
    and s: "sint (tgt_TargetFreeBytes t) \<le> sint (0x7FFFFFFFFFFFFFFF - tgt_RecoveryMarginBytes t)" by blast+
  have "sint (tgt_RecoveryMarginBytes t) < 2 ^ 63" using sint_lt [of "tgt_RecoveryMarginBytes t"] by simp
  then have "sint (0x7FFFFFFFFFFFFFFF - tgt_RecoveryMarginBytes t) = 2 ^ 63 - 1 - sint (tgt_RecoveryMarginBytes t)"
    using m by (simp add: sint_word_ariths signed_take_bit_int_eq_self)
  with s show "sint (tgt_TargetFreeBytes t) + sint (tgt_RecoveryMarginBytes t) < 2 ^ 63" by simp
qed

section \<open>Merging protections\<close>

lemma mergeUnique_set: "set (mergeUnique base extra) = set base \<union> set extra"
proof -
  have "set (foldl (\<lambda>seen v. if v \<in> set seen then seen else v # seen) acc xs) = set acc \<union> set xs" for acc and xs :: "string list"
    by (induction xs arbitrary: acc) auto
  from this [of "[]" "base @ extra"] show ?thesis by (simp add: mergeUnique_def)
qed

lemma mergeUnique_distinct: "distinct (mergeUnique base extra)"
proof -
  have "distinct acc \<Longrightarrow> distinct (foldl (\<lambda>seen v. if v \<in> set seen then seen else v # seen) acc xs)" for acc and xs :: "string list"
    by (induction xs arbitrary: acc) auto
  then show ?thesis by (simp add: mergeUnique_def)
qed

lemma merge_protect_covers:
  "set (pro_Paths defaults) \<subseteq> set (pro_Paths (merge_protect p defaults q g))"
  "set (pro_Paths p) \<subseteq> set (pro_Paths (merge_protect p defaults q g))"
  "set (pro_NamePatterns defaults) \<subseteq> set (pro_NamePatterns (merge_protect p defaults q g))"
  "q \<noteq> '''' \<Longrightarrow> q \<in> set (pro_Paths (merge_protect p defaults q g))"
  "g \<noteq> '''' \<Longrightarrow> g \<in> set (pro_Paths (merge_protect p defaults q g))"
  by (auto simp: merge_protect_def Let_def mergeUnique_set)

lemma normalize_protects:
  assumes "run_state (normalize paths defaults p) s = (q, errs)"
  shows "set (pro_Paths (pol_Protect defaults)) \<subseteq> set (pro_Paths (pol_Protect q))"
    "set (pro_NamePatterns (pol_Protect defaults)) \<subseteq> set (pro_NamePatterns (pol_Protect q))"
    "rpol_QuarantineDir (pol_Retention q) \<noteq> '''' \<Longrightarrow>
       rpol_QuarantineDir (pol_Retention q) \<in> set (pro_Paths (pol_Protect q))"
    "gm_Home (pol_Gitmoot q) \<noteq> '''' \<Longrightarrow> gm_Home (pol_Gitmoot q) \<in> set (pro_Paths (pol_Protect q))"
proof -
  from assms obtain r canonical where q: "q = r\<lparr>pol_Protect := merge_protect (pol_Protect r) (pol_Protect defaults)
      (rpol_QuarantineDir (pol_Retention r)) (gm_Home (pol_Gitmoot r)), pol_CanonicalRoots := canonical\<rparr>"
    by (auto simp: normalize_def split: prod.splits)
  show "set (pro_Paths (pol_Protect defaults)) \<subseteq> set (pro_Paths (pol_Protect q))"
    "set (pro_NamePatterns (pol_Protect defaults)) \<subseteq> set (pro_NamePatterns (pol_Protect q))"
    "rpol_QuarantineDir (pol_Retention q) \<noteq> '''' \<Longrightarrow>
       rpol_QuarantineDir (pol_Retention q) \<in> set (pro_Paths (pol_Protect q))"
    "gm_Home (pol_Gitmoot q) \<noteq> '''' \<Longrightarrow> gm_Home (pol_Gitmoot q) \<in> set (pro_Paths (pol_Protect q))"
    using merge_protect_covers by (auto simp: q)
qed

section \<open>Loaded policies\<close>

text \<open>Whatever way a policy was loaded, it validates, and it holds the built-in protections and its own boundaries.\<close>

lemma default_protects:
  "rpol_QuarantineDir (pol_Retention (DefaultPolicy paths)) \<noteq> '''' \<Longrightarrow>
     rpol_QuarantineDir (pol_Retention (DefaultPolicy paths)) \<in> set (pro_Paths (pol_Protect (DefaultPolicy paths)))"
  "gm_Home (pol_Gitmoot (DefaultPolicy paths)) \<noteq> '''' \<Longrightarrow>
     gm_Home (pol_Gitmoot (DefaultPolicy paths)) \<in> set (pro_Paths (pol_Protect (DefaultPolicy paths)))"
  by (auto simp: DefaultPolicy_def Let_def default_protected_def split: if_splits)

definition boundaries_protected :: "paths \<Rightarrow> full_policy \<Rightarrow> bool" where
  "boundaries_protected paths p \<longleftrightarrow>
     set (pro_Paths (pol_Protect (DefaultPolicy paths))) \<subseteq> set (pro_Paths (pol_Protect p))
   \<and> set (pro_NamePatterns (pol_Protect (DefaultPolicy paths))) \<subseteq> set (pro_NamePatterns (pol_Protect p))
   \<and> (rpol_QuarantineDir (pol_Retention p) \<noteq> '''' \<longrightarrow>
        rpol_QuarantineDir (pol_Retention p) \<in> set (pro_Paths (pol_Protect p)))
   \<and> (gm_Home (pol_Gitmoot p) \<noteq> '''' \<longrightarrow> gm_Home (pol_Gitmoot p) \<in> set (pro_Paths (pol_Protect p)))"

lemma defaultsOnly_valid:
  assumes "defaultsOnly env paths source = Inr p"
  shows "Validate env p = []" "boundaries_protected paths p"
proof -
  from assms have p: "p = (DefaultPolicy paths)\<lparr>fpl_Source := source\<rparr>" and v: "Validate env p = []"
    by (auto simp: defaultsOnly_def Let_def split: if_splits)
  show "Validate env p = []" by (rule v)
  show "boundaries_protected paths p" using default_protects by (simp add: p boundaries_protected_def)
qed

lemma ParsePolicy_valid:
  assumes "ParsePolicy env dec data paths source = Inr p"
  shows "Validate env p = []" "boundaries_protected paths p"
proof -
  from assms obtain q where n: "run_state (normalize paths (DefaultPolicy paths) q) [] = (p, [])"
    and v: "Validate env p = []"
    by (auto simp: ParsePolicy_def Let_def split: sum.splits if_splits prod.splits)
  show "Validate env p = []" by (rule v)
  show "boundaries_protected paths p" using normalize_protects [OF n] by (simp add: boundaries_protected_def)
qed

lemma LoadPolicy_valid:
  assumes "LoadPolicy env dec files paths = Inr p"
  shows "Validate env p = []" "boundaries_protected paths p"
  using assms defaultsOnly_valid ParsePolicy_valid
  by (auto simp: LoadPolicy_def split: if_splits file_content.splits)

end
