(* ===== verification/ConfigProps.thy ===== *)
theory ConfigProps
  imports ConfigFacts
begin

text \<open>
  The properties of \<open>internal/config\<close>: what loading a policy guarantees to the planner and to the rules, that the
  places archives are written to and the scratch directories stay apart from everything else, that the built-in
  policy loads, and that a run resolves to canonical locations.
\<close>

section \<open>Locations\<close>

lemma Join_abs: "IsAbs h \<Longrightarrow> isAbsClean (Join (h # es))"
proof -
  assume h: "IsAbs h"
  then have ne: "h \<noteq> []" by (auto simp: IsAbs_def)
  have "IsAbs (join ''/'' (h # es))" using h by (cases es) (auto simp: IsAbs_def)
  then have "isAbsClean (Clean (join ''/'' (h # es)))" by (rule Clean_canonical)
  then show ?thesis using ne by (simp add: Join_def)
qed

lemma run_add_error [simp]: "run_state (add_error f m a) errs = ((), errs @ [FieldError f m a])"
  by (simp add: add_error_def State_Monad.update_def)

lemma checkAbs_ok:
  assumes "run_state (checkAbs field v) errs = (w, errs')"
  shows "prefix errs errs'" "errs' = [] \<Longrightarrow> isAbsClean w"
  using assms by (auto simp: checkAbs_def isAbsClean_def IsAbs_def split: if_splits)

lemma resolve_ok:
  assumes "run_state (resolve look known field ov envKey xdgKey suf homeSuf) errs = ((w, org), errs')"
    and "\<And>h. known = Some h \<Longrightarrow> IsAbs h"
  shows "prefix errs errs'" "errs' = [] \<Longrightarrow> isAbsClean w"
  using assms checkAbs_ok Join_abs
  by (auto simp: resolve_def split: if_splits option.splits prod.splits)

lemma resolve_policy_file_ok:
  assumes "run_state (resolve_policy_file look ov dir) errs = ((w, org), errs')" "dir = '''' \<or> isAbsClean dir"
  shows "prefix errs errs'" "errs' = [] \<Longrightarrow> w = '''' \<or> isAbsClean w" "errs' = [] \<Longrightarrow> dir \<noteq> '''' \<Longrightarrow> isAbsClean w"
  using assms checkAbs_ok Join_abs [of dir] canonical_IsAbs [of dir]
  by (auto simp: resolve_policy_file_def split: if_splits option.splits prod.splits)

lemma resolve_home_ok:
  assumes "run_state (resolve_home look) errs = ((home, known), errs')"
  shows "prefix errs errs'" "known = Some h \<Longrightarrow> h = home \<and> IsAbs h" "errs' = [] \<Longrightarrow> home = '''' \<or> IsAbs home"
  using assms by (auto simp: resolve_home_def split: option.splits if_splits)

lemma ResolvePaths_ok:
  assumes "ResolvePaths ff (Some look) ov = Inr p"
  shows "isAbsClean (pth_ConfigDir p)" "isAbsClean (pth_StateDir p)" "isAbsClean (pth_CacheDir p)"
    "isAbsClean (pth_PolicyFile p)" "pth_DatabaseFile p = Join [pth_StateDir p, ''janitor.db'']"
    "pth_QuarantineDir p = Join [pth_StateDir p, ''quarantine'']" "pth_Home p = '''' \<or> IsAbs (pth_Home p)"
proof -
  from assms have r: "run_state (resolved_paths look ov) [] = (p, [])"
    by (auto simp: ResolvePaths_def ErrorOrNil_def split: prod.splits if_splits)
  obtain home known e1 where 1: "run_state (resolve_home look) [] = ((home, known), e1)" by (metis surj_pair)
  obtain config o2 e2 where 2: "run_state (resolve look known ''config-dir'' (ovr_ConfigDir ov) ''JANITOR_CONFIG_DIR''
       ''XDG_CONFIG_HOME'' AppName [''.config'', AppName]) e1 = ((config, o2), e2)" by (metis surj_pair)
  obtain st o3 e3 where 3: "run_state (resolve look known ''state-dir'' (ovr_StateDir ov) ''JANITOR_STATE_DIR''
       ''XDG_STATE_HOME'' AppName [''.local'', ''state'', AppName]) e2 = ((st, o3), e3)" by (metis surj_pair)
  obtain cache o4 e4 where 4: "run_state (resolve look known ''cache-dir'' (ovr_CacheDir ov) ''JANITOR_CACHE_DIR''
       ''XDG_CACHE_HOME'' AppName [''.cache'', AppName]) e3 = ((cache, o4), e4)" by (metis surj_pair)
  obtain pf o5 e5 where 5: "run_state (resolve_policy_file look (ovr_PolicyFile ov) config) e4 = ((pf, o5), e5)"
    by (metis surj_pair)
  have e5: "e5 = []" and p: "pth_Home p = home" "pth_ConfigDir p = config" "pth_StateDir p = st" "pth_CacheDir p = cache"
    "pth_PolicyFile p = pf" "pth_DatabaseFile p = (if st \<noteq> '''' then Join [st, ''janitor.db''] else '''')"
    "pth_QuarantineDir p = (if st \<noteq> '''' then Join [st, ''quarantine''] else '''')"
    using r by (auto simp: resolved_paths_def 1 2 3 4 5)
  have k: "\<And>h. known = Some h \<Longrightarrow> IsAbs h" using resolve_home_ok(2) [OF 1] by blast
  note config = resolve_ok [OF 2 k] and st = resolve_ok [OF 3 k] and cache = resolve_ok [OF 4 k]
  have "e4 = []"
  proof -
    have "prefix e4 e5"
      using 5 checkAbs_ok(1) by (fastforce simp: resolve_policy_file_def split: if_splits option.splits prod.splits)
    then show ?thesis using e5 by simp
  qed
  moreover from this have "e3 = []" using cache(1) by simp
  moreover from this have "e2 = []" using st(1) by simp
  moreover from this have "e1 = []" using config(1) by simp
  ultimately show dirs: "isAbsClean (pth_ConfigDir p)" "isAbsClean (pth_StateDir p)" "isAbsClean (pth_CacheDir p)"
    and "pth_Home p = '''' \<or> IsAbs (pth_Home p)"
    using config(2) st(2) cache(2) resolve_home_ok(3) [OF 1] by (simp_all add: p)
  show "isAbsClean (pth_PolicyFile p)"
    using resolve_policy_file_ok(3) [OF 5] dirs(1) e5 canonical_ne by (simp add: p)
  show "pth_DatabaseFile p = Join [pth_StateDir p, ''janitor.db'']"
    "pth_QuarantineDir p = Join [pth_StateDir p, ''quarantine'']"
    using dirs(2) canonical_ne by (auto simp: p)
qed

section \<open>The built-in policy\<close>

lemma default_pattern_names:
  "list_all (\<lambda>pat. pat \<noteq> '''' \<and> Match pat ''probe'' \<noteq> None) default_patterns" by code_simp

lemma default_classes:
  "list_all (\<lambda>pat. pat \<noteq> '''' \<and> Match pat ''probe'' \<noteq> None)
     (cls_WorktreeMarkers default_classification @ cls_GeneratedNames default_classification
      @ cls_CacheNames default_classification @ cls_BackupNames default_classification
      @ cls_OperationalNames default_classification @ cls_EvidenceNames default_classification)"
  "list_all (\<lambda>m. validateMarker 0 m = []) (cls_ProjectMarkers default_classification)"
  by code_simp+

lemma validatePattern_Nil: "validatePattern f pat = [] \<longleftrightarrow> pat \<noteq> '''' \<and> Match pat ''probe'' \<noteq> None"
  by (auto simp: validatePattern_def)

lemma validateMarker_Nil: "validateMarker i m = [] \<longleftrightarrow> validateMarker 0 m = []"
  by (simp add: validateMarker_def Let_def)

lemma each_pattern_Nil:
  "each (\<lambda>i pat. validatePattern (f i) pat) xs = [] \<longleftrightarrow> list_all (\<lambda>pat. pat \<noteq> '''' \<and> Match pat ''probe'' \<noteq> None) xs"
  by (simp add: each_Nil validatePattern_Nil list_all_length)

lemma each_canonical_Nil:
  "each (\<lambda>i x. err_if (\<not> IsCanonicalPath x) (f i) m (a x)) xs = [] \<longleftrightarrow> list_all isAbsClean xs"
  by (simp add: each_Nil IsCanonicalPath_def list_all_length)

lemma each_marker_Nil: "each validateMarker xs = [] \<longleftrightarrow> list_all (\<lambda>m. validateMarker 0 m = []) xs"
  unfolding each_Nil list_all_length using validateMarker_Nil by blast

lemma default_validateClassification:
  "pol_Classification p = default_classification \<Longrightarrow> validateClassification p = []"
  using default_classes unfolding list_all_append
  by (simp only: validateClassification_def Let_def each_marker_Nil each_pattern_Nil list.map concat.simps append_is_Nil_conv
      case_prod_conv simp_thms)

lemma default_validateJev: "validateJev env default_jev = []"
proof -
  have "isEnvName ''OPENROUTER_API_KEY''" by code_simp
  then show ?thesis
    by (simp add: validateJev_def default_jev_def validateEndpoint_def Let_def second_def nanosecond_hour_def)
qed

lemma static_canonical:
  "list_all isAbsClean [''/proc'', ''/etc/systemd/system'', ''/usr/lib/systemd/system'', ''/etc/crontab'', ''/etc/cron.d'',
     ''/etc/stagehand/pipelines'', ''/var/lib/stagehand'']"
  by code_simp

lemma default_validates:
  assumes h: "isAbsClean (pth_Home paths)"
    and q: "isAbsClean (pth_StateDir paths)" "isAbsClean (pth_QuarantineDir paths)"
  shows "Validate env ((DefaultPolicy paths)\<lparr>fpl_Source := source\<rparr>) = []"
proof -
  let ?p = "(DefaultPolicy paths)\<lparr>fpl_Source := source\<rparr>"
  have ne: "pth_Home paths \<noteq> ''''" and abs: "IsAbs (pth_Home paths)"
    using h canonical_ne canonical_IsAbs by auto
  note J = Join_abs [OF abs]
  have g: "isAbsClean (Join [Join [pth_Home paths, ''.gitmoot''], ''config.toml''])"
    by (rule Join_abs [OF canonical_IsAbs [OF J]])
  have prot: "list_all isAbsClean (pro_Paths (pol_Protect ?p))"
    using q J by (simp add: DefaultPolicy_def Let_def default_protected_def)
  have "each (validateRoot ?p) (pol_Roots ?p) = []"
    using h ne by (simp add: DefaultPolicy_def Let_def each_def validateRoot_def IsCanonicalPath_def earlier_def)
  moreover have "validateProtect ?p = []"
    using prot default_pattern_names unfolding validateProtect_def each_canonical_Nil each_pattern_Nil append_is_Nil_conv
    by (simp add: DefaultPolicy_def Let_def)
  moreover have "validateRetention ?p = []"
    using q by (simp add: validateRetention_def DefaultPolicy_def Let_def IsCanonicalPath_def retention_Valid_def
        validEnum_def retentions_def)
  moreover have "validateGitmoot ?p = []"
    using J by (simp add: validateGitmoot_def DefaultPolicy_def Let_def IsCanonicalPath_def)
  moreover have "validatePrevention ?p = []"
    by (simp add: validatePrevention_def validateRecovery_def DefaultPolicy_def Let_def default_prevention_def
        nanosecond_hour_def minute_def second_def each_def)
  moreover have "validateLimits ?p = []"
    by (simp add: validateLimits_def DefaultPolicy_def Let_def default_limits_def second_def)
  moreover have "validateClassification ?p = []"
    by (rule default_validateClassification) (simp add: DefaultPolicy_def Let_def)
  moreover have "validateCollectors ?p = []"
    using J g static_canonical ne unfolding validateCollectors_def Let_def
    by (simp add: each_canonical_Nil [unfolded IsCanonicalPath_def] DefaultPolicy_def Let_def default_collectors_def IsCanonicalPath_def)
  moreover have "validateStaleReport ?p = []"
    by (simp add: validateStaleReport_def validateReportAlways_def DefaultPolicy_def Let_def defaultStaleReport_def
        DefaultStaleReportIdle_def minStaleReportIdle_def nanosecond_hour_def each_def)
  moreover have "validateJev env (fpl_Jev ?p) = []"
    using default_validateJev by (simp add: DefaultPolicy_def Let_def)
  moreover have "jev_MaxBatch (fpl_Jev ?p) = 20" "jev_Enabled (fpl_Jev ?p) = False" "jev_RedactSegments (fpl_Jev ?p) = []"
    "pol_Roots ?p \<noteq> []" "pol_Caches ?p = []" "pol_CanonicalRoots ?p = []" "pol_EvidenceExports ?p = []"
    "pol_WorkspaceArchives ?p = []" "fpl_WorkspaceArchiveKeep ?p = []" "fpl_Categories ?p = []"
    "fpl_ScratchCleanup ?p = []" "fpl_SourceNameApprovals ?p = None" "pol_Version ?p = PolicyVersion"
    "sint (sfs_MinFreeBytes (pol_Safety ?p)) = 2 ^ 30"
    using ne by (simp_all add: DefaultPolicy_def Let_def default_jev_def)
  ultimately show ?thesis
    by (simp add: Validate_def validateEvidenceExports_def validateWorkspaceArchives_def
        validateWorkspaceArchiveCategories_def validateScratchCleanup_def validateSourceNameApprovals_def Let_def each_def)
qed

section \<open>Overlap along containment\<close>

lemma PathsOverlap_canonical:
  "isAbsClean a \<Longrightarrow> isAbsClean b \<Longrightarrow> PathsOverlap a b \<longleftrightarrow> prefix (segs a) (segs b) \<or> prefix (segs b) (segs a)"
  by (auto simp: PathsOverlap_def PathWithin_canonical)

text \<open>What overlaps a directory overlaps everything that contains the directory.\<close>

lemma overlap_container:
  assumes "isAbsClean e" "isAbsClean d" "isAbsClean x" "PathsOverlap e d" "PathWithin d x"
  shows "PathsOverlap e x"
  using assms prefix_same_cases prefix_order.trans
  unfolding PathsOverlap_canonical [OF assms(1,2)] PathsOverlap_canonical [OF assms(1,3)] PathWithin_canonical [OF assms(2,3)]
  by metis

lemma overlap_inherit:
  assumes "isAbsClean a" "isAbsClean b" "isAbsClean c" "PathWithin a b" "\<not> PathsOverlap b c"
  shows "\<not> PathsOverlap a c"
  using assms overlap_container [of c a b] PathsOverlap_sym by blast

section \<open>Properties\<close>

text \<open>A run resolves to canonical absolute configuration, state and cache directories and policy file, and keeps its
  database and its quarantine inside the state directory.\<close>

theorem resolved_locations:
  assumes "ResolvePaths ff (Some look) ov = Inr p"
  shows "list_all isAbsClean [pth_ConfigDir p, pth_StateDir p, pth_CacheDir p, pth_PolicyFile p, pth_DatabaseFile p,
      pth_QuarantineDir p]
    \<and> PathWithin (pth_DatabaseFile p) (pth_StateDir p) \<and> PathWithin (pth_QuarantineDir p) (pth_StateDir p)
    \<and> \<not> PathsOverlap (pth_DatabaseFile p) (pth_QuarantineDir p)
    \<and> (pth_Home p = '''' \<or> IsAbs (pth_Home p))"
proof -
  note r = ResolvePaths_ok [OF assms]
  define es where "es = segs (pth_StateDir p)"
  have es: "good_segs es" "pth_StateDir p = abs_path es" using canonical_eq [OF r(2)] by (simp_all add: es_def)
  have g: "good_seg ''janitor.db''" "good_seg ''quarantine''" by (simp_all add: good_seg_def)
  have d: "pth_DatabaseFile p = abs_path (es @ [''janitor.db''])"
    "pth_QuarantineDir p = abs_path (es @ [''quarantine''])"
    using Join_child [OF es(1)] g by (simp_all add: r(5,6) es(2))
  have ge: "good_segs (es @ [''janitor.db''])" "good_segs (es @ [''quarantine''])" using es(1) g by simp_all
  have "\<not> PathsOverlap (pth_DatabaseFile p) (pth_QuarantineDir p)"
    unfolding PathsOverlap_def d using PathWithin_paths [OF ge] PathWithin_paths [OF ge(2,1)] by simp
  then show ?thesis
    using r(1-4,7) canonical_abs_path [OF ge(1)] canonical_abs_path [OF ge(2)]
      PathWithin_paths [OF ge(1) es(1)] PathWithin_paths [OF ge(2) es(1)]
    by (simp add: d es(2))
qed

definition no_overrides :: overrides where
  "no_overrides = \<lparr>ovr_ConfigDir = '''', ovr_StateDir = '''', ovr_CacheDir = '''', ovr_PolicyFile = ''''\<rparr>"

definition home_env :: "string \<Rightarrow> string \<Rightarrow> string option" where
  "home_env home key = (if key = ''HOME'' then Some home else None)"

definition sample_config_env :: config_env where
  "sample_config_env = \<lparr>cfe_Now = 10, cfe_ParseURL = \<lambda>_. None, cfe_Loopback = \<lambda>_. False\<rparr>"

definition sample_paths :: "string \<Rightarrow> paths" where
  "sample_paths home =
     \<lparr>pth_Home = home, pth_ConfigDir = ''/home/u/.config/workspace-janitor'',
      pth_StateDir = ''/home/u/.local/state/workspace-janitor'', pth_CacheDir = ''/home/u/.cache/workspace-janitor'',
      pth_PolicyFile = ''/home/u/.config/workspace-janitor/policy.yaml'',
      pth_DatabaseFile = ''/home/u/.local/state/workspace-janitor/janitor.db'',
      pth_QuarantineDir = ''/home/u/.local/state/workspace-janitor/quarantine'',
      pth_Origins = \<lparr>org_ConfigDir = OriginDefault, org_StateDir = OriginDefault, org_CacheDir = OriginDefault,
        org_PolicyFile = OriginDerived\<rparr>\<rparr>"

lemma sample_resolved:
  "ResolvePaths ff (Some (home_env ''/home/u'')) no_overrides = Inr (sample_paths ''/home/u'')"
  "ResolvePaths ff (Some (home_env ''/home/u/'')) no_overrides = Inr (sample_paths ''/home/u/'')"
proof -
  have t: "TrimSpace ''/home/u'' = ''/home/u''" "TrimSpace ''/home/u/'' = ''/home/u/''" "TrimSpace '''' = ''''"
    by code_simp+
  have j: "Join [''/home/u'', ''.config'', AppName] = ''/home/u/.config/workspace-janitor''"
    "Join [''/home/u/'', ''.config'', AppName] = ''/home/u/.config/workspace-janitor''"
    "Join [''/home/u'', ''.local'', ''state'', AppName] = ''/home/u/.local/state/workspace-janitor''"
    "Join [''/home/u/'', ''.local'', ''state'', AppName] = ''/home/u/.local/state/workspace-janitor''"
    "Join [''/home/u'', ''.cache'', AppName] = ''/home/u/.cache/workspace-janitor''"
    "Join [''/home/u/'', ''.cache'', AppName] = ''/home/u/.cache/workspace-janitor''"
    "Join [''/home/u/.config/workspace-janitor'', ''policy.yaml''] = ''/home/u/.config/workspace-janitor/policy.yaml''"
    "Join [''/home/u/.local/state/workspace-janitor'', ''janitor.db''] = ''/home/u/.local/state/workspace-janitor/janitor.db''"
    "Join [''/home/u/.local/state/workspace-janitor'', ''quarantine''] = ''/home/u/.local/state/workspace-janitor/quarantine''"
    by code_simp+
  note defs = resolved_paths_def resolve_home_def resolve_def resolve_policy_file_def no_overrides_def sample_paths_def
    home_env_def envValue_def EnvHome_def IsAbs_def t j
  have "run_state (resolved_paths (home_env ''/home/u'') no_overrides) [] = (sample_paths ''/home/u'', [])"
    "run_state (resolved_paths (home_env ''/home/u/'') no_overrides) [] = (sample_paths ''/home/u/'', [])"
    by (simp_all add: defs)
  then show "ResolvePaths ff (Some (home_env ''/home/u'')) no_overrides = Inr (sample_paths ''/home/u'')"
    "ResolvePaths ff (Some (home_env ''/home/u/'')) no_overrides = Inr (sample_paths ''/home/u/'')"
    by (simp_all add: ResolvePaths_def ErrorOrNil_def)
qed

lemma resolved_locations_witness:
  "pth_QuarantineDir (sample_paths ''/home/u'') = ''/home/u/.local/state/workspace-janitor/quarantine''
   \<and> PathWithin (pth_QuarantineDir (sample_paths ''/home/u'')) (pth_StateDir (sample_paths ''/home/u''))"
  using resolved_locations [OF sample_resolved(1)] by (simp add: sample_paths_def)

text \<open>C31: Without a policy file the built-in policy is used exactly when the home directory is a canonical path: it then
  passes its own validation, and a run with no home, or with one written with a trailing slash, is refused.\<close>

theorem default_policy_loads:
  assumes "ResolvePaths ff (Some look) ov = Inr paths"
  shows "(\<exists>p. defaultsOnly env paths source = Inr p) = isAbsClean (pth_Home paths)"
proof
  assume "\<exists>p. defaultsOnly env paths source = Inr p"
  then obtain p where d: "defaultsOnly env paths source = Inr p" by blast
  then have p: "p = (DefaultPolicy paths)\<lparr>fpl_Source := source\<rparr>" "pol_Roots p \<noteq> [] \<or> pth_Home paths \<noteq> ''''"
    by (auto simp: defaultsOnly_def Let_def split: if_splits)
  then have ne: "pth_Home paths \<noteq> ''''" by (auto simp: DefaultPolicy_def Let_def)
  have "each (validateRoot p) (pol_Roots p) = []"
    by (rule Validate_NilD) (rule defaultsOnly_valid(1) [OF d])
  from valid_root(1) [OF this, of "hd (pol_Roots p)"] ne show "isAbsClean (pth_Home paths)"
    by (simp add: p DefaultPolicy_def Let_def)
next
  assume h: "isAbsClean (pth_Home paths)"
  have "isAbsClean (pth_QuarantineDir paths)"
    unfolding ResolvePaths_ok(6) [OF assms] by (rule Join_abs [OF canonical_IsAbs [OF ResolvePaths_ok(2) [OF assms]]])
  from default_validates [OF h ResolvePaths_ok(2) [OF assms] this] show "\<exists>p. defaultsOnly env paths source = Inr p"
    using h canonical_ne by (auto simp: defaultsOnly_def Let_def)
qed

lemma default_policy_loads_witness:
  "(\<exists>p. defaultsOnly sample_config_env (sample_paths ''/home/u'') ''x'' = Inr p) \<and> \<not> (\<exists>p. defaultsOnly sample_config_env (sample_paths ''/home/u/'') ''x'' = Inr p)"
proof -
  have "isAbsClean (pth_Home (sample_paths ''/home/u''))" "\<not> isAbsClean (pth_Home (sample_paths ''/home/u/''))"
    by code_simp+
  then show ?thesis
    using default_policy_loads [OF sample_resolved(1) [of undefined]]
      default_policy_loads [OF sample_resolved(2) [of undefined]] by blast
qed

text \<open>C28: Whatever document was loaded, the built-in protected paths and name patterns are still protected, and so are the
  quarantine directory and Gitmoot's home it configures; every entry that overlaps one of them is kept.\<close>

theorem loaded_policy_protects:
  assumes "LoadPolicy env dec files paths = Inr p"
  shows "set (pro_Paths (pol_Protect (DefaultPolicy paths))) \<subseteq> set (pro_Paths (pol_Protect p))
    \<and> set (pro_NamePatterns (pol_Protect (DefaultPolicy paths))) \<subseteq> set (pro_NamePatterns (pol_Protect p))
    \<and> (PathsOverlap (ent_Path e) b \<and> b \<in> set (pro_Paths (pol_Protect (DefaultPolicy paths)))
          \<union> ({rpol_QuarantineDir (pol_Retention p), gm_Home (pol_Gitmoot p)} - {''''})
        \<longrightarrow> dec_Kind (Evaluate_rules e p v) = ActionKeep)"
proof -
  note b = LoadPolicy_valid(2) [OF assms, unfolded boundaries_protected_def]
  have "dec_Kind (Evaluate_rules e p v) = ActionKeep"
    if "PathsOverlap (ent_Path e) b" "b \<in> set (pro_Paths (pol_Protect (DefaultPolicy paths)))
          \<union> ({rpol_QuarantineDir (pol_Retention p), gm_Home (pol_Gitmoot p)} - {''''})"
  proof -
    have "b \<in> set (pro_Paths (pol_Protect p))" using that(2) b by auto
    with that(1) have "protected_proposals e p \<noteq> []"
      by (auto simp: protected_proposals_def Let_def filter_empty_conv)
    then obtain x where "x \<in> set (protected_proposals e p)" by (cases "protected_proposals e p") auto
    then show ?thesis by (rule Evaluate_protected)
  qed
  with b show ?thesis by blast
qed

lemma sample_loaded:
  "LoadPolicy sample_config_env dec (\<lambda>_. FileMissing) (sample_paths ''/home/u'')
     = Inr ((DefaultPolicy (sample_paths ''/home/u''))\<lparr>fpl_Source :=
         ''built-in defaults (no policy file at /home/u/.config/workspace-janitor/policy.yaml)''\<rparr>)"
proof -
  define ps where "ps = sample_paths ''/home/u''"
  have c: "isAbsClean (pth_Home ps)" "isAbsClean (pth_StateDir ps)" "isAbsClean (pth_QuarantineDir ps)"
    unfolding ps_def sample_paths_def paths.simps by code_simp+
  have f: "pth_PolicyFile ps = ''/home/u/.config/workspace-janitor/policy.yaml''" "pth_Home ps \<noteq> ''''"
    by (simp_all add: ps_def sample_paths_def)
  note v = default_validates [OF c, of sample_config_env]
  have "defaultsOnly sample_config_env ps s = Inr ((DefaultPolicy ps)\<lparr>fpl_Source := s\<rparr>)" for s
    by (simp add: defaultsOnly_def Let_def v f(2))
  then show ?thesis unfolding ps_def [symmetric] by (simp add: LoadPolicy_def readPolicyFile_def f(1))
qed

lemma loaded_policy_protects_witness:
  "dec_Kind (Evaluate_rules (sample_entry\<lparr>ent_Path := ''/home/u/.ssh/keys''\<rparr>)
     ((DefaultPolicy (sample_paths ''/home/u''))\<lparr>fpl_Source :=
         ''built-in defaults (no policy file at /home/u/.config/workspace-janitor/policy.yaml)''\<rparr>) (sample_verdict DecisionAllow)) = ActionKeep"
proof -
  have o': "PathsOverlap ''/home/u/.ssh/keys'' ''/home/u/.ssh''" and j: "Join [''/home/u'', ''.ssh''] = ''/home/u/.ssh''"
    by code_simp+
  have "''/home/u/.ssh'' \<in> set (pro_Paths (pol_Protect (DefaultPolicy (sample_paths ''/home/u''))))"
    by (simp add: DefaultPolicy_def Let_def default_protected_def sample_paths_def j)
  with o'
  show ?thesis
    using loaded_policy_protects [OF sample_loaded, of "sample_entry\<lparr>ent_Path := ''/home/u/.ssh/keys''\<rparr>" "''/home/u/.ssh''" "sample_verdict DecisionAllow"]
    by simp
qed





lemma scratch_member:
  assumes "Validate env p = []" "s \<in> set (fpl_ScratchCleanup p)"
  shows "\<exists>i < length (fpl_ScratchCleanup p). fpl_ScratchCleanup p ! i = s \<and> validateScratch p i s = []"
  using assms(2) scratch_validated [OF Validate_NilD(5) [OF assms(1)]] by (auto simp: in_set_conv_nth)



text \<open>In a valid policy the scratch directories are pairwise apart, and apart from every inventory root, the
  quarantine, Gitmoot's state, the caches and the archives; none lies inside a protected or kept path, an entry is
  idle for a day before it is archived and for an hour before it is deleted as regenerable.\<close>

theorem scratch_apart:
  assumes "Validate env p = []" "s \<in> set (fpl_ScratchCleanup p)"
  shows "isAbsClean (scl_Path s)
    \<and> list_all (\<lambda>r. \<not> PathsOverlap (scl_Path s) (rt_Path r)) (pol_Roots p)
    \<and> list_all (\<lambda>x. \<not> PathWithin (scl_Path s) x) (pro_Paths (pol_Protect p))
    \<and> list_all (\<lambda>k. \<not> PathWithin (scl_Path s) (wak_Path k)) (fpl_WorkspaceArchiveKeep p)
    \<and> list_all (\<lambda>c. \<not> PathsOverlap (scl_Path s) (cr_Path c)) (pol_Caches p)
    \<and> list_all (\<lambda>r. \<not> PathsOverlap (scl_Path s) (wr_Path r)) (pol_WorkspaceArchives p)
    \<and> (rpol_QuarantineDir (pol_Retention p) \<noteq> '''' \<longrightarrow>
         \<not> PathsOverlap (scl_Path s) (rpol_QuarantineDir (pol_Retention p)))
    \<and> sorted_wrt (\<lambda>a b. \<not> PathsOverlap (scl_Path a) (scl_Path b)) (fpl_ScratchCleanup p)
    \<and> minScratchInterval \<le> IdleFor s False \<and> minRegenerableIdle \<le> IdleFor s True"
proof -
  obtain i where i: "i < length (fpl_ScratchCleanup p)" "fpl_ScratchCleanup p ! i = s" and v: "validateScratch p i s = []"
    using scratch_member [OF assms] by blast
  note vs = valid_scratch [OF v]
  obtain field where "validateScratchPath p field (scl_Path s) = []" using vs(2) by blast
  note path = valid_scratch_path [OF this]
  have apart: "\<not> PathsOverlap (scl_Path (fpl_ScratchCleanup p ! j)) (scl_Path (fpl_ScratchCleanup p ! k))"
    if "j < k" "k < length (fpl_ScratchCleanup p)" for j k
  proof -
    note vj = scratch_validated [OF Validate_NilD(5) [OF assms(1)], of j]
      and vk = scratch_validated [OF Validate_NilD(5) [OF assms(1)] that(2)]
    have "fpl_ScratchCleanup p ! j \<in> set (take k (fpl_ScratchCleanup p))"
      using that by (auto simp: in_set_conv_nth intro!: exI [of _ j])
    from valid_scratch(7) [OF vk this] valid_scratch(1) [OF vj] that show ?thesis by (simp add: PathsOverlap_sym)
  qed
  have "minScratchInterval \<le> IdleFor s False" using vs(3) by (simp add: IdleFor_def)
  moreover have "minRegenerableIdle \<le> IdleFor s True"
    using vs(3,5) by (simp add: IdleFor_def minScratchInterval_def minRegenerableIdle_def nanosecond_hour_def)
  moreover have "sorted_wrt (\<lambda>a b. \<not> PathsOverlap (scl_Path a) (scl_Path b)) (fpl_ScratchCleanup p)"
    using apart by (simp add: sorted_wrt_iff_nth_less)
  ultimately show ?thesis using vs(1) path by (simp add: list_all_iff)
qed

text \<open>The thresholds of a capacity target of a valid policy are ordered, and the recovery threshold, target plus
  margin, is computed without wrapping.\<close>

theorem targets_fit:
  assumes "Validate env p = []" "t \<in> set (prv_Targets (fpl_Prevention p))"
  shows "0 < sint (tgt_TargetFreeBytes t) \<and> 0 \<le> sint (tgt_ReserveFreeBytes t)
    \<and> sint (tgt_ReserveFreeBytes t) \<le> sint (tgt_TargetFreeBytes t)
    \<and> sint (tgt_TargetFreeBytes t + tgt_RecoveryMarginBytes t)
        = sint (tgt_TargetFreeBytes t) + sint (tgt_RecoveryMarginBytes t)
    \<and> sint (tgt_TargetFreeBytes t) \<le> sint (tgt_TargetFreeBytes t + tgt_RecoveryMarginBytes t)"
proof -
  note t = valid_target [OF Validate_NilD(14) [OF assms(1)] assms(2)]
  have "sint (tgt_TargetFreeBytes t + tgt_RecoveryMarginBytes t)
      = sint (tgt_TargetFreeBytes t) + sint (tgt_RecoveryMarginBytes t)"
    using t by (simp add: sint_word_ariths signed_take_bit_int_eq_self)
  then show ?thesis using t by simp
qed

section \<open>A policy with a scratch directory and a capacity target\<close>

definition sample_scratch :: scratch_cleanup where
  "sample_scratch =
     \<lparr>scl_Path = ''/tmp'', scl_Idle = DefaultScratchIdle, scl_RegenerableIdle = nanosecond_hour, scl_RegenerableEvery = 0,
      scl_Every = DefaultScratchEvery, scl_Skip = [], scl_Regenerable = [''go-build*''],
      scl_Archive = \<lparr>wcd_Directory = ''/archive'', wcd_ExpectMountSource = '''', wcd_ExpectFSType = ''''\<rparr>,
      scl_MaxBytesPerRun = 0, scl_MaxEntries = DefaultScratchMaxEntries\<rparr>"

definition sample_target :: capacity_target where
  "sample_target = \<lparr>tgt_Path = ''/home/u'', tgt_TargetFreeBytes = 20, tgt_ReserveFreeBytes = 5, tgt_RecoveryMarginBytes = 7\<rparr>"

definition sample_full :: full_policy where
  "sample_full =
     (let d = DefaultPolicy (sample_paths ''/home/u'')
      in d\<lparr>pol_Protect := (pol_Protect d)\<lparr>pro_Paths := pro_Paths (pol_Protect d) @ [''/archive'']\<rparr>,
           fpl_ScratchCleanup := [sample_scratch],
           fpl_Prevention := default_prevention\<lparr>prv_Targets := [sample_target]\<rparr>\<rparr>)"

lemma sample_full_fields:
  "pro_Paths (pol_Protect sample_full) =
     [''/home/u/.ssh'', ''/home/u/.gnupg'', ''/home/u/.aws'', ''/home/u/.kube'', ''/home/u/.config'', ''/home/u/.gitmoot'',
      ''/home/u/.local/state/workspace-janitor'', ''/home/u/.local/state/workspace-janitor/quarantine'', ''/archive'']"
  "pol_Roots sample_full = [\<lparr>rt_Path = ''/home/u'', rt_MaxDepth = 1, rt_FollowSymlinks = False, rt_CrossFilesystem = False,
     rt_ReportOnly = False, rt_ArchiveOnly = False\<rparr>]"
  "rpol_QuarantineDir (pol_Retention sample_full) = ''/home/u/.local/state/workspace-janitor/quarantine''"
  "gm_Home (pol_Gitmoot sample_full) = ''/home/u/.gitmoot''"
  "fpl_ScratchCleanup sample_full = [sample_scratch]" "prv_Targets (fpl_Prevention sample_full) = [sample_target]"
  "pol_Caches sample_full = []" "pol_EvidenceExports sample_full = []" "pol_WorkspaceArchives sample_full = []"
  "fpl_WorkspaceArchiveKeep sample_full = []" "fpl_Categories sample_full = []"
  "fpl_Report sample_full = defaultStaleReport"
proof -
  have j: "Join [''/home/u'', ''.ssh''] = ''/home/u/.ssh''" "Join [''/home/u'', ''.gnupg''] = ''/home/u/.gnupg''"
    "Join [''/home/u'', ''.aws''] = ''/home/u/.aws''" "Join [''/home/u'', ''.kube''] = ''/home/u/.kube''"
    "Join [''/home/u'', ''.config''] = ''/home/u/.config''" "Join [''/home/u'', ''.gitmoot''] = ''/home/u/.gitmoot''"
    by code_simp+
  note d = sample_full_def DefaultPolicy_def Let_def default_protected_def sample_paths_def j
  show "pro_Paths (pol_Protect sample_full) =
     [''/home/u/.ssh'', ''/home/u/.gnupg'', ''/home/u/.aws'', ''/home/u/.kube'', ''/home/u/.config'', ''/home/u/.gitmoot'',
      ''/home/u/.local/state/workspace-janitor'', ''/home/u/.local/state/workspace-janitor/quarantine'', ''/archive'']"
    "pol_Roots sample_full = [\<lparr>rt_Path = ''/home/u'', rt_MaxDepth = 1, rt_FollowSymlinks = False, rt_CrossFilesystem = False,
     rt_ReportOnly = False, rt_ArchiveOnly = False\<rparr>]"
    "rpol_QuarantineDir (pol_Retention sample_full) = ''/home/u/.local/state/workspace-janitor/quarantine''"
    "gm_Home (pol_Gitmoot sample_full) = ''/home/u/.gitmoot''"
    "fpl_ScratchCleanup sample_full = [sample_scratch]" "prv_Targets (fpl_Prevention sample_full) = [sample_target]"
    "pol_Caches sample_full = []" "pol_EvidenceExports sample_full = []" "pol_WorkspaceArchives sample_full = []"
    "fpl_WorkspaceArchiveKeep sample_full = []" "fpl_Categories sample_full = []"
    "fpl_Report sample_full = defaultStaleReport"
    by (simp_all add: d)
qed

lemma sample_scratch_validated: "validateScratch sample_full 0 sample_scratch = []"
proof -
  have p: "IsCanonicalPath ''/tmp''" "IsCanonicalPath ''/archive''" "\<not> rawStateOrCredentialPath ''/tmp''"
    "\<not> rawStateOrCredentialPath ''/archive''" "Match ''go-build*'' ''probe'' \<noteq> None"
    "\<not> PathsOverlap ''/tmp'' ''/home/u''" "\<not> PathsOverlap ''/archive'' ''/home/u''" "\<not> PathsOverlap ''/archive'' ''/tmp''"
    "PathWithin ''/archive'' ''/archive''"
    "\<not> PathsOverlap ''/tmp'' ''/home/u/.gitmoot''" "\<not> PathsOverlap ''/archive'' ''/home/u/.gitmoot''"
    by code_simp+
  have q: "\<not> PathsOverlap ''/tmp'' ''/home/u/.local/state/workspace-janitor/quarantine''"
    "\<not> PathsOverlap ''/archive'' ''/home/u/.local/state/workspace-janitor/quarantine''" by code_simp+
  have w: "list_all (\<lambda>x. \<not> PathWithin ''/tmp'' x) (pro_Paths (pol_Protect sample_full))"
    unfolding sample_full_fields by code_simp
  have path: "validateScratchPath sample_full field ''/tmp'' = []" for field
    using p q w by (simp add: validateScratchPath_def own_scopes_def sample_full_fields(2-12) list_all_iff)
  have "list_ex (PathWithin ''/archive'') (pro_Paths (pol_Protect sample_full))"
    unfolding sample_full_fields using p(9) by simp
  then have arch: "validateScratchArchive sample_full field (scl_Archive sample_scratch) = []" for field
    using p q by (simp add: validateScratchArchive_def validateArchiveDirectory_def sample_full_fields(2-12)
        sample_scratch_def ContainsAny_def)
  have times: "validateScratchTimes field sample_scratch = []" for field
    by (simp add: validateScratchTimes_def sample_scratch_def DefaultScratchIdle_def DefaultScratchEvery_def
        minScratchInterval_def minRegenerableIdle_def nanosecond_hour_def)
  have pats: "validateScratchPatterns field n [] = []" "validateScratchPatterns field n [''go-build*''] = []" for field n
    using p(5) by (simp_all add: validateScratchPatterns_def each_def maxScratchPatterns_def)
  show ?thesis
    unfolding validateScratch_def Let_def
    using path arch times pats p(1)
    by (simp add: each_def sample_scratch_def DefaultScratchMaxEntries_def)
qed

lemma sample_full_valid: "Validate sample_config_env sample_full = []"
proof -
  let ?d = "(DefaultPolicy (sample_paths ''/home/u''))\<lparr>fpl_Source := ''built-in defaults''\<rparr>"
  have c: "isAbsClean (pth_Home (sample_paths ''/home/u''))" "isAbsClean (pth_StateDir (sample_paths ''/home/u''))"
    "isAbsClean (pth_QuarantineDir (sample_paths ''/home/u''))"
    unfolding sample_paths_def paths.simps by code_simp+
  note d = default_validates [OF c, of sample_config_env "''built-in defaults''"]
  note v = Validate_NilD [OF d]
  have f: "pol_Roots sample_full = pol_Roots ?d" "pol_Retention sample_full = pol_Retention ?d"
    "pol_Gitmoot sample_full = pol_Gitmoot ?d" "fpl_Collectors sample_full = fpl_Collectors ?d"
    "pol_Classification sample_full = pol_Classification ?d" "fpl_Jev sample_full = fpl_Jev ?d"
    "fpl_Limits sample_full = fpl_Limits ?d" "pol_Safety sample_full = pol_Safety ?d"
    "pol_Version sample_full = pol_Version ?d" "fpl_SourceNameApprovals sample_full = fpl_SourceNameApprovals ?d"
    "pol_CanonicalRoots sample_full = pol_CanonicalRoots ?d" "fpl_Report sample_full = fpl_Report ?d"
    "fpl_Categories sample_full = fpl_Categories ?d"
    "pro_NamePatterns (pol_Protect sample_full) = pro_NamePatterns (pol_Protect ?d)"
    by (simp_all add: sample_full_def Let_def)
  have n: "fpl_SourceNameApprovals ?d = None" "pol_CanonicalRoots ?d = []" "fpl_Jev ?d = default_jev"
    by (simp_all add: DefaultPolicy_def Let_def)
  have "validateRetention sample_full = []" using v(11) by (simp add: validateRetention_def f)
  moreover have "validateGitmoot sample_full = []" using v(13) by (simp add: validateGitmoot_def f)
  moreover have "validateCollectors sample_full = []" using v(19) by (simp add: validateCollectors_def f)
  moreover have "validateClassification sample_full = []" using v(17) by (simp add: validateClassification_def f)
  moreover have "validateStaleReport sample_full = []"
    by (simp add: validateStaleReport_def validateReportAlways_def sample_full_fields defaultStaleReport_def each_def
        DefaultStaleReportIdle_def minStaleReportIdle_def nanosecond_hour_def)
  moreover have "validateLimits sample_full = []"
    using d unfolding Validate_def by (simp add: validateLimits_def f)
  moreover have "each (validateRoot sample_full) (pol_Roots sample_full) = []"
  proof -
    have "IsCanonicalPath ''/home/u''" by code_simp
    then show ?thesis by (simp add: each_def validateRoot_def earlier_def sample_full_fields(2) Let_def)
  qed
  moreover have "validateProtect sample_full = []"
  proof -
    have "isAbsClean ''/archive''" by code_simp
    then show ?thesis
      using v(10) unfolding validateProtect_def f each_canonical_Nil append_is_Nil_conv
      by (simp add: sample_full_def Let_def)
  qed
  moreover have "validatePrevention sample_full = []"
  proof -
    have t: "validateTarget sample_full 0 sample_target = []"
      by (simp add: validateTarget_def Let_def sample_full_fields earlier_def) (simp add: sample_target_def)
    have "fpl_Prevention sample_full = default_prevention\<lparr>prv_Targets := [sample_target]\<rparr>"
      by (simp add: sample_full_def Let_def)
    then show ?thesis
      using t by (simp add: validatePrevention_def validateRecovery_def Let_def default_prevention_def nanosecond_hour_def
          minute_def second_def each_def)
  qed
  moreover have "validateScratchCleanup sample_full = []"
  proof -
    have "col_Processes (fpl_Collectors ?d)" "IsCanonicalPath (col_ProcRoot (fpl_Collectors ?d))"
      using static_canonical by (simp_all add: DefaultPolicy_def Let_def default_collectors_def IsCanonicalPath_def)
    then show ?thesis
      using sample_scratch_validated
      by (simp add: validateScratchCleanup_def Let_def sample_full_fields f each_def maxScratchCleanups_def)
  qed
  ultimately show ?thesis
    using v default_validateJev
    by (simp add: Validate_def validateEvidenceExports_def validateWorkspaceArchives_def
        validateWorkspaceArchiveCategories_def validateSourceNameApprovals_def Let_def each_def sample_full_fields(7-12) f n)
      (simp add: default_jev_def)
qed


lemma scratch_apart_witness:
  "\<not> PathsOverlap ''/tmp'' ''/home/u'' \<and> IdleFor sample_scratch True = nanosecond_hour"
  using scratch_apart [OF sample_full_valid, of sample_scratch]
  by (simp add: sample_full_fields) (simp add: sample_scratch_def IdleFor_def nanosecond_hour_def)

lemma targets_fit_witness:
  "sint (tgt_TargetFreeBytes sample_target + tgt_RecoveryMarginBytes sample_target) = 27"
  using targets_fit [OF sample_full_valid, of sample_target] by (simp add: sample_full_fields) (simp add: sample_target_def)

section \<open>Categories and the report\<close>

lemma first_of_Nil: "first_of [] = ''''" by (simp add: first_of_def)

text \<open>A path no policy fact keeps out of the archive categories is one the stale report may list, except below the
  report's own archive directory while releases are not archived.\<close>

lemma refusals_cover_exclusion:
  assumes "CategoryArchiveRefusals p path = []"
    and "\<not> PathsOverlap path (wcd_Directory (srp_Archive (fpl_Report p))) \<or> ArchivesReleases (fpl_Report p)"
  shows "StaleReportExclusion p path = ''''"
proof -
  have r: "\<not> PathsOverlap path (wcd_Directory (srp_Archive (fpl_Report p)))"
    using assms by (auto simp: CategoryArchiveRefusals_def report_reasons_def split: if_splits)
  show ?thesis
    using assms(1) r unfolding CategoryArchiveRefusals_def StaleReportExclusion_def
    by (auto simp: kept_reasons_def protected_reasons_def rule_reasons_def cache_reasons_def scope_reasons_def
        own_scopes_def category_reasons_def first_of_Nil filter_empty_conv split: if_splits)
qed

lemma refusals_keep_apart:
  assumes "CategoryArchiveRefusals p path = []"
  shows "isAbsClean path" "x \<in> set (pro_Paths (pol_Protect p)) \<Longrightarrow> \<not> PathsOverlap path x"
    "k \<in> set (fpl_WorkspaceArchiveKeep p) \<Longrightarrow> \<not> PathsOverlap path (wak_Path k)"
    "c \<in> set (pol_Caches p) \<Longrightarrow> \<not> PathsOverlap path (cr_Path c)"
    "r \<in> set (pol_Roots p) \<Longrightarrow> \<not> PathWithin (rt_Path r) path"
  using assms by (auto simp: CategoryArchiveRefusals_def kept_reasons_def protected_reasons_def cache_reasons_def
      root_reasons_def IsCanonicalPath_def filter_empty_conv split: if_splits)

section \<open>Idle durations\<close>






end
