(* ===== verification/Jev.thy ===== *)
theory Jev
  imports ConfigDoc Sha256
begin

text \<open>
  \<open>internal/jev\<close>: the optional model classifier.  What is sent about an entry (\<open>project.go\<close>), how entries are packed
  into requests and how typed answers become a recommendation (\<open>request.go\<close>), and one advisory run over the cache and
  the requests (\<open>advisor.go\<close>).  The lengths of JSON encodings, the rendering of floats, the conversion of a duration
  to days in floating point, the cache and the client, which the run asks request after request, are parameters.
\<close>

record jev_env =
  jve_F2 :: "go_float \<Rightarrow> string"
  jve_V :: "go_float \<Rightarrow> string"
  jve_Days :: "duration \<Rightarrow> int"

section \<open>Projections\<close>

definition SchemaVersion :: int where "SchemaVersion = 1"
definition redactedSegment :: string where "redactedSegment = ''[redacted]''"

record git_projection =
  gpj_LinkedWorktree :: bool
  gpj_HasUpstream :: bool
  gpj_DirtyFiles :: int
  gpj_Stashes :: int
  gpj_UnpublishedCommits :: int
  gpj_Degraded :: bool

record projection =
  pjn_Ref :: string
  pjn_Path :: string
  pjn_Name :: string
  pjn_Kind :: string
  pjn_Depth :: int
  pjn_Size :: string
  pjn_SizeMeasured :: bool
  pjn_AgeDays :: int
  pjn_Git :: "git_projection option"
  pjn_Signals :: "string list"
  pjn_Protections :: "string list"

text \<open>\<open>^[a-z][a-z0-9_]*(:[a-z][a-z0-9_]*)?$\<close>\<close>

definition lower_word :: "string \<Rightarrow> bool" where
  "lower_word s \<longleftrightarrow>
     (case s of
        [] \<Rightarrow> False
      | c # cs \<Rightarrow> 97 \<le> byte c \<and> byte c \<le> 122
          \<and> list_all (\<lambda>c. 97 \<le> byte c \<and> byte c \<le> 122 \<or> is_digit c \<or> c = CHR ''_'') cs)"

definition signalPattern :: "string \<Rightarrow> bool" where
  "signalPattern s \<longleftrightarrow>
     (case cut CHR '':'' s of None \<Rightarrow> lower_word s | Some (a, b) \<Rightarrow> lower_word a \<and> lower_word b)"

record redactor =
  rdc_Segments :: "string list"
  rdc_SensitiveNames :: "string list"

text \<open>A byte that is not ASCII belongs to a rune that is none of the counted ones.\<close>

definition looksSecret :: "string \<Rightarrow> bool" where
  "looksSecret segment \<longleftrightarrow>
     (let letter = (\<lambda>c. 97 \<le> byte c \<and> byte c \<le> 122 \<or> 65 \<le> byte c \<and> byte c \<le> 90);
          other = (\<lambda>c. c = CHR ''-'' \<or> c = CHR ''_'')
      in 24 \<le> length segment \<and> list_all (\<lambda>c. letter c \<or> is_digit c \<or> other c) segment
         \<and> 4 \<le> length (filter is_digit segment) \<and> 4 \<le> length (filter letter segment)
         \<and> length (filter other segment) \<le> 3)"

definition Segment :: "redactor \<Rightarrow> string \<Rightarrow> string" where
  "Segment r segment =
     (if segment = '''' then segment
      else if list_ex (\<lambda>pattern. Match pattern segment = Some True \<or> pattern = segment)
        (rdc_Segments r @ rdc_SensitiveNames r) then redactedSegment
      else if looksSecret segment then redactedSegment
      else segment)"

definition relativeSegments :: "entry \<Rightarrow> string list" where
  "relativeSegments e =
     (case (if ent_Root e \<noteq> '''' \<and> PathWithin (ent_Path e) (ent_Root e) \<and> ent_Path e \<noteq> ent_Root e
            then Rel (ent_Root e) (ent_Path e) else None) of
        Some rel \<Rightarrow> if rel \<noteq> ''.'' \<and> \<not> HasPrefix rel ''..'' then split_on slash rel else [Base (ent_Path e)]
      | None \<Rightarrow> [Base (ent_Path e)])"

definition sizeBucket :: "int64 \<Rightarrow> string" where
  "sizeBucket n =
     (if sint n \<le> 0 then ''empty''
      else if sint n < 2 ^ 20 then ''under_1MiB''
      else if sint n < 100 * 2 ^ 20 then ''under_100MiB''
      else if sint n < 2 ^ 30 then ''under_1GiB''
      else ''1GiB_or_more'')"

definition ageDays :: "jev_env \<Rightarrow> time \<Rightarrow> time \<Rightarrow> int" where
  "ageDays env modified now =
     (if modified = time_zero \<or> now = time_zero \<or> now < modified then 0 else jve_Days env (time_sub now modified))"

text \<open>The distinct values in order of first occurrence.\<close>

definition first_seen :: "string list \<Rightarrow> string list" where
  "first_seen xs = rev (foldl (\<lambda>seen x. if x \<in> set seen then seen else x # seen) [] xs)"

definition signalNames :: "entry \<Rightarrow> string list" where
  "signalNames e = first_seen (filter signalPattern (map ev_Signal (ent_Evidence e)))"

definition protectionKinds_sent :: "entry \<Rightarrow> string list" where
  "protectionKinds_sent e =
     first_seen (map protectionKind_str (filter protectionKind_Valid (map prot_Kind (ent_Protections e))))"

definition Project :: "jev_env \<Rightarrow> entry \<Rightarrow> string \<Rightarrow> redactor \<Rightarrow> time \<Rightarrow> projection" where
  "Project env e ref r now =
     (let segments = relativeSegments e
      in \<lparr>pjn_Ref = ref,
          pjn_Path = join ''/'' (''<root>'' # map (Segment r) segments),
          pjn_Name = (if segments \<noteq> [] then Segment r (last segments) else redactedSegment),
          pjn_Kind = entryKind_str (ent_Kind e), pjn_Depth = int (length segments),
          pjn_Size = sizeBucket (ent_SizeBytes e),
          pjn_SizeMeasured = (ent_SizeIsDeep e \<or> ent_Kind e = EntryKindFile),
          pjn_AgeDays = ageDays env (ent_ModifiedAt e) now,
          pjn_Git = map_option (\<lambda>g. \<lparr>gpj_LinkedWorktree = (git_WorktreeOf g \<noteq> ''''), gpj_HasUpstream = git_UpstreamKnown g,
            gpj_DirtyFiles = git_DirtyFiles g, gpj_Stashes = git_Stashes g,
            gpj_UnpublishedCommits = git_UnpublishedCommits g, gpj_Degraded = git_Degraded g\<rparr>) (ent_Git e),
          pjn_Signals = signalNames e, pjn_Protections = protectionKinds_sent e\<rparr>)"

section \<open>Requests\<close>

datatype instructions = AskAbout (ins_Entry: string) (ins_Question: string)

record question =
  qst_Type :: string
  qst_Instructions :: instructions
  qst_Criteria :: "(string \<times> string) list"

record request =
  req_Task :: string
  req_Entries :: "projection list"
  req_Model :: string
  req_Questions :: "(string \<times> question) list"

record answer =
  ans_Type :: string
  ans_Noul :: "go_float option"
  ans_Choice :: string
  ans_Confidence :: "go_float option"

text \<open>A missing key of the answers is the zero \<open>Answer\<close>.\<close>

record response =
  rsp_Model :: string
  rsp_Answers :: "string \<Rightarrow> answer"
  rsp_InputTokens :: int64
  rsp_OutputTokens :: int64

definition jev_task :: string where
  "jev_task = ''Classify workspace directories on a developer machine for a cleanup tool. ''
     @ ''Each entry is sanitized metadata only: no file contents are available. ''
     @ ''Answers are advisory; a deterministic safety engine makes every final decision.''"

definition classCriteria :: "(string \<times> string) list" where
  "classCriteria =
     [(artifactClass_str ClassPrimaryProject, ''A primary source checkout or project someone actively maintains''),
      (artifactClass_str ClassTaskWorktree, ''A temporary worktree or checkout made for one task or review''),
      (artifactClass_str ClassGeneratedArtifact, ''Build output or installed dependencies that can be regenerated''),
      (artifactClass_str ClassCache, ''A tool cache that can be rebuilt automatically''),
      (artifactClass_str ClassBackup, ''An archive or backup copy of something else''),
      (artifactClass_str ClassOperationalTool,
        ''The operator'' @ [CHR 0x27] @ ''s own tooling, scripts, or configuration''),
      (artifactClass_str ClassEvidence, ''Records, logs, receipts, or incident material kept deliberately''),
      (artifactClass_str ClassUnknown, ''Not enough information to tell'')]"

definition actionCriteria :: "(string \<times> string) list" where
  "actionCriteria =
     [(actionKind_str ActionKeep, ''Leave it where it is; it is in use or worth keeping''),
      (actionKind_str ActionQuarantine, ''Move it aside reversibly; it looks regenerable or abandoned''),
      (actionKind_str ActionInvestigate, ''A human should look before anything happens'')]"

definition retentionCriteria :: "(string \<times> string) list" where
  "retentionCriteria =
     [(retention_str RetentionNone, ''Not applicable, or delete as soon as retention allows''),
      (retention_str Retention7Days, ''Keep a quarantined copy for a week''),
      (retention_str Retention30Days, ''Keep a quarantined copy for a month''),
      (retention_str Retention90Days, ''Keep a quarantined copy for three months''),
      (retention_str RetentionPermanent, ''Never delete a quarantined copy automatically'')]"

definition classKey :: "string \<Rightarrow> string" where "classKey ref = ref @ ''_class''"
definition actionKey :: "string \<Rightarrow> string" where "actionKey ref = ref @ ''_action''"
definition unsafeKey :: "string \<Rightarrow> string" where "unsafeKey ref = ref @ ''_unsafe''"
definition retentionKey :: "string \<Rightarrow> string" where "retentionKey ref = ref @ ''_retention''"

definition questionsFor :: "string \<Rightarrow> (string \<times> question) list" where
  "questionsFor ref =
     [(classKey ref, \<lparr>qst_Type = ''choice'', qst_Instructions = AskAbout ref
        ''What kind of artifact is the item in `entries` whose `ref` equals `entry`?'', qst_Criteria = classCriteria\<rparr>),
      (actionKey ref, \<lparr>qst_Type = ''choice'', qst_Instructions = AskAbout ref
        ''What should a cautious cleanup tool do with the item in `entries` whose `ref` equals `entry`?'',
        qst_Criteria = actionCriteria\<rparr>),
      (unsafeKey ref, \<lparr>qst_Type = ''noul'', qst_Instructions = AskAbout ref
        ''Would removing the item in `entries` whose `ref` equals `entry` risk losing work or breaking something?'',
        qst_Criteria = [(''true'', ''Removing it could lose unrecoverable work or break a running system''),
          (''false'', ''It is safe to move aside and regenerate if needed'')]\<rparr>),
      (retentionKey ref, \<lparr>qst_Type = ''choice'', qst_Instructions = AskAbout ref
        ''If the item in `entries` whose `ref` equals `entry` were quarantined, how long should the copy be kept?'',
        qst_Criteria = retentionCriteria\<rparr>)]"

definition Build_request :: "string \<Rightarrow> projection list \<Rightarrow> request" where
  "Build_request model batch =
     \<lparr>req_Task = jev_task, req_Entries = batch, req_Model = model,
      req_Questions = concat (map (\<lambda>p. questionsFor (pjn_Ref p)) batch)\<rparr>"

definition requestTokenLimit :: int where "requestTokenLimit = 28000"

text \<open>The lengths of the JSON encodings; \<open>None\<close> when a value cannot be encoded.\<close>

record encoders =
  enc_Question :: "question \<Rightarrow> nat option"
  enc_State :: "string \<Rightarrow> projection list \<Rightarrow> nat option"
  enc_Request :: "request \<Rightarrow> nat option"

definition estimateTokens :: "nat option \<Rightarrow> int" where
  "estimateTokens encoded =
     (case encoded of None \<Rightarrow> requestTokenLimit + 1 | Some n \<Rightarrow> (int n + 2) div 3)"

definition longestQuestion :: "encoders \<Rightarrow> int" where
  "longestQuestion enc =
     foldl (\<lambda>m (k, q). max m (estimateTokens (enc_Question enc q))) 0 (questionsFor ''e0000'')"

definition fits_alone :: "encoders \<Rightarrow> string \<Rightarrow> int \<Rightarrow> projection \<Rightarrow> bool" where
  "fits_alone enc model maxState p \<longleftrightarrow>
     estimateTokens (enc_State enc jev_task [p]) + longestQuestion enc \<le> maxState
     \<and> estimateTokens (enc_Request enc (Build_request model [p])) \<le> requestTokenLimit"

definition fits_batch :: "encoders \<Rightarrow> string \<Rightarrow> int \<Rightarrow> int \<Rightarrow> projection list \<Rightarrow> bool" where
  "fits_batch enc model maxBatch maxState ps \<longleftrightarrow>
     int (length ps) \<le> maxBatch
     \<and> estimateTokens (enc_State enc jev_task ps) + longestQuestion enc \<le> maxState
     \<and> estimateTokens (enc_Request enc (Build_request model ps)) \<le> requestTokenLimit"

text \<open>\<open>current\<close> is the batch being filled, which \<open>flush\<close> closes when it is not empty.\<close>

definition flush :: "projection list \<Rightarrow> projection list list" where
  "flush current = (if current = [] then [] else [current])"

fun pack :: "encoders \<Rightarrow> string \<Rightarrow> int \<Rightarrow> int \<Rightarrow> projection list \<Rightarrow> projection list
    \<Rightarrow> projection list list \<times> projection list" where
  "pack enc model maxBatch maxState current [] = (flush current, [])"
| "pack enc model maxBatch maxState current (p # ps) =
     (if \<not> fits_alone enc model maxState p
      then (let (batches, oversized) = pack enc model maxBatch maxState current ps in (batches, p # oversized))
      else if fits_batch enc model maxBatch maxState (current @ [p])
      then pack enc model maxBatch maxState (current @ [p]) ps
      else (let (batches, oversized) = pack enc model maxBatch maxState [p] ps in (flush current @ batches, oversized)))"

definition Batches :: "encoders \<Rightarrow> string \<Rightarrow> projection list \<Rightarrow> int \<Rightarrow> int \<Rightarrow> projection list list \<times> projection list" where
  "Batches enc model projections maxBatch maxState = pack enc model maxBatch maxState [] projections"

section \<open>Answers\<close>

record thresholds =
  thr_MinConfidence :: go_float
  thr_MaxUnsafe :: go_float

definition clamp01 :: "go_float \<Rightarrow> go_float" where
  "clamp01 v = (if float_lt v (Fin 0) then Fin 0 else if float_lt (Fin 1) v then Fin 1 else v)"

definition optionList :: "(string \<times> string) list \<Rightarrow> string" where
  "optionList options = join '', '' (sort (map fst options))"

definition unit_interval :: "go_float \<Rightarrow> bool" where
  "unit_interval c \<longleftrightarrow> \<not> float_lt c (Fin 0) \<and> \<not> float_lt (Fin 1) c"

definition choiceAnswer :: "jev_env \<Rightarrow> answer \<Rightarrow> (string \<times> string) list \<Rightarrow> string + (string \<times> go_float)" where
  "choiceAnswer env a options =
     (if ans_Type a = '''' then Inl ''missing''
      else if ans_Type a \<noteq> ''choice'' then Inl (''expected a choice answer, got '' @ quote (ans_Type a))
      else if ans_Choice a \<notin> fst ` set options
      then Inl (''choice '' @ quote (ans_Choice a) @ '' was not one of the options offered ('' @ optionList options @ '')'')
      else case ans_Confidence a of
        None \<Rightarrow> Inl ''no confidence reported''
      | Some c \<Rightarrow> if \<not> unit_interval c then Inl (''confidence '' @ jve_V env c @ '' is outside [0, 1]'')
                  else Inr (ans_Choice a, c))"

definition noulAnswer :: "jev_env \<Rightarrow> answer \<Rightarrow> string + go_float" where
  "noulAnswer env a =
     (if ans_Type a = '''' then Inl ''missing''
      else if ans_Type a \<noteq> ''noul'' then Inl (''expected a noul answer, got '' @ quote (ans_Type a))
      else case ans_Noul a of
        None \<Rightarrow> Inl ''no probability reported''
      | Some c \<Rightarrow> if \<not> unit_interval c then Inl (''probability '' @ jve_V env c @ '' is outside [0, 1]'') else Inr c)"

definition investigate_answer :: "string \<Rightarrow> time \<Rightarrow> artifact_class \<Rightarrow> go_float \<Rightarrow> string \<Rightarrow> recommendation" where
  "investigate_answer model now class confidence reason =
     \<lparr>rec_Action = ActionInvestigate, rec_Class = class, rec_Retention = RetentionNone,
      rec_Confidence = clamp01 confidence, rec_Origin = OriginModel,
      rec_Reasons = [reason @ '' (model '' @ model @ '')''], rec_DecidedAt = now\<rparr>"

definition lesser :: "go_float \<Rightarrow> go_float \<Rightarrow> go_float" where
  "lesser a b = (if float_lt b a then b else a)"

text \<open>What the thresholds make of four well-formed answers.\<close>

definition decide_answer ::
    "jev_env \<Rightarrow> thresholds \<Rightarrow> string \<Rightarrow> time \<Rightarrow> artifact_class \<Rightarrow> string \<Rightarrow> string \<Rightarrow> string \<Rightarrow> go_float \<Rightarrow> go_float
       \<Rightarrow> recommendation" where
  "decide_answer env t model now labelled class action ret confidence unsafe =
     (if float_lt confidence (thr_MinConfidence t)
      then investigate_answer model now labelled confidence
        (''confidence '' @ jve_F2 env confidence @ '' is below the '' @ jve_F2 env (thr_MinConfidence t) @ '' threshold'')
      else if float_lt (thr_MaxUnsafe t) unsafe
      then investigate_answer model now labelled confidence
        (''unsafe-to-remove probability '' @ jve_F2 env unsafe @ '' exceeds the '' @ jve_F2 env (thr_MaxUnsafe t)
          @ '' threshold'')
      else \<lparr>rec_Action = actionKind_of action, rec_Class = labelled,
            rec_Retention = (if actionKind_of action = ActionQuarantine then retention_of ret else RetentionNone),
            rec_Confidence = clamp01 confidence, rec_Origin = OriginModel,
            rec_Reasons = [''model '' @ model @ '': '' @ class @ '', '' @ action @ '' (confidence '' @ jve_F2 env confidence
              @ '', unsafe '' @ jve_F2 env unsafe @ '')''],
            rec_DecidedAt = now\<rparr>)"

definition mapAnswers :: "jev_env \<Rightarrow> string \<Rightarrow> response \<Rightarrow> thresholds \<Rightarrow> time \<Rightarrow> recommendation \<times> bool" where
  "mapAnswers env ref rsp t now =
     (let investigate = investigate_answer (rsp_Model rsp) now
      in case choiceAnswer env (rsp_Answers rsp (classKey ref)) classCriteria of
           Inl e \<Rightarrow> (investigate ClassUnknown (Fin 0) (''class answer unusable: '' @ e), False)
         | Inr (class, classConfidence) \<Rightarrow>
           let labelled = (if float_lt classConfidence (thr_MinConfidence t) then ClassUnknown else artifactClass_of class)
           in case choiceAnswer env (rsp_Answers rsp (actionKey ref)) actionCriteria of
                Inl e \<Rightarrow> (investigate labelled (Fin 0) (''action answer unusable: '' @ e), False)
              | Inr (action, actionConfidence) \<Rightarrow>
                (case choiceAnswer env (rsp_Answers rsp (retentionKey ref)) retentionCriteria of
                   Inl e \<Rightarrow> (investigate labelled (Fin 0) (''retention answer unusable: '' @ e), False)
                 | Inr (ret, _) \<Rightarrow>
                   (case noulAnswer env (rsp_Answers rsp (unsafeKey ref)) of
                      Inl e \<Rightarrow> (investigate labelled (Fin 0) (''unsafe-probability answer unusable: '' @ e), False)
                    | Inr unsafe \<Rightarrow>
                        (decide_answer env t (rsp_Model rsp) now labelled class action ret
                           (lesser classConfidence actionConfidence) unsafe, True))))"

section \<open>A run\<close>

datatype jev_mode = ModeLive | ModeDryRun | ModeRulesOnly | ModeNoCredentials

record decision_record =
  dcr_Key :: string
  dcr_Fingerprint :: string
  dcr_SchemaVersion :: int
  dcr_Model :: string
  dcr_PolicyDigest :: string
  dcr_ResolvedModel :: string
  dcr_Recommendation :: recommendation
  dcr_CreatedAt :: time
  dcr_ExpiresAt :: time

record jev_report =
  jrp_Offered :: nat
  jrp_CacheHits :: nat
  jrp_Requests :: nat
  jrp_Attempts :: nat
  jrp_FailedRequests :: nat
  jrp_CircuitOpen :: bool
  jrp_Investigate :: nat
  jrp_Oversized :: nat
  jrp_Failures :: "string list"
  jrp_Payloads :: "request list"

text \<open>The client's answer to a request: the attempts it made, and a response or an error that is fatal when repeating the
  request cannot help.\<close>

datatype exchange_result = Answered response | Failed string bool

record jev_options =
  jop_Policy :: jev_policy
  jop_PolicyDigest :: string
  jop_Redactor :: redactor
  jop_DryRun :: bool
  jop_Debug :: bool

record advisor_state =
  avs_Report :: jev_report
  avs_Decisions :: "decision_record list"
  avs_Advice :: "(string \<times> recommendation) list"
  avs_ConsecutiveFailures :: int
  avs_Sent :: "request list"

definition CacheKey :: "string \<Rightarrow> int \<Rightarrow> string \<Rightarrow> string \<Rightarrow> string" where
  "CacheKey fingerprint schemaVersion model policyDigest =
     sha256_hex (fingerprint @ [CHR 0x00] @ show_int schemaVersion @ [CHR 0x00] @ model @ [CHR 0x00] @ policyDigest)"

definition entry_key :: "jev_options \<Rightarrow> entry \<Rightarrow> string" where
  "entry_key o' e = CacheKey (ent_Fingerprint e) SchemaVersion (jev_Model (jop_Policy o')) (jop_PolicyDigest o')"

definition note_failure :: "string \<Rightarrow> jev_report \<Rightarrow> jev_report" where
  "note_failure m r = r\<lparr>jrp_Failures := jrp_Failures r @ [m]\<rparr>"

definition record_payload :: "encoders \<Rightarrow> request \<Rightarrow> jev_report \<Rightarrow> jev_report" where
  "record_payload enc req r =
     (case enc_Request enc req of
        None \<Rightarrow> note_failure ''encode request for display'' r
      | Some _ \<Rightarrow> r\<lparr>jrp_Payloads := jrp_Payloads r @ [req]\<rparr>)"

text \<open>What the cache says of a key: an error, a decision or nothing.\<close>

datatype lookup_result = CacheFails string | CacheHit recommendation | CacheMiss

fun consult_cache :: "(string \<Rightarrow> lookup_result) \<Rightarrow> jev_options \<Rightarrow> entry list \<Rightarrow> advisor_state
    \<Rightarrow> entry list \<times> advisor_state" where
  "consult_cache cache o' [] s = ([], s)"
| "consult_cache cache o' (e # es) s =
     (case cache (entry_key o' e) of
        CacheHit rec \<Rightarrow>
          consult_cache cache o' es (s\<lparr>avs_Advice := (ent_Path e, rec) # avs_Advice s,
            avs_Report := (avs_Report s)\<lparr>jrp_CacheHits := jrp_CacheHits (avs_Report s) + 1\<rparr>\<rparr>)
      | CacheMiss \<Rightarrow> (let (misses, t) = consult_cache cache o' es s in (e # misses, t))
      | CacheFails m \<Rightarrow>
          (let (misses, t) = consult_cache cache o' es
             (s\<lparr>avs_Report := note_failure (''cache lookup failed: '' @ m) (avs_Report s)\<rparr>)
           in (e # misses, t)))"

definition take_answer ::
    "jev_env \<Rightarrow> jev_options \<Rightarrow> time \<Rightarrow> response \<Rightarrow> (string \<Rightarrow> entry option) \<Rightarrow> advisor_state \<Rightarrow> projection
       \<Rightarrow> advisor_state" where
  "take_answer env o' now rsp byRef s p =
     (case byRef (pjn_Ref p) of
        None \<Rightarrow> s
      | Some e \<Rightarrow>
          (let (rec, cacheable) = mapAnswers env (pjn_Ref p) rsp
                 \<lparr>thr_MinConfidence = jev_MinConfidence (jop_Policy o'), thr_MaxUnsafe = jev_MaxUnsafe (jop_Policy o')\<rparr> now;
               r = (avs_Report s)\<lparr>jrp_Investigate := jrp_Investigate (avs_Report s)
                     + (if rec_Action rec = ActionInvestigate then 1 else 0)\<rparr>
           in s\<lparr>avs_Report := r, avs_Advice := (ent_Path e, rec) # avs_Advice s,
                avs_Decisions := avs_Decisions s @ (if cacheable
                  then [\<lparr>dcr_Key = entry_key o' e, dcr_Fingerprint = ent_Fingerprint e, dcr_SchemaVersion = SchemaVersion,
                         dcr_Model = jev_Model (jop_Policy o'), dcr_PolicyDigest = jop_PolicyDigest o',
                         dcr_ResolvedModel = rsp_Model rsp, dcr_Recommendation = rec, dcr_CreatedAt = now,
                         dcr_ExpiresAt = now + jev_CacheTTL (jop_Policy o')\<rparr>]
                  else [])\<rparr>))"

text \<open>\<open>client\<close> answers a request after the requests sent before it.\<close>

definition send_batch ::
    "jev_env \<Rightarrow> encoders \<Rightarrow> jev_options \<Rightarrow> (request list \<Rightarrow> request \<Rightarrow> nat \<times> exchange_result) \<Rightarrow> time
       \<Rightarrow> (string \<Rightarrow> entry option) \<Rightarrow> advisor_state \<Rightarrow> projection list \<Rightarrow> advisor_state" where
  "send_batch env enc o' client now byRef s batch =
     (let req = Build_request (jev_Model (jop_Policy o')) batch; r = avs_Report s
      in if jop_DryRun o' then s\<lparr>avs_Report := record_payload enc req r\<rparr>
         else if jrp_CircuitOpen r
         then s\<lparr>avs_Report := note_failure
           (''circuit breaker open: '' @ show_nat (length batch) @ '' entrie(s) not sent'') r\<rparr>
         else
           let r1 = (if jop_Debug o' then record_payload enc req r else r);
               (attempts, result) = client (avs_Sent s) req;
               r2 = r1\<lparr>jrp_Requests := jrp_Requests r1 + 1, jrp_Attempts := jrp_Attempts r1 + attempts\<rparr>;
               s2 = s\<lparr>avs_Sent := avs_Sent s @ [req]\<rparr>
           in case result of
                Failed m fatal \<Rightarrow>
                  let n = avs_ConsecutiveFailures s + 1;
                      r3 = note_failure m (r2\<lparr>jrp_FailedRequests := jrp_FailedRequests r2 + 1\<rparr>)
                  in s2\<lparr>avs_ConsecutiveFailures := n,
                       avs_Report := r3\<lparr>jrp_CircuitOpen := (jev_BreakerFailures (jop_Policy o') \<le> n \<or> fatal
                         \<or> jrp_CircuitOpen r3)\<rparr>\<rparr>
              | Answered rsp \<Rightarrow>
                  foldl (take_answer env o' now rsp byRef)
                    (s2\<lparr>avs_ConsecutiveFailures := 0, avs_Report := r2\<rparr>) batch)"

definition references :: "entry list \<Rightarrow> (string \<times> entry) list" where
  "references misses = map (\<lambda>(i, e). (CHR ''e'' # show_nat (i + 1), e)) (enumerate 0 misses)"

definition Classify_run ::
    "jev_env \<Rightarrow> encoders \<Rightarrow> jev_options \<Rightarrow> (string \<Rightarrow> lookup_result)
       \<Rightarrow> (request list \<Rightarrow> request \<Rightarrow> nat \<times> exchange_result) \<Rightarrow> time \<Rightarrow> entry list \<Rightarrow> advisor_state \<Rightarrow> advisor_state" where
  "Classify_run env enc o' cache client now entries s0 =
     (let s1 = s0\<lparr>avs_Advice := [], avs_Report := (avs_Report s0)\<lparr>jrp_Offered :=
             jrp_Offered (avs_Report s0) + length entries\<rparr>\<rparr>;
          (misses, s2) = consult_cache cache o' (sort_key ent_Path entries) s1
      in if misses = [] then s2
         else
           let refs = references misses;
               projections = map (\<lambda>(ref, e). Project env e ref (jop_Redactor o') now) refs;
               (batches, oversized) = Batches enc (jev_Model (jop_Policy o')) projections
                 (jev_MaxBatch (jop_Policy o')) (jev_MaxStateTokens (jop_Policy o'));
               s3 = s2\<lparr>avs_Report := foldl (\<lambda>r p. note_failure
                      (pjn_Ref p @ '' is too large to send within the context limit'') r)
                    ((avs_Report s2)\<lparr>jrp_Oversized := jrp_Oversized (avs_Report s2) + length oversized\<rparr>) oversized\<rparr>
           in foldl (send_batch env enc o' client now (map_of refs)) s3 batches)"

end
