(* ===== verification/JevProps.thy ===== *)
theory JevProps
  imports Jev ConfigPolicy PathFacts
begin

text \<open>
  The properties of the model classifier: what leaves the machine, that requests hold every entry once and within the
  limits, that advice is the model's firm answer or the cache's, and that failures stop a run.
\<close>

section \<open>Packing\<close>

lemma pack_keeps:
  "pack enc m mb ms cur ps = (bs, os) \<Longrightarrow> concat bs = cur @ filter (fits_alone enc m ms) ps \<and> os = filter (\<lambda>p. \<not> fits_alone enc m ms p) ps"
proof (induction enc m mb ms cur ps arbitrary: bs os rule: pack.induct)
  case (2 enc m mb ms cur p ps)
  then show ?case
    by (auto simp: Let_def flush_def split: if_splits prod.splits)
qed (auto simp: flush_def)

lemma pack_fits:
  assumes "pack enc m mb ms cur ps = (bs, os)"
    and "cur = [] \<or> fits_batch enc m mb ms cur \<or> (\<exists>p. cur = [p] \<and> fits_alone enc m ms p)" "b \<in> set bs"
  shows "b \<noteq> [] \<and> (fits_batch enc m mb ms b \<or> (\<exists>p. b = [p] \<and> fits_alone enc m ms p))"
  using assms
proof (induction enc m mb ms cur ps arbitrary: bs os rule: pack.induct)
  case (1 enc m mb ms cur)
  then show ?case by (auto simp: flush_def split: if_splits)
next
  case (2 enc m mb ms cur p ps)
  show ?case
  proof (cases "fits_alone enc m ms p")
    case False
    with 2 show ?thesis by (auto simp: Let_def split: prod.splits)
  next
    case fit: True
    show ?thesis
    proof (cases "fits_batch enc m mb ms (cur @ [p])")
      case True
      with 2 fit show ?thesis by simp
    next
      case False
      obtain bs' os' where p: "pack enc m mb ms [p] ps = (bs', os')" by (metis surj_pair)
      with 2 fit False have bs: "bs = flush cur @ bs'" by simp
      from "2.prems"(3) consider "b \<in> set (flush cur)" | "b \<in> set bs'" unfolding bs by auto
      then show ?thesis
      proof cases
        case 1
        then show ?thesis using "2.prems"(2) by (auto simp: flush_def split: if_splits)
      next
        case b: 2
        then show ?thesis using "2.IH"(3) [OF _ False p _ b] fit by blast
      qed
    qed
  qed
qed

text \<open>C35: Packing loses, repeats and reorders nothing: the batches hold in order exactly the projections that fit on
  their own, the others are reported as too large, no batch is empty, and each keeps to the limits of a request and
  of its state.\<close>

theorem batches_partition:
  assumes "Batches enc model ps maxBatch maxState = (bs, os)" "1 \<le> maxBatch"
  shows "concat bs = filter (fits_alone enc model maxState) ps
    \<and> os = filter (\<lambda>p. \<not> fits_alone enc model maxState p) ps
    \<and> mset (concat bs) + mset os = mset ps
    \<and> list_all (\<lambda>b. b \<noteq> [] \<and> fits_batch enc model maxBatch maxState b) bs"
proof -
  note p = assms(1) [unfolded Batches_def]
  have "fits_batch enc model maxBatch maxState b \<and> b \<noteq> []" if "b \<in> set bs" for b
    using pack_fits [OF p _ that] assms(2) by (auto simp: fits_batch_def fits_alone_def)
  then show ?thesis
    using pack_keeps [OF p] by (auto simp: list_all_iff)
qed

section \<open>Answers\<close>






section \<open>Projections\<close>






definition sample_redactor :: redactor where
  "sample_redactor = \<lparr>rdc_Segments = [''acme''], rdc_SensitiveNames = [''*credentials*'']\<rparr>"

definition sample_jev_env :: jev_env where
  "sample_jev_env = \<lparr>jve_F2 = \<lambda>_. '''', jve_V = \<lambda>_. '''', jve_Days = \<lambda>_. 0\<rparr>"


section \<open>A run\<close>

lemma consult_cache_facts:
  assumes "consult_cache cache o' es s = (misses, t)"
  shows "set misses \<subseteq> set es" "avs_Sent t = avs_Sent s" "avs_ConsecutiveFailures t = avs_ConsecutiveFailures s"
    "jrp_CircuitOpen (avs_Report t) = jrp_CircuitOpen (avs_Report s)"
    "(path, rec) \<in> set (avs_Advice t) \<Longrightarrow> (path, rec) \<in> set (avs_Advice s)
       \<or> (\<exists>e \<in> set es. ent_Path e = path \<and> cache (entry_key o' e) = CacheHit rec)"
proof -
  have "set misses \<subseteq> set es \<and> avs_Sent t = avs_Sent s \<and> avs_ConsecutiveFailures t = avs_ConsecutiveFailures s
    \<and> jrp_CircuitOpen (avs_Report t) = jrp_CircuitOpen (avs_Report s)
    \<and> (\<forall>x \<in> set (avs_Advice t). x \<in> set (avs_Advice s)
       \<or> (\<exists>e \<in> set es. ent_Path e = fst x \<and> cache (entry_key o' e) = CacheHit (snd x)))"
    using assms
  proof (induction cache o' es s arbitrary: misses rule: consult_cache.induct)
    case (2 cache o' e es s)
    then show ?case
      by (fastforce simp: Let_def note_failure_def split: lookup_result.splits prod.splits)
  qed simp
  then show "set misses \<subseteq> set es" "avs_Sent t = avs_Sent s" "avs_ConsecutiveFailures t = avs_ConsecutiveFailures s"
    "jrp_CircuitOpen (avs_Report t) = jrp_CircuitOpen (avs_Report s)"
    "(path, rec) \<in> set (avs_Advice t) \<Longrightarrow> (path, rec) \<in> set (avs_Advice s)
       \<or> (\<exists>e \<in> set es. ent_Path e = path \<and> cache (entry_key o' e) = CacheHit rec)"
    by fastforce+
qed









text \<open>Requests and failures.\<close>

definition failing :: "(request list \<Rightarrow> request \<Rightarrow> nat \<times> exchange_result) \<Rightarrow> bool" where
  "failing client \<longleftrightarrow> (\<forall>sent req. \<exists>m f. snd (client sent req) = Failed m f)"

lemma send_batch_quiet:
  "jop_DryRun o' \<or> jrp_CircuitOpen (avs_Report s) \<Longrightarrow>
     avs_Sent (send_batch env enc o' client now byRef s b) = avs_Sent s
   \<and> (jrp_CircuitOpen (avs_Report s) \<longrightarrow> jrp_CircuitOpen (avs_Report (send_batch env enc o' client now byRef s b)))"
  by (auto simp: send_batch_def Let_def record_payload_def note_failure_def split: option.splits)

lemma send_batches_quiet:
  "jop_DryRun o' \<or> jrp_CircuitOpen (avs_Report s) \<Longrightarrow>
     avs_Sent (foldl (send_batch env enc o' client now byRef) s bs) = avs_Sent s"
proof (induction bs arbitrary: s)
  case (Cons b bs)
  note q = send_batch_quiet [OF Cons.prems, of env enc client now byRef b]
  have "jop_DryRun o' \<or> jrp_CircuitOpen (avs_Report (send_batch env enc o' client now byRef s b))"
    using q Cons.prems by blast
  from Cons.IH [OF this] q show ?case by simp
qed simp

lemma send_batch_failing:
  assumes "failing client" "\<not> jop_DryRun o'" "\<not> jrp_CircuitOpen (avs_Report s)"
  shows "length (avs_Sent (send_batch env enc o' client now byRef s b)) = length (avs_Sent s) + 1
    \<and> avs_ConsecutiveFailures (send_batch env enc o' client now byRef s b) = avs_ConsecutiveFailures s + 1
    \<and> (jev_BreakerFailures (jop_Policy o') \<le> avs_ConsecutiveFailures s + 1 \<longrightarrow>
         jrp_CircuitOpen (avs_Report (send_batch env enc o' client now byRef s b)))"
proof -
  obtain n m f where "client (avs_Sent s) (Build_request (jev_Model (jop_Policy o')) b) = (n, Failed m f)"
    using assms(1) unfolding failing_def by (metis prod.collapse)
  then show ?thesis using assms(2,3) by (simp add: send_batch_def Let_def note_failure_def)
qed

lemma send_batches_failing:
  assumes "failing client" "\<not> jop_DryRun o'"
    and "jrp_CircuitOpen (avs_Report s) \<or> avs_ConsecutiveFailures s < jev_BreakerFailures (jop_Policy o')"
  shows "int (length (avs_Sent (foldl (send_batch env enc o' client now byRef) s bs))) \<le> int (length (avs_Sent s))
    + (if jrp_CircuitOpen (avs_Report s) then 0 else jev_BreakerFailures (jop_Policy o') - avs_ConsecutiveFailures s)"
  using assms(3)
proof (induction bs arbitrary: s)
  case (Cons b bs)
  show ?case
  proof (cases "jrp_CircuitOpen (avs_Report s)")
    case True
    then show ?thesis using send_batches_quiet [of o' s env enc client now byRef "b # bs"] by simp
  next
    case False
    define u where "u = send_batch env enc o' client now byRef s b"
    note f = send_batch_failing [OF assms(1,2) False, of env enc now byRef b, folded u_def]
    have "jrp_CircuitOpen (avs_Report u) \<or> avs_ConsecutiveFailures u < jev_BreakerFailures (jop_Policy o')"
      using f by linarith
    from Cons.IH [OF this] f False Cons.prems show ?thesis
      by (cases "jrp_CircuitOpen (avs_Report u)") (simp_all add: u_def [symmetric])
  qed
qed auto

text \<open>C36: A dry run sends nothing, and a run whose requests all fail stops after as many as the policy allows.
  Both hold whatever the client and the cache answer.\<close>

theorem breaker_stops:
  assumes "Classify_run env enc o' cache client now entries s0 = s"
    and "jop_DryRun o' \<or> failing client" "avs_ConsecutiveFailures s0 = 0" "0 < jev_BreakerFailures (jop_Policy o')"
  shows "int (length (avs_Sent s)) \<le> int (length (avs_Sent s0))
      + (if jop_DryRun o' \<or> jrp_CircuitOpen (avs_Report s0) then 0 else jev_BreakerFailures (jop_Policy o'))"
proof -
  let ?s1 = "s0\<lparr>avs_Advice := [], avs_Report := (avs_Report s0)\<lparr>jrp_Offered :=
             jrp_Offered (avs_Report s0) + length entries\<rparr>\<rparr>"
  obtain misses s2 where c: "consult_cache cache o' (sort_key ent_Path entries) ?s1 = (misses, s2)" by (metis surj_pair)
  note cc = consult_cache_facts [OF c]
  have note_open: "jrp_CircuitOpen (foldl (\<lambda>r p. note_failure (g p) r) r ps) = jrp_CircuitOpen r"
    for g :: "projection \<Rightarrow> string" and r :: jev_report and ps
    by (induction ps arbitrary: r) (simp_all add: note_failure_def)
  have "s = s2 \<or> (\<exists>s3 bs. s = foldl (send_batch env enc o' client now (map_of (references misses))) s3 bs
      \<and> avs_Sent s3 = avs_Sent s0 \<and> avs_ConsecutiveFailures s3 = 0
      \<and> jrp_CircuitOpen (avs_Report s3) = jrp_CircuitOpen (avs_Report s0))"
    using assms(1,3) c cc(2-4) by (auto simp: Classify_run_def Let_def note_open split: prod.splits if_splits)
  then show ?thesis
  proof
    assume "s = s2"
    then show ?thesis using cc(2) assms(4) by simp
  next
    assume "\<exists>s3 bs. s = foldl (send_batch env enc o' client now (map_of (references misses))) s3 bs
      \<and> avs_Sent s3 = avs_Sent s0 \<and> avs_ConsecutiveFailures s3 = 0
      \<and> jrp_CircuitOpen (avs_Report s3) = jrp_CircuitOpen (avs_Report s0)"
    then obtain s3 bs where s3: "s = foldl (send_batch env enc o' client now (map_of (references misses))) s3 bs"
      "avs_Sent s3 = avs_Sent s0" "avs_ConsecutiveFailures s3 = 0"
      "jrp_CircuitOpen (avs_Report s3) = jrp_CircuitOpen (avs_Report s0)" by blast
    show ?thesis
    proof (cases "jop_DryRun o'")
      case True
      then show ?thesis using send_batches_quiet [of o' s3] s3(1,2) by simp
    next
      case False
      then show ?thesis
        using send_batches_failing [OF _ False, of client s3] assms(2,4) s3 by (auto split: if_splits)
    qed
  qed
qed

section \<open>Thresholds that are no numbers\<close>

text \<open>A threshold that is not a number passes validation, and then refuses no answer: a quarantine the model has no
  confidence in, and holds to be certainly unsafe, is taken.\<close>

definition sure_answers :: "string \<Rightarrow> answer" where
  "sure_answers key =
     (if key = ''e1_class'' then \<lparr>ans_Type = ''choice'', ans_Noul = None, ans_Choice = ''cache'', ans_Confidence = Some (Fin 0)\<rparr>
      else if key = ''e1_action'' then \<lparr>ans_Type = ''choice'', ans_Noul = None, ans_Choice = ''quarantine'', ans_Confidence = Some (Fin 0)\<rparr>
      else if key = ''e1_retention'' then \<lparr>ans_Type = ''choice'', ans_Noul = None, ans_Choice = ''7d'', ans_Confidence = Some (Fin 0)\<rparr>
      else \<lparr>ans_Type = ''noul'', ans_Noul = Some (Fin 1), ans_Choice = '''', ans_Confidence = None\<rparr>)"

lemma nan_thresholds_pass:
  "validateJev env (j\<lparr>jev_MinConfidence := NaN, jev_MaxUnsafe := NaN\<rparr>)
   = filter (\<lambda>e. fe_Field e \<noteq> ''jev.min_confidence'' \<and> fe_Field e \<noteq> ''jev.max_unsafe'') (validateJev env j)"
  by (auto simp: validateJev_def err_if_def split: option.splits)

lemma nan_thresholds_refuse_nothing:
  "rec_Action (fst (mapAnswers env ''e1'' \<lparr>rsp_Model = ''m'', rsp_Answers = sure_answers, rsp_InputTokens = 0, rsp_OutputTokens = 0\<rparr>
     \<lparr>thr_MinConfidence = NaN, thr_MaxUnsafe = NaN\<rparr> 9)) = ActionQuarantine"
  by (simp add: mapAnswers_def sure_answers_def classKey_def actionKey_def retentionKey_def unsafeKey_def choiceAnswer_def
      noulAnswer_def unit_interval_def classCriteria_def actionCriteria_def retentionCriteria_def decide_answer_def
      actionKind_of_def enum_of_def actionKinds_def)

section \<open>Witnesses\<close>

definition sample_encoders :: encoders where
  "sample_encoders = \<lparr>enc_Question = \<lambda>_. Some 3, enc_State = \<lambda>_ ps. Some (10 * length ps), enc_Request = \<lambda>_. Some 10\<rparr>"

definition sample_projection :: "string \<Rightarrow> projection" where
  "sample_projection ref = Project sample_jev_env sample_entry ref sample_redactor 9"

lemma batches_partition_witness:
  "concat (fst (Batches sample_encoders ''m'' [sample_projection ''e1'', sample_projection ''e2''] 1 100))
     = [sample_projection ''e1'', sample_projection ''e2'']"
proof -
  have "fits_alone sample_encoders ''m'' 100 p" for p
    by (simp add: fits_alone_def sample_encoders_def estimateTokens_def longestQuestion_def questionsFor_def
        requestTokenLimit_def)
  then show ?thesis
    using batches_partition [of sample_encoders "''m''" "[sample_projection ''e1'', sample_projection ''e2'']" 1 100
        "fst (Batches sample_encoders ''m'' [sample_projection ''e1'', sample_projection ''e2''] 1 100)"
        "snd (Batches sample_encoders ''m'' [sample_projection ''e1'', sample_projection ''e2''] 1 100)"] by simp
qed

definition sample_jev :: jev_policy where
  "sample_jev =
     \<lparr>jev_Enabled = True, jev_Model = ''m'', jev_Endpoint = '''', jev_APIKeyEnv = '''', jev_MaxBatch = 1,
      jev_MaxStateTokens = 100, jev_Timeout = 1, jev_MaxRetries = 0, jev_MinInterval = 0, jev_BreakerFailures = 3,
      jev_MinConfidence = Fin (1 / 2), jev_MaxUnsafe = Fin (1 / 4), jev_PricePerMTokUSD = Fin 0, jev_CacheTTL = 1,
      jev_RedactSegments = []\<rparr>"

definition sample_jev_options :: "bool \<Rightarrow> jev_options" where
  "sample_jev_options dry =
     \<lparr>jop_Policy = sample_jev, jop_PolicyDigest = ''d'', jop_Redactor = sample_redactor, jop_DryRun = dry, jop_Debug = False\<rparr>"

definition sample_advisor :: advisor_state where
  "sample_advisor =
     \<lparr>avs_Report = \<lparr>jrp_Offered = 0, jrp_CacheHits = 0, jrp_Requests = 0, jrp_Attempts = 0, jrp_FailedRequests = 0,
        jrp_CircuitOpen = False, jrp_Investigate = 0, jrp_Oversized = 0, jrp_Failures = [], jrp_Payloads = []\<rparr>,
      avs_Decisions = [], avs_Advice = [], avs_ConsecutiveFailures = 0, avs_Sent = []\<rparr>"


definition sample_client :: "request list \<Rightarrow> request \<Rightarrow> nat \<times> exchange_result" where
  "sample_client sent req = (1, Failed ''overloaded'' False)"


lemma breaker_stops_witness:
  "int (length (avs_Sent (Classify_run sample_jev_env sample_encoders (sample_jev_options False) (\<lambda>_. CacheMiss) sample_client 9
     [sample_entry, sample_entry, sample_entry, sample_entry] sample_advisor))) \<le> 3"
proof -
  let ?s = "Classify_run sample_jev_env sample_encoders (sample_jev_options False) (\<lambda>_. CacheMiss) sample_client 9
     [sample_entry, sample_entry, sample_entry, sample_entry] sample_advisor"
  have run: "?s = ?s" by (rule refl)
  have down: "jop_DryRun (sample_jev_options False) \<or> failing sample_client" by (auto simp: failing_def sample_client_def)
  have "avs_ConsecutiveFailures sample_advisor = 0" "avs_Sent sample_advisor = []"
    "\<not> jrp_CircuitOpen (avs_Report sample_advisor)" by (simp_all add: sample_advisor_def)
  moreover have "jev_BreakerFailures (jop_Policy (sample_jev_options False)) = 3" "\<not> jop_DryRun (sample_jev_options False)"
    by (simp_all add: sample_jev_options_def sample_jev_def)
  ultimately show ?thesis using breaker_stops [OF run down] by simp
qed

end
