(* ===== verification/Capacity.thy ===== *)
theory Capacity
  imports CoreCapacity ConfigDoc Sha256
begin

text \<open>
  Capacity pressure: measuring a volume (\<open>internal/cli/disk_linux.go\<close>), sampling the volumes of the configured targets
  (\<open>cli/capacity.go\<close>), the stored sample, the recovery attempts and the alert claims (\<open>store/capacity.go\<close>,
  \<open>store/cache_recovery.go\<close>, \<open>store/disk_alert.go\<close>), and the estimate of what a deletion returns
  (\<open>action/estimate_linux.go\<close>).  The answers of the system, the JSON encodings and the texts of times are
  parameters; an error is its text.
\<close>

section \<open>Measuring\<close>

record disk_volume =
  dvl_Device :: uint64
  dvl_FreeBytes :: uint64
  dvl_TotalBytes :: uint64

record disk_usage =
  dus_Blocks :: uint64
  dus_Bsize :: int64
  dus_Bavail :: uint64

text \<open>\<open>dks_Stat\<close> says whether a path is a directory, and its device.\<close>

record disks =
  dks_Stat :: "string \<Rightarrow> string + (bool \<times> uint64)"
  dks_Statfs :: "string \<Rightarrow> string + disk_usage"

definition measureDisk :: "disks \<Rightarrow> string \<Rightarrow> string + disk_volume" where
  "measureDisk d path =
     (case dks_Stat d path of
        Inl e \<Rightarrow> Inl e
      | Inr (dir, device) \<Rightarrow>
          if \<not> dir then Inl (path @ '' is not a directory'')
          else (case dks_Statfs d path of
             Inl e \<Rightarrow> Inl e
           | Inr u \<Rightarrow>
               if dus_Blocks u = 0 \<or> sint (dus_Bsize u) \<le> 0 \<or> dus_Blocks u < dus_Bavail u
                 \<or> (- 1) div dus_Bsize u < dus_Blocks u
               then Inl (''invalid filesystem capacity for '' @ path)
               else Inr \<lparr>dvl_Device = device, dvl_FreeBytes = dus_Bavail u * dus_Bsize u,
                         dvl_TotalBytes = dus_Blocks u * dus_Bsize u\<rparr>))"

section \<open>The stored rows\<close>

record recovery_attempt =
  rat_Path :: string
  rat_Approval :: string
  rat_AttemptedAt :: string
  rat_Outcome :: string

record alert_row =
  alr_Filesystem :: string
  alr_LastEmitted :: int
  alr_Summary :: string

record capacity_tables =
  cpt_Snapshot :: "string option"
  cpt_Attempts :: "recovery_attempt list"
  cpt_Alerts :: "alert_row list"

text \<open>\<open>cpc_Policy\<close> is the JSON of the targets and the interval, empty when it cannot be written.\<close>

record capacity_codec =
  cpc_Policy :: "capacity_target list \<Rightarrow> duration \<Rightarrow> string"
  cpc_Encode :: "capacity_snapshot \<Rightarrow> string + string"
  cpc_Decode :: "string \<Rightarrow> string + capacity_snapshot"
  cpc_FormatTime :: "time \<Rightarrow> string"
  cpc_ParseTime :: "string \<Rightarrow> string + time"

definition CapacitySnapshot :: "capacity_codec \<Rightarrow> capacity_tables \<Rightarrow> string + capacity_snapshot" where
  "CapacitySnapshot c t =
     (case cpt_Snapshot t of
        None \<Rightarrow> Inr \<lparr>snp_SampledAt = time_zero, snp_ValidUntil = time_zero, snp_PolicyHash = '''', snp_Volumes = []\<rparr>
      | Some data \<Rightarrow> cpc_Decode c data)"

definition SaveCapacitySnapshot :: "capacity_codec \<Rightarrow> capacity_snapshot \<Rightarrow> capacity_tables \<Rightarrow> string + capacity_tables" where
  "SaveCapacitySnapshot c s t =
     (case cpc_Encode c s of Inl e \<Rightarrow> Inl e | Inr data \<Rightarrow> Inr (t\<lparr>cpt_Snapshot := Some data\<rparr>))"

definition attempt_of :: "capacity_tables \<Rightarrow> string \<Rightarrow> recovery_attempt option" where
  "attempt_of t path = find (\<lambda>r. rat_Path r = path) (cpt_Attempts t)"

definition put_attempt :: "recovery_attempt \<Rightarrow> capacity_tables \<Rightarrow> capacity_tables" where
  "put_attempt r t =
     t\<lparr>cpt_Attempts := (if rat_Path r \<in> rat_Path ` set (cpt_Attempts t)
        then map (\<lambda>q. if rat_Path q = rat_Path r then r else q) (cpt_Attempts t) else cpt_Attempts t @ [r])\<rparr>"

text \<open>A claim answers with a refusal, empty when the attempt may start.\<close>

definition claim_refusal :: "recovery_attempt \<Rightarrow> string \<Rightarrow> time \<Rightarrow> time \<Rightarrow> duration \<Rightarrow> string" where
  "claim_refusal r approval previous now interval =
     (if rat_Outcome r \<in> {''starting'', ''failed''} \<and> rat_Approval r = approval
      then ''previous provider attempt failed or is uncertain; owner must reconcile it and issue a new approval''
      else if now < previous + interval then ''store recovery cooldown remains active''
      else '''')"

definition ClaimCacheRecovery ::
    "capacity_codec \<Rightarrow> string \<Rightarrow> string \<Rightarrow> time \<Rightarrow> duration \<Rightarrow> capacity_tables \<Rightarrow> string + (string \<times> capacity_tables)" where
  "ClaimCacheRecovery c path approval now interval t =
     (let start = put_attempt \<lparr>rat_Path = path, rat_Approval = approval, rat_AttemptedAt = cpc_FormatTime c now,
            rat_Outcome = ''starting''\<rparr> t
      in case attempt_of t path of
           None \<Rightarrow> Inr ('''', start)
         | Some r \<Rightarrow>
             (case cpc_ParseTime c (rat_AttemptedAt r) of
                Inl e \<Rightarrow> Inl (''invalid recovery attempt time: '' @ e)
              | Inr previous \<Rightarrow>
                  let refusal = claim_refusal r approval previous now interval
                  in if refusal \<noteq> '''' then Inr (refusal, t) else Inr ('''', start)))"

definition FinishCacheRecovery :: "string \<Rightarrow> string \<Rightarrow> string \<Rightarrow> capacity_tables \<Rightarrow> string + capacity_tables" where
  "FinishCacheRecovery path approval outcome t =
     (if outcome \<notin> {''completed'', ''failed'', ''refused''} then Inl (''invalid recovery outcome '' @ quote outcome)
      else let owned = (\<lambda>r. rat_Path r = path \<and> rat_Approval r = approval \<and> rat_Outcome r = ''starting'');
               t' = t\<lparr>cpt_Attempts := map (\<lambda>r. if owned r then r\<lparr>rat_Outcome := outcome\<rparr> else r) (cpt_Attempts t)\<rparr>
           in if length (filter owned (cpt_Attempts t)) \<noteq> 1
              then Inl (''recovery attempt ownership changed for '' @ path) else Inr t')"

text \<open>The claim of an alert says whether a row was written.\<close>

definition ClaimDiskAlert :: "string \<Rightarrow> string \<Rightarrow> time \<Rightarrow> duration \<Rightarrow> capacity_tables \<Rightarrow> string + (bool \<times> capacity_tables)" where
  "ClaimDiskAlert filesystem summary now cooldown t =
     (if filesystem = '''' \<or> summary = '''' \<or> cooldown \<le> 0 then Inl ''invalid disk alert claim''
      else let row = \<lparr>alr_Filesystem = filesystem, alr_LastEmitted = UnixNano now, alr_Summary = summary\<rparr>
           in case find (\<lambda>r. alr_Filesystem r = filesystem) (cpt_Alerts t) of
                None \<Rightarrow> Inr (True, t\<lparr>cpt_Alerts := cpt_Alerts t @ [row]\<rparr>)
              | Some r \<Rightarrow>
                  if alr_LastEmitted r \<le> UnixNano (now - cooldown)
                  then Inr (True, t\<lparr>cpt_Alerts := map (\<lambda>q. if alr_Filesystem q = filesystem then row else q) (cpt_Alerts t)\<rparr>)
                  else Inr (False, t))"

section \<open>Sampling\<close>

definition capacityPolicyHash :: "capacity_codec \<Rightarrow> capacity_target list \<Rightarrow> duration \<Rightarrow> string" where
  "capacityPolicyHash c targets interval = sha256_hex (cpc_Policy c targets interval)"

definition zero_capacity :: capacity_state where
  "zero_capacity =
     \<lparr>cap_Key = '''', cap_Device = 0, cap_Roots = [], cap_State = PressureUnset, cap_AvailableBytes = None,
      cap_TotalBytes = None, cap_TargetBytes = 0, cap_ReserveBytes = 0, cap_RecoveryBytes = 0,
      cap_AdmissionHold = False, cap_Reason = ''''\<rparr>"

definition unknown_volume :: "string \<Rightarrow> capacity_target \<Rightarrow> capacity_state" where
  "unknown_volume reason target =
     zero_capacity\<lparr>cap_Key := ''root:'' @ tgt_Path target, cap_Roots := [tgt_Path target], cap_State := PressureUnknown,
       cap_AdmissionHold := True, cap_Reason := reason, cap_TargetBytes := tgt_TargetFreeBytes target,
       cap_ReserveBytes := tgt_ReserveFreeBytes target,
       cap_RecoveryBytes := (if tgt_RecoveryMarginBytes target = 0 then tgt_ReserveFreeBytes target
         else tgt_TargetFreeBytes target + tgt_RecoveryMarginBytes target)\<rparr>"

definition unknownCapacity ::
    "capacity_codec \<Rightarrow> capacity_target list \<Rightarrow> duration \<Rightarrow> string \<Rightarrow> capacity_snapshot option" where
  "unknownCapacity c targets interval reason =
     (if targets = [] then None
      else Some \<lparr>snp_SampledAt = time_zero, snp_ValidUntil = time_zero,
        snp_PolicyHash = capacityPolicyHash c targets interval, snp_Volumes = map (unknown_volume reason) targets\<rparr>)"

text \<open>What the previous sample says of a volume and of a root; of several the last.\<close>

definition by_key :: "capacity_snapshot \<Rightarrow> string \<Rightarrow> capacity_state" where
  "by_key previous key =
     (case find (\<lambda>v. cap_Key v = key) (rev (snp_Volumes previous)) of Some v \<Rightarrow> v | None \<Rightarrow> zero_capacity)"

definition by_root :: "capacity_snapshot \<Rightarrow> string \<Rightarrow> string" where
  "by_root previous path =
     (case find (\<lambda>v. path \<in> set (cap_Roots v)) (rev (snp_Volumes previous)) of Some v \<Rightarrow> cap_Key v | None \<Rightarrow> '''')"

text \<open>The volume a target belongs to: the device measured, else where the root was before, else one of its own.\<close>

definition target_volume :: "capacity_snapshot \<Rightarrow> string + disk_volume \<Rightarrow> capacity_target \<Rightarrow> string \<times> uint64" where
  "target_volume previous measured target =
     (case measured of
        Inr m \<Rightarrow> (''device:'' @ show_u64 (dvl_Device m), dvl_Device m)
      | Inl _ \<Rightarrow>
          (let known = by_root previous (tgt_Path target);
               key = (if known = '''' then ''root:'' @ tgt_Path target else known)
           in (key, cap_Device (by_key previous key))))"

definition goal_bytes :: "capacity_target \<Rightarrow> uint64" where
  "goal_bytes target = max (tgt_TargetFreeBytes target) (tgt_ReserveFreeBytes target)"

definition recovery_bytes :: "capacity_target \<Rightarrow> uint64" where
  "recovery_bytes target =
     (if tgt_RecoveryMarginBytes target = 0 then tgt_ReserveFreeBytes target
      else goal_bytes target + tgt_RecoveryMarginBytes target)"

definition unmeasured :: "string \<Rightarrow> capacity_state \<Rightarrow> capacity_state" where
  "unmeasured reason v = v\<lparr>cap_Reason := reason, cap_AvailableBytes := None, cap_TotalBytes := None\<rparr>"

definition measured_into :: "disk_volume \<Rightarrow> capacity_state \<Rightarrow> capacity_state" where
  "measured_into m v =
     (if cap_Reason v \<noteq> '''' then v
      else case cap_TotalBytes v of
        None \<Rightarrow> v\<lparr>cap_AvailableBytes := Some (dvl_FreeBytes m), cap_TotalBytes := Some (dvl_TotalBytes m)\<rparr>
      | Some size_before \<Rightarrow>
          if size_before \<noteq> dvl_TotalBytes m then unmeasured ''filesystem capacity changed during the sample'' v
          else v\<lparr>cap_AvailableBytes := map_option (min (dvl_FreeBytes m)) (cap_AvailableBytes v)\<rparr>)"

definition add_target :: "string + disk_volume \<Rightarrow> capacity_target \<Rightarrow> capacity_state \<Rightarrow> capacity_state" where
  "add_target measured target v =
     (let v1 = v\<lparr>cap_Roots := cap_Roots v @ [tgt_Path target],
            cap_TargetBytes := max (goal_bytes target) (cap_TargetBytes v),
            cap_ReserveBytes := max (tgt_ReserveFreeBytes target) (cap_ReserveBytes v),
            cap_RecoveryBytes := max (recovery_bytes target) (cap_RecoveryBytes v)\<rparr>
      in case measured of
           Inl e \<Rightarrow> unmeasured (''cannot measure '' @ tgt_Path target @ '': '' @ e) v1
         | Inr m \<Rightarrow> measured_into m v1)"

definition put_volume :: "string \<Rightarrow> uint64 \<Rightarrow> (capacity_state \<Rightarrow> capacity_state) \<Rightarrow> capacity_state list \<Rightarrow> capacity_state list" where
  "put_volume key device f volumes =
     (if key \<in> cap_Key ` set volumes then map (\<lambda>v. if cap_Key v = key then f v else v) volumes
      else volumes @ [f (zero_capacity\<lparr>cap_Key := key, cap_Device := device\<rparr>)])"

definition sample_target_into ::
    "disks \<Rightarrow> capacity_snapshot \<Rightarrow> capacity_state list \<Rightarrow> capacity_target \<Rightarrow> capacity_state list" where
  "sample_target_into d previous volumes target =
     (let measured = measureDisk d (tgt_Path target); (key, device) = target_volume previous measured target
      in put_volume key device (add_target measured target) volumes)"

definition fresh_snapshot ::
    "capacity_codec \<Rightarrow> disks \<Rightarrow> capacity_target list \<Rightarrow> duration \<Rightarrow> time \<Rightarrow> capacity_snapshot \<Rightarrow> capacity_snapshot" where
  "fresh_snapshot c d targets interval now previous =
     (let volumes = foldl (sample_target_into d previous) [] targets
      in \<lparr>snp_SampledAt = now, snp_ValidUntil = now + wrap64 (2 * interval),
          snp_PolicyHash = capacityPolicyHash c targets interval,
          snp_Volumes = sort_key cap_Key (map (\<lambda>v. AdvancePressure (v\<lparr>cap_Roots := sort (cap_Roots v)\<rparr>)
            (by_key previous (cap_Key v))) volumes)\<rparr>)"

text \<open>The transaction of a sample: the time moved back, the stored sample still holds, or a new one is taken.\<close>

definition sample_tx ::
    "capacity_codec \<Rightarrow> disks \<Rightarrow> capacity_target list \<Rightarrow> duration \<Rightarrow> time \<Rightarrow> bool \<Rightarrow> capacity_tables
       \<Rightarrow> string + (capacity_snapshot option \<times> capacity_tables)" where
  "sample_tx c d targets interval now force t =
     (case CapacitySnapshot c t of
        Inl e \<Rightarrow> Inl e
      | Inr stored \<Rightarrow>
          if now < snp_SampledAt stored
          then Inr (unknownCapacity c targets interval ''sampling time precedes the newest stored sample'', t)
          else if \<not> force \<and> snp_PolicyHash stored = capacityPolicyHash c targets interval
            \<and> now < snp_SampledAt stored + interval
          then Inr (Some stored, t)
          else let s = fresh_snapshot c d targets interval now (Expire stored now)
               in case SaveCapacitySnapshot c s t of Inl e \<Rightarrow> Inl e | Inr t' \<Rightarrow> Inr (Some s, t'))"

text \<open>\<open>begin_error\<close> and \<open>commit_error\<close> are the ends of the write transaction, whose effect is kept only with it.\<close>

definition sampleCapacity ::
    "capacity_codec \<Rightarrow> disks \<Rightarrow> string option \<Rightarrow> string option \<Rightarrow> capacity_target list \<Rightarrow> duration \<Rightarrow> time \<Rightarrow> bool
       \<Rightarrow> capacity_tables \<Rightarrow> (string + capacity_snapshot option) \<times> capacity_tables" where
  "sampleCapacity c d begin_error commit_error targets interval now force t =
     (if targets = [] then (Inr None, t)
      else case begin_error of
        Some e \<Rightarrow> (Inl e, t)
      | None \<Rightarrow>
          (case sample_tx c d targets interval now force t of
             Inl e \<Rightarrow> (Inl e, t)
           | Inr (s, t') \<Rightarrow> (case commit_error of Some e \<Rightarrow> (Inl e, t) | None \<Rightarrow> (Inr s, t'))))"

definition capacityRecovered :: "capacity_snapshot option \<Rightarrow> bool" where
  "capacityRecovered s =
     (case s of None \<Rightarrow> False
      | Some s \<Rightarrow> snp_Volumes s \<noteq> [] \<and> list_all (\<lambda>v. cap_State v = PressureRecovered) (snp_Volumes s))"

text \<open>A volume that recovery could not bring back is marked, so that its hold outlasts later samples.\<close>

definition mark_volume :: "string \<Rightarrow> capacity_state \<Rightarrow> capacity_state" where
  "mark_volume stopped v =
     (case cap_AvailableBytes v of
        None \<Rightarrow> v
      | Some a \<Rightarrow>
          if cap_RecoveryBytes v \<noteq> cap_ReserveBytes v \<and> cap_State v \<noteq> PressureRecovered
            \<and> cap_State v \<noteq> PressureUnknown \<and> a < cap_RecoveryBytes v
          then pressed v PressureNoSafeReclaim True
            (''bounded recovery stopped: '' @ stopped @ ''; inspect skipped owners and approval limits'')
          else v)"

definition mark_tx ::
    "capacity_codec \<Rightarrow> capacity_target list \<Rightarrow> duration \<Rightarrow> string \<Rightarrow> time \<Rightarrow> capacity_tables
       \<Rightarrow> string + (capacity_snapshot \<times> capacity_tables)" where
  "mark_tx c targets interval stopped now t =
     (case CapacitySnapshot c t of
        Inl e \<Rightarrow> Inl e
      | Inr latest \<Rightarrow>
          if snp_PolicyHash latest \<noteq> capacityPolicyHash c targets interval
          then Inl ''pressure policy changed during recovery''
          else let s = (Expire latest now)\<lparr>snp_Volumes := map (mark_volume stopped) (snp_Volumes (Expire latest now))\<rparr>
               in case SaveCapacitySnapshot c s t of Inl e \<Rightarrow> Inl e | Inr t' \<Rightarrow> Inr (s, t'))"

section \<open>Estimating what a deletion returns\<close>

record reclaim_estimate =
  rce_Bytes :: int
  rce_SharedInodes :: nat
  rce_ObservedEntries :: nat

type_synonym inode_key = "uint64 \<times> uint64"

record inode_use =
  inu_Blocks :: int64
  inu_Links :: uint64
  inu_Seen :: nat
  inu_Directory :: bool

record node_info =
  nod_Device :: uint64
  nod_Inode :: uint64
  nod_Blocks :: int64
  nod_Links :: uint64
  nod_IsDir :: bool

text \<open>A listing is its names, the error that ended the reading before the end, and the error of closing.\<close>

datatype dir_listing = OpenFails string | Listing "string list" "string option" "string option"

record tree_reader =
  trd_Lstat :: "string \<Rightarrow> string + node_info"
  trd_List :: "string \<Rightarrow> dir_listing"

definition inode_of :: "node_info \<Rightarrow> inode_key" where
  "inode_of i = (nod_Device i, nod_Inode i)"

definition use_inode :: "node_info \<Rightarrow> (inode_key \<times> inode_use) list \<Rightarrow> (inode_key \<times> inode_use) list" where
  "use_inode i seen =
     (let one = (if nod_IsDir i then 0 else 1)
      in if inode_of i \<in> fst ` set seen
         then map (\<lambda>(k, u). (k, if k = inode_of i then u\<lparr>inu_Seen := inu_Seen u + one\<rparr> else u)) seen
         else seen @ [(inode_of i, \<lparr>inu_Blocks = nod_Blocks i, inu_Links = nod_Links i, inu_Seen = one,
           inu_Directory = nod_IsDir i\<rparr>)])"

fun push_children :: "int \<Rightarrow> nat \<Rightarrow> string \<Rightarrow> string list \<Rightarrow> string option \<Rightarrow> string list \<Rightarrow> string + string list" where
  "push_children limit observed path [] err stack =
     (case err of None \<Rightarrow> Inr stack | Some e \<Rightarrow> Inl (''list '' @ path @ '': '' @ e))"
| "push_children limit observed path (n # ns) err stack =
     (let stack' = Join [path, n] # stack
      in if limit < int (length stack' + observed) then Inl (''estimate exceeds '' @ show_int limit @ '' entries'')
         else push_children limit observed path ns err stack')"

text \<open>The checks of one path, which is counted when they pass.\<close>

definition observe_path :: "tree_reader \<Rightarrow> int \<Rightarrow> entry \<Rightarrow> nat \<Rightarrow> string \<Rightarrow> string + node_info" where
  "observe_path R limit e observed path =
     (case trd_Lstat R path of
        Inl err \<Rightarrow> Inl (''estimate '' @ path @ '': '' @ err)
      | Inr i \<Rightarrow>
          if nod_Device i \<noteq> fs_Device (ent_FilesystemID e)
          then Inl (''estimate '' @ path @ '': mount boundary or unknown metadata'')
          else if path = ent_Path e \<and> (nod_Inode i \<noteq> fs_Inode (ent_FilesystemID e)
            \<or> nod_IsDir i \<noteq> (ent_Kind e = EntryKindDirectory))
          then Inl (''estimate '' @ path @ '': filesystem identity or kind changed'')
          else if limit < int (observed + 1) then Inl (''estimate exceeds '' @ show_int limit @ '' entries'')
          else Inr i)"

lemma observe_path_bound: "observe_path R limit e observed path = Inr i \<Longrightarrow> int observed < limit"
  by (auto simp: observe_path_def split: sum.splits if_splits)

function walk_tree ::
    "tree_reader \<Rightarrow> int \<Rightarrow> entry \<Rightarrow> string list \<Rightarrow> (inode_key \<times> inode_use) list \<Rightarrow> nat
       \<Rightarrow> string + ((inode_key \<times> inode_use) list \<times> nat)" where
  "walk_tree R limit e [] seen observed = Inr (seen, observed)"
| "walk_tree R limit e (path # stack) seen observed =
     (case observe_path R limit e observed path of
        Inl err \<Rightarrow> Inl err
      | Inr i \<Rightarrow>
          if \<not> nod_IsDir i then walk_tree R limit e stack (use_inode i seen) (observed + 1)
          else (case trd_List R path of
             OpenFails err \<Rightarrow> Inl (''open '' @ path @ '': '' @ err)
           | Listing names err close \<Rightarrow>
               (case push_children limit (observed + 1) path names err stack of
                  Inl err \<Rightarrow> Inl err
                | Inr stack' \<Rightarrow>
                    (case close of
                       Some err \<Rightarrow> Inl err
                     | None \<Rightarrow> walk_tree R limit e stack' (use_inode i seen) (observed + 1)))))"
  by pat_completeness auto
termination
  by (relation "measure (\<lambda>(R, limit, e, stack, seen, observed). nat (limit - int observed) + (if stack = [] then 0 else 1))")
    (auto dest!: observe_path_bound)

text \<open>A directory among the entries accounts for everything below it.\<close>

fun walk_entries ::
    "tree_reader \<Rightarrow> int \<Rightarrow> string \<Rightarrow> entry list \<Rightarrow> (inode_key \<times> inode_use) list \<Rightarrow> nat
       \<Rightarrow> string + ((inode_key \<times> inode_use) list \<times> nat)" where
  "walk_entries R limit ancestor [] seen observed = Inr (seen, observed)"
| "walk_entries R limit ancestor (e # es) seen observed =
     (if ancestor \<noteq> '''' \<and> PathWithin (ent_Path e) ancestor then walk_entries R limit ancestor es seen observed
      else case walk_tree R limit e [ent_Path e] seen observed of
        Inl err \<Rightarrow> Inl err
      | Inr (seen', observed') \<Rightarrow>
          walk_entries R limit (if ent_Kind e = EntryKindDirectory then ent_Path e else ancestor) es seen' observed')"

definition outside_links :: "inode_use \<Rightarrow> bool" where
  "outside_links u \<longleftrightarrow> \<not> inu_Directory u \<and> inu_Seen u < unat (inu_Links u)"

fun tally :: "(inode_key \<times> inode_use) list \<Rightarrow> int \<Rightarrow> nat \<Rightarrow> string + (int \<times> nat)" where
  "tally [] bytes shared = Inr (bytes, shared)"
| "tally ((k, u) # us) bytes shared =
     (if outside_links u then tally us bytes (shared + 1)
      else if sint (inu_Blocks u) < 0 \<or> (2 ^ 63 - 1 - bytes) div 512 < sint (inu_Blocks u)
      then Inl ''estimated blocks overflow''
      else tally us (bytes + sint (inu_Blocks u) * 512) shared)"

definition EstimateReclaim :: "tree_reader \<Rightarrow> entry list \<Rightarrow> int \<Rightarrow> string + reclaim_estimate" where
  "EstimateReclaim R entries limit =
     (if limit \<le> 0 then Inl ''estimate entry limit must be positive''
      else case walk_entries R limit '''' (sort_key ent_Path entries) [] 0 of
        Inl e \<Rightarrow> Inl e
      | Inr (seen, observed) \<Rightarrow>
          (case tally seen 0 0 of
             Inl e \<Rightarrow> Inl e
           | Inr (bytes, shared) \<Rightarrow>
               Inr \<lparr>rce_Bytes = bytes, rce_SharedInodes = shared, rce_ObservedEntries = observed\<rparr>))"

end
