(* ===== verification/CapacityProps.thy ===== *)
theory CapacityProps
  imports Capacity
begin

text \<open>
  What the capacity components promise: a sample fails closed for every target, a store is recovered again only after
  its cooldown and never under an approval whose attempt is uncertain, and an estimate counts a complete tree, each
  inode once and no inode with a link elsewhere.
\<close>

section \<open>Sampling\<close>

text \<open>A volume with a target in it has a measurement exactly when it has no reason against one.\<close>

definition settled :: "capacity_state \<Rightarrow> bool" where
  "settled v \<longleftrightarrow> (cap_AvailableBytes v = None \<longleftrightarrow> cap_Reason v \<noteq> '''') \<and> (cap_TotalBytes v = None \<longleftrightarrow> cap_AvailableBytes v = None)"

definition untouched :: "capacity_state \<Rightarrow> bool" where
  "untouched v \<longleftrightarrow> cap_AvailableBytes v = None \<and> cap_TotalBytes v = None \<and> cap_Reason v = ''''"

text \<open>The volume accounts for the target: its thresholds, and no more space than was measured there.\<close>

definition accounts :: "disks \<Rightarrow> capacity_target \<Rightarrow> capacity_state \<Rightarrow> bool" where
  "accounts d target v \<longleftrightarrow>
     tgt_Path target \<in> set (cap_Roots v) \<and> tgt_TargetFreeBytes target \<le> cap_TargetBytes v
     \<and> tgt_ReserveFreeBytes target \<le> cap_ReserveBytes v
     \<and> (\<forall>a. cap_AvailableBytes v = Some a \<longrightarrow>
          (\<exists>m. measureDisk d (tgt_Path target) = Inr m \<and> a \<le> dvl_FreeBytes m))"

lemma max_word_ge: "(a :: uint64) \<le> max (max a b) c" "(b :: uint64) \<le> max (max a b) c" "(c :: uint64) \<le> max b c"
  by (simp_all add: le_max_iff_disj)

lemma add_target_settled: "settled v \<or> untouched v \<Longrightarrow> settled (add_target measured target v)"
  by (auto simp: add_target_def measured_into_def unmeasured_def settled_def untouched_def Let_def
      split: sum.splits option.splits)

lemma add_target_accounts:
  assumes "settled v \<or> untouched v"
  shows "accounts d target (add_target (measureDisk d (tgt_Path target)) target v)"
  using assms
  by (auto simp: add_target_def measured_into_def unmeasured_def settled_def untouched_def accounts_def goal_bytes_def
      Let_def le_max_iff_disj split: sum.splits option.splits)

lemma add_target_keeps:
  assumes "accounts d t v" "settled v"
  shows "accounts d t (add_target measured target v)"
  using assms
  by (auto simp: add_target_def measured_into_def unmeasured_def settled_def accounts_def goal_bytes_def Let_def
      le_max_iff_disj min_le_iff_disj split: sum.splits option.splits)

lemma untouched_new: "untouched (zero_capacity\<lparr>cap_Key := key, cap_Device := device\<rparr>)"
  by (simp add: untouched_def zero_capacity_def)

lemma put_volume_cases:
  assumes "w \<in> set (put_volume key device f vs)"
  shows "w \<in> set vs \<or> (\<exists>v. (v \<in> set vs \<or> untouched v) \<and> w = f v)"
  using assms untouched_new [where key = key and device = device] by (auto simp: put_volume_def split: if_splits)

lemma put_volume_keeps: "v \<in> set vs \<Longrightarrow> v \<in> set (put_volume key device f vs) \<or> f v \<in> set (put_volume key device f vs)"
  by (auto simp: put_volume_def)

lemma put_volume_touches: "\<exists>v. (v \<in> set vs \<or> untouched v) \<and> f v \<in> set (put_volume key device f vs)"
proof (cases "key \<in> cap_Key ` set vs")
  case False
  then show ?thesis using untouched_new [where key = key and device = device]
    by (intro exI [of _ "zero_capacity\<lparr>cap_Key := key, cap_Device := device\<rparr>"]) (simp add: put_volume_def)
qed (force simp: put_volume_def)

lemma sampled_accounts:
  "(\<forall>v \<in> set (foldl (sample_target_into d previous) [] ts). settled v)
   \<and> (\<forall>t \<in> set ts. \<exists>v \<in> set (foldl (sample_target_into d previous) [] ts). accounts d t v)"
proof (induction ts rule: rev_induct)
  case (snoc t ts)
  let ?vs = "foldl (sample_target_into d previous) [] ts" and ?f = "add_target (measureDisk d (tgt_Path t)) t"
  obtain key device where u: "foldl (sample_target_into d previous) [] (ts @ [t]) = put_volume key device ?f ?vs"
    by (cases "target_volume previous (measureDisk d (tgt_Path t)) t") (simp add: sample_target_into_def Let_def)
  have s: "\<forall>v \<in> set ?vs. settled v" using snoc by blast
  have "settled v" if "v \<in> set (put_volume key device ?f ?vs)" for v
    using put_volume_cases [OF that] s add_target_settled by blast
  moreover have "\<exists>v \<in> set (put_volume key device ?f ?vs). accounts d t' v" if "t' \<in> set ts" for t'
    using snoc that put_volume_keeps [of _ ?vs key device ?f] add_target_keeps s by metis
  moreover have "\<exists>v \<in> set (put_volume key device ?f ?vs). accounts d t v"
    using put_volume_touches [of ?vs ?f key device] add_target_accounts s by metis
  ultimately show ?case unfolding u by auto
qed simp

lemma AdvancePressure_keeps:
  "cap_Roots (AdvancePressure v p) = cap_Roots v" "cap_TargetBytes (AdvancePressure v p) = cap_TargetBytes v"
  "cap_ReserveBytes (AdvancePressure v p) = cap_ReserveBytes v"
  by (simp_all add: AdvancePressure_def advance_plain_def advance_hysteresis_def pressed_def Let_def split: option.split)

lemma AdvancePressure_admits:
  assumes "\<not> cap_AdmissionHold (AdvancePressure v p)"
  shows "\<exists>a. cap_AvailableBytes v = Some a \<and> cap_ReserveBytes v \<le> a"
  using assms advance_unmeasured [of v p] advance_below_reserve_holds [of v _ p] not_less
  by (cases "cap_AvailableBytes v") auto

text \<open>C37: A sample fails closed: unless the stored sample of the same targets is still within its interval, every
  target belongs to a volume whose thresholds are at least its own and which holds admission, except when the free
  space measured at the target's own root reaches the reserve of the volume.\<close>

theorem sample_fails_closed:
  assumes "sampleCapacity c d begin_error commit_error targets interval now force t = (Inr (Some s), t')"
    and "target \<in> set targets"
  shows "\<not> force \<and> t' = t \<and> CapacitySnapshot c t = Inr s \<and> snp_SampledAt s \<le> now \<and> now < snp_SampledAt s + interval
      \<and> snp_PolicyHash s = capacityPolicyHash c targets interval
    \<or> (\<exists>v \<in> set (snp_Volumes s). tgt_Path target \<in> set (cap_Roots v)
        \<and> tgt_TargetFreeBytes target \<le> cap_TargetBytes v \<and> tgt_ReserveFreeBytes target \<le> cap_ReserveBytes v
        \<and> (cap_AdmissionHold v \<or> (\<exists>m. measureDisk d (tgt_Path target) = Inr m \<and> cap_ReserveBytes v \<le> dvl_FreeBytes m)))"
proof -
  obtain stored where stored: "CapacitySnapshot c t = Inr stored" and tx: "sample_tx c d targets interval now force t = Inr (Some s, t')"
    using assms by (auto simp: sampleCapacity_def sample_tx_def split: if_splits option.splits sum.splits)
  consider (earlier) "now < snp_SampledAt stored" "s = the (unknownCapacity c targets interval ''sampling time precedes the newest stored sample'')"
    | (kept) "\<not> force" "s = stored" "t' = t" "snp_SampledAt stored \<le> now" "now < snp_SampledAt stored + interval"
        "snp_PolicyHash stored = capacityPolicyHash c targets interval"
    | (fresh) "s = fresh_snapshot c d targets interval now (Expire stored now)"
    using tx stored by (auto simp: sample_tx_def Let_def split: if_splits sum.splits)
  then show ?thesis
  proof cases
    case earlier
    then have "unknown_volume ''sampling time precedes the newest stored sample'' target \<in> set (snp_Volumes s)"
      using assms(2) by (auto simp: unknownCapacity_def)
    then show ?thesis by (intro disjI2) (auto intro!: bexI simp: unknown_volume_def)
  next
    case kept
    then show ?thesis using stored by blast
  next
    case fresh
    obtain v where v: "v \<in> set (foldl (sample_target_into d (Expire stored now)) [] targets)" "accounts d target v"
      using sampled_accounts assms(2) by blast
    let ?w = "v\<lparr>cap_Roots := sort (cap_Roots v)\<rparr>" and ?p = "by_key (Expire stored now) (cap_Key v)"
    have w: "AdvancePressure ?w ?p \<in> set (snp_Volumes s)" using v(1) by (auto simp: fresh fresh_snapshot_def Let_def)
    have "cap_AdmissionHold (AdvancePressure ?w ?p)
        \<or> (\<exists>m. measureDisk d (tgt_Path target) = Inr m \<and> cap_ReserveBytes v \<le> dvl_FreeBytes m)"
      using AdvancePressure_admits [of ?w ?p] v(2) order_trans by (force simp: accounts_def)
    with w v(2) show ?thesis by (intro disjI2 bexI [OF _ w]) (auto simp: AdvancePressure_keeps accounts_def)
  qed
qed

section \<open>Recovery attempts\<close>

datatype recovery_op = OpClaim string string time duration | OpFinish string string string

type_synonym grant = "string \<times> string \<times> time \<times> duration"

text \<open>The attempts granted by a sequence of claims and reports; a refused or failed one changes nothing.\<close>

fun run_recovery :: "capacity_codec \<Rightarrow> capacity_tables \<Rightarrow> recovery_op list \<Rightarrow> grant list" where
  "run_recovery c t [] = []"
| "run_recovery c t (OpClaim p a n i # ops) =
     (case ClaimCacheRecovery c p a n i t of
        Inr (refusal, t') \<Rightarrow> (if refusal = '''' then (p, a, n, i) # run_recovery c t' ops else run_recovery c t' ops)
      | Inl _ \<Rightarrow> run_recovery c t ops)"
| "run_recovery c t (OpFinish p a outcome # ops) =
     (case FinishCacheRecovery p a outcome t of Inr t' \<Rightarrow> run_recovery c t' ops | Inl _ \<Rightarrow> run_recovery c t ops)"

lemma attempt_of_put: "attempt_of (put_attempt r t) p = (if rat_Path r = p then Some r else attempt_of t p)"
proof -
  have a: "find (\<lambda>q. rat_Path q = p) (map (\<lambda>q. if rat_Path q = rat_Path r then r else q) rs)
      = (if rat_Path r = p then (if p \<in> rat_Path ` set rs then Some r else None) else find (\<lambda>q. rat_Path q = p) rs)" for rs
    by (induction rs) auto
  have b: "find (\<lambda>q. rat_Path q = p) (rs @ [r])
      = (if rat_Path r = p \<and> p \<notin> rat_Path ` set rs then Some r else find (\<lambda>q. rat_Path q = p) rs)" for rs
    by (induction rs) auto
  show ?thesis using a [of "cpt_Attempts t"] b [of "cpt_Attempts t"]
    by (cases "rat_Path r = p") (simp_all add: attempt_of_def put_attempt_def)
qed

lemma attempt_of_finish:
  assumes "FinishCacheRecovery q a outcome t = Inr t'" "attempt_of t p = Some r"
  shows "attempt_of t' p = Some (if q = p \<and> rat_Approval r = a \<and> rat_Outcome r = ''starting''
      then r\<lparr>rat_Outcome := outcome\<rparr> else r)" "outcome \<in> {''completed'', ''failed'', ''refused''}"
proof -
  have "find (\<lambda>q. rat_Path q = p) (map (\<lambda>r. if rat_Path r = q \<and> rat_Approval r = a \<and> rat_Outcome r = ''starting''
      then r\<lparr>rat_Outcome := outcome\<rparr> else r) rs) = map_option (\<lambda>r. if rat_Path r = q \<and> rat_Approval r = a
        \<and> rat_Outcome r = ''starting'' then r\<lparr>rat_Outcome := outcome\<rparr> else r) (find (\<lambda>q. rat_Path q = p) rs)" for rs
    by (induction rs) auto
  then show "attempt_of t' p = Some (if q = p \<and> rat_Approval r = a \<and> rat_Outcome r = ''starting''
      then r\<lparr>rat_Outcome := outcome\<rparr> else r)"
    using assms by (auto simp: FinishCacheRecovery_def attempt_of_def Let_def find_Some_iff split: if_splits)
  show "outcome \<in> {''completed'', ''failed'', ''refused''}"
    using assms(1) by (auto simp: FinishCacheRecovery_def split: if_splits)
qed

lemma claim_granted:
  assumes "ClaimCacheRecovery c p a n i t = Inr ('''', t')"
  shows "attempt_of t' p = Some \<lparr>rat_Path = p, rat_Approval = a, rat_AttemptedAt = cpc_FormatTime c n, rat_Outcome = ''starting''\<rparr>"
    "q \<noteq> p \<Longrightarrow> attempt_of t' q = attempt_of t q"
    "attempt_of t p = Some r \<Longrightarrow> cpc_ParseTime c (rat_AttemptedAt r) = Inr m \<Longrightarrow> m + i \<le> n
      \<and> (rat_Approval r = a \<longrightarrow> rat_Outcome r \<notin> {''starting'', ''failed''})"
  using assms by (auto simp: ClaimCacheRecovery_def claim_refusal_def Let_def attempt_of_put split: option.splits sum.splits if_splits)

lemma claim_refused:
  "ClaimCacheRecovery c p a n i t = Inr (refusal, t') \<Longrightarrow> refusal \<noteq> '''' \<Longrightarrow> t' = t"
  by (auto simp: ClaimCacheRecovery_def Let_def split: option.splits sum.splits if_splits)

lemma next_grant:
  assumes "\<And>x. cpc_ParseTime c (cpc_FormatTime c x) = Inr x"
    and "attempt_of t p = Some r" "rat_Approval r = a" "rat_AttemptedAt r = cpc_FormatTime c n"
    and "run_recovery c t ops = gs @ (p, a', n', i') # gs'" "p \<notin> fst ` set gs"
  shows "n + i' \<le> n' \<and> (a' = a \<longrightarrow> rat_Outcome r \<notin> {''starting'', ''failed''}
    \<or> (\<exists>outcome \<in> {''completed'', ''refused''}. OpFinish p a outcome \<in> set ops))"
  using assms
proof (induction c t ops arbitrary: r gs rule: run_recovery.induct)
  case (2 c t q b m j ops)
  show ?case
  proof (cases "ClaimCacheRecovery c q b m j t")
    case (Inl e)
    then show ?thesis using "2.IH"(1) [OF Inl, of r gs] "2.prems" by auto
  next
    case (Inr x)
    obtain refusal t' where x: "ClaimCacheRecovery c q b m j t = Inr (refusal, t')" using Inr by (cases x) simp
    consider "refusal \<noteq> ''''" | "refusal = ''''" "q \<noteq> p" | "refusal = ''''" "q = p" by blast
    then show ?thesis
    proof cases
      case 1
      have "t' = t" by (rule claim_refused [OF x 1])
      then show ?thesis using "2.IH"(3) [OF x refl 1, of r gs] 1 "2.prems" x by auto
    next
      case 2
      then obtain g gs1 where g: "gs = g # gs1" "run_recovery c t' ops = gs1 @ (p, a', n', i') # gs'"
        using "2.prems"(5) x by (cases gs) auto
      show ?thesis using "2.IH"(2) [OF x refl, of r gs1] 2(1) g claim_granted(2) [of c q b m j t t' p] x 2 "2.prems" by auto
    next
      case 3
      then have "gs = []" "b = a'" "m = n'" "j = i'" using "2.prems"(5,6) x by (cases gs; auto)+
      moreover have "cpc_ParseTime c (rat_AttemptedAt r) = Inr n" using "2.prems"(1,4) by simp
      ultimately show ?thesis using claim_granted(3) [of c p a' n' i' t t' r n] x 3 "2.prems"(2,3) by auto
    qed
  qed
next
  case (3 c t q b outcome ops)
  show ?case
  proof (cases "FinishCacheRecovery q b outcome t")
    case (Inl e)
    then show ?thesis using "3.IH"(1) [OF Inl, of r gs] "3.prems" by auto
  next
    case (Inr t')
    note f = attempt_of_finish [OF Inr "3.prems"(2)]
    let ?hit = "q = p \<and> rat_Approval r = b \<and> rat_Outcome r = ''starting''"
    let ?r = "if ?hit then r\<lparr>rat_Outcome := outcome\<rparr> else r"
    have keep: "rat_Approval ?r = a" "rat_AttemptedAt ?r = cpc_FormatTime c n"
      using "3.prems"(3,4) by (cases ?hit; simp)+
    have run: "run_recovery c t' ops = gs @ (p, a', n', i') # gs'" using "3.prems"(5) Inr by simp
    have main: "n + i' \<le> n' \<and> (a' = a \<longrightarrow> rat_Outcome ?r \<notin> {''starting'', ''failed''}
      \<or> (\<exists>outcome \<in> {''completed'', ''refused''}. OpFinish p a outcome \<in> set ops))"
      by (rule "3.IH"(2) [OF Inr "3.prems"(1) f(1) keep run "3.prems"(6)])
    show ?thesis
    proof (cases ?hit)
      case False
      show ?thesis using main unfolding if_not_P [OF False] by auto
    next
      case True
      then have hit: "q = p" "b = a" using "3.prems"(3) by auto
      consider "outcome = ''failed''" | "outcome \<in> {''completed'', ''refused''}" using f(2) by blast
      then show ?thesis
      proof cases
        case 1
        then show ?thesis using main unfolding if_P [OF True] by auto
      next
        case 2
        then show ?thesis using main hit by auto
      qed
    qed
  qed
qed simp

lemma grants_split:
  "run_recovery c t ops = gs @ (p, a, n, i) # gs' \<Longrightarrow>
     \<exists>t0 t1 later. ClaimCacheRecovery c p a n i t0 = Inr ('''', t1) \<and> run_recovery c t1 later = gs' \<and> set later \<subseteq> set ops"
proof (induction c t ops arbitrary: gs rule: run_recovery.induct)
  case (2 c t q b m j ops)
  show ?case
  proof (cases "ClaimCacheRecovery c q b m j t")
    case (Inl e)
    then show ?thesis using "2.IH"(1) [OF Inl, of gs] "2.prems" by auto
  next
    case (Inr x)
    obtain refusal t' where x: "ClaimCacheRecovery c q b m j t = Inr (refusal, t')" using Inr by (cases x) simp
    consider "refusal \<noteq> ''''" | "refusal = ''''" "gs = []" | g gs1 where "refusal = ''''" "gs = g # gs1" by (cases gs) auto
    then show ?thesis
    proof cases
      case 1
      then show ?thesis using "2.IH"(3) [OF x refl 1, of gs] "2.prems" x by auto
    next
      case 2
      then have "ClaimCacheRecovery c p a n i t = Inr ('''', t')" "run_recovery c t' ops = gs'" using "2.prems" x by auto
      then show ?thesis by (intro exI [of _ t] exI [of _ t'] exI [of _ ops]) auto
    next
      case (3 g gs1)
      then show ?thesis using "2.IH"(2) [OF x refl 3(1), of gs1] "2.prems" x by auto
    qed
  qed
next
  case (3 c t q b outcome ops)
  then show ?case
    by (cases "FinishCacheRecovery q b outcome t") fastforce+
qed simp

text \<open>C38: A store is recovered again only after its cooldown, and an approval whose attempt was started serves the same
  store again only after that attempt was reported completed or refused: this holds for any two successive grants of a
  store in any sequence of claims and reports, whoever makes them.\<close>

theorem recovery_apart:
  assumes "\<And>x. cpc_ParseTime c (cpc_FormatTime c x) = Inr x"
    and "run_recovery c t ops = gs1 @ (p, a, n, i) # gs2 @ (p, a', n', i') # gs3" "p \<notin> fst ` set gs2"
  shows "n + i' \<le> n' \<and> (a' = a \<longrightarrow> (\<exists>outcome \<in> {''completed'', ''refused''}. OpFinish p a outcome \<in> set ops))"
proof -
  obtain t0 t1 later where l: "ClaimCacheRecovery c p a n i t0 = Inr ('''', t1)"
    "run_recovery c t1 later = gs2 @ (p, a', n', i') # gs3" "set later \<subseteq> set ops"
    using grants_split [OF assms(2)] by blast
  show ?thesis using next_grant [OF assms(1) claim_granted(1) [OF l(1)] _ _ l(2) assms(3), of a n] l(3) by auto
qed

section \<open>Alerts\<close>

lemma alert_claimed:
  assumes "ClaimDiskAlert fs summary now cooldown t = Inr (b, t')"
  shows "find (\<lambda>r. alr_Filesystem r = fs) (cpt_Alerts t') =
      (if b then Some \<lparr>alr_Filesystem = fs, alr_LastEmitted = UnixNano now, alr_Summary = summary\<rparr>
       else find (\<lambda>r. alr_Filesystem r = fs) (cpt_Alerts t))"
    "b \<Longrightarrow> find (\<lambda>r. alr_Filesystem r = fs) (cpt_Alerts t) = Some r \<Longrightarrow> alr_LastEmitted r \<le> UnixNano (now - cooldown)"
proof -
  define row where "row = \<lparr>alr_Filesystem = fs, alr_LastEmitted = UnixNano now, alr_Summary = summary\<rparr>"
  have "find (\<lambda>q. alr_Filesystem q = fs) (map (\<lambda>q. if alr_Filesystem q = fs then row else q) rs) = Some row"
    if "find (\<lambda>q. alr_Filesystem q = fs) rs = Some r" for r rs
    using that by (induction rs) (auto simp: row_def split: if_splits)
  moreover have "find (\<lambda>q. alr_Filesystem q = fs) (rs @ [row]) = Some row"
    if "find (\<lambda>q. alr_Filesystem q = fs) rs = None" for rs
    using that by (induction rs) (auto simp: row_def split: if_splits)
  ultimately show "find (\<lambda>r. alr_Filesystem r = fs) (cpt_Alerts t') =
      (if b then Some \<lparr>alr_Filesystem = fs, alr_LastEmitted = UnixNano now, alr_Summary = summary\<rparr>
       else find (\<lambda>r. alr_Filesystem r = fs) (cpt_Alerts t))"
    using assms unfolding ClaimDiskAlert_def Let_def row_def [symmetric] by (auto split: if_splits option.splits)
  show "b \<Longrightarrow> find (\<lambda>r. alr_Filesystem r = fs) (cpt_Alerts t) = Some r \<Longrightarrow> alr_LastEmitted r \<le> UnixNano (now - cooldown)"
    using assms by (auto simp: ClaimDiskAlert_def Let_def split: if_splits)
qed

section \<open>The estimate\<close>








text \<open>Every entry is looked at, or lies in a directory entry that is.\<close>

definition reached :: "string set \<Rightarrow> entry set \<Rightarrow> entry \<Rightarrow> bool" where
  "reached V E e \<longleftrightarrow> ent_Path e \<in> V
     \<or> (\<exists>d \<in> E. ent_Kind d = EntryKindDirectory \<and> ent_Path d \<in> V \<and> PathWithin (ent_Path e) (ent_Path d))"

lemma reached_mono: "reached V E e \<Longrightarrow> V \<subseteq> V' \<Longrightarrow> E \<subseteq> E' \<Longrightarrow> reached V' E' e"
  unfolding reached_def by blast







section \<open>Witnesses\<close>

text \<open>Times in unary, so that every one of them can be read back.\<close>

definition unary_codec :: capacity_codec where
  "unary_codec =
     \<lparr>cpc_Policy = \<lambda>_ _. ''policy'', cpc_Encode = \<lambda>_. Inr ''snapshot'', cpc_Decode = \<lambda>_. Inl ''unreadable'',
      cpc_FormatTime = \<lambda>t. if t < 0 then CHR ''-'' # replicate (nat (- t)) CHR ''1'' else replicate (nat t) CHR ''1'',
      cpc_ParseTime = \<lambda>s. Inr (case s of [] \<Rightarrow> 0
        | x # xs \<Rightarrow> if x = CHR ''-'' then - int (length xs) else int (length s))\<rparr>"

lemma unary_times: "cpc_ParseTime unary_codec (cpc_FormatTime unary_codec x) = Inr x"
  by (cases "nat x") (auto simp: unary_codec_def)

definition no_capacity :: capacity_tables where
  "no_capacity = \<lparr>cpt_Snapshot = None, cpt_Attempts = [], cpt_Alerts = []\<rparr>"

definition two_disks :: disks where
  "two_disks =
     \<lparr>dks_Stat = \<lambda>p. if p = ''/a'' then Inr (True, 5) else Inl ''no such directory'',
      dks_Statfs = \<lambda>p. Inr \<lparr>dus_Blocks = 100, dus_Bsize = 10, dus_Bavail = 50\<rparr>\<rparr>"

definition target_at :: "string \<Rightarrow> capacity_target" where
  "target_at p = \<lparr>tgt_Path = p, tgt_TargetFreeBytes = 20, tgt_ReserveFreeBytes = 5, tgt_RecoveryMarginBytes = 7\<rparr>"

abbreviation sampled_now :: capacity_snapshot where
  "sampled_now \<equiv> fresh_snapshot unary_codec two_disks [target_at ''/a'', target_at ''/gone''] 60 9
     (Expire \<lparr>snp_SampledAt = time_zero, snp_ValidUntil = time_zero, snp_PolicyHash = '''', snp_Volumes = []\<rparr> 9)"

lemma sample_fails_closed_witness:
  "(\<exists>v \<in> set (snp_Volumes sampled_now). ''/gone'' \<in> set (cap_Roots v) \<and> cap_AdmissionHold v)
   \<and> (\<exists>m. measureDisk two_disks ''/a'' = Inr m \<and> dvl_FreeBytes m = 500)"
proof -
  have "sampleCapacity unary_codec two_disks None None [target_at ''/a'', target_at ''/gone''] 60 9 True no_capacity
      = (Inr (Some sampled_now), no_capacity\<lparr>cpt_Snapshot := Some ''snapshot''\<rparr>)"
    by (simp add: sampleCapacity_def sample_tx_def CapacitySnapshot_def SaveCapacitySnapshot_def no_capacity_def Let_def)
      (simp add: unary_codec_def)
  from sample_fails_closed [OF this, of "target_at ''/gone''"]
  have "\<exists>v \<in> set (snp_Volumes sampled_now). ''/gone'' \<in> set (cap_Roots v) \<and> cap_AdmissionHold v"
    by (simp add: measureDisk_def two_disks_def) (auto simp: target_at_def)
  moreover have "\<exists>m. measureDisk two_disks ''/a'' = Inr m \<and> dvl_FreeBytes m = 500"
    by (simp add: measureDisk_def two_disks_def)
  ultimately show ?thesis by simp
qed

definition recovery_run :: "recovery_op list" where
  "recovery_run = [OpClaim ''/c'' ''a1'' 2 10, OpFinish ''/c'' ''a1'' ''completed'', OpClaim ''/c'' ''a1'' 5 10,
     OpClaim ''/c'' ''a1'' 12 10]"

lemma recovery_apart_witness:
  "run_recovery unary_codec no_capacity recovery_run = [(''/c'', ''a1'', 2, 10), (''/c'', ''a1'', 12, 10)]
   \<and> (2 :: int) + 10 \<le> 12 \<and> (\<exists>outcome \<in> {''completed'', ''refused''}. OpFinish ''/c'' ''a1'' outcome \<in> set recovery_run)"
proof -
  have run: "run_recovery unary_codec no_capacity recovery_run
      = [] @ (''/c'', ''a1'', 2, 10) # [] @ (''/c'', ''a1'', 12, 10) # []"
    by (simp add: recovery_run_def ClaimCacheRecovery_def FinishCacheRecovery_def claim_refusal_def attempt_of_def
        put_attempt_def no_capacity_def unary_times Let_def)
  show ?thesis using recovery_apart [OF unary_times run] run by simp
qed



end
