(* ===== verification/Spec2Isabelle.thy ===== *)
theory Spec2Isabelle
  imports CoreContract CoreEntry CorePlan CoreVerdict CoreCleanup CoreCapacity Sha256 SafetyProps CollectFacts RevalidateFacts PlanBuildProps StoreCleanupProps StoreRecordsProps ActionSample CliPlan ConfigProps JevProps CapacityProps
begin

text \<open>
  A verification development for \<open>workspace-janitor\<close> (command \<open>janitor\<close>): a Go program that inventories the
  directories of a developer machine, decides with deterministic rules and guards what may be cleaned up, moves what an
  operator approved into quarantine, and deletes it only after a retention period.

  \<^bold>\<open>How the program works.\<close>  A scan (\<open>internal/collect\<close>) observes every entry of the configured roots and records
  evidence, protections and a fingerprint.  The planner (\<open>internal/plan\<close>) classifies each entry, lets the rules of the
  policy (\<open>internal/config\<close>) propose actions, asks the safety engine (\<open>internal/safety\<close>) for a verdict, may ask a
  model (\<open>internal/jev\<close>) for advice that can only lower the risk, and builds a plan bound to the inventory by digests.
  The store (\<open>internal/store\<close>, SQLite) keeps scans, plans, approvals and the cleanup journal.  The action engine
  (\<open>internal/action\<close>) executes an approved action: it re-observes the object, asks the safety engine again, and
  keeps the journal, a manifest and a deletion marker in step with each move.  Capacity sampling decides when space is
  short.  \<open>internal/core\<close> holds the data all of these share.

  \<^bold>\<open>Which theory models what.\<close>
  \<^item> \<open>Prelude\<close>, \<open>GoPath\<close>, \<open>PathFacts\<close>, \<open>GoDuration\<close>, \<open>Sha256\<close>: what the source takes from the Go language and
    library (strings, \<open>path/filepath\<close>, durations, SHA-256), executable, with the lemmas the components share.
  \<^item> \<open>CoreContract\<close>, \<open>CoreEntry\<close>, \<open>CorePlan\<close>, \<open>CoreVerdict\<close>, \<open>CoreCleanup\<close>, \<open>CoreCapacity\<close>: \<open>internal/core\<close>.  The
    locale \<open>string_enum\<close> states what every string-backed enumeration promises its parser; each enumeration of the
    source interprets it.
  \<^item> \<open>Config\<close>, \<open>ConfigDoc\<close>, \<open>ConfigValidate\<close>, \<open>ConfigPolicy\<close>, \<open>ConfigLoad\<close>: \<open>internal/config\<close>, the policy document, its
    validation field by field, defaults, normalization and loading; facts in \<open>ConfigFacts\<close>, properties in
    \<open>ConfigProps\<close>.
  \<^item> \<open>SafetyEngine\<close>, \<open>SafetyRevalidate\<close>: \<open>internal/safety\<close>, the twelve guards, the engine, and the check against a
    fresh observation and an open handle.  The locale \<open>guard_engine\<close> of \<open>SafetyFacts\<close> is the contract between the
    engine and any list of guards, interpreted on the source's guards; \<open>SafetyProps\<close> and \<open>RevalidateFacts\<close> hold
    the properties.
  \<^item> \<open>Collect\<close>, \<open>CollectFacts\<close>: the parts of \<open>internal/collect\<close> that decide what an inventory means.
  \<^item> \<open>PlanClassify\<close>, \<open>PlanRules\<close>, \<open>PlanBuild\<close>, with facts and properties in \<open>PlanRulesFacts\<close>, \<open>PlanRulesProps\<close>,
    \<open>PlanBuildFacts\<close>, \<open>PlanBuildProps\<close>: \<open>internal/plan\<close>.
  \<^item> \<open>StoreCleanup\<close> (journal tables, triggers and transactions of \<open>store/cleanup.go\<close>) and \<open>StoreRecords\<close>
    (\<open>store/records.go\<close>, \<open>history.go\<close>), with their facts and properties.  The locale \<open>cleanup_journal\<close> is the contract
    the action engine relies on, interpreted on the SQL model.
  \<^item> \<open>ActionKernel\<close>, \<open>ActionFiles\<close>, \<open>ActionGit\<close>, \<open>ActionEngine\<close>: \<open>internal/action\<close>.  \<open>ActionKernelFacts\<close> states the
    laws of the system calls as the locale \<open>file_kernel\<close>, \<open>ActionFlat\<close> interprets it on a concrete file system,
    \<open>ActionFacts\<close> to \<open>ActionGuards\<close> are proved from it, \<open>ActionProps\<close> holds the properties, and \<open>ActionSample\<close> runs
    the engine on that file system.
  \<^item> \<open>Jev\<close>, \<open>JevProps\<close>: \<open>internal/jev\<close>.
  \<^item> \<open>Capacity\<close>, \<open>CapacityProps\<close>: \<open>cli/capacity.go\<close>, \<open>disk_linux.go\<close>, the capacity tables of the store, parts of
    \<open>cli/recovery.go\<close>, and \<open>action/estimate_linux.go\<close>.
  \<^item> \<open>CliPlan\<close>: the approvals of \<open>cli/plan.go\<close>.

  \<^bold>\<open>What is shown.\<close>  The safety engine and the revalidation allow a mutation exactly when every condition of the source
  holds.  A plan's actions follow from the rules, the verdicts and firm advice, do not depend on the order of the inventory, and
  a plan is accepted later exactly when inventory and policy are unchanged; loaded policies are ones the planner
  accepts, and keep the built-in protections.  Moving into quarantine is atomic and never overwrites; nothing moves or
  is deleted without a fresh check; deleting and restoring change no name outside the receipt; recovery only reads; the
  journal stays consistent over every session, with terminal states final.  Saved plans read back and are immutable,
  and trimming loses no audited record.  The model sees no path segment the policy hides, its answers are taken only when firm,
  and a run of failures stops.  Sampling fails closed, recovery respects its cooldown, an estimate counts complete
  trees.

  \<^bold>\<open>Conventions.\<close>  A Go string is a list of bytes; an \<open>int64\<close> or \<open>uint64\<close> is a \<open>64 word\<close>, where the width matters,
  and an instant is an \<open>int\<close> of nanoseconds, so that \<open>UTC()\<close> is the identity.  A nil slice is the empty list.  A
  string-backed enumeration has one more constructor (\<open>ActionOther\<close> and the like) for the strings it does not name.  A
  fallible function returns a sum, \<open>Inl\<close> its error; error texts of the action engine are abbreviated, those of the validation are
  kept as format and arguments.  Contexts and their cancellation are left out.  The clock, JSON and YAML codings, the texts of
  floats, SQLite's begin and commit, the answers of system calls, Git, \<open>url.Parse\<close>, \<open>net.ParseIP\<close>,
  \<open>time.ParseDuration\<close>, the environment, and the model's client and cache are parameters.

  \<^bold>\<open>Bounds.\<close>  The search for the nearest existing directory takes as fuel the length of its path, which
  \<open>nearest_loop_enough\<close> shows to be enough.  The walks over a quarantined tree take \<open>eng_Fuel\<close> nested calls and
  then answer \<open>StillRunning\<close>, which is neither success nor a recorded failure; every theorem about all outcomes covers
  it.  The walk of an estimate needs no fuel: each step counts against the limit of the source.

  \<^bold>\<open>What the laws of the file system leave out.\<close>  The theorems about names assume \<open>file_kernel\<close>: no other process
  renames the names concerned during a call, and no name is reached through a symbolic link or a second mount.  A call
  may fail at any point, so a stop after any step is an outcome like the others.

  \<^bold>\<open>Not modelled.\<close>  The collectors that read the machine (\<open>collect/filesystem.go\<close>, \<open>git.go\<close>, \<open>process.go\<close>,
  \<open>services.go\<close>, \<open>gitmoot.go\<close> and others): they parse the output of commands and foreign files, and enter as
  observations.  The archives (\<open>internal/exportarchive\<close>, \<open>internal/workspacearchive\<close>): tar and Git bundle formats.  The
  commands other than the approvals of \<open>plan\<close> (\<open>internal/cli\<close>), which drive the modelled operations, keep time, and render
  reports; of \<open>recovery.go\<close> only the marking of the sample.  The HTTP client and the usage accounting of
  \<open>internal/jev\<close>.  The remaining tables of the store, the opening and migration of the database, \<open>internal/output\<close>,
  \<open>internal/buildinfo\<close>, and the builds for other systems, which only refuse.
\<close>

end
